(* ===== verification/Prelude.thy ===== *)
theory Prelude
  imports Complex_Main "HOL-Library.Word" "HOL-Library.Char_ord" "HOL-Library.List_Lexorder"
    "HOL-Library.Sublist"
begin

text \<open>
  Shared vocabulary of the development: the machine integers of the server, the actions
  that model C++ member functions (explicit state passing, with a thrown exception as a
  value), a weakest precondition for them, the ordered string maps that stand for
  \<^verbatim>\<open>std::map<std::string, T>\<close>, and the parts of \<^verbatim>\<open>std::format\<close>, \<^verbatim>\<open>std::clamp\<close> and
  \<^verbatim>\<open>std::llround\<close> the sources use.
\<close>

unbundle bit_operations_syntax

type_synonym u8 = "8 word"
type_synonym u16 = "16 word"
type_synonym u32 = "32 word"
type_synonym i32 = "32 word"

named_theorems wp_simps \<open>weakest precondition equations of the action combinators\<close>
named_theorems act_defs \<open>definitions of the action combinators\<close>

section \<open>Actions: state passing with exceptions\<close>

text \<open>
  A member function that may throw is an action: it takes the state and returns the
  outcome and the state at that moment. \<open>Inl e\<close> is a thrown \<^verbatim>\<open>std::exception\<close> whose
  \<^verbatim>\<open>what()\<close> is \<open>e\<close>; the state it leaves behind is kept, because the code keeps it too.
\<close>

type_synonym exn = string
type_synonym ('s, 'a) act = "'s \<Rightarrow> (exn + 'a) \<times> 's"

definition ret :: "'a \<Rightarrow> ('s, 'a) act" where
  "ret x = (\<lambda>s. (Inr x, s))"

definition throwA :: "exn \<Rightarrow> ('s, 'a) act" where
  "throwA e = (\<lambda>s. (Inl e, s))"

definition bindA :: "('s, 'a) act \<Rightarrow> ('a \<Rightarrow> ('s, 'b) act) \<Rightarrow> ('s, 'b) act" where
  "bindA m f = (\<lambda>s. case m s of (Inl e, s') \<Rightarrow> (Inl e, s') | (Inr x, s') \<Rightarrow> f x s')"

definition thenA :: "('s, unit) act \<Rightarrow> ('s, 'b) act \<Rightarrow> ('s, 'b) act" where
  "thenA m k = bindA m (\<lambda>_. k)"

definition getA :: "('s \<Rightarrow> 'a) \<Rightarrow> ('s, 'a) act" where
  "getA g = (\<lambda>s. (Inr (g s), s))"

definition modifyA :: "('s \<Rightarrow> 's) \<Rightarrow> ('s, unit) act" where
  "modifyA f = (\<lambda>s. (Inr (), f s))"

definition whenA :: "bool \<Rightarrow> ('s, unit) act \<Rightarrow> ('s, unit) act" where
  "whenA c m = (if c then m else ret ())"

text \<open>\<^verbatim>\<open>try { m } catch (const std::exception& e) { h(e) }\<close>\<close>

definition catchA :: "('s, 'a) act \<Rightarrow> (exn \<Rightarrow> ('s, 'a) act) \<Rightarrow> ('s, 'a) act" where
  "catchA m h = (\<lambda>s. case m s of (Inl e, s') \<Rightarrow> h e s' | (Inr x, s') \<Rightarrow> (Inr x, s'))"

text \<open>A result ignored or mapped, and a computation without state.\<close>

definition ignoreA :: "('s, 'a) act \<Rightarrow> ('s, unit) act" where
  "ignoreA m = bindA m (\<lambda>_. ret ())"

definition mapA :: "('a \<Rightarrow> 'b) \<Rightarrow> ('s, 'a) act \<Rightarrow> ('s, 'b) act" where
  "mapA f act = bindA act (\<lambda>x. ret (f x))"

definition liftE :: "exn + 'a \<Rightarrow> ('s, 'a) act" where
  "liftE r = (case r of Inl e \<Rightarrow> throwA e | Inr x \<Rightarrow> ret x)"

text \<open>A block of statements, and a range-based \<^verbatim>\<open>for\<close>: both stop at the first exception.\<close>

fun seqA :: "('s, unit) act list \<Rightarrow> ('s, unit) act" where
  "seqA [] = ret ()"
| "seqA (m # ms) = thenA m (seqA ms)"

fun forA :: "'x list \<Rightarrow> ('x \<Rightarrow> ('s, unit) act) \<Rightarrow> ('s, unit) act" where
  "forA [] f = ret ()"
| "forA (x # xs) f = thenA (f x) (forA xs f)"

text \<open>Running an action on a part of a larger state.\<close>

definition zoomA :: "('s \<Rightarrow> 't) \<Rightarrow> ('t \<Rightarrow> 's \<Rightarrow> 's) \<Rightarrow> ('t, 'a) act \<Rightarrow> ('s, 'a) act" where
  "zoomA g p m = (\<lambda>s. case m (g s) of (r, t) \<Rightarrow> (r, p t s))"

declare ret_def [act_defs] throwA_def [act_defs] bindA_def [act_defs] thenA_def [act_defs]
  getA_def [act_defs] modifyA_def [act_defs] whenA_def [act_defs] catchA_def [act_defs]
  zoomA_def [act_defs]

lemma ret_app [simp]: "ret x s = (Inr x, s)"
  by (simp add: ret_def)

lemma throwA_app [simp]: "throwA e s = (Inl e, s)"
  by (simp add: throwA_def)

lemma getA_app [simp]: "getA g s = (Inr (g s), s)"
  by (simp add: getA_def)

lemma modifyA_app [simp]: "modifyA f s = (Inr (), f s)"
  by (simp add: modifyA_def)

lemma whenA_True [simp]: "whenA True m = m"
  and whenA_False [simp]: "whenA False m = ret ()"
  by (simp_all add: whenA_def)

lemma bindA_Inr [simp]: "m s = (Inr x, s') \<Longrightarrow> bindA m f s = f x s'"
  and bindA_Inl [simp]: "m s = (Inl e, s') \<Longrightarrow> bindA m f s = (Inl e, s')"
  by (simp_all add: bindA_def)

lemma thenA_Inr [simp]: "m s = (Inr x, s') \<Longrightarrow> thenA m k s = k s'"
  and thenA_Inl [simp]: "m s = (Inl e, s') \<Longrightarrow> thenA m k s = (Inl e, s')"
  by (simp_all add: thenA_def)

lemma catchA_Inr [simp]: "m s = (Inr x, s') \<Longrightarrow> catchA m h s = (Inr x, s')"
  and catchA_Inl [simp]: "m s = (Inl e, s') \<Longrightarrow> catchA m h s = h e s'"
  by (simp_all add: catchA_def)

lemma bindA_ret [simp]: "bindA (ret x) f = f x"
  by (simp add: bindA_def fun_eq_iff)

lemma thenA_ret [simp]: "thenA (ret x) k = k"
  by (simp add: thenA_def)

lemma bindA_assoc: "bindA (bindA m f) g = bindA m (\<lambda>x. bindA (f x) g)"
  by (simp add: bindA_def fun_eq_iff split: prod.split sum.split)

text \<open>Results without state.\<close>

definition bindE :: "'e + 'a \<Rightarrow> ('a \<Rightarrow> 'e + 'b) \<Rightarrow> 'e + 'b" where
  "bindE x f = (case x of Inl e \<Rightarrow> Inl e | Inr v \<Rightarrow> f v)"

lemma bindE_Inr [simp]: "bindE (Inr v) f = f v"
  and bindE_Inl [simp]: "bindE (Inl e) f = Inl e"
  by (simp_all add: bindE_def)

lemma bindE_eq_Inr: "bindE x f = Inr y \<longleftrightarrow> (\<exists>v. x = Inr v \<and> f v = Inr y)"
  by (cases x) simp_all

section \<open>Weakest preconditions\<close>

text \<open>
  \<open>wp m Q R s\<close>: running \<open>m\<close> from \<open>s\<close> ends in \<open>Q\<close> when it returns and in \<open>R\<close> when it
  throws. Actions are total functions, so this is total correctness.
\<close>

definition wp :: "('s, 'a) act \<Rightarrow> ('a \<Rightarrow> 's \<Rightarrow> bool) \<Rightarrow> (exn \<Rightarrow> 's \<Rightarrow> bool) \<Rightarrow> 's \<Rightarrow> bool" where
  "wp m Q R s = (case m s of (Inl e, s') \<Rightarrow> R e s' | (Inr x, s') \<Rightarrow> Q x s')"

lemma wp_ret [wp_simps]: "wp (ret x) Q R s = Q x s"
  by (simp add: wp_def)

lemma wp_Pair [wp_simps]: "wp (Pair (Inr x)) Q R s = Q x s"
  by (simp add: wp_def)

lemma wp_throw [wp_simps]: "wp (throwA e) Q R s = R e s"
  by (simp add: wp_def)

lemma wp_get [wp_simps]: "wp (getA g) Q R s = Q (g s) s"
  by (simp add: wp_def)

lemma wp_modify [wp_simps]: "wp (modifyA f) Q R s = Q () (f s)"
  by (simp add: wp_def)

lemma wp_bind [wp_simps]: "wp (bindA m f) Q R s = wp m (\<lambda>x. wp (f x) Q R) R s"
  by (simp add: wp_def bindA_def split: prod.split sum.split)

lemma wp_then [wp_simps]: "wp (thenA m k) Q R s = wp m (\<lambda>_. wp k Q R) R s"
  by (simp add: thenA_def wp_bind)

lemma wp_when [wp_simps]: "wp (whenA c m) Q R s = (if c then wp m Q R s else Q () s)"
  by (simp add: whenA_def wp_ret)

lemma wp_catch [wp_simps]: "wp (catchA m h) Q R s = wp m Q (\<lambda>e. wp (h e) Q R) s"
  by (simp add: wp_def catchA_def split: prod.split sum.split)

lemma wp_seq_Nil [wp_simps]: "wp (seqA []) Q R s = Q () s"
  by (simp add: wp_ret)

lemma wp_seq_Cons [wp_simps]: "wp (seqA (m # ms)) Q R s = wp m (\<lambda>_. wp (seqA ms) Q R) R s"
  by (simp add: wp_then)

lemma wp_zoom [wp_simps]:
  "wp (zoomA g p m) Q R s = wp m (\<lambda>x t. Q x (p t s)) (\<lambda>e t. R e (p t s)) (g s)"
  by (simp add: wp_def zoomA_def split: prod.split sum.split)

lemma wp_mono:
  "wp m Q R s \<Longrightarrow> (\<And>x s'. Q x s' \<Longrightarrow> Q' x s') \<Longrightarrow> (\<And>e s'. R e s' \<Longrightarrow> R' e s') \<Longrightarrow> wp m Q' R' s"
  by (auto simp: wp_def split: prod.splits sum.splits)

lemma wp_conj: "wp m (\<lambda>x s. Q x s \<and> Q' x s) (\<lambda>e s. R e s \<and> R' e s) s = (wp m Q R s \<and> wp m Q' R' s)"
  by (auto simp: wp_def split: prod.splits sum.splits)

lemma wp_Inr: "wp m Q R s \<Longrightarrow> m s = (Inr x, s') \<Longrightarrow> Q x s'"
  by (simp add: wp_def)

lemma wp_Inl: "wp m Q R s \<Longrightarrow> m s = (Inl e, s') \<Longrightarrow> R e s'"
  by (simp add: wp_def)

text \<open>An invariant that an action keeps whether it returns or throws.\<close>

definition preserves :: "('s \<Rightarrow> bool) \<Rightarrow> ('s, 'a) act \<Rightarrow> bool" where
  "preserves I m = (\<forall>s. I s \<longrightarrow> I (snd (m s)))"

lemma wp_preserved: "wp m (\<lambda>_. I) (\<lambda>_. I) s = I (snd (m s))"
  by (simp add: wp_def split: prod.split sum.split)

lemma preservesI: "(\<And>s. I s \<Longrightarrow> wp m (\<lambda>_. I) (\<lambda>_. I) s) \<Longrightarrow> preserves I m"
  by (simp add: preserves_def wp_preserved)

lemma preserves_wp: "preserves I m \<Longrightarrow> I s \<Longrightarrow> wp m (\<lambda>_. I) (\<lambda>_. I) s"
  by (simp add: preserves_def wp_preserved)

lemma preservesD: "preserves I m \<Longrightarrow> I s \<Longrightarrow> I (snd (m s))"
  by (simp add: preserves_def)

lemma preserves_ret [intro!]: "preserves I (ret x)"
  by (simp add: preserves_def)

lemma preserves_throw [intro!]: "preserves I (throwA e)"
  by (simp add: preserves_def)

lemma preserves_get [intro!]: "preserves I (getA g)"
  by (simp add: preserves_def)

lemma preserves_modify [intro]: "(\<And>s. I s \<Longrightarrow> I (f s)) \<Longrightarrow> preserves I (modifyA f)"
  by (simp add: preserves_def)

lemma preserves_bind [intro]:
  "preserves I m \<Longrightarrow> (\<And>x. preserves I (f x)) \<Longrightarrow> preserves I (bindA m f)"
  by (rule preservesI) (simp add: wp_bind, erule (1) preserves_wp [THEN wp_mono], auto intro: preserves_wp)

lemma preserves_then [intro]: "preserves I m \<Longrightarrow> preserves I k \<Longrightarrow> preserves I (thenA m k)"
  by (simp add: thenA_def preserves_bind)

lemma preserves_when [intro]: "(c \<Longrightarrow> preserves I m) \<Longrightarrow> preserves I (whenA c m)"
  by (cases c) auto

lemma preserves_catch [intro]:
  "preserves I m \<Longrightarrow> (\<And>e. preserves I (h e)) \<Longrightarrow> preserves I (catchA m h)"
  by (rule preservesI) (simp add: wp_catch, erule (1) preserves_wp [THEN wp_mono], auto intro: preserves_wp)

lemma preserves_seq [intro]: "(\<And>m. m \<in> set ms \<Longrightarrow> preserves I m) \<Longrightarrow> preserves I (seqA ms)"
  by (induction ms) auto

lemma preserves_for [intro]: "(\<And>x. x \<in> set xs \<Longrightarrow> preserves I (f x)) \<Longrightarrow> preserves I (forA xs f)"
  by (induction xs) auto

lemma preserves_zoom:
  "(\<And>t s. I s \<Longrightarrow> I (p t s)) \<Longrightarrow> preserves I (zoomA g p m)"
  by (auto simp: preserves_def zoomA_def split: prod.split)

lemma preserves_zoom_part:
  assumes "preserves J m" and "\<And>s. I s \<Longrightarrow> J (g s)" and "\<And>t s. J t \<Longrightarrow> I s \<Longrightarrow> I (p t s)"
  shows "preserves I (zoomA g p m)"
  using assms by (auto simp: preserves_def zoomA_def split: prod.split) (metis snd_conv)

lemma preserves_getbind [intro]:
  "(\<And>s. I s \<Longrightarrow> preserves I (f (g s))) \<Longrightarrow> preserves I (bindA (getA g) f)"
  by (auto simp: preserves_def bindA_def)

lemma preserves_if: "preserves I a \<Longrightarrow> preserves I b \<Longrightarrow> preserves I (if c then a else b)"
  by simp

lemma preserves_ignore: "preserves I m \<Longrightarrow> preserves I (ignoreA m)"
  by (simp add: ignoreA_def preserves_bind preserves_ret)

lemma preserves_lift: "preserves I (liftE r)"
  by (cases r) (simp_all add: liftE_def preserves_ret preserves_throw)

section \<open>Ordered string maps\<close>

text \<open>
  \<^verbatim>\<open>std::map<std::string, T>\<close> as its entries in key order: \<open>smap_put\<close> is the assignment
  \<^verbatim>\<open>m[k] = v\<close>, \<open>map_of\<close> the lookup, and a range-based \<^verbatim>\<open>for\<close> walks the list.
\<close>

type_synonym 'v smap = "(string \<times> 'v) list"

fun smap_put :: "string \<Rightarrow> 'v \<Rightarrow> 'v smap \<Rightarrow> 'v smap" where
  "smap_put k v [] = [(k, v)]"
| "smap_put k v ((k', v') # m) =
     (if k = k' then (k, v) # m else if k < k' then (k, v) # (k', v') # m
      else (k', v') # smap_put k v m)"

definition smap_ok :: "'v smap \<Rightarrow> bool" where
  "smap_ok m = sorted_wrt (<) (map fst m)"

locale string_map =
  fixes empty :: 'm
    and put :: "string \<Rightarrow> 'v \<Rightarrow> 'm \<Rightarrow> 'm"
    and find :: "'m \<Rightarrow> string \<Rightarrow> 'v option"
    and keys :: "'m \<Rightarrow> string list"
    and ok :: "'m \<Rightarrow> bool"
  assumes find_empty: "find empty k = None"
    and find_put: "find (put k v m) k' = (if k' = k then Some v else find m k')"
    and ok_empty: "ok empty"
    and ok_put: "ok m \<Longrightarrow> ok (put k v m)"
    and keys_find: "ok m \<Longrightarrow> set (keys m) = {k. find m k \<noteq> None}"
    and keys_sorted: "ok m \<Longrightarrow> sorted_wrt (<) (keys m)"
begin

lemma find_put_same [simp]: "find (put k v m) k = Some v"
  by (simp add: find_put)

lemma find_put_other: "k' \<noteq> k \<Longrightarrow> find (put k v m) k' = find m k'"
  by (simp add: find_put)

lemma keys_put: "ok m \<Longrightarrow> set (keys (put k v m)) = insert k (set (keys m))"
  by (auto simp: keys_find ok_put find_put split: if_splits)

lemma keys_distinct: "ok m \<Longrightarrow> distinct (keys m)"
  using keys_sorted [of m] by (auto simp: sorted_wrt_iff_nth_less distinct_conv_nth)
    (metis linorder_neqE_nat order_less_irrefl)

lemma put_keys_unchanged: "ok m \<Longrightarrow> find m k \<noteq> None \<Longrightarrow> set (keys (put k v m)) = set (keys m)"
  by (auto simp: keys_put keys_find)

end

lemma map_of_smap_put: "map_of (smap_put k v m) k' = (if k' = k then Some v else map_of m k')"
  by (induction k v m rule: smap_put.induct) auto

lemma fst_smap_put: "set (map fst (smap_put k v m)) = insert k (set (map fst m))"
  by (induction k v m rule: smap_put.induct) auto

lemma smap_ok_put: "smap_ok m \<Longrightarrow> smap_ok (smap_put k v m)"
proof (induction k v m rule: smap_put.induct)
  case (2 k v k' v' m)
  then show ?case
    using fst_smap_put [of k v m] by (force simp: smap_ok_def)
qed (simp add: smap_ok_def)

interpretation smap: string_map "[]" smap_put map_of "map fst" smap_ok
  by unfold_locales
    (auto simp: map_of_smap_put smap_ok_put [unfolded smap_ok_def] map_of_eq_None_iff smap_ok_def)

declare map_of_smap_put [simp]

section \<open>Numbers\<close>

text \<open>\<^verbatim>\<open>std::clamp(v, -1.0, 1.0)\<close>, \<^verbatim>\<open>std::llround\<close> (halves away from zero).\<close>

definition clampUnit :: "real \<Rightarrow> real" where
  "clampUnit v = (if v < -1 then -1 else if 1 < v then 1 else v)"

definition llround :: "real \<Rightarrow> int" where
  "llround x = (if 0 \<le> x then \<lfloor>x + 1 / 2\<rfloor> else - \<lfloor>- x + 1 / 2\<rfloor>)"

lemma clampUnit_range: "- 1 \<le> clampUnit v \<and> clampUnit v \<le> 1"
  by (simp add: clampUnit_def)

lemma clampUnit_abs: "\<bar>clampUnit v\<bar> \<le> 1"
  by (simp add: clampUnit_def abs_if)

lemma clampUnit_id: "- 1 \<le> v \<Longrightarrow> v \<le> 1 \<Longrightarrow> clampUnit v = v"
  by (simp add: clampUnit_def)

lemma llround_mono: "0 \<le> x \<Longrightarrow> x \<le> y \<Longrightarrow> llround x \<le> llround y"
  by (simp add: llround_def floor_mono)

lemma llround_nonneg: "0 \<le> x \<Longrightarrow> 0 \<le> llround x"
  by (simp add: llround_def)

lemma llround_err: "\<bar>of_int (llround x) - x\<bar> \<le> 1 / 2"
proof (cases "0 \<le> x")
  case True
  then show ?thesis
    unfolding llround_def using of_int_floor_le [of "x + 1 / 2"] real_of_int_floor_add_one_gt [of "x + 1 / 2"]
    by (simp only: abs_le_iff if_True) linarith
next
  case False
  then show ?thesis
    unfolding llround_def using of_int_floor_le [of "- x + 1 / 2"] real_of_int_floor_add_one_gt [of "- x + 1 / 2"]
    by (simp only: abs_le_iff if_False) linarith
qed

text \<open>\<^verbatim>\<open>duration_cast<milliseconds>\<close> of a nanosecond count: truncation towards zero.\<close>

definition msOfNs :: "int \<Rightarrow> int" where
  "msOfNs d = sgn d * (\<bar>d\<bar> div 1000000)"

lemma msOfNs_nonneg: "0 \<le> d \<Longrightarrow> msOfNs d = d div 1000000"
  by (cases "d = 0") (simp_all add: msOfNs_def)

section \<open>Text\<close>

fun decNat :: "nat \<Rightarrow> string" where
  "decNat n = (if n < 10 then [char_of (48 + n)] else decNat (n div 10) @ [char_of (48 + n mod 10)])"

declare decNat.simps [simp del]

definition dec :: "int \<Rightarrow> string" where
  "dec i = (if i < 0 then ''-'' @ decNat (nat (- i)) else decNat (nat i))"

definition hexDigit :: "nat \<Rightarrow> char" where
  "hexDigit d = (if d < 10 then char_of (48 + d) else char_of (55 + d))"

definition hex2 :: "u8 \<Rightarrow> string" where
  "hex2 w = (let n = unat w in map hexDigit [n div 16, n mod 16])"

definition hex4 :: "u16 \<Rightarrow> string" where
  "hex4 w = (let n = unat w in map hexDigit [n div 4096, n div 256 mod 16, n div 16 mod 16, n mod 16])"

text \<open>Comma-separated list, as the loops that build such messages do.\<close>

fun joinWith :: "string \<Rightarrow> string list \<Rightarrow> string" where
  "joinWith sep [] = []"
| "joinWith sep [x] = x"
| "joinWith sep (x # y # xs) = x @ sep @ joinWith sep (y # xs)"

end
