(* ===== verification/Domain.thy ===== *)
theory Domain
  imports Prelude
begin

text \<open>
  The shared data of \<^verbatim>\<open>Utilities/include/CommonDefinitions.hpp\<close>: the enumerations and the
  status records the server publishes, and the names \<^verbatim>\<open>magic_enum\<close> gives the enumerators,
  which are the wire and configuration format (\<^verbatim>\<open>enumToString\<close>, \<^verbatim>\<open>stringToEnum\<close> of
  \<^verbatim>\<open>JsonExtensions.hpp\<close>). A \<^verbatim>\<open>std::map\<close> keyed by an enumeration is a partial function; it is
  iterated in enumerator order with \<open>mapKeys\<close>. A \<^verbatim>\<open>double\<close> is a real number.
\<close>

section \<open>Enumerations\<close>

datatype EMotor = XLeft | XRight | YLeft | YRight | ZLeft | ZRight
datatype ELEDState = On | Off | Warning | Error | ErrorBlinking
datatype EMotorStatusFlags = BrakeApplied | Enabled | Error | Warning | Alarm
datatype EArm = Left | Right | Gantry
datatype EToolChangerStatusFlags = ProxSen | OpenSen | ClosedSen | OpenValve | ClosedValve
datatype EToolChangerAction = Open | Close
datatype ERobotComponent = Contec | MotorControl | ControlPanel
datatype EAxisState = Locked | Slow | Fast
datatype EInputSignal = safetyON | button1 | button2 | tclProx | tclOpen | tclClose
  | tcrProx | tcrOpen | tcrClose
datatype EOutputSignal = toolChangerLeft | toolChangerRight | light1 | light2

definition allMotors :: "EMotor list" where
  "allMotors = [XLeft, XRight, YLeft, YRight, ZLeft, ZRight]"
definition allLeds :: "ELEDState list" where
  "allLeds = [On, Off, ELEDState.Warning, ELEDState.Error, ErrorBlinking]"
definition allMotorFlags :: "EMotorStatusFlags list" where
  "allMotorFlags = [BrakeApplied, Enabled, EMotorStatusFlags.Error, EMotorStatusFlags.Warning, Alarm]"
definition allArms :: "EArm list" where
  "allArms = [Left, Right, Gantry]"
definition allToolFlags :: "EToolChangerStatusFlags list" where
  "allToolFlags = [ProxSen, OpenSen, ClosedSen, OpenValve, ClosedValve]"
definition allToolActions :: "EToolChangerAction list" where
  "allToolActions = [Open, Close]"
definition allComponents :: "ERobotComponent list" where
  "allComponents = [Contec, MotorControl, ControlPanel]"
definition allAxisStates :: "EAxisState list" where
  "allAxisStates = [Locked, Slow, Fast]"
definition allInputSignals :: "EInputSignal list" where
  "allInputSignals = [safetyON, button1, button2, tclProx, tclOpen, tclClose, tcrProx, tcrOpen, tcrClose]"
definition allOutputSignals :: "EOutputSignal list" where
  "allOutputSignals = [toolChangerLeft, toolChangerRight, light1, light2]"

lemmas enum_values = allMotors_def allLeds_def allMotorFlags_def allArms_def allToolFlags_def
  allToolActions_def allComponents_def allAxisStates_def allInputSignals_def allOutputSignals_def

fun motorName :: "EMotor \<Rightarrow> string" where
  "motorName XLeft = ''XLeft''" | "motorName XRight = ''XRight''"
| "motorName YLeft = ''YLeft''" | "motorName YRight = ''YRight''"
| "motorName ZLeft = ''ZLeft''" | "motorName ZRight = ''ZRight''"

fun ledName :: "ELEDState \<Rightarrow> string" where
  "ledName On = ''On''" | "ledName Off = ''Off''" | "ledName ELEDState.Warning = ''Warning''"
| "ledName ELEDState.Error = ''Error''" | "ledName ErrorBlinking = ''ErrorBlinking''"

fun motorFlagName :: "EMotorStatusFlags \<Rightarrow> string" where
  "motorFlagName BrakeApplied = ''BrakeApplied''" | "motorFlagName Enabled = ''Enabled''"
| "motorFlagName EMotorStatusFlags.Error = ''Error''"
| "motorFlagName EMotorStatusFlags.Warning = ''Warning''" | "motorFlagName Alarm = ''Alarm''"

fun armName :: "EArm \<Rightarrow> string" where
  "armName Left = ''Left''" | "armName Right = ''Right''" | "armName Gantry = ''Gantry''"

fun toolFlagName :: "EToolChangerStatusFlags \<Rightarrow> string" where
  "toolFlagName ProxSen = ''ProxSen''" | "toolFlagName OpenSen = ''OpenSen''"
| "toolFlagName ClosedSen = ''ClosedSen''" | "toolFlagName OpenValve = ''OpenValve''"
| "toolFlagName ClosedValve = ''ClosedValve''"

fun toolActionName :: "EToolChangerAction \<Rightarrow> string" where
  "toolActionName Open = ''Open''" | "toolActionName Close = ''Close''"

fun componentName :: "ERobotComponent \<Rightarrow> string" where
  "componentName Contec = ''Contec''" | "componentName MotorControl = ''MotorControl''"
| "componentName ControlPanel = ''ControlPanel''"

fun axisStateName :: "EAxisState \<Rightarrow> string" where
  "axisStateName Locked = ''Locked''" | "axisStateName Slow = ''Slow''" | "axisStateName Fast = ''Fast''"

fun inputSignalName :: "EInputSignal \<Rightarrow> string" where
  "inputSignalName safetyON = ''safetyON''" | "inputSignalName button1 = ''button1''"
| "inputSignalName button2 = ''button2''" | "inputSignalName tclProx = ''tclProx''"
| "inputSignalName tclOpen = ''tclOpen''" | "inputSignalName tclClose = ''tclClose''"
| "inputSignalName tcrProx = ''tcrProx''" | "inputSignalName tcrOpen = ''tcrOpen''"
| "inputSignalName tcrClose = ''tcrClose''"

fun outputSignalName :: "EOutputSignal \<Rightarrow> string" where
  "outputSignalName toolChangerLeft = ''toolChangerLeft''"
| "outputSignalName toolChangerRight = ''toolChangerRight''"
| "outputSignalName light1 = ''light1''" | "outputSignalName light2 = ''light2''"

section \<open>Names of enumerators\<close>

text \<open>\<^verbatim>\<open>magic_enum::enum_cast\<close>: the first enumerator of that name.\<close>

fun enumCast :: "'e list \<Rightarrow> ('e \<Rightarrow> string) \<Rightarrow> string \<Rightarrow> 'e option" where
  "enumCast [] name s = None"
| "enumCast (v # vs) name s = (if name v = s then Some v else enumCast vs name s)"

definition stringToEnum :: "'e list \<Rightarrow> ('e \<Rightarrow> string) \<Rightarrow> string \<Rightarrow> exn + 'e" where
  "stringToEnum vs name text =
     (case enumCast vs name text of None \<Rightarrow> Inl (''Invalid enum value: '' @ text) | Some v \<Rightarrow> Inr v)"

locale enum_names =
  fixes vals :: "'e list" and name :: "'e \<Rightarrow> string"
  assumes complete: "v \<in> set vals"
    and names_distinct: "distinct (map name vals)"
begin

lemma name_inj: "name v = name w \<Longrightarrow> v = w"
  using names_distinct complete by (auto simp: distinct_map dest: inj_onD)

lemma cast_SomeD: "enumCast vs name s = Some v \<Longrightarrow> name v = s \<and> v \<in> set vs"
  by (induction vs) (auto split: if_splits)

lemma cast_name_in: "v \<in> set vs \<Longrightarrow> enumCast vs name (name v) = Some v"
  by (induction vs) (auto dest: name_inj)

lemma cast_name: "enumCast vals name (name v) = Some v"
  by (rule cast_name_in) (rule complete)

lemma cast_iff: "enumCast vals name s = Some v \<longleftrightarrow> name v = s"
  using cast_SomeD cast_name by blast

lemma cast_None_iff: "enumCast vals name s = None \<longleftrightarrow> (\<forall>v. name v \<noteq> s)"
  using cast_iff by (metis not_None_eq)

lemma stringToEnum_name: "stringToEnum vals name (name v) = Inr v"
  by (simp add: stringToEnum_def cast_name)

lemma stringToEnum_Inr: "stringToEnum vals name s = Inr v \<longleftrightarrow> s = name v"
  by (auto simp: stringToEnum_def cast_iff cast_name split: option.splits dest: name_inj)

lemma stringToEnum_Inl: "stringToEnum vals name s = Inl e \<Longrightarrow> \<forall>v. name v \<noteq> s"
  by (auto simp: stringToEnum_def cast_name split: option.splits)

end

interpretation motorE: enum_names allMotors motorName
proof
  show "v \<in> set allMotors" for v by (cases v) (simp_all add: enum_values)
qed (simp add: enum_values)

interpretation ledE: enum_names allLeds ledName
proof
  show "v \<in> set allLeds" for v by (cases v) (simp_all add: enum_values)
qed (simp add: enum_values)

interpretation motorFlagE: enum_names allMotorFlags motorFlagName
proof
  show "v \<in> set allMotorFlags" for v by (cases v) (simp_all add: enum_values)
qed (simp add: enum_values)

interpretation armE: enum_names allArms armName
proof
  show "v \<in> set allArms" for v by (cases v) (simp_all add: enum_values)
qed (simp add: enum_values)

interpretation toolFlagE: enum_names allToolFlags toolFlagName
proof
  show "v \<in> set allToolFlags" for v by (cases v) (simp_all add: enum_values)
qed (simp add: enum_values)

interpretation toolActionE: enum_names allToolActions toolActionName
proof
  show "v \<in> set allToolActions" for v by (cases v) (simp_all add: enum_values)
qed (simp add: enum_values)

interpretation componentE: enum_names allComponents componentName
proof
  show "v \<in> set allComponents" for v by (cases v) (simp_all add: enum_values)
qed (simp add: enum_values)

interpretation axisE: enum_names allAxisStates axisStateName
proof
  show "v \<in> set allAxisStates" for v by (cases v) (simp_all add: enum_values)
qed (simp add: enum_values)

interpretation inputE: enum_names allInputSignals inputSignalName
proof
  show "v \<in> set allInputSignals" for v by (cases v) (simp_all add: enum_values)
qed (simp add: enum_values)

interpretation outputE: enum_names allOutputSignals outputSignalName
proof
  show "v \<in> set allOutputSignals" for v by (cases v) (simp_all add: enum_values)
qed (simp add: enum_values)

section \<open>Maps keyed by an enumeration\<close>

text \<open>
  The order of the enumerators is the key order of \<^verbatim>\<open>std::map<utl::EMotor, T>\<close>; iterating such
  a map visits its keys in the order of \<open>allMotors\<close>.
\<close>

fun motorIndex :: "EMotor \<Rightarrow> nat" where
  "motorIndex XLeft = 0" | "motorIndex XRight = 1" | "motorIndex YLeft = 2"
| "motorIndex YRight = 3" | "motorIndex ZLeft = 4" | "motorIndex ZRight = 5"

instantiation EMotor :: linorder
begin

definition less_eq_EMotor :: "EMotor \<Rightarrow> EMotor \<Rightarrow> bool" where
  "less_eq_EMotor a b = (motorIndex a \<le> motorIndex b)"

definition less_EMotor :: "EMotor \<Rightarrow> EMotor \<Rightarrow> bool" where
  "less_EMotor a b = (motorIndex a < motorIndex b)"

instance
proof
  fix a b c :: EMotor
  show "(a < b) = (a \<le> b \<and> \<not> b \<le> a)" by (auto simp: less_eq_EMotor_def less_EMotor_def)
  show "a \<le> a" by (simp add: less_eq_EMotor_def)
  show "a \<le> b \<Longrightarrow> b \<le> c \<Longrightarrow> a \<le> c" by (simp add: less_eq_EMotor_def)
  show "a \<le> b \<Longrightarrow> b \<le> a \<Longrightarrow> a = b"
    by (cases a; cases b; simp add: less_eq_EMotor_def)
  show "a \<le> b \<or> b \<le> a" by (auto simp: less_eq_EMotor_def)
qed

end

definition mapKeys :: "'k list \<Rightarrow> ('k \<Rightarrow> 'v option) \<Rightarrow> 'k list" where
  "mapKeys ks m = filter (\<lambda>k. m k \<noteq> None) ks"

lemma mapKeys_set: "set ks = UNIV \<Longrightarrow> set (mapKeys ks m) = dom m"
  by (auto simp: mapKeys_def)

lemma set_allMotors [simp]: "set allMotors = UNIV"
  using motorE.complete by auto

lemma set_allArms [simp]: "set allArms = UNIV"
  using armE.complete by auto

lemma set_allComponents [simp]: "set allComponents = UNIV"
  using componentE.complete by auto

lemma mapKeys_motors [simp]: "set (mapKeys allMotors m) = dom m"
  by (simp add: mapKeys_set)

lemma allMotors_sorted: "sorted_wrt (<) allMotors"
  by (simp add: allMotors_def less_EMotor_def)

lemma mapKeys_motors_sorted: "sorted_wrt (<) (mapKeys allMotors m)"
  unfolding mapKeys_def by (rule sorted_wrt_filter) (rule allMotors_sorted)

lemma mapKeys_motors_distinct: "distinct (mapKeys allMotors m)"
  by (simp add: mapKeys_def allMotors_def)

section \<open>Status records\<close>

type_synonym SignalMap = "bool smap"

record SingleMotorStatus =
  sms_currentPosition :: real
  sms_targetPosition :: real
  sms_speed :: real
  sms_speedRpm :: real
  sms_torque :: int
  sms_state :: ELEDState
  sms_warningDescription :: string
  sms_alarmDescription :: string
  sms_flags :: "EMotorStatusFlags \<Rightarrow> ELEDState option"
  sms_speedCommandPercent :: real
  sms_modeMaxLinearSpeedMmPerSec :: real

definition defaultMotorStatus :: SingleMotorStatus where
  "defaultMotorStatus = \<lparr>sms_currentPosition = 0, sms_targetPosition = 0, sms_speed = 0,
     sms_speedRpm = 0, sms_torque = 0, sms_state = Off, sms_warningDescription = [],
     sms_alarmDescription = [], sms_flags = Map.empty, sms_speedCommandPercent = 0,
     sms_modeMaxLinearSpeedMmPerSec = 0\<rparr>"

record JoystickStatus =
  js_x :: real
  js_y :: real
  js_btn :: bool

record ToolChangerStatus =
  tc_flags :: "EToolChangerStatusFlags \<Rightarrow> ELEDState option"

record RobotStatus =
  rs_motors :: "EMotor \<Rightarrow> SingleMotorStatus option"
  rs_toolChangers :: "EArm \<Rightarrow> ToolChangerStatus option"
  rs_robotComponents :: "ERobotComponent \<Rightarrow> ELEDState option"
  rs_joystics :: "EArm \<Rightarrow> JoystickStatus option"
  rs_safetyOn :: "bool option"
  rs_armStates :: "EArm \<Rightarrow> EAxisState option"

definition emptyRobotStatus :: RobotStatus where
  "emptyRobotStatus = \<lparr>rs_motors = Map.empty, rs_toolChangers = Map.empty,
     rs_robotComponents = Map.empty, rs_joystics = Map.empty, rs_safetyOn = None,
     rs_armStates = Map.empty\<rparr>"

text \<open>\<^verbatim>\<open>MachineComponent::State\<close> (\<^verbatim>\<open>MachineComponent.hpp\<close>), \<^verbatim>\<open>Error\<close> until initialised.\<close>

datatype ComponentState = Normal | Warning | Error

text \<open>\<^verbatim>\<open>MotorControlMode\<close> and \<^verbatim>\<open>MotorControlDirection\<close> (\<^verbatim>\<open>MotorControl.hpp\<close>).\<close>

datatype MotorControlMode = Speed | Position
datatype MotorControlDirection = Forward | Reverse

end
