(* ===== verification/Policy.thy ===== *)
theory Policy
  imports Domain
begin

text \<open>
  The control policy (\<^verbatim>\<open>Server/src/RobotControlPolicy.cpp\<close>): from the I/O signals, the
  component states and the joystick positions of one control cycle, \<open>decide\<close> computes the
  light outputs and the motor intents. The policy object keeps, between cycles, the arm
  states (locked, slow, fast), the last movement times for the automatic lock, the previous
  button levels and, per motor, what it last commanded.

  \<^verbatim>\<open>_armStates\<close>, \<^verbatim>\<open>_prevButtonState\<close> and \<^verbatim>\<open>_motorRuntime\<close> are total functions: the first two are
  initialised with every arm and never lose a key, and \<^verbatim>\<open>_motorRuntime[m]\<close> creates the default
  entry. Log output is not modelled, the warning flags are.
\<close>

section \<open>Types\<close>

record MotorIntent =
  mi_motorId :: EMotor
  mi_mode :: "MotorControlMode option"
  mi_direction :: "MotorControlDirection option"
  mi_acceleration :: "i32 option"
  mi_deceleration :: "i32 option"
  mi_speed :: "i32 option"
  mi_position :: "i32 option"
  mi_startMovement :: bool
  mi_stopMovement :: bool

definition newIntent :: "EMotor \<Rightarrow> MotorIntent" where
  "newIntent m = \<lparr>mi_motorId = m, mi_mode = None, mi_direction = None, mi_acceleration = None,
     mi_deceleration = None, mi_speed = None, mi_position = None, mi_startMovement = False,
     mi_stopMovement = False\<rparr>"

record MotorSpeedCommand =
  msc_speedCommandPercent :: real
  msc_modeMaxLinearSpeedMmPerSec :: real

record ControlDecision =
  cd_outputs :: "SignalMap option"
  cd_motorIntents :: "MotorIntent list"
  cd_setToolChangerErrorBlinking :: bool
  cd_armStates :: "EArm \<Rightarrow> EAxisState option"
  cd_motorSpeedCommands :: "EMotor \<Rightarrow> MotorSpeedCommand option"

record AxisConfig =
  ac_neutralAxisActivationThreshold :: real
  ac_speedUpdateAxisDeltaThreshold :: real
  ac_slowMaxLinearSpeedMmPerSec :: real
  ac_fastMaxLinearSpeedMmPerSec :: real
  ac_stepsPerMm :: real
  ac_slowAcceleration001MsPerKHz :: i32
  ac_fastAcceleration001MsPerKHz :: i32
  ac_slowDeceleration001MsPerKHz :: i32
  ac_fastDeceleration001MsPerKHz :: i32

definition defaultAxisConfig :: AxisConfig where
  "defaultAxisConfig = \<lparr>ac_neutralAxisActivationThreshold = 1/10,
     ac_speedUpdateAxisDeltaThreshold = 2/100, ac_slowMaxLinearSpeedMmPerSec = 40,
     ac_fastMaxLinearSpeedMmPerSec = 80, ac_stepsPerMm = 100,
     ac_slowAcceleration001MsPerKHz = 24575, ac_fastAcceleration001MsPerKHz = 24575,
     ac_slowDeceleration001MsPerKHz = 24575, ac_fastDeceleration001MsPerKHz = 24575\<rparr>"

record MotionConfig =
  mc_leftArmX :: AxisConfig
  mc_leftArmY :: AxisConfig
  mc_rightArmX :: AxisConfig
  mc_rightArmY :: AxisConfig
  mc_gantryZ :: AxisConfig

record WarningState =
  ws_missingContecStatus :: bool
  ws_missingMotorControlStatus :: bool
  ws_missingControlPanelStatus :: bool
  ws_contecUnavailable :: bool
  ws_motorControlUnavailable :: bool
  ws_controlPanelUnavailable :: bool
  ws_motorAlarmActive :: bool
  ws_missingInputSignals :: bool

record PolicyMotorState =
  pm_wasActive :: bool
  pm_hasLastAxis :: bool
  pm_lastAxis :: real
  pm_lastDirection :: "MotorControlDirection option"

definition idleMotorState :: PolicyMotorState where
  "idleMotorState = \<lparr>pm_wasActive = False, pm_hasLastAxis = False, pm_lastAxis = 0,
     pm_lastDirection = None\<rparr>"

record PolicyState =
  ps_motion :: MotionConfig
  ps_warning :: WarningState
  ps_motorRuntime :: "EMotor \<Rightarrow> PolicyMotorState"
  ps_autoLockTimeoutMs :: int
  ps_armStates :: "EArm \<Rightarrow> EAxisState"
  ps_lastMovementTime :: "EArm \<Rightarrow> int option"
  ps_prevButtonState :: "EArm \<Rightarrow> bool"

definition noWarnings :: WarningState where
  "noWarnings = \<lparr>ws_missingContecStatus = False, ws_missingMotorControlStatus = False,
     ws_missingControlPanelStatus = False, ws_contecUnavailable = False,
     ws_motorControlUnavailable = False, ws_controlPanelUnavailable = False,
     ws_motorAlarmActive = False, ws_missingInputSignals = False\<rparr>"

text \<open>The policy object before its constructor reads the configuration.\<close>

definition initialPolicy :: "MotionConfig \<Rightarrow> int \<Rightarrow> PolicyState" where
  "initialPolicy cfg timeoutMs = \<lparr>ps_motion = cfg, ps_warning = noWarnings,
     ps_motorRuntime = (\<lambda>_. idleMotorState), ps_autoLockTimeoutMs = timeoutMs,
     ps_armStates = (\<lambda>_. Locked), ps_lastMovementTime = Map.empty,
     ps_prevButtonState = (\<lambda>_. False)\<rparr>"

definition defaultMotion :: MotionConfig where
  "defaultMotion = \<lparr>mc_leftArmX = defaultAxisConfig, mc_leftArmY = defaultAxisConfig,
     mc_rightArmX = defaultAxisConfig, mc_rightArmY = defaultAxisConfig,
     mc_gantryZ = defaultAxisConfig\<rparr>"

section \<open>Helpers of the anonymous namespace\<close>

definition clampAxis :: "real \<Rightarrow> real" where
  "clampAxis v = clampUnit v"

definition joystickOrNeutral :: "RobotStatus \<Rightarrow> EArm \<Rightarrow> JoystickStatus" where
  "joystickOrNeutral status arm =
     (case rs_joystics status arm of None \<Rightarrow> \<lparr>js_x = 0, js_y = 0, js_btn = False\<rparr> | Some j \<Rightarrow> j)"

definition speedStepsPerSecFromAxis :: "real \<Rightarrow> real \<Rightarrow> real \<Rightarrow> i32" where
  "speedStepsPerSecFromAxis axis maxLinear stepsPerMm =
     (let linear = \<bar>clampAxis axis\<bar> * maxLinear in word_of_int (llround (linear * stepsPerMm)))"

definition componentStateFromStatus :: "RobotStatus \<Rightarrow> ERobotComponent \<Rightarrow> ELEDState option" where
  "componentStateFromStatus status c = rs_robotComponents status c"

definition isComponentOperational :: "ELEDState option \<Rightarrow> bool" where
  "isComponentOperational st = (st = Some On \<or> st = Some ELEDState.Warning)"

definition isMotorInAlarm :: "SingleMotorStatus \<Rightarrow> bool" where
  "isMotorInAlarm ms = (if sms_state ms = ELEDState.Error then True
     else sms_flags ms Alarm = Some ELEDState.Error)"

definition anyMotorInAlarm :: "RobotStatus \<Rightarrow> bool" where
  "anyMotorInAlarm status =
     list_ex (\<lambda>m. case rs_motors status m of None \<Rightarrow> False | Some ms \<Rightarrow> isMotorInAlarm ms) allMotors"

fun cycleAxisState :: "EAxisState \<Rightarrow> EAxisState" where
  "cycleAxisState Locked = Slow"
| "cycleAxisState Slow = Fast"
| "cycleAxisState Fast = Locked"

fun motorToArm :: "EMotor \<Rightarrow> EArm option" where
  "motorToArm XLeft = Some Left" | "motorToArm YLeft = Some Left"
| "motorToArm XRight = Some Right" | "motorToArm YRight = Some Right"
| "motorToArm ZLeft = Some Gantry" | "motorToArm ZRight = Some Gantry"

text \<open>\<^verbatim>\<open>std::max<std::int32_t>(1, v)\<close>: a signed comparison.\<close>

definition max1 :: "i32 \<Rightarrow> i32" where
  "max1 v = (if sint v < 1 then 1 else v)"

section \<open>One control cycle\<close>

text \<open>A button press (rising edge) cycles the state of its arm.\<close>

definition processButton :: "EArm \<Rightarrow> bool \<Rightarrow> PolicyState \<Rightarrow> PolicyState" where
  "processButton arm btnPressed ps =
     (let wasPressed = ps_prevButtonState ps arm;
          ps1 = (if btnPressed \<and> \<not> wasPressed
                 then ps\<lparr>ps_armStates := (ps_armStates ps)(arm := cycleAxisState (ps_armStates ps arm))\<rparr>
                 else ps)
      in ps1\<lparr>ps_prevButtonState := (ps_prevButtonState ps1)(arm := btnPressed)\<rparr>)"

text \<open>The automatic lock of one arm; \<open>now\<close> is in nanoseconds.\<close>

definition autoLock :: "int \<Rightarrow> EArm \<Rightarrow> PolicyState \<Rightarrow> PolicyState" where
  "autoLock now arm ps =
     (if ps_armStates ps arm = Locked then ps
      else case ps_lastMovementTime ps arm of
        None \<Rightarrow> ps\<lparr>ps_lastMovementTime := (ps_lastMovementTime ps)(arm \<mapsto> now)\<rparr>
      | Some t \<Rightarrow>
          if ps_autoLockTimeoutMs ps \<le> msOfNs (now - t)
          then ps\<lparr>ps_armStates := (ps_armStates ps)(arm := Locked),
                  ps_lastMovementTime := (ps_lastMovementTime ps)(arm := None)\<rparr>
          else ps)"

text \<open>
  What \<open>appendSpeedIntent\<close> updates: the policy object, the intents so far and the speed
  commands shown to the operator.
\<close>

type_synonym IntentAcc = "PolicyState \<times> MotorIntent list \<times> (EMotor \<Rightarrow> MotorSpeedCommand option)"

definition setRuntime :: "EMotor \<Rightarrow> PolicyMotorState \<Rightarrow> PolicyState \<Rightarrow> PolicyState" where
  "setRuntime m r ps = ps\<lparr>ps_motorRuntime := (ps_motorRuntime ps)(m := r)\<rparr>"

definition lockedIntent :: "EMotor \<Rightarrow> IntentAcc \<Rightarrow> IntentAcc" where
  "lockedIntent m acc = (case acc of (ps, intents, cmds) \<Rightarrow>
     (let runtime = ps_motorRuntime ps m;
          cmds' = cmds(m \<mapsto> \<lparr>msc_speedCommandPercent = 0, msc_modeMaxLinearSpeedMmPerSec = 0\<rparr>);
          r = runtime\<lparr>pm_hasLastAxis := False, pm_lastDirection := None\<rparr>
      in if pm_wasActive runtime
         then (setRuntime m (r\<lparr>pm_wasActive := False\<rparr>) ps,
               intents @ [(newIntent m)\<lparr>mi_stopMovement := True\<rparr>], cmds')
         else (setRuntime m r ps, intents, cmds')))"

definition appendSpeedIntent ::
  "int \<Rightarrow> EMotor \<Rightarrow> real \<Rightarrow> AxisConfig \<Rightarrow> EArm \<Rightarrow> IntentAcc \<Rightarrow> IntentAcc" where
  "appendSpeedIntent now m axisValue cfg arm acc = (case acc of (ps, intents, cmds) \<Rightarrow>
     (let armState = ps_armStates ps arm;
          runtime = ps_motorRuntime ps m;
          clampedAxis = clampAxis axisValue;
          active = ac_neutralAxisActivationThreshold cfg \<le> \<bar>clampedAxis\<bar>
      in
      if armState = Locked then lockedIntent m acc
      else
        let maxSpeed = (if armState = Slow then ac_slowMaxLinearSpeedMmPerSec cfg
                        else ac_fastMaxLinearSpeedMmPerSec cfg);
            accel = (if armState = Slow then ac_slowAcceleration001MsPerKHz cfg
                     else ac_fastAcceleration001MsPerKHz cfg);
            decel = (if armState = Slow then ac_slowDeceleration001MsPerKHz cfg
                     else ac_fastDeceleration001MsPerKHz cfg);
            cmds' = cmds(m \<mapsto> \<lparr>msc_speedCommandPercent = (if active then clampedAxis * 100 else 0),
                               msc_modeMaxLinearSpeedMmPerSec = maxSpeed\<rparr>);
            intent = newIntent m;
            speed = max1 (speedStepsPerSecFromAxis clampedAxis maxSpeed (ac_stepsPerMm cfg))
        in
        if \<not> active then
          (let r = runtime\<lparr>pm_hasLastAxis := False, pm_lastDirection := None\<rparr>
           in if \<not> pm_wasActive runtime then (setRuntime m r ps, intents, cmds')
              else (setRuntime m (r\<lparr>pm_wasActive := False\<rparr>) ps,
                    intents @ [intent\<lparr>mi_stopMovement := True\<rparr>], cmds'))
        else
          (let ps1 = ps\<lparr>ps_lastMovementTime := (ps_lastMovementTime ps)(arm \<mapsto> now)\<rparr>;
               desired = (if 0 \<le> clampedAxis then Forward else Reverse);
               shouldUpdateSpeed = (\<not> pm_hasLastAxis runtime \<or>
                 ac_speedUpdateAxisDeltaThreshold cfg \<le> \<bar>clampedAxis - pm_lastAxis runtime\<bar>)
           in
           if \<not> pm_wasActive runtime then
             (setRuntime m \<lparr>pm_wasActive = True, pm_hasLastAxis = True, pm_lastAxis = clampedAxis,
                            pm_lastDirection = Some desired\<rparr> ps1,
              intents @ [intent\<lparr>mi_mode := Some Speed, mi_direction := Some desired,
                mi_acceleration := Some accel, mi_deceleration := Some decel,
                mi_speed := Some speed, mi_startMovement := True\<rparr>], cmds')
           else
             (let turn = (pm_lastDirection runtime \<noteq> Some desired);
                  intent1 = (if turn then intent\<lparr>mi_direction := Some desired\<rparr> else intent);
                  r1 = (if turn then runtime\<lparr>pm_lastDirection := Some desired\<rparr> else runtime);
                  intent2 = (if shouldUpdateSpeed then intent1\<lparr>mi_speed := Some speed\<rparr> else intent1);
                  r2 = (if shouldUpdateSpeed
                        then r1\<lparr>pm_hasLastAxis := True, pm_lastAxis := clampedAxis\<rparr> else r1);
                  r3 = r2\<lparr>pm_wasActive := True\<rparr>
              in (setRuntime m r3 ps1,
                  if mi_direction intent2 \<noteq> None \<or> mi_speed intent2 \<noteq> None
                     \<or> mi_startMovement intent2 \<or> mi_stopMovement intent2
                     \<or> mi_mode intent2 \<noteq> None \<or> mi_position intent2 \<noteq> None
                  then intents @ [intent2] else intents,
                  cmds')))))"

text \<open>The axes, in the order the code feeds them: the gantry follows the right joystick.\<close>

definition processAxes :: "int \<Rightarrow> JoystickStatus \<Rightarrow> JoystickStatus \<Rightarrow> IntentAcc \<Rightarrow> IntentAcc" where
  "processAxes now leftJs rightJs acc =
     (let cfg = ps_motion (fst acc);
          a1 = appendSpeedIntent now XLeft (js_x leftJs) (mc_leftArmX cfg) Left acc;
          a2 = appendSpeedIntent now YLeft (js_y leftJs) (mc_leftArmY cfg) Left a1;
          a3 = appendSpeedIntent now XRight (js_x rightJs) (mc_rightArmX cfg) Right a2;
          a4 = appendSpeedIntent now YRight (js_y rightJs) (mc_rightArmY cfg) Right a3
      in appendSpeedIntent now ZLeft (js_y rightJs) (mc_gantryZ cfg) Gantry a4)"

definition armMap :: "PolicyState \<Rightarrow> EArm \<Rightarrow> EAxisState option" where
  "armMap ps = (\<lambda>a. Some (ps_armStates ps a))"

definition noMotion :: "SignalMap option \<Rightarrow> bool \<Rightarrow> PolicyState \<Rightarrow> ControlDecision" where
  "noMotion outs blink ps = \<lparr>cd_outputs = outs, cd_motorIntents = [],
     cd_setToolChangerErrorBlinking = blink, cd_armStates = armMap ps,
     cd_motorSpeedCommands = Map.empty\<rparr>"

definition warn :: "(WarningState \<Rightarrow> WarningState) \<Rightarrow> PolicyState \<Rightarrow> PolicyState" where
  "warn f ps = ps\<lparr>ps_warning := f (ps_warning ps)\<rparr>"

text \<open>The joystick part of \<open>decide\<close>, reached when every component is operational.\<close>

definition decideMotion ::
  "int \<Rightarrow> RobotStatus \<Rightarrow> SignalMap \<Rightarrow> PolicyState \<Rightarrow> ControlDecision \<times> PolicyState" where
  "decideMotion now status ioOutputs ps =
     (let leftJs = joystickOrNeutral status Left;
          rightJs = joystickOrNeutral status Right;
          gantryJs = joystickOrNeutral status Gantry;
          ps1 = processButton Gantry (js_btn gantryJs)
                  (processButton Right (js_btn rightJs) (processButton Left (js_btn leftJs) ps));
          ps2 = fold (autoLock now) [Left, Right, Gantry] ps1
      in case processAxes now leftJs rightJs (ps2, [], Map.empty) of (ps3, intents, cmds) \<Rightarrow>
        (\<lparr>cd_outputs = Some ioOutputs, cd_motorIntents = intents,
          cd_setToolChangerErrorBlinking = False, cd_armStates = armMap ps3,
          cd_motorSpeedCommands = cmds\<rparr>, ps3))"

definition decide ::
  "int \<Rightarrow> SignalMap option \<Rightarrow> SignalMap option \<Rightarrow> ComponentState \<Rightarrow> RobotStatus \<Rightarrow> PolicyState
     \<Rightarrow> ControlDecision \<times> PolicyState" where
  "decide now inputs outputs contecState status ps =
     (let contecStatus = componentStateFromStatus status Contec;
          motorControlStatus = componentStateFromStatus status MotorControl;
          controlPanelStatus = componentStateFromStatus status ControlPanel;
          ps1 = warn (\<lambda>w. w\<lparr>ws_missingContecStatus := (contecStatus = None),
                            ws_missingMotorControlStatus := (motorControlStatus = None),
                            ws_missingControlPanelStatus := (controlPanelStatus = None)\<rparr>) ps;
          contecAvailable = (contecState \<noteq> ComponentState.Error \<and> isComponentOperational contecStatus)
      in
      if \<not> contecAvailable then
        (let ps2 = warn (\<lambda>w. w\<lparr>ws_contecUnavailable := True\<rparr>) ps1 in (noMotion None True ps2, ps2))
      else
      let ps2 = warn (\<lambda>w. w\<lparr>ws_contecUnavailable := False\<rparr>) ps1 in
      case (Option.bind inputs (\<lambda>i. map_of i ''button1''), Option.bind inputs (\<lambda>i. map_of i ''button2'')) of
        (Some b1, Some b2) \<Rightarrow>
          (let ps3 = warn (\<lambda>w. w\<lparr>ws_missingInputSignals := False\<rparr>) ps2;
               ioOutputs = smap_put ''light2'' b2 (smap_put ''light1'' b1 []);
               motorControlAvailable = isComponentOperational motorControlStatus;
               controlPanelAvailable = isComponentOperational controlPanelStatus;
               ps4 = warn (\<lambda>w. w\<lparr>ws_motorControlUnavailable := \<not> motorControlAvailable,
                                 ws_controlPanelUnavailable := \<not> controlPanelAvailable\<rparr>) ps3
           in
           if \<not> motorControlAvailable \<or> \<not> controlPanelAvailable
           then (noMotion (Some ioOutputs) False ps4, ps4)
           else if anyMotorInAlarm status then
             (let ps5 = warn (\<lambda>w. w\<lparr>ws_motorAlarmActive := True\<rparr>) ps4
              in (noMotion (Some ioOutputs) False ps5, ps5))
           else
             decideMotion now status ioOutputs (warn (\<lambda>w. w\<lparr>ws_motorAlarmActive := False\<rparr>) ps4))
      | _ \<Rightarrow>
          (let ps3 = warn (\<lambda>w. w\<lparr>ws_missingInputSignals := True\<rparr>) ps2
           in (noMotion None False ps3, ps3)))"

end
