(* ===== verification/PolicyFacts.thy ===== *)
theory PolicyFacts
  imports Policy
begin

text \<open>
  Facts about the control policy. One axis is analysed first (\<open>axisIntents\<close>, \<open>axisState\<close>:
  what \<open>appendSpeedIntent\<close> adds and how it changes the policy object); the five axes of a
  cycle are then a fold over distinct motors, so the facts about one axis carry over. The
  contract of the intents of one motor is the two-state protocol \<open>driveStep\<close>: a start, then
  updates, then a stop.
\<close>

section \<open>One axis\<close>

definition axisIntents :: "int \<Rightarrow> EMotor \<Rightarrow> real \<Rightarrow> AxisConfig \<Rightarrow> EArm \<Rightarrow> PolicyState \<Rightarrow> MotorIntent list" where
  "axisIntents now m ax cfg arm ps = fst (snd (appendSpeedIntent now m ax cfg arm (ps, [], Map.empty)))"

definition axisState :: "int \<Rightarrow> EMotor \<Rightarrow> real \<Rightarrow> AxisConfig \<Rightarrow> EArm \<Rightarrow> PolicyState \<Rightarrow> PolicyState" where
  "axisState now m ax cfg arm ps = fst (appendSpeedIntent now m ax cfg arm (ps, [], Map.empty))"

definition axisCmd :: "int \<Rightarrow> EMotor \<Rightarrow> real \<Rightarrow> AxisConfig \<Rightarrow> EArm \<Rightarrow> PolicyState \<Rightarrow> MotorSpeedCommand option" where
  "axisCmd now m ax cfg arm ps = snd (snd (appendSpeedIntent now m ax cfg arm (ps, [], Map.empty))) m"

lemmas axis_defs = axisIntents_def axisState_def axisCmd_def appendSpeedIntent_def lockedIntent_def
  setRuntime_def Let_def

lemma append_split:
  "appendSpeedIntent now m ax cfg arm (ps, is, cmds) =
     (axisState now m ax cfg arm ps, is @ axisIntents now m ax cfg arm ps,
      cmds(m := axisCmd now m ax cfg arm ps))"
  by (simp add: axis_defs)

lemma axis_armStates [simp]: "ps_armStates (axisState now m ax cfg arm ps) = ps_armStates ps"
  and axis_motion [simp]: "ps_motion (axisState now m ax cfg arm ps) = ps_motion ps"
  and axis_timeout [simp]: "ps_autoLockTimeoutMs (axisState now m ax cfg arm ps) = ps_autoLockTimeoutMs ps"
  and axis_warning [simp]: "ps_warning (axisState now m ax cfg arm ps) = ps_warning ps"
  and axis_prevButton [simp]: "ps_prevButtonState (axisState now m ax cfg arm ps) = ps_prevButtonState ps"
  by (simp_all add: axis_defs)

lemma axis_runtime_other [simp]:
  "m' \<noteq> m \<Longrightarrow> ps_motorRuntime (axisState now m ax cfg arm ps) m' = ps_motorRuntime ps m'"
  by (simp add: axis_defs)

text \<open>Intents and the motor's own runtime depend on the arm states and that runtime only.\<close>

lemma axis_local:
  assumes "ps_armStates ps = ps_armStates ps'" and "ps_motorRuntime ps m = ps_motorRuntime ps' m"
  shows "axisIntents now m ax cfg arm ps = axisIntents now m ax cfg arm ps'"
    and "ps_motorRuntime (axisState now m ax cfg arm ps) m = ps_motorRuntime (axisState now m ax cfg arm ps') m"
    and "axisCmd now m ax cfg arm ps = axisCmd now m ax cfg arm ps'"
  using assms by (simp_all add: axis_defs)

section \<open>The intent protocol of a motor\<close>

datatype DriveEvent = EvStart | EvUpdate | EvStop

definition intentEvent :: "MotorIntent \<Rightarrow> DriveEvent" where
  "intentEvent i = (if mi_stopMovement i then EvStop else if mi_startMovement i then EvStart else EvUpdate)"

fun driveStep :: "bool \<Rightarrow> DriveEvent \<Rightarrow> bool option" where
  "driveStep False EvStart = Some True"
| "driveStep True EvUpdate = Some True"
| "driveStep True EvStop = Some False"
| "driveStep _ _ = None"

fun driveRun :: "bool \<Rightarrow> DriveEvent list \<Rightarrow> bool option" where
  "driveRun b [] = Some b"
| "driveRun b (e # es) = Option.bind (driveStep b e) (\<lambda>b'. driveRun b' es)"

lemma driveRun_append: "driveRun b (xs @ ys) = Option.bind (driveRun b xs) (\<lambda>b'. driveRun b' ys)"
  by (induction xs arbitrary: b) (auto split: Option.bind_splits)

definition motorEvents :: "EMotor \<Rightarrow> MotorIntent list \<Rightarrow> DriveEvent list" where
  "motorEvents m is = map intentEvent (filter (\<lambda>i. mi_motorId i = m) is)"

lemma motorEvents_append: "motorEvents m (xs @ ys) = motorEvents m xs @ motorEvents m ys"
  by (simp add: motorEvents_def)

lemma axis_protocol:
  "driveRun (pm_wasActive (ps_motorRuntime ps m)) (motorEvents m (axisIntents now m ax cfg arm ps))
     = Some (pm_wasActive (ps_motorRuntime (axisState now m ax cfg arm ps) m))"
  by (simp add: axis_defs motorEvents_def newIntent_def intentEvent_def)

lemma axis_motorId: "i \<in> set (axisIntents now m ax cfg arm ps) \<Longrightarrow> mi_motorId i = m"
  by (auto simp: axis_defs newIntent_def split: if_splits)

lemma axis_length: "length (axisIntents now m ax cfg arm ps) \<le> 1"
  by (simp add: axis_defs)

lemma axis_locked_state:
  "ps_armStates ps arm = Locked \<Longrightarrow> axisIntents now m ax cfg arm ps =
     (if pm_wasActive (ps_motorRuntime ps m) then [(newIntent m)\<lparr>mi_stopMovement := True\<rparr>] else [])"
  "ps_armStates ps arm = Locked \<Longrightarrow> \<not> pm_wasActive (ps_motorRuntime (axisState now m ax cfg arm ps) m)"
  by (simp_all add: axis_defs)

lemma axis_moving_unlocked:
  "i \<in> set (axisIntents now m ax cfg arm ps) \<Longrightarrow> \<not> mi_stopMovement i \<Longrightarrow> ps_armStates ps arm \<noteq> Locked"
  by (auto simp: axis_locked_state newIntent_def split: if_splits)

lemma axis_stop_bare:
  "i \<in> set (axisIntents now m ax cfg arm ps) \<Longrightarrow> mi_stopMovement i \<Longrightarrow>
     i = (newIntent m)\<lparr>mi_stopMovement := True\<rparr>"
  by (auto simp: axis_defs newIntent_def split: if_splits)

text \<open>Speeds: what the code computes from the clamped axis, at least one step per second.\<close>

definition axisTopSteps :: "AxisConfig \<Rightarrow> EAxisState \<Rightarrow> int" where
  "axisTopSteps cfg st = max 1 (llround ((if st = Slow then ac_slowMaxLinearSpeedMmPerSec cfg
     else ac_fastMaxLinearSpeedMmPerSec cfg) * ac_stepsPerMm cfg))"

definition axisConfigSane :: "AxisConfig \<Rightarrow> bool" where
  "axisConfigSane cfg = (0 \<le> ac_slowMaxLinearSpeedMmPerSec cfg \<and> 0 \<le> ac_fastMaxLinearSpeedMmPerSec cfg
     \<and> 0 \<le> ac_stepsPerMm cfg \<and> axisTopSteps cfg Slow < 2 ^ 31 \<and> axisTopSteps cfg Fast < 2 ^ 31)"

lemma sint_i32_of_int: "- (2 ^ 31) \<le> k \<Longrightarrow> k < 2 ^ 31 \<Longrightarrow> sint (word_of_int k :: i32) = k"
  by (simp add: sint_sbintrunc' signed_take_bit_int_eq_self)

lemma max1_ge1: "1 \<le> sint (max1 v)"
  by (simp add: max1_def)

lemma max1_speed_bound:
  assumes "0 \<le> mx" and "0 \<le> st" and "llround (mx * st) < 2 ^ 31"
  shows "sint (max1 (speedStepsPerSecFromAxis ax mx st)) \<le> max 1 (llround (mx * st))"
proof -
  let ?l = "\<bar>clampAxis ax\<bar> * mx * st"
  have "?l \<le> 1 * mx * st"
    using assms clampUnit_abs [of ax] by (intro mult_right_mono) (simp_all add: clampAxis_def)
  then have "llround ?l \<le> llround (mx * st)"
    using assms by (intro llround_mono) simp_all
  moreover have "0 \<le> llround ?l"
    using assms by (intro llround_nonneg) simp
  ultimately have "sint (word_of_int (llround ?l) :: i32) = llround ?l"
    and "llround ?l \<le> llround (mx * st)"
    using assms(3) by (simp_all add: sint_i32_of_int)
  then show ?thesis
    by (simp add: max1_def speedStepsPerSecFromAxis_def)
qed

lemma axis_speed_bound:
  assumes "axisConfigSane cfg" and "i \<in> set (axisIntents now m ax cfg arm ps)" and "mi_speed i = Some s"
  shows "1 \<le> sint s \<and> sint s \<le> axisTopSteps cfg (ps_armStates ps arm)"
proof -
  let ?mx = "if ps_armStates ps arm = Slow then ac_slowMaxLinearSpeedMmPerSec cfg
    else ac_fastMaxLinearSpeedMmPerSec cfg"
  have "s = max1 (speedStepsPerSecFromAxis (clampAxis ax) ?mx (ac_stepsPerMm cfg))"
    using assms(2,3) by (auto simp: axis_defs newIntent_def split: if_splits)
  moreover have "0 \<le> ?mx" "0 \<le> ac_stepsPerMm cfg" "llround (?mx * ac_stepsPerMm cfg) < 2 ^ 31"
    using assms(1) by (auto simp: axisConfigSane_def axisTopSteps_def)
  ultimately show ?thesis
    using max1_speed_bound [of ?mx "ac_stepsPerMm cfg" "clampAxis ax"] max1_ge1
    by (simp add: axisTopSteps_def)
qed

section \<open>The axes of a cycle\<close>

type_synonym DrivenAxis = "EMotor \<times> real \<times> AxisConfig \<times> EArm"

definition drivenAxes :: "MotionConfig \<Rightarrow> JoystickStatus \<Rightarrow> JoystickStatus \<Rightarrow> DrivenAxis list" where
  "drivenAxes cfg leftJs rightJs =
     [(XLeft, js_x leftJs, mc_leftArmX cfg, Left), (YLeft, js_y leftJs, mc_leftArmY cfg, Left),
      (XRight, js_x rightJs, mc_rightArmX cfg, Right), (YRight, js_y rightJs, mc_rightArmY cfg, Right),
      (ZLeft, js_y rightJs, mc_gantryZ cfg, Gantry)]"

definition axisStep :: "int \<Rightarrow> DrivenAxis \<Rightarrow> IntentAcc \<Rightarrow> IntentAcc" where
  "axisStep now a acc = (case a of (m, ax, cfg, arm) \<Rightarrow> appendSpeedIntent now m ax cfg arm acc)"

lemma processAxes_fold:
  "processAxes now l r acc = fold (axisStep now) (drivenAxes (ps_motion (fst acc)) l r) acc"
  by (simp add: processAxes_def drivenAxes_def axisStep_def Let_def)

text \<open>A step of another motor does not change what a step decides.\<close>

lemma axis_elsewhere:
  assumes "m \<notin> fst ` set axes" and "(m', ax', cfg', arm') \<in> set axes"
  shows "axisIntents now m' ax' cfg' arm' (axisState now m ax cfg arm ps) = axisIntents now m' ax' cfg' arm' ps"
    "ps_motorRuntime (axisState now m' ax' cfg' arm' (axisState now m ax cfg arm ps)) m'
      = ps_motorRuntime (axisState now m' ax' cfg' arm' ps) m'"
proof -
  have "m' \<noteq> m" using assms by force
  then show "axisIntents now m' ax' cfg' arm' (axisState now m ax cfg arm ps) = axisIntents now m' ax' cfg' arm' ps"
    "ps_motorRuntime (axisState now m' ax' cfg' arm' (axisState now m ax cfg arm ps)) m'
      = ps_motorRuntime (axisState now m' ax' cfg' arm' ps) m'"
    by (simp_all add: axis_local [of "axisState now m ax cfg arm ps" ps])
qed

lemma fold_axes:
  assumes "distinct (map fst axes)"
  shows "\<exists>ps' cmds'. fold (axisStep now) axes (ps, is, cmds) =
      (ps', is @ concat (map (\<lambda>(m, ax, cfg, arm). axisIntents now m ax cfg arm ps) axes), cmds')
    \<and> ps_armStates ps' = ps_armStates ps \<and> ps_motion ps' = ps_motion ps
    \<and> ps_autoLockTimeoutMs ps' = ps_autoLockTimeoutMs ps \<and> ps_warning ps' = ps_warning ps
    \<and> ps_prevButtonState ps' = ps_prevButtonState ps
    \<and> (\<forall>m. m \<notin> fst ` set axes \<longrightarrow> ps_motorRuntime ps' m = ps_motorRuntime ps m)
    \<and> (\<forall>(m, ax, cfg, arm) \<in> set axes.
         ps_motorRuntime ps' m = ps_motorRuntime (axisState now m ax cfg arm ps) m)"
  using assms
proof (induction axes arbitrary: ps "is" cmds)
  case Nil
  then show ?case by simp
next
  case (Cons a axes)
  obtain m ax cfg arm where a: "a = (m, ax, cfg, arm)" by (cases a) auto
  let ?q = "axisState now m ax cfg arm ps"
  have fresh: "m \<notin> fst ` set axes" and dist: "distinct (map fst axes)"
    using Cons.prems by (auto simp: a)
  have step: "axisStep now a (ps, is, cmds) =
      (?q, is @ axisIntents now m ax cfg arm ps, cmds(m := axisCmd now m ax cfg arm ps))"
    by (simp add: axisStep_def a append_split)
  note same = axis_elsewhere [OF fresh, where now = now and ps = ps and ax = ax and cfg = cfg and arm = arm]
  have conc: "concat (map (\<lambda>(m, ax, cfg, arm). axisIntents now m ax cfg arm ?q) axes)
      = concat (map (\<lambda>(m, ax, cfg, arm). axisIntents now m ax cfg arm ps) axes)"
    by (rule arg_cong [of _ _ concat], rule map_cong) (auto simp: same)
  note IH = Cons.IH [OF dist, of ?q "is @ axisIntents now m ax cfg arm ps" "cmds(m := axisCmd now m ax cfg arm ps)",
      unfolded axis_armStates axis_motion axis_timeout axis_warning axis_prevButton]
  obtain ps' cmds' where
    run: "fold (axisStep now) axes (?q, is @ axisIntents now m ax cfg arm ps, cmds(m := axisCmd now m ax cfg arm ps))
      = (ps', (is @ axisIntents now m ax cfg arm ps) @
          concat (map (\<lambda>(m, ax, cfg, arm). axisIntents now m ax cfg arm ?q) axes), cmds')"
    and keep: "ps_armStates ps' = ps_armStates ps" "ps_motion ps' = ps_motion ps"
      "ps_autoLockTimeoutMs ps' = ps_autoLockTimeoutMs ps" "ps_warning ps' = ps_warning ps"
      "ps_prevButtonState ps' = ps_prevButtonState ps"
    and rest: "\<forall>k. k \<notin> fst ` set axes \<longrightarrow> ps_motorRuntime ps' k = ps_motorRuntime ?q k"
    and axes: "\<forall>(k, ax, cfg, arm) \<in> set axes. ps_motorRuntime ps' k = ps_motorRuntime (axisState now k ax cfg arm ?q) k"
    using IH by (elim exE conjE) (rule that; assumption)
  have axes': "\<forall>(k, ax, cfg, arm) \<in> set axes. ps_motorRuntime ps' k = ps_motorRuntime (axisState now k ax cfg arm ps) k"
    using axes same(2) by fastforce
  show ?case
    using run keep rest axes' fresh
    by (intro exI [of _ ps'] exI [of _ cmds']) (auto simp: step [unfolded a] conc a)
qed

lemma drivenAxes_distinct: "distinct (map fst (drivenAxes cfg l r))"
  by (simp add: drivenAxes_def)

lemma drivenAxes_arm: "(m, ax, c, arm) \<in> set (drivenAxes cfg l r) \<Longrightarrow> motorToArm m = Some arm"
  by (auto simp: drivenAxes_def)

end
