(* ===== verification/PolicyProps.thy ===== *)
theory PolicyProps
  imports PolicyFacts
begin

text \<open>
  The properties of a control cycle: when motion is allowed at all, what a locked arm can and
  cannot cause, the speed bounds, the start/update/stop protocol of each motor over any
  sequence of cycles, the automatic lock, and what happens to a moving motor when the cycle
  is cut short.
\<close>

section \<open>The two shapes of a cycle\<close>

definition motionAllowed :: "SignalMap option \<Rightarrow> ComponentState \<Rightarrow> RobotStatus \<Rightarrow> bool" where
  "motionAllowed inputs contecState status =
     (contecState \<noteq> ComponentState.Error
      \<and> isComponentOperational (rs_robotComponents status Contec)
      \<and> Option.bind inputs (\<lambda>i. map_of i ''button1'') \<noteq> None
      \<and> Option.bind inputs (\<lambda>i. map_of i ''button2'') \<noteq> None
      \<and> isComponentOperational (rs_robotComponents status MotorControl)
      \<and> isComponentOperational (rs_robotComponents status ControlPanel)
      \<and> \<not> anyMotorInAlarm status)"

text \<open>The policy object after the buttons and the automatic lock, before the axes.\<close>

definition beforeAxes :: "int \<Rightarrow> RobotStatus \<Rightarrow> PolicyState \<Rightarrow> PolicyState" where
  "beforeAxes now status ps = fold (autoLock now) [Left, Right, Gantry]
     (processButton Gantry (js_btn (joystickOrNeutral status Gantry))
       (processButton Right (js_btn (joystickOrNeutral status Right))
         (processButton Left (js_btn (joystickOrNeutral status Left)) ps)))"

definition cycleAxes :: "RobotStatus \<Rightarrow> PolicyState \<Rightarrow> DrivenAxis list" where
  "cycleAxes status ps = drivenAxes (ps_motion ps) (joystickOrNeutral status Left) (joystickOrNeutral status Right)"

lemma decide_blocked:
  assumes "\<not> motionAllowed inputs contecState status"
  shows "cd_motorIntents (fst (decide now inputs outputs contecState status ps)) = []"
    and "\<exists>w. snd (decide now inputs outputs contecState status ps) = ps\<lparr>ps_warning := w\<rparr>"
    and "cd_armStates (fst (decide now inputs outputs contecState status ps)) = armMap ps"
  using assms
  by (auto simp: decide_def motionAllowed_def componentStateFromStatus_def noMotion_def warn_def armMap_def Let_def
      split: option.splits)

lemma decide_allowed:
  assumes "motionAllowed inputs contecState status"
  shows "\<exists>b1 b2 w. Option.bind inputs (\<lambda>i. map_of i ''button1'') = Some b1
    \<and> Option.bind inputs (\<lambda>i. map_of i ''button2'') = Some b2
    \<and> decide now inputs outputs contecState status ps =
        decideMotion now status (smap_put ''light2'' b2 (smap_put ''light1'' b1 [])) (ps\<lparr>ps_warning := w\<rparr>)"
  using assms
  by (auto simp: decide_def motionAllowed_def componentStateFromStatus_def warn_def Let_def
      split: option.splits)

lemma processButton_keep [simp]:
  "ps_motorRuntime (processButton a b ps) = ps_motorRuntime ps"
  "ps_motion (processButton a b ps) = ps_motion ps"
  "ps_lastMovementTime (processButton a b ps) = ps_lastMovementTime ps"
  "ps_autoLockTimeoutMs (processButton a b ps) = ps_autoLockTimeoutMs ps"
  by (simp_all add: processButton_def Let_def)

lemma autoLock_keep [simp]:
  "ps_motorRuntime (autoLock now a ps) = ps_motorRuntime ps"
  "ps_motion (autoLock now a ps) = ps_motion ps"
  "ps_prevButtonState (autoLock now a ps) = ps_prevButtonState ps"
  "ps_autoLockTimeoutMs (autoLock now a ps) = ps_autoLockTimeoutMs ps"
  by (simp_all add: autoLock_def split: option.split)

lemma beforeAxes_keep [simp]:
  "ps_motorRuntime (beforeAxes now status ps) = ps_motorRuntime ps"
  "ps_motion (beforeAxes now status ps) = ps_motion ps"
  "ps_autoLockTimeoutMs (beforeAxes now status ps) = ps_autoLockTimeoutMs ps"
  by (simp_all add: beforeAxes_def)

text \<open>The warning flags are written and never read.\<close>

lemma processButton_warning:
  "processButton a b (ps\<lparr>ps_warning := w\<rparr>) = (processButton a b ps)\<lparr>ps_warning := w\<rparr>"
  by (cases "ps_prevButtonState ps a") (simp_all add: processButton_def Let_def)

lemma autoLock_warning: "autoLock now a (ps\<lparr>ps_warning := w\<rparr>) = (autoLock now a ps)\<lparr>ps_warning := w\<rparr>"
  by (cases "ps_lastMovementTime ps a") (simp_all add: autoLock_def)

lemma beforeAxes_warning: "beforeAxes now status (ps\<lparr>ps_warning := w\<rparr>) = (beforeAxes now status ps)\<lparr>ps_warning := w\<rparr>"
  by (simp only: beforeAxes_def processButton_warning autoLock_warning fold.simps comp_apply id_apply)

lemma cycleAxes_warning [simp]: "cycleAxes status (ps\<lparr>ps_warning := w\<rparr>) = cycleAxes status ps"
  by (simp add: cycleAxes_def)

lemma decideMotion_result:
  obtains ps' cmds where
    "decideMotion now status outs ps =
      (\<lparr>cd_outputs = Some outs,
        cd_motorIntents = concat (map (\<lambda>(m, ax, cfg, arm). axisIntents now m ax cfg arm (beforeAxes now status ps))
          (cycleAxes status ps)),
        cd_setToolChangerErrorBlinking = False,
        cd_armStates = armMap (beforeAxes now status ps),
        cd_motorSpeedCommands = cmds\<rparr>, ps')"
    "ps_armStates ps' = ps_armStates (beforeAxes now status ps)"
    "\<forall>m. m \<notin> fst ` set (cycleAxes status ps) \<longrightarrow> ps_motorRuntime ps' m = ps_motorRuntime ps m"
    "\<forall>(m, ax, cfg, arm) \<in> set (cycleAxes status ps).
       ps_motorRuntime ps' m = ps_motorRuntime (axisState now m ax cfg arm (beforeAxes now status ps)) m"
proof -
  let ?q = "beforeAxes now status ps"
  have axes: "drivenAxes (ps_motion ?q) (joystickOrNeutral status Left) (joystickOrNeutral status Right)
      = cycleAxes status ps"
    by (simp add: cycleAxes_def)
  have dist: "distinct (map fst (cycleAxes status ps))"
    by (simp add: cycleAxes_def drivenAxes_distinct)
  from fold_axes [OF dist, of now ?q "[]" Map.empty] obtain ps' cmds where
    run: "fold (axisStep now) (cycleAxes status ps) (?q, [], Map.empty) =
      (ps', concat (map (\<lambda>(m, ax, cfg, arm). axisIntents now m ax cfg arm ?q) (cycleAxes status ps)), cmds)"
    and arm: "ps_armStates ps' = ps_armStates ?q"
    and other: "\<forall>m. m \<notin> fst ` set (cycleAxes status ps) \<longrightarrow> ps_motorRuntime ps' m = ps_motorRuntime ?q m"
    and driven: "\<forall>(m, ax, cfg, arm) \<in> set (cycleAxes status ps).
       ps_motorRuntime ps' m = ps_motorRuntime (axisState now m ax cfg arm ?q) m"
    by (elim exE conjE) (rule that; simp only: append_Nil)
  have eq: "decideMotion now status outs ps =
      (\<lparr>cd_outputs = Some outs,
        cd_motorIntents = concat (map (\<lambda>(m, ax, cfg, arm). axisIntents now m ax cfg arm ?q) (cycleAxes status ps)),
        cd_setToolChangerErrorBlinking = False, cd_armStates = armMap ps', cd_motorSpeedCommands = cmds\<rparr>, ps')"
    by (simp only: decideMotion_def processAxes_fold Let_def beforeAxes_def [symmetric] axes run fst_conv prod.case)
  have arms: "armMap ps' = armMap ?q"
    using arm by (simp add: armMap_def)
  show thesis
    by (rule that [of cmds ps', OF eq [unfolded arms] arm])
      (use other driven in \<open>simp_all only: beforeAxes_keep\<close>)
qed

text \<open>Every intent of a cycle comes from one driven axis.\<close>

lemma axisIntents_warning [simp]:
  "axisIntents now m ax cfg arm (ps\<lparr>ps_warning := w\<rparr>) = axisIntents now m ax cfg arm ps"
  "ps_motorRuntime (axisState now m ax cfg arm (ps\<lparr>ps_warning := w\<rparr>)) m =
     ps_motorRuntime (axisState now m ax cfg arm ps) m"
  by (rule axis_local; simp)+

lemma decide_allowed_result:
  assumes "motionAllowed inputs contecState status"
  shows "cd_motorIntents (fst (decide now inputs outputs contecState status ps)) =
      concat (map (\<lambda>(m, ax, cfg, arm). axisIntents now m ax cfg arm (beforeAxes now status ps)) (cycleAxes status ps))"
    and "cd_armStates (fst (decide now inputs outputs contecState status ps)) = armMap (beforeAxes now status ps)"
    and "ps_armStates (snd (decide now inputs outputs contecState status ps)) = ps_armStates (beforeAxes now status ps)"
    and "m \<notin> fst ` set (cycleAxes status ps) \<Longrightarrow>
      ps_motorRuntime (snd (decide now inputs outputs contecState status ps)) m = ps_motorRuntime ps m"
    and "(m, ax, cfg, arm) \<in> set (cycleAxes status ps) \<Longrightarrow>
      ps_motorRuntime (snd (decide now inputs outputs contecState status ps)) m =
        ps_motorRuntime (axisState now m ax cfg arm (beforeAxes now status ps)) m"
proof -
  from decide_allowed [OF assms, of now outputs ps] obtain outs w where
    eq: "decide now inputs outputs contecState status ps = decideMotion now status outs (ps\<lparr>ps_warning := w\<rparr>)"
    by blast
  obtain ps' cmds where res: "decideMotion now status outs (ps\<lparr>ps_warning := w\<rparr>) =
      (\<lparr>cd_outputs = Some outs,
        cd_motorIntents = concat (map (\<lambda>(m, ax, cfg, arm). axisIntents now m ax cfg arm (beforeAxes now status (ps\<lparr>ps_warning := w\<rparr>)))
          (cycleAxes status (ps\<lparr>ps_warning := w\<rparr>))),
        cd_setToolChangerErrorBlinking = False,
        cd_armStates = armMap (beforeAxes now status (ps\<lparr>ps_warning := w\<rparr>)),
        cd_motorSpeedCommands = cmds\<rparr>, ps')"
    and arms: "ps_armStates ps' = ps_armStates (beforeAxes now status (ps\<lparr>ps_warning := w\<rparr>))"
    and other: "\<forall>m. m \<notin> fst ` set (cycleAxes status (ps\<lparr>ps_warning := w\<rparr>)) \<longrightarrow>
      ps_motorRuntime ps' m = ps_motorRuntime (ps\<lparr>ps_warning := w\<rparr>) m"
    and driven: "\<forall>(m, ax, cfg, arm) \<in> set (cycleAxes status (ps\<lparr>ps_warning := w\<rparr>)). ps_motorRuntime ps' m =
      ps_motorRuntime (axisState now m ax cfg arm (beforeAxes now status (ps\<lparr>ps_warning := w\<rparr>))) m"
    by (rule decideMotion_result)
  note facts = res [unfolded beforeAxes_warning cycleAxes_warning axisIntents_warning]
  show "cd_motorIntents (fst (decide now inputs outputs contecState status ps)) =
      concat (map (\<lambda>(m, ax, cfg, arm). axisIntents now m ax cfg arm (beforeAxes now status ps)) (cycleAxes status ps))"
    and "cd_armStates (fst (decide now inputs outputs contecState status ps)) = armMap (beforeAxes now status ps)"
    by (simp_all add: eq facts armMap_def)
  show "ps_armStates (snd (decide now inputs outputs contecState status ps)) = ps_armStates (beforeAxes now status ps)"
    using arms by (simp add: eq facts beforeAxes_warning)
  show "ps_motorRuntime (snd (decide now inputs outputs contecState status ps)) m = ps_motorRuntime ps m"
    if "m \<notin> fst ` set (cycleAxes status ps)"
    using other that by (simp add: eq facts)
  show "ps_motorRuntime (snd (decide now inputs outputs contecState status ps)) m =
        ps_motorRuntime (axisState now m ax cfg arm (beforeAxes now status ps)) m"
    if "(m, ax, cfg, arm) \<in> set (cycleAxes status ps)"
    using driven that by (fastforce simp: eq facts beforeAxes_warning)
qed

lemma decide_intentE:
  assumes "i \<in> set (cd_motorIntents (fst (decide now inputs outputs contecState status ps)))"
  obtains m ax cfg arm where "motionAllowed inputs contecState status"
    and "(m, ax, cfg, arm) \<in> set (cycleAxes status ps)"
    and "i \<in> set (axisIntents now m ax cfg arm (beforeAxes now status ps))"
    and "cd_armStates (fst (decide now inputs outputs contecState status ps)) = armMap (beforeAxes now status ps)"
proof -
  have allowed: "motionAllowed inputs contecState status"
    using assms decide_blocked(1) by (metis empty_iff list.set(1))
  from assms obtain m ax cfg arm where "(m, ax, cfg, arm) \<in> set (cycleAxes status ps)"
    "i \<in> set (axisIntents now m ax cfg arm (beforeAxes now status ps))"
    by (auto simp: decide_allowed_result(1) [OF allowed])
  with allowed show thesis
    by (rule that) (rule decide_allowed_result(2) [OF allowed])
qed

lemma cycleAxes_arm: "(m, ax, c, arm) \<in> set (cycleAxes status ps) \<Longrightarrow> motorToArm m = Some arm"
  by (simp add: cycleAxes_def drivenAxes_arm)

section \<open>Events of one motor\<close>

lemma motorEvents_concat:
  assumes "distinct (map fst axes)"
  shows "(m, ax, cfg, arm) \<in> set axes \<Longrightarrow>
      motorEvents m (concat (map (\<lambda>(m, ax, cfg, arm). axisIntents now m ax cfg arm q) axes)) =
      motorEvents m (axisIntents now m ax cfg arm q)"
    and "m \<notin> fst ` set axes \<Longrightarrow>
      motorEvents m (concat (map (\<lambda>(m, ax, cfg, arm). axisIntents now m ax cfg arm q) axes)) = []"
proof -
  have none: "motorEvents m (axisIntents now k ax cfg arm q) = []" if "k \<noteq> m" for k ax cfg arm
    using that axis_motorId by (fastforce simp: motorEvents_def filter_empty_conv)
  have nones: "motorEvents m (concat (map (\<lambda>(m, ax, cfg, arm). axisIntents now m ax cfg arm q) axes)) = []"
    if "m \<notin> fst ` set axes" for axes
    using that by (induction axes) (auto simp: motorEvents_append none, simp add: motorEvents_def)
  show "m \<notin> fst ` set axes \<Longrightarrow>
      motorEvents m (concat (map (\<lambda>(m, ax, cfg, arm). axisIntents now m ax cfg arm q) axes)) = []"
    by (rule nones)
  show "(m, ax, cfg, arm) \<in> set axes \<Longrightarrow>
      motorEvents m (concat (map (\<lambda>(m, ax, cfg, arm). axisIntents now m ax cfg arm q) axes)) =
      motorEvents m (axisIntents now m ax cfg arm q)"
    using assms
  proof (induction axes)
    case (Cons a axes)
    then show ?case
      by (cases "fst a = m") (force simp: motorEvents_append none nones split: prod.splits)+
  qed simp
qed

lemma decide_protocol:
  "driveRun (pm_wasActive (ps_motorRuntime ps m))
     (motorEvents m (cd_motorIntents (fst (decide now inputs outputs contecState status ps))))
   = Some (pm_wasActive (ps_motorRuntime (snd (decide now inputs outputs contecState status ps)) m))"
proof (cases "motionAllowed inputs contecState status")
  case False
  from decide_blocked(2) [OF this, of now outputs ps] show ?thesis
    by (auto simp: decide_blocked(1) [OF False] motorEvents_def)
next
  case True
  let ?q = "beforeAxes now status ps"
  have dist: "distinct (map fst (cycleAxes status ps))"
    by (simp add: cycleAxes_def drivenAxes_distinct)
  note res = decide_allowed_result [OF True]
  show ?thesis
  proof (cases "m \<in> fst ` set (cycleAxes status ps)")
    case False
    then show ?thesis
      by (simp add: res(1,4) motorEvents_concat [OF dist])
  next
    case True
    then obtain ax cfg arm where ax: "(m, ax, cfg, arm) \<in> set (cycleAxes status ps)"
      by force
    have "pm_wasActive (ps_motorRuntime ?q m) = pm_wasActive (ps_motorRuntime ps m)"
      by simp
    with axis_protocol [of ?q m now ax cfg arm] show ?thesis
      by (simp add: res(1) res(5) [OF ax] motorEvents_concat(1) [OF dist ax])
  qed
qed

section \<open>Arm states of a cycle\<close>

text \<open>What the buttons and the automatic lock read and write of one arm.\<close>

type_synonym ArmView = "EAxisState \<times> int option \<times> bool"

definition armView :: "PolicyState \<Rightarrow> EArm \<Rightarrow> ArmView" where
  "armView ps a = (ps_armStates ps a, ps_lastMovementTime ps a, ps_prevButtonState ps a)"

fun pressView :: "bool \<Rightarrow> ArmView \<Rightarrow> ArmView" where
  "pressView p (st, t, b) = (if p \<and> \<not> b then cycleAxisState st else st, t, p)"

fun lockView :: "int \<Rightarrow> int \<Rightarrow> ArmView \<Rightarrow> ArmView" where
  "lockView timeout now (st, t, b) =
     (if st = Locked then (st, t, b)
      else case t of None \<Rightarrow> (st, Some now, b)
        | Some t' \<Rightarrow> if timeout \<le> msOfNs (now - t') then (Locked, None, b) else (st, t, b))"

lemma view_processButton:
  "armView (processButton b p ps) a = (if a = b then pressView p (armView ps a) else armView ps a)"
  by (simp add: armView_def processButton_def Let_def)

lemma view_autoLock:
  "armView (autoLock now b ps) a =
     (if a = b then lockView (ps_autoLockTimeoutMs ps) now (armView ps a) else armView ps a)"
  by (simp add: armView_def autoLock_def split: option.split)

text \<open>The arms are treated independently.\<close>

lemma view_beforeAxes:
  "armView (beforeAxes now status ps) a = lockView (ps_autoLockTimeoutMs ps) now
     (pressView (js_btn (joystickOrNeutral status a)) (armView ps a))"
  by (cases a) (simp_all add: beforeAxes_def view_processButton view_autoLock del: pressView.simps lockView.simps)

lemma beforeAxes_arm:
  "ps_armStates (beforeAxes now status ps) a = fst (lockView (ps_autoLockTimeoutMs ps) now
     (pressView (js_btn (joystickOrNeutral status a)) (armView ps a)))"
  "ps_lastMovementTime (beforeAxes now status ps) a = fst (snd (lockView (ps_autoLockTimeoutMs ps) now
     (pressView (js_btn (joystickOrNeutral status a)) (armView ps a))))"
  unfolding view_beforeAxes [symmetric] by (simp_all add: armView_def)

lemma lockView_fresh:
  assumes "0 < timeout" and "lockView timeout now v = (st, t, b)" and "st \<noteq> Locked"
  shows "\<exists>t'. t = Some t' \<and> msOfNs (now - t') < timeout"
  using assms by (cases v) (auto simp: msOfNs_def split: if_splits option.splits)

section \<open>Sequences of cycles\<close>

record PolicyInput =
  pin_now :: int
  pin_inputs :: "SignalMap option"
  pin_outputs :: "SignalMap option"
  pin_contec :: ComponentState
  pin_status :: RobotStatus

definition policyCycle :: "PolicyInput \<Rightarrow> PolicyState \<Rightarrow> ControlDecision \<times> PolicyState" where
  "policyCycle p = decide (pin_now p) (pin_inputs p) (pin_outputs p) (pin_contec p) (pin_status p)"

fun policyRun :: "PolicyInput list \<Rightarrow> PolicyState \<Rightarrow> MotorIntent list \<times> PolicyState" where
  "policyRun [] ps = ([], ps)"
| "policyRun (p # pins) ps = (case policyCycle p ps of (d, ps1) \<Rightarrow>
     (case policyRun pins ps1 of (is, ps2) \<Rightarrow> (cd_motorIntents d @ is, ps2)))"

definition motorAxisConfig :: "MotionConfig \<Rightarrow> EMotor \<Rightarrow> AxisConfig" where
  "motorAxisConfig cfg m = (case m of XLeft \<Rightarrow> mc_leftArmX cfg | YLeft \<Rightarrow> mc_leftArmY cfg
     | XRight \<Rightarrow> mc_rightArmX cfg | YRight \<Rightarrow> mc_rightArmY cfg | _ \<Rightarrow> mc_gantryZ cfg)"

lemma cycleAxes_config:
  "(m, ax, c, arm) \<in> set (cycleAxes status ps) \<Longrightarrow> c = motorAxisConfig (ps_motion ps) m"
  by (auto simp: cycleAxes_def drivenAxes_def motorAxisConfig_def)

lemma cycleAxes_motors: "fst ` set (cycleAxes status ps) = {XLeft, YLeft, XRight, YRight, ZLeft}"
  by (simp add: cycleAxes_def drivenAxes_def insert_commute)

end
