(* ===== verification/PolicySpec.thy ===== *)
theory PolicySpec
  imports PolicyProps
begin

text \<open>
  The properties of the control policy, each with a concrete cycle (or run of cycles) that
  meets its hypotheses.
\<close>

section \<open>Sample cycles\<close>

definition readyStatus :: "(EArm \<Rightarrow> JoystickStatus option) \<Rightarrow> RobotStatus" where
  "readyStatus js = emptyRobotStatus\<lparr>rs_robotComponents := (\<lambda>_. Some On), rs_joystics := js\<rparr>"

definition readyInputs :: SignalMap where
  "readyInputs = smap_put ''button2'' False (smap_put ''button1'' True [])"

text \<open>Left joystick at \<open>x\<close>, its button \<open>b\<close>; the other two at rest.\<close>

definition leftStick :: "real \<Rightarrow> bool \<Rightarrow> EArm \<Rightarrow> JoystickStatus option" where
  "leftStick x b = [Left \<mapsto> \<lparr>js_x = x, js_y = 0, js_btn = b\<rparr>]"

definition leftCycle :: "int \<Rightarrow> real \<Rightarrow> bool \<Rightarrow> PolicyInput" where
  "leftCycle now x b = \<lparr>pin_now = now, pin_inputs = Some readyInputs, pin_outputs = None,
     pin_contec = Normal, pin_status = readyStatus (leftStick x b)\<rparr>"

definition samplePolicy :: PolicyState where
  "samplePolicy = initialPolicy defaultMotion 10000"

text \<open>The policy with the left arm in the given state.\<close>

definition leftArmIn :: "EAxisState \<Rightarrow> PolicyState" where
  "leftArmIn st = samplePolicy\<lparr>ps_armStates := (\<lambda>_. Locked)(Left := st)\<rparr>"

definition drivingX :: PolicyMotorState where
  "drivingX = \<lparr>pm_wasActive = True, pm_hasLastAxis = True, pm_lastAxis = 1, pm_lastDirection = Some Forward\<rparr>"

definition leftDriving :: "EAxisState \<Rightarrow> PolicyState" where
  "leftDriving st = (leftArmIn st)\<lparr>ps_motorRuntime := (\<lambda>_. idleMotorState)(XLeft := drivingX)\<rparr>"

lemmas sample_defs = readyStatus_def readyInputs_def leftStick_def leftCycle_def samplePolicy_def
  leftArmIn_def drivingX_def leftDriving_def initialPolicy_def emptyRobotStatus_def

lemma sample_ready:
  "motionAllowed (Some readyInputs) Normal (readyStatus js)"
  by (simp add: motionAllowed_def readyInputs_def readyStatus_def isComponentOperational_def
      anyMotorInAlarm_def emptyRobotStatus_def allMotors_def)

lemma leftCycle_intents:
  "cd_motorIntents (fst (policyCycle (leftCycle now x b) ps)) =
     concat (map (\<lambda>(m, ax, cfg, arm). axisIntents now m ax cfg arm (beforeAxes now (readyStatus (leftStick x b)) ps))
       (cycleAxes (readyStatus (leftStick x b)) ps))"
  by (simp add: policyCycle_def leftCycle_def decide_allowed_result(1) [OF sample_ready])

section \<open>Safety of the intents\<close>

text \<open>C1: every motor intent of a cycle is emitted only when the I/O unit is up and both
  panel buttons are mapped, motor control and control panel are operational and no motor is in
  alarm; and when the published state of the motor's arm is Locked, the intent is a bare stop.\<close>

theorem policy_intents_safe:
  assumes "i \<in> set (cd_motorIntents (fst (decide now inputs outputs contecState status ps)))"
  shows "contecState \<noteq> ComponentState.Error
    \<and> isComponentOperational (rs_robotComponents status Contec)
    \<and> isComponentOperational (rs_robotComponents status MotorControl)
    \<and> isComponentOperational (rs_robotComponents status ControlPanel)
    \<and> \<not> anyMotorInAlarm status
    \<and> (\<exists>arm. motorToArm (mi_motorId i) = Some arm
        \<and> (cd_armStates (fst (decide now inputs outputs contecState status ps)) arm = Some Locked
            \<longrightarrow> i = (newIntent (mi_motorId i))\<lparr>mi_stopMovement := True\<rparr>))"
proof -
  from assms obtain m ax cfg arm where allowed: "motionAllowed inputs contecState status"
    and ax: "(m, ax, cfg, arm) \<in> set (cycleAxes status ps)"
    and i: "i \<in> set (axisIntents now m ax cfg arm (beforeAxes now status ps))"
    and arms: "cd_armStates (fst (decide now inputs outputs contecState status ps)) = armMap (beforeAxes now status ps)"
    by (rule decide_intentE)
  have m: "mi_motorId i = m"
    using i by (rule axis_motorId)
  have "i = (newIntent m)\<lparr>mi_stopMovement := True\<rparr>"
    if "ps_armStates (beforeAxes now status ps) arm = Locked"
    using i axis_moving_unlocked [OF i] axis_stop_bare [OF i] that by blast
  then show ?thesis
    using allowed cycleAxes_arm [OF ax] by (auto simp: m arms armMap_def motionAllowed_def)
qed

theorem policy_intents_safe_witness:
  "cd_motorIntents (fst (policyCycle (leftCycle 0 1 False) (leftDriving Locked)))
     = [(newIntent XLeft)\<lparr>mi_stopMovement := True\<rparr>]
   \<and> \<not> anyMotorInAlarm (pin_status (leftCycle 0 1 False))"
proof -
  have ints: "cd_motorIntents (fst (policyCycle (leftCycle 0 1 False) (leftDriving Locked)))
     = [(newIntent XLeft)\<lparr>mi_stopMovement := True\<rparr>]"
    unfolding leftCycle_intents
    by (simp add: beforeAxes_arm armView_def axis_defs cycleAxes_def drivenAxes_def sample_defs
        joystickOrNeutral_def clampAxis_def clampUnit_def defaultMotion_def defaultAxisConfig_def idleMotorState_def)
  have "(newIntent XLeft)\<lparr>mi_stopMovement := True\<rparr> \<in> set (cd_motorIntents (fst (decide 0
      (pin_inputs (leftCycle 0 1 False)) (pin_outputs (leftCycle 0 1 False)) (pin_contec (leftCycle 0 1 False))
      (pin_status (leftCycle 0 1 False)) (leftDriving Locked))))"
    using ints by (simp add: policyCycle_def leftCycle_def)
  from policy_intents_safe [OF this] ints show ?thesis by simp
qed

text \<open>C22: locking an arm stops it: in a cycle in which motion is allowed and the arm ends up
  Locked, every driven motor of that arm that was moving gets a stop intent and is recorded as
  stopped.\<close>

theorem policy_lock_stops:
  assumes "motionAllowed inputs contecState status"
    and "ps_armStates (snd (decide now inputs outputs contecState status ps)) arm = Locked"
    and "motorToArm m = Some arm" and "m \<noteq> ZRight"
    and "pm_wasActive (ps_motorRuntime ps m)"
  shows "(newIntent m)\<lparr>mi_stopMovement := True\<rparr>
      \<in> set (cd_motorIntents (fst (decide now inputs outputs contecState status ps)))
    \<and> \<not> pm_wasActive (ps_motorRuntime (snd (decide now inputs outputs contecState status ps)) m)"
proof -
  note res = decide_allowed_result [OF assms(1)]
  have "m \<in> fst ` set (cycleAxes status ps)"
    using assms(4) by (cases m) (simp_all add: cycleAxes_motors)
  then obtain ax cfg arm' where ax: "(m, ax, cfg, arm') \<in> set (cycleAxes status ps)"
    by force
  with assms(3) have [simp]: "arm' = arm"
    using cycleAxes_arm by fastforce
  have locked: "ps_armStates (beforeAxes now status ps) arm = Locked"
    using assms(2) by (simp add: res(3))
  have "pm_wasActive (ps_motorRuntime (beforeAxes now status ps) m)"
    using assms(5) by simp
  then show ?thesis
    using axis_locked_state [OF locked] ax
    by (auto simp: res(1) res(5) [OF ax] intro!: bexI [of _ "(m, ax, cfg, arm)"])
qed

theorem policy_lock_stops_witness:
  "(newIntent XLeft)\<lparr>mi_stopMovement := True\<rparr>
     \<in> set (cd_motorIntents (fst (policyCycle (leftCycle 0 1 True) (leftDriving Fast))))"
proof -
  have "ps_armStates (snd (decide 0 (Some readyInputs) None Normal (readyStatus (leftStick 1 True)) (leftDriving Fast))) Left = Locked"
    unfolding decide_allowed_result(3) [OF sample_ready] beforeAxes_arm
    by (simp add: armView_def sample_defs joystickOrNeutral_def)
  from policy_lock_stops [OF sample_ready this, of XLeft] show ?thesis
    by (simp add: policyCycle_def leftCycle_def leftDriving_def drivingX_def)
qed

text \<open>C23: the speed of every intent is at least one step per second and at most the top speed
  configured for the published state (slow or fast) of its arm, for a configuration whose top
  speeds fit in 32 bits.\<close>

theorem policy_speed_bounds:
  assumes "i \<in> set (cd_motorIntents (fst (decide now inputs outputs contecState status ps)))"
    and "mi_speed i = Some s"
    and "axisConfigSane (motorAxisConfig (ps_motion ps) (mi_motorId i))"
  shows "\<exists>arm st. motorToArm (mi_motorId i) = Some arm
    \<and> cd_armStates (fst (decide now inputs outputs contecState status ps)) arm = Some st \<and> st \<noteq> Locked
    \<and> 1 \<le> sint s \<and> sint s \<le> axisTopSteps (motorAxisConfig (ps_motion ps) (mi_motorId i)) st"
proof -
  from assms(1) obtain m ax cfg arm where ax: "(m, ax, cfg, arm) \<in> set (cycleAxes status ps)"
    and i: "i \<in> set (axisIntents now m ax cfg arm (beforeAxes now status ps))"
    and arms: "cd_armStates (fst (decide now inputs outputs contecState status ps)) = armMap (beforeAxes now status ps)"
    by (rule decide_intentE)
  have m: "mi_motorId i = m"
    using i by (rule axis_motorId)
  have cfg: "cfg = motorAxisConfig (ps_motion ps) m"
    using ax by (rule cycleAxes_config)
  have "\<not> mi_stopMovement i"
    using axis_stop_bare [OF i] assms(2) by (auto simp: newIntent_def)
  then have "ps_armStates (beforeAxes now status ps) arm \<noteq> Locked"
    by (rule axis_moving_unlocked [OF i])
  moreover from assms(3) have "axisConfigSane cfg"
    by (simp add: m cfg)
  note axis_speed_bound [OF this i assms(2)]
  ultimately show ?thesis
    using cycleAxes_arm [OF ax] by (simp add: m arms armMap_def cfg [symmetric])
qed

theorem policy_speed_bounds_witness:
  "\<exists>i s. cd_motorIntents (fst (policyCycle (leftCycle 0 1 False) (leftArmIn Slow))) = [i]
     \<and> mi_speed i = Some s \<and> sint s = 4000 \<and> axisTopSteps defaultAxisConfig Slow = 4000 \<and> 1 \<le> sint s"
proof -
  let ?i = "(newIntent XLeft)\<lparr>mi_mode := Some Speed, mi_direction := Some Forward,
    mi_acceleration := Some 24575, mi_deceleration := Some 24575, mi_speed := Some 4000,
    mi_startMovement := True\<rparr>"
  have ints: "cd_motorIntents (fst (policyCycle (leftCycle 0 1 False) (leftArmIn Slow))) = [?i]"
    unfolding leftCycle_intents
    by (simp add: beforeAxes_arm armView_def axis_defs cycleAxes_def drivenAxes_def sample_defs
        joystickOrNeutral_def clampAxis_def clampUnit_def defaultMotion_def defaultAxisConfig_def
        idleMotorState_def speedStepsPerSecFromAxis_def llround_def max1_def)
  have sane: "axisConfigSane (motorAxisConfig (ps_motion (leftArmIn Slow)) (mi_motorId ?i))"
    by (simp add: axisConfigSane_def axisTopSteps_def sample_defs defaultMotion_def defaultAxisConfig_def
        motorAxisConfig_def newIntent_def llround_def)
  from ints have mem: "?i \<in> set (cd_motorIntents (fst (decide 0 (pin_inputs (leftCycle 0 1 False))
      (pin_outputs (leftCycle 0 1 False)) (pin_contec (leftCycle 0 1 False))
      (pin_status (leftCycle 0 1 False)) (leftArmIn Slow))))"
    by (simp add: policyCycle_def leftCycle_def)
  have "1 \<le> sint (4000 :: i32)"
    using policy_speed_bounds [OF mem _ sane, of 4000] by auto
  then show ?thesis
    using ints by (simp add: axisTopSteps_def defaultAxisConfig_def llround_def)
qed

section \<open>Runs\<close>

lemma policyRun_protocol:
  "driveRun (pm_wasActive (ps_motorRuntime ps m)) (motorEvents m (fst (policyRun pins ps)))
     = Some (pm_wasActive (ps_motorRuntime (snd (policyRun pins ps)) m))"
proof (induction pins arbitrary: ps)
  case (Cons p pins)
  obtain d ps1 where c: "policyCycle p ps = (d, ps1)" by fastforce
  obtain "is" ps2 where r: "policyRun pins ps1 = (is, ps2)" by fastforce
  have "driveRun (pm_wasActive (ps_motorRuntime ps m)) (motorEvents m (cd_motorIntents d))
      = Some (pm_wasActive (ps_motorRuntime ps1 m))"
    using decide_protocol [of ps m "pin_now p" "pin_inputs p" "pin_outputs p" "pin_contec p" "pin_status p"] c
    by (simp add: policyCycle_def)
  then show ?case
    using Cons.IH [of ps1] by (simp add: c r motorEvents_append driveRun_append)
qed (simp add: motorEvents_def)

text \<open>C24: over every sequence of control cycles, whatever the inputs, the intents of each motor
  follow the protocol start, updates, stop: never an update or a stop of a motor that was not
  started, never a second start without a stop, and the flag the policy keeps for the motor
  tells at the end whether it is started.\<close>

theorem policy_motor_protocol:
  "driveRun False (motorEvents m (fst (policyRun pins (initialPolicy cfg timeoutMs))))
     = Some (pm_wasActive (ps_motorRuntime (snd (policyRun pins (initialPolicy cfg timeoutMs))) m))"
  using policyRun_protocol [of "initialPolicy cfg timeoutMs" m pins]
  by (simp add: initialPolicy_def idleMotorState_def)

section \<open>The automatic lock\<close>

text \<open>The sticks that move an arm, with the configuration of their axes: the gantry follows the right
  joystick. An arm is at rest when none of them leaves its neutral zone and its button is up.\<close>

definition armSticks :: "MotionConfig \<Rightarrow> RobotStatus \<Rightarrow> EArm \<Rightarrow> (real \<times> AxisConfig) list" where
  "armSticks cfg status arm = (let left = joystickOrNeutral status Left; right = joystickOrNeutral status Right in
     case arm of Left \<Rightarrow> [(js_x left, mc_leftArmX cfg), (js_y left, mc_leftArmY cfg)]
     | Right \<Rightarrow> [(js_x right, mc_rightArmX cfg), (js_y right, mc_rightArmY cfg)]
     | Gantry \<Rightarrow> [(js_y right, mc_gantryZ cfg)])"

definition sticksActive :: "MotionConfig \<Rightarrow> RobotStatus \<Rightarrow> EArm \<Rightarrow> bool" where
  "sticksActive cfg status arm \<longleftrightarrow>
     (\<exists>(v, c) \<in> set (armSticks cfg status arm). ac_neutralAxisActivationThreshold c \<le> \<bar>clampAxis v\<bar>)"

definition armAtRest :: "MotionConfig \<Rightarrow> EArm \<Rightarrow> PolicyInput \<Rightarrow> bool" where
  "armAtRest cfg arm p \<longleftrightarrow> \<not> sticksActive cfg (pin_status p) arm \<and> \<not> js_btn (joystickOrNeutral (pin_status p) arm)"

definition cycleAllowed :: "PolicyInput \<Rightarrow> bool" where
  "cycleAllowed p \<longleftrightarrow> motionAllowed (pin_inputs p) (pin_contec p) (pin_status p)"

lemma cycleAxes_sticks:
  "(\<exists>(m, v, c, b) \<in> set (cycleAxes status ps). b = arm \<and> ac_neutralAxisActivationThreshold c \<le> \<bar>clampAxis v\<bar>)
     = sticksActive (ps_motion ps) status arm"
  by (cases arm) (simp_all add: cycleAxes_def drivenAxes_def sticksActive_def armSticks_def Let_def)

lemma axis_lastMovement:
  "ps_lastMovementTime (axisState now m ax cfg arm ps) a =
     (if a = arm \<and> ps_armStates ps a \<noteq> Locked \<and> ac_neutralAxisActivationThreshold cfg \<le> \<bar>clampAxis ax\<bar>
      then Some now else ps_lastMovementTime ps a)"
  by (auto simp: axis_defs)

lemma fold_lastMovement:
  "ps_lastMovementTime (fst (fold (axisStep now) axes (ps, is, cmds))) a =
     (if ps_armStates ps a \<noteq> Locked
         \<and> (\<exists>(m, v, c, b) \<in> set axes. b = a \<and> ac_neutralAxisActivationThreshold c \<le> \<bar>clampAxis v\<bar>)
      then Some now else ps_lastMovementTime ps a)"
proof (induction axes arbitrary: ps "is" cmds)
  case (Cons x axes)
  obtain m v c b where x: "x = (m, v, c, b)" by (cases x)
  have step: "axisStep now (m, v, c, b) (ps, is, cmds) =
      (axisState now m v c b ps, is @ axisIntents now m v c b ps, cmds(m := axisCmd now m v c b ps))"
    by (simp add: axisStep_def append_split)
  show ?case
    unfolding x fold.simps comp_apply step Cons.IH
    by (simp add: axis_lastMovement)
qed simp

lemma fold_motion:
  "ps_motion (fst (fold (axisStep now) axes (ps, is, cmds))) = ps_motion ps"
  "ps_autoLockTimeoutMs (fst (fold (axisStep now) axes (ps, is, cmds))) = ps_autoLockTimeoutMs ps"
  by (induction axes arbitrary: ps "is" cmds) (auto simp: axisStep_def append_split)

lemma decide_axes:
  assumes "motionAllowed inputs contecState status"
  shows "\<exists>w. snd (decide now inputs outputs contecState status ps) = fst (fold (axisStep now) (cycleAxes status ps)
    ((beforeAxes now status ps)\<lparr>ps_warning := w\<rparr>, [], Map.empty))"
proof -
  from decide_allowed [OF assms, of now outputs ps] obtain outs w where
    eq: "decide now inputs outputs contecState status ps = decideMotion now status outs (ps\<lparr>ps_warning := w\<rparr>)"
    by blast
  have "snd (decideMotion now status outs qs) = fst (fold (axisStep now) (cycleAxes status qs) (beforeAxes now status qs, [], Map.empty))" for qs
    by (simp only: decideMotion_def processAxes_fold Let_def beforeAxes_def [symmetric] cycleAxes_def fst_conv)
      (simp only: split_beta snd_conv beforeAxes_keep)
  from this [of "ps\<lparr>ps_warning := w\<rparr>"] show ?thesis
    unfolding eq beforeAxes_warning cycleAxes_warning by blast
qed

text \<open>What a cycle writes of one arm.\<close>

definition armPressed :: "PolicyInput \<Rightarrow> PolicyState \<Rightarrow> EArm \<Rightarrow> ArmView" where
  "armPressed p ps arm = lockView (ps_autoLockTimeoutMs ps) (pin_now p)
     (pressView (js_btn (joystickOrNeutral (pin_status p) arm)) (armView ps arm))"

lemma cycle_arm:
  assumes "cycleAllowed p"
  shows "ps_armStates (snd (policyCycle p ps)) arm = fst (armPressed p ps arm)"
    and "ps_lastMovementTime (snd (policyCycle p ps)) arm =
      (if fst (armPressed p ps arm) \<noteq> Locked \<and> sticksActive (ps_motion ps) (pin_status p) arm
       then Some (pin_now p) else fst (snd (armPressed p ps arm)))"
proof -
  note allowed = assms(1) [unfolded cycleAllowed_def]
  show "ps_armStates (snd (policyCycle p ps)) arm = fst (armPressed p ps arm)"
    unfolding policyCycle_def armPressed_def decide_allowed_result(3) [OF allowed] beforeAxes_arm by (rule refl)
  obtain w where "snd (policyCycle p ps) = fst (fold (axisStep (pin_now p)) (cycleAxes (pin_status p) ps)
      ((beforeAxes (pin_now p) (pin_status p) ps)\<lparr>ps_warning := w\<rparr>, [], Map.empty))"
    using decide_axes [OF allowed] unfolding policyCycle_def by blast
  then show "ps_lastMovementTime (snd (policyCycle p ps)) arm =
      (if fst (armPressed p ps arm) \<noteq> Locked \<and> sticksActive (ps_motion ps) (pin_status p) arm
       then Some (pin_now p) else fst (snd (armPressed p ps arm)))"
    by (simp add: fold_lastMovement cycleAxes_sticks beforeAxes_arm armPressed_def)
qed

lemma cycle_blocked: "\<not> cycleAllowed p \<Longrightarrow> \<exists>w. snd (policyCycle p ps) = ps\<lparr>ps_warning := w\<rparr>"
  by (simp add: cycleAllowed_def policyCycle_def decide_blocked(2))

lemma cycle_config [simp]:
  "ps_motion (snd (policyCycle p ps)) = ps_motion ps"
  "ps_autoLockTimeoutMs (snd (policyCycle p ps)) = ps_autoLockTimeoutMs ps"
proof -
  have "ps_motion (snd (policyCycle p ps)) = ps_motion ps
    \<and> ps_autoLockTimeoutMs (snd (policyCycle p ps)) = ps_autoLockTimeoutMs ps"
  proof (cases "cycleAllowed p")
    case True
    then show ?thesis
      using decide_axes [of "pin_inputs p" "pin_contec p" "pin_status p" "pin_now p" "pin_outputs p" ps]
      by (auto simp: cycleAllowed_def policyCycle_def fold_motion)
  next
    case False
    from cycle_blocked [OF this, of ps] show ?thesis by auto
  qed
  then show "ps_motion (snd (policyCycle p ps)) = ps_motion ps"
    "ps_autoLockTimeoutMs (snd (policyCycle p ps)) = ps_autoLockTimeoutMs ps" by simp_all
qed

text \<open>A cycle of an arm at rest: nothing but the lock.\<close>

lemma rest_cycle:
  assumes "armAtRest (ps_motion ps) arm p"
  shows "ps_armStates ps arm = Locked \<Longrightarrow> ps_armStates (snd (policyCycle p ps)) arm = Locked"
    and "ps_armStates ps arm \<noteq> Locked \<Longrightarrow> ps_lastMovementTime ps arm = Some t
      \<Longrightarrow> (if cycleAllowed p \<and> ps_autoLockTimeoutMs ps \<le> msOfNs (pin_now p - t)
           then ps_armStates (snd (policyCycle p ps)) arm = Locked
           else ps_armStates (snd (policyCycle p ps)) arm = ps_armStates ps arm
             \<and> ps_lastMovementTime (snd (policyCycle p ps)) arm = Some t)"
proof -
  have "(ps_armStates ps arm = Locked \<longrightarrow> ps_armStates (snd (policyCycle p ps)) arm = Locked)
    \<and> (ps_armStates ps arm \<noteq> Locked \<and> ps_lastMovementTime ps arm = Some t
      \<longrightarrow> (if cycleAllowed p \<and> ps_autoLockTimeoutMs ps \<le> msOfNs (pin_now p - t)
           then ps_armStates (snd (policyCycle p ps)) arm = Locked
           else ps_armStates (snd (policyCycle p ps)) arm = ps_armStates ps arm
             \<and> ps_lastMovementTime (snd (policyCycle p ps)) arm = Some t))"
  proof (cases "cycleAllowed p")
    case True
    with assms show ?thesis
      by (simp add: cycle_arm armAtRest_def armView_def armPressed_def)
  next
    case False
    from cycle_blocked [OF this, of ps] False show ?thesis by auto
  qed
  then show "ps_armStates ps arm = Locked \<Longrightarrow> ps_armStates (snd (policyCycle p ps)) arm = Locked"
    and "ps_armStates ps arm \<noteq> Locked \<Longrightarrow> ps_lastMovementTime ps arm = Some t
      \<Longrightarrow> (if cycleAllowed p \<and> ps_autoLockTimeoutMs ps \<le> msOfNs (pin_now p - t)
           then ps_armStates (snd (policyCycle p ps)) arm = Locked
           else ps_armStates (snd (policyCycle p ps)) arm = ps_armStates ps arm
             \<and> ps_lastMovementTime (snd (policyCycle p ps)) arm = Some t)"
    by blast+
qed

lemma policyRun_Cons [simp]: "snd (policyRun (p # pins) ps) = snd (policyRun pins (snd (policyCycle p ps)))"
  by (simp split: prod.split)

lemma rest_run_locked:
  assumes "\<forall>p \<in> set pins. armAtRest (ps_motion ps) arm p" and "ps_armStates ps arm = Locked"
  shows "ps_armStates (snd (policyRun pins ps)) arm = Locked"
  using assms
proof (induction pins arbitrary: ps)
  case (Cons p pins)
  then show ?case
    unfolding policyRun_Cons by (intro Cons.IH) (simp_all add: rest_cycle(1))
qed simp

lemma rest_run:
  assumes "\<forall>p \<in> set pins. armAtRest (ps_motion ps) arm p"
    and "ps_armStates ps arm \<noteq> Locked" and "ps_lastMovementTime ps arm = Some t"
  shows "ps_armStates (snd (policyRun pins ps)) arm =
    (if \<exists>p \<in> set pins. cycleAllowed p \<and> ps_autoLockTimeoutMs ps \<le> msOfNs (pin_now p - t) then Locked else ps_armStates ps arm)"
  using assms
proof (induction pins arbitrary: ps)
  case (Cons p pins)
  let ?ps = "snd (policyCycle p ps)"
  have rest: "\<forall>p \<in> set pins. armAtRest (ps_motion ?ps) arm p" using Cons.prems(1) by simp
  note step = rest_cycle(2) [OF _ Cons.prems(2,3), of p]
  show ?case
  proof (cases "cycleAllowed p \<and> ps_autoLockTimeoutMs ps \<le> msOfNs (pin_now p - t)")
    case True
    with step Cons.prems(1) have "ps_armStates ?ps arm = Locked" by simp
    from rest_run_locked [OF rest this] True show ?thesis
      unfolding policyRun_Cons by auto
  next
    case False
    with step Cons.prems(1) have "ps_armStates ?ps arm = ps_armStates ps arm" "ps_lastMovementTime ?ps arm = Some t" by simp_all
    with Cons.IH [OF rest] Cons.prems(2) False show ?thesis
      unfolding policyRun_Cons by simp
  qed
qed simp

text \<open>C25: with a positive timeout, an arm that a cycle in which motion is allowed leaves unlocked has a
  time \<open>t\<close> recorded that is younger than the timeout: the time of this cycle when a stick of the arm is
  out of its neutral zone, otherwise the one recorded before (this cycle's if there was none). Over any
  cycles that follow in which the arm is at rest - sticks neutral, button up - nothing refreshes \<open>t\<close>:
  the arm is locked at the end if in one of them motion was allowed and the timeout had passed since
  \<open>t\<close>, and has kept its state if not.\<close>

theorem policy_auto_lock:
  assumes "cycleAllowed p" and "0 < ps_autoLockTimeoutMs ps"
    and "ps_armStates (snd (policyCycle p ps)) arm \<noteq> Locked"
    and "\<forall>r \<in> set rest. armAtRest (ps_motion ps) arm r"
  shows "\<exists>t. ps_lastMovementTime (snd (policyCycle p ps)) arm = Some t
    \<and> msOfNs (pin_now p - t) < ps_autoLockTimeoutMs ps
    \<and> t = (if sticksActive (ps_motion ps) (pin_status p) arm then pin_now p
           else case ps_lastMovementTime ps arm of Some t0 \<Rightarrow> t0 | None \<Rightarrow> pin_now p)
    \<and> ps_armStates (snd (policyRun rest (snd (policyCycle p ps)))) arm =
        (if \<exists>r \<in> set rest. cycleAllowed r \<and> ps_autoLockTimeoutMs ps \<le> msOfNs (pin_now r - t)
         then Locked else ps_armStates (snd (policyCycle p ps)) arm)"
proof -
  obtain st t b where v: "lockView (ps_autoLockTimeoutMs ps) (pin_now p)
      (pressView (js_btn (joystickOrNeutral (pin_status p) arm)) (armView ps arm)) = (st, t, b)"
    by (rule prod_cases3)
  then have pressed: "armPressed p ps arm = (st, t, b)" by (simp add: armPressed_def)
  have st: "st \<noteq> Locked" using assms(3) by (simp add: cycle_arm [OF assms(1)] pressed)
  from lockView_fresh [OF assms(2) v this] obtain t0 where t0: "t = Some t0" "msOfNs (pin_now p - t0) < ps_autoLockTimeoutMs ps"
    by blast
  have kept: "t0 = (case ps_lastMovementTime ps arm of Some t0 \<Rightarrow> t0 | None \<Rightarrow> pin_now p)"
    using v st t0(1) by (auto simp: armView_def split: if_splits option.splits)
  let ?t = "if sticksActive (ps_motion ps) (pin_status p) arm then pin_now p else t0"
  have last: "ps_lastMovementTime (snd (policyCycle p ps)) arm = Some ?t"
    by (simp add: cycle_arm [OF assms(1)] pressed st t0(1))
  moreover have "msOfNs (pin_now p - ?t) < ps_autoLockTimeoutMs ps"
    using t0(2) assms(2) by (simp add: msOfNs_def)
  ultimately show ?thesis
    using rest_run [of rest "snd (policyCycle p ps)" arm ?t] assms(3,4) kept by auto
qed

text \<open>The left arm moves at full deflection, then its stick is released: still Slow after nine seconds,
  Locked after eleven.\<close>

lemma leftCycle_rest: "armAtRest defaultMotion Left (leftCycle now 0 False)" "cycleAllowed (leftCycle now x b)"
  by (simp_all add: armAtRest_def sticksActive_def armSticks_def leftCycle_def readyStatus_def leftStick_def
      joystickOrNeutral_def clampAxis_def clampUnit_def defaultMotion_def defaultAxisConfig_def cycleAllowed_def sample_ready [unfolded readyStatus_def])

theorem policy_auto_lock_witness:
  "let ps = snd (policyCycle (leftCycle 0 1 False) (leftArmIn Slow)) in
     ps_armStates ps Left = Slow
     \<and> ps_armStates (snd (policyRun [leftCycle 9000000000 0 False] ps)) Left = Slow
     \<and> ps_armStates (snd (policyRun [leftCycle 9000000000 0 False, leftCycle 11000000000 0 False] ps)) Left = Locked"
proof -
  let ?p = "leftCycle 0 1 False" and ?ps = "leftArmIn Slow"
  have slow: "ps_armStates (snd (policyCycle ?p ?ps)) Left = Slow"
    unfolding cycle_arm(1) [OF leftCycle_rest(2)] by (simp add: armPressed_def armView_def sample_defs joystickOrNeutral_def)
  have active: "sticksActive (ps_motion ?ps) (pin_status ?p) Left"
    by (simp add: sticksActive_def armSticks_def sample_defs joystickOrNeutral_def clampAxis_def clampUnit_def defaultMotion_def defaultAxisConfig_def)
  have run: "ps_armStates (snd (policyRun rest (snd (policyCycle ?p ?ps)))) Left =
      (if \<exists>r \<in> set rest. cycleAllowed r \<and> 10000 \<le> msOfNs (pin_now r) then Locked else Slow)"
    if "\<forall>r \<in> set rest. armAtRest defaultMotion Left r" for rest
    using policy_auto_lock [OF leftCycle_rest(2), where ps = ?ps and arm = Left and rest = rest] that slow active
    by (auto simp: leftArmIn_def samplePolicy_def initialPolicy_def leftCycle_def)
  from slow run [of "[leftCycle 9000000000 0 False]"] run [of "[leftCycle 9000000000 0 False, leftCycle 11000000000 0 False]"]
  show ?thesis
    by (simp add: leftCycle_rest msOfNs_def leftCycle_def [THEN arg_cong, of pin_now])
qed

text \<open>The last movement time outlives a lock made with the button: when it is older than
  the timeout, the button press that unlocks the arm is undone in the same cycle.\<close>

theorem policy_stale_unlock:
  assumes "motionAllowed inputs contecState status"
    and "ps_armStates ps arm = Locked" and "ps_lastMovementTime ps arm = Some t"
    and "ps_autoLockTimeoutMs ps \<le> msOfNs (now - t)"
    and "js_btn (joystickOrNeutral status arm)" and "\<not> ps_prevButtonState ps arm"
  shows "ps_armStates (snd (decide now inputs outputs contecState status ps)) arm = Locked"
  using assms(2-6) by (simp add: decide_allowed_result(3) [OF assms(1)] beforeAxes_arm armView_def)

theorem policy_stale_unlock_witness:
  "ps_armStates (snd (policyCycle (leftCycle 20000000000 0 True)
     (samplePolicy\<lparr>ps_lastMovementTime := [Left \<mapsto> 0]\<rparr>))) Left = Locked"
  using policy_stale_unlock [OF sample_ready, of "samplePolicy\<lparr>ps_lastMovementTime := [Left \<mapsto> 0]\<rparr>" Left 0
      20000000000 "leftStick 0 True" None]
  by (simp add: policyCycle_def leftCycle_def samplePolicy_def initialPolicy_def msOfNs_def
      joystickOrNeutral_def readyStatus_def leftStick_def)

section \<open>Motors that are moving when a cycle is cut short\<close>

text \<open>C26: while motion is not allowed (I/O unit, motor control or control panel down, a panel
  button missing, or an alarm on any motor), the policy emits no intent at all, in particular
  no stop for a motor that is moving, and it still records that motor as moving afterwards.\<close>

theorem policy_outage_keeps_motors:
  assumes "\<forall>p \<in> set pins. \<not> motionAllowed (pin_inputs p) (pin_contec p) (pin_status p)"
  shows "fst (policyRun pins ps) = [] \<and> ps_motorRuntime (snd (policyRun pins ps)) = ps_motorRuntime ps
    \<and> ps_armStates (snd (policyRun pins ps)) = ps_armStates ps"
  using assms
proof (induction pins arbitrary: ps)
  case (Cons p pins)
  then have blocked: "\<not> motionAllowed (pin_inputs p) (pin_contec p) (pin_status p)"
    by simp
  obtain d ps1 where c: "policyCycle p ps = (d, ps1)" by fastforce
  have d: "cd_motorIntents d = []"
    using decide_blocked(1) [OF blocked] c by (metis fst_conv policyCycle_def)
  obtain w where "ps1 = ps\<lparr>ps_warning := w\<rparr>"
    using decide_blocked(2) [OF blocked] c by (metis policyCycle_def snd_conv)
  then show ?case
    using Cons.IH [of ps1] Cons.prems by (simp add: c d split: prod.split)
qed simp

theorem policy_outage_keeps_motors_witness:
  "fst (policyRun [(leftCycle 0 1 False)\<lparr>pin_contec := ComponentState.Error\<rparr>] (leftDriving Fast)) = []
   \<and> pm_wasActive (ps_motorRuntime (snd (policyRun
       [(leftCycle 0 1 False)\<lparr>pin_contec := ComponentState.Error\<rparr>] (leftDriving Fast))) XLeft)"
proof -
  have "\<forall>p \<in> set [(leftCycle 0 1 False)\<lparr>pin_contec := ComponentState.Error\<rparr>].
      \<not> motionAllowed (pin_inputs p) (pin_contec p) (pin_status p)"
    by (simp add: motionAllowed_def leftCycle_def)
  from policy_outage_keeps_motors [OF this, of "leftDriving Fast"] show ?thesis
    by (simp add: leftDriving_def drivingX_def del: policyRun.simps)
qed

text \<open>Shifting an arm from Slow to Fast does not reach a motor that is already moving: as
  long as the joystick stays within the update threshold of the value last sent, in the same
  direction, the cycle has no intent for that motor, so it keeps the slow speed.\<close>

theorem policy_shift_not_applied:
  assumes "motionAllowed inputs contecState status"
    and "(m, ax, cfg, arm) \<in> set (cycleAxes status ps)"
    and "ps_armStates ps arm = Slow" and "js_btn (joystickOrNeutral status arm)"
    and "\<not> ps_prevButtonState ps arm"
    and "ps_lastMovementTime ps arm = Some t" and "msOfNs (now - t) < ps_autoLockTimeoutMs ps"
    and "ps_motorRuntime ps m = \<lparr>pm_wasActive = True, pm_hasLastAxis = True, pm_lastAxis = v,
      pm_lastDirection = Some (if 0 \<le> clampAxis ax then Forward else Reverse)\<rparr>"
    and "ac_neutralAxisActivationThreshold cfg \<le> \<bar>clampAxis ax\<bar>"
    and "\<bar>clampAxis ax - v\<bar> < ac_speedUpdateAxisDeltaThreshold cfg"
  shows "ps_armStates (snd (decide now inputs outputs contecState status ps)) arm = Fast
    \<and> motorEvents m (cd_motorIntents (fst (decide now inputs outputs contecState status ps))) = []"
proof -
  note res = decide_allowed_result [OF assms(1)]
  have fast: "ps_armStates (beforeAxes now status ps) arm = Fast"
    using assms(3-7) by (simp add: beforeAxes_arm armView_def)
  have run: "ps_motorRuntime (beforeAxes now status ps) m = ps_motorRuntime ps m"
    by simp
  have "axisIntents now m ax cfg arm (beforeAxes now status ps) = []"
    using assms(9,10) by (simp add: axis_defs fast run assms(8) newIntent_def)
  moreover have "distinct (map fst (cycleAxes status ps))"
    by (simp add: cycleAxes_def drivenAxes_distinct)
  ultimately show ?thesis
    by (simp add: res(1,3) fast motorEvents_concat(1) [OF _ assms(2)]) (simp add: motorEvents_def)
qed

theorem policy_shift_not_applied_witness:
  "motorEvents XLeft (cd_motorIntents (fst (policyCycle (leftCycle 0 1 True)
     ((leftDriving Slow)\<lparr>ps_lastMovementTime := [Left \<mapsto> 0]\<rparr>)))) = []"
  using policy_shift_not_applied [OF sample_ready, of XLeft 1 defaultAxisConfig Left "leftStick 1 True"
      "(leftDriving Slow)\<lparr>ps_lastMovementTime := [Left \<mapsto> 0]\<rparr>" 0 0 1 None]
  by (simp add: policyCycle_def sample_defs cycleAxes_def drivenAxes_def joystickOrNeutral_def
      defaultMotion_def defaultAxisConfig_def clampAxis_def clampUnit_def msOfNs_def)

end
