(* ===== verification/Joystick.thy ===== *)
theory Joystick
  imports Prelude
begin

text \<open>
  The signal processing of one joystick (\<^verbatim>\<open>Server/src/JoystickAxisProcessor.cpp\<close>): a moving
  average of each axis, the baseline taken from the first samples after a reset, and the
  debounced button. The three \<^verbatim>\<open>std::size_t\<close> parameters and counters are naturals, the windows
  (\<^verbatim>\<open>std::deque\<close>) lists with the oldest sample first, the doubles reals.
\<close>

record JoystickAxisProcessor =
  jp_movingAverageDepth :: nat
  jp_baselineSamples :: nat
  jp_buttonDebounceSamples :: nat
  jp_xWindow :: "real list"
  jp_yWindow :: "real list"
  jp_xWindowSum :: real
  jp_yWindowSum :: real
  jp_baselineX :: real
  jp_baselineY :: real
  jp_baselineXAcc :: real
  jp_baselineYAcc :: real
  jp_baselineCount :: nat
  jp_baselineReady :: bool
  jp_bStable :: bool
  jp_bPending :: bool
  jp_bPendingCount :: nat

record JoystickOutput =
  jo_x :: real
  jo_y :: real
  jo_button :: bool

definition clipToUnitRange :: "real \<Rightarrow> real" where
  "clipToUnitRange v = clampUnit v"

definition jpReset :: "JoystickAxisProcessor \<Rightarrow> JoystickAxisProcessor" where
  "jpReset p = p\<lparr>jp_xWindow := [], jp_yWindow := [], jp_xWindowSum := 0, jp_yWindowSum := 0,
     jp_baselineX := 512, jp_baselineY := 512, jp_baselineXAcc := 0, jp_baselineYAcc := 0,
     jp_baselineCount := 0, jp_baselineReady := False, jp_bStable := False, jp_bPending := False,
     jp_bPendingCount := 0\<rparr>"

definition jpReconfigure :: "nat \<Rightarrow> nat \<Rightarrow> nat \<Rightarrow> JoystickAxisProcessor \<Rightarrow> JoystickAxisProcessor" where
  "jpReconfigure depth baseline debounce p =
     jpReset (p\<lparr>jp_movingAverageDepth := max 1 depth, jp_baselineSamples := max 1 baseline,
                jp_buttonDebounceSamples := max 1 debounce\<rparr>)"

text \<open>The four stages of \<^verbatim>\<open>process\<close>.\<close>

definition accumulateBaseline :: "real \<Rightarrow> real \<Rightarrow> JoystickAxisProcessor \<Rightarrow> JoystickAxisProcessor" where
  "accumulateBaseline x y p =
     (if jp_baselineReady p then p
      else let q = p\<lparr>jp_baselineXAcc := jp_baselineXAcc p + x, jp_baselineYAcc := jp_baselineYAcc p + y,
                     jp_baselineCount := jp_baselineCount p + 1\<rparr>
           in if jp_baselineSamples q \<le> jp_baselineCount q
              then q\<lparr>jp_baselineX := jp_baselineXAcc q / real (jp_baselineCount q),
                     jp_baselineY := jp_baselineYAcc q / real (jp_baselineCount q),
                     jp_baselineReady := True\<rparr>
              else q)"

definition pushWindow :: "nat \<Rightarrow> real \<Rightarrow> real list \<Rightarrow> real \<Rightarrow> real list \<times> real" where
  "pushWindow depth v w acc =
     (let w1 = w @ [v]; acc1 = acc + v
      in if depth < length w1 then (tl w1, acc1 - hd w1) else (w1, acc1))"

definition averageAxes :: "real \<Rightarrow> real \<Rightarrow> JoystickAxisProcessor \<Rightarrow> JoystickAxisProcessor" where
  "averageAxes x y p =
     (let (xw, xs) = pushWindow (jp_movingAverageDepth p) x (jp_xWindow p) (jp_xWindowSum p);
          (yw, ys) = pushWindow (jp_movingAverageDepth p) y (jp_yWindow p) (jp_yWindowSum p)
      in p\<lparr>jp_xWindow := xw, jp_xWindowSum := xs, jp_yWindow := yw, jp_yWindowSum := ys\<rparr>)"

definition debounceButton :: "bool \<Rightarrow> JoystickAxisProcessor \<Rightarrow> JoystickAxisProcessor" where
  "debounceButton raw p =
     (if raw = jp_bStable p then p\<lparr>jp_bPending := jp_bStable p, jp_bPendingCount := 0\<rparr>
      else let q = (if raw = jp_bPending p then p\<lparr>jp_bPendingCount := jp_bPendingCount p + 1\<rparr>
                    else p\<lparr>jp_bPending := raw, jp_bPendingCount := 1\<rparr>)
           in if jp_buttonDebounceSamples q \<le> jp_bPendingCount q
              then q\<lparr>jp_bStable := jp_bPending q, jp_bPendingCount := 0\<rparr> else q)"

definition process :: "real \<Rightarrow> real \<Rightarrow> bool \<Rightarrow> JoystickAxisProcessor \<Rightarrow> JoystickOutput \<times> JoystickAxisProcessor" where
  "process xRaw yRaw buttonRaw p =
     (let p1 = averageAxes xRaw yRaw (accumulateBaseline xRaw yRaw p);
          xFiltered = jp_xWindowSum p1 / real (length (jp_xWindow p1));
          yFiltered = jp_yWindowSum p1 / real (length (jp_yWindow p1));
          xOut = (if jp_baselineReady p1 then clipToUnitRange ((xFiltered - jp_baselineX p1) / 512) else 0);
          yOut = (if jp_baselineReady p1 then clipToUnitRange ((yFiltered - jp_baselineY p1) / 512) else 0);
          p2 = debounceButton buttonRaw p1
      in (\<lparr>jo_x = xOut, jo_y = yOut, jo_button = jp_bStable p2\<rparr>, p2))"

section \<open>Well-formedness\<close>

definition jpOk :: "JoystickAxisProcessor \<Rightarrow> bool" where
  "jpOk p = (1 \<le> jp_movingAverageDepth p \<and> 1 \<le> jp_baselineSamples p \<and> 1 \<le> jp_buttonDebounceSamples p
     \<and> length (jp_xWindow p) \<le> jp_movingAverageDepth p \<and> length (jp_yWindow p) \<le> jp_movingAverageDepth p
     \<and> jp_xWindowSum p = sum_list (jp_xWindow p) \<and> jp_yWindowSum p = sum_list (jp_yWindow p)
     \<and> (\<not> jp_baselineReady p \<longrightarrow> jp_baselineCount p < jp_baselineSamples p)
     \<and> (jp_bPending p = jp_bStable p \<longrightarrow> jp_bPendingCount p = 0)
     \<and> jp_bPendingCount p < jp_buttonDebounceSamples p)"

lemma jpReconfigure_ok: "jpOk (jpReconfigure d b k p)"
  by (simp add: jpOk_def jpReconfigure_def jpReset_def less_max_iff_disj)

lemma pushWindow_ok:
  assumes "1 \<le> d" and "length w \<le> d"
  shows "length (fst (pushWindow d v w (sum_list w))) \<le> d"
    and "fst (pushWindow d v w (sum_list w)) \<noteq> []"
    and "snd (pushWindow d v w (sum_list w)) = sum_list (fst (pushWindow d v w (sum_list w)))"
  using assms by (cases w; auto simp: pushWindow_def Let_def)+

text \<open>The window after a sample: the last \<open>d\<close> samples.\<close>

lemma pushWindow_last:
  assumes "length w \<le> d" and "1 \<le> d"
  shows "fst (pushWindow d v w s) = drop (Suc (length w) - d) (w @ [v])"
proof (cases "length w = d")
  case True
  then show ?thesis using assms by (cases w) (auto simp: pushWindow_def drop_Suc Let_def)
next
  case False
  then show ?thesis using assms by (simp add: pushWindow_def Let_def)
qed

lemma debounce_ok:
  assumes "jpOk p"
  shows "jpOk (debounceButton raw p)"
  using assms by (auto simp: jpOk_def debounceButton_def Let_def)

lemma accumulate_ok: "jpOk p \<Longrightarrow> jpOk (accumulateBaseline x y p)"
  by (auto simp: jpOk_def accumulateBaseline_def Let_def)

lemma average_ok: "jpOk p \<Longrightarrow> jpOk (averageAxes x y p)"
  using pushWindow_ok [of "jp_movingAverageDepth p" "jp_xWindow p" x]
    pushWindow_ok [of "jp_movingAverageDepth p" "jp_yWindow p" y]
  by (auto simp: jpOk_def averageAxes_def split: prod.split)

lemma process_ok: "jpOk p \<Longrightarrow> jpOk (snd (process x y b p))"
  by (simp add: process_def Let_def debounce_ok average_ok accumulate_ok)

lemma process_range:
  "\<bar>jo_x (fst (process x y b p))\<bar> \<le> 1 \<and> \<bar>jo_y (fst (process x y b p))\<bar> \<le> 1"
  by (simp add: process_def Let_def clipToUnitRange_def clampUnit_abs)

section \<open>Runs of samples\<close>

type_synonym Sample = "real \<times> real \<times> bool"

definition jpStep :: "Sample \<Rightarrow> JoystickAxisProcessor \<Rightarrow> JoystickAxisProcessor" where
  "jpStep s p = (case s of (x, y, b) \<Rightarrow> snd (process x y b p))"

lemma jpStep_ok: "jpOk p \<Longrightarrow> jpOk (jpStep s p)"
  by (cases s) (simp add: jpStep_def process_ok)

lemma fold_jpStep_ok: "jpOk p \<Longrightarrow> jpOk (fold jpStep ss p)"
  by (induction ss arbitrary: p) (simp_all add: jpStep_ok)

lemma process_keep [simp]:
  "jp_movingAverageDepth (jpStep s p) = jp_movingAverageDepth p"
  "jp_baselineSamples (jpStep s p) = jp_baselineSamples p"
  "jp_buttonDebounceSamples (jpStep s p) = jp_buttonDebounceSamples p"
  by (cases s; simp add: jpStep_def process_def Let_def debounceButton_def averageAxes_def
      accumulateBaseline_def split: prod.split)+

lemma fold_jpStep_keep [simp]:
  "jp_movingAverageDepth (fold jpStep ss p) = jp_movingAverageDepth p"
  "jp_baselineSamples (fold jpStep ss p) = jp_baselineSamples p"
  "jp_buttonDebounceSamples (fold jpStep ss p) = jp_buttonDebounceSamples p"
  by (induction ss arbitrary: p) simp_all

lemma step_window:
  "jp_xWindow (jpStep (x, y, b) p) = fst (pushWindow (jp_movingAverageDepth p) x (jp_xWindow p) (jp_xWindowSum p))"
  "jp_yWindow (jpStep (x, y, b) p) = fst (pushWindow (jp_movingAverageDepth p) y (jp_yWindow p) (jp_yWindowSum p))"
  by (simp_all add: jpStep_def process_def Let_def debounceButton_def averageAxes_def
      accumulateBaseline_def split: prod.split)

text \<open>The last \<open>n\<close> elements of a list.\<close>

definition lastN :: "nat \<Rightarrow> 'a list \<Rightarrow> 'a list" where
  "lastN n xs = drop (length xs - n) xs"

lemma lastN_snoc: "1 \<le> n \<Longrightarrow> lastN n (xs @ [x]) = drop (Suc (length (lastN n xs)) - n) (lastN n xs @ [x])"
  by (cases "length xs < n") (simp_all add: lastN_def Suc_diff_le)

lemma lastN_length: "length (lastN n xs) \<le> n"
  by (simp add: lastN_def)

lemma window_is_lastN:
  assumes "jpOk p" and "jp_xWindow p = []" and "jp_yWindow p = []"
  shows "jp_xWindow (fold jpStep ss p) = lastN (jp_movingAverageDepth p) (map fst ss)
    \<and> jp_yWindow (fold jpStep ss p) = lastN (jp_movingAverageDepth p) (map (fst \<circ> snd) ss)"
proof (induction ss rule: rev_induct)
  case Nil
  then show ?case by (simp add: assms lastN_def)
next
  case (snoc s ss)
  have d: "1 \<le> jp_movingAverageDepth p"
    using assms(1) by (simp add: jpOk_def)
  obtain x y b where s: "s = (x, y, b)" by (cases s)
  show ?case
    using snoc by (simp add: s step_window pushWindow_last [OF lastN_length d] lastN_snoc [OF d])
qed

text \<open>The baseline: the mean of the first samples.\<close>

lemma baseline_run:
  assumes "jpOk p" and "\<not> jp_baselineReady p" and "jp_baselineCount p = 0"
    and "jp_baselineXAcc p = 0" and "jp_baselineYAcc p = 0"
  defines "n \<equiv> jp_baselineSamples p"
  shows "(if length ss < n then \<not> jp_baselineReady (fold jpStep ss p)
        \<and> jp_baselineCount (fold jpStep ss p) = length ss
        \<and> jp_baselineXAcc (fold jpStep ss p) = sum_list (map fst ss)
        \<and> jp_baselineYAcc (fold jpStep ss p) = sum_list (map (fst \<circ> snd) ss)
      else jp_baselineReady (fold jpStep ss p)
        \<and> jp_baselineX (fold jpStep ss p) = sum_list (map fst (take n ss)) / real n
        \<and> jp_baselineY (fold jpStep ss p) = sum_list (map (fst \<circ> snd) (take n ss)) / real n)"
proof (induction ss rule: rev_induct)
  case Nil
  then show ?case using assms by (simp add: jpOk_def)
next
  case (snoc s ss)
  obtain x y b where s: "s = (x, y, b)" by (cases s)
  let ?q = "fold jpStep ss p"
  have base: "jp_baselineReady (jpStep s q) = jp_baselineReady (accumulateBaseline x y q)"
    "jp_baselineCount (jpStep s q) = jp_baselineCount (accumulateBaseline x y q)"
    "jp_baselineXAcc (jpStep s q) = jp_baselineXAcc (accumulateBaseline x y q)"
    "jp_baselineYAcc (jpStep s q) = jp_baselineYAcc (accumulateBaseline x y q)"
    "jp_baselineX (jpStep s q) = jp_baselineX (accumulateBaseline x y q)"
    "jp_baselineY (jpStep s q) = jp_baselineY (accumulateBaseline x y q)" for q
    by (simp_all add: s jpStep_def process_def Let_def debounceButton_def averageAxes_def split: prod.split)
  have keep: "jp_baselineSamples p = n"
    by (simp add: n_def)
  consider "Suc (length ss) < n" | "Suc (length ss) = n" | "n \<le> length ss"
    by linarith
  then show ?case
    using snoc by cases (auto simp: base [unfolded s] accumulateBaseline_def Let_def keep s)
qed

section \<open>Debouncing\<close>

lemma debounce_fields:
  "jp_bStable (debounceButton b p) = (if b = jp_bStable p then jp_bStable p
     else if b = jp_bPending p then (if jp_buttonDebounceSamples p \<le> Suc (jp_bPendingCount p) then b else jp_bStable p)
     else if jp_buttonDebounceSamples p \<le> 1 then b else jp_bStable p)"
  "jp_bPendingCount (debounceButton b p) = (if b = jp_bStable p then 0
     else if b = jp_bPending p then (if jp_buttonDebounceSamples p \<le> Suc (jp_bPendingCount p) then 0 else Suc (jp_bPendingCount p))
     else if jp_buttonDebounceSamples p \<le> 1 then 0 else 1)"
  by (simp_all add: debounceButton_def Let_def)

lemma button_untouched [simp]:
  "jp_bStable (averageAxes x y p) = jp_bStable p" "jp_bStable (accumulateBaseline x y p) = jp_bStable p"
  "jp_bPending (averageAxes x y p) = jp_bPending p" "jp_bPending (accumulateBaseline x y p) = jp_bPending p"
  "jp_bPendingCount (averageAxes x y p) = jp_bPendingCount p"
  "jp_bPendingCount (accumulateBaseline x y p) = jp_bPendingCount p"
  "jp_buttonDebounceSamples (averageAxes x y p) = jp_buttonDebounceSamples p"
  "jp_buttonDebounceSamples (accumulateBaseline x y p) = jp_buttonDebounceSamples p"
  by (simp_all add: averageAxes_def accumulateBaseline_def Let_def split: prod.split)

lemma step_button:
  "jp_bStable (jpStep (x, y, b) p) = jp_bStable (debounceButton b p)"
  "jp_bPendingCount (jpStep (x, y, b) p) = jp_bPendingCount (debounceButton b p)"
  by (simp_all add: jpStep_def process_def Let_def debounce_fields)

lemma debounce_cases:
  assumes "jpOk p"
  shows "jp_bStable (debounceButton b p) =
      (if b \<noteq> jp_bStable p \<and> jp_buttonDebounceSamples p \<le> Suc (jp_bPendingCount p) then b else jp_bStable p)"
    and "jp_bPendingCount (debounceButton b p) =
      (if b = jp_bStable p \<or> jp_buttonDebounceSamples p \<le> Suc (jp_bPendingCount p) then 0
       else Suc (jp_bPendingCount p))"
  using assms by (auto simp: debounce_fields jpOk_def)

text \<open>The pending count is the number of raw samples in a row that differ from the output.\<close>

lemma pending_run:
  assumes "jpOk p" and "jp_bPendingCount p = 0"
  shows "jp_bPendingCount (fold jpStep ss p) \<le> length ss
    \<and> (\<forall>s \<in> set (lastN (jp_bPendingCount (fold jpStep ss p)) ss). snd (snd s) = (\<not> jp_bStable (fold jpStep ss p)))"
proof (induction ss rule: rev_induct)
  case Nil
  then show ?case using assms by (simp add: lastN_def)
next
  case (snoc s ss)
  obtain x y b where s: "s = (x, y, b)" by (cases s)
  let ?q = "fold jpStep ss p"
  have ok: "jpOk ?q" by (rule fold_jpStep_ok [OF assms(1)])
  have snoc_last: "lastN (Suc (jp_bPendingCount ?q)) (ss @ [r]) = lastN (jp_bPendingCount ?q) ss @ [r]" for r
    using snoc by (simp add: lastN_def)
  have zero: "lastN 0 r = []" for r :: "Sample list"
    by (simp add: lastN_def)
  show ?case
    using snoc by (simp add: s step_button debounce_cases [OF ok] snoc_last zero)
qed

lemma stable_flip:
  assumes "jpOk p" and "jp_bPendingCount p = 0"
    and "jp_bStable (fold jpStep (ss @ [s]) p) \<noteq> jp_bStable (fold jpStep ss p)"
  shows "jp_buttonDebounceSamples p \<le> Suc (length ss)
    \<and> (\<forall>r \<in> set (lastN (jp_buttonDebounceSamples p) (ss @ [s])). snd (snd r) = jp_bStable (fold jpStep (ss @ [s]) p))"
proof -
  obtain x y b where s: "s = (x, y, b)" by (cases s)
  let ?q = "fold jpStep ss p"
  have ok: "jpOk ?q" by (rule fold_jpStep_ok [OF assms(1)])
  note run = pending_run [OF assms(1,2), of ss]
  have flip: "jp_bStable (debounceButton b ?q) \<noteq> jp_bStable ?q"
    using assms(3) by (simp add: s step_button)
  have dq: "jp_buttonDebounceSamples ?q = jp_buttonDebounceSamples p"
    by simp
  have cnt: "jp_buttonDebounceSamples p = Suc (jp_bPendingCount ?q)" and b: "b \<noteq> jp_bStable ?q"
    using flip ok by (auto simp: debounce_cases [OF ok] jpOk_def split: if_splits)
  have new: "jp_bStable (fold jpStep (ss @ [s]) p) = b"
    using assms(3) b by (simp only: fold_append fold_simps comp_apply) (cases b; simp)
  have last: "lastN (Suc (jp_bPendingCount ?q)) (ss @ [s]) = lastN (jp_bPendingCount ?q) ss @ [s]"
    using run by (simp add: lastN_def)
  then show ?thesis
    using run b unfolding new cnt last by (auto simp: s)
qed

section \<open>What the processor promises\<close>

definition mean :: "real list \<Rightarrow> real" where
  "mean xs = sum_list xs / real (length xs)"

lemma process_outputs:
  "fst (process x y b p) =
     \<lparr>jo_x = (if jp_baselineReady (jpStep (x, y, b) p)
        then clipToUnitRange ((jp_xWindowSum (jpStep (x, y, b) p) / real (length (jp_xWindow (jpStep (x, y, b) p)))
          - jp_baselineX (jpStep (x, y, b) p)) / 512) else 0),
      jo_y = (if jp_baselineReady (jpStep (x, y, b) p)
        then clipToUnitRange ((jp_yWindowSum (jpStep (x, y, b) p) / real (length (jp_yWindow (jpStep (x, y, b) p)))
          - jp_baselineY (jpStep (x, y, b) p)) / 512) else 0),
      jo_button = jp_bStable (jpStep (x, y, b) p)\<rparr>"
proof -
  have "jp_baselineReady (debounceButton b q) = jp_baselineReady q" "jp_xWindowSum (debounceButton b q) = jp_xWindowSum q"
    "jp_yWindowSum (debounceButton b q) = jp_yWindowSum q" "jp_xWindow (debounceButton b q) = jp_xWindow q"
    "jp_yWindow (debounceButton b q) = jp_yWindow q" "jp_baselineX (debounceButton b q) = jp_baselineX q"
    "jp_baselineY (debounceButton b q) = jp_baselineY q" for q
    by (simp_all add: debounceButton_def Let_def)
  then show ?thesis
    by (simp add: process_def jpStep_def Let_def)
qed

text \<open>The configured processor right after \<^verbatim>\<open>reconfigure\<close>.\<close>

lemma reconfigured [simp]:
  "jp_xWindow (jpReconfigure d n k p) = []" "jp_yWindow (jpReconfigure d n k p) = []"
  "\<not> jp_baselineReady (jpReconfigure d n k p)" "jp_baselineCount (jpReconfigure d n k p) = 0"
  "jp_baselineXAcc (jpReconfigure d n k p) = 0" "jp_baselineYAcc (jpReconfigure d n k p) = 0"
  "jp_bPendingCount (jpReconfigure d n k p) = 0" "\<not> jp_bStable (jpReconfigure d n k p)"
  "jp_movingAverageDepth (jpReconfigure d n k p) = max 1 d"
  "jp_baselineSamples (jpReconfigure d n k p) = max 1 n"
  "jp_buttonDebounceSamples (jpReconfigure d n k p) = max 1 k"
  by (simp_all add: jpReconfigure_def jpReset_def)

text \<open>C31: after any sequence of samples fed to a freshly configured processor, each axis
  output is 0 while the baseline is being taken, and from then on the difference between the
  mean of the last \<open>d\<close> samples and the mean of the first \<open>n\<close> samples, in units of 512, clipped
  to [-1, 1].\<close>

theorem joystick_output:
  "jo_x (fst (process x y b (fold jpStep ss (jpReconfigure d n k p0)))) =
      (if Suc (length ss) < max 1 n then 0
       else clampUnit ((mean (lastN (max 1 d) (map fst ss @ [x])) - mean (take (max 1 n) (map fst ss @ [x]))) / 512))
    \<and> jo_y (fst (process x y b (fold jpStep ss (jpReconfigure d n k p0)))) =
      (if Suc (length ss) < max 1 n then 0
       else clampUnit ((mean (lastN (max 1 d) (map (fst \<circ> snd) ss @ [y]))
                        - mean (take (max 1 n) (map (fst \<circ> snd) ss @ [y]))) / 512))"
proof -
  define xs ys where "xs = map fst ss @ [x]" and "ys = map (fst \<circ> snd) ss @ [y]"
  let ?p = "jpReconfigure d n k p0"
  let ?q = "fold jpStep (ss @ [(x, y, b)]) ?p"
  have q: "jpStep (x, y, b) (fold jpStep ss ?p) = ?q"
    by simp
  have ok: "jpOk ?q"
    by (rule fold_jpStep_ok) (rule jpReconfigure_ok)
  have win: "jp_xWindow ?q = lastN (max 1 d) xs" "jp_yWindow ?q = lastN (max 1 d) ys"
    using window_is_lastN [OF jpReconfigure_ok, of d n k p0 "ss @ [(x, y, b)]"]
    by (simp_all add: xs_def ys_def del: fold_append)
  have sums: "jp_xWindowSum ?q = sum_list (lastN (max 1 d) xs)" "jp_yWindowSum ?q = sum_list (lastN (max 1 d) ys)"
    using ok win by (simp_all add: jpOk_def)
  have len: "length xs = Suc (length ss)" "length ys = Suc (length ss)"
    by (simp_all add: xs_def ys_def)
  have maps: "map fst (ss @ [(x, y, b)]) = xs" "map (fst \<circ> snd) (ss @ [(x, y, b)]) = ys"
    by (simp_all add: xs_def ys_def)
  note base = baseline_run [OF jpReconfigure_ok, of d n k p0 "ss @ [(x, y, b)]"]
  show ?thesis
  proof (cases "Suc (length ss) < max 1 n")
    case True
    with base have "\<not> jp_baselineReady ?q" by (simp del: fold_append)
    then show ?thesis
      using True by (simp only: process_outputs q if_True if_False JoystickOutput.simps)
  next
    case False
    with base have "jp_baselineReady ?q \<and> jp_baselineX ?q = sum_list (map fst (take (max 1 n) (ss @ [(x, y, b)]))) / real (max 1 n)
      \<and> jp_baselineY ?q = sum_list (map (fst \<circ> snd) (take (max 1 n) (ss @ [(x, y, b)]))) / real (max 1 n)"
      by (simp del: fold_append)
    then have rdy: "jp_baselineReady ?q" "jp_baselineX ?q = mean (take (max 1 n) xs)"
      "jp_baselineY ?q = mean (take (max 1 n) ys)"
      using False len unfolding take_map [symmetric] maps by (simp_all add: mean_def min_def)
    show ?thesis
      unfolding xs_def [symmetric] ys_def [symmetric]
      using False by (simp only: process_outputs q len rdy win sums if_True if_False JoystickOutput.simps
          clipToUnitRange_def mean_def)
  qed
qed

text \<open>The debounced button of a configured processor changes only on a sample that
  completes a full row of \<open>k\<close> equal raw samples of the new value.\<close>

theorem joystick_debounce:
  assumes "jo_button (fst (process x y b (fold jpStep ss (jpReconfigure d n k p0))))
    \<noteq> jp_bStable (fold jpStep ss (jpReconfigure d n k p0))"
  shows "max 1 k \<le> Suc (length ss)
    \<and> (\<forall>r \<in> set (lastN (max 1 k) (ss @ [(x, y, b)])). snd (snd r) =
        jo_button (fst (process x y b (fold jpStep ss (jpReconfigure d n k p0)))))"
  using stable_flip [OF jpReconfigure_ok, of d n k p0 ss "(x, y, b)"] assms
  by (simp add: process_outputs)

theorem joystick_debounce_witness:
  "\<exists>p. jo_button (fst (process 512 512 True (fold jpStep [(512, 512, True)] (jpReconfigure 1 1 2 p))))
    \<and> (\<forall>r \<in> set (lastN 2 [(512, 512, True), (512 :: real, 512 :: real, True)]). snd (snd r))"
proof -
  let ?p0 = "jpReconfigure 1 1 2 undefined"
  have flip: "jo_button (fst (process 512 512 True (fold jpStep [(512, 512, True)] ?p0))) = True"
    "jp_bStable (fold jpStep [(512, 512, True)] ?p0) = False"
    by (simp_all add: process_outputs step_button debounce_cases [OF jpStep_ok [OF jpReconfigure_ok]]
        debounce_cases [OF jpReconfigure_ok])
  from joystick_debounce [of 512 512 True "[(512, 512, True)]" 1 1 2 undefined] flip show ?thesis
    by (intro exI [of _ undefined]) (simp add: numeral_2_eq_2)
qed

end
