(* ===== verification/Panel.thy ===== *)
theory Panel
  imports Joystick Domain
begin

text \<open>
  The control panel component (\<^verbatim>\<open>Server/src/ControlPanel.cpp\<close>): it opens the serial channel,
  reads text lines of nine numbers (x, y, button for each of the three joysticks) in a reader
  thread, feeds them to three \<open>JoystickAxisProcessor\<close>s and publishes the results.

  The channel \<^verbatim>\<open>IControlPanelComm\<close> is an interface: what \<^verbatim>\<open>open\<close> and \<^verbatim>\<open>readLine\<close> answer is an
  input of the operations, \<open>cp_commOpen\<close> records whether it is open. The reader thread is the
  sequence of answers it gets, one \<open>ReaderEvent\<close> per iteration, interleaved with the calls of
  the owner; arrays of three are lists of length three.
\<close>

section \<open>Text of a line\<close>

definition isSpace :: "char \<Rightarrow> bool" where
  "isSpace c = (c \<in> {CHR '' '', CHR 0x09, CHR 0x0A, CHR 0x0B, CHR 0x0C, CHR 0x0D})"

definition isLineEnd :: "char \<Rightarrow> bool" where
  "isLineEnd c = (c \<in> {CHR 0x0D, CHR 0x0A, CHR 0x00})"

definition sanitizeLine :: "string \<Rightarrow> string" where
  "sanitizeLine line = dropWhile isLineEnd (rev (dropWhile isLineEnd (rev line)))"

text \<open>\<^verbatim>\<open>iss >> token\<close>, \<open>n\<close> times: \<open>None\<close> when an extraction fails.\<close>

fun readTokens :: "nat \<Rightarrow> string \<Rightarrow> string list option" where
  "readTokens 0 s = Some []"
| "readTokens (Suc n) s =
     (let t = dropWhile isSpace s; tok = takeWhile (\<lambda>c. \<not> isSpace c) t
      in if t = [] then None
         else case readTokens n (dropWhile (\<lambda>c. \<not> isSpace c) t) of
           None \<Rightarrow> None | Some toks \<Rightarrow> Some (tok # toks))"

definition isDigit :: "char \<Rightarrow> bool" where
  "isDigit c = (48 \<le> (of_char c :: nat) \<and> (of_char c :: nat) \<le> 57)"

definition digitsValue :: "string \<Rightarrow> int" where
  "digitsValue ds = foldl (\<lambda>a c. 10 * a + (of_char c - 48)) 0 ds"

text \<open>
  \<^verbatim>\<open>std::stoi\<close>: white space, an optional sign, then the longest run of digits; whatever follows
  is ignored. It throws when there is no digit and when the value is not an \<^verbatim>\<open>int\<close>.
\<close>

definition stoi :: "string \<Rightarrow> exn + int" where
  "stoi s =
     (let t = dropWhile isSpace s;
          neg = (t \<noteq> [] \<and> hd t = CHR ''-'');
          u = (if t \<noteq> [] \<and> hd t \<in> {CHR ''-'', CHR ''+''} then tl t else t);
          ds = takeWhile isDigit u;
          v = (if neg then - digitsValue ds else digitsValue ds)
      in if ds = [] then Inl ''stoi''
         else if v < - (2 ^ 31) \<or> 2 ^ 31 \<le> v then Inl ''stoi'' else Inr v)"

text \<open>The values of one joystick: its three tokens, parsed and checked in order.\<close>

fun parseJoystick :: "string list \<Rightarrow> (int \<times> int \<times> bool) option" where
  "parseJoystick [tx, ty, tb] =
     (case (stoi tx, stoi ty, stoi tb) of
       (Inr xv, Inr yv, Inr bv) \<Rightarrow>
         if xv < 0 \<or> 1023 < xv \<or> yv < 0 \<or> 1023 < yv \<or> (bv \<noteq> 0 \<and> bv \<noteq> 1) then None
         else Some (xv, yv, bv = 1)
     | _ \<Rightarrow> None)"
| "parseJoystick _ = None"

definition parseLine :: "string \<Rightarrow> (int \<times> int \<times> bool) list option" where
  "parseLine line =
     (case readTokens 9 line of None \<Rightarrow> None
      | Some toks \<Rightarrow> those [parseJoystick (take 3 toks), parseJoystick (take 3 (drop 3 toks)),
                           parseJoystick (drop 6 toks)])"

section \<open>The component\<close>

record ControlPanel =
  cp_commOpen :: bool
  cp_movingAverageDepth :: nat
  cp_baselineSamples :: nat
  cp_buttonDebounceSamples :: nat
  cp_invertX :: "bool list"
  cp_invertY :: "bool list"
  cp_readerRunning :: bool
  cp_x :: "real list"
  cp_y :: "real list"
  cp_b :: "bool list"
  cp_processors :: "JoystickAxisProcessor list"
  cp_state :: ComponentState

record Snapshot =
  sn_x :: "real list"
  sn_y :: "real list"
  sn_b :: "bool list"

definition getSnapshot :: "ControlPanel \<Rightarrow> Snapshot" where
  "getSnapshot cp = \<lparr>sn_x = cp_x cp, sn_y = cp_y cp, sn_b = cp_b cp\<rparr>"

definition resetSignalProcessingState :: "ControlPanel \<Rightarrow> ControlPanel" where
  "resetSignalProcessingState cp =
     cp\<lparr>cp_x := [0, 0, 0], cp_y := [0, 0, 0], cp_b := [False, False, False],
        cp_processors := map (jpReconfigure (cp_movingAverageDepth cp) (cp_baselineSamples cp)
          (cp_buttonDebounceSamples cp)) (cp_processors cp)\<rparr>"

text \<open>The default-constructed processor: only the parameters are left to the reconfiguration.\<close>

definition freshProcessor :: JoystickAxisProcessor where
  "freshProcessor = \<lparr>jp_movingAverageDepth = 0, jp_baselineSamples = 0, jp_buttonDebounceSamples = 0,
     jp_xWindow = [], jp_yWindow = [], jp_xWindowSum = 0, jp_yWindowSum = 0, jp_baselineX = 512,
     jp_baselineY = 512, jp_baselineXAcc = 0, jp_baselineYAcc = 0, jp_baselineCount = 0,
     jp_baselineReady = False, jp_bStable = False, jp_bPending = False, jp_bPendingCount = 0\<rparr>"

text \<open>The constructor that is given its channel.\<close>

definition makePanel :: "nat \<Rightarrow> nat \<Rightarrow> nat \<Rightarrow> bool list \<Rightarrow> bool list \<Rightarrow> ControlPanel" where
  "makePanel depth baseline debounce invX invY = resetSignalProcessingState
     \<lparr>cp_commOpen = False, cp_movingAverageDepth = max 1 depth, cp_baselineSamples = max 1 baseline,
      cp_buttonDebounceSamples = max 1 debounce, cp_invertX = invX, cp_invertY = invY,
      cp_readerRunning = False, cp_x = [0, 0, 0], cp_y = [0, 0, 0], cp_b = [False, False, False],
      cp_processors = [freshProcessor, freshProcessor, freshProcessor], cp_state = ComponentState.Error\<rparr>"

definition panelReset :: "ControlPanel \<Rightarrow> ControlPanel" where
  "panelReset cp = cp\<lparr>cp_state := ComponentState.Error, cp_readerRunning := False, cp_commOpen := False\<rparr>"

text \<open>\<open>initialize\<close>; \<open>openRes\<close> is what \<^verbatim>\<open>_comm->open()\<close> does. Starting the thread does not fail.\<close>

definition panelInitialize :: "exn + unit \<Rightarrow> (ControlPanel, unit) act" where
  "panelInitialize openRes =
     thenA (modifyA panelReset)
       (catchA
         (case openRes of
            Inl e \<Rightarrow> throwA e
          | Inr _ \<Rightarrow> thenA (modifyA (\<lambda>cp. cp\<lparr>cp_commOpen := True\<rparr>))
              (modifyA (\<lambda>cp. (resetSignalProcessingState cp)\<lparr>cp_readerRunning := True, cp_state := Normal\<rparr>)))
         (\<lambda>e. thenA (modifyA (\<lambda>cp. cp\<lparr>cp_commOpen := False, cp_state := ComponentState.Error\<rparr>)) (throwA e)))"

text \<open>One valid line: joystick \<open>i\<close> gets its sample and its outputs are published.\<close>

definition feedJoystick :: "nat \<Rightarrow> int \<times> int \<times> bool \<Rightarrow> ControlPanel \<Rightarrow> ControlPanel" where
  "feedJoystick i sample cp =
     (case sample of (xv, yv, bv) \<Rightarrow>
       (case process (real_of_int xv) (real_of_int yv) bv (cp_processors cp ! i) of (out, p) \<Rightarrow>
         cp\<lparr>cp_processors := (cp_processors cp)[i := p],
            cp_x := (cp_x cp)[i := (if cp_invertX cp ! i then - jo_x out else jo_x out)],
            cp_y := (cp_y cp)[i := (if cp_invertY cp ! i then - jo_y out else jo_y out)],
            cp_b := (cp_b cp)[i := jo_button out]\<rparr>))"

definition processLine :: "string \<Rightarrow> ControlPanel \<Rightarrow> ControlPanel" where
  "processLine line cp =
     (case parseLine line of None \<Rightarrow> cp
      | Some js \<Rightarrow> fold (\<lambda>(i, s). feedJoystick i s) (zip [0 ..< 3] js) cp)"

datatype ReaderEvent = NoLine | Line string | ReadFailed exn

text \<open>One iteration of \<open>readerLoop\<close>; a stopped reader does nothing.\<close>

definition readerStep :: "ReaderEvent \<Rightarrow> ControlPanel \<Rightarrow> ControlPanel" where
  "readerStep ev cp =
     (if \<not> cp_readerRunning cp then cp
      else case ev of
        NoLine \<Rightarrow> cp
      | Line line \<Rightarrow> (let l = sanitizeLine line in if l = [] then cp else processLine l cp)
      | ReadFailed e \<Rightarrow> cp\<lparr>cp_state := ComponentState.Error, cp_readerRunning := False, cp_commOpen := False\<rparr>)"

text \<open>What can happen to the component: its owner's calls and the reader's iterations.\<close>

datatype PanelOp = PInit "exn + unit" | PReset | PRead ReaderEvent

fun panelStep :: "PanelOp \<Rightarrow> ControlPanel \<Rightarrow> ControlPanel" where
  "panelStep (PInit r) cp = snd (panelInitialize r cp)"
| "panelStep PReset cp = panelReset cp"
| "panelStep (PRead ev) cp = readerStep ev cp"

section \<open>Numbers and tokens\<close>

lemma of_char_digit: "d < 10 \<Longrightarrow> (of_char (char_of (48 + d :: nat)) :: nat) = 48 + d"
  by (simp add: of_char_of)

lemma isDigit_decNat: "c \<in> set (decNat n) \<Longrightarrow> isDigit c"
proof (induction n arbitrary: c rule: decNat.induct)
  case (1 n)
  then show ?case
    by (subst (asm) decNat.simps) (auto simp: isDigit_def of_char_digit split: if_splits)
qed

lemma decNat_ne [simp]: "decNat n \<noteq> []"
  by (subst decNat.simps) simp

lemma digitsValue_snoc: "digitsValue (ds @ [c]) = 10 * digitsValue ds + (of_char c - 48)"
  by (simp add: digitsValue_def)

lemma of_char_int: "(of_char c :: int) = int (of_char c)"
  by (simp add: of_char_def)

lemma digitsValue_decNat: "digitsValue (decNat n) = int n"
proof (induction n rule: decNat.induct)
  case (1 n)
  have d: "n mod 10 < 10" by simp
  show ?case
  proof (cases "n < 10")
    case True
    then show ?thesis
      by (subst decNat.simps) (simp add: digitsValue_def of_char_int of_char_digit)
  next
    case False
    then have "digitsValue (decNat n) = 10 * int (n div 10) + int (n mod 10)"
      using 1 by (subst decNat.simps) (simp add: digitsValue_snoc of_char_int of_char_digit [OF d])
    also have "\<dots> = int n"
      by (simp add: of_nat_div of_nat_mod)
    finally show ?thesis .
  qed
qed

lemma digit_plain: "isDigit c \<Longrightarrow> \<not> isSpace c \<and> c \<noteq> CHR ''-'' \<and> c \<noteq> CHR ''+''"
  by (auto simp: isDigit_def isSpace_def)

lemma decNat_plain: "c \<in> set (decNat n) \<Longrightarrow> \<not> isSpace c"
  using isDigit_decNat digit_plain by blast

lemma stoi_decNat:
  assumes "n < 2 ^ 31"
  shows "stoi (decNat n) = Inr (int n)"
proof -
  have hd: "hd (decNat n) \<in> set (decNat n)" by simp
  have digits: "takeWhile isDigit (decNat n) = decNat n"
    using isDigit_decNat by (simp add: takeWhile_eq_all_conv)
  have spaces: "dropWhile isSpace (decNat n) = decNat n"
    using decNat_plain [OF hd] by (cases "decNat n") auto
  have "hd (decNat n) \<noteq> CHR ''-'' \<and> hd (decNat n) \<noteq> CHR ''+''"
    using isDigit_decNat [OF hd] digit_plain by blast
  moreover have "int n < 2 ^ 31"
    using assms by (metis of_nat_less_iff of_nat_numeral of_nat_power)
  ultimately show ?thesis
    by (simp add: stoi_def Let_def spaces digits digitsValue_decNat)
qed

lemma readTokens_space: "readTokens n (CHR '' '' # s) = readTokens n s"
  by (cases n) (simp_all add: isSpace_def)

lemma readTokens_one:
  assumes "t \<noteq> []" and "\<forall>c \<in> set t. \<not> isSpace c" and "r = [] \<or> isSpace (hd r)"
  shows "readTokens (Suc n) (t @ r) = map_option ((#) t) (readTokens n r)"
proof -
  have "dropWhile isSpace (t @ r) = t @ r"
    using assms(1,2) by (cases t) auto
  moreover have "takeWhile (\<lambda>c. \<not> isSpace c) (t @ r) = t" "dropWhile (\<lambda>c. \<not> isSpace c) (t @ r) = r"
    using assms(2,3) by (induction t) (cases r; auto)+
  ultimately show ?thesis
    using assms(1) by (simp add: Let_def option.map_comp split: option.split)
qed

lemma readTokens_joinWith:
  assumes "\<forall>t \<in> set ts. t \<noteq> [] \<and> (\<forall>c \<in> set t. \<not> isSpace c)"
  shows "readTokens (length ts) (joinWith '' '' ts) = Some ts"
  using assms
proof (induction "'' ''" ts rule: joinWith.induct)
  case (2 x)
  then show ?case using readTokens_one [of x "[]" 0] by simp
next
  case (3 x y xs)
  then show ?case
    using readTokens_one [of x "CHR '' '' # joinWith '' '' (y # xs)" "length (y # xs)"]
    by (simp add: readTokens_space isSpace_def del: readTokens.simps)
qed simp

section \<open>Lines\<close>

definition joystickFields :: "int \<times> int \<times> bool \<Rightarrow> string list" where
  "joystickFields s = (case s of (x, y, b) \<Rightarrow> [decNat (nat x), decNat (nat y), decNat (if b then 1 else 0)])"

definition sampleInRange :: "int \<times> int \<times> bool \<Rightarrow> bool" where
  "sampleInRange s = (case s of (x, y, b) \<Rightarrow> 0 \<le> x \<and> x \<le> 1023 \<and> 0 \<le> y \<and> y \<le> 1023)"

lemma parse_fields: "sampleInRange s \<Longrightarrow> parseJoystick (joystickFields s) = Some s"
  by (auto simp: sampleInRange_def joystickFields_def stoi_decNat split: prod.splits)

lemma fields_length [simp]: "length (joystickFields s) = 3"
  by (simp add: joystickFields_def split: prod.split)

lemma parseJoystick_range: "parseJoystick toks = Some s \<Longrightarrow> sampleInRange s"
  by (induction toks rule: parseJoystick.induct)
    (auto simp: sampleInRange_def split: sum.splits if_splits)

lemma parseLine_range: "parseLine line = Some js \<Longrightarrow> length js = 3 \<and> (\<forall>s \<in> set js. sampleInRange s)"
  by (auto simp: parseLine_def parseJoystick_range split: option.splits)

definition panelLine :: "int \<times> int \<times> bool \<Rightarrow> int \<times> int \<times> bool \<Rightarrow> int \<times> int \<times> bool \<Rightarrow> string" where
  "panelLine a b c = joinWith '' '' (joystickFields a @ joystickFields b @ joystickFields c)"

text \<open>The panel protocol round trip: a line with the decimal x, y and button values of the
  three joysticks, separated by blanks, is parsed to exactly these values when the coordinates
  are between 0 and 1023.\<close>

theorem panel_line_roundtrip:
  assumes "sampleInRange a" and "sampleInRange b" and "sampleInRange c"
  shows "parseLine (panelLine a b c) = Some [a, b, c]"
proof -
  let ?ts = "joystickFields a @ joystickFields b @ joystickFields c"
  have plain: "\<forall>t \<in> set ?ts. t \<noteq> [] \<and> (\<forall>c \<in> set t. \<not> isSpace c)"
    by (auto simp: joystickFields_def decNat_plain split: prod.splits)
  have "readTokens 9 (joinWith '' '' ?ts) = Some ?ts"
    using readTokens_joinWith [OF plain] by simp
  then show ?thesis
    using assms by (simp add: panelLine_def parseLine_def parse_fields)
qed

theorem panel_line_roundtrip_witness:
  "parseLine (panelLine (0, 1023, True) (512, 512, False) (7, 80, True))
     = Some [(0, 1023, True), (512, 512, False), (7, 80, True)]"
  by (rule panel_line_roundtrip) (simp_all add: sampleInRange_def)

section \<open>The invariant of the component\<close>

text \<open>
  Three joysticks, published values in the unit range, well-formed processors; a running reader
  has an open channel and a Normal state a running reader.
\<close>

definition panelInv :: "ControlPanel \<Rightarrow> bool" where
  "panelInv cp = (length (cp_x cp) = 3 \<and> length (cp_y cp) = 3 \<and> length (cp_b cp) = 3
     \<and> length (cp_processors cp) = 3
     \<and> (\<forall>v \<in> set (cp_x cp) \<union> set (cp_y cp). \<bar>v\<bar> \<le> 1)
     \<and> (\<forall>p \<in> set (cp_processors cp). jpOk p)
     \<and> (cp_readerRunning cp \<longrightarrow> cp_commOpen cp)
     \<and> (cp_state cp = Normal \<longleftrightarrow> cp_readerRunning cp)
     \<and> cp_state cp \<noteq> ComponentState.Warning)"

lemma resetSignal_inv: "panelInv cp \<Longrightarrow> panelInv (resetSignalProcessingState cp)"
  by (auto simp: panelInv_def resetSignalProcessingState_def jpReconfigure_ok)

lemma panelReset_inv: "panelInv cp \<Longrightarrow> panelInv (panelReset cp)"
  by (simp add: panelInv_def panelReset_def)

lemma makePanel_inv: "panelInv (makePanel d n k ix iy)"
  by (simp add: makePanel_def panelInv_def resetSignalProcessingState_def jpReconfigure_ok)

lemma initialize_inv:
  assumes "panelInv cp"
  shows "panelInv (snd (panelInitialize r cp))"
proof -
  have "panelInv (panelReset cp)"
    by (rule panelReset_inv [OF assms])
  moreover have "panelInv (resetSignalProcessingState (panelReset cp))"
    by (rule resetSignal_inv) (rule panelReset_inv [OF assms])
  ultimately show ?thesis
    by (cases r) (auto simp: panelInitialize_def thenA_def bindA_def catchA_def panelInv_def
        resetSignalProcessingState_def panelReset_def)
qed

lemma abs_outputs: "\<bar>jo_x (fst (process x y b p))\<bar> \<le> 1" "\<bar>jo_y (fst (process x y b p))\<bar> \<le> 1"
  using process_range by blast+

lemma feedJoystick_inv:
  assumes "panelInv cp" and "i < 3"
  shows "panelInv (feedJoystick i s cp)"
proof -
  obtain x y b where s: "s = (x, y, b)" by (cases s)
  obtain out p where run: "process (real_of_int x) (real_of_int y) b (cp_processors cp ! i) = (out, p)"
    by fastforce
  have "jpOk (cp_processors cp ! i)"
    using assms by (simp add: panelInv_def)
  then have "jpOk p"
    using process_ok [of "cp_processors cp ! i"] run by (metis snd_conv)
  moreover have "\<bar>jo_x out\<bar> \<le> 1" "\<bar>jo_y out\<bar> \<le> 1"
    using abs_outputs run by (metis fst_conv)+
  ultimately show ?thesis
    using assms by (auto simp: panelInv_def feedJoystick_def s run dest!: set_update_subset_insert [THEN subsetD])
qed

lemma feedAll_inv:
  "panelInv cp \<Longrightarrow> (\<forall>x \<in> set l. fst x < 3) \<Longrightarrow> panelInv (fold (\<lambda>(i, s). feedJoystick i s) l cp)"
  by (induction l arbitrary: cp) (auto simp: feedJoystick_inv)

lemma processLine_inv: "panelInv cp \<Longrightarrow> panelInv (processLine line cp)"
  by (cases "parseLine line") (auto simp: processLine_def intro!: feedAll_inv dest: set_zip_leftD)

lemma readerStep_inv: "panelInv cp \<Longrightarrow> panelInv (readerStep ev cp)"
  by (auto simp: readerStep_def Let_def processLine_inv split: ReaderEvent.split)
    (simp add: panelInv_def)

lemma panelStep_inv: "panelInv cp \<Longrightarrow> panelInv (panelStep op cp)"
  by (cases op) (simp_all add: initialize_inv panelReset_inv readerStep_inv)

text \<open>C30: over every sequence of initialisations, resets and reader iterations, whatever the
  channel delivers, the snapshot of the panel has three joysticks with coordinates in [-1, 1],
  and the component is Normal exactly while its reader runs on an open channel.\<close>

theorem panel_invariant:
  "panelInv (fold panelStep ops (makePanel d n k invX invY))"
proof (induction ops rule: rev_induct)
  case Nil
  show ?case by (simp add: makePanel_inv)
next
  case (snoc op ops)
  then show ?case by (simp add: panelStep_inv)
qed

lemma readerStep_stopped: "\<not> cp_readerRunning cp \<Longrightarrow> fold readerStep evs cp = cp"
  by (induction evs arbitrary: cp) (simp_all add: readerStep_def)

text \<open>A read failure of a running reader is final: the component is in Error with its
  channel closed, and nothing that follows from the channel changes it, so the snapshot keeps
  the last joystick values until the component is initialised again.\<close>

theorem panel_read_failure:
  assumes "cp_readerRunning cp"
  shows "cp_state (fold readerStep (ReadFailed e # evs) cp) = ComponentState.Error
    \<and> \<not> cp_commOpen (fold readerStep (ReadFailed e # evs) cp)
    \<and> getSnapshot (fold readerStep (ReadFailed e # evs) cp) = getSnapshot cp"
  using assms by (simp add: readerStep_def [of "ReadFailed e"] readerStep_stopped getSnapshot_def)

theorem panel_read_failure_witness:
  "cp_state (fold readerStep [ReadFailed ''eof'', Line ''1 2 0''] (snd (panelInitialize (Inr ())
     (makePanel 5 50 3 [False, False, False] [False, False, False])))) = ComponentState.Error"
  by (rule panel_read_failure [THEN conjunct1])
    (simp add: panelInitialize_def thenA_def bindA_def catchA_def)

end
