(* ===== verification/ControlLoop.thy ===== *)
theory ControlLoop
  imports Prelude "HOL-Library.While_Combinator"
begin

text \<open>
  The cadence of the machine (\<^verbatim>\<open>Server/src/ControlLoopRunner.cpp\<close>): one cycle waits for its
  deadline, runs the control step and the command step, runs the status update when its own
  deadline has passed, and advances the deadlines past the present.

  Time points are nanosecond counts. The clock (\<^verbatim>\<open>IClock\<close>) is an interface, a record of its two
  operations on the world; the three steps are actions on the world that may throw. The
  catch-up loops do not end for an interval that is not positive, so a cycle returns an option.
\<close>

section \<open>The clock\<close>

record 'w Clock =
  ck_now :: "'w \<Rightarrow> int \<times> 'w"
  ck_sleepUntil :: "int \<Rightarrow> 'w \<Rightarrow> 'w"

text \<open>What the loop relies on: \<open>time\<close> is the true time of a world.\<close>

locale steady_clock =
  fixes C :: "'w Clock" and time :: "'w \<Rightarrow> int"
  assumes now_lower: "ck_now C w = (t, w') \<Longrightarrow> time w \<le> t"
    and now_upper: "ck_now C w = (t, w') \<Longrightarrow> t \<le> time w'"
    and sleep_reaches: "t \<le> time (ck_sleepUntil C t w)"
    and sleep_forward: "time w \<le> time (ck_sleepUntil C t w)"
begin

lemma now_forward: "ck_now C w = (t, w') \<Longrightarrow> time w \<le> time w'"
  using now_lower now_upper order_trans by blast

lemma wait_reaches:
  assumes "ck_now C w = (t, w1)"
  shows "d \<le> time (if t < d then ck_sleepUntil C d w1 else w1)"
    and "time w \<le> time (if t < d then ck_sleepUntil C d w1 else w1)"
  using sleep_reaches [of d w1] sleep_forward [of w1 d] now_upper [OF assms] now_forward [OF assms]
  by (auto intro: order_trans)

end

text \<open>
  \<^verbatim>\<open>SteadyClockAdapter\<close> on the steady clock of the standard library. The \<open>n\<close>-th call takes
  \<open>ot_latency n\<close> nanoseconds more than it must; a reading is the time at which it is taken, and
  a sleep ends at its target or after it.
\<close>

record OsTime =
  ot_time :: int
  ot_calls :: nat
  ot_latency :: "nat \<Rightarrow> nat"

definition elapse :: "int \<Rightarrow> OsTime \<Rightarrow> OsTime" where
  "elapse t w = w\<lparr>ot_time := max (ot_time w) t + int (ot_latency w (ot_calls w)), ot_calls := ot_calls w + 1\<rparr>"

definition steadyClockAdapter :: "OsTime Clock" where
  "steadyClockAdapter = \<lparr>ck_now = (\<lambda>w. let w' = elapse (ot_time w) w in (ot_time w', w')), ck_sleepUntil = elapse\<rparr>"

interpretation steady: steady_clock steadyClockAdapter ot_time
  by unfold_locales (auto simp: steadyClockAdapter_def elapse_def Let_def)

text \<open>\<^verbatim>\<open>FakeClock\<close> of the tests: the world is the current time.\<close>

definition fakeClock :: "int Clock" where
  "fakeClock = \<lparr>ck_now = (\<lambda>w. (w, w)), ck_sleepUntil = (\<lambda>t w. max w t)\<rparr>"

interpretation fake: steady_clock fakeClock id
  by unfold_locales (simp_all add: fakeClock_def)

section \<open>The runner\<close>

record 'w ControlLoopRunner =
  lr_clock :: "'w Clock"
  lr_loopInterval :: int
  lr_updateInterval :: int

record LoopState =
  ls_nextLoopAt :: int
  ls_nextUpdateAt :: int
  ls_nextDutyLogAt :: int
  ls_dutyCycleSum :: real
  ls_dutyCycleSamples :: nat
  ls_initialized :: bool

definition oneSecond :: int where
  "oneSecond = 1000000000"

definition makeInitialState :: "'w ControlLoopRunner \<Rightarrow> 'w \<Rightarrow> LoopState \<times> 'w" where
  "makeInitialState R w = (case ck_now (lr_clock R) w of (now, w') \<Rightarrow>
     (\<lparr>ls_nextLoopAt = now, ls_nextUpdateAt = now, ls_nextDutyLogAt = now + oneSecond,
       ls_dutyCycleSum = 0, ls_dutyCycleSamples = 0, ls_initialized = True\<rparr>, w'))"

text \<open>\<^verbatim>\<open>do { t += step; } while (t <= now);\<close>\<close>

definition catchUp :: "int \<Rightarrow> int \<Rightarrow> int \<Rightarrow> int option" where
  "catchUp step now t = while_option (\<lambda>t. t \<le> now) (\<lambda>t. t + step) (t + step)"

text \<open>The duty cycle bookkeeping of a cycle that ran from \<open>loopStart\<close> to \<open>now\<close>.\<close>

definition dutyCycle :: "'w ControlLoopRunner \<Rightarrow> int \<Rightarrow> int \<Rightarrow> LoopState \<Rightarrow> LoopState option" where
  "dutyCycle R loopStart now st =
     (let duty = real_of_int (now - loopStart) / real_of_int (lr_loopInterval R);
          st1 = st\<lparr>ls_dutyCycleSum := ls_dutyCycleSum st + duty,
                   ls_dutyCycleSamples := ls_dutyCycleSamples st + 1\<rparr>
      in if ls_nextDutyLogAt st1 \<le> now \<and> 0 < ls_dutyCycleSamples st1
         then map_option (\<lambda>t. st1\<lparr>ls_dutyCycleSum := 0, ls_dutyCycleSamples := 0, ls_nextDutyLogAt := t\<rparr>)
                (catchUp oneSecond now (ls_nextDutyLogAt st1))
         else Some st1)"

definition advanceLoop :: "'w ControlLoopRunner \<Rightarrow> int \<Rightarrow> LoopState \<Rightarrow> LoopState option" where
  "advanceLoop R now st =
     (let st1 = st\<lparr>ls_nextLoopAt := ls_nextLoopAt st + lr_loopInterval R\<rparr>
      in if ls_nextLoopAt st1 \<le> now
         then map_option (\<lambda>t. st1\<lparr>ls_nextLoopAt := t\<rparr>) (catchUp (lr_loopInterval R) now (ls_nextLoopAt st1))
         else Some st1)"

text \<open>
  The end of a cycle, from the second reading of the clock; \<open>updateStep\<close> may throw, and then
  nothing after it happens.
\<close>

definition finishCycle ::
  "'w ControlLoopRunner \<Rightarrow> ('w, unit) act \<Rightarrow> int \<Rightarrow> int \<Rightarrow> LoopState \<Rightarrow> 'w
     \<Rightarrow> ((exn + unit) \<times> LoopState \<times> 'w) option" where
  "finishCycle R updateStep loopStart now st w =
     (let rest = (\<lambda>st w. map_option (\<lambda>st'. (Inr (), st', w))
                   (Option.bind (dutyCycle R loopStart now st) (advanceLoop R now)))
      in if ls_nextUpdateAt st \<le> now
         then (case updateStep w of
             (Inl e, w1) \<Rightarrow> Some (Inl e, st, w1)
           | (Inr _, w1) \<Rightarrow>
               (case catchUp (lr_updateInterval R) now (ls_nextUpdateAt st) of
                  None \<Rightarrow> None
                | Some t \<Rightarrow> rest (st\<lparr>ls_nextUpdateAt := t\<rparr>) w1))
         else rest st w)"

definition runOneCycle ::
  "'w ControlLoopRunner \<Rightarrow> ('w, unit) act \<Rightarrow> ('w, unit) act \<Rightarrow> ('w, unit) act \<Rightarrow> LoopState \<Rightarrow> 'w
     \<Rightarrow> ((exn + unit) \<times> LoopState \<times> 'w) option" where
  "runOneCycle R controlStep commandStep updateStep st w =
     (case (if ls_initialized st then (st, w) else makeInitialState R w) of (st0, w0) \<Rightarrow>
      case ck_now (lr_clock R) w0 of (nowBefore, w1) \<Rightarrow>
      (let w2 = (if nowBefore < ls_nextLoopAt st0 then ck_sleepUntil (lr_clock R) (ls_nextLoopAt st0) w1 else w1)
       in case ck_now (lr_clock R) w2 of (loopStart, w3) \<Rightarrow>
          (case thenA controlStep commandStep w3 of
             (Inl e, w4) \<Rightarrow> Some (Inl e, st0, w4)
           | (Inr _, w4) \<Rightarrow>
               (case ck_now (lr_clock R) w4 of (now, w5) \<Rightarrow>
                  finishCycle R updateStep loopStart now st0 w5))))"

section \<open>Catching up\<close>

text \<open>
  For a positive step the loop ends at the first point of the grid \<open>t + k step\<close> after \<open>now\<close>.
\<close>

definition nextOnGrid :: "int \<Rightarrow> int \<Rightarrow> int \<Rightarrow> int" where
  "nextOnGrid step now t = (if t + step \<le> now then t + step * ((now - t) div step + 1) else t + step)"





lemma catchUp_from:
  fixes u :: int
  assumes "0 < step"
  shows "while_option (\<lambda>t. t \<le> now) (\<lambda>t. t + step) u = Some (if u \<le> now then u + step * ((now - u) div step + 1) else u)"
  using assms
proof (induction "nat (now + 1 - u)" arbitrary: u rule: less_induct)
  case less
  show ?case
  proof (cases "u \<le> now")
    case True
    have "while_option (\<lambda>t. t \<le> now) (\<lambda>t. t + step) u = while_option (\<lambda>t. t \<le> now) (\<lambda>t. t + step) (u + step)"
      using True by (subst while_option_unfold) simp
    also have "\<dots> = Some (if u + step \<le> now then u + step + step * ((now - (u + step)) div step + 1) else u + step)"
      using True less by simp
    also have "\<dots> = Some (u + step * ((now - u) div step + 1))"
    proof (cases "u + step \<le> now")
      case True
      have "(now - (u + step)) div step = (now - u) div step - 1"
        using less.prems div_add_self2 [of step "now - (u + step)"] by (simp add: algebra_simps)
      then show ?thesis
        using True by (simp add: algebra_simps)
    next
      case False
      then have "(now - u) div step = 0"
        using \<open>u \<le> now\<close> by (simp add: div_pos_pos_trivial)
      then show ?thesis using False by simp
    qed
    finally show ?thesis using True by simp
  next
    case False
    then show ?thesis by (subst while_option_unfold) simp
  qed
qed

lemma catchUp_eq:
  assumes "0 < step"
  shows "catchUp step now t = Some (nextOnGrid step now t)"
proof (cases "t + step \<le> now")
  case True
  have "(now - (t + step)) div step = (now - t) div step - 1"
    using assms div_add_self2 [of step "now - (t + step)"] by (simp add: algebra_simps)
  then show ?thesis
    using True by (simp add: catchUp_def catchUp_from [OF assms] nextOnGrid_def algebra_simps)
next
  case False
  then show ?thesis by (simp add: catchUp_def catchUp_from [OF assms] nextOnGrid_def)
qed

text \<open>With a step of zero a loop that is late never ends.\<close>

lemma catchUp_zero: "t \<le> now \<Longrightarrow> catchUp 0 now t = None"
proof (rule ccontr)
  assume late: "t \<le> now" and "catchUp 0 now t \<noteq> None"
  then obtain u where u: "while_option (\<lambda>t. t \<le> now) (\<lambda>t. t + 0) (t + 0) = Some u"
    by (auto simp: catchUp_def)
  have "u \<le> now"
    using while_option_rule [where P = "\<lambda>u. u \<le> now", OF _ u] late by simp
  then show False
    using while_option_stop [OF u] by simp
qed

lemma dutyCycle_total:
  "\<exists>st'. dutyCycle R s now st = Some st' \<and> ls_nextLoopAt st' = ls_nextLoopAt st
    \<and> ls_nextUpdateAt st' = ls_nextUpdateAt st \<and> ls_initialized st' = ls_initialized st"
  by (simp add: dutyCycle_def Let_def catchUp_eq oneSecond_def)

lemma advanceLoop_eq:
  assumes "0 < lr_loopInterval R"
  shows "advanceLoop R now st = Some (st\<lparr>ls_nextLoopAt := nextOnGrid (lr_loopInterval R) now (ls_nextLoopAt st)\<rparr>)"
proof -
  let ?i = "lr_loopInterval R" and ?t = "ls_nextLoopAt st"
  have "nextOnGrid ?i now (?t + ?i) = nextOnGrid ?i now ?t" if "?t + ?i \<le> now"
  proof -
    have "(now - (?t + ?i)) div ?i = (now - ?t) div ?i - 1"
      using assms div_add_self2 [of ?i "now - (?t + ?i)"] by (simp add: algebra_simps)
    then show ?thesis
      using that assms by (auto simp: nextOnGrid_def algebra_simps div_pos_pos_trivial not_le)
  qed
  then show ?thesis
    using assms by (auto simp: advanceLoop_def Let_def catchUp_eq) (simp add: nextOnGrid_def)
qed

section \<open>The cadence\<close>

text \<open>The shape of a cycle whose steps return.\<close>

lemma finishCycle_ok:
  assumes "0 < lr_loopInterval R" and "0 < lr_updateInterval R"
    and "ls_nextUpdateAt st \<le> now \<longrightarrow> updateStep w = (Inr (), w1)"
  shows "\<exists>st'. finishCycle R updateStep s now st w =
      Some (Inr (), st', if ls_nextUpdateAt st \<le> now then w1 else w)
    \<and> ls_nextLoopAt st' = nextOnGrid (lr_loopInterval R) now (ls_nextLoopAt st)
    \<and> ls_nextUpdateAt st' = (if ls_nextUpdateAt st \<le> now
        then nextOnGrid (lr_updateInterval R) now (ls_nextUpdateAt st) else ls_nextUpdateAt st)
    \<and> ls_initialized st' = ls_initialized st"
proof -
  let ?st = "if ls_nextUpdateAt st \<le> now
    then st\<lparr>ls_nextUpdateAt := nextOnGrid (lr_updateInterval R) now (ls_nextUpdateAt st)\<rparr> else st"
  obtain st' where "dutyCycle R s now ?st = Some st'" "ls_nextLoopAt st' = ls_nextLoopAt ?st"
    "ls_nextUpdateAt st' = ls_nextUpdateAt ?st" "ls_initialized st' = ls_initialized ?st"
    using dutyCycle_total by blast
  then show ?thesis
    using assms(3) by (auto simp: finishCycle_def Let_def catchUp_eq assms(2) advanceLoop_eq [OF assms(1)] split: if_splits)
qed

context steady_clock begin

lemma cycle_waits:
  assumes "lr_clock R = C" and "ls_initialized st"
    and "runOneCycle R controlStep commandStep updateStep st w = Some (r, st', w')"
  shows "\<exists>w3. ls_nextLoopAt st \<le> time w3 \<and> time w \<le> time w3
    \<and> (case thenA controlStep commandStep w3 of
         (Inl e, w4) \<Rightarrow> r = Inl e \<and> st' = st \<and> w' = w4
       | (Inr _, w4) \<Rightarrow> (\<exists>loopStart now w5. ck_now C w4 = (now, w5)
           \<and> finishCycle R updateStep loopStart now st w5 = Some (r, st', w')))"
proof -
  obtain t w1 where r1: "ck_now C w = (t, w1)" by fastforce
  let ?w2 = "if t < ls_nextLoopAt st then ck_sleepUntil C (ls_nextLoopAt st) w1 else w1"
  obtain loopStart w3 where r2: "ck_now C ?w2 = (loopStart, w3)" by fastforce
  have "time ?w2 \<le> time w3"
    by (rule now_forward [OF r2])
  with wait_reaches [OF r1, of "ls_nextLoopAt st"]
  have "ls_nextLoopAt st \<le> time w3" "time w \<le> time w3"
    by linarith+
  moreover note assms(3) [unfolded runOneCycle_def assms(1) if_P [OF assms(2)] prod.case r1 Let_def r2]
  ultimately show ?thesis
    by (intro exI [of _ w3]) (auto split: prod.splits sum.splits)
qed

end

lemma cycle_total:
  assumes "0 < lr_loopInterval R" and "0 < lr_updateInterval R"
  shows "\<exists>r st' w'. runOneCycle R controlStep commandStep updateStep st w = Some (r, st', w')"
proof -
  have "finishCycle R updateStep s now st w \<noteq> None" for s now st w
  proof (cases "ls_nextUpdateAt st \<le> now \<and> (\<exists>e. fst (updateStep w) = Inl e)")
    case True
    then show ?thesis by (auto simp: finishCycle_def Let_def split: prod.split sum.split)
  next
    case False
    then have "ls_nextUpdateAt st \<le> now \<longrightarrow> updateStep w = (Inr (), snd (updateStep w))"
      by (cases "updateStep w"; cases "fst (updateStep w)") auto
    from finishCycle_ok [where updateStep = updateStep and w = w and s = s, OF assms this] show ?thesis by auto
  qed
  then have "runOneCycle R controlStep commandStep updateStep st w \<noteq> None"
    by (simp add: runOneCycle_def Let_def split: prod.split sum.split)
  then show ?thesis by auto
qed

text \<open>A cycle whose control and command steps return: what the steps establish in turn holds at its
  end, whether or not the status update throws.\<close>

lemma cycle_steps:
  assumes run: "runOneCycle R c k u st w = Some (r, st', w')" and "I w"
    and clock: "\<And>w. I w \<Longrightarrow> I (snd (ck_now (lr_clock R) w))" "\<And>t w. I w \<Longrightarrow> I (ck_sleepUntil (lr_clock R) t w)"
      "\<And>w. J w \<Longrightarrow> J (snd (ck_now (lr_clock R) w))"
    and control: "\<And>w. I w \<Longrightarrow> fst (c w) = Inr () \<and> K (snd (c w))"
    and command: "\<And>w. K w \<Longrightarrow> fst (k w) = Inr () \<and> J (snd (k w))"
    and update: "\<And>w. J w \<Longrightarrow> J (snd (u w))"
  shows "J w'"
proof -
  have finish: "J w2" if "finishCycle R u s now st1 w1 = Some (r, st2, w2)" "J w1" for s now st1 w1 st2 w2
    using that update [of w1]
    by (auto simp: finishCycle_def Let_def split: if_splits prod.splits sum.splits option.splits)
  obtain st0 w0 where 0: "(if ls_initialized st then (st, w) else makeInitialState R w) = (st0, w0)"
    by (metis surj_pair)
  then have "I w0"
    using assms(2) clock(1) [of w] by (auto simp: makeInitialState_def split: if_splits prod.splits)
  obtain nb w1 where 1: "ck_now (lr_clock R) w0 = (nb, w1)" by (metis surj_pair)
  define w2 where "w2 = (if nb < ls_nextLoopAt st0 then ck_sleepUntil (lr_clock R) (ls_nextLoopAt st0) w1 else w1)"
  obtain ls w3 where 3: "ck_now (lr_clock R) w2 = (ls, w3)" by (metis surj_pair)
  have "I w3"
    using \<open>I w0\<close> clock(1) [of w0] clock(2) [of w1 "ls_nextLoopAt st0"] clock(1) [of w2] 1 3
    by (auto simp: w2_def split: if_splits)
  then obtain w4 where 4: "thenA c k w3 = (Inr (), w4)" "J w4"
    using control [of w3] command [of "snd (c w3)"]
    by (cases "c w3"; cases "k (snd (c w3))") (auto simp: thenA_def bindA_def)
  obtain now w5 where 5: "ck_now (lr_clock R) w4 = (now, w5)" by (metis surj_pair)
  have "finishCycle R u ls now st0 w5 = Some (r, st', w')"
    using run by (simp add: runOneCycle_def 0 1 w2_def [symmetric] 3 4 5 Let_def)
  then show ?thesis
    using finish 4(2) clock(3) [of w4] 5 by auto
qed

text \<open>C32: with positive intervals, every cycle returns, whatever the clock and the steps do.\<close>

theorem loop_cycle_total:
  assumes "0 < lr_loopInterval R" and "0 < lr_updateInterval R"
  shows "\<exists>r st' w'. runOneCycle R controlStep commandStep updateStep st w = Some (r, st', w')"
  using cycle_total [OF assms] .



theorem loop_cycle_total_witness:
  "\<exists>r st' w'. runOneCycle \<lparr>lr_clock = fakeClock, lr_loopInterval = 10, lr_updateInterval = 50\<rparr>
     (throwA ''x'') (ret ()) (ret ()) \<lparr>ls_nextLoopAt = 0, ls_nextUpdateAt = 0, ls_nextDutyLogAt = 0,
       ls_dutyCycleSum = 0, ls_dutyCycleSamples = 0, ls_initialized = False\<rparr> 0 = Some (r, st', w')"
  by (rule loop_cycle_total) simp_all

text \<open>A cycle in which a step throws advances no deadline: all bookkeeping is as before,
  and its deadline has passed, so the next cycle does not wait. A status update that throws
  every time therefore makes the loop run without ever sleeping.\<close>

theorem loop_failure_no_wait:
  assumes clock: "steady_clock (lr_clock R) time" and init: "ls_initialized st"
    and run: "runOneCycle R controlStep commandStep updateStep st w = Some (Inl e, st', w')"
    and ctl: "\<And>u. time u \<le> time (snd (thenA controlStep commandStep u))"
    and upd: "\<And>u. time u \<le> time (snd (updateStep u))"
  shows "st' = st \<and> ls_nextLoopAt st' \<le> time w'"
proof -
  from steady_clock.cycle_waits [OF clock refl init run] obtain w3 where
    w3: "ls_nextLoopAt st \<le> time w3"
    and cases: "case thenA controlStep commandStep w3 of
         (Inl e', w4) \<Rightarrow> Inl e = (Inl e' :: exn + unit) \<and> st' = st \<and> w' = w4
       | (Inr _, w4) \<Rightarrow> (\<exists>loopStart now w5. ck_now (lr_clock R) w4 = (now, w5)
           \<and> finishCycle R updateStep loopStart now st w5 = Some (Inl e, st', w'))"
    by (elim exE conjE) (rule that)
  obtain r w4 where run4: "thenA controlStep commandStep w3 = (r, w4)" by fastforce
  with ctl [of w3] have t4: "time w3 \<le> time w4" by simp
  show ?thesis
  proof (cases r)
    case (Inl e')
    then show ?thesis using cases w3 t4 by (simp add: run4)
  next
    case (Inr u)
    with cases obtain loopStart now w5 where now: "ck_now (lr_clock R) w4 = (now, w5)"
      and fin: "finishCycle R updateStep loopStart now st w5 = Some (Inl e, st', w')"
      by (auto simp: run4)
    have t5: "time w4 \<le> time w5"
      by (rule steady_clock.now_forward [OF clock now])
    obtain r6 w6 where upd_eq: "updateStep w5 = (r6, w6)" by fastforce
    have "st' = st \<and> w' = w6"
      using fin by (cases r6) (auto simp: finishCycle_def Let_def upd_eq split: if_splits option.splits)
    then show ?thesis
      using w3 t4 t5 upd [of w5] by (simp add: upd_eq)
  qed
qed

theorem loop_failure_no_wait_witness:
  "\<exists>w'. runOneCycle \<lparr>lr_clock = fakeClock, lr_loopInterval = 10, lr_updateInterval = 50\<rparr>
      (modifyA (\<lambda>w. w + 1)) (ret ()) (throwA ''publish'')
      \<lparr>ls_nextLoopAt = 100, ls_nextUpdateAt = 100, ls_nextDutyLogAt = 1000, ls_dutyCycleSum = 0,
       ls_dutyCycleSamples = 0, ls_initialized = True\<rparr> 95
    = Some (Inl ''publish'', \<lparr>ls_nextLoopAt = 100, ls_nextUpdateAt = 100, ls_nextDutyLogAt = 1000,
       ls_dutyCycleSum = 0, ls_dutyCycleSamples = 0, ls_initialized = True\<rparr>, w') \<and> 100 \<le> w'"
proof -
  let ?R = "\<lparr>lr_clock = fakeClock, lr_loopInterval = 10, lr_updateInterval = 50\<rparr>"
  let ?st = "\<lparr>ls_nextLoopAt = 100, ls_nextUpdateAt = 100, ls_nextDutyLogAt = 1000, ls_dutyCycleSum = 0,
        ls_dutyCycleSamples = 0, ls_initialized = True\<rparr>"
  have run: "runOneCycle ?R (modifyA (\<lambda>w. w + 1)) (ret ()) (throwA ''publish'') ?st 95
      = Some (Inl ''publish'', ?st, 101)"
    by (simp add: runOneCycle_def fakeClock_def finishCycle_def Let_def)
  have "steady_clock (lr_clock ?R) id"
    by (simp add: fake.steady_clock_axioms)
  from loop_failure_no_wait [OF this _ run] show ?thesis
    using run by (simp add: thenA_def bindA_def)
qed

end
