(* ===== verification/CommandQueue.thy ===== *)
theory CommandQueue
  imports Domain
begin

text \<open>
  The commands of an operator and the bounded queue that carries them from the command server
  to the control thread (\<^verbatim>\<open>Server/include/CommandInterface.hpp\<close>). Every operation holds the
  queue's mutex for its whole body, so an operation is one atomic step and the threads are an
  interleaving of them; \<open>pop_wait_for\<close> takes its element (if there is one) at the moment the
  wait ends. The promise of a command is the identity of its reply.
\<close>

section \<open>Commands\<close>

datatype Payload =
    ToolChangerCommand EArm EToolChangerAction
  | ReconnectCommand ERobotComponent
  | MotorDiagnosticsCommand EMotor
  | ResetMotorAlarmCommand EMotor
  | SetMotorEnabledCommand EMotor bool
  | SetAllMotorsEnabledCommand bool
  | ContecDiagnosticsCommand
  | EmergencyStopCommand

record Command =
  cmd_payload :: Payload
  cmd_reply :: nat

section \<open>The queue\<close>

record 'c CommandQueue =
  cq_q :: "'c list"
  cq_maxSize :: nat
  cq_shutdown :: bool

definition emptyQueue :: "nat \<Rightarrow> 'c CommandQueue" where
  "emptyQueue maxSize = \<lparr>cq_q = [], cq_maxSize = maxSize, cq_shutdown = False\<rparr>"

definition cqPush :: "'c \<Rightarrow> 'c CommandQueue \<Rightarrow> bool \<times> 'c CommandQueue" where
  "cqPush c q =
     (if cq_shutdown q then (False, q)
      else if 0 < cq_maxSize q \<and> cq_maxSize q \<le> length (cq_q q) then (False, q)
      else (True, q\<lparr>cq_q := cq_q q @ [c]\<rparr>))"

definition cqTryPop :: "'c CommandQueue \<Rightarrow> 'c option \<times> 'c CommandQueue" where
  "cqTryPop q = (case cq_q q of [] \<Rightarrow> (None, q) | c # cs \<Rightarrow> (Some c, q\<lparr>cq_q := cs\<rparr>))"

text \<open>
  The wait of \<open>pop_wait_for\<close> ends when the queue is shut down, when it is not empty or when the
  time is over; whichever it was, the front is taken if there is one.
\<close>

definition cqPopWaitFor :: "'c CommandQueue \<Rightarrow> 'c option \<times> 'c CommandQueue" where
  "cqPopWaitFor q =
     (if cq_q q = [] then (None, q) else (Some (hd (cq_q q)), q\<lparr>cq_q := tl (cq_q q)\<rparr>))"

definition cqSetMaxSize :: "nat \<Rightarrow> 'c CommandQueue \<Rightarrow> 'c CommandQueue" where
  "cqSetMaxSize n q = q\<lparr>cq_maxSize := n\<rparr>"

definition cqShutdown :: "'c CommandQueue \<Rightarrow> 'c CommandQueue" where
  "cqShutdown q = q\<lparr>cq_shutdown := True\<rparr>"

text \<open>The drain of \<^verbatim>\<open>Machine::shutdown\<close>: pop until empty.\<close>

function cqDrain :: "'c CommandQueue \<Rightarrow> 'c list \<times> 'c CommandQueue" where
  "cqDrain q = (case cqTryPop q of (None, q') \<Rightarrow> ([], q')
     | (Some c, q') \<Rightarrow> (case cqDrain q' of (cs, q'') \<Rightarrow> (c # cs, q'')))"
  by pat_completeness auto
termination
  by (relation "measure (\<lambda>q. length (cq_q q))") (auto simp: cqTryPop_def split: list.splits)

declare cqDrain.simps [simp del]

section \<open>The contract\<close>

text \<open>
  A bounded channel as its users see it: what was accepted and not yet taken, in order.
\<close>

locale bounded_channel =
  fixes push :: "'c \<Rightarrow> 'q \<Rightarrow> bool \<times> 'q"
    and pop :: "'q \<Rightarrow> 'c option \<times> 'q"
    and close :: "'q \<Rightarrow> 'q"
    and pending :: "'q \<Rightarrow> 'c list"
    and bound :: "'q \<Rightarrow> nat"
    and closed :: "'q \<Rightarrow> bool"
  assumes push_ok: "push c q = (True, q') \<Longrightarrow> pending q' = pending q @ [c] \<and> \<not> closed q"
    and push_full: "push c q = (False, q') \<Longrightarrow> q' = q"
    and push_bound: "push c q = (b, q') \<Longrightarrow> 0 < bound q \<Longrightarrow> length (pending q) \<le> bound q
      \<Longrightarrow> length (pending q') \<le> bound q'"
    and push_keeps: "push c q = (b, q') \<Longrightarrow> bound q' = bound q \<and> closed q' = closed q"
    and pop_none: "pop q = (None, q') \<Longrightarrow> pending q = [] \<and> q' = q"
    and pop_some: "pop q = (Some c, q') \<Longrightarrow> pending q = c # pending q'"
    and pop_keeps: "pop q = (r, q') \<Longrightarrow> bound q' = bound q \<and> closed q' = closed q"
    and close_closed: "closed (close q) \<and> pending (close q) = pending q \<and> bound (close q) = bound q"

datatype 'c QueueOp = QPush 'c | QPop | QClose

text \<open>What a run of operations accepts and delivers.\<close>

fun channelRun ::
  "('c \<Rightarrow> 'q \<Rightarrow> bool \<times> 'q) \<Rightarrow> ('q \<Rightarrow> 'c option \<times> 'q) \<Rightarrow> ('q \<Rightarrow> 'q) \<Rightarrow> 'c QueueOp list \<Rightarrow> 'q
     \<Rightarrow> 'c list \<times> 'c list \<times> 'q" where
  "channelRun push pop close [] q = ([], [], q)"
| "channelRun push pop close (QPush c # ops) q =
     (case push c q of (b, q1) \<Rightarrow> case channelRun push pop close ops q1 of (acc, out, q2) \<Rightarrow>
        (if b then c # acc else acc, out, q2))"
| "channelRun push pop close (QPop # ops) q =
     (case pop q of (r, q1) \<Rightarrow> case channelRun push pop close ops q1 of (acc, out, q2) \<Rightarrow>
        (acc, (case r of None \<Rightarrow> out | Some c \<Rightarrow> c # out), q2))"
| "channelRun push pop close (QClose # ops) q = channelRun push pop close ops (close q)"

context bounded_channel begin

lemma run_fifo:
  "channelRun push pop close ops q = (acc, out, q') \<Longrightarrow> pending q @ acc = out @ pending q'"
proof (induction ops arbitrary: q acc out q')
  case (Cons op ops)
  show ?case
  proof (cases op)
    case (QPush c)
    obtain b q1 acc1 out1 q2 where "push c q = (b, q1)" "channelRun push pop close ops q1 = (acc1, out1, q2)"
      by (metis surj_pair)
    with QPush Cons show ?thesis
      using push_ok [of c q q1] push_full [of c q q1] by (cases b) fastforce+
  next
    case QPop
    obtain r q1 acc1 out1 q2 where "pop q = (r, q1)" "channelRun push pop close ops q1 = (acc1, out1, q2)"
      by (metis surj_pair)
    with QPop Cons show ?thesis
      using pop_none [of q q1] pop_some [of q _ q1] by (cases r) fastforce+
  next
    case QClose
    with Cons show ?thesis using close_closed [of q] by fastforce
  qed
qed simp

lemma run_bound:
  "channelRun push pop close ops q = (acc, out, q') \<Longrightarrow> 0 < bound q \<Longrightarrow> length (pending q) \<le> bound q
     \<Longrightarrow> length (pending q') \<le> bound q' \<and> bound q' = bound q"
proof (induction ops arbitrary: q acc out q')
  case (Cons op ops)
  show ?case
  proof (cases op)
    case (QPush c)
    obtain b q1 acc1 out1 q2 where p: "push c q = (b, q1)" "channelRun push pop close ops q1 = (acc1, out1, q2)"
      by (metis surj_pair)
    with push_bound [OF p(1)] push_keeps [OF p(1)] Cons QPush show ?thesis by fastforce
  next
    case QPop
    obtain r q1 acc1 out1 q2 where p: "pop q = (r, q1)" "channelRun push pop close ops q1 = (acc1, out1, q2)"
      by (metis surj_pair)
    have "length (pending q1) \<le> length (pending q)"
      using p(1) pop_none [of q q1] pop_some [of q _ q1] by (cases r) fastforce+
    with pop_keeps [OF p(1)] p Cons QPop show ?thesis by fastforce
  next
    case QClose
    with Cons close_closed show ?thesis by fastforce
  qed
qed simp

lemma run_closed: "closed q \<Longrightarrow> channelRun push pop close ops q = (acc, out, q') \<Longrightarrow> acc = []"
proof (induction ops arbitrary: q acc out q')
  case (Cons op ops)
  show ?case
  proof (cases op)
    case (QPush c)
    obtain b q1 acc1 out1 q2 where p: "push c q = (b, q1)" "channelRun push pop close ops q1 = (acc1, out1, q2)"
      by (metis surj_pair)
    with push_ok [of c q q1] push_keeps [OF p(1)] Cons QPush show ?thesis by (cases b) fastforce+
  next
    case QPop
    obtain r q1 acc1 out1 q2 where p: "pop q = (r, q1)" "channelRun push pop close ops q1 = (acc1, out1, q2)"
      by (metis surj_pair)
    with pop_keeps [OF p(1)] Cons QPop show ?thesis by fastforce
  next
    case QClose
    with Cons close_closed show ?thesis by fastforce
  qed
qed simp

end

interpretation commands: bounded_channel cqPush cqTryPop cqShutdown cq_q cq_maxSize cq_shutdown
  by unfold_locales (auto simp: cqPush_def cqTryPop_def cqShutdown_def split: if_splits list.splits)

lemma cqPopWaitFor_eq: "cqPopWaitFor q = cqTryPop q"
  by (cases "cq_q q") (simp_all add: cqPopWaitFor_def cqTryPop_def)

lemma cqDrain_eq: "cqDrain q = (cq_q q, q\<lparr>cq_q := []\<rparr>)"
proof (induction q rule: cqDrain.induct)
  case (1 q)
  then show ?case
    by (subst cqDrain.simps) (auto simp: cqTryPop_def split: list.splits prod.splits)
qed

text \<open>Over every interleaving of pushes, pops and a shutdown on a queue of bound \<open>n > 0\<close>,
  commands are delivered in the order in which they were accepted, none twice and none lost
  (what was accepted is what was delivered followed by what is still queued), and the queue
  never holds more than \<open>n\<close>.\<close>

theorem queue_fifo_bounded:
  assumes "0 < n" and "channelRun cqPush cqTryPop cqShutdown ops (emptyQueue n) = (accepted, delivered, q)"
  shows "accepted = delivered @ cq_q q \<and> length (cq_q q) \<le> n"
  using commands.run_fifo [OF assms(2)] commands.run_bound [OF assms(2)] assms(1)
  by (simp add: emptyQueue_def)

theorem queue_fifo_bounded_witness:
  "\<exists>q. channelRun cqPush cqTryPop cqShutdown [QPush (1 :: nat), QPush 2, QPush 3, QPop, QPush 4] (emptyQueue 2)
     = ([1, 2, 4], [1], q) \<and> length (cq_q q) \<le> 2"
proof -
  have run: "channelRun cqPush cqTryPop cqShutdown [QPush (1 :: nat), QPush 2, QPush 3, QPop, QPush 4] (emptyQueue 2)
     = ([1, 2, 4], [1], \<lparr>cq_q = [2, 4], cq_maxSize = 2, cq_shutdown = False\<rparr>)"
    by (simp add: cqPush_def cqTryPop_def emptyQueue_def)
  from queue_fifo_bounded [OF _ run] run show ?thesis by simp
qed

text \<open>Once the queue is shut down nothing is accepted any more, and the drain of the
  shutdown takes exactly the pending commands, in order, and leaves the queue empty.\<close>

theorem queue_shutdown:
  assumes "channelRun cqPush cqTryPop cqShutdown ops (cqShutdown q) = (accepted, delivered, q')"
  shows "accepted = [] \<and> cq_q q = delivered @ fst (cqDrain q') \<and> cq_q (snd (cqDrain q')) = []"
  using commands.run_fifo [OF assms] commands.run_closed [OF _ assms]
  by (simp add: cqDrain_eq cqShutdown_def)

theorem queue_shutdown_witness:
  "fst (cqDrain (snd (snd (channelRun cqPush cqTryPop cqShutdown [QPop, QPush (7 :: nat)]
     (cqShutdown \<lparr>cq_q = [1, 2, 3], cq_maxSize = 0, cq_shutdown = False\<rparr>))))) = [2, 3]"
proof -
  have run: "channelRun cqPush cqTryPop cqShutdown [QPop, QPush (7 :: nat)]
      (cqShutdown \<lparr>cq_q = [1, 2, 3], cq_maxSize = 0, cq_shutdown = False\<rparr>)
    = ([], [1], \<lparr>cq_q = [2, 3], cq_maxSize = 0, cq_shutdown = True\<rparr>)"
    by (simp add: cqPush_def cqTryPop_def cqShutdown_def)
  from queue_shutdown [OF run] run show ?thesis by simp
qed

end
