(* ===== verification/Modbus.thy ===== *)
theory Modbus
  imports Prelude
begin

text \<open>
  The Modbus client (\<^verbatim>\<open>Server/include/ModbusClient.hpp\<close>): one interface over two backends,
  libmodbus contexts (TCP and serial RTU) and the client's own RTU frames over a raw TCP
  socket, with their CRC, and the pause between RTU requests.

  libmodbus, the socket calls, \<^verbatim>\<open>errno\<close> and the clock are the operating system's: they are the
  fields of the parameter \<open>N\<close>, functions on the world. A call returns its C result; \<open>os_errno\<close>
  and the strings are read from the world as the code reads them. Results of the client are
  \<^verbatim>\<open>std::expected\<close> values: \<open>Inl\<close> a \<open>ModbusError\<close> or \<open>Inr\<close> the value.
\<close>

section \<open>Errors and the environment\<close>

record ModbusError =
  me_errno :: int
  me_message :: string

definition modbusError :: "int \<Rightarrow> string \<Rightarrow> ModbusError" where
  "modbusError e m = \<lparr>me_errno = e, me_message = m\<rparr>"

abbreviation EIO :: int where "EIO \<equiv> 5"
abbreviation EINVAL :: int where "EINVAL \<equiv> 22"
abbreviation ENOTCONN :: int where "ENOTCONN \<equiv> 107"
abbreviation ETIMEDOUT :: int where "ETIMEDOUT \<equiv> 110"
abbreviation EINPROGRESS :: int where "EINPROGRESS \<equiv> 115"

record 'w NetOps =
  os_errno :: "'w \<Rightarrow> int"
  os_strerror :: "int \<Rightarrow> 'w \<Rightarrow> string"
  os_now :: "'w \<Rightarrow> int \<times> 'w"
  os_sleepFor :: "int \<Rightarrow> 'w \<Rightarrow> 'w"
  so_getaddrinfo :: "string \<Rightarrow> string \<Rightarrow> 'w \<Rightarrow> (string + nat list) \<times> 'w"
  so_socket :: "nat \<Rightarrow> 'w \<Rightarrow> int \<times> 'w"
  so_getfl :: "int \<Rightarrow> 'w \<Rightarrow> int \<times> 'w"
  so_setNonBlocking :: "int \<Rightarrow> bool \<Rightarrow> int \<Rightarrow> 'w \<Rightarrow> int \<times> 'w"
  so_connect :: "int \<Rightarrow> nat \<Rightarrow> 'w \<Rightarrow> int \<times> 'w"
  so_poll :: "int \<Rightarrow> int \<Rightarrow> 'w \<Rightarrow> int \<times> 'w"
  so_getSoError :: "int \<Rightarrow> 'w \<Rightarrow> (int \<times> int) \<times> 'w"
  so_setNoDelay :: "int \<Rightarrow> 'w \<Rightarrow> 'w"
  so_setRcvTimeout :: "int \<Rightarrow> int \<Rightarrow> int \<Rightarrow> 'w \<Rightarrow> int \<times> 'w"
  so_setSndTimeout :: "int \<Rightarrow> int \<Rightarrow> int \<Rightarrow> 'w \<Rightarrow> int \<times> 'w"
  so_close :: "int \<Rightarrow> 'w \<Rightarrow> 'w"
  so_send :: "int \<Rightarrow> u8 list \<Rightarrow> 'w \<Rightarrow> int \<times> 'w"
  so_recv :: "int \<Rightarrow> nat \<Rightarrow> 'w \<Rightarrow> u8 list \<times> 'w"
  lm_newTcp :: "string \<Rightarrow> int \<Rightarrow> 'w \<Rightarrow> nat option \<times> 'w"
  lm_newRtu :: "string \<Rightarrow> int \<Rightarrow> char \<Rightarrow> int \<Rightarrow> int \<Rightarrow> 'w \<Rightarrow> nat option \<times> 'w"
  lm_setSlave :: "nat \<Rightarrow> int \<Rightarrow> 'w \<Rightarrow> int \<times> 'w"
  lm_connect :: "nat \<Rightarrow> 'w \<Rightarrow> int \<times> 'w"
  lm_close :: "nat \<Rightarrow> 'w \<Rightarrow> 'w"
  lm_free :: "nat \<Rightarrow> 'w \<Rightarrow> 'w"
  lm_setResponseTimeout :: "nat \<Rightarrow> u32 \<Rightarrow> u32 \<Rightarrow> 'w \<Rightarrow> int \<times> 'w"
  lm_readRegisters :: "nat \<Rightarrow> int \<Rightarrow> int \<Rightarrow> 'w \<Rightarrow> (int \<times> u16 list) \<times> 'w"
  lm_readInputRegisters :: "nat \<Rightarrow> int \<Rightarrow> int \<Rightarrow> 'w \<Rightarrow> (int \<times> u16 list) \<times> 'w"
  lm_writeRegister :: "nat \<Rightarrow> int \<Rightarrow> u16 \<Rightarrow> 'w \<Rightarrow> int \<times> 'w"
  lm_writeRegisters :: "nat \<Rightarrow> int \<Rightarrow> u16 list \<Rightarrow> 'w \<Rightarrow> int \<times> 'w"
  lm_readBits :: "nat \<Rightarrow> int \<Rightarrow> int \<Rightarrow> 'w \<Rightarrow> (int \<times> u8 list) \<times> 'w"
  lm_readInputBits :: "nat \<Rightarrow> int \<Rightarrow> int \<Rightarrow> 'w \<Rightarrow> (int \<times> u8 list) \<times> 'w"
  lm_writeBit :: "nat \<Rightarrow> int \<Rightarrow> int \<Rightarrow> 'w \<Rightarrow> int \<times> 'w"
  lm_writeBits :: "nat \<Rightarrow> int \<Rightarrow> u8 list \<Rightarrow> 'w \<Rightarrow> int \<times> 'w"

text \<open>\<open>so_recv\<close> answers the bytes it stored, none for a result of 0 or less.\<close>

section \<open>The client\<close>

datatype Backend = LibModbus | RtuOverTcp
datatype TransportKind = TransportTcp | TransportRtuSerial | TransportRtuOverTcp

record RtuOverTcpContext =
  rc_host :: string
  rc_port :: int
  rc_slaveId :: int
  rc_fd :: int
  rc_connectTimeout :: int
  rc_timeout :: int

record ModbusClient =
  mb_ctx :: "nat option"
  mb_backend :: Backend
  mb_transport :: TransportKind
  mb_rtuTcp :: "RtuOverTcpContext option"
  mb_interRequestDelay :: int
  mb_lastCompletion :: int
  mb_hasLastCompletion :: bool

type_synonym ('w, 'a) mbResult = "(ModbusError + 'a) \<times> (ModbusClient \<times> 'w)"
type_synonym ('w, 'a) mbCall = "ModbusClient \<times> 'w \<Rightarrow> ('w, 'a) mbResult"

definition ctxClient :: "nat \<Rightarrow> TransportKind \<Rightarrow> ModbusClient" where
  "ctxClient c tk = \<lparr>mb_ctx = Some c, mb_backend = LibModbus, mb_transport = tk, mb_rtuTcp = None,
     mb_interRequestDelay = 0, mb_lastCompletion = 0, mb_hasLastCompletion = False\<rparr>"

definition rtuTcpClient :: "RtuOverTcpContext \<Rightarrow> ModbusClient" where
  "rtuTcpClient r = \<lparr>mb_ctx = None, mb_backend = RtuOverTcp, mb_transport = TransportRtuOverTcp,
     mb_rtuTcp = Some r, mb_interRequestDelay = 0, mb_lastCompletion = 0, mb_hasLastCompletion = False\<rparr>"

definition lastError :: "'w NetOps \<Rightarrow> 'w \<Rightarrow> ModbusError" where
  "lastError N w = modbusError (os_errno N w) (os_strerror N (os_errno N w) w)"

text \<open>The factories.\<close>

definition finishContext ::
  "'w NetOps \<Rightarrow> TransportKind \<Rightarrow> string \<Rightarrow> int \<Rightarrow> nat option \<times> 'w \<Rightarrow> (ModbusError + ModbusClient) \<times> 'w" where
  "finishContext N tk failed slaveId r =
     (case r of
       (None, w) \<Rightarrow> (Inl (modbusError (os_errno N w) failed), w)
     | (Some c, w) \<Rightarrow>
         (case lm_setSlave N c slaveId w of (rc, w1) \<Rightarrow>
           if rc = -1 then (Inl (lastError N w1), lm_free N c w1) else (Inr (ctxClient c tk), w1)))"

definition mbTcp :: "'w NetOps \<Rightarrow> string \<Rightarrow> int \<Rightarrow> int \<Rightarrow> 'w \<Rightarrow> (ModbusError + ModbusClient) \<times> 'w" where
  "mbTcp N host port slaveId w =
     finishContext N TransportTcp ''modbus_new_tcp failed'' slaveId (lm_newTcp N host port w)"

definition mbRtu ::
  "'w NetOps \<Rightarrow> string \<Rightarrow> int \<Rightarrow> char \<Rightarrow> int \<Rightarrow> int \<Rightarrow> int \<Rightarrow> 'w \<Rightarrow> (ModbusError + ModbusClient) \<times> 'w" where
  "mbRtu N device baud parity dataBits stopBits slaveId w =
     finishContext N TransportRtuSerial ''modbus_new_rtu failed'' slaveId
       (lm_newRtu N device baud parity dataBits stopBits w)"

definition mbRtuOverTcp :: "string \<Rightarrow> int \<Rightarrow> int \<Rightarrow> ModbusError + ModbusClient" where
  "mbRtuOverTcp host port slaveId =
     (if host = [] then Inl (modbusError EINVAL ''Host is empty'')
      else if port \<le> 0 \<or> 65535 < port then Inl (modbusError EINVAL ''Port must be in range 1..65535'')
      else if slaveId < 0 \<or> 247 < slaveId then Inl (modbusError EINVAL ''Slave id must be in range 0..247'')
      else Inr (rtuTcpClient \<lparr>rc_host = host, rc_port = port, rc_slaveId = slaveId, rc_fd = -1,
                              rc_connectTimeout = 100, rc_timeout = 100\<rparr>))"

section \<open>Checksums and frames\<close>

definition crcShift :: "u16 \<Rightarrow> u16" where
  "crcShift c = (if odd c then drop_bit 1 c XOR 0xA001 else drop_bit 1 c)"

definition crcByte :: "u8 \<Rightarrow> u16 \<Rightarrow> u16" where
  "crcByte b c = (crcShift ^^ 8) (c XOR ucast b)"

definition crc16_modbus :: "u8 list \<Rightarrow> u16" where
  "crc16_modbus bytes = fold crcByte bytes 0xFFFF"

definition append_crc :: "u8 list \<Rightarrow> u8 list" where
  "append_crc frame = (let crc = crc16_modbus frame in frame @ [ucast crc, ucast (drop_bit 8 crc)])"

definition validate_crc :: "u8 list \<Rightarrow> bool" where
  "validate_crc frame =
     (if length frame < 3 then False
      else let payload = take (length frame - 2) frame;
               lo = frame ! (length frame - 2); hi = frame ! (length frame - 1)
           in crc16_modbus payload = (ucast lo OR push_bit 8 (ucast hi)))"

text \<open>\<^verbatim>\<open>static_cast<std::uint8_t>((v >> 8) & 0xFF)\<close> and \<^verbatim>\<open>static_cast<std::uint8_t>(v & 0xFF)\<close> of an int.\<close>

definition hiByte :: "int \<Rightarrow> u8" where
  "hiByte v = word_of_int (v div 256)"

definition loByte :: "int \<Rightarrow> u8" where
  "loByte v = word_of_int v"

definition wordBytes :: "u16 \<Rightarrow> u8 list" where
  "wordBytes v = [ucast (drop_bit 8 v), ucast v]"

definition bytesWord :: "u8 \<Rightarrow> u8 \<Rightarrow> u16" where
  "bytesWord hi lo = (push_bit 8 (ucast hi) OR ucast lo)"

definition requestHeader :: "int \<Rightarrow> u8 \<Rightarrow> int \<Rightarrow> int \<Rightarrow> u8 list" where
  "requestHeader slave function addr x = [word_of_int slave, function, hiByte addr, loByte addr, hiByte x, loByte x]"

section \<open>Bytes on the socket\<close>

text \<open>\<open>write_all\<close>: the loop gives up at the first call that sends nothing.\<close>

function writeAll :: "'w NetOps \<Rightarrow> int \<Rightarrow> u8 list \<Rightarrow> 'w \<Rightarrow> (ModbusError + unit) \<times> 'w" where
  "writeAll N fd data w =
     (if data = [] then (Inr (), w)
      else case so_send N fd data w of (rc, w1) \<Rightarrow>
        if rc \<le> 0 then
          (Inl (modbusError (if os_errno N w1 \<noteq> 0 then os_errno N w1 else EIO)
             (os_strerror N (os_errno N w1) w1)), w1)
        else writeAll N fd (drop (nat rc) data) w1)"
  by pat_completeness auto
termination
  by (relation "measure (\<lambda>(N, fd, data, w). length data)") auto

text \<open>\<open>read_exact\<close>: the loop asks for what is missing until all \<open>n\<close> bytes have arrived.\<close>

function readExact :: "'w NetOps \<Rightarrow> int \<Rightarrow> nat \<Rightarrow> u8 list \<Rightarrow> 'w \<Rightarrow> (ModbusError + u8 list) \<times> 'w" where
  "readExact N fd n got w =
     (if n \<le> length got then (Inr got, w)
      else case so_recv N fd (n - length got) w of
        (bytes, w1) \<Rightarrow>
          if bytes = [] then
            (Inl (modbusError (if os_errno N w1 \<noteq> 0 then os_errno N w1 else ETIMEDOUT)
               (os_strerror N (os_errno N w1) w1)), w1)
          else readExact N fd n (got @ bytes) w1)"
  by pat_completeness auto
termination
  by (relation "measure (\<lambda>(N, fd, n, got, w). n - length got)")
    (auto simp: neq_Nil_conv)

declare writeAll.simps [simp del] readExact.simps [simp del]

definition notConnected :: "ModbusClient \<Rightarrow> bool" where
  "notConnected c = (case mb_rtuTcp c of None \<Rightarrow> True | Some r \<Rightarrow> rc_fd r < 0)"

definition rtuFd :: "ModbusClient \<Rightarrow> int" where
  "rtuFd c = rc_fd (the (mb_rtuTcp c))"

definition rtuSlave :: "ModbusClient \<Rightarrow> int" where
  "rtuSlave c = rc_slaveId (the (mb_rtuTcp c))"

definition write_all_rtu_over_tcp :: "'w NetOps \<Rightarrow> ModbusClient \<Rightarrow> u8 list \<Rightarrow> 'w \<Rightarrow> (ModbusError + unit) \<times> 'w" where
  "write_all_rtu_over_tcp N c data w =
     (if notConnected c then (Inl (modbusError ENOTCONN ''RTU-over-TCP is not connected''), w)
      else writeAll N (rtuFd c) data w)"

definition read_exact_rtu_over_tcp ::
  "'w NetOps \<Rightarrow> ModbusClient \<Rightarrow> nat \<Rightarrow> 'w \<Rightarrow> (ModbusError + u8 list) \<times> 'w" where
  "read_exact_rtu_over_tcp N c n w =
     (if notConnected c then (Inl (modbusError ENOTCONN ''RTU-over-TCP is not connected''), w)
      else readExact N (rtuFd c) n [] w)"

definition exceptionMessage :: "u8 \<Rightarrow> string" where
  "exceptionMessage code = ''Modbus exception code 0x'' @ hex2 code"

definition read_variable_response_rtu_over_tcp ::
  "'w NetOps \<Rightarrow> ModbusClient \<Rightarrow> u8 \<Rightarrow> 'w \<Rightarrow> (ModbusError + u8 list) \<times> 'w" where
  "read_variable_response_rtu_over_tcp N c expectedFunction w =
     (case read_exact_rtu_over_tcp N c 3 w of
       (Inl e, w1) \<Rightarrow> (Inl e, w1)
     | (Inr hdr, w1) \<Rightarrow>
         if hdr ! 0 \<noteq> word_of_int (rtuSlave c)
         then (Inl (modbusError EIO ''Unexpected slave id in RTU-over-TCP response''), w1)
         else if hdr ! 1 = (expectedFunction OR 0x80) then
           (case read_exact_rtu_over_tcp N c 2 w1 of
             (Inl e, w2) \<Rightarrow> (Inl e, w2)
           | (Inr rest, w2) \<Rightarrow>
               if \<not> validate_crc (hdr @ rest)
               then (Inl (modbusError EIO ''Invalid CRC in exception response''), w2)
               else (Inl (modbusError EIO (exceptionMessage ((hdr @ rest) ! 2))), w2))
         else if hdr ! 1 \<noteq> expectedFunction
         then (Inl (modbusError EIO ''Unexpected function code in RTU-over-TCP response''), w1)
         else (case read_exact_rtu_over_tcp N c (unat (hdr ! 2) + 2) w1 of
             (Inl e, w2) \<Rightarrow> (Inl e, w2)
           | (Inr rest, w2) \<Rightarrow>
               if \<not> validate_crc (hdr @ rest)
               then (Inl (modbusError EIO ''Invalid CRC in RTU-over-TCP response''), w2)
               else (Inr (hdr @ rest), w2)))"

definition exchange_fixed_response_rtu_over_tcp ::
  "'w NetOps \<Rightarrow> ModbusClient \<Rightarrow> u8 list \<Rightarrow> u8 \<Rightarrow> 'w \<Rightarrow> (ModbusError + u8 list) \<times> 'w" where
  "exchange_fixed_response_rtu_over_tcp N c request function w =
     (case write_all_rtu_over_tcp N c request w of
       (Inl e, w1) \<Rightarrow> (Inl e, w1)
     | (Inr _, w1) \<Rightarrow>
       (case read_exact_rtu_over_tcp N c 8 w1 of
         (Inl e, w2) \<Rightarrow> (Inl e, w2)
       | (Inr response, w2) \<Rightarrow>
           if response ! 0 \<noteq> word_of_int (rtuSlave c)
              \<or> (response ! 1 \<noteq> function \<and> response ! 1 \<noteq> (function OR 0x80))
           then (Inl (modbusError EIO ''Invalid RTU-over-TCP response header''), w2)
           else if \<not> validate_crc response
           then (Inl (modbusError EIO ''Invalid CRC in RTU-over-TCP response''), w2)
           else if response ! 1 = (function OR 0x80)
           then (Inl (modbusError EIO (exceptionMessage (response ! 2))), w2)
           else (Inr response, w2)))"

section \<open>Requests over the raw socket\<close>

definition read_registers_rtu_over_tcp ::
  "'w NetOps \<Rightarrow> ModbusClient \<Rightarrow> u8 \<Rightarrow> int \<Rightarrow> int \<Rightarrow> 'w \<Rightarrow> (ModbusError + u16 list) \<times> 'w" where
  "read_registers_rtu_over_tcp N c function addr count w =
     (if count \<le> 0 \<or> 125 < count then (Inl (modbusError EINVAL ''Invalid register count''), w)
      else case write_all_rtu_over_tcp N c (append_crc (requestHeader (rtuSlave c) function addr count)) w of
        (Inl e, w1) \<Rightarrow> (Inl e, w1)
      | (Inr _, w1) \<Rightarrow>
        (case read_variable_response_rtu_over_tcp N c function w1 of
          (Inl e, w2) \<Rightarrow> (Inl e, w2)
        | (Inr frame, w2) \<Rightarrow>
            if frame ! 2 \<noteq> word_of_int (count * 2)
            then (Inl (modbusError EIO ''Unexpected byte count in response''), w2)
            else (Inr (map (\<lambda>i. bytesWord (frame ! (3 + i * 2)) (frame ! (3 + i * 2 + 1))) [0 ..< nat count]), w2)))"

definition unitResult :: "(ModbusError + u8 list) \<times> 'w \<Rightarrow> (ModbusError + unit) \<times> 'w" where
  "unitResult r = (case r of (Inl e, w) \<Rightarrow> (Inl e, w) | (Inr _, w) \<Rightarrow> (Inr (), w))"

definition write_single_register_rtu_over_tcp ::
  "'w NetOps \<Rightarrow> ModbusClient \<Rightarrow> int \<Rightarrow> u16 \<Rightarrow> 'w \<Rightarrow> (ModbusError + unit) \<times> 'w" where
  "write_single_register_rtu_over_tcp N c addr value w =
     unitResult (exchange_fixed_response_rtu_over_tcp N c
       (append_crc ([word_of_int (rtuSlave c), 0x06, hiByte addr, loByte addr] @ wordBytes value)) 0x06 w)"

definition write_multiple_registers_rtu_over_tcp ::
  "'w NetOps \<Rightarrow> ModbusClient \<Rightarrow> int \<Rightarrow> u16 list \<Rightarrow> 'w \<Rightarrow> (ModbusError + unit) \<times> 'w" where
  "write_multiple_registers_rtu_over_tcp N c addr values w =
     (if values = [] \<or> 123 < length values then (Inl (modbusError EINVAL ''Invalid number of registers''), w)
      else let count = (of_nat (length values) :: u16);
               byteCount = (ucast (count * 2) :: u8)
           in unitResult (exchange_fixed_response_rtu_over_tcp N c
                (append_crc ([word_of_int (rtuSlave c), 0x10, hiByte addr, loByte addr] @ wordBytes count
                   @ [byteCount] @ concat (map wordBytes values))) 0x10 w))"

text \<open>
  The bytes of the answer are indexed by the requested count; the byte count of the answer is
  not compared with it (an index beyond the frame is undefined in C++, unspecified here).
\<close>

definition read_bits_rtu_over_tcp ::
  "'w NetOps \<Rightarrow> ModbusClient \<Rightarrow> u8 \<Rightarrow> int \<Rightarrow> int \<Rightarrow> 'w \<Rightarrow> (ModbusError + bool list) \<times> 'w" where
  "read_bits_rtu_over_tcp N c function addr count w =
     (if count \<le> 0 \<or> 2000 < count then (Inl (modbusError EINVAL ''Invalid bit count''), w)
      else case write_all_rtu_over_tcp N c (append_crc (requestHeader (rtuSlave c) function addr count)) w of
        (Inl e, w1) \<Rightarrow> (Inl e, w1)
      | (Inr _, w1) \<Rightarrow>
        (case read_variable_response_rtu_over_tcp N c function w1 of
          (Inl e, w2) \<Rightarrow> (Inl e, w2)
        | (Inr frame, w2) \<Rightarrow> (Inr (map (\<lambda>i. bit (frame ! (3 + i div 8)) (i mod 8)) [0 ..< nat count]), w2)))"

definition write_single_coil_rtu_over_tcp ::
  "'w NetOps \<Rightarrow> ModbusClient \<Rightarrow> int \<Rightarrow> bool \<Rightarrow> 'w \<Rightarrow> (ModbusError + unit) \<times> 'w" where
  "write_single_coil_rtu_over_tcp N c addr value w =
     unitResult (exchange_fixed_response_rtu_over_tcp N c
       (append_crc ([word_of_int (rtuSlave c), 0x05, hiByte addr, loByte addr]
          @ wordBytes (if value then 0xFF00 else 0))) 0x05 w)"

text \<open>The coil values, eight to a byte, the first in the lowest bit.\<close>

definition packBits :: "bool list \<Rightarrow> u8 list" where
  "packBits values = map (\<lambda>k. foldl (\<lambda>b j. if 8 * k + j < length values \<and> values ! (8 * k + j)
       then b OR push_bit j 1 else b) 0 [0 ..< 8]) [0 ..< (length values + 7) div 8]"

definition write_multiple_bits_rtu_over_tcp ::
  "'w NetOps \<Rightarrow> ModbusClient \<Rightarrow> int \<Rightarrow> bool list \<Rightarrow> 'w \<Rightarrow> (ModbusError + unit) \<times> 'w" where
  "write_multiple_bits_rtu_over_tcp N c addr values w =
     (if values = [] \<or> 1968 < length values then (Inl (modbusError EINVAL ''Invalid number of bits''), w)
      else let count = (of_nat (length values) :: u16);
               byteCount = (of_nat ((length values + 7) div 8) :: u8)
           in unitResult (exchange_fixed_response_rtu_over_tcp N c
                (append_crc ([word_of_int (rtuSlave c), 0x0F, hiByte addr, loByte addr] @ wordBytes count
                   @ [byteCount] @ packBits values)) 0x0F w))"

section \<open>Connecting\<close>

text \<open>\<open>connect_with_timeout\<close>: a non-blocking connect, then a wait for the socket.\<close>

definition strError :: "'w NetOps \<Rightarrow> int \<Rightarrow> 'w \<Rightarrow> ModbusError" where
  "strError N e w = modbusError e (os_strerror N e w)"

definition connect_with_timeout ::
  "'w NetOps \<Rightarrow> int \<Rightarrow> nat \<Rightarrow> int \<Rightarrow> 'w \<Rightarrow> (ModbusError + unit) \<times> 'w" where
  "connect_with_timeout N fd addr timeout w =
     (case so_getfl N fd w of (flags, w1) \<Rightarrow>
      if flags < 0 then (Inl (strError N (os_errno N w1) w1), w1)
      else case so_setNonBlocking N fd True flags w1 of (frc, w2) \<Rightarrow>
      if frc \<noteq> 0 then (Inl (strError N (os_errno N w2) w2), w2)
      else case so_connect N fd addr w2 of (rc, w3) \<Rightarrow>
      let restore = (\<lambda>w. snd (so_setNonBlocking N fd False flags w)) in
      if rc = 0 then (Inr (), restore w3)
      else if os_errno N w3 \<noteq> EINPROGRESS
      then (let e = os_errno N w3; w4 = restore w3 in (Inl (strError N e w4), w4))
      else case so_poll N fd (max 1 timeout) w3 of (prc, w4) \<Rightarrow>
      if prc = 0 then (Inl (modbusError ETIMEDOUT ''Connection timed out''), restore w4)
      else if prc < 0 then (let e = os_errno N w4; w5 = restore w4 in (Inl (strError N e w5), w5))
      else case so_getSoError N fd w4 of ((grc, soError), w5) \<Rightarrow>
      if grc \<noteq> 0 then (let e = os_errno N w5; w6 = restore w5 in (Inl (strError N e w6), w6))
      else let w6 = restore w5 in
        if soError \<noteq> 0 then (Inl (strError N soError w6), w6) else (Inr (), w6))"

text \<open>The addresses are tried in order; the result is the descriptor of the first that connects.\<close>

fun tryAddresses ::
  "'w NetOps \<Rightarrow> int \<Rightarrow> nat list \<Rightarrow> ModbusError \<Rightarrow> 'w \<Rightarrow> (ModbusError + int) \<times> 'w" where
  "tryAddresses N timeout [] lastErr w = (Inl lastErr, w)"
| "tryAddresses N timeout (a # as) lastErr w =
     (case so_socket N a w of (fd, w1) \<Rightarrow>
      if fd < 0 then tryAddresses N timeout as lastErr w1
      else case connect_with_timeout N fd a timeout w1 of
        (Inr _, w2) \<Rightarrow> (Inr fd, w2)
      | (Inl e, w2) \<Rightarrow> tryAddresses N timeout as e (so_close N fd w2))"

definition setRtu :: "RtuOverTcpContext \<Rightarrow> ModbusClient \<Rightarrow> ModbusClient" where
  "setRtu r c = c\<lparr>mb_rtuTcp := Some r\<rparr>"

definition set_response_timeout_rtu_over_tcp :: "'w NetOps \<Rightarrow> int \<Rightarrow> ('w, unit) mbCall" where
  "set_response_timeout_rtu_over_tcp N timeout = (\<lambda>(c, w).
     case mb_rtuTcp c of
       None \<Rightarrow> (Inl (modbusError 0 ''Null RTU-over-TCP context''), (c, w))
     | Some r \<Rightarrow>
         (let c1 = setRtu (r\<lparr>rc_timeout := timeout\<rparr>) c
          in if rc_fd r < 0 then (Inr (), (c1, w))
             else case so_setRcvTimeout N (rc_fd r) (timeout div 1000) (timeout mod 1000 * 1000) w of (rc1, w1) \<Rightarrow>
               if rc1 \<noteq> 0 then (Inl (strError N (os_errno N w1) w1), (c1, w1))
               else case so_setSndTimeout N (rc_fd r) (timeout div 1000) (timeout mod 1000 * 1000) w1 of (rc2, w2) \<Rightarrow>
                 if rc2 \<noteq> 0 then (Inl (strError N (os_errno N w2) w2), (c1, w2))
                 else (Inr (), (c1, w2))))"

definition connect_rtu_over_tcp :: "'w NetOps \<Rightarrow> ('w, unit) mbCall" where
  "connect_rtu_over_tcp N = (\<lambda>(c, w).
     case mb_rtuTcp c of
       None \<Rightarrow> (Inl (modbusError 0 ''Null RTU-over-TCP context''), (c, w))
     | Some r \<Rightarrow>
         if 0 \<le> rc_fd r then (Inr (), (c, w))
         else case so_getaddrinfo N (rc_host r) (dec (rc_port r)) w of
           (Inl m, w1) \<Rightarrow> (Inl (modbusError EINVAL (''getaddrinfo failed: '' @ m)), (c, w1))
         | (Inr addrs, w1) \<Rightarrow>
             (case tryAddresses N (rc_connectTimeout r) addrs (modbusError ETIMEDOUT ''connection timed out'') w1 of
               (Inl e, w2) \<Rightarrow> (Inl e, (c, w2))
             | (Inr fd, w2) \<Rightarrow>
                 set_response_timeout_rtu_over_tcp N (rc_timeout r)
                   (setRtu (r\<lparr>rc_fd := fd\<rparr>) c, so_setNoDelay N fd w2)))"

definition close_rtu_over_tcp :: "'w NetOps \<Rightarrow> ModbusClient \<times> 'w \<Rightarrow> ModbusClient \<times> 'w" where
  "close_rtu_over_tcp N = (\<lambda>(c, w).
     case mb_rtuTcp c of None \<Rightarrow> (c, w)
     | Some r \<Rightarrow> if 0 \<le> rc_fd r then (setRtu (r\<lparr>rc_fd := -1\<rparr>) c, so_close N (rc_fd r) w) else (c, w))"

section \<open>The public operations\<close>

definition mbConnect :: "'w NetOps \<Rightarrow> ('w, unit) mbCall" where
  "mbConnect N = (\<lambda>(c, w).
     if mb_backend c = RtuOverTcp then connect_rtu_over_tcp N (c, w)
     else case mb_ctx c of
       None \<Rightarrow> (Inl (modbusError 0 ''Null context''), (c, w))
     | Some x \<Rightarrow> (case lm_connect N x w of (rc, w1) \<Rightarrow>
         if rc = -1 then (Inl (lastError N w1), (c, w1)) else (Inr (), (c, w1))))"

definition mbClose :: "'w NetOps \<Rightarrow> ModbusClient \<times> 'w \<Rightarrow> ModbusClient \<times> 'w" where
  "mbClose N = (\<lambda>(c, w).
     if mb_backend c = RtuOverTcp then close_rtu_over_tcp N (c, w)
     else case mb_ctx c of None \<Rightarrow> (c, w) | Some x \<Rightarrow> (c, lm_close N x w))"

text \<open>The destructor: what is left of the world when the client goes away.\<close>

definition mbCleanup :: "'w NetOps \<Rightarrow> ModbusClient \<times> 'w \<Rightarrow> 'w" where
  "mbCleanup N = (\<lambda>(c, w).
     if mb_backend c = RtuOverTcp then snd (close_rtu_over_tcp N (c, w))
     else case mb_ctx c of None \<Rightarrow> w | Some x \<Rightarrow> lm_free N x (lm_close N x w))"

definition mbSetResponseTimeout :: "'w NetOps \<Rightarrow> int \<Rightarrow> ('w, unit) mbCall" where
  "mbSetResponseTimeout N timeout = (\<lambda>(c, w).
     if mb_backend c = RtuOverTcp then set_response_timeout_rtu_over_tcp N timeout (c, w)
     else case lm_setResponseTimeout N (the (mb_ctx c)) (word_of_int (timeout div 1000))
            (word_of_int (timeout mod 1000 * 1000)) w of (rc, w1) \<Rightarrow>
       if rc = -1 then (Inl (lastError N w1), (c, w1)) else (Inr (), (c, w1)))"

definition mbSetConnectTimeout :: "int \<Rightarrow> ('w, unit) mbCall" where
  "mbSetConnectTimeout timeout = (\<lambda>(c, w).
     if mb_backend c = RtuOverTcp then
       (case mb_rtuTcp c of
          None \<Rightarrow> (Inl (modbusError 0 ''Null RTU-over-TCP context''), (c, w))
        | Some r \<Rightarrow> (Inr (), (setRtu (r\<lparr>rc_connectTimeout := timeout\<rparr>) c, w)))
     else (Inr (), (c, w)))"

definition mbSetInterRequestDelay :: "int \<Rightarrow> ('w, unit) mbCall" where
  "mbSetInterRequestDelay delay = (\<lambda>(c, w).
     if delay < 0 then (Inl (modbusError EINVAL ''Inter-request delay cannot be negative''), (c, w))
     else (Inr (), (c\<lparr>mb_interRequestDelay := delay\<rparr>, w)))"

definition mbSetSlave :: "'w NetOps \<Rightarrow> int \<Rightarrow> ('w, unit) mbCall" where
  "mbSetSlave N slaveId = (\<lambda>(c, w).
     if mb_backend c = RtuOverTcp then
       (case mb_rtuTcp c of
          None \<Rightarrow> (Inl (modbusError 0 ''Null RTU-over-TCP context''), (c, w))
        | Some r \<Rightarrow>
            if slaveId < 0 \<or> 247 < slaveId
            then (Inl (modbusError EINVAL ''Slave id must be in range 0..247''), (c, w))
            else (Inr (), (setRtu (r\<lparr>rc_slaveId := slaveId\<rparr>) c, w)))
     else case mb_ctx c of
       None \<Rightarrow> (Inl (modbusError 0 ''Null context''), (c, w))
     | Some x \<Rightarrow> (case lm_setSlave N x slaveId w of (rc, w1) \<Rightarrow>
         if rc = -1 then (Inl (lastError N w1), (c, w1)) else (Inr (), (c, w1))))"

definition isRtuTransport :: "ModbusClient \<Rightarrow> bool" where
  "isRtuTransport c = (mb_transport c = TransportRtuSerial \<or> mb_transport c = TransportRtuOverTcp)"

text \<open>Times of the clock are nanoseconds, the delay milliseconds.\<close>

definition waitInterRequestGap :: "'w NetOps \<Rightarrow> ModbusClient \<times> 'w \<Rightarrow> ModbusClient \<times> 'w" where
  "waitInterRequestGap N = (\<lambda>(c, w).
     if \<not> isRtuTransport c \<or> mb_interRequestDelay c \<le> 0 \<or> \<not> mb_hasLastCompletion c then (c, w)
     else case os_now N w of (now, w1) \<Rightarrow>
       (let elapsed = msOfNs (now - mb_lastCompletion c)
        in if elapsed < mb_interRequestDelay c
           then (c, os_sleepFor N (mb_interRequestDelay c - elapsed) w1) else (c, w1)))"

definition markTransactionCompleted :: "'w NetOps \<Rightarrow> ModbusClient \<times> 'w \<Rightarrow> ModbusClient \<times> 'w" where
  "markTransactionCompleted N = (\<lambda>(c, w).
     if \<not> isRtuTransport c then (c, w)
     else case os_now N w of (now, w1) \<Rightarrow> (c\<lparr>mb_hasLastCompletion := True, mb_lastCompletion := now\<rparr>, w1))"

text \<open>A transaction: wait for the gap, talk to the backend, note the time.\<close>

definition transact ::
  "'w NetOps \<Rightarrow> (ModbusClient \<Rightarrow> 'w \<Rightarrow> (ModbusError + 'a) \<times> 'w) \<Rightarrow>
     (nat \<Rightarrow> 'w \<Rightarrow> (int \<times> 'd) \<times> 'w) \<Rightarrow> (int \<Rightarrow> 'd \<Rightarrow> 'a) \<Rightarrow> ('w, 'a) mbCall" where
  "transact N rtu lib result = (\<lambda>s.
     case waitInterRequestGap N s of (c, w) \<Rightarrow>
     if mb_backend c = RtuOverTcp then
       (case rtu c w of (r, w1) \<Rightarrow> (r, markTransactionCompleted N (c, w1)))
     else case lib (the (mb_ctx c)) w of ((rc, d), w1) \<Rightarrow>
       (case markTransactionCompleted N (c, w1) of (c2, w2) \<Rightarrow>
          (if rc = -1 then (Inl (lastError N w2), (c2, w2)) else (Inr (result rc d), (c2, w2)))))"

text \<open>\<^verbatim>\<open>buffer.resize(rc)\<close>\<close>

definition resizeTo :: "'a \<Rightarrow> nat \<Rightarrow> 'a list \<Rightarrow> 'a list" where
  "resizeTo z n xs = take n xs @ replicate (n - length xs) z"

definition mbReadHoldingRegisters :: "'w NetOps \<Rightarrow> int \<Rightarrow> int \<Rightarrow> ('w, u16 list) mbCall" where
  "mbReadHoldingRegisters N addr count = transact N (\<lambda>c. read_registers_rtu_over_tcp N c 0x03 addr count)
     (\<lambda>x. lm_readRegisters N x addr count) (\<lambda>rc d. resizeTo 0 (nat rc) d)"

definition mbReadInputRegisters :: "'w NetOps \<Rightarrow> int \<Rightarrow> int \<Rightarrow> ('w, u16 list) mbCall" where
  "mbReadInputRegisters N addr count = transact N (\<lambda>c. read_registers_rtu_over_tcp N c 0x04 addr count)
     (\<lambda>x. lm_readInputRegisters N x addr count) (\<lambda>rc d. resizeTo 0 (nat rc) d)"

text \<open>The calls that answer only a code.\<close>

definition withUnit :: "('w \<Rightarrow> int \<times> 'w) \<Rightarrow> 'w \<Rightarrow> (int \<times> unit) \<times> 'w" where
  "withUnit f w = (case f w of (rc, w1) \<Rightarrow> ((rc, ()), w1))"

definition mbWriteSingleRegister :: "'w NetOps \<Rightarrow> int \<Rightarrow> u16 \<Rightarrow> ('w, unit) mbCall" where
  "mbWriteSingleRegister N addr value = transact N (\<lambda>c. write_single_register_rtu_over_tcp N c addr value)
     (\<lambda>x. withUnit (lm_writeRegister N x addr value)) (\<lambda>_ _. ())"

definition mbWriteMultipleRegisters :: "'w NetOps \<Rightarrow> int \<Rightarrow> u16 list \<Rightarrow> ('w, unit) mbCall" where
  "mbWriteMultipleRegisters N addr values = transact N (\<lambda>c. write_multiple_registers_rtu_over_tcp N c addr values)
     (\<lambda>x. withUnit (lm_writeRegisters N x addr values)) (\<lambda>_ _. ())"

definition mbReadBits :: "'w NetOps \<Rightarrow> int \<Rightarrow> int \<Rightarrow> ('w, bool list) mbCall" where
  "mbReadBits N addr count = transact N (\<lambda>c. read_bits_rtu_over_tcp N c 0x01 addr count)
     (\<lambda>x. lm_readBits N x addr count) (\<lambda>rc raw. map (\<lambda>i. raw ! i \<noteq> 0) [0 ..< nat rc])"

definition mbReadInputBits :: "'w NetOps \<Rightarrow> int \<Rightarrow> int \<Rightarrow> ('w, bool list) mbCall" where
  "mbReadInputBits N addr count = transact N (\<lambda>c. read_bits_rtu_over_tcp N c 0x02 addr count)
     (\<lambda>x. lm_readInputBits N x addr count) (\<lambda>rc raw. map (\<lambda>i. raw ! i \<noteq> 0) [0 ..< nat rc])"

definition mbWriteBit :: "'w NetOps \<Rightarrow> int \<Rightarrow> bool \<Rightarrow> ('w, unit) mbCall" where
  "mbWriteBit N addr value = transact N (\<lambda>c. write_single_coil_rtu_over_tcp N c addr value)
     (\<lambda>x. withUnit (lm_writeBit N x addr (if value then 1 else 0))) (\<lambda>_ _. ())"

definition mbWriteBits :: "'w NetOps \<Rightarrow> int \<Rightarrow> bool list \<Rightarrow> ('w, unit) mbCall" where
  "mbWriteBits N addr values = transact N (\<lambda>c. write_multiple_bits_rtu_over_tcp N c addr values)
     (\<lambda>x. withUnit (lm_writeBits N x addr (map (\<lambda>b. if b then 1 else 0) values))) (\<lambda>_ _. ())"

end
