(* ===== verification/ModbusFacts.thy ===== *)
theory ModbusFacts
  imports Modbus
begin

text \<open>
  What the Modbus client promises: the checksum is closed under building and checking a frame
  and detects every corrupted byte; a register read over the raw socket sends exactly the
  request frame and returns the registers of the answer, however the bytes are chunked. Two
  weaknesses of the framing are shown as well: an answer is not matched with the address of
  its request, and an exception answer to a write is never recognised.
\<close>

section \<open>The checksum\<close>

lemma bit_u16_16: "\<not> bit (c :: u16) 16"
  using bit_imp_le_length [of c 16] by auto

lemma bit_crcShift_15: "bit (crcShift c) 15 = odd c"
  by (simp add: crcShift_def bit_simps bit_u16_16)

lemma xor_cancel: "(x XOR k = y XOR k) = (x = (y :: 'a :: len word))"
proof
  assume "x XOR k = y XOR k"
  then have "(x XOR k) XOR k = (y XOR k) XOR k" by simp
  then show "x = y" by (simp add: xor.assoc)
qed simp

lemma crcShift_inj:
  assumes "crcShift c = crcShift c'"
  shows "c = c'"
proof (rule bit_eqI)
  fix n
  have par: "odd c = odd c'"
    using assms bit_crcShift_15 by metis
  have "drop_bit 1 c = drop_bit 1 c'"
    using assms par by (simp add: crcShift_def xor_cancel split: if_splits)
  then have "bit (drop_bit 1 c) (n - 1) = bit (drop_bit 1 c') (n - 1)" by simp
  then show "bit c n = bit c' n"
    using par by (cases n) (simp_all add: bit_0 bit_drop_bit_eq)
qed

lemma crcShift_pow_inj: "(crcShift ^^ n) c = (crcShift ^^ n) c' \<Longrightarrow> c = c'"
  by (induction n arbitrary: c c') (auto dest: crcShift_inj)

lemma crcByte_inj: "crcByte b c = crcByte b c' \<Longrightarrow> c = c'"
  using crcShift_pow_inj [of 8 "c XOR ucast b" "c' XOR ucast b"] by (simp add: crcByte_def xor_cancel)

lemma ucast_u8_inj:
  assumes "(ucast b :: u16) = ucast b'"
  shows "b = (b' :: u8)"
proof (rule bit_eqI)
  fix n
  have "bit (ucast b :: u16) n = bit (ucast b' :: u16) n"
    using assms by simp
  then show "bit b n = bit b' n"
    by (auto simp: bit_ucast_iff dest: bit_imp_le_length)
qed

lemma crcByte_inj_byte: "crcByte b c = crcByte b' c \<Longrightarrow> b = b'"
proof -
  assume "crcByte b c = crcByte b' c"
  then have "c XOR ucast b = c XOR ucast b'"
    using crcShift_pow_inj [of 8 "c XOR ucast b" "c XOR ucast b'"] by (simp add: crcByte_def)
  then have "ucast b XOR c = ucast b' XOR c"
    by (simp add: xor.commute)
  then show "b = b'"
    by (simp add: xor_cancel ucast_u8_inj)
qed

lemma fold_crc_inj: "fold crcByte bs c = fold crcByte bs c' \<Longrightarrow> c = c'"
  by (induction bs arbitrary: c c') (auto dest: crcByte_inj)

text \<open>Two payloads that differ in one byte have different checksums.\<close>

lemma crc_update:
  assumes "i < length bs" and "b \<noteq> bs ! i"
  shows "crc16_modbus (bs[i := b]) \<noteq> crc16_modbus bs"
proof
  assume eq: "crc16_modbus (bs[i := b]) = crc16_modbus bs"
  have "bs = take i bs @ bs ! i # drop (Suc i) bs"
    by (rule id_take_nth_drop [OF assms(1)])
  then have l: "crc16_modbus bs = fold crcByte (drop (Suc i) bs) (crcByte (bs ! i) (fold crcByte (take i bs) 0xFFFF))"
    unfolding crc16_modbus_def by (metis fold_append fold_simps(2) comp_apply)
  have r: "crc16_modbus (bs[i := b]) = fold crcByte (drop (Suc i) bs) (crcByte b (fold crcByte (take i bs) 0xFFFF))"
    using assms(1) by (simp add: crc16_modbus_def upd_conv_take_nth_drop)
  from eq [unfolded l r] have "b = bs ! i"
    by (blast dest: fold_crc_inj crcByte_inj_byte)
  with assms(2) show False by simp
qed

section \<open>Bytes and words\<close>

lemma u8_bound: "bit (b :: u8) n \<Longrightarrow> n < 8" and u16_bound: "bit (v :: u16) n \<Longrightarrow> n < 16"
  using bit_imp_le_length [of b n] bit_imp_le_length [of v n] by simp_all

lemma bytesWord_wordBytes: "bytesWord (ucast (drop_bit 8 v)) (ucast v) = v"
proof (rule bit_eqI)
  fix n
  show "bit (bytesWord (ucast (drop_bit 8 v)) (ucast v)) n = bit v n"
    by (cases "n < 8") (auto simp: bytesWord_def bit_simps dest: u16_bound)
qed

lemma crc_recombine:
  "((ucast (ucast c :: u8) :: u16) OR push_bit 8 (ucast (ucast (drop_bit 8 c) :: u8))) = c"
  using bytesWord_wordBytes [of c] by (simp add: bytesWord_def or.commute)

lemma validate_tail:
  "p \<noteq> [] \<Longrightarrow> validate_crc (p @ [ucast c, ucast (drop_bit 8 c)]) = (crc16_modbus p = c)"
  by (cases p) (auto simp: validate_crc_def Let_def crc_recombine nth_append)

lemma validate_append: "f \<noteq> [] \<Longrightarrow> validate_crc (append_crc f)"
  by (simp add: append_crc_def Let_def validate_tail)

text \<open>C28: a frame with its checksum appended is accepted, and after any change of one byte of its
  payload it is rejected.\<close>

theorem crc_detects_corruption:
  assumes "i < length payload" and "b \<noteq> payload ! i"
  shows "validate_crc (append_crc payload) \<and> \<not> validate_crc ((append_crc payload)[i := b])"
proof -
  have ne: "payload \<noteq> []" "payload[i := b] \<noteq> []"
    using assms(1) by auto
  have "(append_crc payload)[i := b] =
      payload[i := b] @ [ucast (crc16_modbus payload), ucast (drop_bit 8 (crc16_modbus payload))]"
    using assms(1) by (simp add: append_crc_def Let_def list_update_append)
  then show ?thesis
    using crc_update [OF assms] by (simp add: validate_append [OF ne(1)] validate_tail [OF ne(2)])
qed

theorem crc_detects_corruption_witness:
  "\<not> validate_crc ((append_crc [1, 3, 2, 0, 5])[4 := 7])"
  using crc_detects_corruption [of 4 "[1, 3, 2, 0, 5]" 7] by simp

section \<open>Stream sockets\<close>

text \<open>
  What the client relies on of a connected stream socket: \<open>sent\<close> is what has been accepted by
  \<^verbatim>\<open>send\<close>, \<open>pending\<close> the bytes that will arrive before the receive timeout. A send accepts some
  of the bytes, a receive returns some of the pending ones, or nothing when none arrives.
\<close>

definition streamSocket :: "'w NetOps \<Rightarrow> int \<Rightarrow> ('w \<Rightarrow> u8 list) \<Rightarrow> ('w \<Rightarrow> u8 list) \<Rightarrow> bool" where
  "streamSocket N fd sent pending =
     ((\<forall>w data. data \<noteq> [] \<longrightarrow> (\<exists>k w1. so_send N fd data w = (int k, w1) \<and> 1 \<le> k \<and> k \<le> length data
          \<and> sent w1 = sent w @ take k data \<and> pending w1 = pending w))
      \<and> (\<forall>w n. 0 < n \<longrightarrow> (\<exists>bs w1. so_recv N fd n w = (bs, w1) \<and> (bs = [] \<longleftrightarrow> pending w = [])
          \<and> length bs \<le> n \<and> pending w = bs @ pending w1 \<and> sent w1 = sent w)))"

lemma writeAll_stream:
  assumes "streamSocket N fd sent pending"
  shows "\<exists>w1. writeAll N fd data w = (Inr (), w1) \<and> sent w1 = sent w @ data \<and> pending w1 = pending w"
proof (induction "length data" arbitrary: data w rule: less_induct)
  case less
  show ?case
  proof (cases "data = []")
    case True
    then show ?thesis by (simp add: writeAll.simps)
  next
    case False
    with assms obtain k w1 where k: "so_send N fd data w = (int k, w1)" "1 \<le> k" "k \<le> length data"
      "sent w1 = sent w @ take k data" "pending w1 = pending w"
      unfolding streamSocket_def by blast
    have "length (drop k data) < length data"
      using False k(2) by simp
    from less [OF this, of w1] obtain w2 where
      "writeAll N fd (drop k data) w1 = (Inr (), w2)" "sent w2 = sent w @ data" "pending w2 = pending w"
      by (auto simp: k(4,5))
    then show ?thesis
      using False k(1,2) by (subst writeAll.simps) simp
  qed
qed

lemma readExact_stream:
  assumes "streamSocket N fd sent pending" and "length got \<le> n" and "n - length got \<le> length (pending w)"
  shows "\<exists>w1. readExact N fd n got w = (Inr (got @ take (n - length got) (pending w)), w1)
    \<and> pending w1 = drop (n - length got) (pending w) \<and> sent w1 = sent w"
  using assms(2,3)
proof (induction "n - length got" arbitrary: got w rule: less_induct)
  case less
  show ?case
  proof (cases "length got = n")
    case True
    then show ?thesis by (subst readExact.simps) simp
  next
    case False
    then have pos: "0 < n - length got" using less.prems by simp
    then obtain bs w1 where r: "so_recv N fd (n - length got) w = (bs, w1)" "(bs = []) = (pending w = [])"
      "length bs \<le> n - length got" "pending w = bs @ pending w1" "sent w1 = sent w"
      using assms(1) unfolding streamSocket_def by blast
    have "bs \<noteq> []"
      using r(2) less.prems pos by auto
    then have "n - length (got @ bs) < n - length got" "length (got @ bs) \<le> n"
      using r(3) pos by (simp_all add: diff_less_mono2)
    moreover have "n - length (got @ bs) \<le> length (pending w1)"
      using less.prems(2) r(4) by simp
    ultimately obtain w2 where
      "readExact N fd n (got @ bs) w1 = (Inr (got @ bs @ take (n - length (got @ bs)) (pending w1)), w2)"
      "pending w2 = drop (n - length (got @ bs)) (pending w1)" "sent w2 = sent w"
      using less.hyps [of "got @ bs" w1] r(5) by auto
    then show ?thesis
      using False less.prems(1) \<open>bs \<noteq> []\<close> r(1,3,4) by (subst readExact.simps) simp
  qed
qed

lemma readExact_short:
  assumes "streamSocket N fd sent pending" and "length (pending w) < n - length got"
  shows "\<exists>e w1. readExact N fd n got w = (Inl e, w1) \<and> pending w1 = []
    \<and> e = modbusError (if os_errno N w1 \<noteq> 0 then os_errno N w1 else ETIMEDOUT) (os_strerror N (os_errno N w1) w1)"
  using assms(2)
proof (induction "n - length got" arbitrary: got w rule: less_induct)
  case less
  then have pos: "0 < n - length got" by simp
  then obtain bs w1 where r: "so_recv N fd (n - length got) w = (bs, w1)" "(bs = []) = (pending w = [])"
    "length bs \<le> n - length got" "pending w = bs @ pending w1"
    using assms(1) unfolding streamSocket_def by blast
  show ?case
  proof (cases "bs = []")
    case True
    with r have "pending w1 = []" by simp
    then show ?thesis
      using pos r(1) True by (subst readExact.simps) simp
  next
    case False
    have "n - length (got @ bs) < n - length got" "length (pending w1) < n - length (got @ bs)"
      using False pos less.prems r(4) by (simp_all add: diff_less_mono2)
    from less.hyps [OF this] show ?thesis
      using False pos r(1) by (subst readExact.simps) simp
  qed
qed

text \<open>The two calls of the client, for a connected client.\<close>

lemma write_all_stream:
  assumes "streamSocket N (rtuFd c) sent pending" and "\<not> notConnected c"
  shows "\<exists>w1. write_all_rtu_over_tcp N c data w = (Inr (), w1) \<and> sent w1 = sent w @ data \<and> pending w1 = pending w"
  using writeAll_stream [OF assms(1)] assms(2) by (simp add: write_all_rtu_over_tcp_def)

lemma read_exact_stream:
  assumes "streamSocket N (rtuFd c) sent pending" and "\<not> notConnected c" and "pending w = bs @ rest" and "length bs = n"
  shows "\<exists>w1. read_exact_rtu_over_tcp N c n w = (Inr bs, w1) \<and> pending w1 = rest \<and> sent w1 = sent w"
  using readExact_stream [OF assms(1), of "[]" n w] assms(2-4) by (simp add: read_exact_rtu_over_tcp_def)

lemma read_exact_short:
  assumes "streamSocket N (rtuFd c) sent pending" and "\<not> notConnected c" and "length (pending w) < n"
  shows "\<exists>e w1. read_exact_rtu_over_tcp N c n w = (Inl e, w1) \<and> pending w1 = []
    \<and> e = modbusError (if os_errno N w1 \<noteq> 0 then os_errno N w1 else ETIMEDOUT) (os_strerror N (os_errno N w1) w1)"
  using readExact_short [OF assms(1), of w n "[]"] assms(2,3) by (simp add: read_exact_rtu_over_tcp_def)

section \<open>Answers of a slave\<close>

definition readResponse :: "int \<Rightarrow> u8 \<Rightarrow> u16 list \<Rightarrow> u8 list" where
  "readResponse slave function regs =
     append_crc ([word_of_int slave, function, of_nat (2 * length regs)] @ concat (map wordBytes regs))"

definition exceptionResponse :: "int \<Rightarrow> u8 \<Rightarrow> u8 \<Rightarrow> u8 list" where
  "exceptionResponse slave function code = append_crc [word_of_int slave, function OR 0x80, code]"

lemma length_wordBytes [simp]: "length (concat (map wordBytes vs)) = 2 * length vs"
  by (induction vs) (simp_all add: wordBytes_def)

lemma nth_wordBytes:
  "i < length vs \<Longrightarrow> concat (map wordBytes vs) ! (i * 2) = ucast (drop_bit 8 (vs ! i))
     \<and> concat (map wordBytes vs) ! Suc (i * 2) = ucast (vs ! i)"
proof (induction vs arbitrary: i)
  case (Cons v vs)
  then show ?case by (cases i) (simp_all add: wordBytes_def)
qed simp

lemma append_crc_length [simp]: "length (append_crc f) = length f + 2"
  by (simp add: append_crc_def Let_def)

lemma append_crc_nth: "i < length f \<Longrightarrow> append_crc f ! i = f ! i"
  by (simp add: append_crc_def Let_def nth_append)

lemma readResponse_decode:
  assumes "i < length regs"
  shows "bytesWord (readResponse s f regs ! (3 + i * 2)) (readResponse s f regs ! (3 + i * 2 + 1)) = regs ! i"
proof -
  let ?p = "[word_of_int s, f, of_nat (2 * length regs)] @ concat (map wordBytes regs)"
  have "3 + i * 2 < length ?p" "3 + i * 2 + 1 < length ?p"
    using assms by simp_all
  then have "readResponse s f regs ! (3 + i * 2) = concat (map wordBytes regs) ! (i * 2)"
    "readResponse s f regs ! (3 + i * 2 + 1) = concat (map wordBytes regs) ! Suc (i * 2)"
    unfolding readResponse_def by (simp_all only: append_crc_nth) (simp_all add: nth_append)
  then show ?thesis
    using nth_wordBytes [OF assms] by (simp add: bytesWord_wordBytes)
qed

lemma variable_response:
  assumes "streamSocket N (rtuFd c) sent pending" and "\<not> notConnected c"
    and "length regs \<le> 125" and "f \<noteq> (f OR 0x80)"
    and "pending w = readResponse (rtuSlave c) f regs @ rest"
  shows "\<exists>w1. read_variable_response_rtu_over_tcp N c f w = (Inr (readResponse (rtuSlave c) f regs), w1)
    \<and> pending w1 = rest \<and> sent w1 = sent w"
proof -
  let ?r = "readResponse (rtuSlave c) f regs"
  have len: "length ?r = 2 * length regs + 5"
    by (simp add: readResponse_def)
  have split: "pending w = take 3 ?r @ (drop 3 ?r @ rest)"
    using assms(5) by (metis append.assoc append_take_drop_id)
  have hd3: "take 3 ?r = [word_of_int (rtuSlave c), f, of_nat (2 * length regs)]"
    by (simp add: readResponse_def append_crc_def Let_def)
  obtain w1 where r1: "read_exact_rtu_over_tcp N c 3 w = (Inr (take 3 ?r), w1)"
    "pending w1 = drop 3 ?r @ rest" "sent w1 = sent w"
    using read_exact_stream [OF assms(1,2) split, of 3] len by auto
  have cnt: "unat (of_nat (2 * length regs) :: u8) = 2 * length regs"
    using assms(3) unfolding unat_of_nat by simp
  have "length (drop 3 ?r) = unat (take 3 ?r ! 2) + 2"
    unfolding hd3 using len cnt by simp
  from read_exact_stream [OF assms(1,2) r1(2) this] r1(3) obtain w2 where
    r2: "read_exact_rtu_over_tcp N c (unat (take 3 ?r ! 2) + 2) w1 = (Inr (drop 3 ?r), w2)"
      "pending w2 = rest" "sent w2 = sent w"
    by auto
  have "validate_crc ?r"
    by (simp add: readResponse_def validate_append)
  moreover have "word_of_int (rtuSlave c) # f # 2 * word_of_nat (length regs) # drop 3 ?r = ?r"
    using append_take_drop_id [of 3 ?r] unfolding hd3 by simp
  ultimately show ?thesis
    using r1(1) r2 assms(4) by (simp add: read_variable_response_rtu_over_tcp_def hd3)
qed

text \<open>C27: reading registers over the raw socket: the client sends exactly the request frame with
  its checksum, and when the next bytes that arrive are a slave's answer with \<open>count\<close> registers,
  cut into pieces in any way, it returns these registers and leaves the bytes after it. The
  answer does not name an address: it is the first answer that arrives, for instance a late
  one of an earlier request for other registers, that is returned.\<close>

theorem rtu_read_registers:
  assumes "streamSocket N (rtuFd c) sent pending" and "\<not> notConnected c"
    and "0 < count" and "count \<le> 125" and "length regs = nat count"
    and "pending w = readResponse (rtuSlave c) 3 regs @ rest"
  shows "\<exists>w'. read_registers_rtu_over_tcp N c 3 addr count w = (Inr regs, w')
    \<and> sent w' = sent w @ append_crc (requestHeader (rtuSlave c) 3 addr count) \<and> pending w' = rest"
proof -
  let ?r = "readResponse (rtuSlave c) 3 regs"
  obtain w1 where w1: "write_all_rtu_over_tcp N c (append_crc (requestHeader (rtuSlave c) 3 addr count)) w = (Inr (), w1)"
    "sent w1 = sent w @ append_crc (requestHeader (rtuSlave c) 3 addr count)" "pending w1 = pending w"
    using write_all_stream [OF assms(1,2)] by blast
  have "length regs \<le> 125" using assms(4,5) by linarith
  moreover have "(3 :: u8) \<noteq> 3 OR 0x80" by simp
  moreover have "pending w1 = ?r @ rest" using w1(3) assms(6) by simp
  ultimately obtain w2 where w2: "read_variable_response_rtu_over_tcp N c 3 w1 = (Inr ?r, w2)"
    "pending w2 = rest" "sent w2 = sent w1"
    using variable_response [OF assms(1,2)] by blast
  have "of_nat (2 * length regs) = (word_of_int (count * 2) :: u8)"
    using assms(3,5) by (simp add: mult.commute of_nat_nat)
  then have "?r ! 2 = word_of_int (count * 2)"
    by (simp add: readResponse_def append_crc_def Let_def)
  moreover have "map (\<lambda>i. bytesWord (?r ! (3 + i * 2)) (?r ! (3 + i * 2 + 1))) [0 ..< nat count] = regs"
    using assms(5) readResponse_decode by (intro nth_equalityI) (simp_all del: add_Suc_right)
  ultimately show ?thesis
    using assms(3,4) w1(1,2) w2 by (simp add: read_registers_rtu_over_tcp_def del: add_Suc_right)
qed

section \<open>A scripted network\<close>

text \<open>
  A network to evaluate the client on: it accepts at most five bytes per send, and delivers the
  scripted bytes three at a time.
\<close>

record Script =
  sc_sent :: "u8 list"
  sc_pending :: "u8 list"

definition scriptNet :: "Script NetOps" where
  "scriptNet = \<lparr>os_errno = (\<lambda>_. 11), os_strerror = (\<lambda>_ _. ''Resource temporarily unavailable''),
     os_now = (\<lambda>w. (0, w)), os_sleepFor = (\<lambda>_ w. w),
     so_getaddrinfo = (\<lambda>_ _ w. (Inr [0], w)), so_socket = (\<lambda>_ w. (3, w)), so_getfl = (\<lambda>_ w. (0, w)),
     so_setNonBlocking = (\<lambda>_ _ _ w. (0, w)), so_connect = (\<lambda>_ _ w. (0, w)), so_poll = (\<lambda>_ _ w. (1, w)),
     so_getSoError = (\<lambda>_ w. ((0, 0), w)), so_setNoDelay = (\<lambda>_ w. w),
     so_setRcvTimeout = (\<lambda>_ _ _ w. (0, w)), so_setSndTimeout = (\<lambda>_ _ _ w. (0, w)), so_close = (\<lambda>_ w. w),
     so_send = (\<lambda>_ data w. (int (min 5 (length data)), w\<lparr>sc_sent := sc_sent w @ take 5 data\<rparr>)),
     so_recv = (\<lambda>_ n w. (take (min n 3) (sc_pending w), w\<lparr>sc_pending := drop (min n 3) (sc_pending w)\<rparr>)),
     lm_newTcp = (\<lambda>_ _ w. (None, w)), lm_newRtu = (\<lambda>_ _ _ _ _ w. (None, w)),
     lm_setSlave = (\<lambda>_ _ w. (-1, w)), lm_connect = (\<lambda>_ w. (-1, w)), lm_close = (\<lambda>_ w. w), lm_free = (\<lambda>_ w. w),
     lm_setResponseTimeout = (\<lambda>_ _ _ w. (-1, w)), lm_readRegisters = (\<lambda>_ _ _ w. ((-1, []), w)),
     lm_readInputRegisters = (\<lambda>_ _ _ w. ((-1, []), w)), lm_writeRegister = (\<lambda>_ _ _ w. (-1, w)),
     lm_writeRegisters = (\<lambda>_ _ _ w. (-1, w)), lm_readBits = (\<lambda>_ _ _ w. ((-1, []), w)),
     lm_readInputBits = (\<lambda>_ _ _ w. ((-1, []), w)), lm_writeBit = (\<lambda>_ _ _ w. (-1, w)),
     lm_writeBits = (\<lambda>_ _ _ w. (-1, w))\<rparr>"

lemma scriptNet_stream: "streamSocket scriptNet fd sc_sent sc_pending"
  unfolding streamSocket_def
proof (intro conjI allI impI)
  fix w :: Script and data :: "u8 list"
  assume "data \<noteq> []"
  then show "\<exists>k w1. so_send scriptNet fd data w = (int k, w1) \<and> 1 \<le> k \<and> k \<le> length data
      \<and> sc_sent w1 = sc_sent w @ take k data \<and> sc_pending w1 = sc_pending w"
    by (intro exI [of _ "min 5 (length data)"]) (simp add: scriptNet_def min_def Suc_le_eq)
next
  fix w :: Script and n :: nat
  assume "0 < n"
  then show "\<exists>bs w1. so_recv scriptNet fd n w = (bs, w1) \<and> (bs = [] \<longleftrightarrow> sc_pending w = [])
      \<and> length bs \<le> n \<and> sc_pending w = bs @ sc_pending w1 \<and> sc_sent w1 = sc_sent w"
    by (simp add: scriptNet_def min_def)
qed

text \<open>A connected client of slave 7.\<close>

definition rtuClient7 :: ModbusClient where
  "rtuClient7 = rtuTcpClient \<lparr>rc_host = ''moxa'', rc_port = 4001, rc_slaveId = 7, rc_fd = 3,
     rc_connectTimeout = 100, rc_timeout = 100\<rparr>"

lemma rtuClient7_facts [simp]: "rtuSlave rtuClient7 = 7" "rtuFd rtuClient7 = 3" "\<not> notConnected rtuClient7"
  by (simp_all add: rtuClient7_def rtuTcpClient_def rtuSlave_def rtuFd_def notConnected_def)

theorem rtu_read_registers_witness:
  "fst (read_registers_rtu_over_tcp scriptNet rtuClient7 3 0x7D 2
     \<lparr>sc_sent = [], sc_pending = readResponse 7 3 [0xABCD, 0x0102] @ [1, 2, 3]\<rparr>) = Inr [0xABCD, 0x0102]"
  using rtu_read_registers [OF scriptNet_stream, of rtuClient7 2 "[0xABCD, 0x0102]"
      "\<lparr>sc_sent = [], sc_pending = readResponse 7 3 [0xABCD, 0x0102] @ [1, 2, 3]\<rparr>" "[1, 2, 3]" "0x7D"]
  by auto

section \<open>Writes over the raw socket\<close>

lemma fixed_response:
  assumes "streamSocket N (rtuFd c) sent pending" and "\<not> notConnected c" and "length tl6 = 4"
    and "pending w = append_crc ([word_of_int (rtuSlave c), f] @ tl6) @ rest" and "f \<noteq> (f OR 0x80)"
  shows "\<exists>w'. exchange_fixed_response_rtu_over_tcp N c req f w = (Inr (append_crc ([word_of_int (rtuSlave c), f] @ tl6)), w')
    \<and> sent w' = sent w @ req \<and> pending w' = rest"
proof -
  let ?a = "append_crc ([word_of_int (rtuSlave c), f] @ tl6)"
  obtain w1 where w1: "write_all_rtu_over_tcp N c req w = (Inr (), w1)" "sent w1 = sent w @ req" "pending w1 = ?a @ rest"
    using write_all_stream [OF assms(1,2)] assms(4) by metis
  have "length ?a = 8" using assms(3) by simp
  from read_exact_stream [OF assms(1,2) w1(3) this] obtain w2 where
    w2: "read_exact_rtu_over_tcp N c 8 w1 = (Inr ?a, w2)" "pending w2 = rest" "sent w2 = sent w1"
    by blast
  have "?a ! 0 = word_of_int (rtuSlave c)" "?a ! 1 = f" "validate_crc ?a"
    using validate_append [of "[word_of_int (rtuSlave c), f] @ tl6"] append_crc_nth [of 0 "[word_of_int (rtuSlave c), f] @ tl6"]
      append_crc_nth [of 1 "[word_of_int (rtuSlave c), f] @ tl6"] by simp_all
  then show ?thesis
    using w1(1,2) w2 assms(5) by (simp add: exchange_fixed_response_rtu_over_tcp_def)
qed

text \<open>A single register write: the client sends the request frame and, when the slave
  echoes it, reports success and has consumed exactly the echo.\<close>

theorem rtu_write_register:
  assumes "streamSocket N (rtuFd c) sent pending" and "\<not> notConnected c"
    and "pending w = append_crc ([word_of_int (rtuSlave c), 6, hiByte addr, loByte addr] @ wordBytes v) @ rest"
  shows "\<exists>w'. write_single_register_rtu_over_tcp N c addr v w = (Inr (), w') \<and> pending w' = rest
    \<and> sent w' = sent w @ append_crc ([word_of_int (rtuSlave c), 6, hiByte addr, loByte addr] @ wordBytes v)"
proof -
  have "length ([hiByte addr, loByte addr] @ wordBytes v) = 4"
    by (simp add: wordBytes_def)
  from fixed_response [OF assms(1,2) this, of w 6 rest "append_crc ([word_of_int (rtuSlave c), 6, hiByte addr, loByte addr] @ wordBytes v)"]
  show ?thesis
    using assms(3) by (auto simp: write_single_register_rtu_over_tcp_def unitResult_def)
qed

theorem rtu_write_register_witness:
  "fst (write_single_register_rtu_over_tcp scriptNet rtuClient7 0x7D 8 \<lparr>sc_sent = [],
     sc_pending = append_crc ([7, 6, hiByte 0x7D, loByte 0x7D] @ wordBytes 8)\<rparr>) = Inr ()"
  using rtu_write_register [OF scriptNet_stream, of rtuClient7 "\<lparr>sc_sent = [],
     sc_pending = append_crc ([7, 6, hiByte 0x7D, loByte 0x7D] @ wordBytes 8)\<rparr>" "0x7D" 8 "[]"]
  by auto

text \<open>An exception answer to a write (five bytes) is not recognised: the client waits for
  eight bytes, so it consumes the answer and reports the receive timeout of the socket instead
  of the exception code.\<close>

theorem rtu_write_exception_lost:
  assumes "streamSocket N (rtuFd c) sent pending" and "\<not> notConnected c"
    and "pending w = exceptionResponse (rtuSlave c) 6 code"
  shows "\<exists>w' e. write_single_register_rtu_over_tcp N c addr v w = (Inl e, w') \<and> pending w' = []
    \<and> e = modbusError (if os_errno N w' \<noteq> 0 then os_errno N w' else ETIMEDOUT) (os_strerror N (os_errno N w') w')"
proof -
  let ?req = "append_crc ([word_of_int (rtuSlave c), 6, hiByte addr, loByte addr] @ wordBytes v)"
  obtain w1 where w1: "write_all_rtu_over_tcp N c ?req w = (Inr (), w1)" "pending w1 = pending w"
    using write_all_stream [OF assms(1,2)] by blast
  have "length (pending w1) < 8"
    using assms(3) w1(2) by (simp add: exceptionResponse_def)
  from read_exact_short [OF assms(1,2) this] w1(1) show ?thesis
    by (auto simp: write_single_register_rtu_over_tcp_def exchange_fixed_response_rtu_over_tcp_def unitResult_def)
qed

theorem rtu_write_exception_lost_witness:
  "fst (write_single_register_rtu_over_tcp scriptNet rtuClient7 0x7D 8
     \<lparr>sc_sent = [], sc_pending = exceptionResponse 7 6 2\<rparr>)
   = Inl (modbusError 11 ''Resource temporarily unavailable'')"
proof -
  obtain w' e where "write_single_register_rtu_over_tcp scriptNet rtuClient7 0x7D 8
      \<lparr>sc_sent = [], sc_pending = exceptionResponse 7 6 2\<rparr> = (Inl e, w')"
    "e = modbusError (if os_errno scriptNet w' \<noteq> 0 then os_errno scriptNet w' else ETIMEDOUT)
       (os_strerror scriptNet (os_errno scriptNet w') w')"
    using rtu_write_exception_lost [OF scriptNet_stream, of rtuClient7
        "\<lparr>sc_sent = [], sc_pending = exceptionResponse 7 6 2\<rparr>" 2 "0x7D" 8] by auto
  then show ?thesis by (simp add: scriptNet_def)
qed

end
