(* ===== verification/Bus.thy ===== *)
theory Bus
  imports Modbus Domain
begin

text \<open>
  The motor bus as the motors see it. \<open>BusOps\<close> are the client operations \<open>Motor\<close> and
  \<open>MotorControl\<close> call, functions on a client and the world; \<open>clientBus\<close> is the record of the
  Modbus client's own operations. The contract \<open>register_bus\<close> says what a healthy bus does:
  selecting a slave, then reading and writing its registers. It holds for the client over a
  serial libmodbus context, with the register store of the tests
  (\<^verbatim>\<open>tests/unit/server/fakes/FakeModbus.cpp\<close>) behind libmodbus.
\<close>

section \<open>The operations\<close>

record ('c, 'w) BusOps =
  bo_rtu :: "string \<Rightarrow> int \<Rightarrow> char \<Rightarrow> int \<Rightarrow> int \<Rightarrow> int \<Rightarrow> 'w \<Rightarrow> (ModbusError + 'c) \<times> 'w"
  bo_rtuOverTcp :: "string \<Rightarrow> int \<Rightarrow> int \<Rightarrow> ModbusError + 'c"
  bo_destroy :: "'c \<times> 'w \<Rightarrow> 'w"
  bo_setConnectTimeout :: "int \<Rightarrow> 'c \<times> 'w \<Rightarrow> (ModbusError + unit) \<times> ('c \<times> 'w)"
  bo_connect :: "'c \<times> 'w \<Rightarrow> (ModbusError + unit) \<times> ('c \<times> 'w)"
  bo_setResponseTimeout :: "int \<Rightarrow> 'c \<times> 'w \<Rightarrow> (ModbusError + unit) \<times> ('c \<times> 'w)"
  bo_setInterRequestDelay :: "int \<Rightarrow> 'c \<times> 'w \<Rightarrow> (ModbusError + unit) \<times> ('c \<times> 'w)"
  bo_close :: "'c \<times> 'w \<Rightarrow> 'c \<times> 'w"
  bo_setSlave :: "int \<Rightarrow> 'c \<times> 'w \<Rightarrow> (ModbusError + unit) \<times> ('c \<times> 'w)"
  bo_readHolding :: "int \<Rightarrow> int \<Rightarrow> 'c \<times> 'w \<Rightarrow> (ModbusError + u16 list) \<times> ('c \<times> 'w)"
  bo_writeSingle :: "int \<Rightarrow> u16 \<Rightarrow> 'c \<times> 'w \<Rightarrow> (ModbusError + unit) \<times> ('c \<times> 'w)"
  bo_writeMultiple :: "int \<Rightarrow> u16 list \<Rightarrow> 'c \<times> 'w \<Rightarrow> (ModbusError + unit) \<times> ('c \<times> 'w)"
  bo_sleep :: "int \<Rightarrow> 'w \<Rightarrow> 'w"

definition clientBus :: "'w NetOps \<Rightarrow> (ModbusClient, 'w) BusOps" where
  "clientBus N = \<lparr>bo_rtu = mbRtu N, bo_rtuOverTcp = mbRtuOverTcp, bo_destroy = mbCleanup N,
     bo_setConnectTimeout = mbSetConnectTimeout, bo_connect = mbConnect N,
     bo_setResponseTimeout = mbSetResponseTimeout N, bo_setInterRequestDelay = mbSetInterRequestDelay,
     bo_close = mbClose N, bo_setSlave = mbSetSlave N, bo_readHolding = mbReadHoldingRegisters N,
     bo_writeSingle = mbWriteSingleRegister N, bo_writeMultiple = mbWriteMultipleRegisters N,
     bo_sleep = os_sleepFor N\<rparr>"

section \<open>The contract\<close>

type_synonym RegisterFile = "int \<Rightarrow> int \<Rightarrow> u16"

definition poke :: "int \<Rightarrow> int \<Rightarrow> u16 \<Rightarrow> RegisterFile \<Rightarrow> RegisterFile" where
  "poke s a v rf = rf(s := (rf s)(a := v))"

fun pokes :: "int \<Rightarrow> int \<Rightarrow> u16 list \<Rightarrow> RegisterFile \<Rightarrow> RegisterFile" where
  "pokes s a [] rf = rf"
| "pokes s a (v # vs) rf = pokes s (a + 1) vs (poke s a v rf)"

definition peeks :: "RegisterFile \<Rightarrow> int \<Rightarrow> int \<Rightarrow> int \<Rightarrow> u16 list" where
  "peeks rf s a n = map (\<lambda>i. rf s (a + int i)) [0 ..< nat n]"

lemma poke_apply [simp]: "poke s a v rf s' a' = (if s' = s \<and> a' = a then v else rf s' a')"
  by (simp add: poke_def)

lemma poke_other [simp]: "s' \<noteq> s \<Longrightarrow> poke s a v rf s' = rf s'"
  by (simp add: poke_def)

lemma poke_poke [simp]: "poke s a v (poke s a v' rf) = poke s a v rf"
  by (simp add: poke_def fun_eq_iff)

lemma pokes_other [simp]: "s' \<noteq> s \<Longrightarrow> pokes s a vs rf s' = rf s'"
  by (induction s a vs rf rule: pokes.induct) simp_all

lemma peeks_length [simp]: "length (peeks rf s a n) = nat n"
  by (simp add: peeks_def)

lemma peeks_nth [simp]: "i < nat n \<Longrightarrow> peeks rf s a n ! i = rf s (a + int i)"
  by (simp add: peeks_def)

lemma peeks_1 [simp]: "peeks rf s a 1 = [rf s a]"
  and peeks_2 [simp]: "peeks rf s a 2 = [rf s a, rf s (a + 1)]"
  by (simp_all add: peeks_def upt_rec)

text \<open>What the bus carries besides: the writes in their order.\<close>

datatype WriteRecord = SingleRegister int int u16 | MultipleRegisters int int "u16 list"

locale register_bus =
  fixes B :: "('c, 'w) BusOps" and ok :: "'c \<times> 'w \<Rightarrow> bool" and slave :: "'c \<times> 'w \<Rightarrow> int"
    and regs :: "'c \<times> 'w \<Rightarrow> RegisterFile" and writes :: "'c \<times> 'w \<Rightarrow> WriteRecord list"
  assumes setSlave: "ok b \<Longrightarrow> 0 \<le> s \<Longrightarrow> s \<le> 247 \<Longrightarrow>
      \<exists>b'. bo_setSlave B s b = (Inr (), b') \<and> ok b' \<and> slave b' = s \<and> regs b' = regs b \<and> writes b' = writes b"
    and readHolding: "ok b \<Longrightarrow> 0 < n \<Longrightarrow> n \<le> 125 \<Longrightarrow>
      \<exists>b'. bo_readHolding B a n b = (Inr (peeks (regs b) (slave b) a n), b')
        \<and> ok b' \<and> slave b' = slave b \<and> regs b' = regs b \<and> writes b' = writes b"
    and writeSingle: "ok b \<Longrightarrow>
      \<exists>b'. bo_writeSingle B a v b = (Inr (), b') \<and> ok b' \<and> slave b' = slave b
        \<and> regs b' = poke (slave b) a v (regs b) \<and> writes b' = writes b @ [SingleRegister (slave b) a v]"
    and writeMultiple: "ok b \<Longrightarrow> vs \<noteq> [] \<Longrightarrow> length vs \<le> 123 \<Longrightarrow>
      \<exists>b'. bo_writeMultiple B a vs b = (Inr (), b') \<and> ok b' \<and> slave b' = slave b
        \<and> regs b' = pokes (slave b) a vs (regs b) \<and> writes b' = writes b @ [MultipleRegisters (slave b) a vs]"
    and sleep: "ok (c, w) \<Longrightarrow> ok (c, bo_sleep B ms w) \<and> slave (c, bo_sleep B ms w) = slave (c, w)
        \<and> regs (c, bo_sleep B ms w) = regs (c, w) \<and> writes (c, bo_sleep B ms w) = writes (c, w)"

section \<open>The register store behind libmodbus\<close>

datatype FailurePoint = FailNewRtu | FailNewTcp | FailConnect | FailSetSlave | FailSetResponseTimeout
  | FailReadRegisters | FailReadInputRegisters | FailWriteRegister | FailWriteRegisters
  | FailReadBits | FailReadInputBits | FailWriteBit | FailWriteBits

record FakeWorld =
  fw_contexts :: "nat \<Rightarrow> int"
  fw_nextContext :: nat
  fw_holding :: RegisterFile
  fw_writes :: "WriteRecord list"
  fw_fail :: "FailurePoint \<Rightarrow> string option"
  fw_lastError :: string
  fw_errno :: int
  fw_time :: int

definition fakeReset :: FakeWorld where
  "fakeReset = \<lparr>fw_contexts = (\<lambda>_. 1), fw_nextContext = 0, fw_holding = (\<lambda>_ _. 0), fw_writes = [],
     fw_fail = Map.empty, fw_lastError = ''fake-modbus error'', fw_errno = 0, fw_time = 0\<rparr>"

definition failNext :: "FailurePoint \<Rightarrow> string \<Rightarrow> FakeWorld \<Rightarrow> FakeWorld" where
  "failNext p m w = w\<lparr>fw_fail := (fw_fail w)(p \<mapsto> m)\<rparr>"

definition consumeFailure :: "FailurePoint \<Rightarrow> FakeWorld \<Rightarrow> bool \<times> FakeWorld" where
  "consumeFailure p w = (case fw_fail w p of None \<Rightarrow> (False, w)
     | Some m \<Rightarrow> (True, w\<lparr>fw_lastError := m, fw_fail := (fw_fail w)(p := None), fw_errno := EIO\<rparr>))"

text \<open>A call that first consumes a scheduled failure.\<close>

definition fakeCall :: "FailurePoint \<Rightarrow> 'a \<Rightarrow> (FakeWorld \<Rightarrow> 'a \<times> FakeWorld) \<Rightarrow> FakeWorld \<Rightarrow> 'a \<times> FakeWorld" where
  "fakeCall p failed f w = (case consumeFailure p w of (b, w1) \<Rightarrow> if b then (failed, w1) else f w1)"

definition fakeNew :: "FailurePoint \<Rightarrow> FakeWorld \<Rightarrow> nat option \<times> FakeWorld" where
  "fakeNew p = fakeCall p None (\<lambda>w. (Some (fw_nextContext w),
     w\<lparr>fw_nextContext := fw_nextContext w + 1, fw_contexts := (fw_contexts w)(fw_nextContext w := 1)\<rparr>))"

definition fakeReadRegisters :: "nat \<Rightarrow> int \<Rightarrow> int \<Rightarrow> FakeWorld \<Rightarrow> (int \<times> u16 list) \<times> FakeWorld" where
  "fakeReadRegisters x addr nb = fakeCall FailReadRegisters (-1, [])
     (\<lambda>w. ((nb, peeks (fw_holding w) (fw_contexts w x) addr nb), w))"

definition fakeWriteRegister :: "nat \<Rightarrow> int \<Rightarrow> u16 \<Rightarrow> FakeWorld \<Rightarrow> int \<times> FakeWorld" where
  "fakeWriteRegister x addr v = fakeCall FailWriteRegister (-1)
     (\<lambda>w. (1, w\<lparr>fw_holding := poke (fw_contexts w x) addr v (fw_holding w),
               fw_writes := fw_writes w @ [SingleRegister (fw_contexts w x) addr v]\<rparr>))"

definition fakeWriteRegisters :: "nat \<Rightarrow> int \<Rightarrow> u16 list \<Rightarrow> FakeWorld \<Rightarrow> int \<times> FakeWorld" where
  "fakeWriteRegisters x addr vs = fakeCall FailWriteRegisters (-1)
     (\<lambda>w. (int (length vs), w\<lparr>fw_holding := pokes (fw_contexts w x) addr vs (fw_holding w),
               fw_writes := fw_writes w @ [MultipleRegisters (fw_contexts w x) addr vs]\<rparr>))"

definition fakeNet :: "FakeWorld NetOps" where
  "fakeNet = \<lparr>os_errno = fw_errno, os_strerror = (\<lambda>_ w. fw_lastError w),
     os_now = (\<lambda>w. (fw_time w, w)), os_sleepFor = (\<lambda>ms w. w\<lparr>fw_time := fw_time w + ms * 1000000\<rparr>),
     so_getaddrinfo = (\<lambda>_ _ w. (Inl ''no network'', w)), so_socket = (\<lambda>_ w. (-1, w)),
     so_getfl = (\<lambda>_ w. (-1, w)), so_setNonBlocking = (\<lambda>_ _ _ w. (-1, w)), so_connect = (\<lambda>_ _ w. (-1, w)),
     so_poll = (\<lambda>_ _ w. (-1, w)), so_getSoError = (\<lambda>_ w. ((-1, 0), w)), so_setNoDelay = (\<lambda>_ w. w),
     so_setRcvTimeout = (\<lambda>_ _ _ w. (-1, w)), so_setSndTimeout = (\<lambda>_ _ _ w. (-1, w)), so_close = (\<lambda>_ w. w),
     so_send = (\<lambda>_ _ w. (-1, w)), so_recv = (\<lambda>_ _ w. ([], w)),
     lm_newTcp = (\<lambda>_ _. fakeNew FailNewTcp), lm_newRtu = (\<lambda>_ _ _ _ _. fakeNew FailNewRtu),
     lm_setSlave = (\<lambda>x s. fakeCall FailSetSlave (-1) (\<lambda>w. (0, w\<lparr>fw_contexts := (fw_contexts w)(x := s)\<rparr>))),
     lm_connect = (\<lambda>x. fakeCall FailConnect (-1) (\<lambda>w. (0, w))), lm_close = (\<lambda>_ w. w), lm_free = (\<lambda>_ w. w),
     lm_setResponseTimeout = (\<lambda>x s u. fakeCall FailSetResponseTimeout (-1) (\<lambda>w. (0, w))),
     lm_readRegisters = fakeReadRegisters,
     lm_readInputRegisters = (\<lambda>x a n. fakeCall FailReadInputRegisters (-1, []) (fakeReadRegisters x a n)),
     lm_writeRegister = fakeWriteRegister, lm_writeRegisters = fakeWriteRegisters,
     lm_readBits = (\<lambda>x a n. fakeCall FailReadBits (-1, []) (\<lambda>w. ((n, replicate (nat n) 0), w))),
     lm_readInputBits = (\<lambda>x a n. fakeCall FailReadInputBits (-1, []) (\<lambda>w. ((n, replicate (nat n) 0), w))),
     lm_writeBit = (\<lambda>x a v. fakeCall FailWriteBit (-1) (\<lambda>w. (1, w))),
     lm_writeBits = (\<lambda>x a vs. fakeCall FailWriteBits (-1) (\<lambda>w. (int (length vs), w)))\<rparr>"

text \<open>A healthy serial client: a libmodbus context and no scheduled failure.\<close>

definition fakeOk :: "ModbusClient \<times> FakeWorld \<Rightarrow> bool" where
  "fakeOk = (\<lambda>(c, w). mb_backend c = LibModbus \<and> mb_ctx c \<noteq> None \<and> fw_fail w = Map.empty)"

definition fakeSlave :: "ModbusClient \<times> FakeWorld \<Rightarrow> int" where
  "fakeSlave = (\<lambda>(c, w). fw_contexts w (the (mb_ctx c)))"

definition fakeRegs :: "ModbusClient \<times> FakeWorld \<Rightarrow> RegisterFile" where
  "fakeRegs = (\<lambda>(c, w). fw_holding w)"

definition fakeWrites :: "ModbusClient \<times> FakeWorld \<Rightarrow> WriteRecord list" where
  "fakeWrites = (\<lambda>(c, w). fw_writes w)"

lemma fakeCall_ok: "fw_fail w = Map.empty \<Longrightarrow> fakeCall p failed f w = f w"
  by (simp add: fakeCall_def consumeFailure_def)

lemma fakeNet_sel:
  "os_now fakeNet = (\<lambda>w. (fw_time w, w))"
  "os_sleepFor fakeNet = (\<lambda>ms w. w\<lparr>fw_time := fw_time w + ms * 1000000\<rparr>)"
  "lm_setSlave fakeNet = (\<lambda>x s. fakeCall FailSetSlave (-1) (\<lambda>w. (0, w\<lparr>fw_contexts := (fw_contexts w)(x := s)\<rparr>)))"
  "lm_readRegisters fakeNet = fakeReadRegisters"
  "lm_writeRegister fakeNet = fakeWriteRegister"
  "lm_writeRegisters fakeNet = fakeWriteRegisters"
  by (simp_all add: fakeNet_def)

lemma wait_fake:
  "\<exists>t. waitInterRequestGap fakeNet (c, w) = (c, w\<lparr>fw_time := t\<rparr>)"
  by (auto simp: waitInterRequestGap_def fakeNet_sel Let_def intro: exI [of _ "fw_time w"])

lemma mark_fake:
  "\<exists>c'. markTransactionCompleted fakeNet (c, w) = (c', w) \<and> mb_ctx c' = mb_ctx c \<and> mb_backend c' = mb_backend c"
  by (simp add: markTransactionCompleted_def fakeNet_sel)

text \<open>A transaction of a healthy serial client is its libmodbus call, up to clock readings.\<close>

lemma transact_fake:
  assumes "fakeOk (c, w)" and "\<And>t. lib (the (mb_ctx c)) (w\<lparr>fw_time := t\<rparr>) = ((rc, d), w1 t)" and "rc \<noteq> -1"
  shows "\<exists>c' t. transact fakeNet rtu lib res (c, w) = (Inr (res rc d), (c', w1 t))
    \<and> mb_ctx c' = mb_ctx c \<and> mb_backend c' = LibModbus"
proof -
  obtain t where t: "waitInterRequestGap fakeNet (c, w) = (c, w\<lparr>fw_time := t\<rparr>)"
    using wait_fake by blast
  obtain c' where m: "markTransactionCompleted fakeNet (c, w1 t) = (c', w1 t)" "mb_ctx c' = mb_ctx c"
    "mb_backend c' = mb_backend c"
    using mark_fake by blast
  have "mb_backend c = LibModbus"
    using assms(1) by (simp add: fakeOk_def)
  then show ?thesis
    using t m assms(3) by (auto simp: transact_def assms(2))
qed

lemma fake_readCall:
  assumes "fakeOk (c, w)"
  shows "lm_readRegisters fakeNet x a n (w\<lparr>fw_time := t\<rparr>)
    = ((n, peeks (fw_holding w) (fw_contexts w x) a n), w\<lparr>fw_time := t\<rparr>)"
  using assms by (simp add: fakeNet_sel fakeReadRegisters_def fakeCall_ok fakeOk_def)

lemma fake_writeCall:
  assumes "fakeOk (c, w)"
  shows "withUnit (lm_writeRegister fakeNet x a v) (w\<lparr>fw_time := t\<rparr>)
    = ((1, ()), w\<lparr>fw_holding := poke (fw_contexts w x) a v (fw_holding w),
        fw_writes := fw_writes w @ [SingleRegister (fw_contexts w x) a v], fw_time := t\<rparr>)"
  using assms by (simp add: fakeNet_sel fakeWriteRegister_def fakeCall_ok fakeOk_def withUnit_def)

lemma fake_writesCall:
  assumes "fakeOk (c, w)"
  shows "withUnit (lm_writeRegisters fakeNet x a vs) (w\<lparr>fw_time := t\<rparr>)
    = ((int (length vs), ()), w\<lparr>fw_holding := pokes (fw_contexts w x) a vs (fw_holding w),
        fw_writes := fw_writes w @ [MultipleRegisters (fw_contexts w x) a vs], fw_time := t\<rparr>)"
  using assms by (simp add: fakeNet_sel fakeWriteRegisters_def fakeCall_ok fakeOk_def withUnit_def)

lemma fake_readHolding:
  assumes "fakeOk (c, w)" and "0 < n"
  shows "\<exists>c' t. mbReadHoldingRegisters fakeNet a n (c, w)
      = (Inr (peeks (fw_holding w) (fw_contexts w (the (mb_ctx c))) a n), (c', w\<lparr>fw_time := t\<rparr>))
    \<and> mb_ctx c' = mb_ctx c \<and> mb_backend c' = LibModbus"
  using transact_fake [of c w "\<lambda>x. lm_readRegisters fakeNet x a n" n
      "peeks (fw_holding w) (fw_contexts w (the (mb_ctx c))) a n" "\<lambda>t. w\<lparr>fw_time := t\<rparr>"
      "\<lambda>c. read_registers_rtu_over_tcp fakeNet c 3 a n" "\<lambda>rc d. resizeTo 0 (nat rc) d"] assms
  by (simp add: mbReadHoldingRegisters_def fake_readCall resizeTo_def)

lemma fake_writeSingle:
  assumes "fakeOk (c, w)"
  shows "\<exists>c' t. mbWriteSingleRegister fakeNet a v (c, w) = (Inr (), (c', w\<lparr>
      fw_holding := poke (fw_contexts w (the (mb_ctx c))) a v (fw_holding w),
      fw_writes := fw_writes w @ [SingleRegister (fw_contexts w (the (mb_ctx c))) a v], fw_time := t\<rparr>))
    \<and> mb_ctx c' = mb_ctx c \<and> mb_backend c' = LibModbus"
  using transact_fake [of c w "\<lambda>x. withUnit (lm_writeRegister fakeNet x a v)" 1 "()" _
      "\<lambda>c. write_single_register_rtu_over_tcp fakeNet c a v" "\<lambda>_ _. ()",
      OF assms fake_writeCall [OF assms]]
  by (simp add: mbWriteSingleRegister_def)

lemma fake_writeMultiple:
  assumes "fakeOk (c, w)"
  shows "\<exists>c' t. mbWriteMultipleRegisters fakeNet a vs (c, w) = (Inr (), (c', w\<lparr>
      fw_holding := pokes (fw_contexts w (the (mb_ctx c))) a vs (fw_holding w),
      fw_writes := fw_writes w @ [MultipleRegisters (fw_contexts w (the (mb_ctx c))) a vs], fw_time := t\<rparr>))
    \<and> mb_ctx c' = mb_ctx c \<and> mb_backend c' = LibModbus"
  using transact_fake [of c w "\<lambda>x. withUnit (lm_writeRegisters fakeNet x a vs)" "int (length vs)" "()" _
      "\<lambda>c. write_multiple_registers_rtu_over_tcp fakeNet c a vs" "\<lambda>_ _. ()",
      OF assms fake_writesCall [OF assms]]
  by (simp add: mbWriteMultipleRegisters_def)

lemma fake_setSlave:
  assumes "fakeOk (c, w)"
  shows "\<exists>w'. mbSetSlave fakeNet s (c, w) = (Inr (), (c, w')) \<and> fw_fail w' = fw_fail w
    \<and> fw_contexts w' (the (mb_ctx c)) = s \<and> fw_holding w' = fw_holding w \<and> fw_writes w' = fw_writes w"
  using assms by (auto simp: mbSetSlave_def fakeNet_sel fakeCall_ok fakeOk_def)

interpretation fakeBus: register_bus "clientBus fakeNet" fakeOk fakeSlave fakeRegs fakeWrites
proof (unfold_locales, goal_cases)
  case (1 b s)
  then show ?case
    using fake_setSlave [of "fst b" "snd b" s]
    by (auto simp: clientBus_def fakeOk_def fakeSlave_def fakeRegs_def fakeWrites_def split: prod.splits)
next
  case (2 b n a)
  then show ?case
    using fake_readHolding [of "fst b" "snd b" n a]
    by (auto simp: clientBus_def fakeOk_def fakeSlave_def fakeRegs_def fakeWrites_def split: prod.splits)
next
  case (3 b a v)
  then show ?case
    using fake_writeSingle [of "fst b" "snd b" a v]
    by (auto simp: clientBus_def fakeOk_def fakeSlave_def fakeRegs_def fakeWrites_def split: prod.splits)
next
  case (4 b vs a)
  then show ?case
    using fake_writeMultiple [of "fst b" "snd b" a vs]
    by (auto simp: clientBus_def fakeOk_def fakeSlave_def fakeRegs_def fakeWrites_def split: prod.splits)
next
  case (5 c w ms)
  then show ?case
    by (simp add: fakeOk_def fakeSlave_def fakeRegs_def fakeWrites_def clientBus_def fakeNet_sel)
qed

end
