(* ===== verification/RegisterNames.thy ===== *)
theory RegisterNames
  imports Prelude
begin

text \<open>
  The register names of the AR-KD2 driver (\<^verbatim>\<open>Server/src/ArKd2FullRegisterMap.cpp\<close>), which the
  error messages of the motors quote: the table in three parts, and its lookup.
\<close>

type_synonym ArKd2RegisterEntry = "u16 \<times> string"

definition kRegisters1 :: "ArKd2RegisterEntry list" where
  "kRegisters1 = [
    (0x0030, ''Group (upper)''),
    (0x0031, ''Group (lower)''),
    (0x007C, ''Driver input command (upper)''),
    (0x007D, ''Driver input command (lower)''),
    (0x007E, ''Driver output command (upper)''),
    (0x007F, ''Driver output command (lower)''),
    (0x0080, ''Present alarm (upper)''),
    (0x0081, ''Present alarm (lower)''),
    (0x0082, ''Alarm record 1 (upper)''),
    (0x0083, ''Alarm record 1 (lower)''),
    (0x0084, ''Alarm record 2 (upper)''),
    (0x0085, ''Alarm record 2 (lower)''),
    (0x0086, ''Alarm record 3 (upper)''),
    (0x0087, ''Alarm record 3 (lower)''),
    (0x0088, ''Alarm record 4 (upper)''),
    (0x0089, ''Alarm record 4 (lower)''),
    (0x008A, ''Alarm record 5 (upper)''),
    (0x008B, ''Alarm record 5 (lower)''),
    (0x008C, ''Alarm record 6 (upper)''),
    (0x008D, ''Alarm record 6 (lower)''),
    (0x008E, ''Alarm record 7 (upper)''),
    (0x008F, ''Alarm record 7 (lower)''),
    (0x0090, ''Alarm record 8 (upper)''),
    (0x0091, ''Alarm record 8 (lower)''),
    (0x0092, ''Alarm record 9 (upper)''),
    (0x0093, ''Alarm record 9 (lower)''),
    (0x0094, ''Alarm record 10 (upper)''),
    (0x0095, ''Alarm record 10 (lower)''),
    (0x0096, ''Present warning (upper)''),
    (0x0097, ''Present warning (lower)''),
    (0x0098, ''Warning record 1 (upper)''),
    (0x0099, ''Warning record 1 (lower)''),
    (0x009A, ''Warning record 2 (upper)''),
    (0x009B, ''Warning record 2 (lower)''),
    (0x009C, ''Warning record 3 (upper)''),
    (0x009D, ''Warning record 3 (lower)''),
    (0x009E, ''Warning record 4 (upper)''),
    (0x009F, ''Warning record 4 (lower)''),
    (0x00A0, ''Warning record 5 (upper)''),
    (0x00A1, ''Warning record 5 (lower)''),
    (0x00A2, ''Warning record 6 (upper)''),
    (0x00A3, ''Warning record 6 (lower)''),
    (0x00A4, ''Warning record 7 (upper)''),
    (0x00A5, ''Warning record 7 (lower)''),
    (0x00A6, ''Warning record 8 (upper)''),
    (0x00A7, ''Warning record 8 (lower)''),
    (0x00A8, ''Warning record 9 (upper)''),
    (0x00A9, ''Warning record 9 (lower)''),
    (0x00AA, ''Warning record 10 (upper)''),
    (0x00AB, ''Warning record 10 (lower)''),
    (0x00AC, ''Communication error code (upper)''),
    (0x00AD, ''Communication error code (lower)''),
    (0x00AE, ''Communication error code record 1 (upper)''),
    (0x00AF, ''Communication error code record 1 (lower)''),
    (0x00B0, ''Communication error code record 2 (upper)''),
    (0x00B1, ''Communication error code record 2 (lower)''),
    (0x00B2, ''Communication error code record 3 (upper)''),
    (0x00B3, ''Communication error code record 3 (lower)''),
    (0x00B4, ''Communication error code record 4 (upper)''),
    (0x00B5, ''Communication error code record 4 (lower)''),
    (0x00B6, ''Communication error code record 5 (upper)''),
    (0x00B7, ''Communication error code record 5 (lower)''),
    (0x00B8, ''Communication error code record 6 (upper)''),
    (0x00B9, ''Communication error code record 6 (lower)''),
    (0x00BA, ''Communication error code record 7 (upper)''),
    (0x00BB, ''Communication error code record 7 (lower)''),
    (0x00BC, ''Communication error code record 8 (upper)''),
    (0x00BD, ''Communication error code record 8 (lower)''),
    (0x00BE, ''Communication error code record 9 (upper)''),
    (0x00BF, ''Communication error code record 9 (lower)''),
    (0x00C0, ''Communication error code record 10 (upper)''),
    (0x00C1, ''Communication error code record 10 (lower)''),
    (0x00C2, ''Present selected data No. (upper)''),
    (0x00C3, ''Present selected data No. (lower)''),
    (0x00C4, ''Present operation data No. (upper)''),
    (0x00C5, ''Present operation data No. (lower)''),
    (0x00C6, ''Command position (upper)''),
    (0x00C7, ''Command position (lower)''),
    (0x00C8, ''Command speed (upper)''),
    (0x00C9, ''Command speed (lower)''),
    (0x00CC, ''Actual position (upper)''),
    (0x00CD, ''Actual position (lower)''),
    (0x00CE, ''Actual speed (upper)''),
    (0x00CF, ''Actual speed (lower)''),
    (0x00D2, ''Remaining dwell time (upper)''),
    (0x00D3, ''Remaining dwell time (lower)''),
    (0x00D4, ''Direct I/O and electromagnetic brake status (upper)''),
    (0x00D5, ''Direct I/O and electromagnetic brake status (lower)''),
    (0x0180, ''Reset alarm (upper)''),
    (0x0181, ''Reset alarm (lower)''),
    (0x0184, ''Clear alarm records (upper)''),
    (0x0185, ''Clear alarm records (lower)''),
    (0x0186, ''Clear warning records (upper)''),
    (0x0187, ''Clear warning records (lower)''),
    (0x0188, ''Clear communication error records (upper)''),
    (0x0189, ''Clear communication error records (lower)''),
    (0x018A, ''P-PRESET execute (upper)''),
    (0x018B, ''P-PRESET execute (lower)''),
    (0x018C, ''Configuration (upper)''),
    (0x018D, ''Configuration (lower)''),
    (0x018E, ''All data initialization (upper) * Resets the operation data and parameters saved in the non-volatile memory, to their defaults.''),
    (0x018F, ''All data initialization (lower) *''),
    (0x0190, ''Batch non-volatile memory read (upper)''),
    (0x0191, ''Batch non-volatile memory read (lower)''),
    (0x0192, ''Batch non-volatile memory write (upper)''),
    (0x0193, ''Batch non-volatile memory write (lower)''),
    (0x0200, ''STOP input action (upper)''),
    (0x0201, ''STOP input action (lower)''),
    (0x0202, ''Hardware overtravel (upper)''),
    (0x0203, ''Hardware overtravel (lower)''),
    (0x0204, ''Overtravel action (upper)''),
    (0x0205, ''Overtravel action (lower)''),
    (0x0206, ''END signal range (upper)''),
    (0x0207, ''END signal range (lower)''),
    (0x0208, ''Positioning complete output offset (upper)''),
    (0x0209, ''Positioning complete output offset (lower)''),
    (0x020A, ''AREA1 positive direction position (upper)''),
    (0x020B, ''AREA1 positive direction position (lower)''),
    (0x020C, ''AREA1 negative direction position (upper)''),
    (0x020D, ''AREA1 negative direction position (lower)''),
    (0x020E, ''AREA2 positive direction position (upper)''),
    (0x020F, ''AREA2 positive direction position (lower)''),
    (0x0210, ''AREA2 negative direction position (upper)''),
    (0x0211, ''AREA2 negative direction position (lower)''),
    (0x0212, ''AREA3 positive direction position (upper)''),
    (0x0213, ''AREA3 positive direction position (lower)''),
    (0x0214, ''AREA3 negative direction position (upper)''),
    (0x0215, ''AREA3 negative direction position (lower)'')]"

definition kRegisters2 :: "ArKd2RegisterEntry list" where
  "kRegisters2 = [
    (0x0216, ''Minimum ON time for MOVE output (upper)''),
    (0x0217, ''Minimum ON time for MOVE output (lower)''),
    (0x0218, ''LS contact configration (upper)''),
    (0x0219, ''LS contact configration (lower)''),
    (0x021A, ''HOMES logic level (upper)''),
    (0x021B, ''HOMES logic level (lower)''),
    (0x021C, ''SLIT logic level (upper)''),
    (0x021D, ''SLIT logic level (lower)''),
    (0x0240, ''RUN current (upper)''),
    (0x0241, ''RUN current (lower)''),
    (0x0242, ''STOP current (upper)''),
    (0x0243, ''STOP current (lower)''),
    (0x0244, ''Position loop gain (upper)''),
    (0x0245, ''Position loop gain (lower)''),
    (0x0246, ''Speed loop gain (upper)''),
    (0x0247, ''Speed loop gain (lower)''),
    (0x0248, ''Speed loop integral time constant (upper)''),
    (0x0249, ''Speed loop integral time constant (lower)''),
    (0x024A, ''Speed filter (upper)''),
    (0x024B, ''Speed filter (lower)''),
    (0x024C, ''Moving average time (upper)''),
    (0x024D, ''Moving average time (lower)''),
    (0x0280, ''Common acceleration (upper)''),
    (0x0281, ''Common acceleration (lower)''),
    (0x0282, ''Common deceleration (upper)''),
    (0x0283, ''Common deceleration (lower)''),
    (0x0284, ''Starting speed (upper)''),
    (0x0285, ''Starting speed (lower)''),
    (0x0286, ''JOG operating speed (upper)''),
    (0x0287, ''JOG operating speed (lower)''),
    (0x0288, ''Acceleration/deceleration rate of JOG (upper)''),
    (0x0289, ''Acceleration/deceleration rate of JOG (lower)''),
    (0x028A, ''JOG starting speed (upper)''),
    (0x028B, ''JOG starting speed (lower)''),
    (0x028C, ''Acceleration/deceleration type (upper)''),
    (0x028D, ''Acceleration/deceleration type (lower)''),
    (0x028E, ''Acceleration/deceleration unit (upper)''),
    (0x028F, ''Acceleration/deceleration unit (lower)''),
    (0x02C0, ''Home-seeking mode (upper)''),
    (0x02C1, ''Home-seeking mode (lower)''),
    (0x02C2, ''Operating speed of home- seeking (upper)''),
    (0x02C3, ''Operating speed of home- seeking (lower)''),
    (0x02C4, ''Acceleration/deceleration of home-seeking (upper)''),
    (0x02C5, ''Acceleration/deceleration of home-seeking (lower)''),
    (0x02C6, ''Starting speed of home-seeking (upper)''),
    (0x02C7, ''Starting speed of home-seeking (lower)''),
    (0x02C8, ''Position offset of home-seeking (upper)''),
    (0x02C9, ''Position offset of home-seeking (lower)''),
    (0x02CA, ''Starting direction of home- seeking (upper)''),
    (0x02CB, ''Starting direction of home- seeking (lower)''),
    (0x02CC, ''SLIT detection with home- seeking (upper)''),
    (0x02CD, ''SLIT detection with home- seeking (lower)''),
    (0x02CE, ''TIM signal detection with home- seeking (upper)''),
    (0x02CF, ''TIM signal detection with home- seeking (lower)''),
    (0x02D0, ''Operating current of home- seeking with push-motion (upper)''),
    (0x02D1, ''Operating current of home- seeking with push-motion (lower)''),
    (0x0300, ''Overload alarm (upper)''),
    (0x0301, ''Overload alarm (lower)''),
    (0x0302, ''Excessive position deviation alarm at current ON (upper)''),
    (0x0303, ''Excessive position deviation alarm at current ON (lower)''),
    (0x0308, ''Return-to-home incomplete alarm (upper)''),
    (0x0309, ''Return-to-home incomplete alarm (lower)''),
    (0x0340, ''Overheat warning (upper)''),
    (0x0341, ''Overheat warning (lower)''),
    (0x0342, ''Overload warning (upper)''),
    (0x0343, ''Overload warning (lower)''),
    (0x0344, ''Overspeed warning (upper)''),
    (0x0345, ''Overspeed warning (lower)''),
    (0x0346, ''Overvoltage warning (upper)''),
    (0x0347, ''Overvoltage warning (lower)''),
    (0x0348, ''Undervoltage warning (upper)''),
    (0x0349, ''Undervoltage warning (lower)''),
    (0x034A, ''Excessive position deviation warning at current ON (upper)''),
    (0x034B, ''Excessive position deviation warning at current ON (lower)''),
    (0x0380, ''Electronic gear A (upper)''),
    (0x0381, ''Electronic gear A (lower)''),
    (0x0382, ''Electronic gear B (upper)''),
    (0x0383, ''Electronic gear B (lower)''),
    (0x0384, ''Motor rotation direction (upper)''),
    (0x0385, ''Motor rotation direction (lower)''),
    (0x0386, ''Software overtravel (upper)''),
    (0x0387, ''Software overtravel (lower)''),
    (0x0388, ''Positive software limit (upper)''),
    (0x0389, ''Positive software limit (lower)''),
    (0x038A, ''Negative software limit (upper)''),
    (0x038B, ''Negative software limit (lower)''),
    (0x038C, ''Preset position (upper)''),
    (0x038D, ''Preset position (lower)''),
    (0x038E, ''Wrap setting (upper)''),
    (0x038F, ''Wrap setting (lower)''),
    (0x0390, ''Wrap setting range (upper)''),
    (0x0391, ''Wrap setting range (lower)''),
    (0x03C0, ''Data setter speed display (upper)''),
    (0x03C1, ''Data setter speed display (lower)''),
    (0x03C2, ''Data setter edit (upper)''),
    (0x03C3, ''Data setter edit (lower)''),
    (0x0400, ''Operation data No.0 position (upper)''),
    (0x0401, ''Operation data No.0 position (lower)''),
    (0x0480, ''Operation data No.0 speed (upper)''),
    (0x0481, ''Operation data No.0 speed (lower)''),
    (0x0500, ''Operation data No.0 mode (upper)''),
    (0x0501, ''Operation data No.0 mode (lower)''),
    (0x0600, ''Operation data No.0 acceleration (upper)''),
    (0x0601, ''Operation data No.0 acceleration (lower)''),
    (0x0680, ''Operation data No.0 deceleration (upper)''),
    (0x0681, ''Operation data No.0 deceleration (lower)''),
    (0x1000, ''MS0 operation No. selection (upper)''),
    (0x1001, ''MS0 operation No. selection (lower)''),
    (0x1002, ''MS1 operation No. selection (upper)''),
    (0x1003, ''MS1 operation No. selection (lower)''),
    (0x1004, ''MS2 operation No. selection (upper)''),
    (0x1005, ''MS2 operation No. selection (lower)''),
    (0x1006, ''MS3 operation No. selection (upper)''),
    (0x1007, ''MS3 operation No. selection (lower)''),
    (0x1008, ''MS4 operation No. selection (upper)''),
    (0x1009, ''MS4 operation No. selection (lower)''),
    (0x100A, ''MS5 operation No. selection (upper)''),
    (0x100B, ''MS5 operation No. selection (lower)''),
    (0x100C, ''HOME-P output function selection (upper)''),
    (0x100D, ''HOME-P output function selection (lower)''),
    (0x1020, ''Filter selection (upper)''),
    (0x1021, ''Filter selection (lower)''),
    (0x1022, ''Speed difference gain 1 (upper)''),
    (0x1023, ''Speed difference gain 1 (lower)''),
    (0x1024, ''Speed difference gain 2 (upper)''),
    (0x1025, ''Speed difference gain 2 (lower)''),
    (0x1026, ''Control mode (upper)''),
    (0x1027, ''Control mode (lower)'')]"

definition kRegisters3 :: "ArKd2RegisterEntry list" where
  "kRegisters3 = [
    (0x1028, ''Smooth drive (upper)''),
    (0x1029, ''Smooth drive (lower)''),
    (0x1040, ''Automatic return operation (upper)''),
    (0x1041, ''Automatic return operation (lower)''),
    (0x1042, ''Operation speed of automatic return (upper)''),
    (0x1043, ''Operation speed of automatic return (lower)''),
    (0x1044, ''Acceleration (deceleration) of automatic return (upper)''),
    (0x1045, ''Acceleration (deceleration) of automatic return (lower)''),
    (0x1046, ''Starting speed of automatic return (upper)''),
    (0x1047, ''Starting speed of automatic return (lower)''),
    (0x1048, ''JOG travel amount (upper)''),
    (0x1049, ''JOG travel amount (lower)''),
    (0x1080, ''Excessive position deviation alarm at current OFF (upper)''),
    (0x1081, ''Excessive position deviation alarm at current OFF (lower)''),
    (0x1100, ''IN0 input function selection (upper)''),
    (0x1101, ''IN0 input function selection (lower)''),
    (0x1102, ''IN1 input function selection (upper)''),
    (0x1103, ''IN1 input function selection (lower)''),
    (0x1104, ''IN2 input function selection (upper)''),
    (0x1105, ''IN2 input function selection (lower)''),
    (0x1106, ''IN3 input function selection (upper)''),
    (0x1107, ''IN3 input function selection (lower)''),
    (0x1108, ''IN4 input function selection (upper)''),
    (0x1109, ''IN4 input function selection (lower)''),
    (0x110A, ''IN5 input function selection (upper)''),
    (0x110B, ''IN5 input function selection (lower)''),
    (0x110C, ''IN6 input function selection (upper)''),
    (0x110D, ''IN6 input function selection (lower)''),
    (0x110E, ''IN7 input function selection (upper)''),
    (0x110F, ''IN7 input function selection (lower)''),
    (0x1120, ''IN0 input logic level setting (upper)''),
    (0x1121, ''IN0 input logic level setting (lower)''),
    (0x1122, ''IN1 input logic level setting (upper)''),
    (0x1123, ''IN1 input logic level setting (lower)''),
    (0x1124, ''IN2 input logic level setting (upper)''),
    (0x1125, ''IN2 input logic level setting (lower)''),
    (0x1126, ''IN3 input logic level setting (upper)''),
    (0x1127, ''IN3 input logic level setting (lower)''),
    (0x1128, ''IN4 input logic level setting (upper)''),
    (0x1129, ''IN4 input logic level setting (lower)''),
    (0x112A, ''IN5 input logic level setting (upper)''),
    (0x112B, ''IN5 input logic level setting (lower)''),
    (0x112C, ''IN6 input logic level setting (upper)''),
    (0x112D, ''IN6 input logic level setting (lower)''),
    (0x112E, ''IN7 input logic level setting (upper)''),
    (0x112F, ''IN7 input logic level setting (lower)''),
    (0x1140, ''OUT0 output function selection (upper)''),
    (0x1141, ''OUT0 output function selection (lower)''),
    (0x1142, ''OUT1 output function selection (upper)''),
    (0x1143, ''OUT1 output function selection (lower)''),
    (0x1144, ''OUT2 output function selection (upper)''),
    (0x1145, ''OUT2 output function selection (lower)''),
    (0x1146, ''OUT3 output function selection (upper)''),
    (0x1147, ''OUT3 output function selection (lower)''),
    (0x1148, ''OUT4 output function selection (upper)''),
    (0x1149, ''OUT4 output function selection (lower)''),
    (0x114A, ''OUT5 output function selection (upper)''),
    (0x114B, ''OUT5 output function selection (lower)''),
    (0x1160, ''NET-IN0 input function selection (upper)''),
    (0x1161, ''NET-IN0 input function selection (lower)''),
    (0x1162, ''NET-IN1 input function selection (upper)''),
    (0x1163, ''NET-IN1 input function selection (lower)''),
    (0x1164, ''NET-IN2 input function selection (upper)''),
    (0x1165, ''NET-IN2 input function selection (lower)''),
    (0x1166, ''NET-IN3 input function selection (upper)''),
    (0x1167, ''NET-IN3 input function selection (lower)''),
    (0x1168, ''NET-IN4 input function selection (upper)''),
    (0x1169, ''NET-IN4 input function selection (lower)''),
    (0x116A, ''NET-IN5 input function selection (upper)''),
    (0x116B, ''NET-IN5 input function selection (lower)''),
    (0x116C, ''NET-IN6 input function selection (upper)''),
    (0x116D, ''NET-IN6 input function selection (lower)''),
    (0x116E, ''NET-IN7 input function selection (upper)''),
    (0x116F, ''NET-IN7 input function selection (lower)''),
    (0x1170, ''NET-IN8 input function selection (upper)''),
    (0x1171, ''NET-IN8 input function selection (lower)''),
    (0x1172, ''NET-IN9 input function selection (upper)''),
    (0x1173, ''NET-IN9 input function selection (lower)''),
    (0x1174, ''NET-IN10 input function selection (upper)''),
    (0x1175, ''NET-IN10 input function selection (lower)''),
    (0x1176, ''NET-IN11 input function selection (upper)''),
    (0x1177, ''NET-IN11 input function selection (lower)''),
    (0x1178, ''NET-IN12 input function selection (upper)''),
    (0x1179, ''NET-IN12 input function selection (lower)''),
    (0x117A, ''NET-IN13 input function selection (upper)''),
    (0x117B, ''NET-IN13 input function selection (lower)''),
    (0x117C, ''NET-IN14 input function selection (upper)''),
    (0x117D, ''NET-IN14 input function selection (lower)''),
    (0x117E, ''NET-IN15 input function selection (upper)''),
    (0x117F, ''NET-IN15 input function selection (lower)''),
    (0x1180, ''NET-OUT0 output function selection (upper)''),
    (0x1181, ''NET-OUT0 output function selection (lower)''),
    (0x1182, ''NET-OUT1 output function selection (upper)''),
    (0x1183, ''NET-OUT1 output function selection (lower)''),
    (0x1184, ''NET-OUT2 output function selection (upper)''),
    (0x1185, ''NET-OUT2 output function selection (lower)''),
    (0x1186, ''NET-OUT3 output function selection (upper)''),
    (0x1187, ''NET-OUT3 output function selection (lower)''),
    (0x1188, ''NET-OUT4 output function selection (upper)''),
    (0x1189, ''NET-OUT4 output function selection (lower)''),
    (0x118A, ''NET-OUT5 output function selection (upper)''),
    (0x118B, ''NET-OUT5 output function selection (lower)''),
    (0x118C, ''NET-OUT6 output function selection (upper)''),
    (0x118D, ''NET-OUT6 output function selection (lower)''),
    (0x118E, ''NET-OUT7 output function selection (upper)''),
    (0x118F, ''NET-OUT7 output function selection (lower)''),
    (0x1190, ''NET-OUT8 output function selection (upper)''),
    (0x1191, ''NET-OUT8 output function selection (lower)''),
    (0x1192, ''NET-OUT9 output function selection (upper)''),
    (0x1193, ''NET-OUT9 output function selection (lower)''),
    (0x1194, ''NET-OUT10 output function selection (upper)''),
    (0x1195, ''NET-OUT10 output function selection (lower)''),
    (0x1196, ''NET-OUT11 output function selection (upper)''),
    (0x1197, ''NET-OUT11 output function selection (lower)''),
    (0x1198, ''NET-OUT12 output function selection (upper)''),
    (0x1199, ''NET-OUT12 output function selection (lower)''),
    (0x119A, ''NET-OUT13 output function selection (upper)''),
    (0x119B, ''NET-OUT13 output function selection (lower)''),
    (0x119C, ''NET-OUT14 output function selection (upper)''),
    (0x119D, ''NET-OUT14 output function selection (lower)''),
    (0x119E, ''NET-OUT15 output function selection (upper)''),
    (0x119F, ''NET-OUT15 output function selection (lower)''),
    (0x1200, ''Communication timeout (upper)''),
    (0x1201, ''Communication timeout (lower)''),
    (0x1202, ''Communication error alarm (upper)''),
    (0x1203, ''Communication error alarm (lower)'')]"

definition arKd2FullRegisterMap :: "ArKd2RegisterEntry list" where
  "arKd2FullRegisterMap = kRegisters1 @ kRegisters2 @ kRegisters3"

definition arKd2RegisterName :: "u16 \<Rightarrow> string option" where
  "arKd2RegisterName address = map_of arKd2FullRegisterMap address"

end
