(* ===== verification/RegisterMap.thy ===== *)
theory RegisterMap
  imports RegisterNames
begin

text \<open>
  The registers of the driver the motors use (\<^verbatim>\<open>Server/include/MotorRegisterMap.hpp\<close>,
  \<^verbatim>\<open>Server/src/ArKd2RegisterMap.cpp\<close>), the bits of its command and status words
  (\<^verbatim>\<open>Server/include/Motor.hpp\<close>), and the names and codes of the functions that can be assigned
  to its terminals (\<^verbatim>\<open>Server/src/Motor.cpp\<close>).
\<close>

section \<open>Addresses\<close>

record MotorRegisterMap =
  rm_groupId :: int
  rm_driverInputCommandLower :: int
  rm_driverOutputCommandLower :: int
  rm_presentAlarm :: int
  rm_presentWarning :: int
  rm_communicationErrorCode :: int
  rm_directIoAndBrakeStatus :: int
  rm_outputFunctionSelectBase :: int
  rm_inputFunctionSelectBase :: int
  rm_netInputFunctionSelectBase :: int
  rm_netOutputFunctionSelectBase :: int
  rm_alarmResetCommand :: int
  rm_configurationExecute :: int
  rm_stopInputAction :: int
  rm_commandPosition :: int
  rm_commandSpeed :: int
  rm_actualPosition :: int
  rm_actualSpeed :: int
  rm_runCurrent :: int
  rm_stopCurrent :: int
  rm_startingSpeed :: int
  rm_overloadAlarm :: int
  rm_excessivePositionDeviationAlarm :: int
  rm_overloadWarning :: int
  rm_excessivePositionDeviationWarning :: int
  rm_motorRotationDirection :: int
  rm_positionNo0 :: int
  rm_speedNo0 :: int
  rm_operationModeNo0 :: int
  rm_accelerationNo0 :: int
  rm_decelerationNo0 :: int

definition defaultRegisterMap :: MotorRegisterMap where
  "defaultRegisterMap = \<lparr>
     rm_groupId = 0x0030,
     rm_driverInputCommandLower = 0x007d,
     rm_driverOutputCommandLower = 0x007f,
     rm_presentAlarm = 0x0080,
     rm_presentWarning = 0x0096,
     rm_communicationErrorCode = 0x00AC,
     rm_directIoAndBrakeStatus = 0x00D4,
     rm_outputFunctionSelectBase = 0x1140,
     rm_inputFunctionSelectBase = 0x1100,
     rm_netInputFunctionSelectBase = 0x1160,
     rm_netOutputFunctionSelectBase = 0x1180,
     rm_alarmResetCommand = 0x0180,
     rm_configurationExecute = 0x018C,
     rm_stopInputAction = 0x0200,
     rm_commandPosition = 0x00C6,
     rm_commandSpeed = 0x00C8,
     rm_actualPosition = 0x00CC,
     rm_actualSpeed = 0x00CE,
     rm_runCurrent = 0x0240,
     rm_stopCurrent = 0x0242,
     rm_startingSpeed = 0x0284,
     rm_overloadAlarm = 0x0300,
     rm_excessivePositionDeviationAlarm = 0x0302,
     rm_overloadWarning = 0x0342,
     rm_excessivePositionDeviationWarning = 0x034A,
     rm_motorRotationDirection = 0x0384,
     rm_positionNo0 = 0x0400,
     rm_speedNo0 = 0x0480,
     rm_operationModeNo0 = 0x0500,
     rm_accelerationNo0 = 0x0600,
     rm_decelerationNo0 = 0x0680\<rparr>"

definition makeArKd2RegisterMap :: MotorRegisterMap where
  "makeArKd2RegisterMap = defaultRegisterMap\<lparr>
     rm_groupId := 0x0030,
     rm_driverInputCommandLower := 0x007D,
     rm_driverOutputCommandLower := 0x007F,
     rm_presentAlarm := 0x0080,
     rm_presentWarning := 0x0096,
     rm_communicationErrorCode := 0x00AC,
     rm_directIoAndBrakeStatus := 0x00D4,
     rm_outputFunctionSelectBase := 0x1140,
     rm_inputFunctionSelectBase := 0x1100,
     rm_netInputFunctionSelectBase := 0x1160,
     rm_netOutputFunctionSelectBase := 0x1180,
     rm_alarmResetCommand := 0x0180,
     rm_configurationExecute := 0x018C,
     rm_stopInputAction := 0x0200,
     rm_commandPosition := 0x00C6,
     rm_commandSpeed := 0x00C8,
     rm_actualPosition := 0x00CC,
     rm_actualSpeed := 0x00CE,
     rm_runCurrent := 0x0240,
     rm_stopCurrent := 0x0242,
     rm_startingSpeed := 0x0284,
     rm_overloadAlarm := 0x0300,
     rm_excessivePositionDeviationAlarm := 0x0302,
     rm_overloadWarning := 0x0342,
     rm_excessivePositionDeviationWarning := 0x034A,
     rm_motorRotationDirection := 0x0384,
     rm_positionNo0 := 0x0400,
     rm_speedNo0 := 0x0480,
     rm_operationModeNo0 := 0x0500,
     rm_accelerationNo0 := 0x0600,
     rm_decelerationNo0 := 0x0680\<rparr>"

lemma makeArKd2RegisterMap_eq: "makeArKd2RegisterMap = defaultRegisterMap"
  by (simp add: makeArKd2RegisterMap_def defaultRegisterMap_def)

section \<open>Command and status bits\<close>

datatype MotorInputFlag = M0 | M1 | M2 | Start | Home | Stop | Free | Ms0 | Ms1 | Ms2 | SStart
  | PlusJog | MinusJog | Fwd | Rvs

datatype MotorOutputFlag = M0R | M1R | M2R | StartR | HomeP | Ready | Warning | Alarm | SBusy
  | Area1 | Area2 | Area3 | Tim | Move | End | Tlc

fun inputFlagBit :: "MotorInputFlag \<Rightarrow> nat" where
  "inputFlagBit M0 = 0"
| "inputFlagBit M1 = 1"
| "inputFlagBit M2 = 2"
| "inputFlagBit Start = 3"
| "inputFlagBit Home = 4"
| "inputFlagBit Stop = 5"
| "inputFlagBit Free = 6"
| "inputFlagBit Ms0 = 8"
| "inputFlagBit Ms1 = 9"
| "inputFlagBit Ms2 = 10"
| "inputFlagBit SStart = 11"
| "inputFlagBit PlusJog = 12"
| "inputFlagBit MinusJog = 13"
| "inputFlagBit Fwd = 14"
| "inputFlagBit Rvs = 15"

fun outputFlagBit :: "MotorOutputFlag \<Rightarrow> nat" where
  "outputFlagBit M0R = 0"
| "outputFlagBit M1R = 1"
| "outputFlagBit M2R = 2"
| "outputFlagBit StartR = 3"
| "outputFlagBit HomeP = 4"
| "outputFlagBit Ready = 5"
| "outputFlagBit MotorOutputFlag.Warning = 6"
| "outputFlagBit MotorOutputFlag.Alarm = 7"
| "outputFlagBit SBusy = 8"
| "outputFlagBit Area1 = 9"
| "outputFlagBit Area2 = 10"
| "outputFlagBit Area3 = 11"
| "outputFlagBit Tim = 12"
| "outputFlagBit Move = 13"
| "outputFlagBit End = 14"
| "outputFlagBit Tlc = 15"

text \<open>The value of a flag as a mask of the 16-bit word, \<^verbatim>\<open>1u << n\<close>.\<close>

definition bitMask :: "nat \<Rightarrow> u16" where
  "bitMask n = push_bit n 1"

definition inputMask :: "MotorInputFlag \<Rightarrow> u16" where
  "inputMask f = bitMask (inputFlagBit f)"

definition outputMask :: "MotorOutputFlag \<Rightarrow> u16" where
  "outputMask f = bitMask (outputFlagBit f)"

definition kInputFlags :: "(MotorInputFlag \<times> string) list" where
  "kInputFlags = [(M0, ''M0''),
     (M1, ''M1''),
     (M2, ''M2''),
     (Start, ''START''),
     (Home, ''HOME''),
     (Stop, ''STOP''),
     (Free, ''FREE''),
     (Ms0, ''MS0''),
     (Ms1, ''MS1''),
     (Ms2, ''MS2''),
     (SStart, ''SSTART''),
     (PlusJog, ''+JOG''),
     (MinusJog, ''-JOG''),
     (Fwd, ''FWD''),
     (Rvs, ''RVS'')]"

definition kOutputFlags :: "(MotorOutputFlag \<times> string) list" where
  "kOutputFlags = [(M0R, ''M0_R''),
     (M1R, ''M1_R''),
     (M2R, ''M2_R''),
     (StartR, ''START_R''),
     (HomeP, ''HOME-P''),
     (Ready, ''READY''),
     (MotorOutputFlag.Warning, ''WNG''),
     (MotorOutputFlag.Alarm, ''ALM''),
     (SBusy, ''S-BSY''),
     (Area1, ''AREA1''),
     (Area2, ''AREA2''),
     (Area3, ''AREA3''),
     (Tim, ''TIM''),
     (Move, ''MOVE''),
     (End, ''END''),
     (Tlc, ''TLC'')]"

section \<open>Assignable functions\<close>

definition kFunctionFwd :: u16 where "kFunctionFwd = 1"
definition kFunctionRvs :: u16 where "kFunctionRvs = 2"
definition kFunctionHome :: u16 where "kFunctionHome = 3"
definition kFunctionStart :: u16 where "kFunctionStart = 4"
definition kFunctionStop :: u16 where "kFunctionStop = 18"
definition kFunctionPlusJog :: u16 where "kFunctionPlusJog = 6"
definition kFunctionMinusJog :: u16 where "kFunctionMinusJog = 7"
definition kFunctionM0 :: u16 where "kFunctionM0 = 48"
definition kFunctionM1 :: u16 where "kFunctionM1 = 49"
definition kFunctionM2 :: u16 where "kFunctionM2 = 50"
definition kFunctionMs0 :: u16 where "kFunctionMs0 = 8"
definition kFunctionMs1 :: u16 where "kFunctionMs1 = 9"
definition kFunctionMs2 :: u16 where "kFunctionMs2 = 10"
definition kFunctionCOn :: u16 where "kFunctionCOn = 17"

lemmas function_codes = kFunctionFwd_def kFunctionRvs_def kFunctionHome_def kFunctionStart_def kFunctionStop_def kFunctionPlusJog_def kFunctionMinusJog_def kFunctionM0_def kFunctionM1_def kFunctionM2_def kFunctionMs0_def kFunctionMs1_def kFunctionMs2_def kFunctionCOn_def

definition outputFunctionNameTable :: "(u16 \<times> string) list" where
  "outputFunctionNameTable = [
     (0, ''No function''),
     (1, ''FWD_R''),
     (2, ''RVS_R''),
     (3, ''HOME_R''),
     (4, ''START_R''),
     (5, ''SSTART_R''),
     (6, ''+JOG_R''),
     (7, ''-JOG_R''),
     (8, ''MS0_R''),
     (9, ''MS1_R''),
     (10, ''MS2_R''),
     (11, ''MS3_R''),
     (12, ''MS4_R''),
     (13, ''MS5_R''),
     (16, ''FREE_R''),
     (17, ''C-ON_R''),
     (18, ''STOP_R''),
     (32, ''R0''),
     (33, ''R1''),
     (34, ''R2''),
     (35, ''R3''),
     (36, ''R4''),
     (37, ''R5''),
     (38, ''R6''),
     (39, ''R7''),
     (40, ''R8''),
     (41, ''R9''),
     (42, ''R10''),
     (43, ''R11''),
     (44, ''R12''),
     (45, ''R13''),
     (46, ''R14''),
     (47, ''R15''),
     (48, ''M0_R''),
     (49, ''M1_R''),
     (50, ''M2_R''),
     (51, ''M3_R''),
     (52, ''M4_R''),
     (53, ''M5_R''),
     (60, ''+LS_R''),
     (61, ''-LS_R''),
     (62, ''HOMES_R''),
     (63, ''SLIT_R''),
     (65, ''ALM''),
     (66, ''WNG''),
     (67, ''READY''),
     (68, ''MOVE''),
     (69, ''END''),
     (70, ''HOME-P''),
     (71, ''TLC''),
     (72, ''TIM''),
     (73, ''AREA1''),
     (74, ''AREA2''),
     (75, ''AREA3''),
     (80, ''S-BSY''),
     (82, ''MPS'')]"

definition outputFunctionName :: "u16 \<Rightarrow> string" where
  "outputFunctionName code = (case map_of outputFunctionNameTable code of Some n \<Rightarrow> n
     | None \<Rightarrow> ''Unknown('' @ decNat (unat code) @ '')'')"

definition inputFunctionNameTable :: "(u16 \<times> string) list" where
  "inputFunctionNameTable = [
     (0, ''No function''),
     (1, ''FWD''),
     (2, ''RVS''),
     (3, ''HOME''),
     (4, ''START''),
     (5, ''SSTART''),
     (6, ''+JOG''),
     (7, ''-JOG''),
     (8, ''MS0''),
     (9, ''MS1''),
     (10, ''MS2''),
     (11, ''MS3''),
     (12, ''MS4''),
     (13, ''MS5''),
     (16, ''FREE''),
     (17, ''C-ON''),
     (18, ''STOP''),
     (24, ''ALM-RST''),
     (25, ''P-PRESET''),
     (26, ''P-CLR''),
     (27, ''HMI''),
     (32, ''R0''),
     (33, ''R1''),
     (34, ''R2''),
     (35, ''R3''),
     (36, ''R4''),
     (37, ''R5''),
     (38, ''R6''),
     (39, ''R7''),
     (40, ''R8''),
     (41, ''R9''),
     (42, ''R10''),
     (43, ''R11''),
     (44, ''R12''),
     (45, ''R13''),
     (46, ''R14''),
     (47, ''R15''),
     (48, ''M0''),
     (49, ''M1''),
     (50, ''M2''),
     (51, ''M3''),
     (52, ''M4''),
     (53, ''M5'')]"

definition inputFunctionName :: "u16 \<Rightarrow> string" where
  "inputFunctionName code = (case map_of inputFunctionNameTable code of Some n \<Rightarrow> n
     | None \<Rightarrow> ''Unknown('' @ decNat (unat code) @ '')'')"

definition kDefaultNetInputFunctionCodes :: "u16 list" where
  "kDefaultNetInputFunctionCodes = [48, 49, 50, 4, 3, 18, 16, 0, 8, 9, 10, 5, 6, 7, 1, 2]"

definition kDefaultNetOutputFunctionCodes :: "u16 list" where
  "kDefaultNetOutputFunctionCodes = [48, 49, 50, 4, 70, 67, 66, 65, 80, 73, 74, 75, 72, 68, 69, 71]"

end
