(* ===== verification/Diagnostics.thy ===== *)
theory Diagnostics
  imports Prelude
begin

text \<open>
  The alarm, warning and communication error codes of the AR-KD2 driver
  (\<^verbatim>\<open>Server/src/ArKd2Diagnostics.cpp\<close>): three tables and their lookup. Text is UTF-8, one
  character per byte.
\<close>

datatype ArKd2CodeDomain = AlarmDomain | WarningDomain | CommunicationErrorDomain

record ArKd2CodeInfo =
  ci_code :: u8
  ci_type :: string
  ci_cause :: string
  ci_remedialAction :: string

definition codeInfo :: "u8 \<Rightarrow> string \<Rightarrow> string \<Rightarrow> string \<Rightarrow> ArKd2CodeInfo" where
  "codeInfo c t u r = \<lparr>ci_code = c, ci_type = t, ci_cause = u, ci_remedialAction = r\<rparr>"

definition kAlarmCodes :: "ArKd2CodeInfo list" where
  "kAlarmCodes = [
    codeInfo 0x10 ''Excessive position deviation''
      ''Deviation exceeded the configured alarm-at-current-ON threshold.''
      ''Reduce load, relax accel/decel, verify motor cable.'',
    codeInfo 0x12 ''Excessive position deviation during current OFF''
      ''C-ON was turned on while excessive-position warning at current OFF was present.''
      ''Avoid enabling C-ON in this state; review auto return setting.'',
    codeInfo 0x20 ''Overcurrent''
      ''Motor/cable/driver output short circuit detected.''
      ''Power cycle and verify wiring/shorts before re-enabling.'',
    codeInfo 0x21 ''Main circuit overheat''
      ''Driver internal temperature exceeded limit.''
      ''Improve cabinet cooling and ambient conditions.'',
    codeInfo 0x22 ''Overvoltage''
      ''Power supply voltage exceeded permitted range.''
      ''Check supply voltage and deceleration profile/load.'',
    codeInfo 0x23 ''Main power off''
      ''Motor start attempted while main power was absent.''
      ''Verify main power input and power sequencing.'',
    codeInfo 0x25 ''Undervoltage''
      ''Main power dropped or fell below permitted range.''
      ''Check power supply voltage and source stability.'',
    codeInfo 0x28 ''Sensor error''
      ''Sensor error occurred during operation.''
      ''Power cycle and verify motor/driver cable connection.'',
    codeInfo 0x29 ''CPU peripheral circuit error''
      ''Internal CPU-side error occurred.''
      ''Power cycle and recheck. If persistent, service driver.'',
    codeInfo 0x30 ''Overload''
      ''Load/torque demand exceeded configured overload window.''
      ''Reduce load, increase accel/decel time, review run current.'',
    codeInfo 0x31 ''Overspeed''
      ''Motor output speed exceeded limit.''
      ''Adjust electronic gear/profile so speed stays in range.'',
    codeInfo 0x34 ''Command pulse error''
      ''Command pulse frequency exceeded specification.''
      ''Review electronic gear and commanded speed profile.'',
    codeInfo 0x41 ''EEPROM error''
      ''Stored parameter data is corrupted.''
      ''Initialize parameters and power cycle.'',
    codeInfo 0x42 ''Initial sensor error''
      ''Sensor error detected at power-on.''
      ''Power cycle and verify motor cable/feedback wiring.'',
    codeInfo 0x43 ''Initial rotor rotation error''
      ''Output shaft was not still at power-on.''
      ''Remove external force/load during power-up.'',
    codeInfo 0x45 ''Motor combination error''
      ''Unsupported motor/driver combination detected.''
      ''Check model matching and wiring.'',
    codeInfo 0x4A ''Return-to-home incomplete''
      ''Positioning started before origin was set.''
      ''Perform preset or return-to-home before positioning.'',
    codeInfo 0x51 ''Regeneration resistor overheat''
      ''Regeneration resistor connection/thermal issue detected.''
      ''Check TH1/TH2 and resistor sizing/wiring.'',
    codeInfo 0x60 ([CHR 0xC2] @ [CHR 0xB1] @ ''LS both sides active'')
      ''+LS and -LS detected simultaneously.''
      ''Verify sensor logic and LS contact configuration.'',
    codeInfo 0x61 ''Reverse limit sensor connection''
      ''Opposite-direction limit sensor detected during homing.''
      ''Check limit sensor wiring and installation.'',
    codeInfo 0x62 ''Home seeking error''
      ''Return-to-home did not complete normally.''
      ''Check load and home/limit sensor geometry and logic.'',
    codeInfo 0x63 ''No HOMES''
      ''HOMES not detected between positive/negative limit sensors.''
      ''Place/adjust mechanical home sensor in expected span.'',
    codeInfo 0x64 ''TIM/Z/SLIT signal error''
      ''Required TIM/SLIT signals were not detected during homing.''
      ''Adjust mechanics/sensors or disable unused detections.'',
    codeInfo 0x66 ''Hardware overtravel''
      ''+LS/-LS detected while hardware overtravel protection enabled.''
      ''Exit limit region and verify LS setup.'',
    codeInfo 0x67 ''Software overtravel''
      ''Soft limit reached while software overtravel enabled.''
      ''Adjust operation data and soft limits.'',
    codeInfo 0x6A ''Home seeking offset error''
      ''Limit sensor detected during home offset movement.''
      ''Review offset value and sensor placement.'',
    codeInfo 0x70 ''Abnormal operation data''
      ''Operation data combination is invalid for requested motion.''
      ''Validate linked data and speed settings.'',
    codeInfo 0x71 ''Electronic gear setting error''
      ''Electronic gear resolution is out of specification.''
      ''Set resolution to valid range and power cycle.'',
    codeInfo 0x72 ''Wrap setting error''
      ''Wrap setting range is inconsistent with configured resolution.''
      ''Correct wrap parameter values and power cycle.'',
    codeInfo 0x81 ''Network bus error''
      ''Network converter host link disconnected during operation.''
      ''Check network converter cable/connector/controller.'',
    codeInfo 0x83 ''Communication switch setting error''
      ''Transmission-rate switch setting is out of specification.''
      ''Set valid switch value and power cycle.'',
    codeInfo 0x84 ''RS-485 communication error''
      ''Consecutive RS-485 errors exceeded configured threshold.''
      ''Check bus wiring, noise, and communication settings.'',
    codeInfo 0x85 ''RS-485 communication timeout''
      ''No communication within configured timeout window.''
      ''Verify host communication cadence and cable/port.'',
    codeInfo 0x8E ''Network converter error''
      ''Network converter reported an alarm.''
      ''Check network converter alarm details.'',
    codeInfo 0xF0 ''CPU error''
      ''CPU malfunction detected.''
      ''Power cycle. If persistent, service driver.'']"

definition kWarningCodes :: "ArKd2CodeInfo list" where
  "kWarningCodes = [
    codeInfo 0x10 ''Excessive position deviation''
      ''Deviation exceeded configured warning threshold.''
      ''Reduce load and adjust accel/decel/current settings.'',
    codeInfo 0x12 ''Excessive position deviation during current OFF''
      ''Deviation exceeded configured current-OFF threshold.''
      ''Reduce drift at current OFF or adjust threshold.'',
    codeInfo 0x21 ''Main circuit overheat''
      ''Driver temperature exceeded warning setting.''
      ''Improve ventilation/thermal conditions.'',
    codeInfo 0x22 ''Overvoltage''
      ''Power supply exceeded overvoltage warning level.''
      ''Check supply and reduce regen stress.'',
    codeInfo 0x25 ''Undervoltage''
      ''Power supply dropped below warning level.''
      ''Check supply sizing/stability.'',
    codeInfo 0x30 ''Overload''
      ''Load exceeded overload warning conditions.''
      ''Reduce load and adjust accel/decel/current.'',
    codeInfo 0x31 ''Overspeed''
      ''Speed exceeded overspeed warning setting.''
      ''Reduce commanded speed and tune profile.'',
    codeInfo 0x71 ''Electronic gear setting error''
      ''Electronic gear resolution is out of range.''
      ''Correct electronic gear settings.'',
    codeInfo 0x72 ''Wrap setting error''
      ''Wrap range and resolution settings are inconsistent.''
      ''Correct wrap/resolution settings.'',
    codeInfo 0x84 ''RS-485 communication error''
      ''RS-485 communication error detected.''
      ''Check bus wiring and communication parameters.'']"

definition kCommunicationErrorCodes :: "ArKd2CodeInfo list" where
  "kCommunicationErrorCodes = [
    codeInfo 0x84 ''RS-485 communication error''
      ''Transmission-level communication error (framing/BCC).''
      ''Check cable/wiring/termination and serial settings.'',
    codeInfo 0x88 ''Command not yet defined''
      ''Requested command is not supported/defined.''
      ''Validate function/register map and frame payload.'',
    codeInfo 0x89 ''Execution disabled (user I/F communication in progress)''
      ''Driver is busy with MEXE02/OPX-2A communication.''
      ''Retry after external tool communication completes.'',
    codeInfo 0x8A ''Execution disabled (non-volatile memory processing)''
      ''Driver is processing non-volatile memory or EEPROM alarm is active.''
      ''Wait for S-BSY clear; resolve EEPROM alarm if present.'',
    codeInfo 0x8C ''Outside setting range''
      ''Requested setting value is outside allowed range.''
      ''Validate and clamp setting data before write.'',
    codeInfo 0x8D ''Command execute disable''
      ''Command cannot be executed in current driver state.''
      ''Check driver state/interlocks and retry when valid.'']"

fun findIn :: "ArKd2CodeInfo list \<Rightarrow> u8 \<Rightarrow> ArKd2CodeInfo option" where
  "findIn [] code = None"
| "findIn (entry # entries) code = (if ci_code entry = code then Some entry else findIn entries code)"

definition arKd2FindAlarm :: "u8 \<Rightarrow> ArKd2CodeInfo option" where
  "arKd2FindAlarm code = findIn kAlarmCodes code"

definition arKd2FindWarning :: "u8 \<Rightarrow> ArKd2CodeInfo option" where
  "arKd2FindWarning code = findIn kWarningCodes code"

definition arKd2FindCommunicationError :: "u8 \<Rightarrow> ArKd2CodeInfo option" where
  "arKd2FindCommunicationError code = findIn kCommunicationErrorCodes code"

fun arKd2FindCode :: "ArKd2CodeDomain \<Rightarrow> u8 \<Rightarrow> ArKd2CodeInfo option" where
  "arKd2FindCode AlarmDomain code = arKd2FindAlarm code"
| "arKd2FindCode WarningDomain code = arKd2FindWarning code"
| "arKd2FindCode CommunicationErrorDomain code = arKd2FindCommunicationError code"

fun arKd2DomainName :: "ArKd2CodeDomain \<Rightarrow> string" where
  "arKd2DomainName AlarmDomain = ''alarm''"
| "arKd2DomainName WarningDomain = ''warning''"
| "arKd2DomainName CommunicationErrorDomain = ''communication error''"

end
