(* ===== verification/Motor.thy ===== *)
theory Motor
  imports Bus RegisterMap Diagnostics
begin

text \<open>
  One stepping motor and its driver on the Modbus bus (\<^verbatim>\<open>Server/src/Motor.cpp\<close>): register
  access, the driver input command word with its cache, the operation data, status decoding
  and the alarm reset.

  A member function is an action on the motor (its caches are \<^verbatim>\<open>mutable\<close>) and the bus with
  the world behind it; the operations of the bus are the parameter \<open>B\<close>. A driver may answer
  at two slave addresses: readings and drive parameters go to the device, commands and
  operation data to the command address, which may be shared by a group.
\<close>

section \<open>State\<close>

datatype MotorDiagnosticDomain = Alarm | Warning | CommunicationError

record MotorCodeDiagnostic =
  cd_domain :: MotorDiagnosticDomain
  cd_code :: u8
  cd_known :: bool
  cd_type :: string
  cd_cause :: string
  cd_remedialAction :: string

record MotorFlagStatus =
  fs_raw :: u16
  fs_activeFlags :: "string list"

record AssignedSignal =
  as_channel :: string
  as_function :: string
  as_functionCode :: u16
  as_active :: bool

record MotorDirectIoStatus =
  di_reg00D4 :: u16
  di_reg00D5 :: u16
  di_activeFlags :: "string list"
  di_outputAssignments :: "AssignedSignal list"
  di_inputAssignments :: "AssignedSignal list"

record MotorRemoteIoStatus =
  ri_reg007D :: u16
  ri_reg007F :: u16
  ri_activeFlags :: "string list"
  ri_outputAssignments :: "AssignedSignal list"
  ri_inputAssignments :: "AssignedSignal list"

record MotorMonitorSnapshot =
  ms_commandPosition :: i32
  ms_actualSpeed :: i32
  ms_actualPosition :: i32
  ms_reg00D4 :: u16
  ms_reg00D5 :: u16

datatype MotorOperationMode = Incremental | Absolute
datatype MotorOperationFunction = SingleMotion | LinkedMotion | LinkedMotion2 | Push

fun operationModeValue :: "MotorOperationMode \<Rightarrow> i32" where
  "operationModeValue Incremental = 0"
| "operationModeValue Absolute = 1"

fun operationFunctionValue :: "MotorOperationFunction \<Rightarrow> i32" where
  "operationFunctionValue SingleMotion = 0"
| "operationFunctionValue LinkedMotion = 1"
| "operationFunctionValue LinkedMotion2 = 2"
| "operationFunctionValue Push = 3"

record Motor =
  mo_id :: EMotor
  mo_slaveAddress :: int
  mo_commandSlaveAddress :: int
  mo_map :: MotorRegisterMap
  mo_forceFunction10 :: bool
  mo_driverInputCommandRawCache :: "u16 option"
  mo_selectedOperationIdCache :: "u8 option"
  mo_outputFunctionAssignments :: "u16 list option"
  mo_inputFunctionAssignments :: "u16 list option"
  mo_netOutputFunctionAssignments :: "u16 list option"
  mo_netInputFunctionAssignments :: "u16 list option"

definition makeMotor :: "EMotor \<Rightarrow> int \<Rightarrow> MotorRegisterMap \<Rightarrow> int \<Rightarrow> bool \<Rightarrow> Motor" where
  "makeMotor i slave rm commandSlave force10 =
     \<lparr>mo_id = i, mo_slaveAddress = slave,
      mo_commandSlaveAddress = (if 0 < commandSlave then commandSlave else slave),
      mo_map = rm, mo_forceFunction10 = force10, mo_driverInputCommandRawCache = None,
      mo_selectedOperationIdCache = None, mo_outputFunctionAssignments = None,
      mo_inputFunctionAssignments = None, mo_netOutputFunctionAssignments = None,
      mo_netInputFunctionAssignments = None\<rparr>"

type_synonym ('c, 'w, 'a) motorAct = "(Motor \<times> ('c \<times> 'w), 'a) act"

datatype SlaveTarget = Device | CommandTarget

definition targetSlave :: "SlaveTarget \<Rightarrow> Motor \<Rightarrow> int" where
  "targetSlave target m = (case target of CommandTarget \<Rightarrow> mo_commandSlaveAddress m | Device \<Rightarrow> mo_slaveAddress m)"

section \<open>Messages\<close>

fun hexNat :: "nat \<Rightarrow> string" where
  "hexNat n = (if n < 16 then [hexDigit n] else hexNat (n div 16) @ [hexDigit (n mod 16)])"

declare hexNat.simps [simp del]

text \<open>\<^verbatim>\<open>{:04X}\<close> of an \<^verbatim>\<open>int\<close>: the sign counts in the width.\<close>

definition hexInt4 :: "int \<Rightarrow> string" where
  "hexInt4 i = (let digits = hexNat (nat \<bar>i\<bar>); width = (if i < 0 then 3 else 4)
     in (if i < 0 then ''-'' else []) @ replicate (width - length digits) (CHR ''0'') @ digits)"

definition registerLabel :: "int \<Rightarrow> string" where
  "registerLabel upperAddr =
     (let upper = word_of_int upperAddr; lower = word_of_int (upperAddr + 1) in
      case (arKd2RegisterName upper, arKd2RegisterName lower) of
        (Some un, Some lown) \<Rightarrow> ''0x'' @ hex4 upper @ ''/0x'' @ hex4 lower @ '' ('' @ un @ '' / '' @ lown @ '')''
      | (Some un, None) \<Rightarrow> ''0x'' @ hex4 upper @ '' ('' @ un @ '')''
      | _ \<Rightarrow> ''0x'' @ hex4 upper)"

definition motorLabel :: "Motor \<Rightarrow> string" where
  "motorLabel m = ''Motor '' @ motorName (mo_id m) @ '' (slave '' @ dec (mo_slaveAddress m) @ '')''"

definition commandLabel :: "Motor \<Rightarrow> string" where
  "commandLabel m = ''Motor '' @ motorName (mo_id m) @ '' (command slave '' @ dec (mo_commandSlaveAddress m) @ '')''"

section \<open>The bus\<close>

definition busA :: "('c \<times> 'w \<Rightarrow> (ModbusError + 'a) \<times> ('c \<times> 'w)) \<Rightarrow> (string \<Rightarrow> string) \<Rightarrow> ('c, 'w, 'a) motorAct" where
  "busA f msg = (\<lambda>(m, b). case f b of
     (Inl e, b') \<Rightarrow> (Inl (msg (me_message e)), (m, b'))
   | (Inr x, b') \<Rightarrow> (Inr x, (m, b')))"

definition selectSlave :: "('c, 'w) BusOps \<Rightarrow> SlaveTarget \<Rightarrow> ('c, 'w, unit) motorAct" where
  "selectSlave B target = bindA (getA fst) (\<lambda>m.
     busA (bo_setSlave B (targetSlave target m))
       (\<lambda>e. ''Failed to select slave '' @ dec (targetSlave target m) @ '' for motor '' @ motorName (mo_id m) @ '': '' @ e))"

text \<open>A read of holding registers; a wrong number of registers is an error too.\<close>

definition readRegisters :: "('c, 'w) BusOps \<Rightarrow> int \<Rightarrow> int \<Rightarrow> (string \<Rightarrow> string) \<Rightarrow> ('c, 'w, u16 list) motorAct" where
  "readRegisters B addr n msg = bindA (busA (bo_readHolding B addr n) msg) (\<lambda>regs.
     if length regs = nat n then ret regs else throwA (msg ''Unexpected register count''))"

text \<open>Two words of a 32-bit register, upper word first.\<close>

definition word32 :: "u16 \<Rightarrow> u16 \<Rightarrow> u32" where
  "word32 hi lo = push_bit 16 (ucast hi) OR ucast lo"

definition upper16 :: "u32 \<Rightarrow> u16" where
  "upper16 w = ucast (drop_bit 16 w)"

definition lower16 :: "u32 \<Rightarrow> u16" where
  "lower16 w = ucast w"

definition readU32 :: "('c, 'w) BusOps \<Rightarrow> int \<Rightarrow> ('c, 'w, u32) motorAct" where
  "readU32 B upperAddr = thenA (selectSlave B Device) (bindA (getA fst) (\<lambda>m.
     bindA (readRegisters B upperAddr 2
       (\<lambda>reason. motorLabel m @ '' readU32('' @ registerLabel upperAddr @ '') failed: '' @ reason))
     (\<lambda>regs. ret (word32 (regs ! 0) (regs ! 1)))))"

definition readU16 :: "('c, 'w) BusOps \<Rightarrow> int \<Rightarrow> ('c, 'w, u16) motorAct" where
  "readU16 B addr = thenA (selectSlave B Device) (bindA (getA fst) (\<lambda>m.
     bindA (readRegisters B addr 1
       (\<lambda>reason. motorLabel m @ '' readU16(0x'' @ hexInt4 addr @ '') failed: '' @ reason))
     (\<lambda>regs. ret (regs ! 0))))"

definition writeU16 :: "('c, 'w) BusOps \<Rightarrow> int \<Rightarrow> u16 \<Rightarrow> ('c, 'w, unit) motorAct" where
  "writeU16 B addr value = thenA (selectSlave B CommandTarget) (bindA (getA fst) (\<lambda>m.
     busA (if mo_forceFunction10 m then bo_writeMultiple B addr [value] else bo_writeSingle B addr value)
       (\<lambda>e. commandLabel m @ '' writeU16(0x'' @ hexInt4 addr @ '', 0x'' @ hex4 value @ '') failed: '' @ e)))"

definition writeInt32To :: "('c, 'w) BusOps \<Rightarrow> int \<Rightarrow> i32 \<Rightarrow> SlaveTarget \<Rightarrow> ('c, 'w, unit) motorAct" where
  "writeInt32To B upperAddr value target = thenA (selectSlave B target) (bindA (getA fst) (\<lambda>m.
     busA (bo_writeMultiple B upperAddr [upper16 value, lower16 value])
       (\<lambda>e. ''Motor '' @ motorName (mo_id m) @ '' (slave '' @ dec (targetSlave target m) @ '') writeInt32(''
            @ registerLabel upperAddr @ '', '' @ dec (sint value) @ '') failed: '' @ e)))"

definition writeInt32 :: "('c, 'w) BusOps \<Rightarrow> int \<Rightarrow> i32 \<Rightarrow> ('c, 'w, unit) motorAct" where
  "writeInt32 B upperAddr value = writeInt32To B upperAddr value CommandTarget"

section \<open>Codes and their diagnosis\<close>

definition readAlarmCode :: "('c, 'w) BusOps \<Rightarrow> ('c, 'w, u8) motorAct" where
  "readAlarmCode B = bindA (getA fst) (\<lambda>m. bindA (readU32 B (rm_presentAlarm (mo_map m))) (\<lambda>v. ret (ucast v)))"

definition readWarningCode :: "('c, 'w) BusOps \<Rightarrow> ('c, 'w, u8) motorAct" where
  "readWarningCode B = bindA (getA fst) (\<lambda>m. bindA (readU32 B (rm_presentWarning (mo_map m))) (\<lambda>v. ret (ucast v)))"

definition readCommunicationErrorCode :: "('c, 'w) BusOps \<Rightarrow> ('c, 'w, u8) motorAct" where
  "readCommunicationErrorCode B = bindA (getA fst) (\<lambda>m.
     bindA (readU32 B (rm_communicationErrorCode (mo_map m))) (\<lambda>v. ret (ucast v)))"

definition asDiagnostic :: "MotorDiagnosticDomain \<Rightarrow> u8 \<Rightarrow> ArKd2CodeInfo option \<Rightarrow> MotorCodeDiagnostic" where
  "asDiagnostic domain code info = (case info of
     Some i \<Rightarrow> \<lparr>cd_domain = domain, cd_code = code, cd_known = True, cd_type = ci_type i,
       cd_cause = ci_cause i, cd_remedialAction = ci_remedialAction i\<rparr>
   | None \<Rightarrow> \<lparr>cd_domain = domain, cd_code = code, cd_known = False, cd_type = ''Unknown'',
       cd_cause = ''Code is not present in current AR-KD2 diagnostics table.'',
       cd_remedialAction = ''Check HM-60506E alarm/warning/error lists.''\<rparr>)"

definition diagnoseAlarm :: "u8 \<Rightarrow> MotorCodeDiagnostic" where
  "diagnoseAlarm code = asDiagnostic Alarm code (arKd2FindAlarm code)"

definition diagnoseWarning :: "u8 \<Rightarrow> MotorCodeDiagnostic" where
  "diagnoseWarning code = asDiagnostic Warning code (arKd2FindWarning code)"

definition diagnoseCommunicationError :: "u8 \<Rightarrow> MotorCodeDiagnostic" where
  "diagnoseCommunicationError code = asDiagnostic CommunicationError code (arKd2FindCommunicationError code)"

section \<open>The driver input command word\<close>

text \<open>The bit to which the driver has a function assigned, the first one.\<close>

fun firstIndex :: "'a \<Rightarrow> 'a list \<Rightarrow> nat option" where
  "firstIndex x [] = None"
| "firstIndex x (y # ys) = (if y = x then Some 0 else map_option Suc (firstIndex x ys))"

definition netInputBitForFunction :: "Motor \<Rightarrow> u16 \<Rightarrow> nat option" where
  "netInputBitForFunction m code = Option.bind (mo_netInputFunctionAssignments m) (firstIndex code)"

definition fallbackInputBitMaskForFunction :: "u16 \<Rightarrow> u16 option" where
  "fallbackInputBitMaskForFunction code =
     map_option inputMask (map_of [(kFunctionM0, M0), (kFunctionM1, M1), (kFunctionM2, M2),
       (kFunctionStart, Start), (kFunctionHome, Home), (kFunctionStop, Stop),
       (kFunctionMs0, Ms0), (kFunctionMs1, Ms1), (kFunctionMs2, Ms2),
       (kFunctionPlusJog, PlusJog), (kFunctionMinusJog, MinusJog), (kFunctionFwd, Fwd), (kFunctionRvs, Rvs)] code)"

text \<open>The mask of a function: its assigned bit, or else the bit of the factory setting.\<close>

definition functionMask :: "Motor \<Rightarrow> u16 \<Rightarrow> u16 option" where
  "functionMask m code = (case netInputBitForFunction m code of
     Some i \<Rightarrow> Some (bitMask i) | None \<Rightarrow> fallbackInputBitMaskForFunction code)"

fun flagFunction :: "MotorInputFlag \<Rightarrow> u16 option" where
  "flagFunction Start = Some kFunctionStart"
| "flagFunction Home = Some kFunctionHome"
| "flagFunction Stop = Some kFunctionStop"
| "flagFunction PlusJog = Some kFunctionPlusJog"
| "flagFunction MinusJog = Some kFunctionMinusJog"
| "flagFunction Fwd = Some kFunctionFwd"
| "flagFunction Rvs = Some kFunctionRvs"
| "flagFunction _ = None"

definition flagMask :: "Motor \<Rightarrow> MotorInputFlag \<Rightarrow> u16" where
  "flagMask m flag = (case Option.bind (flagFunction flag) (functionMask m) of
     Some k \<Rightarrow> k | None \<Rightarrow> inputMask flag)"

definition withBit :: "u16 \<Rightarrow> bool \<Rightarrow> u16 \<Rightarrow> u16" where
  "withBit k on raw = (if on then raw OR k else raw AND NOT k)"

text \<open>Operation numbers: six functions select the bits of the number.\<close>

definition operationFunctions :: "(nat \<times> u16) list" where
  "operationFunctions = [(0, kFunctionM0), (1, kFunctionM1), (2, kFunctionM2),
     (3, kFunctionMs0), (4, kFunctionMs1), (5, kFunctionMs2)]"

definition operationIdMask :: "Motor \<Rightarrow> u16" where
  "operationIdMask m = fold (\<lambda>(_, code) acc. case functionMask m code of
     Some k \<Rightarrow> acc OR k | None \<Rightarrow> acc) operationFunctions 0"

definition decodeOperationIdFromInputRawMapped :: "Motor \<Rightarrow> u16 \<Rightarrow> u8" where
  "decodeOperationIdFromInputRawMapped m raw = fold (\<lambda>(i, code) opId.
     case functionMask m code of
       Some k \<Rightarrow> if raw AND k \<noteq> 0 then opId OR push_bit i 1 else opId
     | None \<Rightarrow> opId) operationFunctions 0"

definition encodeOperationId :: "Motor \<Rightarrow> u8 \<Rightarrow> u16 \<Rightarrow> u16" where
  "encodeOperationId m opId raw = fold (\<lambda>(i, code) raw.
     if \<not> bit opId i then raw
     else case functionMask m code of Some k \<Rightarrow> raw OR k | None \<Rightarrow> raw)
     operationFunctions (raw AND NOT (operationIdMask m))"

definition decodeOperationIdFromInputRaw :: "u16 \<Rightarrow> u8" where
  "decodeOperationIdFromInputRaw raw = fold (\<lambda>(i, flag) opId.
     if raw AND inputMask flag \<noteq> 0 then opId OR push_bit i 1 else opId)
     [(0, M0), (1, M1), (2, M2), (3, Ms0), (4, Ms1), (5, Ms2)] 0"

text \<open>A raw value that was read or written becomes the cache.\<close>

definition cacheRaw :: "u16 \<Rightarrow> Motor \<times> 'b \<Rightarrow> Motor \<times> 'b" where
  "cacheRaw raw = (\<lambda>(m, b). (m\<lparr>mo_driverInputCommandRawCache := Some raw,
     mo_selectedOperationIdCache := Some (decodeOperationIdFromInputRawMapped m raw)\<rparr>, b))"

definition readDriverInputCommandRaw :: "('c, 'w) BusOps \<Rightarrow> ('c, 'w, u16) motorAct" where
  "readDriverInputCommandRaw B = bindA (getA fst) (\<lambda>m.
     bindA (readU16 B (rm_driverInputCommandLower (mo_map m))) (\<lambda>raw.
     thenA (modifyA (cacheRaw raw)) (ret raw)))"

definition readDriverOutputStatusRaw :: "('c, 'w) BusOps \<Rightarrow> ('c, 'w, u16) motorAct" where
  "readDriverOutputStatusRaw B = bindA (getA fst) (\<lambda>m. readU16 B (rm_driverOutputCommandLower (mo_map m)))"

definition writeDriverInputCommandRaw :: "('c, 'w) BusOps \<Rightarrow> u16 \<Rightarrow> ('c, 'w, unit) motorAct" where
  "writeDriverInputCommandRaw B raw = bindA (getA fst) (\<lambda>m.
     thenA (writeU16 B (rm_driverInputCommandLower (mo_map m)) raw) (modifyA (cacheRaw raw)))"

definition readDriverInputCommandRawCommandTarget :: "('c, 'w) BusOps \<Rightarrow> ('c, 'w, u16) motorAct" where
  "readDriverInputCommandRawCommandTarget B = thenA (selectSlave B CommandTarget) (bindA (getA fst) (\<lambda>m.
     bindA (readRegisters B (rm_driverInputCommandLower (mo_map m)) 1
       (\<lambda>reason. commandLabel m @ '' read command driver input raw failed: '' @ reason)) (\<lambda>regs.
     thenA (modifyA (cacheRaw (regs ! 0))) (ret (regs ! 0)))))"

text \<open>The cached command word, or else what the given reading finds.\<close>

definition cachedRaw :: "('c, 'w, u16) motorAct \<Rightarrow> ('c, 'w, u16) motorAct" where
  "cachedRaw readRaw = bindA (getA fst) (\<lambda>m. case mo_driverInputCommandRawCache m of
     Some raw \<Rightarrow> ret raw | None \<Rightarrow> readRaw)"

definition setDriverInputFlag :: "('c, 'w) BusOps \<Rightarrow> MotorInputFlag \<Rightarrow> bool \<Rightarrow> ('c, 'w, unit) motorAct" where
  "setDriverInputFlag B flag on = bindA (cachedRaw (readDriverInputCommandRawCommandTarget B)) (\<lambda>raw.
     bindA (getA fst) (\<lambda>m. writeDriverInputCommandRaw B (withBit (flagMask m flag) on raw)))"

definition isDriverOutputFlagSet :: "u16 \<Rightarrow> MotorOutputFlag \<Rightarrow> bool" where
  "isDriverOutputFlagSet raw flag = (raw AND outputMask flag \<noteq> 0)"

definition pulseDriverInputFlag :: "('c, 'w) BusOps \<Rightarrow> MotorInputFlag \<Rightarrow> int \<Rightarrow> ('c, 'w, unit) motorAct" where
  "pulseDriverInputFlag B flag hold = seqA [setDriverInputFlag B flag True,
     modifyA (\<lambda>(m, c, w). (m, c, bo_sleep B hold w)), setDriverInputFlag B flag False]"

definition pulseStart :: "('c, 'w) BusOps \<Rightarrow> ('c, 'w, unit) motorAct" where
  "pulseStart B = pulseDriverInputFlag B Start 30"

definition pulseStop :: "('c, 'w) BusOps \<Rightarrow> ('c, 'w, unit) motorAct" where
  "pulseStop B = pulseDriverInputFlag B Stop 30"

definition pulseHome :: "('c, 'w) BusOps \<Rightarrow> ('c, 'w, unit) motorAct" where
  "pulseHome B = pulseDriverInputFlag B Home 30"

definition setForward :: "('c, 'w) BusOps \<Rightarrow> bool \<Rightarrow> ('c, 'w, unit) motorAct" where
  "setForward B on = setDriverInputFlag B Fwd on"

definition setReverse :: "('c, 'w) BusOps \<Rightarrow> bool \<Rightarrow> ('c, 'w, unit) motorAct" where
  "setReverse B on = setDriverInputFlag B Rvs on"

definition setJogPlus :: "('c, 'w) BusOps \<Rightarrow> bool \<Rightarrow> ('c, 'w, unit) motorAct" where
  "setJogPlus B on = setDriverInputFlag B PlusJog on"

definition setJogMinus :: "('c, 'w) BusOps \<Rightarrow> bool \<Rightarrow> ('c, 'w, unit) motorAct" where
  "setJogMinus B on = setDriverInputFlag B MinusJog on"

definition setEnabled :: "('c, 'w) BusOps \<Rightarrow> bool \<Rightarrow> ('c, 'w, unit) motorAct" where
  "setEnabled B on = bindA (cachedRaw (readDriverInputCommandRaw B)) (\<lambda>raw. bindA (getA fst) (\<lambda>m.
     case netInputBitForFunction m kFunctionCOn of
       None \<Rightarrow> ret ()
     | Some i \<Rightarrow> writeDriverInputCommandRaw B (withBit (bitMask i) on raw)))"

definition invalidateDriverInputCommandCache :: "('c, 'w, unit) motorAct" where
  "invalidateDriverInputCommandCache = modifyA (\<lambda>(m, b). (m\<lparr>mo_driverInputCommandRawCache := None\<rparr>, b))"

section \<open>Operation data\<close>

definition readSelectedOperationId :: "('c, 'w) BusOps \<Rightarrow> ('c, 'w, u8) motorAct" where
  "readSelectedOperationId B = bindA (getA fst) (\<lambda>m. case mo_selectedOperationIdCache m of
     Some opId \<Rightarrow> ret opId
   | None \<Rightarrow> bindA (readDriverInputCommandRawCommandTarget B) (\<lambda>raw.
       ret (decodeOperationIdFromInputRawMapped m raw)))"

definition invalidOperation :: "u8 \<Rightarrow> string" where
  "invalidOperation opId = ''Invalid operation id '' @ dec (uint opId) @ '' (allowed 0..63)''"

definition setSelectedOperationId :: "('c, 'w) BusOps \<Rightarrow> u8 \<Rightarrow> ('c, 'w, unit) motorAct" where
  "setSelectedOperationId B opId =
     (if 63 < opId then throwA (invalidOperation opId)
      else bindA (cachedRaw (readDriverInputCommandRawCommandTarget B)) (\<lambda>raw.
        bindA (getA fst) (\<lambda>m. writeDriverInputCommandRaw B (encodeOperationId m opId raw))))"

text \<open>The address of an entry of the operation data, and a write to it.\<close>

definition operationAddr :: "int \<Rightarrow> u8 \<Rightarrow> exn + int" where
  "operationAddr base opId = (if 63 < opId then Inl (invalidOperation opId) else Inr (base + uint opId * 2))"

definition writeOperation :: "('c, 'w) BusOps \<Rightarrow> (MotorRegisterMap \<Rightarrow> int) \<Rightarrow> u8 \<Rightarrow> i32 \<Rightarrow> ('c, 'w, unit) motorAct" where
  "writeOperation B base opId value = bindA (getA fst) (\<lambda>m.
     case operationAddr (base (mo_map m)) opId of Inl e \<Rightarrow> throwA e | Inr addr \<Rightarrow> writeInt32 B addr value)"

definition setOperationMode :: "('c, 'w) BusOps \<Rightarrow> u8 \<Rightarrow> MotorOperationMode \<Rightarrow> ('c, 'w, unit) motorAct" where
  "setOperationMode B opId mode = writeOperation B rm_operationModeNo0 opId (operationModeValue mode)"

definition setOperationFunction :: "('c, 'w) BusOps \<Rightarrow> u8 \<Rightarrow> MotorOperationFunction \<Rightarrow> ('c, 'w, unit) motorAct" where
  "setOperationFunction B opId f = writeOperation B (\<lambda>rm. rm_operationModeNo0 rm + 0x80) opId (operationFunctionValue f)"

definition setOperationPosition :: "('c, 'w) BusOps \<Rightarrow> u8 \<Rightarrow> i32 \<Rightarrow> ('c, 'w, unit) motorAct" where
  "setOperationPosition B opId v = writeOperation B rm_positionNo0 opId v"

definition setOperationSpeed :: "('c, 'w) BusOps \<Rightarrow> u8 \<Rightarrow> i32 \<Rightarrow> ('c, 'w, unit) motorAct" where
  "setOperationSpeed B opId v = writeOperation B rm_speedNo0 opId v"

definition setOperationAcceleration :: "('c, 'w) BusOps \<Rightarrow> u8 \<Rightarrow> i32 \<Rightarrow> ('c, 'w, unit) motorAct" where
  "setOperationAcceleration B opId v = writeOperation B rm_accelerationNo0 opId v"

definition setOperationDeceleration :: "('c, 'w) BusOps \<Rightarrow> u8 \<Rightarrow> i32 \<Rightarrow> ('c, 'w, unit) motorAct" where
  "setOperationDeceleration B opId v = writeOperation B rm_decelerationNo0 opId v"

text \<open>Drive parameters, written to the device.\<close>

definition writeParameter :: "('c, 'w) BusOps \<Rightarrow> (MotorRegisterMap \<Rightarrow> int) \<Rightarrow> i32 \<Rightarrow> ('c, 'w, unit) motorAct" where
  "writeParameter B reg value = bindA (getA fst) (\<lambda>m. writeInt32To B (reg (mo_map m)) value Device)"

definition setRunCurrent :: "('c, 'w) BusOps \<Rightarrow> i32 \<Rightarrow> ('c, 'w, unit) motorAct" where
  "setRunCurrent B v = writeParameter B rm_runCurrent v"
definition setStopCurrent :: "('c, 'w) BusOps \<Rightarrow> i32 \<Rightarrow> ('c, 'w, unit) motorAct" where
  "setStopCurrent B v = writeParameter B rm_stopCurrent v"
definition setStopInputAction :: "('c, 'w) BusOps \<Rightarrow> i32 \<Rightarrow> ('c, 'w, unit) motorAct" where
  "setStopInputAction B v = writeParameter B rm_stopInputAction v"
definition setStartingSpeed :: "('c, 'w) BusOps \<Rightarrow> i32 \<Rightarrow> ('c, 'w, unit) motorAct" where
  "setStartingSpeed B v = writeParameter B rm_startingSpeed v"
definition setOverloadAlarm :: "('c, 'w) BusOps \<Rightarrow> i32 \<Rightarrow> ('c, 'w, unit) motorAct" where
  "setOverloadAlarm B v = writeParameter B rm_overloadAlarm v"
definition setExcessivePositionDeviationAlarm :: "('c, 'w) BusOps \<Rightarrow> i32 \<Rightarrow> ('c, 'w, unit) motorAct" where
  "setExcessivePositionDeviationAlarm B v = writeParameter B rm_excessivePositionDeviationAlarm v"
definition setOverloadWarning :: "('c, 'w) BusOps \<Rightarrow> i32 \<Rightarrow> ('c, 'w, unit) motorAct" where
  "setOverloadWarning B v = writeParameter B rm_overloadWarning v"
definition setExcessivePositionDeviationWarning :: "('c, 'w) BusOps \<Rightarrow> i32 \<Rightarrow> ('c, 'w, unit) motorAct" where
  "setExcessivePositionDeviationWarning B v = writeParameter B rm_excessivePositionDeviationWarning v"
definition setMotorRotationDirection :: "('c, 'w) BusOps \<Rightarrow> i32 \<Rightarrow> ('c, 'w, unit) motorAct" where
  "setMotorRotationDirection B v = writeParameter B rm_motorRotationDirection v"
definition executeConfiguration :: "('c, 'w) BusOps \<Rightarrow> ('c, 'w, unit) motorAct" where
  "executeConfiguration B = writeParameter B rm_configurationExecute 1"
definition setGroupId :: "('c, 'w) BusOps \<Rightarrow> i32 \<Rightarrow> ('c, 'w, unit) motorAct" where
  "setGroupId B v = writeParameter B rm_groupId v"

definition readGroupId :: "('c, 'w) BusOps \<Rightarrow> ('c, 'w, i32) motorAct" where
  "readGroupId B = bindA (getA fst) (\<lambda>m. readU32 B (rm_groupId (mo_map m)))"

definition configureConstantSpeedPair ::
  "('c, 'w) BusOps \<Rightarrow> i32 \<Rightarrow> i32 \<Rightarrow> i32 \<Rightarrow> i32 \<Rightarrow> ('c, 'w, unit) motorAct" where
  "configureConstantSpeedPair B speedOp0 speedOp1 acceleration deceleration = seqA
     [setOperationMode B 0 Incremental, setOperationMode B 1 Incremental,
      setOperationFunction B 0 SingleMotion, setOperationFunction B 1 SingleMotion,
      setOperationSpeed B 0 speedOp0, setOperationSpeed B 1 speedOp1,
      setOperationAcceleration B 0 acceleration, setOperationAcceleration B 1 acceleration,
      setOperationDeceleration B 0 deceleration, setOperationDeceleration B 1 deceleration,
      setSelectedOperationId B 0]"

definition updateConstantSpeedBuffered :: "('c, 'w) BusOps \<Rightarrow> i32 \<Rightarrow> ('c, 'w, unit) motorAct" where
  "updateConstantSpeedBuffered B speed = bindA (readSelectedOperationId B) (\<lambda>active.
     let following = (if active = 0 then 1 else 0)
     in thenA (setOperationSpeed B following speed) (setSelectedOperationId B following))"

definition resetAlarm :: "('c, 'w) BusOps \<Rightarrow> ('c, 'w, unit) motorAct" where
  "resetAlarm B = bindA (readAlarmCode B) (\<lambda>code.
     if code = 0 then ret ()
     else thenA (writeParameter B rm_alarmResetCommand 0) (writeParameter B rm_alarmResetCommand 1))"

end
