(* ===== verification/MotorStatus.thy ===== *)
theory MotorStatus
  imports Motor
begin

text \<open>
  What a motor reports (\<^verbatim>\<open>Server/src/Motor.cpp\<close>): the flags of its command and status words,
  its terminals with the functions assigned to them, the monitor block read in one request,
  and the initialisation that reads the assignments.
\<close>

section \<open>Flags\<close>

definition decodeDriverInputStatus :: "u16 \<Rightarrow> MotorFlagStatus" where
  "decodeDriverInputStatus raw = \<lparr>fs_raw = raw,
     fs_activeFlags = map snd (filter (\<lambda>(flag, _). raw AND inputMask flag \<noteq> 0) kInputFlags)\<rparr>"

definition decodeDriverOutputStatus :: "u16 \<Rightarrow> MotorFlagStatus" where
  "decodeDriverOutputStatus raw = \<lparr>fs_raw = raw,
     fs_activeFlags = map snd (filter (\<lambda>(flag, _). isDriverOutputFlagSet raw flag) kOutputFlags)\<rparr>"

definition readDirectIoAndBrakeStatusRaw :: "('c, 'w) BusOps \<Rightarrow> ('c, 'w, u32) motorAct" where
  "readDirectIoAndBrakeStatusRaw B = bindA (getA fst) (\<lambda>m. readU32 B (rm_directIoAndBrakeStatus (mo_map m)))"

section \<open>Terminals\<close>

text \<open>A terminal and, when it is active, its entry in the list of active flags.\<close>

definition signal :: "string \<Rightarrow> string \<Rightarrow> u16 \<Rightarrow> bool \<Rightarrow> AssignedSignal" where
  "signal channel func code active =
     \<lparr>as_channel = channel, as_function = func, as_functionCode = code, as_active = active\<rparr>"

definition signalFlag :: "AssignedSignal \<Rightarrow> string" where
  "signalFlag s = as_channel s @ ''('' @ as_function s @ '')''"

definition outputLine :: "u16 list option \<Rightarrow> u16 \<Rightarrow> nat \<Rightarrow> AssignedSignal" where
  "outputLine assignments reg i =
     (let channel = ''OUT'' @ decNat i; code = (case assignments of Some cs \<Rightarrow> cs ! i | None \<Rightarrow> 0)
      in signal channel (if assignments \<noteq> None then outputFunctionName code else channel) code
           (reg AND bitMask i \<noteq> 0))"

definition inputLine :: "u16 list option \<Rightarrow> u16 \<Rightarrow> nat \<Rightarrow> AssignedSignal" where
  "inputLine assignments reg i =
     (let channel = ''IN'' @ decNat i; code = (case assignments of Some cs \<Rightarrow> cs ! i | None \<Rightarrow> 0)
      in signal channel (if assignments \<noteq> None then inputFunctionName code else channel) code
           (reg AND bitMask ([6, 7, 8, 9, 10, 11, 12, 13] ! i) \<noteq> 0))"

definition fixedLine :: "string \<Rightarrow> u16 \<Rightarrow> nat \<Rightarrow> AssignedSignal" where
  "fixedLine name reg i = signal name name 0 (reg AND bitMask i \<noteq> 0)"

definition activeNames :: "(AssignedSignal \<Rightarrow> string) \<Rightarrow> AssignedSignal list \<Rightarrow> string list" where
  "activeNames name ss = map name (filter as_active ss)"

definition decodeDirectIoAndBrakeStatus :: "Motor \<Rightarrow> u32 \<Rightarrow> MotorDirectIoStatus" where
  "decodeDirectIoAndBrakeStatus m raw =
     (let d4 = upper16 raw; d5 = lower16 raw;
          outs = map (outputLine (mo_outputFunctionAssignments m) d4) [0 ..< 6];
          mb = fixedLine ''MB'' d4 8;
          ins = map (inputLine (mo_inputFunctionAssignments m) d5) [0 ..< 8];
          fixed = [fixedLine ''+LS'' d5 0, fixedLine ''-LS'' d5 1, fixedLine ''HOMES'' d5 2, fixedLine ''SLIT'' d5 3]
      in \<lparr>di_reg00D4 = d4, di_reg00D5 = d5,
          di_activeFlags = activeNames signalFlag outs @ activeNames as_channel [mb]
            @ activeNames signalFlag ins @ activeNames as_channel fixed,
          di_outputAssignments = outs @ [mb], di_inputAssignments = ins @ fixed\<rparr>)"

definition netInputLine :: "u16 list option \<Rightarrow> u16 \<Rightarrow> nat \<Rightarrow> AssignedSignal" where
  "netInputLine assignments reg i =
     (let code = (case assignments of Some cs \<Rightarrow> cs ! i | None \<Rightarrow> kDefaultNetInputFunctionCodes ! i)
      in signal (''NET-IN'' @ decNat i)
           (if assignments = None \<and> i = 7 then ''not used'' else inputFunctionName code) code
           (reg AND bitMask i \<noteq> 0))"

definition netOutputLine :: "u16 list option \<Rightarrow> u16 \<Rightarrow> nat \<Rightarrow> AssignedSignal" where
  "netOutputLine assignments reg i =
     (let code = (case assignments of Some cs \<Rightarrow> cs ! i | None \<Rightarrow> kDefaultNetOutputFunctionCodes ! i)
      in signal (''NET-OUT'' @ decNat i) (outputFunctionName code) code (reg AND bitMask i \<noteq> 0))"

definition decodeRemoteIoStatus :: "Motor \<Rightarrow> u16 \<Rightarrow> u16 \<Rightarrow> MotorRemoteIoStatus" where
  "decodeRemoteIoStatus m reg007D reg007F =
     (let ins = map (netInputLine (mo_netInputFunctionAssignments m) reg007D) [0 ..< 16];
          outs = map (netOutputLine (mo_netOutputFunctionAssignments m) reg007F) [0 ..< 16]
      in \<lparr>ri_reg007D = reg007D, ri_reg007F = reg007F,
          ri_activeFlags = concat (map (\<lambda>(i, out). activeNames signalFlag [i, out]) (zip ins outs)),
          ri_outputAssignments = outs, ri_inputAssignments = ins\<rparr>)"

section \<open>The monitor block\<close>

definition monitorIndexError :: "Motor \<Rightarrow> int \<Rightarrow> string" where
  "monitorIndexError m addr = motorLabel m @ '' monitor snapshot index out of range for 0x'' @ hexInt4 addr"

text \<open>A 32-bit value of the block; \<open>addr - base\<close> must lie inside it.\<close>

definition readI32At :: "Motor \<Rightarrow> int \<Rightarrow> u16 list \<Rightarrow> int \<Rightarrow> exn + i32" where
  "readI32At m base regs addr =
     (let i = addr - base
      in if i < 0 \<or> int (length regs) \<le> i + 1 then Inl (monitorIndexError m addr)
         else Inr (word32 (regs ! nat i) (regs ! nat (i + 1))))"

definition readMonitorSnapshot :: "('c, 'w) BusOps \<Rightarrow> ('c, 'w, MotorMonitorSnapshot) motorAct" where
  "readMonitorSnapshot B = bindA (getA fst) (\<lambda>m.
     let base = rm_commandPosition (mo_map m); d4 = rm_directIoAndBrakeStatus (mo_map m);
         lastAddr = d4 + 1; wordCount = lastAddr - base + 1
     in if wordCount \<le> 0
        then throwA (motorLabel m @ '' invalid monitor snapshot range: 0x'' @ hexInt4 base @ ''-0x'' @ hexInt4 lastAddr)
        else thenA (selectSlave B Device) (bindA (readRegisters B base wordCount
            (\<lambda>reason. motorLabel m @ '' read monitor snapshot 0x'' @ hexInt4 base @ ''-0x'' @ hexInt4 lastAddr
               @ '' failed: '' @ reason)) (\<lambda>regs.
          bindA (liftE (readI32At m base regs base)) (\<lambda>position.
          bindA (liftE (readI32At m base regs (rm_actualSpeed (mo_map m)))) (\<lambda>speed.
          bindA (liftE (readI32At m base regs (rm_actualPosition (mo_map m)))) (\<lambda>actual.
          ret \<lparr>ms_commandPosition = position, ms_actualSpeed = speed, ms_actualPosition = actual,
               ms_reg00D4 = regs ! nat (d4 - base), ms_reg00D5 = regs ! nat (d4 - base + 1)\<rparr>))))))"

section \<open>Function assignments\<close>

text \<open>The lower words of consecutive 32-bit registers.\<close>

definition lowerWords :: "nat \<Rightarrow> u16 list \<Rightarrow> u16 list" where
  "lowerWords n regs = map (\<lambda>i. regs ! (2 * i + 1)) [0 ..< n]"

definition readOutputFunctionAssignments :: "('c, 'w) BusOps \<Rightarrow> ('c, 'w, u16 list) motorAct" where
  "readOutputFunctionAssignments B = thenA (selectSlave B Device) (bindA (getA fst) (\<lambda>m.
     bindA (readRegisters B (rm_outputFunctionSelectBase (mo_map m)) 12
       (\<lambda>reason. motorLabel m @ '' read output function assignment failed: '' @ reason))
     (\<lambda>regs. ret (lowerWords 6 regs @ replicate 10 0))))"

definition readInputFunctionAssignments :: "('c, 'w) BusOps \<Rightarrow> ('c, 'w, u16 list) motorAct" where
  "readInputFunctionAssignments B = thenA (selectSlave B Device) (bindA (getA fst) (\<lambda>m.
     bindA (readRegisters B (rm_inputFunctionSelectBase (mo_map m)) 16
       (\<lambda>reason. motorLabel m @ '' read input function assignment failed: '' @ reason))
     (\<lambda>regs. ret (lowerWords 8 regs @ replicate 4 0))))"

text \<open>Sixteen remote terminals, read in two requests.\<close>

definition readNetAssignments ::
  "('c, 'w) BusOps \<Rightarrow> string \<Rightarrow> (MotorRegisterMap \<Rightarrow> int) \<Rightarrow> ('c, 'w, u16 list) motorAct" where
  "readNetAssignments B what base = thenA (selectSlave B Device) (bindA (getA fst) (\<lambda>m.
     let msg = (\<lambda>reason. motorLabel m @ '' read '' @ what @ '' function assignment failed: '' @ reason)
     in bindA (readRegisters B (base (mo_map m)) 16 msg) (\<lambda>first.
        bindA (readRegisters B (base (mo_map m) + 16) 16 msg) (\<lambda>second.
        ret (lowerWords 16 (first @ second))))))"

definition readNetOutputFunctionAssignments :: "('c, 'w) BusOps \<Rightarrow> ('c, 'w, u16 list) motorAct" where
  "readNetOutputFunctionAssignments B = readNetAssignments B ''NET-OUT'' rm_netOutputFunctionSelectBase"

definition readNetInputFunctionAssignments :: "('c, 'w) BusOps \<Rightarrow> ('c, 'w, u16 list) motorAct" where
  "readNetInputFunctionAssignments B = readNetAssignments B ''NET-IN'' rm_netInputFunctionSelectBase"

section \<open>Initialisation\<close>

definition forgetCaches :: "Motor \<Rightarrow> Motor" where
  "forgetCaches m = m\<lparr>mo_driverInputCommandRawCache := None, mo_selectedOperationIdCache := None,
     mo_outputFunctionAssignments := None, mo_inputFunctionAssignments := None,
     mo_netOutputFunctionAssignments := None, mo_netInputFunctionAssignments := None\<rparr>"

definition motorUpdateA :: "('a \<Rightarrow> Motor \<Rightarrow> Motor) \<Rightarrow> ('c, 'w, 'a) motorAct \<Rightarrow> ('c, 'w, unit) motorAct" where
  "motorUpdateA f m = bindA m (\<lambda>x. modifyA (\<lambda>(mo, b). (f x mo, b)))"

definition presentAlarmTest :: "('c, 'w) BusOps \<Rightarrow> ('c, 'w, unit) motorAct" where
  "presentAlarmTest B = bindA (getA fst) (\<lambda>m. ignoreA (busA (bo_readHolding B (rm_presentAlarm (mo_map m)) 2)
     (\<lambda>e. motorLabel m @ '' RTU test failed while reading presentAlarm ''
        @ registerLabel (rm_presentAlarm (mo_map m)) @ '': '' @ e)))"

definition motorInitialize :: "('c, 'w) BusOps \<Rightarrow> ('c, 'w, unit) motorAct" where
  "motorInitialize B = seqA
     [modifyA (\<lambda>(m, b). (forgetCaches m, b)),
      selectSlave B Device,
      presentAlarmTest B,
      ignoreA (readAlarmCode B),
      ignoreA (readWarningCode B),
      ignoreA (readCommunicationErrorCode B),
      ignoreA (readDriverInputCommandRaw B),
      ignoreA (readDriverOutputStatusRaw B),
      motorUpdateA (\<lambda>x m. m\<lparr>mo_outputFunctionAssignments := Some x\<rparr>) (readOutputFunctionAssignments B),
      motorUpdateA (\<lambda>x m. m\<lparr>mo_inputFunctionAssignments := Some x\<rparr>) (readInputFunctionAssignments B),
      motorUpdateA (\<lambda>x m. m\<lparr>mo_netOutputFunctionAssignments := Some x\<rparr>) (readNetOutputFunctionAssignments B),
      motorUpdateA (\<lambda>x m. m\<lparr>mo_netInputFunctionAssignments := Some x\<rparr>) (readNetInputFunctionAssignments B),
      ignoreA (readDirectIoAndBrakeStatusRaw B),
      ignoreA (readDriverInputCommandRaw B),
      ignoreA (readDriverOutputStatusRaw B)]"

end
