(* ===== verification/MotorControl.thy ===== *)
theory MotorControl
  imports MotorStatus
begin

text \<open>
  The motor control component (\<^verbatim>\<open>Server/src/MotorControl.cpp\<close>): the bus, the configured motors
  with their runtime state, and the operations the controller calls.

  An operation is an action on the component and the world. \<open>mc_bus\<close> is the optional client;
  destroying it is \<open>bo_destroy\<close>. The mutex is not modelled: an action is one critical section.
\<close>

section \<open>State\<close>

datatype TransportType = SerialRtu | RawTcpRtu

record MotorRtuConfig =
  rtu_device :: string
  rtu_baud :: int
  rtu_parity :: char
  rtu_dataBits :: int
  rtu_stopBits :: int
  rtu_connectTimeoutMS :: int
  rtu_responseTimeoutMS :: int
  rtu_interRequestDelayMS :: int

record MotorConfig =
  mcf_address :: int
  mcf_commandAddress :: "int option"
  mcf_groupId :: "i32 option"
  mcf_forceFunction10 :: "bool option"
  mcf_runCurrent :: i32
  mcf_stopCurrent :: i32
  mcf_startingSpeed :: "i32 option"
  mcf_overloadWarning :: "i32 option"
  mcf_overloadAlarm :: "i32 option"
  mcf_excessivePositionDeviationWarning :: "i32 option"
  mcf_excessivePositionDeviationAlarm :: "i32 option"
  mcf_motorRotationDirection :: "i32 option"

record MotorRuntimeState =
  rt_mode :: MotorControlMode
  rt_direction :: MotorControlDirection
  rt_speed :: i32
  rt_position :: i32
  rt_acceleration :: i32
  rt_deceleration :: i32
  rt_speedPairPrepared :: bool
  rt_positionPrepared :: bool
  rt_enabled :: bool
  rt_enableControllable :: bool
  rt_wasInAlarm :: bool

definition defaultRuntime :: MotorRuntimeState where
  "defaultRuntime = \<lparr>rt_mode = Speed, rt_direction = Forward, rt_speed = 1000, rt_position = 0,
     rt_acceleration = 0x5fff, rt_deceleration = 0x5fff, rt_speedPairPrepared = False,
     rt_positionPrepared = False, rt_enabled = True, rt_enableControllable = False, rt_wasInAlarm = False\<rparr>"

record 'c MotorControl =
  mc_transportType :: TransportType
  mc_rtuConfig :: MotorRtuConfig
  mc_host :: string
  mc_port :: int
  mc_registerMap :: MotorRegisterMap
  mc_motorConfigs :: "EMotor \<Rightarrow> MotorConfig option"
  mc_motors :: "EMotor \<Rightarrow> Motor option"
  mc_runtime :: "EMotor \<Rightarrow> MotorRuntimeState option"
  mc_bus :: "'c option"
  mc_state :: ComponentState

type_synonym ('c, 'w, 'a) mcAct = "('c MotorControl \<times> 'w, 'a) act"

definition configuredMotorIds :: "'c MotorControl \<Rightarrow> EMotor list" where
  "configuredMotorIds mc = mapKeys allMotors (mc_motorConfigs mc)"

section \<open>Access to a motor\<close>

definition requireMotor :: "EMotor \<Rightarrow> ('c, 'w, Motor) mcAct" where
  "requireMotor i = bindA (getA fst) (\<lambda>mc. case mc_motors mc i of
     None \<Rightarrow> throwA (''Motor '' @ motorName i @ '' is not configured in MotorControl'') | Some m \<Rightarrow> ret m)"

definition requireRuntime :: "EMotor \<Rightarrow> ('c, 'w, MotorRuntimeState) mcAct" where
  "requireRuntime i = bindA (getA fst) (\<lambda>mc. case mc_runtime mc i of
     None \<Rightarrow> throwA (''Runtime state for motor '' @ motorName i @ '' is not available'') | Some rt \<Rightarrow> ret rt)"

definition noBus :: exn where
  "noBus = ''MotorControl bus is not initialized''"

definition requireBus :: "('c, 'w, unit) mcAct" where
  "requireBus = bindA (getA fst) (\<lambda>mc. case mc_bus mc of None \<Rightarrow> throwA noBus | Some _ \<Rightarrow> ret ())"

definition updRuntime :: "EMotor \<Rightarrow> (MotorRuntimeState \<Rightarrow> MotorRuntimeState) \<Rightarrow> ('c, 'w, unit) mcAct" where
  "updRuntime i f = modifyA (\<lambda>(mc, w). (mc\<lparr>mc_runtime := (mc_runtime mc)(i := map_option f (mc_runtime mc i))\<rparr>, w))"

text \<open>A call of a motor's member function with the bus.\<close>

definition onMotor :: "EMotor \<Rightarrow> ('c, 'w, 'a) motorAct \<Rightarrow> ('c, 'w, 'a) mcAct" where
  "onMotor i act = (\<lambda>(mc, w). case (mc_motors mc i, mc_bus mc) of
     (Some m, Some c) \<Rightarrow> (case act (m, (c, w)) of (r, (m', (c', w'))) \<Rightarrow>
        (r, (mc\<lparr>mc_motors := (mc_motors mc)(i \<mapsto> m'), mc_bus := Some c'\<rparr>, w')))
   | _ \<Rightarrow> (Inl noBus, (mc, w)))"

text \<open>Calls that touch only the bus, and the end of its life.\<close>

definition onBus :: "('c \<times> 'w \<Rightarrow> 'a \<times> ('c \<times> 'w)) \<Rightarrow> ('c, 'w, 'a option) mcAct" where
  "onBus f = (\<lambda>(mc, w). case mc_bus mc of
     None \<Rightarrow> (Inr None, (mc, w))
   | Some c \<Rightarrow> (case f (c, w) of (x, (c', w')) \<Rightarrow> (Inr (Some x), (mc\<lparr>mc_bus := Some c'\<rparr>, w'))))"

definition closeBus :: "('c, 'w) BusOps \<Rightarrow> ('c, 'w, unit) mcAct" where
  "closeBus B = ignoreA (onBus (\<lambda>b. ((), bo_close B b)))"

definition resetBus :: "('c, 'w) BusOps \<Rightarrow> ('c, 'w, unit) mcAct" where
  "resetBus B = modifyA (\<lambda>(mc, w). case mc_bus mc of None \<Rightarrow> (mc, w)
     | Some c \<Rightarrow> (mc\<lparr>mc_bus := None\<rparr>, bo_destroy B (c, w)))"

definition setStateA :: "ComponentState \<Rightarrow> ('c, 'w, unit) mcAct" where
  "setStateA st = modifyA (\<lambda>(mc, w). (mc\<lparr>mc_state := st\<rparr>, w))"

definition isTemporaryCommunicationFailure :: "string \<Rightarrow> bool" where
  "isTemporaryCommunicationFailure msg = sublist ''Resource temporarily unavailable'' msg"

definition handleCommunicationFailure :: "('c, 'w) BusOps \<Rightarrow> exn \<Rightarrow> ('c, 'w, unit) mcAct" where
  "handleCommunicationFailure B e =
     (if \<not> isTemporaryCommunicationFailure e then ret ()
      else seqA [closeBus B, resetBus B, setStateA ComponentState.Error])"

text \<open>\<^verbatim>\<open>try { ... } catch (ex) { handleCommunicationFailure(action, ex); throw; }\<close>\<close>

definition guarded :: "('c, 'w) BusOps \<Rightarrow> ('c, 'w, 'a) mcAct \<Rightarrow> ('c, 'w, 'a) mcAct" where
  "guarded B act = catchA act (\<lambda>e. thenA (handleCommunicationFailure B e) (throwA e))"

definition motorCall :: "EMotor \<Rightarrow> ('c, 'w, 'a) motorAct \<Rightarrow> ('c, 'w, 'a) mcAct" where
  "motorCall i act = bindA (requireMotor i) (\<lambda>_. thenA requireBus (onMotor i act))"

definition guardedCall :: "('c, 'w) BusOps \<Rightarrow> EMotor \<Rightarrow> ('c, 'w, 'a) motorAct \<Rightarrow> ('c, 'w, 'a) mcAct" where
  "guardedCall B i act = bindA (requireMotor i) (\<lambda>_. guarded B (thenA requireBus (onMotor i act)))"

section \<open>Initialisation\<close>

definition whenSome :: "'a option \<Rightarrow> ('a \<Rightarrow> ('s, unit) act) \<Rightarrow> ('s, unit) act" where
  "whenSome x f = (case x of None \<Rightarrow> ret () | Some v \<Rightarrow> f v)"

definition applyConfiguredParameters :: "('c, 'w) BusOps \<Rightarrow> MotorConfig \<Rightarrow> ('c, 'w, unit) motorAct" where
  "applyConfiguredParameters B cfg = seqA
     [whenSome (mcf_groupId cfg) (setGroupId B),
      setStopInputAction B 3,
      setRunCurrent B (mcf_runCurrent cfg),
      setStopCurrent B (mcf_stopCurrent cfg),
      whenSome (mcf_startingSpeed cfg) (setStartingSpeed B),
      whenSome (mcf_overloadWarning cfg) (setOverloadWarning B),
      whenSome (mcf_overloadAlarm cfg) (setOverloadAlarm B),
      whenSome (mcf_excessivePositionDeviationWarning cfg) (setExcessivePositionDeviationWarning B),
      whenSome (mcf_excessivePositionDeviationAlarm cfg) (setExcessivePositionDeviationAlarm B),
      whenSome (mcf_motorRotationDirection cfg)
        (\<lambda>v. thenA (setMotorRotationDirection B v) (executeConfiguration B))]"

text \<open>A step of the bus setup: on failure the client is dropped, closed first where the code does.\<close>

definition busSetup :: "('c, 'w) BusOps \<Rightarrow> ('c \<times> 'w \<Rightarrow> (ModbusError + unit) \<times> ('c \<times> 'w)) \<Rightarrow> bool
    \<Rightarrow> (string \<Rightarrow> string) \<Rightarrow> ('c, 'w, unit) mcAct" where
  "busSetup B f closing msg = bindA (onBus f) (\<lambda>r. case r of
     Some (Inl e) \<Rightarrow> seqA [whenA closing (closeBus B), resetBus B, throwA (msg (me_message e))]
   | _ \<Rightarrow> ret ())"

definition createBus :: "('c, 'w) BusOps \<Rightarrow> ('c, 'w, unit) mcAct" where
  "createBus B = (\<lambda>(mc, w).
     let rtu = mc_rtuConfig mc;
         (r, w1) = (case mc_transportType mc of
            SerialRtu \<Rightarrow> bo_rtu B (rtu_device rtu) (rtu_baud rtu) (rtu_parity rtu) (rtu_dataBits rtu) (rtu_stopBits rtu) 1 w
          | RawTcpRtu \<Rightarrow> (bo_rtuOverTcp B (mc_host mc) (mc_port mc) 1, w))
     in case r of
          Inl e \<Rightarrow> (Inl (''Failed to create motor bus client: '' @ me_message e), (mc, w1))
        | Inr c \<Rightarrow> (case snd (resetBus B (mc, w1)) of (mc', w2) \<Rightarrow> (Inr (), (mc'\<lparr>mc_bus := Some c\<rparr>, w2))))"

definition busEndpoint :: "'c MotorControl \<Rightarrow> string" where
  "busEndpoint mc = (case mc_transportType mc of SerialRtu \<Rightarrow> rtu_device (mc_rtuConfig mc)
     | RawTcpRtu \<Rightarrow> mc_host mc @ '':'' @ dec (mc_port mc))"

definition openBus :: "('c, 'w) BusOps \<Rightarrow> ('c, 'w, unit) mcAct" where
  "openBus B = thenA (createBus B) (bindA (getA fst) (\<lambda>mc. seqA
     [busSetup B (bo_setConnectTimeout B (rtu_connectTimeoutMS (mc_rtuConfig mc))) False
        (\<lambda>e. ''Failed to set motor bus connect timeout: '' @ e),
      busSetup B (bo_connect B) False
        (\<lambda>e. ''Failed to connect motor bus on '' @ [CHR 0x27] @ busEndpoint mc @ [CHR 0x27] @ '': '' @ e),
      busSetup B (bo_setResponseTimeout B (rtu_responseTimeoutMS (mc_rtuConfig mc))) True
        (\<lambda>e. ''Failed to set RTU bus timeout: '' @ e),
      busSetup B (bo_setInterRequestDelay B (rtu_interRequestDelayMS (mc_rtuConfig mc))) True
        (\<lambda>e. ''Failed to set inter-request delay: '' @ e)]))"

text \<open>Whether C-ON has a remote terminal, and the initial enabled state.\<close>

definition startupEnable :: "Motor \<Rightarrow> u16 \<Rightarrow> u16 \<Rightarrow> MotorRuntimeState \<Rightarrow> MotorRuntimeState" where
  "startupEnable m inputRaw outputRaw rt =
     (let cOn = find (\<lambda>a. as_functionCode a = 17) (ri_inputAssignments (decodeRemoteIoStatus m inputRaw outputRaw))
      in rt\<lparr>rt_enableControllable := cOn \<noteq> None,
            rt_enabled := \<not> isDriverOutputFlagSet outputRaw MotorOutputFlag.Alarm
              \<and> (case cOn of None \<Rightarrow> True | Some a \<Rightarrow> as_active a)\<rparr>)"

definition addMotor :: "EMotor \<Rightarrow> MotorConfig \<Rightarrow> ('c, 'w, unit) mcAct" where
  "addMotor i cfg = modifyA (\<lambda>(mc, w). (mc\<lparr>
     mc_motors := (mc_motors mc)(i \<mapsto> makeMotor i (mcf_address cfg) (mc_registerMap mc)
        (case mcf_commandAddress cfg of Some a \<Rightarrow> a | None \<Rightarrow> mcf_address cfg)
        (case mcf_forceFunction10 cfg of Some f \<Rightarrow> f | None \<Rightarrow> False)),
     mc_runtime := (mc_runtime mc)(i \<mapsto> defaultRuntime)\<rparr>, w))"

definition startMotor :: "('c, 'w) BusOps \<Rightarrow> EMotor \<Rightarrow> MotorConfig \<Rightarrow> ('c, 'w, unit) mcAct" where
  "startMotor B i cfg = seqA
     [addMotor i cfg,
      onMotor i (motorInitialize B),
      onMotor i (applyConfiguredParameters B cfg),
      bindA (onMotor i (readDriverInputCommandRaw B)) (\<lambda>inputRaw.
      bindA (onMotor i (readDriverOutputStatusRaw B)) (\<lambda>outputRaw.
      bindA (requireMotor i) (\<lambda>m. updRuntime i (startupEnable m inputRaw outputRaw))))]"

definition clearMotors :: "('c, 'w, unit) mcAct" where
  "clearMotors = modifyA (\<lambda>(mc, w). (mc\<lparr>mc_motors := Map.empty, mc_runtime := Map.empty\<rparr>, w))"

definition mcInitialize :: "('c, 'w) BusOps \<Rightarrow> ('c, 'w, unit) mcAct" where
  "mcInitialize B = thenA clearMotors (catchA
     (thenA (openBus B) (bindA (getA fst) (\<lambda>mc.
        thenA (forA (configuredMotorIds mc) (\<lambda>i. startMotor B i (the (mc_motorConfigs mc i))))
              (setStateA ComponentState.Normal))))
     (\<lambda>e. seqA [closeBus B, resetBus B, clearMotors, setStateA ComponentState.Error, throwA e]))"

definition mcReset :: "('c, 'w) BusOps \<Rightarrow> ('c, 'w, unit) mcAct" where
  "mcReset B = seqA [closeBus B, resetBus B, clearMotors, setStateA ComponentState.Error]"

end
