(* ===== verification/MotorOps.thy ===== *)
theory MotorOps
  imports MotorControl
begin

text \<open>
  The operations of the motor control component (\<^verbatim>\<open>Server/src/MotorControl.cpp\<close>, from
  \<open>setMode\<close> on): motion, direct commands, enabling, readings with the reaction to a broken bus,
  and diagnosis. The prefix \<open>mc\<close> tells them from the motor's member functions.
\<close>

section \<open>Motion\<close>

definition preparePair :: "('c, 'w) BusOps \<Rightarrow> EMotor \<Rightarrow> ('c, 'w, unit) mcAct" where
  "preparePair B i = bindA (requireRuntime i) (\<lambda>rt. seqA
     [onMotor i (configureConstantSpeedPair B (rt_speed rt) (rt_speed rt) (rt_acceleration rt) (rt_deceleration rt)),
      updRuntime i (\<lambda>rt. rt\<lparr>rt_speedPairPrepared := True\<rparr>)])"

definition preparePosition :: "('c, 'w) BusOps \<Rightarrow> EMotor \<Rightarrow> ('c, 'w, unit) mcAct" where
  "preparePosition B i = bindA (requireRuntime i) (\<lambda>rt. if rt_positionPrepared rt then ret () else seqA
     [onMotor i (setOperationMode B 2 Incremental),
      onMotor i (setOperationFunction B 2 SingleMotion),
      onMotor i (setOperationSpeed B 2 (rt_speed rt)),
      onMotor i (setOperationAcceleration B 2 (rt_acceleration rt)),
      onMotor i (setOperationDeceleration B 2 (rt_deceleration rt)),
      updRuntime i (\<lambda>rt. rt\<lparr>rt_positionPrepared := True\<rparr>)])"

definition mcSetMode :: "('c, 'w) BusOps \<Rightarrow> EMotor \<Rightarrow> MotorControlMode \<Rightarrow> ('c, 'w, unit) mcAct" where
  "mcSetMode B i mode = bindA (requireMotor i) (\<lambda>_. bindA (requireRuntime i) (\<lambda>rt. seqA
     [requireBus,
      updRuntime i (\<lambda>rt. rt\<lparr>rt_mode := mode\<rparr>),
      (case mode of Speed \<Rightarrow> if rt_speedPairPrepared rt then ret () else preparePair B i
       | Position \<Rightarrow> preparePosition B i)]))"

definition absI32 :: "i32 \<Rightarrow> i32" where
  "absI32 v = (if sint v < 0 then - v else v)"

definition mcSetSpeed :: "('c, 'w) BusOps \<Rightarrow> EMotor \<Rightarrow> i32 \<Rightarrow> ('c, 'w, unit) mcAct" where
  "mcSetSpeed B i speed = bindA (requireMotor i) (\<lambda>_. bindA (requireRuntime i) (\<lambda>rt. seqA
     [updRuntime i (\<lambda>rt. rt\<lparr>rt_speed := absI32 speed\<rparr>),
      requireBus,
      whenA (rt_mode rt = Speed)
        (if rt_speedPairPrepared rt then onMotor i (updateConstantSpeedBuffered B (absI32 speed))
         else preparePair B i)]))"

definition mcSetAcceleration :: "('c, 'w) BusOps \<Rightarrow> EMotor \<Rightarrow> i32 \<Rightarrow> ('c, 'w, unit) mcAct" where
  "mcSetAcceleration B i v = bindA (requireMotor i) (\<lambda>_. bindA (requireRuntime i) (\<lambda>rt.
     if rt_acceleration rt = v then ret () else seqA
     [updRuntime i (\<lambda>rt. rt\<lparr>rt_acceleration := v\<rparr>),
      requireBus,
      whenA (rt_speedPairPrepared rt)
        (onMotor i (thenA (setOperationAcceleration B 0 v) (setOperationAcceleration B 1 v))),
      whenA (rt_positionPrepared rt) (onMotor i (setOperationAcceleration B 2 v))]))"

definition mcSetDeceleration :: "('c, 'w) BusOps \<Rightarrow> EMotor \<Rightarrow> i32 \<Rightarrow> ('c, 'w, unit) mcAct" where
  "mcSetDeceleration B i v = bindA (requireMotor i) (\<lambda>_. bindA (requireRuntime i) (\<lambda>rt.
     if rt_deceleration rt = v then ret () else seqA
     [updRuntime i (\<lambda>rt. rt\<lparr>rt_deceleration := v\<rparr>),
      requireBus,
      whenA (rt_speedPairPrepared rt)
        (onMotor i (thenA (setOperationDeceleration B 0 v) (setOperationDeceleration B 1 v))),
      whenA (rt_positionPrepared rt) (onMotor i (setOperationDeceleration B 2 v))]))"

definition mcSetPosition :: "('c, 'w) BusOps \<Rightarrow> EMotor \<Rightarrow> i32 \<Rightarrow> ('c, 'w, unit) mcAct" where
  "mcSetPosition B i v = bindA (requireMotor i) (\<lambda>_. bindA (requireRuntime i) (\<lambda>rt. seqA
     [updRuntime i (\<lambda>rt. rt\<lparr>rt_position := v\<rparr>),
      requireBus,
      whenA (rt_mode rt = Position)
        (thenA (preparePosition B i) (onMotor i (setOperationPosition B 2 v)))]))"

text \<open>The opposite direction is cleared before the wanted one is set.\<close>

definition assertDirection :: "('c, 'w) BusOps \<Rightarrow> MotorControlDirection \<Rightarrow> ('c, 'w, unit) motorAct" where
  "assertDirection B dir = (case dir of
     Forward \<Rightarrow> thenA (setReverse B False) (setForward B True)
   | Reverse \<Rightarrow> thenA (setForward B False) (setReverse B True))"

definition mcSetDirection :: "('c, 'w) BusOps \<Rightarrow> EMotor \<Rightarrow> MotorControlDirection \<Rightarrow> ('c, 'w, unit) mcAct" where
  "mcSetDirection B i dir = bindA (requireMotor i) (\<lambda>_. bindA (requireRuntime i) (\<lambda>_. seqA
     [updRuntime i (\<lambda>rt. rt\<lparr>rt_direction := dir\<rparr>),
      requireBus,
      onMotor i (assertDirection B dir)]))"

definition mcStartMovement :: "('c, 'w) BusOps \<Rightarrow> EMotor \<Rightarrow> ('c, 'w, unit) mcAct" where
  "mcStartMovement B i = bindA (requireMotor i) (\<lambda>_. bindA (requireRuntime i) (\<lambda>rt.
     if \<not> rt_enabled rt then ret () else thenA requireBus
     (case rt_mode rt of
        Speed \<Rightarrow> seqA [whenA (\<not> rt_speedPairPrepared rt) (preparePair B i),
                      onMotor i (assertDirection B (rt_direction rt))]
      | Position \<Rightarrow> seqA [preparePosition B i,
                      onMotor i (setOperationPosition B 2 (rt_position rt)),
                      onMotor i (setSelectedOperationId B 2),
                      onMotor i (pulseStart B)])))"

definition mcStopMovement :: "('c, 'w) BusOps \<Rightarrow> EMotor \<Rightarrow> ('c, 'w, unit) mcAct" where
  "mcStopMovement B i = bindA (requireMotor i) (\<lambda>_. bindA (requireRuntime i) (\<lambda>rt. thenA requireBus
     (case rt_mode rt of
        Speed \<Rightarrow> onMotor i (thenA (setForward B False) (setReverse B False))
      | Position \<Rightarrow> onMotor i (pulseStop B))))"

section \<open>Direct commands\<close>

text \<open>Commands ignored while the motor is disabled.\<close>

definition whenEnabled :: "EMotor \<Rightarrow> ('c, 'w, unit) motorAct \<Rightarrow> ('c, 'w, unit) mcAct" where
  "whenEnabled i act = bindA (requireMotor i) (\<lambda>_. bindA (requireRuntime i) (\<lambda>rt.
     if \<not> rt_enabled rt then ret () else thenA requireBus (onMotor i act)))"

definition mcPulseStart :: "('c, 'w) BusOps \<Rightarrow> EMotor \<Rightarrow> ('c, 'w, unit) mcAct" where
  "mcPulseStart B i = whenEnabled i (pulseStart B)"
definition mcPulseStop :: "('c, 'w) BusOps \<Rightarrow> EMotor \<Rightarrow> ('c, 'w, unit) mcAct" where
  "mcPulseStop B i = motorCall i (pulseStop B)"
definition mcPulseHome :: "('c, 'w) BusOps \<Rightarrow> EMotor \<Rightarrow> ('c, 'w, unit) mcAct" where
  "mcPulseHome B i = motorCall i (pulseHome B)"
definition mcSetForward :: "('c, 'w) BusOps \<Rightarrow> EMotor \<Rightarrow> bool \<Rightarrow> ('c, 'w, unit) mcAct" where
  "mcSetForward B i on = whenEnabled i (setForward B on)"
definition mcSetReverse :: "('c, 'w) BusOps \<Rightarrow> EMotor \<Rightarrow> bool \<Rightarrow> ('c, 'w, unit) mcAct" where
  "mcSetReverse B i on = whenEnabled i (setReverse B on)"
definition mcSetJogPlus :: "('c, 'w) BusOps \<Rightarrow> EMotor \<Rightarrow> bool \<Rightarrow> ('c, 'w, unit) mcAct" where
  "mcSetJogPlus B i on = whenEnabled i (setJogPlus B on)"
definition mcSetJogMinus :: "('c, 'w) BusOps \<Rightarrow> EMotor \<Rightarrow> bool \<Rightarrow> ('c, 'w, unit) mcAct" where
  "mcSetJogMinus B i on = whenEnabled i (setJogMinus B on)"

definition mcSetSelectedOperationId :: "('c, 'w) BusOps \<Rightarrow> EMotor \<Rightarrow> u8 \<Rightarrow> ('c, 'w, unit) mcAct" where
  "mcSetSelectedOperationId B i opId = motorCall i (setSelectedOperationId B opId)"
definition mcSetOperationMode :: "('c, 'w) BusOps \<Rightarrow> EMotor \<Rightarrow> u8 \<Rightarrow> MotorOperationMode \<Rightarrow> ('c, 'w, unit) mcAct" where
  "mcSetOperationMode B i opId mode = motorCall i (setOperationMode B opId mode)"
definition mcSetOperationFunction ::
  "('c, 'w) BusOps \<Rightarrow> EMotor \<Rightarrow> u8 \<Rightarrow> MotorOperationFunction \<Rightarrow> ('c, 'w, unit) mcAct" where
  "mcSetOperationFunction B i opId f = motorCall i (setOperationFunction B opId f)"
definition mcSetOperationPosition :: "('c, 'w) BusOps \<Rightarrow> EMotor \<Rightarrow> u8 \<Rightarrow> i32 \<Rightarrow> ('c, 'w, unit) mcAct" where
  "mcSetOperationPosition B i opId v = motorCall i (setOperationPosition B opId v)"
definition mcSetOperationSpeed :: "('c, 'w) BusOps \<Rightarrow> EMotor \<Rightarrow> u8 \<Rightarrow> i32 \<Rightarrow> ('c, 'w, unit) mcAct" where
  "mcSetOperationSpeed B i opId v = motorCall i (setOperationSpeed B opId v)"
definition mcSetOperationAcceleration :: "('c, 'w) BusOps \<Rightarrow> EMotor \<Rightarrow> u8 \<Rightarrow> i32 \<Rightarrow> ('c, 'w, unit) mcAct" where
  "mcSetOperationAcceleration B i opId v = motorCall i (setOperationAcceleration B opId v)"
definition mcSetOperationDeceleration :: "('c, 'w) BusOps \<Rightarrow> EMotor \<Rightarrow> u8 \<Rightarrow> i32 \<Rightarrow> ('c, 'w, unit) mcAct" where
  "mcSetOperationDeceleration B i opId v = motorCall i (setOperationDeceleration B opId v)"

definition validateCurrentRange :: "i32 \<Rightarrow> string \<Rightarrow> EMotor \<Rightarrow> ('s, unit) act" where
  "validateCurrentRange current field i = whenA (sint current < 0 \<or> 1000 < sint current)
     (throwA (''MotorControl.motors.'' @ motorName i @ ''.'' @ field @ '' must be in range 0..1000 (got ''
        @ dec (sint current) @ '')''))"

definition mcSetRunCurrent :: "('c, 'w) BusOps \<Rightarrow> EMotor \<Rightarrow> i32 \<Rightarrow> ('c, 'w, unit) mcAct" where
  "mcSetRunCurrent B i v = thenA (validateCurrentRange v ''runCurrent'' i) (motorCall i (setRunCurrent B v))"
definition mcSetStopCurrent :: "('c, 'w) BusOps \<Rightarrow> EMotor \<Rightarrow> i32 \<Rightarrow> ('c, 'w, unit) mcAct" where
  "mcSetStopCurrent B i v = thenA (validateCurrentRange v ''stopCurrent'' i) (motorCall i (setStopCurrent B v))"

definition mcConfigureConstantSpeedPair ::
  "('c, 'w) BusOps \<Rightarrow> EMotor \<Rightarrow> i32 \<Rightarrow> i32 \<Rightarrow> i32 \<Rightarrow> i32 \<Rightarrow> ('c, 'w, unit) mcAct" where
  "mcConfigureConstantSpeedPair B i s0 s1 acc d = motorCall i (configureConstantSpeedPair B s0 s1 acc d)"
definition mcUpdateConstantSpeedBuffered :: "('c, 'w) BusOps \<Rightarrow> EMotor \<Rightarrow> i32 \<Rightarrow> ('c, 'w, unit) mcAct" where
  "mcUpdateConstantSpeedBuffered B i v = motorCall i (updateConstantSpeedBuffered B v)"

section \<open>Enabling\<close>

definition mcSetEnabled :: "('c, 'w) BusOps \<Rightarrow> EMotor \<Rightarrow> bool \<Rightarrow> ('c, 'w, unit) mcAct" where
  "mcSetEnabled B i on = bindA (requireMotor i) (\<lambda>_. bindA (requireRuntime i) (\<lambda>rt.
     if \<not> rt_enableControllable rt \<or> rt_enabled rt = on then ret () else seqA
     [requireBus, onMotor i (setEnabled B on), updRuntime i (\<lambda>rt. rt\<lparr>rt_enabled := on\<rparr>)]))"

definition mcSetAllEnabled :: "('c, 'w) BusOps \<Rightarrow> bool \<Rightarrow> ('c, 'w, unit) mcAct" where
  "mcSetAllEnabled B on = bindA (getA fst) (\<lambda>mc. forA (mapKeys allMotors (mc_motors mc)) (\<lambda>i. mcSetEnabled B i on))"

text \<open>\<open>const\<close> member functions of the motor that do not need the bus.\<close>

definition onMotorOnly :: "EMotor \<Rightarrow> (Motor \<Rightarrow> Motor) \<Rightarrow> ('c, 'w, unit) mcAct" where
  "onMotorOnly i f = modifyA (\<lambda>(mc, w). (mc\<lparr>mc_motors := (mc_motors mc)(i := map_option f (mc_motors mc i))\<rparr>, w))"

definition mcOnAlarmCleared :: "('c, 'w) BusOps \<Rightarrow> EMotor \<Rightarrow> ('c, 'w, unit) mcAct" where
  "mcOnAlarmCleared B i = bindA (requireMotor i) (\<lambda>_. bindA (getA fst) (\<lambda>mc.
     if mc_runtime mc i = None then ret () else seqA
     [onMotorOnly i (\<lambda>m. m\<lparr>mo_driverInputCommandRawCache := None\<rparr>),
      whenA (mc_bus mc \<noteq> None) (onMotor i (setEnabled B False)),
      updRuntime i (\<lambda>rt. rt\<lparr>rt_enabled := False\<rparr>)]))"

definition mcIsEnabled :: "EMotor \<Rightarrow> 'c MotorControl \<Rightarrow> bool" where
  "mcIsEnabled i mc = (case mc_runtime mc i of None \<Rightarrow> False | Some rt \<Rightarrow> rt_enabled rt)"

definition mcIsEnableControllable :: "EMotor \<Rightarrow> 'c MotorControl \<Rightarrow> bool" where
  "mcIsEnableControllable i mc = (case mc_runtime mc i of None \<Rightarrow> False | Some rt \<Rightarrow> rt_enableControllable rt)"

section \<open>Readings\<close>

definition mcReadSelectedOperationId :: "('c, 'w) BusOps \<Rightarrow> EMotor \<Rightarrow> ('c, 'w, u8) mcAct" where
  "mcReadSelectedOperationId B i = guardedCall B i (readSelectedOperationId B)"

definition mcResetAlarm :: "('c, 'w) BusOps \<Rightarrow> EMotor \<Rightarrow> ('c, 'w, unit) mcAct" where
  "mcResetAlarm B i = bindA (requireMotor i) (\<lambda>_. guarded B (thenA requireBus (bindA (getA fst) (\<lambda>mc.
     thenA (onMotor i (resetAlarm B))
       (whenSome (mc_motorConfigs mc i) (\<lambda>cfg. onMotor i (applyConfiguredParameters B cfg)))))))"

definition mcReadInputStatus :: "('c, 'w) BusOps \<Rightarrow> EMotor \<Rightarrow> ('c, 'w, MotorFlagStatus) mcAct" where
  "mcReadInputStatus B i = guardedCall B i (mapA decodeDriverInputStatus (readDriverInputCommandRaw B))"

definition mcReadOutputStatus :: "('c, 'w) BusOps \<Rightarrow> EMotor \<Rightarrow> ('c, 'w, MotorFlagStatus) mcAct" where
  "mcReadOutputStatus B i = guardedCall B i (mapA decodeDriverOutputStatus (readDriverOutputStatusRaw B))"

definition mcReadDirectIoStatus :: "('c, 'w) BusOps \<Rightarrow> EMotor \<Rightarrow> ('c, 'w, MotorDirectIoStatus) mcAct" where
  "mcReadDirectIoStatus B i = guardedCall B i (bindA (readDirectIoAndBrakeStatusRaw B) (\<lambda>raw.
     getA (\<lambda>(m, b). decodeDirectIoAndBrakeStatus m raw)))"

definition mcReadMonitorSnapshot :: "('c, 'w) BusOps \<Rightarrow> EMotor \<Rightarrow> ('c, 'w, MotorMonitorSnapshot) mcAct" where
  "mcReadMonitorSnapshot B i = guardedCall B i (readMonitorSnapshot B)"

text \<open>The two readings are arguments of one call, so their order is the compiler's; they are
  taken from left to right here.\<close>

definition mcReadRemoteIoStatus :: "('c, 'w) BusOps \<Rightarrow> EMotor \<Rightarrow> ('c, 'w, MotorRemoteIoStatus) mcAct" where
  "mcReadRemoteIoStatus B i = guardedCall B i (bindA (readDriverInputCommandRaw B) (\<lambda>inRaw.
     bindA (readDriverOutputStatusRaw B) (\<lambda>outRaw. getA (\<lambda>(m, b). decodeRemoteIoStatus m inRaw outRaw))))"

fun anyWarningOrAlarm :: "('c, 'w) BusOps \<Rightarrow> EMotor list \<Rightarrow> ('c, 'w, bool) mcAct" where
  "anyWarningOrAlarm B [] = ret False"
| "anyWarningOrAlarm B (i # is') = bindA (onMotor i (readDriverOutputStatusRaw B)) (\<lambda>raw.
     if isDriverOutputFlagSet raw MotorOutputFlag.Warning \<or> isDriverOutputFlagSet raw MotorOutputFlag.Alarm
     then ret True else anyWarningOrAlarm B is')"

definition mcHasAnyWarningOrAlarm :: "('c, 'w) BusOps \<Rightarrow> ('c, 'w, bool) mcAct" where
  "mcHasAnyWarningOrAlarm B = guarded B (thenA requireBus (bindA (getA fst) (\<lambda>mc.
     anyWarningOrAlarm B (mapKeys allMotors (mc_motors mc)))))"

definition mcSetWarningState :: "bool \<Rightarrow> 'c MotorControl \<Rightarrow> 'c MotorControl" where
  "mcSetWarningState warningActive mc =
     (if mc_state mc = ComponentState.Error then mc
      else mc\<lparr>mc_state := (if warningActive then ComponentState.Warning else ComponentState.Normal)\<rparr>)"

definition mcDiagnoseCurrentAlarm :: "('c, 'w) BusOps \<Rightarrow> EMotor \<Rightarrow> ('c, 'w, MotorCodeDiagnostic) mcAct" where
  "mcDiagnoseCurrentAlarm B i = guardedCall B i (mapA diagnoseAlarm (readAlarmCode B))"

definition mcDiagnoseCurrentWarning :: "('c, 'w) BusOps \<Rightarrow> EMotor \<Rightarrow> ('c, 'w, MotorCodeDiagnostic) mcAct" where
  "mcDiagnoseCurrentWarning B i = guardedCall B i (mapA diagnoseWarning (readWarningCode B))"

definition mcDiagnoseCurrentCommunicationError ::
  "('c, 'w) BusOps \<Rightarrow> EMotor \<Rightarrow> ('c, 'w, MotorCodeDiagnostic) mcAct" where
  "mcDiagnoseCurrentCommunicationError B i =
     guardedCall B i (mapA diagnoseCommunicationError (readCommunicationErrorCode B))"

definition mcReadGroupId :: "('c, 'w) BusOps \<Rightarrow> EMotor \<Rightarrow> ('c, 'w, i32) mcAct" where
  "mcReadGroupId B i = guardedCall B i (readGroupId B)"

end
