(* ===== verification/MotorFacts.thy ===== *)
theory MotorFacts
  imports MotorStatus
begin

text \<open>
  Motors on a healthy bus: what each register access does to the register file, the coherence
  of the command word cache, and the operation numbers. The lemmas are proved from the
  contract \<open>register_bus\<close>; a property takes the contract as its hypothesis and is shown on the
  client over libmodbus.
\<close>

section \<open>Words\<close>

lemma word32_parts [simp]: "word32 (upper16 w) (lower16 w) = w"
  unfolding word32_def upper16_def lower16_def
  by (rule bit_word_eqI) (auto simp: bit_simps)

lemma upper16_word32 [simp]: "upper16 (word32 h l) = h"
  unfolding word32_def upper16_def
  by (rule bit_word_eqI) (auto simp: bit_simps dest: bit_imp_le_length)

lemma lower16_word32 [simp]: "lower16 (word32 h l) = l"
  unfolding word32_def lower16_def
  by (rule bit_word_eqI) (auto simp: bit_simps)

lemma bit_bitMask [simp]: "bit (bitMask n) i \<longleftrightarrow> i = n \<and> n < 16"
  by (auto simp: bitMask_def bit_simps)

lemma and_bitMask_zero: "n < 16 \<Longrightarrow> raw AND bitMask n = 0 \<longleftrightarrow> \<not> bit raw n"
  by (auto simp: bit_eq_iff [of "raw AND bitMask n"] bit_and_iff)

lemma bit_withBit: "bit (withBit k on raw) i \<longleftrightarrow> (if bit k i then on else bit raw i)"
  by (auto simp: withBit_def bit_simps dest: bit_imp_le_length)

section \<open>Access\<close>

definition slavesOk :: "Motor \<Rightarrow> bool" where
  "slavesOk m \<longleftrightarrow> 0 \<le> mo_slaveAddress m \<and> mo_slaveAddress m \<le> 247
     \<and> 0 \<le> mo_commandSlaveAddress m \<and> mo_commandSlaveAddress m \<le> 247"

lemma slavesOk_target: "slavesOk m \<Longrightarrow> 0 \<le> targetSlave t m \<and> targetSlave t m \<le> 247"
  by (cases t) (simp_all add: slavesOk_def targetSlave_def)

lemma wp_busA: "wp (busA f msg) Q R (m, b) =
    (case f b of (Inl e, b') \<Rightarrow> R (msg (me_message e)) (m, b') | (Inr x, b') \<Rightarrow> Q x (m, b'))"
  by (simp add: wp_def busA_def split: prod.split sum.split)

text \<open>How a word is written, with function 0x06 or 0x10.\<close>

definition wordWrite :: "Motor \<Rightarrow> int \<Rightarrow> u16 \<Rightarrow> WriteRecord" where
  "wordWrite m addr v = (if mo_forceFunction10 m then MultipleRegisters (mo_commandSlaveAddress m) addr [v]
     else SingleRegister (mo_commandSlaveAddress m) addr v)"

definition cmdWrite :: "Motor \<Rightarrow> u16 \<Rightarrow> WriteRecord" where
  "cmdWrite m raw = wordWrite m (rm_driverInputCommandLower (mo_map m)) raw"

context register_bus
begin

lemma wp_selectSlave:
  assumes "ok b" and "slavesOk m"
    and "\<And>b'. ok b' \<Longrightarrow> slave b' = targetSlave t m \<Longrightarrow> regs b' = regs b \<Longrightarrow> writes b' = writes b \<Longrightarrow> Q () (m, b')"
  shows "wp (selectSlave B t) Q R (m, b)"
  using setSlave [OF assms(1), of "targetSlave t m"] slavesOk_target [OF assms(2), of t] assms(3)
  by (auto simp: selectSlave_def wp_bind wp_get wp_busA)

lemma wp_readRegisters:
  assumes "ok b" and "0 < n" and "n \<le> 125"
    and "\<And>b'. ok b' \<Longrightarrow> slave b' = slave b \<Longrightarrow> regs b' = regs b \<Longrightarrow> writes b' = writes b
      \<Longrightarrow> Q (peeks (regs b) (slave b) addr n) (m, b')"
  shows "wp (readRegisters B addr n msg) Q R (m, b)"
  using readHolding [OF assms(1-3), of addr] assms(4)
  by (auto simp: readRegisters_def wp_bind wp_busA wp_ret wp_throw)

lemma wp_readU16:
  assumes "ok b" and "slavesOk m"
    and "\<And>b'. ok b' \<Longrightarrow> regs b' = regs b \<Longrightarrow> writes b' = writes b \<Longrightarrow> Q (regs b (mo_slaveAddress m) addr) (m, b')"
  shows "wp (readU16 B addr) Q R (m, b)"
  unfolding readU16_def wp_then
  by (rule wp_selectSlave [OF assms(1,2)])
    (auto simp: wp_bind wp_get wp_ret targetSlave_def intro!: wp_readRegisters assms(3))

lemma wp_readU32:
  assumes "ok b" and "slavesOk m"
    and "\<And>b'. ok b' \<Longrightarrow> regs b' = regs b \<Longrightarrow> writes b' = writes b
      \<Longrightarrow> Q (word32 (regs b (mo_slaveAddress m) addr) (regs b (mo_slaveAddress m) (addr + 1))) (m, b')"
  shows "wp (readU32 B addr) Q R (m, b)"
  unfolding readU32_def wp_then
  by (rule wp_selectSlave [OF assms(1,2)])
    (auto simp: wp_bind wp_get wp_ret targetSlave_def intro!: wp_readRegisters assms(3))

lemma wp_writeU16:
  assumes "ok b" and "slavesOk m"
    and "\<And>b'. ok b' \<Longrightarrow> regs b' = poke (mo_commandSlaveAddress m) addr v (regs b)
      \<Longrightarrow> writes b' = writes b @ [wordWrite m addr v] \<Longrightarrow> Q () (m, b')"
  shows "wp (writeU16 B addr v) Q R (m, b)"
  unfolding writeU16_def wp_then
proof (rule wp_selectSlave [OF assms(1,2)])
  fix b' assume b': "ok b'" "slave b' = targetSlave CommandTarget m" "regs b' = regs b" "writes b' = writes b"
  then show "wp (bindA (getA fst) (\<lambda>m. busA (if mo_forceFunction10 m then bo_writeMultiple B addr [v]
      else bo_writeSingle B addr v) (\<lambda>e. commandLabel m @ '' writeU16(0x'' @ hexInt4 addr @ '', 0x'' @ hex4 v
      @ '') failed: '' @ e))) Q R (m, b')"
    using writeSingle [OF b'(1), of addr v] writeMultiple [OF b'(1), of "[v]" addr] assms(3)
    by (auto simp: wp_bind wp_get wp_busA targetSlave_def wordWrite_def)
qed

lemma wp_writeInt32To:
  assumes "ok b" and "slavesOk m"
    and "\<And>b'. ok b' \<Longrightarrow> regs b' = pokes (targetSlave t m) addr [upper16 v, lower16 v] (regs b)
      \<Longrightarrow> writes b' = writes b @ [MultipleRegisters (targetSlave t m) addr [upper16 v, lower16 v]] \<Longrightarrow> Q () (m, b')"
  shows "wp (writeInt32To B addr v t) Q R (m, b)"
  unfolding writeInt32To_def wp_then
proof (rule wp_selectSlave [OF assms(1,2)])
  fix b' assume b': "ok b'" "slave b' = targetSlave t m" "regs b' = regs b" "writes b' = writes b"
  then show "wp (bindA (getA fst) (\<lambda>m. busA (bo_writeMultiple B addr [upper16 v, lower16 v])
      (\<lambda>e. ''Motor '' @ motorName (mo_id m) @ '' (slave '' @ dec (targetSlave t m) @ '') writeInt32('' @
        registerLabel addr @ '', '' @ dec (sint v) @ '') failed: '' @ e))) Q R (m, b')"
    using writeMultiple [OF b'(1), of "[upper16 v, lower16 v]" addr] assms(3)
    by (auto simp: wp_bind wp_get wp_busA)
qed

end

section \<open>Operation numbers\<close>

lemma firstIndex_Some: "firstIndex x xs = Some i \<Longrightarrow> i < length xs \<and> xs ! i = x"
  by (induction xs arbitrary: i) (auto split: if_splits)

lemma firstIndex_None: "firstIndex x xs = None \<longleftrightarrow> x \<notin> set xs"
  by (induction xs) auto

text \<open>The array of assignments has sixteen entries.\<close>

definition assignmentsOk :: "Motor \<Rightarrow> bool" where
  "assignmentsOk m \<longleftrightarrow> (\<forall>cs. mo_netInputFunctionAssignments m = Some cs \<longrightarrow> length cs = 16)"

text \<open>Either nothing is known of the assignments, or all six selecting functions have a terminal.\<close>

definition operationInputsMapped :: "Motor \<Rightarrow> bool" where
  "operationInputsMapped m = (case mo_netInputFunctionAssignments m of
     None \<Rightarrow> True | Some cs \<Rightarrow> list_all (\<lambda>(_, code). code \<in> set cs) operationFunctions)"

lemma operationInputsMappedD:
  "operationInputsMapped m \<Longrightarrow> mo_netInputFunctionAssignments m = Some cs
    \<Longrightarrow> (i, code) \<in> set operationFunctions \<Longrightarrow> \<exists>n. firstIndex code cs = Some n"
  using firstIndex_None [of code cs] by (auto simp: operationInputsMapped_def list_all_iff)

definition functionBit :: "Motor \<Rightarrow> u16 \<Rightarrow> nat" where
  "functionBit m code = (case netInputBitForFunction m code of Some i \<Rightarrow> i
     | None \<Rightarrow> the (map_option inputFlagBit (map_of [(kFunctionM0, M0), (kFunctionM1, M1), (kFunctionM2, M2),
         (kFunctionMs0, Ms0), (kFunctionMs1, Ms1), (kFunctionMs2, Ms2)] code)))"

lemma operationFunctions_cases:
  "(i, code) \<in> set operationFunctions \<longleftrightarrow> (i = 0 \<and> code = kFunctionM0) \<or> (i = 1 \<and> code = kFunctionM1)
    \<or> (i = 2 \<and> code = kFunctionM2) \<or> (i = 3 \<and> code = kFunctionMs0) \<or> (i = 4 \<and> code = kFunctionMs1)
    \<or> (i = 5 \<and> code = kFunctionMs2)"
  by (auto simp: operationFunctions_def)

lemma functionMask_bit:
  assumes "assignmentsOk m" and "(i, code) \<in> set operationFunctions"
  shows "functionMask m code = Some (bitMask (functionBit m code)) \<and> functionBit m code < 16"
proof (cases "netInputBitForFunction m code")
  case None
  with assms(2) show ?thesis
    by (auto simp: operationFunctions_cases functionMask_def functionBit_def fallbackInputBitMaskForFunction_def
        inputMask_def function_codes)
next
  case (Some n)
  then obtain cs where "mo_netInputFunctionAssignments m = Some cs" "firstIndex code cs = Some n"
    by (auto simp: netInputBitForFunction_def bind_eq_Some_conv)
  with assms(1) Some show ?thesis
    using firstIndex_Some [of code cs n] by (simp add: functionMask_def functionBit_def assignmentsOk_def)
qed

lemma functionBit_inj:
  assumes "operationInputsMapped m" and "(i, code) \<in> set operationFunctions"
    and "(i', code') \<in> set operationFunctions" and "functionBit m code = functionBit m code'"
  shows "i = i' \<and> code = code'"
proof (cases "mo_netInputFunctionAssignments m")
  case None
  then have "netInputBitForFunction m c = None" for c
    by (simp add: netInputBitForFunction_def)
  with assms(2-4) show ?thesis
    by (auto simp: operationFunctions_cases functionBit_def function_codes)
next
  case (Some cs)
  obtain n n' where "firstIndex code cs = Some n" "firstIndex code' cs = Some n'"
    using operationInputsMappedD [OF assms(1) Some] assms(2,3) by blast
  with assms(4) Some have "code = code'"
    using firstIndex_Some [of code cs n] firstIndex_Some [of code' cs n'] by (simp add: functionBit_def netInputBitForFunction_def)
  with assms(2,3) show ?thesis
    by (auto simp: operationFunctions_cases function_codes)
qed

lemma bit_mask_fold:
  "bit (fold (\<lambda>(i, code) acc. case mk code of Some k \<Rightarrow> acc OR k | None \<Rightarrow> acc) xs (acc :: u16)) n
    \<longleftrightarrow> bit acc n \<or> (\<exists>x \<in> set xs. case mk (snd x) of Some k \<Rightarrow> bit k n | None \<Rightarrow> False)"
  by (induction xs arbitrary: acc) (simp_all add: bit_or_iff disj_assoc split: option.split prod.split)

lemma bit_encode_fold:
  "bit (fold (\<lambda>(i, code) raw. if \<not> bit (opId :: u8) i then raw
      else case mk code of Some k \<Rightarrow> raw OR k | None \<Rightarrow> raw) xs (raw :: u16)) n
    \<longleftrightarrow> bit raw n \<or> (\<exists>x \<in> set xs. bit opId (fst x) \<and> (case mk (snd x) of Some k \<Rightarrow> bit k n | None \<Rightarrow> False))"
  by (induction xs arbitrary: raw) (simp_all add: bit_or_iff disj_assoc split: option.split prod.split)

lemma bit_decode_fold:
  "bit (fold (\<lambda>(i, code) opId. case mk code of
      Some k \<Rightarrow> if raw AND k \<noteq> 0 then opId OR push_bit i 1 else opId | None \<Rightarrow> opId) xs (opId :: u8)) n
    \<longleftrightarrow> bit opId n \<or> (\<exists>x \<in> set xs. n = fst x \<and> n < 8
        \<and> (case mk (snd x) of Some k \<Rightarrow> raw AND k \<noteq> (0 :: u16) | None \<Rightarrow> False))"
proof (induction xs arbitrary: opId)
  case (Cons x xs)
  have "bit (push_bit i (1 :: u8)) n \<longleftrightarrow> n = i \<and> n < 8" for i
    by (auto simp: bit_exp_iff)
  with Cons show ?case
    by (cases x; cases "mk (snd x)") (auto simp: bit_or_iff)
qed simp

lemma bit_operationIdMask:
  assumes "assignmentsOk m"
  shows "bit (operationIdMask m) n \<longleftrightarrow> (\<exists>i code. (i, code) \<in> set operationFunctions \<and> functionBit m code = n)"
  unfolding operationIdMask_def bit_mask_fold using functionMask_bit [OF assms] by fastforce

lemma bit_encodeOperationId:
  assumes "assignmentsOk m"
  shows "bit (encodeOperationId m opId raw) n \<longleftrightarrow>
    (bit raw n \<and> \<not> bit (operationIdMask m) n)
    \<or> (\<exists>i code. (i, code) \<in> set operationFunctions \<and> bit opId i \<and> functionBit m code = n)"
  unfolding encodeOperationId_def bit_encode_fold
  using functionMask_bit [OF assms] by (fastforce simp: bit_and_iff bit_not_iff dest: bit_imp_le_length)

lemma bit_decodeOperationId:
  assumes "assignmentsOk m"
  shows "bit (decodeOperationIdFromInputRawMapped m raw) n \<longleftrightarrow>
    (\<exists>code. (n, code) \<in> set operationFunctions \<and> bit raw (functionBit m code))"
proof -
  have "n < 8" if "(n, code) \<in> set operationFunctions" for code
    using that by (auto simp: operationFunctions_cases)
  then show ?thesis
    unfolding decodeOperationIdFromInputRawMapped_def bit_decode_fold
    using functionMask_bit [OF assms] by (fastforce simp: and_bitMask_zero)
qed

lemma decode_encode:
  assumes "assignmentsOk m" and "operationInputsMapped m" and "opId \<le> 63"
  shows "decodeOperationIdFromInputRawMapped m (encodeOperationId m opId raw) = opId"
proof (rule bit_word_eqI)
  fix n :: nat assume "n < LENGTH(8)"
  have high: "\<not> bit opId n" if "6 \<le> n"
  proof -
    have "unat opId < 2 ^ 6"
      using assms(3) by (simp add: word_le_nat_alt)
    then have "take_bit 6 (unat opId) = unat opId"
      by (simp only: take_bit_nat_eq_self_iff)
    then have "\<not> bit (unat opId) n"
      using that by (metis bit_take_bit_iff leD)
    then show ?thesis
      using \<open>n < LENGTH(8)\<close> by (simp add: bit_unsigned_iff)
  qed
  show "bit (decodeOperationIdFromInputRawMapped m (encodeOperationId m opId raw)) n = bit opId n"
  proof (cases "\<exists>code. (n, code) \<in> set operationFunctions")
    case True
    then obtain code where c: "(n, code) \<in> set operationFunctions" by blast
    have only: "(n, c') \<in> set operationFunctions \<Longrightarrow> c' = code" for c'
      using c by (auto simp: operationFunctions_cases)
    have "bit (encodeOperationId m opId raw) (functionBit m code) = bit opId n"
      unfolding bit_encodeOperationId [OF assms(1)] bit_operationIdMask [OF assms(1)]
      using c functionBit_inj [OF assms(2)] by blast
    then show ?thesis
      unfolding bit_decodeOperationId [OF assms(1)] using c only by blast
  next
    case False
    have "6 \<le> n"
    proof (rule ccontr)
      assume "\<not> 6 \<le> n"
      then have "n = 0 \<or> n = 1 \<or> n = 2 \<or> n = 3 \<or> n = 4 \<or> n = 5" by linarith
      with False show False by (auto simp: operationFunctions_cases)
    qed
    with False show ?thesis
      unfolding bit_decodeOperationId [OF assms(1)] using high by simp
  qed
qed

section \<open>The command word and its cache\<close>

definition cmdWord :: "Motor \<Rightarrow> RegisterFile \<Rightarrow> u16" where
  "cmdWord m rf = rf (mo_commandSlaveAddress m) (rm_driverInputCommandLower (mo_map m))"

definition pokeCmd :: "Motor \<Rightarrow> u16 \<Rightarrow> RegisterFile \<Rightarrow> RegisterFile" where
  "pokeCmd m raw = poke (mo_commandSlaveAddress m) (rm_driverInputCommandLower (mo_map m)) raw"

lemma cmdWord_pokeCmd [simp]: "cmdWord m (pokeCmd m raw rf) = raw"
  by (simp add: cmdWord_def pokeCmd_def)

text \<open>The caches tell the truth about the register at the command address.\<close>

definition cacheCoherent :: "RegisterFile \<Rightarrow> Motor \<Rightarrow> bool" where
  "cacheCoherent rf m \<longleftrightarrow>
     (case mo_driverInputCommandRawCache m of None \<Rightarrow> True | Some raw \<Rightarrow> raw = cmdWord m rf)
     \<and> (case mo_selectedOperationIdCache m of None \<Rightarrow> True
        | Some opId \<Rightarrow> opId = decodeOperationIdFromInputRawMapped m (cmdWord m rf))"

definition cachedMotor :: "u16 \<Rightarrow> Motor \<Rightarrow> Motor" where
  "cachedMotor raw m = m\<lparr>mo_driverInputCommandRawCache := Some raw,
     mo_selectedOperationIdCache := Some (decodeOperationIdFromInputRawMapped m raw)\<rparr>"

lemma cacheRaw_eq: "cacheRaw raw (m, b) = (cachedMotor raw m, b)"
  by (simp add: cacheRaw_def cachedMotor_def)

lemma netInputBit_cached [simp]: "netInputBitForFunction (cachedMotor raw m) code = netInputBitForFunction m code"
  by (simp add: netInputBitForFunction_def cachedMotor_def)

lemma functionMask_cached [simp]: "functionMask (cachedMotor raw m) = functionMask m"
  by (simp add: functionMask_def fun_eq_iff)

lemma decode_cached [simp]:
  "decodeOperationIdFromInputRawMapped (cachedMotor raw m) = decodeOperationIdFromInputRawMapped m"
  by (simp add: decodeOperationIdFromInputRawMapped_def fun_eq_iff)

lemma encode_cached [simp]: "encodeOperationId (cachedMotor raw m) = encodeOperationId m"
  by (simp add: encodeOperationId_def operationIdMask_def fun_eq_iff cong: if_cong)

lemma flagMask_cached [simp]: "flagMask (cachedMotor raw m) = flagMask m"
  by (simp add: flagMask_def fun_eq_iff)

lemma cachedMotor_fields [simp]:
  "mo_id (cachedMotor raw m) = mo_id m" "mo_slaveAddress (cachedMotor raw m) = mo_slaveAddress m"
  "mo_commandSlaveAddress (cachedMotor raw m) = mo_commandSlaveAddress m"
  "mo_map (cachedMotor raw m) = mo_map m" "mo_forceFunction10 (cachedMotor raw m) = mo_forceFunction10 m"
  "mo_driverInputCommandRawCache (cachedMotor raw m) = Some raw"
  "mo_selectedOperationIdCache (cachedMotor raw m) = Some (decodeOperationIdFromInputRawMapped m raw)"
  by (simp_all add: cachedMotor_def)

lemma cmdWord_cached [simp]: "cmdWord (cachedMotor raw m) = cmdWord m"
  by (simp add: cmdWord_def fun_eq_iff)

lemma pokeCmd_cached [simp]: "pokeCmd (cachedMotor raw m) = pokeCmd m"
  by (simp add: pokeCmd_def fun_eq_iff)

lemma cmdWrite_cached [simp]: "cmdWrite (cachedMotor raw m) = cmdWrite m"
  by (simp add: cmdWrite_def wordWrite_def fun_eq_iff)

lemma slavesOk_cached [simp]: "slavesOk (cachedMotor raw m) = slavesOk m"
  by (simp add: slavesOk_def)

lemma cachedMotor_twice [simp]: "cachedMotor raw (cachedMotor raw' m) = cachedMotor raw m"
  by (simp add: cachedMotor_def decode_cached [unfolded cachedMotor_def])

lemma uncached_functionMask [simp]: "functionMask (m\<lparr>mo_driverInputCommandRawCache := x\<rparr>) = functionMask m"
  by (simp add: functionMask_def netInputBitForFunction_def fun_eq_iff)

lemma coherent_uncached: "cacheCoherent rf m \<Longrightarrow> cacheCoherent rf (m\<lparr>mo_driverInputCommandRawCache := None\<rparr>)"
  by (auto simp: cacheCoherent_def cmdWord_def decodeOperationIdFromInputRawMapped_def split: option.splits)

lemma coherent_cached: "cacheCoherent rf (cachedMotor raw m) \<longleftrightarrow> raw = cmdWord m rf"
  by (auto simp: cacheCoherent_def)

lemma coherent_cong: "cmdWord m rf = cmdWord m rf' \<Longrightarrow> cacheCoherent rf m = cacheCoherent rf' m"
  by (simp add: cacheCoherent_def split: option.split)

lemma coherent_pokeCmd [simp]: "cacheCoherent (pokeCmd m raw rf) (cachedMotor raw m)"
  by (simp add: coherent_cached)

context register_bus
begin

lemma wp_writeDriverInputCommandRaw:
  assumes "ok b" and "slavesOk m"
    and "\<And>b'. ok b' \<Longrightarrow> regs b' = pokeCmd m raw (regs b) \<Longrightarrow> writes b' = writes b @ [cmdWrite m raw] \<Longrightarrow> Q () (cachedMotor raw m, b')"
  shows "wp (writeDriverInputCommandRaw B raw) Q R (m, b)"
  unfolding writeDriverInputCommandRaw_def wp_bind wp_get wp_then fst_conv
  by (rule wp_writeU16 [OF assms(1,2)]) (simp add: wp_modify cacheRaw_eq assms(3) pokeCmd_def cmdWrite_def)

lemma wp_readCommandTarget:
  assumes "ok b" and "slavesOk m"
    and "\<And>b'. ok b' \<Longrightarrow> regs b' = regs b \<Longrightarrow> writes b' = writes b \<Longrightarrow> Q (cmdWord m (regs b)) (cachedMotor (cmdWord m (regs b)) m, b')"
  shows "wp (readDriverInputCommandRawCommandTarget B) Q R (m, b)"
  unfolding readDriverInputCommandRawCommandTarget_def wp_then
  by (rule wp_selectSlave [OF assms(1,2)])
    (auto simp: wp_bind wp_get wp_then wp_modify wp_ret cacheRaw_eq targetSlave_def cmdWord_def [symmetric]
      intro!: wp_readRegisters assms(3))

lemma wp_cachedRaw:
  assumes "ok b" and "slavesOk m" and "cacheCoherent (regs b) m"
    and "\<And>m' b'. ok b' \<Longrightarrow> regs b' = regs b \<Longrightarrow> writes b' = writes b \<Longrightarrow> m' = m \<or> m' = cachedMotor (cmdWord m (regs b)) m
      \<Longrightarrow> Q (cmdWord m (regs b)) (m', b')"
  shows "wp (cachedRaw (readDriverInputCommandRawCommandTarget B)) Q R (m, b)"
proof (cases "mo_driverInputCommandRawCache m")
  case None
  then show ?thesis
    by (auto simp: cachedRaw_def wp_bind wp_get intro!: wp_readCommandTarget assms)
next
  case (Some raw)
  then have "raw = cmdWord m (regs b)"
    using assms(3) by (simp add: cacheCoherent_def)
  with Some show ?thesis
    using assms(4) [OF assms(1) refl refl disjI1] by (simp add: cachedRaw_def wp_bind wp_get wp_ret)
qed

lemma wp_setDriverInputFlag:
  assumes "ok b" and "slavesOk m" and "cacheCoherent (regs b) m"
    and "\<And>b'. ok b' \<Longrightarrow> regs b' = pokeCmd m (withBit (flagMask m flag) on (cmdWord m (regs b))) (regs b)
      \<Longrightarrow> writes b' = writes b @ [cmdWrite m (withBit (flagMask m flag) on (cmdWord m (regs b)))]
      \<Longrightarrow> Q () (cachedMotor (withBit (flagMask m flag) on (cmdWord m (regs b))) m, b')"
  shows "wp (setDriverInputFlag B flag on) Q R (m, b)"
  unfolding setDriverInputFlag_def wp_bind
  by (rule wp_cachedRaw [OF assms(1-3)])
    (auto simp: wp_bind wp_get assms(2) intro!: wp_writeDriverInputCommandRaw assms(4))

lemma wp_setSelectedOperationId:
  assumes "ok b" and "slavesOk m" and "cacheCoherent (regs b) m" and "opId \<le> 63"
    and "\<And>b'. ok b' \<Longrightarrow> regs b' = pokeCmd m (encodeOperationId m opId (cmdWord m (regs b))) (regs b)
      \<Longrightarrow> writes b' = writes b @ [cmdWrite m (encodeOperationId m opId (cmdWord m (regs b)))]
      \<Longrightarrow> Q () (cachedMotor (encodeOperationId m opId (cmdWord m (regs b))) m, b')"
  shows "wp (setSelectedOperationId B opId) Q R (m, b)"
proof -
  have "\<not> 63 < opId" using assms(4) by simp
  then show ?thesis
    unfolding setSelectedOperationId_def if_not_P [OF \<open>\<not> 63 < opId\<close>] wp_bind
    by (intro wp_cachedRaw [OF assms(1-3)])
      (auto simp: wp_bind wp_get assms(2) intro!: wp_writeDriverInputCommandRaw assms(5))
qed

lemma wp_writeOperation:
  assumes "ok b" and "slavesOk m" and "opId \<le> 63"
    and "\<And>b'. ok b' \<Longrightarrow> regs b' = pokes (mo_commandSlaveAddress m) (base (mo_map m) + uint opId * 2)
        [upper16 v, lower16 v] (regs b)
      \<Longrightarrow> writes b' = writes b @ [MultipleRegisters (mo_commandSlaveAddress m) (base (mo_map m) + uint opId * 2)
            [upper16 v, lower16 v]] \<Longrightarrow> Q () (m, b')"
  shows "wp (writeOperation B base opId v) Q R (m, b)"
proof -
  have "operationAddr (base (mo_map m)) opId = Inr (base (mo_map m) + uint opId * 2)"
    using assms(3) by (simp add: operationAddr_def)
  then show ?thesis
    by (auto simp: writeOperation_def wp_bind wp_get writeInt32_def targetSlave_def
        intro!: wp_writeInt32To assms(1,2,4))
qed

end

end
