(* ===== verification/MotorProps.thy ===== *)
theory MotorProps
  imports MotorFacts
begin

text \<open>
  The properties of a motor on a healthy bus: flag updates, the coherence of the cached command
  word, operation numbers, the double-buffered speed update and the alarm reset edge, with
  their instances on a serial client over the libmodbus store.
\<close>

section \<open>Running actions\<close>

lemma wp_exec: "wp m Q (\<lambda>_ _. False) s \<Longrightarrow> \<exists>x s'. m s = (Inr x, s') \<and> Q x s'"
  by (auto simp: wp_def split: prod.splits sum.splits)

lemma cmdWord_pokes [simp]:
  assumes "rm_driverInputCommandLower (mo_map m) < a \<or> a + int (length vs) \<le> rm_driverInputCommandLower (mo_map m)"
  shows "cmdWord m (pokes s a vs rf) = cmdWord m rf"
  using assms
proof (induction vs arbitrary: a rf)
  case (Cons v vs)
  then show ?case by (auto simp: cmdWord_def)
qed simp

section \<open>A serial client on the register store\<close>

definition demoBus :: "ModbusClient \<times> FakeWorld" where
  "demoBus = (ctxClient 0 TransportRtuSerial, fakeReset)"

definition demoBusWith :: "RegisterFile \<Rightarrow> ModbusClient \<times> FakeWorld" where
  "demoBusWith rf = (ctxClient 0 TransportRtuSerial, fakeReset\<lparr>fw_holding := rf\<rparr>)"

definition demoMotor :: "int \<Rightarrow> int \<Rightarrow> Motor" where
  "demoMotor slave command = makeMotor XLeft slave makeArKd2RegisterMap command True"

lemma demo_ok: "fakeOk demoBus" "fakeRegs demoBus = (\<lambda>_ _. 0)"
    "fakeOk (demoBusWith rf)" "fakeRegs (demoBusWith rf) = rf"
  by (simp_all add: demoBus_def demoBusWith_def fakeOk_def ctxClient_def fakeRegs_def fakeReset_def)

lemma demo_motor: "0 \<le> s \<Longrightarrow> s \<le> 247 \<Longrightarrow> 0 < c \<Longrightarrow> c \<le> 247 \<Longrightarrow> slavesOk (demoMotor s c)"
  by (simp add: demoMotor_def makeMotor_def slavesOk_def)

lemma demo_coherent: "cacheCoherent rf (demoMotor s c)"
  by (simp add: demoMotor_def makeMotor_def cacheCoherent_def)

lemmas demo = demo_ok demo_motor demo_coherent fakeBus.register_bus_axioms

section \<open>Flags\<close>

text \<open>Setting or clearing a flag of the command word on a healthy bus changes exactly the
  bits of the flag's terminal in the command register: every other bit of that register (C-ON,
  the other inputs, the operation number) and every other register keeps its value, and the
  cache stays coherent.\<close>

theorem motor_flag_write:
  assumes "register_bus B ok slave regs writes" and "ok b" and "slavesOk m" and "cacheCoherent (regs b) m"
  shows "\<exists>m' b' word. setDriverInputFlag B flag on (m, b) = (Inr (), (m', b')) \<and> ok b'
    \<and> regs b' = pokeCmd m word (regs b) \<and> cacheCoherent (regs b') m'
    \<and> (\<forall>i. bit word i = (if bit (flagMask m flag) i then on else bit (cmdWord m (regs b)) i))"
  using wp_exec [OF register_bus.wp_setDriverInputFlag [OF assms, where on = on and flag = flag
      and Q = "\<lambda>_ (m', b'). ok b' \<and> regs b' = pokeCmd m (withBit (flagMask m flag) on (cmdWord m (regs b))) (regs b)
        \<and> cacheCoherent (regs b') m'"]]
  by (fastforce simp: bit_withBit)

theorem motor_flag_write_witness:
  "\<exists>m' b'. setDriverInputFlag (clientBus fakeNet) Fwd True (demoMotor 2 2, demoBus) = (Inr (), (m', b'))
    \<and> fakeRegs b' 2 0x7D = bitMask 14"
proof -
  obtain m' b' word where w: "setDriverInputFlag (clientBus fakeNet) Fwd True (demoMotor 2 2, demoBus) = (Inr (), (m', b'))"
    "fakeRegs b' = pokeCmd (demoMotor 2 2) word (fakeRegs demoBus)"
    "\<forall>i. bit word i = (if bit (flagMask (demoMotor 2 2) Fwd) i then True else bit (cmdWord (demoMotor 2 2) (fakeRegs demoBus)) i)"
    using motor_flag_write [OF fakeBus.register_bus_axioms demo_ok(1) demo_motor [of 2 2] demo_coherent, of Fwd True]
    by auto
  have "flagMask (demoMotor 2 2) Fwd = bitMask 14"
    by (simp add: flagMask_def functionMask_def netInputBitForFunction_def demoMotor_def makeMotor_def
        fallbackInputBitMaskForFunction_def function_codes inputMask_def)
  with w(3) have "word = bitMask 14"
    by (intro bit_word_eqI) (simp add: cmdWord_def demo_ok)
  with w(1,2) show ?thesis
    by (auto simp: pokeCmd_def demoMotor_def makeMotor_def makeArKd2RegisterMap_def)
qed

section \<open>Two addresses\<close>

text \<open>When commands go to an address of their own, a reading of the command word at the
  device address ends up in the cache that the next flag update modifies and writes back: the
  register at the command address becomes the device's word with the flag changed, and the bits
  it had itself are lost.\<close>

theorem motor_group_cache_overwrite:
  assumes "register_bus B ok slave regs writes" and "ok b" and "slavesOk m"
  shows "\<exists>m' b'. thenA (ignoreA (readDriverInputCommandRaw B)) (setDriverInputFlag B flag on) (m, b) = (Inr (), (m', b'))
    \<and> cmdWord m (regs b') = withBit (flagMask m flag) on
        (regs b (mo_slaveAddress m) (rm_driverInputCommandLower (mo_map m)))"
proof -
  let ?raw = "regs b (mo_slaveAddress m) (rm_driverInputCommandLower (mo_map m))"
  have "wp (thenA (ignoreA (readDriverInputCommandRaw B)) (setDriverInputFlag B flag on))
      (\<lambda>_ (m', b'). cmdWord m (regs b') = withBit (flagMask m flag) on ?raw) (\<lambda>_ _. False) (m, b)"
    unfolding readDriverInputCommandRaw_def ignoreA_def wp_then wp_bind wp_get fst_conv
  proof (rule register_bus.wp_readU16 [OF assms], goal_cases)
    case (1 b')
    show ?case
      unfolding wp_modify wp_ret cacheRaw_eq setDriverInputFlag_def cachedRaw_def wp_bind wp_get
      using 1 assms(3) by (auto simp: wp_ret wp_bind wp_get
          intro!: register_bus.wp_writeDriverInputCommandRaw [OF assms(1)])
  qed
  from wp_exec [OF this] show ?thesis by auto
qed

theorem motor_group_cache_overwrite_witness:
  "\<exists>m' b'. thenA (ignoreA (readDriverInputCommandRaw (clientBus fakeNet)))
      (setDriverInputFlag (clientBus fakeNet) Fwd True)
      (demoMotor 2 10, demoBusWith (poke 10 0x7D 0x80 (\<lambda>_ _. 0))) = (Inr (), (m', b'))
    \<and> fakeRegs b' 10 0x7D = 0x4000"
proof -
  let ?b = "demoBusWith (poke 10 0x7D 0x80 (\<lambda>_ _. 0))"
  have "flagMask (demoMotor 2 10) Fwd = bitMask 14"
    by (simp add: flagMask_def functionMask_def netInputBitForFunction_def demoMotor_def makeMotor_def
        fallbackInputBitMaskForFunction_def function_codes inputMask_def)
  then show ?thesis
    using motor_group_cache_overwrite [OF fakeBus.register_bus_axioms demo_ok(3) [of "poke 10 0x7D 0x80 (\<lambda>_ _. 0)"]
        demo_motor [of 2 10], of Fwd True]
    by (simp add: demo_ok cmdWord_def withBit_def bitMask_def)
      (simp add: demoMotor_def makeMotor_def makeArKd2RegisterMap_def)
qed

section \<open>Operation numbers\<close>

text \<open>C34: selecting an operation on a healthy bus, when the terminals of the six selecting
  functions are known to exist or nothing is known of the terminals: the command register then
  holds the number, so a reading of it (and the cache) answers it, and all bits that do not
  belong to the number are as before.\<close>

theorem motor_operation_roundtrip:
  assumes "register_bus B ok slave regs writes" and "ok b" and "slavesOk m" and "cacheCoherent (regs b) m"
    and "assignmentsOk m" and "operationInputsMapped m" and "opId \<le> 63"
  shows "\<exists>m' b'. setSelectedOperationId B opId (m, b) = (Inr (), (m', b'))
    \<and> fst (readSelectedOperationId B (m', b')) = Inr opId
    \<and> decodeOperationIdFromInputRawMapped m (cmdWord m (regs b')) = opId
    \<and> (\<forall>i. \<not> bit (operationIdMask m) i \<longrightarrow> bit (cmdWord m (regs b')) i = bit (cmdWord m (regs b)) i)"
proof -
  let ?raw = "encodeOperationId m opId (cmdWord m (regs b))"
  obtain m' b' where r: "setSelectedOperationId B opId (m, b) = (Inr (), (m', b'))"
    "m' = cachedMotor ?raw m" "regs b' = pokeCmd m ?raw (regs b)"
    using wp_exec [OF register_bus.wp_setSelectedOperationId [OF assms(1-4,7),
        where Q = "\<lambda>_ (m', b'). m' = cachedMotor ?raw m \<and> regs b' = pokeCmd m ?raw (regs b)"]]
    by auto
  have "\<not> bit (operationIdMask m) i \<longrightarrow> bit ?raw i = bit (cmdWord m (regs b)) i" for i
    unfolding bit_encodeOperationId [OF assms(5)] using bit_operationIdMask [OF assms(5)] by blast
  with r show ?thesis
    by (simp add: readSelectedOperationId_def decode_encode [OF assms(5-7)])
qed

theorem motor_operation_roundtrip_witness:
  "\<exists>m' b'. setSelectedOperationId (clientBus fakeNet) 9 (demoMotor 2 2, demoBus) = (Inr (), (m', b'))
    \<and> fst (readSelectedOperationId (clientBus fakeNet) (m', b')) = Inr 9"
proof -
  have "assignmentsOk (demoMotor 2 2)" "operationInputsMapped (demoMotor 2 2)"
    by (simp_all add: demoMotor_def makeMotor_def assignmentsOk_def operationInputsMapped_def)
  then show ?thesis
    using motor_operation_roundtrip [OF fakeBus.register_bus_axioms demo_ok(1) demo_motor [of 2 2] demo_coherent,
        of 9] by auto
qed

section \<open>The double-buffered speed update\<close>

text \<open>Writing the data of an operation and then selecting it, with or without a cached command word.\<close>

lemma cmdWord_operationData:
  assumes "mo_map m = makeArKd2RegisterMap" and "0 \<le> uint opId"
  shows "cmdWord m (pokes a (0x480 + uint opId * 2) vs (regs b)) = cmdWord m (regs b)"
proof (rule cmdWord_pokes)
  have "rm_driverInputCommandLower (mo_map m) = 125" using assms(1) by (simp add: makeArKd2RegisterMap_def)
  then show "rm_driverInputCommandLower (mo_map m) < 0x480 + uint opId * 2
      \<or> 0x480 + uint opId * 2 + int (length vs) \<le> rm_driverInputCommandLower (mo_map m)"
    using assms(2) by linarith
qed

lemma wp_speedIntoOperation:
  fixes speed :: i32
  assumes "register_bus B ok slave regs writes" and "slavesOk m" and "cacheCoherent (regs b) m"
    and "mo_map m = makeArKd2RegisterMap" and "opId \<le> 63"
    and "ok b0" and "regs b0 = regs b" and "m0 = m \<or> m0 = cachedMotor (cmdWord m (regs b)) m"
  defines "rf \<equiv> pokes (mo_commandSlaveAddress m) (0x480 + uint opId * 2) [upper16 speed, lower16 speed] (regs b)"
  shows "wp (thenA (setOperationSpeed B opId speed) (setSelectedOperationId B opId))
      (\<lambda>_ (m', b'). regs b' = pokeCmd m (encodeOperationId m opId (cmdWord m (regs b))) rf) (\<lambda>_ _. False) (m0, b0)"
  unfolding wp_then setOperationSpeed_def
proof (rule register_bus.wp_writeOperation [OF assms(1,6) _ assms(5)], goal_cases)
  case 1
  then show ?case using assms(2,8) by auto
next
  case (2 b1)
  have keep: "cmdWord m rf = cmdWord m (regs b)" unfolding rf_def by (rule cmdWord_operationData [OF assms(4)]) simp
  have rf: "regs b1 = rf"
    using 2(2) assms(4,7,8) by (auto simp: makeArKd2RegisterMap_def rf_def)
  have "cacheCoherent (regs b1) m0"
    unfolding rf using assms(3,8) coherent_cong [OF keep] keep coherent_cached by metis
  moreover have "slavesOk m0"
    using assms(2,8) by auto
  ultimately have "slavesOk m0" "cacheCoherent (regs b1) m0" by blast+
  from register_bus.wp_setSelectedOperationId [OF assms(1) 2(1) this assms(5)] show ?case
    using assms(8) rf keep by auto
qed

text \<open>C35: changing the speed of a running motor writes the operation that is not selected and
  then selects it: on a healthy bus with the AR-KD2 registers, the speed of the selected
  operation is never touched, the other one of the pair holds the new speed and is the selected
  one at the end, and no other register of the bus changes but the command word. Of the command word
  only the bits of the operation number may change: the enabling bit, the directions and the other
  inputs are as before.\<close>

theorem motor_speed_buffered:
  assumes "register_bus B ok slave regs writes" and "ok b" and "slavesOk m" and "cacheCoherent (regs b) m"
    and "assignmentsOk m" and "operationInputsMapped m" and "mo_map m = makeArKd2RegisterMap"
    and "active = decodeOperationIdFromInputRawMapped m (cmdWord m (regs b))"
    and "following = (if active = 0 then 1 else 0)"
  shows "\<exists>m' b' raw. updateConstantSpeedBuffered B speed (m, b) = (Inr (), (m', b'))
    \<and> regs b' = pokeCmd m raw (pokes (mo_commandSlaveAddress m) (0x480 + uint following * 2)
        [upper16 speed, lower16 speed] (regs b))
    \<and> decodeOperationIdFromInputRawMapped m raw = following \<and> following \<noteq> active
    \<and> (\<forall>i. \<not> bit (operationIdMask m) i \<longrightarrow> bit raw i = bit (cmdWord m (regs b)) i)"
proof -
  let ?raw = "encodeOperationId m following (cmdWord m (regs b))"
  define rf where "rf = pokes (mo_commandSlaveAddress m) (0x480 + uint following * 2) [upper16 speed, lower16 speed] (regs b)"
  have le: "following \<le> 63" "following \<noteq> active" "uint following \<le> 1" "0 \<le> uint following"
    using assms(9) by (auto split: if_splits)
  note step = wp_speedIntoOperation [OF assms(1,3,4,7) le(1), of _ _ speed, folded rf_def]
  have "wp (updateConstantSpeedBuffered B speed) (\<lambda>_ (m', b'). regs b' = pokeCmd m ?raw rf) (\<lambda>_ _. False) (m, b)"
  proof (cases "mo_selectedOperationIdCache m")
    case (Some opId)
    then have "opId = active"
      using assms(4,8) by (simp add: cacheCoherent_def)
    with Some step [OF assms(2)] show ?thesis
      by (simp add: updateConstantSpeedBuffered_def readSelectedOperationId_def wp_bind wp_get wp_ret assms(9) Let_def)
  next
    case None
    then show ?thesis
      unfolding updateConstantSpeedBuffered_def readSelectedOperationId_def wp_bind wp_get fst_conv
      using step assms(8,9) by (auto simp: wp_ret wp_bind Let_def intro!: register_bus.wp_readCommandTarget [OF assms(1-3)])
  qed
  from wp_exec [OF this] obtain m' b' where
    "updateConstantSpeedBuffered B speed (m, b) = (Inr (), (m', b'))" "regs b' = pokeCmd m ?raw rf"
    by auto
  moreover have "\<forall>i. \<not> bit (operationIdMask m) i \<longrightarrow> bit ?raw i = bit (cmdWord m (regs b)) i"
    unfolding bit_encodeOperationId [OF assms(5)] using bit_operationIdMask [OF assms(5)] by blast
  ultimately show ?thesis
    using decode_encode [OF assms(5,6) le(1)] le(2)
    by (intro exI [of _ m'] exI [of _ b'] exI [of _ ?raw]) (simp add: rf_def)
qed

theorem motor_speed_buffered_witness:
  "\<exists>m' b'. updateConstantSpeedBuffered (clientBus fakeNet) 7 (demoMotor 2 2, demoBus) = (Inr (), (m', b'))
    \<and> fakeRegs b' 2 0x480 = 0 \<and> fakeRegs b' 2 0x483 = 7"
proof -
  have m: "assignmentsOk (demoMotor 2 2)" "operationInputsMapped (demoMotor 2 2)"
    "mo_map (demoMotor 2 2) = makeArKd2RegisterMap" "mo_commandSlaveAddress (demoMotor 2 2) = 2"
    "rm_driverInputCommandLower (mo_map (demoMotor 2 2)) = 125"
    by (simp_all add: demoMotor_def makeMotor_def assignmentsOk_def operationInputsMapped_def makeArKd2RegisterMap_def)
  have active: "0 = decodeOperationIdFromInputRawMapped (demoMotor 2 2) (cmdWord (demoMotor 2 2) (fakeRegs demoBus))"
    by (rule bit_word_eqI) (simp add: bit_decodeOperationId [OF m(1)] cmdWord_def demo_ok)
  from motor_speed_buffered [OF fakeBus.register_bus_axioms demo_ok(1) demo_motor [of 2 2] demo_coherent m(1-3)
      active refl, of 7]
  obtain m' b' raw where r:
    "updateConstantSpeedBuffered (clientBus fakeNet) 7 (demoMotor 2 2, demoBus) = (Inr (), (m', b'))"
    "fakeRegs b' = pokeCmd (demoMotor 2 2) raw (pokes 2 0x482 [0, 7] (\<lambda>_ _. 0))"
    by (auto simp: m demo_ok upper16_def lower16_def)
  moreover have "rm_driverInputCommandLower makeArKd2RegisterMap = 125"
    using m(3,5) by simp
  ultimately show ?thesis
    by (simp add: pokeCmd_def m)
qed

section \<open>Coherence of the cache\<close>

text \<open>An action that keeps an invariant and does not throw.\<close>

definition returnsIn :: "('s \<Rightarrow> bool) \<Rightarrow> ('s, 'a) act \<Rightarrow> bool" where
  "returnsIn I m \<longleftrightarrow> (\<forall>s. I s \<longrightarrow> wp m (\<lambda>_. I) (\<lambda>_ _. False) s)"

lemma returnsInI: "(\<And>s. I s \<Longrightarrow> wp m (\<lambda>_. I) (\<lambda>_ _. False) s) \<Longrightarrow> returnsIn I m"
  by (simp add: returnsIn_def)

lemma returnsInD: "returnsIn I m \<Longrightarrow> I s \<Longrightarrow> wp m (\<lambda>_. I) (\<lambda>_ _. False) s"
  by (simp add: returnsIn_def)

lemma returnsIn_bind: "returnsIn I m \<Longrightarrow> (\<And>x. returnsIn I (f x)) \<Longrightarrow> returnsIn I (bindA m f)"
  by (auto simp: returnsIn_def wp_bind elim!: wp_mono)

lemma returnsIn_then: "returnsIn I m \<Longrightarrow> returnsIn I k \<Longrightarrow> returnsIn I (thenA m k)"
  by (simp add: thenA_def returnsIn_bind)

lemma returnsIn_get: "returnsIn I (getA g)" and returnsIn_ret: "returnsIn I (ret x)"
  by (simp_all add: returnsIn_def wp_get wp_ret)

lemmas returnsIn_rules = returnsIn_then returnsIn_bind returnsIn_get returnsIn_ret

text \<open>The member functions of a motor that use the bus or the caches, as commands.\<close>

datatype MotorParameter = ParRunCurrent | ParStopCurrent | ParStopInputAction | ParStartingSpeed | ParOverloadAlarm
  | ParExcessivePositionDeviationAlarm | ParOverloadWarning | ParExcessivePositionDeviationWarning
  | ParMotorRotationDirection | ParGroupId

fun setParameter :: "('c, 'w) BusOps \<Rightarrow> MotorParameter \<Rightarrow> i32 \<Rightarrow> ('c, 'w, unit) motorAct" where
  "setParameter B ParRunCurrent = setRunCurrent B"
| "setParameter B ParStopCurrent = setStopCurrent B"
| "setParameter B ParStopInputAction = setStopInputAction B"
| "setParameter B ParStartingSpeed = setStartingSpeed B"
| "setParameter B ParOverloadAlarm = setOverloadAlarm B"
| "setParameter B ParExcessivePositionDeviationAlarm = setExcessivePositionDeviationAlarm B"
| "setParameter B ParOverloadWarning = setOverloadWarning B"
| "setParameter B ParExcessivePositionDeviationWarning = setExcessivePositionDeviationWarning B"
| "setParameter B ParMotorRotationDirection = setMotorRotationDirection B"
| "setParameter B ParGroupId = setGroupId B"

datatype MotorOp = OpInitialize | OpReadU32 int | OpWriteInt32 int i32 | OpReadU16 int | OpWriteU16 int u16
  | OpReadAlarm | OpReadWarning | OpReadCommunicationError | OpReadInput | OpReadOutput | OpReadDirectIo
  | OpReadMonitor | OpWriteInput u16 | OpFlag MotorInputFlag bool | OpPulse MotorInputFlag int
  | OpPulseStart | OpPulseStop | OpPulseHome | OpForward bool | OpReverse bool | OpJogPlus bool | OpJogMinus bool
  | OpEnable bool | OpInvalidate | OpReadSelected | OpSelect u8
  | OpMode u8 MotorOperationMode | OpFunction u8 MotorOperationFunction | OpPosition u8 i32 | OpOperationSpeed u8 i32
  | OpAcceleration u8 i32 | OpDeceleration u8 i32 | OpParameter MotorParameter i32 | OpExecuteConfiguration
  | OpReadGroupId | OpPair i32 i32 i32 i32 | OpSpeed i32 | OpResetAlarm

fun motorOp :: "('c, 'w) BusOps \<Rightarrow> MotorOp \<Rightarrow> ('c, 'w, unit) motorAct" where
  "motorOp B OpInitialize = motorInitialize B"
| "motorOp B (OpReadU32 addr) = ignoreA (readU32 B addr)"
| "motorOp B (OpWriteInt32 addr v) = writeInt32 B addr v"
| "motorOp B (OpReadU16 addr) = ignoreA (readU16 B addr)"
| "motorOp B (OpWriteU16 addr v) = writeU16 B addr v"
| "motorOp B OpReadAlarm = ignoreA (readAlarmCode B)"
| "motorOp B OpReadWarning = ignoreA (readWarningCode B)"
| "motorOp B OpReadCommunicationError = ignoreA (readCommunicationErrorCode B)"
| "motorOp B OpReadInput = ignoreA (readDriverInputCommandRaw B)"
| "motorOp B OpReadOutput = ignoreA (readDriverOutputStatusRaw B)"
| "motorOp B OpReadDirectIo = ignoreA (readDirectIoAndBrakeStatusRaw B)"
| "motorOp B OpReadMonitor = ignoreA (readMonitorSnapshot B)"
| "motorOp B (OpWriteInput raw) = writeDriverInputCommandRaw B raw"
| "motorOp B (OpFlag flag on) = setDriverInputFlag B flag on"
| "motorOp B (OpPulse flag hold) = pulseDriverInputFlag B flag hold"
| "motorOp B OpPulseStart = pulseStart B"
| "motorOp B OpPulseStop = pulseStop B"
| "motorOp B OpPulseHome = pulseHome B"
| "motorOp B (OpForward on) = setForward B on"
| "motorOp B (OpReverse on) = setReverse B on"
| "motorOp B (OpJogPlus on) = setJogPlus B on"
| "motorOp B (OpJogMinus on) = setJogMinus B on"
| "motorOp B (OpEnable on) = setEnabled B on"
| "motorOp B OpInvalidate = invalidateDriverInputCommandCache"
| "motorOp B OpReadSelected = ignoreA (readSelectedOperationId B)"
| "motorOp B (OpSelect opId) = setSelectedOperationId B opId"
| "motorOp B (OpMode opId mode) = setOperationMode B opId mode"
| "motorOp B (OpFunction opId f) = setOperationFunction B opId f"
| "motorOp B (OpPosition opId v) = setOperationPosition B opId v"
| "motorOp B (OpOperationSpeed opId v) = setOperationSpeed B opId v"
| "motorOp B (OpAcceleration opId v) = setOperationAcceleration B opId v"
| "motorOp B (OpDeceleration opId v) = setOperationDeceleration B opId v"
| "motorOp B (OpParameter par v) = setParameter B par v"
| "motorOp B OpExecuteConfiguration = executeConfiguration B"
| "motorOp B OpReadGroupId = ignoreA (readGroupId B)"
| "motorOp B (OpPair s0 s1 acc d) = configureConstantSpeedPair B s0 s1 acc d"
| "motorOp B (OpSpeed v) = updateConstantSpeedBuffered B v"
| "motorOp B OpResetAlarm = resetAlarm B"

text \<open>The two raw register writes, which do not know the cache, aimed past the command word.\<close>

fun aimsAtCommandWord :: "MotorOp \<Rightarrow> bool" where
  "aimsAtCommandWord (OpWriteInt32 addr v) = (addr = 0x7D \<or> addr + 1 = 0x7D)"
| "aimsAtCommandWord (OpWriteU16 addr v) = (addr = 0x7D)"
| "aimsAtCommandWord _ = False"

definition oneAddress :: "('c \<times> 'w \<Rightarrow> bool) \<Rightarrow> int \<Rightarrow> Motor \<times> ('c \<times> 'w) \<Rightarrow> bool" where
  "oneAddress ok a = (\<lambda>(m, b). ok b \<and> slavesOk m \<and> mo_map m = makeArKd2RegisterMap
     \<and> mo_slaveAddress m = a \<and> mo_commandSlaveAddress m = a)"

definition singleAddress ::
  "('c \<times> 'w \<Rightarrow> bool) \<Rightarrow> ('c \<times> 'w \<Rightarrow> RegisterFile) \<Rightarrow> int \<Rightarrow> Motor \<times> ('c \<times> 'w) \<Rightarrow> bool" where
  "singleAddress ok regs a = (\<lambda>(m, b). ok b \<and> slavesOk m \<and> mo_map m = makeArKd2RegisterMap
     \<and> mo_slaveAddress m = a \<and> mo_commandSlaveAddress m = a \<and> cacheCoherent (regs b) m)"

context register_bus
begin

lemma single_flag: "preserves (singleAddress ok regs a) (setDriverInputFlag B flag on)"
  by (rule preservesI) (auto simp: singleAddress_def intro!: wp_setDriverInputFlag)

lemma single_readInput: "preserves (singleAddress ok regs a) (readDriverInputCommandRaw B)"
  by (rule preservesI)
    (auto simp: singleAddress_def readDriverInputCommandRaw_def wp_simps cacheRaw_eq coherent_cached cmdWord_def
      intro!: wp_readU16)

lemma single_readCommand: "preserves (singleAddress ok regs a) (readDriverInputCommandRawCommandTarget B)"
  by (rule preservesI) (auto simp: singleAddress_def coherent_cached intro!: wp_readCommandTarget)

lemma single_readU16: "preserves (singleAddress ok regs a) (readU16 B addr)"
  by (rule preservesI) (auto simp: singleAddress_def intro!: wp_readU16)

lemma single_readU32: "preserves (singleAddress ok regs a) (readU32 B addr)"
  by (rule preservesI) (auto simp: singleAddress_def intro!: wp_readU32)

lemma single_writeRaw: "preserves (singleAddress ok regs a) (writeDriverInputCommandRaw B raw)"
  by (rule preservesI) (auto simp: singleAddress_def intro!: wp_writeDriverInputCommandRaw)

lemma single_cachedRaw:
  "preserves (singleAddress ok regs a) r \<Longrightarrow> preserves (singleAddress ok regs a) (cachedRaw r)"
  unfolding cachedRaw_def by (intro preserves_getbind) (auto split: option.split)

lemma single_writeInt32:
  assumes "r + 1 < 125 \<or> 125 < r"
  shows "preserves (singleAddress ok regs a) (writeInt32To B r v t)"
proof (rule preservesI)
  fix s assume s: "singleAddress ok regs a s"
  obtain m b where mb: "s = (m, b)" by (cases s)
  have keep: "cmdWord m (pokes (targetSlave t m) r [upper16 v, lower16 v] (regs b)) = cmdWord m (regs b)"
    using s mb assms by (cases "targetSlave t m = mo_commandSlaveAddress m")
      (auto simp: singleAddress_def cmdWord_def makeArKd2RegisterMap_def)
  show "wp (writeInt32To B r v t) (\<lambda>_. singleAddress ok regs a) (\<lambda>_. singleAddress ok regs a) s"
    unfolding mb using s mb coherent_cong [OF keep]
    by (auto simp: singleAddress_def simp del: pokes.simps intro!: wp_writeInt32To)
qed

lemma single_map: "singleAddress ok regs a s \<Longrightarrow> mo_map (fst s) = makeArKd2RegisterMap"
  by (auto simp: singleAddress_def)

lemma single_operation:
  assumes "125 < base makeArKd2RegisterMap"
  shows "preserves (singleAddress ok regs a) (writeOperation B base opId v)"
  unfolding writeOperation_def writeInt32_def
proof (rule preserves_getbind)
  fix s assume "singleAddress ok regs a s"
  then have "operationAddr (base (mo_map (fst s))) opId = Inr r \<Longrightarrow> r = base makeArKd2RegisterMap + uint opId * 2" for r
    by (auto simp: operationAddr_def single_map split: if_splits)
  moreover have "125 < base makeArKd2RegisterMap + uint opId * 2"
    using assms uint_ge_0 [of opId] by linarith
  ultimately have "operationAddr (base (mo_map (fst s))) opId = Inr r \<Longrightarrow> 125 < r" for r
    by metis
  then show "preserves (singleAddress ok regs a) (case operationAddr (base (mo_map (fst s))) opId of
      Inl e \<Rightarrow> throwA e | Inr addr \<Rightarrow> writeInt32To B addr v CommandTarget)"
    by (auto split: sum.split intro: single_writeInt32)
qed

lemma single_parameter:
  assumes "reg makeArKd2RegisterMap + 1 < 125 \<or> 125 < reg makeArKd2RegisterMap"
  shows "preserves (singleAddress ok regs a) (writeParameter B reg v)"
  unfolding writeParameter_def using assms
  by (intro preserves_getbind) (simp add: single_map single_writeInt32)

lemma single_select: "preserves (singleAddress ok regs a) (setSelectedOperationId B opId)"
  unfolding setSelectedOperationId_def
  by (auto intro!: single_cachedRaw single_readCommand single_writeRaw)

lemma single_sleep: "preserves (singleAddress ok regs a) (modifyA (\<lambda>(m, c, w). (m, c, bo_sleep B ms w)))"
  using sleep by (auto simp: singleAddress_def)

lemma single_writeU16:
  assumes "addr \<noteq> 125"
  shows "preserves (singleAddress ok regs a) (writeU16 B addr v)"
proof -
  have "cmdWord m (poke sl addr v rf) = cmdWord m rf" if "mo_map m = makeArKd2RegisterMap" for m rf sl
    using assms that by (simp add: cmdWord_def makeArKd2RegisterMap_def)
  then have "cacheCoherent (poke sl addr v rf) m = cacheCoherent rf m" if "mo_map m = makeArKd2RegisterMap" for m rf sl
    using that by (intro coherent_cong) simp
  then show ?thesis
    by (intro preservesI) (auto simp: singleAddress_def intro!: wp_writeU16)
qed

lemma single_readSelected: "preserves (singleAddress ok regs a) (readSelectedOperationId B)"
  unfolding readSelectedOperationId_def
  by (intro preserves_getbind) (auto split: option.split intro!: single_readCommand)

lemma single_enable: "preserves (singleAddress ok regs a) (setEnabled B on)"
proof -
  have "preserves (singleAddress ok regs a) (case netInputBitForFunction m kFunctionCOn of None \<Rightarrow> ret ()
      | Some i \<Rightarrow> writeDriverInputCommandRaw B (withBit (bitMask i) on raw))" for m raw
    by (auto split: option.split intro: single_writeRaw)
  then show ?thesis
    unfolding setEnabled_def by (intro preserves_bind preserves_getbind single_cachedRaw single_readInput)
qed

lemma single_pulse: "preserves (singleAddress ok regs a) (pulseDriverInputFlag B flag hold)"
  by (auto simp: pulseDriverInputFlag_def intro!: single_flag single_sleep)

lemma single_invalidate: "preserves (singleAddress ok regs a) invalidateDriverInputCommandCache"
  by (simp add: preserves_def invalidateDriverInputCommandCache_def singleAddress_def slavesOk_def coherent_uncached
      split: prod.split)

lemma single_codes:
  "preserves (singleAddress ok regs a) (readAlarmCode B)" "preserves (singleAddress ok regs a) (readWarningCode B)"
  "preserves (singleAddress ok regs a) (readCommunicationErrorCode B)" "preserves (singleAddress ok regs a) (readGroupId B)"
  "preserves (singleAddress ok regs a) (readDriverOutputStatusRaw B)"
  "preserves (singleAddress ok regs a) (readDirectIoAndBrakeStatusRaw B)"
  by (auto simp: readAlarmCode_def readWarningCode_def readCommunicationErrorCode_def readGroupId_def
      readDriverOutputStatusRaw_def readDirectIoAndBrakeStatusRaw_def intro!: single_readU16 single_readU32)

lemma single_monitor: "preserves (singleAddress ok regs a) (readMonitorSnapshot B)"
  by (rule preservesI)
    (auto simp: singleAddress_def readMonitorSnapshot_def wp_bind wp_get Let_def makeArKd2RegisterMap_def wp_then wp_ret
      wp_Pair readI32At_def liftE_def intro!: wp_selectSlave wp_readRegisters)

lemma single_pair: "preserves (singleAddress ok regs a) (configureConstantSpeedPair B s0 s1 acc d)"
  unfolding configureConstantSpeedPair_def setOperationMode_def setOperationFunction_def
    setOperationSpeed_def setOperationAcceleration_def setOperationDeceleration_def seqA.simps
  by (intro preserves_then preserves_ret single_select single_operation) (simp_all add: makeArKd2RegisterMap_def)

lemma single_buffered: "preserves (singleAddress ok regs a) (updateConstantSpeedBuffered B v)"
  unfolding updateConstantSpeedBuffered_def setOperationSpeed_def Let_def
  by (intro preserves_bind preserves_then single_select single_readSelected single_operation)
    (simp add: makeArKd2RegisterMap_def)

lemma single_resetAlarm: "preserves (singleAddress ok regs a) (resetAlarm B)"
proof -
  have "preserves (singleAddress ok regs a) (writeParameter B rm_alarmResetCommand v)" for v
    by (rule single_parameter) (simp add: makeArKd2RegisterMap_def)
  then have "preserves (singleAddress ok regs a) (if code = 0 then ret () else thenA
      (writeParameter B rm_alarmResetCommand 0) (writeParameter B rm_alarmResetCommand 1))" for code :: u8
    by (simp add: preserves_ret preserves_then)
  then show ?thesis
    unfolding resetAlarm_def by (intro preserves_bind single_codes)
qed

lemma single_setParameter: "preserves (singleAddress ok regs a) (setParameter B par v)"
  by (cases par) (auto simp: setRunCurrent_def setStopCurrent_def setStopInputAction_def setStartingSpeed_def
      setOverloadAlarm_def setExcessivePositionDeviationAlarm_def setOverloadWarning_def
      setExcessivePositionDeviationWarning_def setMotorRotationDirection_def setGroupId_def makeArKd2RegisterMap_def
      intro!: single_parameter)

text \<open>The initialisation: it forgets the caches and learns the terminals, and its last reading of the
  command word is decoded with the terminals learnt.\<close>

lemma one_select: "returnsIn (oneAddress ok a) (selectSlave B t)"
  by (rule returnsInI) (auto simp: oneAddress_def intro!: wp_selectSlave)

lemma one_read: "0 < n \<Longrightarrow> n \<le> 125 \<Longrightarrow> returnsIn (oneAddress ok a) (readRegisters B addr n msg)"
  by (rule returnsInI) (auto simp: oneAddress_def intro!: wp_readRegisters)

lemma one_readU16: "returnsIn (oneAddress ok a) (readU16 B addr)"
  by (rule returnsInI) (auto simp: oneAddress_def intro!: wp_readU16)

lemma one_readU32: "returnsIn (oneAddress ok a) (readU32 B addr)"
  by (rule returnsInI) (auto simp: oneAddress_def intro!: wp_readU32)

lemma one_cache: "returnsIn (oneAddress ok a) (modifyA (cacheRaw raw))"
  by (auto simp: returnsIn_def wp_modify oneAddress_def cacheRaw_eq)

lemma one_update:
  assumes "\<And>x m. mo_slaveAddress (f x m) = mo_slaveAddress m" "\<And>x m. mo_commandSlaveAddress (f x m) = mo_commandSlaveAddress m"
    "\<And>x m. mo_map (f x m) = mo_map m" and "returnsIn (oneAddress ok a) act"
  shows "returnsIn (oneAddress ok a) (motorUpdateA f act)"
  unfolding motorUpdateA_def
  by (intro returnsIn_bind assms(4)) (auto simp: returnsIn_def wp_modify oneAddress_def slavesOk_def assms)

lemma one_test: "returnsIn (oneAddress ok a) (presentAlarmTest B)"
proof (rule returnsInI)
  fix s assume s: "oneAddress ok a s"
  obtain m b where mb: "s = (m, b)" by (cases s)
  show "wp (presentAlarmTest B) (\<lambda>_. oneAddress ok a) (\<lambda>_ _. False) s"
    using s readHolding [of b 2 "rm_presentAlarm (mo_map m)"]
    by (auto simp: mb presentAlarmTest_def ignoreA_def wp_simps wp_busA oneAddress_def)
qed

lemmas one_atoms = one_select one_read one_readU16 one_readU32 one_cache one_test

lemma one_net: "returnsIn (oneAddress ok a) (readNetAssignments B what base)"
  unfolding readNetAssignments_def Let_def by (intro returnsIn_rules one_atoms) simp_all

lemma single_initialize: "preserves (singleAddress ok regs a) (motorInitialize B)"
proof -
  have forget: "returnsIn (oneAddress ok a) (modifyA (\<lambda>(m, b). (forgetCaches m, b)))"
    by (auto simp: returnsIn_def wp_modify oneAddress_def forgetCaches_def slavesOk_def)
  have codes: "returnsIn (oneAddress ok a) (ignoreA (readAlarmCode B))" "returnsIn (oneAddress ok a) (ignoreA (readWarningCode B))"
    "returnsIn (oneAddress ok a) (ignoreA (readCommunicationErrorCode B))"
    "returnsIn (oneAddress ok a) (ignoreA (readDriverInputCommandRaw B))"
    "returnsIn (oneAddress ok a) (ignoreA (readDriverOutputStatusRaw B))"
    "returnsIn (oneAddress ok a) (ignoreA (readDirectIoAndBrakeStatusRaw B))"
    unfolding ignoreA_def readAlarmCode_def readWarningCode_def readCommunicationErrorCode_def readDriverInputCommandRaw_def
      readDriverOutputStatusRaw_def readDirectIoAndBrakeStatusRaw_def
    by (intro returnsIn_rules one_atoms)+
  have assigns: "returnsIn (oneAddress ok a) (readOutputFunctionAssignments B)" "returnsIn (oneAddress ok a) (readInputFunctionAssignments B)"
    "returnsIn (oneAddress ok a) (readNetOutputFunctionAssignments B)" "returnsIn (oneAddress ok a) (readNetInputFunctionAssignments B)"
    unfolding readOutputFunctionAssignments_def readInputFunctionAssignments_def readNetOutputFunctionAssignments_def
      readNetInputFunctionAssignments_def
    by (intro returnsIn_rules one_atoms one_net; simp)+
  have update: "returnsIn (oneAddress ok a) (motorUpdateA (\<lambda>x m. m\<lparr>mo_outputFunctionAssignments := Some x\<rparr>) (readOutputFunctionAssignments B))"
    "returnsIn (oneAddress ok a) (motorUpdateA (\<lambda>x m. m\<lparr>mo_inputFunctionAssignments := Some x\<rparr>) (readInputFunctionAssignments B))"
    "returnsIn (oneAddress ok a) (motorUpdateA (\<lambda>x m. m\<lparr>mo_netOutputFunctionAssignments := Some x\<rparr>) (readNetOutputFunctionAssignments B))"
    "returnsIn (oneAddress ok a) (motorUpdateA (\<lambda>x m. m\<lparr>mo_netInputFunctionAssignments := Some x\<rparr>) (readNetInputFunctionAssignments B))"
    by (rule one_update; simp add: assigns)+
  have last: "wp (ignoreA (readDriverInputCommandRaw B)) (\<lambda>_. singleAddress ok regs a) (\<lambda>_ _. False) s" if "oneAddress ok a s" for s
    using that by (cases s) (auto simp: oneAddress_def singleAddress_def ignoreA_def readDriverInputCommandRaw_def wp_simps
        cacheRaw_eq coherent_cached cmdWord_def intro!: wp_readU16)
  have step: "wp (thenA act k) (\<lambda>_. singleAddress ok regs a) (\<lambda>_. singleAddress ok regs a) s"
    if "returnsIn (oneAddress ok a) act" "oneAddress ok a s"
      "\<And>s. oneAddress ok a s \<Longrightarrow> wp k (\<lambda>_. singleAddress ok regs a) (\<lambda>_. singleAddress ok regs a) s"
    for act :: "('c, 'w, unit) motorAct" and k :: "('c, 'w, unit) motorAct" and s
    unfolding wp_then by (rule wp_mono [OF returnsInD [OF that(1,2)]]) (use that(3) in blast)+
  have finish: "wp (thenA (ignoreA (readDriverInputCommandRaw B)) k) (\<lambda>_. singleAddress ok regs a) (\<lambda>_. singleAddress ok regs a) s"
    if "oneAddress ok a s" "preserves (singleAddress ok regs a) k" for k :: "('c, 'w, unit) motorAct" and s
    unfolding wp_then by (rule wp_mono [OF last [OF that(1)]]) (auto intro: preserves_wp [OF that(2)])
  show ?thesis
  proof (rule preservesI)
    fix s assume "singleAddress ok regs a s"
    then have "oneAddress ok a s" by (cases s) (simp add: singleAddress_def oneAddress_def)
    then show "wp (motorInitialize B) (\<lambda>_. singleAddress ok regs a) (\<lambda>_. singleAddress ok regs a) s"
      unfolding motorInitialize_def seqA.simps
      by (intro step forget one_select one_test codes update finish preserves_then preserves_ret)
        (auto simp: ignoreA_def intro!: single_codes)
  qed
qed

lemmas single_atoms = single_flag single_readInput single_readCommand single_readU16 single_readU32 single_writeRaw
  single_writeU16 single_writeInt32 single_cachedRaw single_operation single_parameter single_select single_sleep
  single_readSelected single_enable single_pulse single_invalidate single_codes single_monitor single_pair single_buffered
  single_resetAlarm single_setParameter single_initialize

lemma single_op: "\<not> aimsAtCommandWord op \<Longrightarrow> preserves (singleAddress ok regs a) (motorOp B op)"
  by (cases op) (auto simp: ignoreA_def pulseStart_def pulseStop_def pulseHome_def setForward_def setReverse_def
      setJogPlus_def setJogMinus_def setOperationMode_def setOperationFunction_def setOperationPosition_def
      setOperationSpeed_def setOperationAcceleration_def setOperationDeceleration_def executeConfiguration_def
      writeInt32_def makeArKd2RegisterMap_def intro!: single_atoms)

lemma single_run:
  "singleAddress ok regs a s \<Longrightarrow> \<forall>op \<in> set ops. \<not> aimsAtCommandWord op
    \<Longrightarrow> singleAddress ok regs a (fold (\<lambda>op s. snd (motorOp B op s)) ops s)"
  by (induction ops arbitrary: s) (simp_all add: preservesD [OF single_op] del: split_paired_All)

end

text \<open>C36: for a motor with a single slave address and the AR-KD2 registers, on a healthy bus, over every
  sequence of its member functions in any order (the initialisation and the raw register writes among them,
  these aimed at other registers than the command word), the caches never disagree with the driver: a cached
  command word is the content of the command register of that address, and a cached operation number is the
  one selected there, with or without a cached command word.\<close>

theorem motor_cache_coherent:
  assumes "register_bus B ok slave regs writes" and "ok b" and "slavesOk m" and "mo_map m = makeArKd2RegisterMap"
    and "mo_commandSlaveAddress m = mo_slaveAddress m" and "cacheCoherent (regs b) m"
    and "\<forall>op \<in> set ops. \<not> aimsAtCommandWord op"
    and "fold (\<lambda>op s. snd (motorOp B op s)) ops (m, b) = (m', b')"
  shows "(\<forall>raw. mo_driverInputCommandRawCache m' = Some raw \<longrightarrow> raw = regs b' (mo_slaveAddress m) 0x7D)
    \<and> (\<forall>opId. mo_selectedOperationIdCache m' = Some opId
        \<longrightarrow> opId = decodeOperationIdFromInputRawMapped m' (regs b' (mo_slaveAddress m) 0x7D))
    \<and> mo_slaveAddress m' = mo_slaveAddress m \<and> mo_commandSlaveAddress m' = mo_slaveAddress m"
  using register_bus.single_run [OF assms(1), of "mo_slaveAddress m" "(m, b)" ops] assms(2-)
  by (auto simp: singleAddress_def cacheCoherent_def cmdWord_def makeArKd2RegisterMap_def)

theorem motor_cache_coherent_witness:
  "\<exists>m' b'. fold (\<lambda>op s. snd (motorOp (clientBus fakeNet) op s))
      [OpInitialize, OpFlag Fwd True, OpInvalidate, OpWriteU16 0x7F 5] (demoMotor 2 2, demoBus) = (m', b')
    \<and> (\<forall>raw. mo_driverInputCommandRawCache m' = Some raw \<longrightarrow> raw = fakeRegs b' 2 0x7D)
    \<and> (\<forall>opId. mo_selectedOperationIdCache m' = Some opId
        \<longrightarrow> opId = decodeOperationIdFromInputRawMapped m' (fakeRegs b' 2 0x7D))"
proof -
  let ?ops = "[OpInitialize, OpFlag Fwd True, OpInvalidate, OpWriteU16 0x7F 5]"
  obtain m' b' where run: "fold (\<lambda>op s. snd (motorOp (clientBus fakeNet) op s)) ?ops (demoMotor 2 2, demoBus) = (m', b')"
    by (metis surj_pair)
  have motor: "mo_map (demoMotor 2 2) = makeArKd2RegisterMap"
    "mo_commandSlaveAddress (demoMotor 2 2) = mo_slaveAddress (demoMotor 2 2)" "mo_slaveAddress (demoMotor 2 2) = 2"
    by (simp_all add: demoMotor_def makeMotor_def)
  have "\<forall>op \<in> set ?ops. \<not> aimsAtCommandWord op" by simp
  from motor_cache_coherent [OF fakeBus.register_bus_axioms demo_ok(1) demo_motor [of 2 2] motor(1,2) demo_coherent this run]
  show ?thesis using run motor(3) by auto
qed

section \<open>Alarm reset\<close>

text \<open>Resetting an alarm on a healthy bus writes to the alarm reset register of the device,
  and only there, first 0 and then 1, the rising edge the driver needs, exactly when an alarm
  is present; without an alarm nothing is written.\<close>

theorem motor_reset_alarm_edge:
  assumes "register_bus B ok slave regs writes" and "ok b" and "slavesOk m"
    and "code = (ucast (regs b (mo_slaveAddress m) (rm_presentAlarm (mo_map m) + 1)) :: u8)"
  shows "\<exists>b'. resetAlarm B (m, b) = (Inr (), (m, b')) \<and> writes b' = writes b @ (if code = 0 then [] else
      [MultipleRegisters (mo_slaveAddress m) (rm_alarmResetCommand (mo_map m)) [0, 0],
       MultipleRegisters (mo_slaveAddress m) (rm_alarmResetCommand (mo_map m)) [0, 1]])"
proof -
  have low: "(ucast (word32 h l) :: u8) = ucast l" for h l
    unfolding word32_def by (rule bit_word_eqI) (auto simp: bit_simps)
  have words: "upper16 0 = 0" "lower16 0 = 0" "upper16 1 = 0" "lower16 1 = 1"
    by (simp_all add: upper16_def lower16_def)
  have "wp (resetAlarm B) (\<lambda>_ (m', b'). m' = m \<and> writes b' = writes b @ (if code = 0 then [] else
      [MultipleRegisters (mo_slaveAddress m) (rm_alarmResetCommand (mo_map m)) [0, 0],
       MultipleRegisters (mo_slaveAddress m) (rm_alarmResetCommand (mo_map m)) [0, 1]])) (\<lambda>_ _. False) (m, b)"
    unfolding resetAlarm_def readAlarmCode_def wp_bind wp_get fst_conv
  proof (rule register_bus.wp_readU32 [OF assms(1-3)], goal_cases)
    case (1 b1)
    show ?case
      unfolding wp_ret low assms(4) [symmetric] using 1
      by (auto simp: wp_ret wp_then wp_bind wp_get writeParameter_def targetSlave_def words
          intro!: register_bus.wp_writeInt32To [OF assms(1)] assms(3))
  qed
  from wp_exec [OF this] show ?thesis by auto
qed

theorem motor_reset_alarm_edge_witness:
  "\<exists>b'. resetAlarm (clientBus fakeNet) (demoMotor 2 2, demoBusWith (poke 2 0x81 0x30 (\<lambda>_ _. 0))) = (Inr (), (demoMotor 2 2, b'))
    \<and> fakeWrites b' = [MultipleRegisters 2 0x180 [0, 0], MultipleRegisters 2 0x180 [0, 1]]"
proof -
  have fields: "mo_slaveAddress (demoMotor 2 2) = 2" "rm_presentAlarm (mo_map (demoMotor 2 2)) = 0x80"
    "rm_alarmResetCommand (mo_map (demoMotor 2 2)) = 0x180"
    by (simp_all add: demoMotor_def makeMotor_def makeArKd2RegisterMap_def)
  have "fakeWrites (demoBusWith rf) = []" for rf
    by (simp add: fakeWrites_def demoBusWith_def fakeReset_def)
  then show ?thesis
    using motor_reset_alarm_edge [OF fakeBus.register_bus_axioms demo_ok(3) [of "poke 2 0x81 0x30 (\<lambda>_ _. 0)"]
        demo_motor [of 2 2] refl] by (simp add: fields demo_ok)
qed

section \<open>The monitor block\<close>

text \<open>On a healthy bus with the AR-KD2 registers one request of sixteen registers reads the
  monitor block: the snapshot holds the 32-bit values of the command position, actual speed and
  actual position registers and the two IO words, and nothing is written.\<close>

theorem motor_monitor_snapshot:
  assumes "register_bus B ok slave regs writes" and "ok b" and "slavesOk m"
    and "mo_map m = makeArKd2RegisterMap" and "r = regs b (mo_slaveAddress m)"
  shows "\<exists>b'. readMonitorSnapshot B (m, b) = (Inr \<lparr>ms_commandPosition = word32 (r 0xC6) (r 0xC7),
      ms_actualSpeed = word32 (r 0xCE) (r 0xCF), ms_actualPosition = word32 (r 0xCC) (r 0xCD),
      ms_reg00D4 = r 0xD4, ms_reg00D5 = r 0xD5\<rparr>, (m, b')) \<and> writes b' = writes b"
proof -
  have "wp (readMonitorSnapshot B) (\<lambda>x (m', b'). m' = m \<and> writes b' = writes b \<and>
      x = \<lparr>ms_commandPosition = word32 (r 0xC6) (r 0xC7), ms_actualSpeed = word32 (r 0xCE) (r 0xCF),
        ms_actualPosition = word32 (r 0xCC) (r 0xCD), ms_reg00D4 = r 0xD4, ms_reg00D5 = r 0xD5\<rparr>) (\<lambda>_ _. False) (m, b)"
    unfolding readMonitorSnapshot_def wp_bind wp_get fst_conv assms(4) Let_def
    by (auto simp: makeArKd2RegisterMap_def wp_then wp_bind wp_ret wp_Pair readI32At_def liftE_def assms(5) targetSlave_def
        intro!: register_bus.wp_selectSlave [OF assms(1-3)] register_bus.wp_readRegisters [OF assms(1)])
  from wp_exec [OF this] show ?thesis by auto
qed

theorem motor_monitor_snapshot_witness:
  "\<exists>b'. readMonitorSnapshot (clientBus fakeNet) (demoMotor 2 2, demoBusWith (\<lambda>_ a. word_of_int a)) =
    (Inr \<lparr>ms_commandPosition = word32 0xC6 0xC7, ms_actualSpeed = word32 0xCE 0xCF,
      ms_actualPosition = word32 0xCC 0xCD, ms_reg00D4 = 0xD4, ms_reg00D5 = 0xD5\<rparr>, (demoMotor 2 2, b'))"
proof -
  have "mo_map (demoMotor 2 2) = makeArKd2RegisterMap" "mo_slaveAddress (demoMotor 2 2) = 2"
    by (simp_all add: demoMotor_def makeMotor_def)
  then show ?thesis
    using motor_monitor_snapshot [OF fakeBus.register_bus_axioms demo_ok(3) [of "\<lambda>_ a. word_of_int a"]
        demo_motor [of 2 2] _ refl] by (fastforce simp: demo_ok)
qed

end
