(* ===== verification/MotorControlProps.thy ===== *)
theory MotorControlProps
  imports MotorOps MotorProps
begin

text \<open>
  The motor control component: what an initialisation leaves behind, the invariant of its maps,
  bus and state over every sequence of operations on any bus, the reaction to a broken
  connection, and the direction interlock on a healthy bus.
\<close>

section \<open>The invariant\<close>

definition sameKeys :: "('k \<Rightarrow> 'a option) \<Rightarrow> ('k \<Rightarrow> 'b option) \<Rightarrow> bool" where
  "sameKeys f g \<longleftrightarrow> (\<forall>k. f k = None \<longleftrightarrow> g k = None)"

lemma sameKeys_domD: "sameKeys f g \<Longrightarrow> dom f = dom g"
  by (auto simp: sameKeys_def set_eq_iff domIff)

lemma sameKeys_put: "sameKeys f g \<Longrightarrow> f i = Some x \<Longrightarrow> sameKeys (f(i \<mapsto> y)) g"
  unfolding sameKeys_def by (metis fun_upd_apply option.distinct(1))

lemma map_put_None [simp]: "((g(i := map_option h (g i))) k = None) \<longleftrightarrow> g k = None"
  by simp

lemma sameKeys_map [simp]:
  "sameKeys f (g(i := map_option h (g i))) \<longleftrightarrow> sameKeys f g"
  "sameKeys (g(i := map_option h (g i))) f \<longleftrightarrow> sameKeys g f"
  by (simp_all only: sameKeys_def map_put_None)

definition keysAre :: "('k \<Rightarrow> 'a option) \<Rightarrow> 'k set \<Rightarrow> bool" where
  "keysAre f S \<longleftrightarrow> (\<forall>k. f k \<noteq> None \<longleftrightarrow> k \<in> S)"

lemma keysAre_put: "keysAre f S \<Longrightarrow> keysAre (f(i \<mapsto> y)) (insert i S)"
  by (simp add: keysAre_def)

lemma keysAre_put_same: "keysAre f S \<Longrightarrow> f i = Some x \<Longrightarrow> keysAre (f(i \<mapsto> y)) S"
  by (auto simp: keysAre_def)

lemma keysAre_map [simp]: "keysAre (g(i := map_option h (g i))) S \<longleftrightarrow> keysAre g S"
  by (simp only: keysAre_def map_put_None)

lemma keysAre_same: "keysAre f S \<Longrightarrow> keysAre g S \<Longrightarrow> sameKeys f g"
  unfolding keysAre_def sameKeys_def by metis

lemma keysAre_dom: "keysAre f (dom g) \<Longrightarrow> sameKeys f g"
  unfolding keysAre_def sameKeys_def domIff by metis

definition mcInv :: "'c MotorControl \<times> 'w \<Rightarrow> bool" where
  "mcInv = (\<lambda>(mc, w). sameKeys (mc_motors mc) (mc_runtime mc)
     \<and> (mc_state mc \<noteq> ComponentState.Error \<longrightarrow> mc_bus mc \<noteq> None \<and> sameKeys (mc_motors mc) (mc_motorConfigs mc)))"

lemma inv_requireMotor: "preserves I (requireMotor i)"
  by (simp add: requireMotor_def preserves_def bindA_def split: option.split)

lemma inv_requireRuntime: "preserves I (requireRuntime i)"
  by (simp add: requireRuntime_def preserves_def bindA_def split: option.split)

lemma inv_requireBus: "preserves I requireBus"
  by (simp add: requireBus_def preserves_def bindA_def split: option.split)

lemma inv_updRuntime: "preserves mcInv (updRuntime i f)"
  by (auto simp: updRuntime_def preserves_def mcInv_def)

lemma inv_onMotorOnly: "preserves mcInv (onMotorOnly i f)"
  by (auto simp: onMotorOnly_def preserves_def mcInv_def)

text \<open>Dropping the bus keeps the invariant together with the state \<open>Error\<close>.\<close>

lemma closeBus_eq: "closeBus B (mc, w) = (Inr (), (case mc_bus mc of None \<Rightarrow> (mc, w)
    | Some c \<Rightarrow> (case bo_close B (c, w) of (c', w') \<Rightarrow> (mc\<lparr>mc_bus := Some c'\<rparr>, w'))))"
  by (simp add: closeBus_def ignoreA_def onBus_def bindA_def split: option.split prod.split)

lemma resetBus_eq: "resetBus B (mc, w) = (Inr (), (case mc_bus mc of None \<Rightarrow> (mc, w)
    | Some c \<Rightarrow> (mc\<lparr>mc_bus := None\<rparr>, bo_destroy B (c, w))))"
  by (simp add: resetBus_def)

lemma dropBus_eq:
  "\<exists>w'. seqA [closeBus B, resetBus B, setStateA st] (mc, w) = (Inr (), (mc\<lparr>mc_bus := None, mc_state := st\<rparr>, w'))"
  by (auto simp: thenA_def bindA_def closeBus_eq resetBus_eq setStateA_def split: option.split prod.split)

lemma handleFailure_eq:
  "(\<not> isTemporaryCommunicationFailure e \<and> handleCommunicationFailure B e (mc, w) = (Inr (), (mc, w)))
    \<or> (isTemporaryCommunicationFailure e \<and> (\<exists>w'. handleCommunicationFailure B e (mc, w) =
        (Inr (), (mc\<lparr>mc_bus := None, mc_state := ComponentState.Error\<rparr>, w'))))"
  using dropBus_eq [of B ComponentState.Error mc w] by (auto simp: handleCommunicationFailure_def)

lemma inv_handleFailure: "preserves mcInv (handleCommunicationFailure B e :: ('c, 'w, unit) mcAct)"
  unfolding preserves_def
proof (intro allI impI)
  fix s :: "'c MotorControl \<times> 'w" assume s: "mcInv s"
  obtain mc w where "s = (mc, w)" by (cases s)
  with s handleFailure_eq [of e B mc w] show "mcInv (snd (handleCommunicationFailure B e s))"
    by (auto simp: mcInv_def)
qed

lemma preserves_whenSome: "(\<And>x. preserves I (f x)) \<Longrightarrow> preserves I (whenSome v f)"
  by (cases v) (simp_all add: whenSome_def preserves_ret)

text \<open>What every operation shares: a predicate on the component and the world of its bus that the calls of
  a motor, the changes of a runtime state, the reaction to a failure and the warning flag keep, is
  kept by every operation that is made of them.\<close>

locale motor_invariant =
  fixes B :: "('c, 'w) BusOps" and I :: "'c MotorControl \<times> 'w \<Rightarrow> bool"
  assumes updRuntime: "preserves I (updRuntime i f)"
    and motorCalled: "I (mc, w) \<Longrightarrow> mc_motors mc i = Some m \<Longrightarrow> mc_bus mc = Some c
      \<Longrightarrow> I (mc\<lparr>mc_motors := (mc_motors mc)(i \<mapsto> m'), mc_bus := Some c'\<rparr>, w')"
    and handleFailure: "preserves I (handleCommunicationFailure B e)"
    and warning: "preserves I (modifyA (\<lambda>(mc, w). (mcSetWarningState on mc, w)))"
begin

lemma onMotor: "preserves I (onMotor i act)"
  using motorCalled by (fastforce simp: preserves_def onMotor_def split: option.split prod.split)

lemma guarded: "preserves I act \<Longrightarrow> preserves I (guarded B act)"
  unfolding guarded_def by (intro preserves_catch preserves_then preserves_throw handleFailure)

lemma motorCall: "preserves I (motorCall i act)"
  unfolding motorCall_def by (intro preserves_bind preserves_then inv_requireMotor inv_requireBus onMotor)

lemma guardedCall: "preserves I (guardedCall B i act)"
  unfolding guardedCall_def
  by (intro preserves_bind preserves_then inv_requireMotor inv_requireBus onMotor guarded)

lemmas rules = preserves_then preserves_bind preserves_ret preserves_throw preserves_when preserves_get
  inv_requireMotor inv_requireRuntime inv_requireBus updRuntime onMotor guarded motorCall guardedCall

lemma preparePair: "preserves I (preparePair B i)"
  unfolding preparePair_def seqA.simps by (intro rules)

lemma preparePosition: "preserves I (preparePosition B i)"
  unfolding preparePosition_def seqA.simps by (intro rules preserves_if)

lemma whenEnabled: "preserves I (whenEnabled i act)"
  unfolding whenEnabled_def by (intro rules preserves_if)

lemma setEnabled: "preserves I (mcSetEnabled B i on)"
  unfolding mcSetEnabled_def seqA.simps by (intro rules preserves_if)

lemma any: "preserves I (anyWarningOrAlarm B is')"
  by (induction is') (auto intro!: preserves_bind onMotor simp: preserves_ret [unfolded ret_def] ret_def)

lemma resetAlarm: "preserves I (mcResetAlarm B i)"
  unfolding mcResetAlarm_def by (intro rules preserves_whenSome)

lemma mode: "preserves I (mcSetMode B i mode)"
  unfolding mcSetMode_def seqA.simps
  by (cases mode) (auto intro!: rules preserves_if preparePair preparePosition)

lemma start: "preserves I (mcStartMovement B i)"
proof -
  have "preserves I (case rt_mode rt of
        Speed \<Rightarrow> seqA [whenA (\<not> rt_speedPairPrepared rt) (preparePair B i), onMotor i (assertDirection B (rt_direction rt))]
      | Position \<Rightarrow> seqA [preparePosition B i, onMotor i (setOperationPosition B 2 (rt_position rt)),
          onMotor i (setSelectedOperationId B 2), onMotor i (pulseStart B)])" for rt
    unfolding seqA.simps
    by (cases "rt_mode rt") (auto intro!: rules preparePair preparePosition)
  then show ?thesis
    unfolding mcStartMovement_def by (intro rules preserves_if)
qed

lemma stop: "preserves I (mcStopMovement B i)"
proof -
  have "preserves I (case rt_mode rt of
        Speed \<Rightarrow> onMotor i (thenA (setForward B False) (setReverse B False))
      | Position \<Rightarrow> onMotor i (pulseStop B))" for rt
    by (cases "rt_mode rt") (simp_all add: onMotor)
  then show ?thesis
    unfolding mcStopMovement_def by (intro rules)
qed

lemma readings:
  "preserves I (ignoreA (guardedCall B i act))"
  "preserves I (ignoreA (mcHasAnyWarningOrAlarm B))"
  unfolding ignoreA_def mcHasAnyWarningOrAlarm_def by (intro rules any)+

end

interpretation ownKeys: motor_invariant B mcInv for B
proof
  show "preserves mcInv (updRuntime i f)" for i f by (rule inv_updRuntime)
  show "mcInv (mc, w) \<Longrightarrow> mc_motors mc i = Some m \<Longrightarrow> mc_bus mc = Some c
      \<Longrightarrow> mcInv (mc\<lparr>mc_motors := (mc_motors mc)(i \<mapsto> m'), mc_bus := Some c'\<rparr>, w')" for mc :: "'a MotorControl" and w w' :: 'b and i m c m' c'
    by (simp add: mcInv_def sameKeys_put)
  show "preserves mcInv (handleCommunicationFailure B e)" for e by (rule inv_handleFailure)
  show "preserves mcInv (modifyA (\<lambda>(mc, w). (mcSetWarningState on mc, w)))" for on
    by (auto simp: preserves_def mcInv_def mcSetWarningState_def)
qed

lemma inv_alarmCleared: "preserves mcInv (mcOnAlarmCleared B i)"
  unfolding mcOnAlarmCleared_def seqA.simps by (intro ownKeys.rules inv_onMotorOnly preserves_if)

section \<open>Initialisation and reset\<close>

text \<open>While the bus is opened and the motors are added the state is whatever it was before.\<close>

definition openInv :: "(EMotor \<Rightarrow> MotorConfig option) \<Rightarrow> bool \<Rightarrow> EMotor set \<Rightarrow> 'c MotorControl \<times> 'w \<Rightarrow> bool" where
  "openInv cfgs hasBus ids = (\<lambda>(mc, w). mc_motorConfigs mc = cfgs \<and> (hasBus \<longrightarrow> mc_bus mc \<noteq> None)
     \<and> keysAre (mc_motors mc) ids \<and> keysAre (mc_runtime mc) ids)"

lemma wp_onMotor_open:
  "openInv cfgs hasBus ids s \<Longrightarrow> wp (onMotor i act) (\<lambda>_. openInv cfgs hasBus ids) (\<lambda>_ _. True) s"
  by (auto simp: wp_def onMotor_def openInv_def keysAre_put_same split: option.split prod.split sum.split)

lemma wp_updRuntime_open:
  "openInv cfgs hasBus ids s \<Longrightarrow> wp (updRuntime i f) (\<lambda>_. openInv cfgs hasBus ids) (\<lambda>_ _. True) s"
  by (auto simp: wp_def updRuntime_def openInv_def)

lemma wp_busSetup_open:
  "openInv cfgs hasBus ids s \<Longrightarrow> wp (busSetup B f closing msg) (\<lambda>_. openInv cfgs hasBus ids) (\<lambda>_ _. True) s"
  by (auto simp: wp_def busSetup_def onBus_def openInv_def bindA_def thenA_def closeBus_eq resetBus_eq whenA_def
      split: option.split prod.split sum.split)

lemma wp_createBus_open:
  "openInv cfgs hasBus ids s \<Longrightarrow> wp (createBus B) (\<lambda>_. openInv cfgs True ids) (\<lambda>_ _. True) s"
  by (auto simp: wp_def createBus_def openInv_def resetBus_eq Let_def split: option.split prod.split sum.split)

lemma wp_openBus:
  assumes "openInv cfgs hasBus ids s"
  shows "wp (openBus B) (\<lambda>_. openInv cfgs True ids) (\<lambda>_ _. True) s"
  unfolding openBus_def wp_then wp_bind wp_get seqA.simps
  by (rule wp_createBus_open [OF assms, THEN wp_mono])
    (auto simp: wp_ret intro!: wp_busSetup_open [THEN wp_mono])

lemma wp_startMotor:
  assumes "openInv cfgs True ids s"
  shows "wp (startMotor B i cfg) (\<lambda>_. openInv cfgs True (insert i ids)) (\<lambda>_ _. True) s"
proof -
  have "wp (addMotor i cfg) (\<lambda>_. openInv cfgs True (insert i ids)) (\<lambda>_ _. True) s"
    using assms by (auto simp: wp_def addMotor_def openInv_def keysAre_put)
  then show ?thesis
    unfolding startMotor_def seqA.simps wp_then wp_bind
    by (elim wp_mono)
      (auto simp: wp_ret requireMotor_def wp_bind wp_get wp_throw split: option.split
        intro!: wp_onMotor_open [THEN wp_mono] wp_updRuntime_open [THEN wp_mono])
qed

lemma wp_startMotors:
  "openInv cfgs True ids s \<Longrightarrow>
    wp (forA is' (\<lambda>i. startMotor B i (f i))) (\<lambda>_. openInv cfgs True (ids \<union> set is')) (\<lambda>_ _. True) s"
proof (induction is' arbitrary: ids s)
  case (Cons i is')
  show ?case
    unfolding forA.simps wp_then
    by (rule wp_startMotor [OF Cons.prems, THEN wp_mono]) (use Cons.IH [of "insert i ids"] in auto)
qed (simp add: wp_ret)

text \<open>Closing and dropping the bus and the motors.\<close>

lemma no_bus_unchanged: "mc_bus mc = None \<Longrightarrow> mc\<lparr>mc_bus := None\<rparr> = mc"
  by (cases mc) simp

lemma dropAll_eq:
  "\<exists>w'. seqA (closeBus B # resetBus B # clearMotors # setStateA st # acts) (mc, w)
    = seqA acts (mc\<lparr>mc_bus := None, mc_motors := Map.empty, mc_runtime := Map.empty, mc_state := st\<rparr>, w')"
  by (auto simp: thenA_def bindA_def closeBus_eq resetBus_eq clearMotors_def setStateA_def
      no_bus_unchanged split: option.split prod.split)

lemma wp_dropAll:
  assumes "\<And>w'. R e (mc\<lparr>mc_bus := None, mc_motors := Map.empty, mc_runtime := Map.empty, mc_state := st\<rparr>, w')"
  shows "wp (seqA [closeBus B, resetBus B, clearMotors, setStateA st, throwA e]) Q R (mc, w)"
  using dropAll_eq [of B st "[throwA e]" mc w] assms by (auto simp: wp_def thenA_def bindA_def simp del: seqA.simps(2)) (auto simp: thenA_def bindA_def)

lemma wp_mcInitialize:
  fixes B :: "('c, 'w) BusOps"
  shows "wp (mcInitialize B)
      (\<lambda>_ (mc', w'). openInv (mc_motorConfigs mc) True (dom (mc_motorConfigs mc)) (mc', w') \<and> mc_state mc' = ComponentState.Normal)
      (\<lambda>_ (mc', w'). mc_state mc' = ComponentState.Error \<and> mc_bus mc' = None
        \<and> mc_motors mc' = Map.empty \<and> mc_runtime mc' = Map.empty) (mc, w)"
proof -
  let ?cfgs = "mc_motorConfigs mc"
  have ids: "set (configuredMotorIds mc') = dom ?cfgs" if "openInv ?cfgs True ids (mc', w')"
      for mc' :: "'c MotorControl" and w' :: 'w and ids
    using that mapKeys_set [of allMotors ?cfgs] motorE.complete
    by (auto simp: configuredMotorIds_def openInv_def)
  have "wp (thenA (openBus B) (bindA (getA fst) (\<lambda>mc.
        thenA (forA (configuredMotorIds mc) (\<lambda>i. startMotor B i (the (mc_motorConfigs mc i))))
              (setStateA ComponentState.Normal))))
      (\<lambda>_ (mc', w'). openInv ?cfgs True (dom ?cfgs) (mc', w') \<and> mc_state mc' = ComponentState.Normal)
      (\<lambda>_ _. True) s" if s: "openInv ?cfgs False {} s" for s :: "'c MotorControl \<times> 'w"
    unfolding wp_then wp_bind wp_get
  proof (rule wp_openBus [OF s, THEN wp_mono])
    fix x :: unit and s' :: "'c MotorControl \<times> 'w" assume s': "openInv ?cfgs True {} s'"
    obtain mc' w' where p: "s' = (mc', w')" by (cases s')
    show "wp (forA (configuredMotorIds (fst s')) (\<lambda>i. startMotor B i (the (mc_motorConfigs (fst s') i))))
        (\<lambda>_. wp (setStateA ComponentState.Normal)
          (\<lambda>_ (mc', w'). openInv ?cfgs True (dom ?cfgs) (mc', w') \<and> mc_state mc' = ComponentState.Normal) (\<lambda>_ _. True))
        (\<lambda>_ _. True) s'"
      by (rule wp_startMotors [OF s', THEN wp_mono])
        (use s' in \<open>auto simp: p ids [of "{}" mc' w'] setStateA_def wp_modify openInv_def\<close>)
  qed simp
  from this [of "(mc\<lparr>mc_motors := Map.empty, mc_runtime := Map.empty\<rparr>, w)"]
  show ?thesis
    unfolding mcInitialize_def wp_then [of clearMotors] wp_catch
    unfolding clearMotors_def wp_modify prod.case
  proof (rule wp_mono)
    show "wp (seqA [closeBus B, resetBus B, modifyA (\<lambda>(mc, w). (mc\<lparr>mc_motors := Map.empty, mc_runtime := Map.empty\<rparr>, w)),
        setStateA ComponentState.Error, throwA e]) Q (\<lambda>_ (mc', w'). mc_state mc' = ComponentState.Error \<and> mc_bus mc' = None
        \<and> mc_motors mc' = Map.empty \<and> mc_runtime mc' = Map.empty) s" for e s and Q :: "unit \<Rightarrow> 'c MotorControl \<times> 'w \<Rightarrow> bool"
      by (cases s) (auto intro!: wp_dropAll [unfolded clearMotors_def] simp del: seqA.simps)
  qed (simp_all add: openInv_def keysAre_def)
qed

text \<open>C37: on any bus, initialisation has two outcomes. Either it returns, and then the state is
  \<open>Normal\<close>, there is a bus, and exactly the configured motors exist, each with its runtime state;
  or it throws, and then the state is \<open>Error\<close>, the bus is gone and no motor is left.\<close>

theorem mc_initialize_outcome:
  fixes B :: "('c, 'w) BusOps"
  shows "case mcInitialize B (mc, w) of
     (Inr _, (mc', w')) \<Rightarrow> mc_state mc' = ComponentState.Normal \<and> mc_bus mc' \<noteq> None
       \<and> keysAre (mc_motors mc') (dom (mc_motorConfigs mc)) \<and> keysAre (mc_runtime mc') (dom (mc_motorConfigs mc))
   | (Inl e, (mc', w')) \<Rightarrow> mc_state mc' = ComponentState.Error \<and> mc_bus mc' = None
       \<and> mc_motors mc' = Map.empty \<and> mc_runtime mc' = Map.empty"
  using wp_mcInitialize [of B mc w]
  by (cases "mcInitialize B (mc, w)"; cases "fst (mcInitialize B (mc, w))") (simp_all add: wp_def openInv_def case_prod_beta)

lemma inv_mcInitialize: "preserves mcInv (mcInitialize B :: ('c, 'w, unit) mcAct)"
proof (rule preservesI)
  fix s :: "'c MotorControl \<times> 'w"
  obtain mc w where s: "s = (mc, w)" by (cases s)
  show "wp (mcInitialize B) (\<lambda>_. mcInv) (\<lambda>_. mcInv) s"
    unfolding s by (rule wp_mcInitialize [THEN wp_mono])
      (auto simp: mcInv_def openInv_def keysAre_same keysAre_dom, simp_all add: sameKeys_def)
qed

lemma inv_mcReset: "preserves mcInv (mcReset B :: ('c, 'w, unit) mcAct)"
proof (unfold preserves_def, intro allI impI)
  fix s :: "'c MotorControl \<times> 'w"
  obtain mc w where s: "s = (mc, w)" by (cases s)
  obtain w' where "mcReset B s = (Inr (), (mc\<lparr>mc_bus := None, mc_motors := Map.empty, mc_runtime := Map.empty,
      mc_state := ComponentState.Error\<rparr>, w'))"
    using dropAll_eq [of B ComponentState.Error "[]" mc w] by (auto simp: mcReset_def s simp del: seqA.simps(2))
  then show "mcInv (snd (mcReset B s))"
    by (simp add: mcInv_def sameKeys_def)
qed

section \<open>Sequences of operations\<close>

datatype McOp = McInitialize | McReset | McMode EMotor MotorControlMode | McSpeed EMotor i32
  | McAcceleration EMotor i32 | McDeceleration EMotor i32 | McPosition EMotor i32
  | McDirection EMotor MotorControlDirection | McStart EMotor | McStop EMotor
  | McPulseStart EMotor | McPulseStop EMotor | McPulseHome EMotor
  | McForward EMotor bool | McReverse EMotor bool | McJogPlus EMotor bool | McJogMinus EMotor bool
  | McSelect EMotor u8 | McOperationMode EMotor u8 MotorOperationMode
  | McOperationFunction EMotor u8 MotorOperationFunction | McOperationPosition EMotor u8 i32
  | McOperationSpeed EMotor u8 i32 | McOperationAcceleration EMotor u8 i32 | McOperationDeceleration EMotor u8 i32
  | McRunCurrent EMotor i32 | McStopCurrent EMotor i32 | McPair EMotor i32 i32 i32 i32 | McBuffered EMotor i32
  | McEnabled EMotor bool | McAllEnabled bool | McAlarmCleared EMotor | McResetAlarm EMotor
  | McReadSelected EMotor | McReadInput EMotor | McReadOutput EMotor | McReadDirect EMotor | McReadRemote EMotor
  | McReadMonitor EMotor | McReadGroupId EMotor | McDiagnoseAlarm EMotor | McDiagnoseWarning EMotor
  | McDiagnoseCommunication EMotor | McAnyWarning | McWarning bool

fun mcOp :: "('c, 'w) BusOps \<Rightarrow> McOp \<Rightarrow> ('c, 'w, unit) mcAct" where
  "mcOp B McInitialize = mcInitialize B"
| "mcOp B McReset = mcReset B"
| "mcOp B (McMode i x) = mcSetMode B i x"
| "mcOp B (McSpeed i x) = mcSetSpeed B i x"
| "mcOp B (McAcceleration i x) = mcSetAcceleration B i x"
| "mcOp B (McDeceleration i x) = mcSetDeceleration B i x"
| "mcOp B (McPosition i x) = mcSetPosition B i x"
| "mcOp B (McDirection i x) = mcSetDirection B i x"
| "mcOp B (McStart i) = mcStartMovement B i"
| "mcOp B (McStop i) = mcStopMovement B i"
| "mcOp B (McPulseStart i) = mcPulseStart B i"
| "mcOp B (McPulseStop i) = mcPulseStop B i"
| "mcOp B (McPulseHome i) = mcPulseHome B i"
| "mcOp B (McForward i x) = mcSetForward B i x"
| "mcOp B (McReverse i x) = mcSetReverse B i x"
| "mcOp B (McJogPlus i x) = mcSetJogPlus B i x"
| "mcOp B (McJogMinus i x) = mcSetJogMinus B i x"
| "mcOp B (McSelect i x) = mcSetSelectedOperationId B i x"
| "mcOp B (McOperationMode i n x) = mcSetOperationMode B i n x"
| "mcOp B (McOperationFunction i n x) = mcSetOperationFunction B i n x"
| "mcOp B (McOperationPosition i n x) = mcSetOperationPosition B i n x"
| "mcOp B (McOperationSpeed i n x) = mcSetOperationSpeed B i n x"
| "mcOp B (McOperationAcceleration i n x) = mcSetOperationAcceleration B i n x"
| "mcOp B (McOperationDeceleration i n x) = mcSetOperationDeceleration B i n x"
| "mcOp B (McRunCurrent i x) = mcSetRunCurrent B i x"
| "mcOp B (McStopCurrent i x) = mcSetStopCurrent B i x"
| "mcOp B (McPair i s0 s1 acc d) = mcConfigureConstantSpeedPair B i s0 s1 acc d"
| "mcOp B (McBuffered i x) = mcUpdateConstantSpeedBuffered B i x"
| "mcOp B (McEnabled i x) = mcSetEnabled B i x"
| "mcOp B (McAllEnabled x) = mcSetAllEnabled B x"
| "mcOp B (McAlarmCleared i) = mcOnAlarmCleared B i"
| "mcOp B (McResetAlarm i) = mcResetAlarm B i"
| "mcOp B (McReadSelected i) = ignoreA (mcReadSelectedOperationId B i)"
| "mcOp B (McReadInput i) = ignoreA (mcReadInputStatus B i)"
| "mcOp B (McReadOutput i) = ignoreA (mcReadOutputStatus B i)"
| "mcOp B (McReadDirect i) = ignoreA (mcReadDirectIoStatus B i)"
| "mcOp B (McReadRemote i) = ignoreA (mcReadRemoteIoStatus B i)"
| "mcOp B (McReadMonitor i) = ignoreA (mcReadMonitorSnapshot B i)"
| "mcOp B (McReadGroupId i) = ignoreA (mcReadGroupId B i)"
| "mcOp B (McDiagnoseAlarm i) = ignoreA (mcDiagnoseCurrentAlarm B i)"
| "mcOp B (McDiagnoseWarning i) = ignoreA (mcDiagnoseCurrentWarning B i)"
| "mcOp B (McDiagnoseCommunication i) = ignoreA (mcDiagnoseCurrentCommunicationError B i)"
| "mcOp B McAnyWarning = ignoreA (mcHasAnyWarningOrAlarm B)"
| "mcOp B (McWarning x) = modifyA (\<lambda>(mc, w). (mcSetWarningState x mc, w))"

text \<open>The operations that replace the bus or a motor object: initialisation, reset, and the reaction to a
  cleared alarm, which forgets a motor's cache.\<close>

fun replacesParts :: "McOp \<Rightarrow> bool" where
  "replacesParts McInitialize = True"
| "replacesParts McReset = True"
| "replacesParts (McAlarmCleared i) = True"
| "replacesParts _ = False"

context motor_invariant
begin

lemma keeps: "\<not> replacesParts op \<Longrightarrow> preserves I (mcOp B op)"
  by (cases op)
    (simp_all only: mcOp.simps replacesParts.simps not_True_eq_False not_False_eq_True mode start stop resetAlarm
      setEnabled whenEnabled motorCall readings warning
      mcPulseStart_def mcPulseStop_def mcPulseHome_def mcSetForward_def mcSetReverse_def mcSetJogPlus_def
      mcSetJogMinus_def mcSetSelectedOperationId_def mcSetOperationMode_def mcSetOperationFunction_def
      mcSetOperationPosition_def mcSetOperationSpeed_def mcSetOperationAcceleration_def mcSetOperationDeceleration_def
      mcConfigureConstantSpeedPair_def mcUpdateConstantSpeedBuffered_def mcReadSelectedOperationId_def
      mcReadInputStatus_def mcReadOutputStatus_def mcReadDirectIoStatus_def mcReadMonitorSnapshot_def
      mcReadRemoteIoStatus_def mcReadGroupId_def mcDiagnoseCurrentAlarm_def mcDiagnoseCurrentWarning_def
      mcDiagnoseCurrentCommunicationError_def mcSetSpeed_def mcSetAcceleration_def mcSetDeceleration_def
      mcSetPosition_def mcSetDirection_def mcSetRunCurrent_def mcSetStopCurrent_def validateCurrentRange_def
      mcSetAllEnabled_def seqA.simps,
     (intro rules preserves_if preserves_for preparePair preparePosition setEnabled)+)

end

lemma inv_op: "preserves mcInv (mcOp B op)"
proof (cases "replacesParts op")
  case True
  then show ?thesis
    by (cases op) (simp_all add: inv_mcInitialize inv_mcReset inv_alarmCleared)
qed (rule ownKeys.keeps)

lemma inv_run: "mcInv s \<Longrightarrow> mcInv (fold (\<lambda>op s. snd (mcOp B op s)) ops s)"
  by (induction ops arbitrary: s) (simp_all add: preservesD [OF inv_op] del: split_paired_All)

text \<open>C38: over every sequence of operations (each may throw; the next is called all the same),
  on any bus, starting from a component without motors in the state \<open>Error\<close>: a motor exists
  exactly when its runtime state does, and outside the state \<open>Error\<close> there is a bus and every
  configured motor, and no other, exists.\<close>

theorem mc_invariant:
  assumes "mc_state mc = ComponentState.Error" and "mc_motors mc = Map.empty" and "mc_runtime mc = Map.empty"
    and "fold (\<lambda>op s. snd (mcOp B op s)) ops (mc, w) = (mc', w')"
  shows "dom (mc_motors mc') = dom (mc_runtime mc')
    \<and> (mc_state mc' \<noteq> ComponentState.Error \<longrightarrow> mc_bus mc' \<noteq> None \<and> dom (mc_motors mc') = dom (mc_motorConfigs mc'))"
proof -
  have "mcInv (mc, w)"
    using assms(1-3) by (simp add: mcInv_def sameKeys_def)
  from inv_run [OF this, of B ops] have "mcInv (mc', w')"
    by (simp add: assms(4))
  then show ?thesis
    by (simp add: mcInv_def sameKeys_domD)
qed

definition demoRtu :: MotorRtuConfig where
  "demoRtu = \<lparr>rtu_device = ''/dev/ttyUSB0'', rtu_baud = 9600, rtu_parity = CHR ''N'', rtu_dataBits = 8, rtu_stopBits = 1,
     rtu_connectTimeoutMS = 1000, rtu_responseTimeoutMS = 1000, rtu_interRequestDelayMS = 0\<rparr>"

definition freshControl :: "ModbusClient MotorControl" where
  "freshControl = \<lparr>mc_transportType = SerialRtu, mc_rtuConfig = demoRtu, mc_host = '''', mc_port = 0,
     mc_registerMap = makeArKd2RegisterMap, mc_motorConfigs = Map.empty, mc_motors = Map.empty,
     mc_runtime = Map.empty, mc_bus = None, mc_state = ComponentState.Error\<rparr>"

theorem mc_invariant_witness:
  "\<exists>mc' w'. fold (\<lambda>op s. snd (mcOp (clientBus fakeNet) op s)) [McInitialize] (freshControl, fakeReset) = (mc', w')
    \<and> dom (mc_motors mc') = dom (mc_runtime mc')"
proof -
  obtain mc' w' where run:
    "fold (\<lambda>op s. snd (mcOp (clientBus fakeNet) op s)) [McInitialize] (freshControl, fakeReset) = (mc', w')"
    by (metis surj_pair)
  have "mc_state freshControl = ComponentState.Error" "mc_motors freshControl = Map.empty" "mc_runtime freshControl = Map.empty"
    by (simp_all add: freshControl_def)
  from mc_invariant [OF this run] run show ?thesis by blast
qed

end
