(* ===== verification/MotorControlSafety.thy ===== *)
theory MotorControlSafety
  imports MotorControlProps
begin

text \<open>
  The reaction of motor control to a broken connection, what a disabled motor ignores, and the
  direction interlock: the two direction inputs of a driver are never written together.
\<close>

section \<open>A broken connection\<close>


lemma requireMotor_Some [simp]: "mc_motors mc i = Some m \<Longrightarrow> requireMotor i (mc, w) = (Inr m, (mc, w))"
  by (simp add: requireMotor_def bindA_def)

lemma requireBus_None [simp]: "mc_bus mc = None \<Longrightarrow> requireBus (mc, w) = (Inl noBus, (mc, w))"
  by (simp add: requireBus_def bindA_def)

lemma requireBus_Some [simp]: "mc_bus mc = Some c \<Longrightarrow> requireBus (mc, w) = (Inr (), (mc, w))"
  by (simp add: requireBus_def bindA_def)

lemma requireRuntime_Some [simp]: "mc_runtime mc i = Some rt \<Longrightarrow> requireRuntime i (mc, w) = (Inr rt, (mc, w))"
  by (simp add: requireRuntime_def bindA_def)






lemma onMotor_Some:
  "mc_motors mc i = Some m \<Longrightarrow> mc_bus mc = Some c \<Longrightarrow> act (m, (c, w)) = (r, (m', (c', w')))
    \<Longrightarrow> onMotor i act (mc, w) = (r, (mc\<lparr>mc_motors := (mc_motors mc)(i \<mapsto> m'), mc_bus := Some c'\<rparr>, w'))"
  by (simp add: onMotor_def)

















definition demoControl :: "ModbusClient \<Rightarrow> ModbusClient MotorControl" where
  "demoControl c = \<lparr>mc_transportType = SerialRtu, mc_rtuConfig = demoRtu, mc_host = '''', mc_port = 0,
     mc_registerMap = makeArKd2RegisterMap, mc_motorConfigs = Map.empty, mc_motors = [XLeft \<mapsto> demoMotor 2 2],
     mc_runtime = [XLeft \<mapsto> defaultRuntime], mc_bus = Some c, mc_state = ComponentState.Normal\<rparr>"


section \<open>A disabled motor\<close>

text \<open>A motor that is not enabled (C-ON off, or in alarm at start-up) does not start: starting a
  movement, the start pulse, the direction inputs and jogging return without touching the bus,
  the motor or the runtime state.\<close>

theorem mc_disabled_motor:
  assumes "mc_motors mc i = Some m" and "mc_runtime mc i = Some rt" and "\<not> rt_enabled rt"
    and "op \<in> {McStart i, McPulseStart i, McForward i on, McReverse i on, McJogPlus i on, McJogMinus i on}"
  shows "mcOp B op (mc, w) = (Inr (), (mc, w))"
  using assms by (auto simp: mcStartMovement_def mcPulseStart_def mcSetForward_def mcSetReverse_def mcSetJogPlus_def
      mcSetJogMinus_def whenEnabled_def)

theorem mc_disabled_motor_witness:
  "mcOp (clientBus fakeNet) (McStart XLeft)
     ((demoControl (fst demoBus))\<lparr>mc_runtime := [XLeft \<mapsto> defaultRuntime\<lparr>rt_enabled := False\<rparr>]\<rparr>, snd demoBus)
   = (Inr (), ((demoControl (fst demoBus))\<lparr>mc_runtime := [XLeft \<mapsto> defaultRuntime\<lparr>rt_enabled := False\<rparr>]\<rparr>, snd demoBus))"
  by (rule mc_disabled_motor [where m = "demoMotor 2 2" and rt = "defaultRuntime\<lparr>rt_enabled := False\<rparr>" and i = XLeft])
    (simp_all add: demoControl_def)

section \<open>The direction interlock\<close>

definition bothDirections :: "Motor \<Rightarrow> u16 \<Rightarrow> bool" where
  "bothDirections m raw \<longleftrightarrow> (\<exists>i. bit (flagMask m Fwd) i \<and> bit raw i) \<and> (\<exists>i. bit (flagMask m Rvs) i \<and> bit raw i)"

definition directionFlag :: "MotorControlDirection \<Rightarrow> MotorInputFlag" where
  "directionFlag dir = (case dir of Forward \<Rightarrow> Fwd | Reverse \<Rightarrow> Rvs)"

definition otherFlag :: "MotorControlDirection \<Rightarrow> MotorInputFlag" where
  "otherFlag dir = (case dir of Forward \<Rightarrow> Rvs | Reverse \<Rightarrow> Fwd)"

lemma assertDirection_flags:
  "assertDirection B dir = thenA (setDriverInputFlag B (otherFlag dir) False) (setDriverInputFlag B (directionFlag dir) True)"
  by (cases dir) (simp_all add: assertDirection_def otherFlag_def directionFlag_def setForward_def setReverse_def)

context register_bus
begin

lemma wp_assertDirection:
  assumes "ok b" and "slavesOk m" and "cacheCoherent (regs b) m"
    and "w1 = withBit (flagMask m (otherFlag dir)) False (cmdWord m (regs b))"
    and "w2 = withBit (flagMask m (directionFlag dir)) True w1"
    and "\<And>b'. ok b' \<Longrightarrow> cmdWord m (regs b') = w2 \<Longrightarrow> writes b' = writes b @ [cmdWrite m w1, cmdWrite m w2]
      \<Longrightarrow> Q () (cachedMotor w2 m, b')"
  shows "wp (assertDirection B dir) Q R (m, b)"
  unfolding assertDirection_flags wp_then
proof (rule wp_setDriverInputFlag [OF assms(1-3)], goal_cases)
  case (1 b1)
  show ?case
    unfolding assms(4) [symmetric]
    by (rule wp_setDriverInputFlag) (use 1 assms in \<open>auto\<close>)
qed

end

lemma withBit_disjoint:
  "\<not> (\<exists>i. bit k i \<and> bit (withBit k False raw) i)"
  "(\<And>i. \<not> (bit k i \<and> bit k' i)) \<Longrightarrow> \<not> (\<exists>i. bit k i \<and> bit (withBit k' True (withBit k False raw)) i)"
  by (auto simp: bit_withBit)

text \<open>C40: changing the direction of a motor, enabled or not, on a healthy bus, when the inputs FWD and RVS are
  different terminals: two command words are written, the opposite input is cleared by the first and
  the wanted one set by the second, and in neither word both are set, whatever the command word
  was before.\<close>

theorem mc_direction_interlock:
  assumes "register_bus B ok slave regs writes" and "ok (c, w)" and "mc_bus mc = Some c"
    and "mc_motors mc i = Some m" and "mc_runtime mc i = Some rt"
    and "slavesOk m" and "cacheCoherent (regs (c, w)) m"
    and "\<And>n. \<not> (bit (flagMask m Fwd) n \<and> bit (flagMask m Rvs) n)"
  shows "\<exists>mc' c' w' w1 w2. mcSetDirection B i dir (mc, w) = (Inr (), (mc', w')) \<and> mc_bus mc' = Some c'
    \<and> writes (c', w') = writes (c, w) @ [cmdWrite m w1, cmdWrite m w2]
    \<and> \<not> bothDirections m w1 \<and> \<not> bothDirections m w2
    \<and> (\<forall>n. bit (flagMask m (directionFlag dir)) n \<longrightarrow> bit w2 n)
    \<and> (\<forall>n. bit (flagMask m (otherFlag dir)) n \<longrightarrow> \<not> bit w2 n)"
proof -
  define w1 where "w1 = withBit (flagMask m (otherFlag dir)) False (cmdWord m (regs (c, w)))"
  define w2 where "w2 = withBit (flagMask m (directionFlag dir)) True w1"
  have disjoint: "\<not> (bit (flagMask m (otherFlag dir)) n \<and> bit (flagMask m (directionFlag dir)) n)" for n
    using assms(8) [of n] by (cases dir) (auto simp: otherFlag_def directionFlag_def)
  obtain m' b' where d: "assertDirection B dir (m, (c, w)) = (Inr (), (m', b'))"
    "writes b' = writes (c, w) @ [cmdWrite m w1, cmdWrite m w2]"
    using wp_exec [OF register_bus.wp_assertDirection [OF assms(1,2,6,7) w1_def w2_def,
        where Q = "\<lambda>_ (m', b'). writes b' = writes (c, w) @ [cmdWrite m w1, cmdWrite m w2]"]]
    by auto
  obtain c' w' where b': "b' = (c', w')" by (cases b')
  let ?mc1 = "mc\<lparr>mc_runtime := (mc_runtime mc)(i := map_option (rt_direction_update (\<lambda>_. dir)) (mc_runtime mc i))\<rparr>"
  let ?mc2 = "?mc1\<lparr>mc_motors := (mc_motors mc)(i \<mapsto> m'), mc_bus := Some c'\<rparr>"
  have "mcSetDirection B i dir (mc, w) = (Inr (), (?mc2, w'))"
    using assms(3-5) d(1) b'
    by (simp add: mcSetDirection_def updRuntime_def thenA_def [of "modifyA f" for f] bindA_def [of "modifyA f" for f]
        onMotor_Some [where m = m and c = c] thenA_def [of "onMotor i act" for act] bindA_def [of "onMotor i act" for act])
  moreover have "\<not> bothDirections m w1" "\<not> bothDirections m w2"
    using disjoint by (cases dir; auto simp: bothDirections_def w1_def w2_def bit_withBit otherFlag_def directionFlag_def)+
  moreover have "bit (flagMask m (directionFlag dir)) n \<longrightarrow> bit w2 n" "bit (flagMask m (otherFlag dir)) n \<longrightarrow> \<not> bit w2 n" for n
    using disjoint by (auto simp: w1_def w2_def bit_withBit)
  moreover have "mc_bus ?mc2 = Some c'" by simp
  ultimately show ?thesis
    using d(2) b' by blast
qed

theorem mc_direction_interlock_witness:
  "\<exists>mc' c' w'. mcSetDirection (clientBus fakeNet) XLeft Reverse
      (demoControl (fst (demoBusWith (poke 2 0x7D 0x4000 (\<lambda>_ _. 0)))), snd (demoBusWith (poke 2 0x7D 0x4000 (\<lambda>_ _. 0))))
    = (Inr (), (mc', w')) \<and> mc_bus mc' = Some c'"
proof -
  let ?b = "demoBusWith (poke 2 0x7D 0x4000 (\<lambda>_ _. 0))"
  have "flagMask (demoMotor 2 2) Fwd = bitMask 14" "flagMask (demoMotor 2 2) Rvs = bitMask 15"
    by (simp_all add: flagMask_def functionMask_def netInputBitForFunction_def demoMotor_def makeMotor_def
        fallbackInputBitMaskForFunction_def function_codes inputMask_def)
  then have "\<not> (bit (flagMask (demoMotor 2 2) Fwd) n \<and> bit (flagMask (demoMotor 2 2) Rvs) n)" for n
    by simp
  from mc_direction_interlock [OF fakeBus.register_bus_axioms, of "fst ?b" "snd ?b" "demoControl (fst ?b)" XLeft
      "demoMotor 2 2" defaultRuntime Reverse, OF _ _ _ _ _ _ this]
  show ?thesis
    using demo_ok(3) demo_motor [of 2 2] demo_coherent by (force simp: demoControl_def)
qed

end
