(* ===== verification/Json.thy ===== *)
theory Json
  imports Domain
begin

text \<open>
  JSON values as \<^verbatim>\<open>nlohmann::json\<close> holds them (objects ordered by key) and the serialisation of
  the robot status (\<^verbatim>\<open>Utilities/include/JsonExtensions.hpp\<close>). The conversions of the library
  (\<^verbatim>\<open>get<T>\<close>) and the exceptions of \<^verbatim>\<open>at\<close> are the parameter \<open>JsonLib\<close>; the locale
  \<open>json_library\<close> states the documented part the code relies on: a value made from a \<open>T\<close> is read
  back by \<^verbatim>\<open>get<T>\<close>.
\<close>

section \<open>Values\<close>

datatype Json = JNull | JBool bool | JInt int | JReal real | JString string
  | JArray "Json list" | JObject "(string \<times> Json) list"

fun isObject :: "Json \<Rightarrow> bool" where
  "isObject (JObject _) = True"
| "isObject _ = False"

text \<open>\<^verbatim>\<open>j.contains(key)\<close> and, where it holds, \<^verbatim>\<open>j.at(key)\<close>.\<close>

fun fieldOf :: "Json \<Rightarrow> string \<Rightarrow> Json option" where
  "fieldOf (JObject m) key = map_of m key"
| "fieldOf _ key = None"

text \<open>\<^verbatim>\<open>j[key] = v\<close> on an object, and an object from an initialiser list.\<close>

fun setField :: "string \<Rightarrow> Json \<Rightarrow> Json \<Rightarrow> Json" where
  "setField key v (JObject m) = JObject (smap_put key v m)"
| "setField key v j = j"

definition object :: "(string \<times> Json) list \<Rightarrow> Json" where
  "object kvs = JObject (fold (\<lambda>(k, v) m. smap_put k v m) kvs [])"

lemma fieldOf_setField [simp]:
  "isObject j \<Longrightarrow> fieldOf (setField key v j) key' = (if key' = key then Some v else fieldOf j key')"
  by (cases j) simp_all

lemma isObject_setField [simp]: "isObject (setField key v j) = isObject j"
  by (cases j) simp_all

lemma map_of_fold_put:
  "map_of (fold (\<lambda>(k, v) m. smap_put k v m) kvs m) key =
     (case map_of (rev kvs) key of None \<Rightarrow> map_of m key | Some v \<Rightarrow> Some v)"
  by (induction kvs arbitrary: m) (auto simp: map_add_def split: option.split)

lemma fieldOf_object: "fieldOf (object kvs) key = map_of (rev kvs) key"
  by (simp add: object_def map_of_fold_put split: option.split)

lemma isObject_object [simp]: "isObject (object kvs)"
  by (simp add: object_def)

section \<open>The library\<close>

record JsonLib =
  jl_double :: "Json \<Rightarrow> exn + real"
  jl_int :: "Json \<Rightarrow> exn + int"
  jl_bool :: "Json \<Rightarrow> exn + bool"
  jl_string :: "Json \<Rightarrow> exn + string"
  jl_at :: "string \<Rightarrow> Json \<Rightarrow> exn"

locale json_library =
  fixes L :: JsonLib
  assumes double: "jl_double L (JReal r) = Inr r"
    and int: "jl_int L (JInt i) = Inr i"
    and bool: "jl_bool L (JBool b) = Inr b"
    and string: "jl_string L (JString s) = Inr s"

text \<open>\<^verbatim>\<open>j.at(key).get<T>()\<close> and \<^verbatim>\<open>j.value(key, default)\<close> on an object.\<close>

definition atGet :: "JsonLib \<Rightarrow> (Json \<Rightarrow> exn + 'a) \<Rightarrow> string \<Rightarrow> Json \<Rightarrow> exn + 'a" where
  "atGet L get key j = (case fieldOf j key of None \<Rightarrow> Inl (jl_at L key j) | Some v \<Rightarrow> get v)"

definition valueOr :: "(Json \<Rightarrow> exn + 'a) \<Rightarrow> string \<Rightarrow> 'a \<Rightarrow> Json \<Rightarrow> exn + 'a" where
  "valueOr get key dflt j = (case fieldOf j key of None \<Rightarrow> Inr dflt | Some v \<Rightarrow> get v)"

section \<open>Enumerations\<close>

definition enumToJson :: "('e \<Rightarrow> string) \<Rightarrow> 'e \<Rightarrow> Json" where
  "enumToJson name v = JString (name v)"

definition enumFromJson :: "JsonLib \<Rightarrow> 'e list \<Rightarrow> ('e \<Rightarrow> string) \<Rightarrow> Json \<Rightarrow> exn + 'e" where
  "enumFromJson L vals name j = bindE (jl_string L j) (stringToEnum vals name)"

definition enumFromJsonStringField :: "'e list \<Rightarrow> ('e \<Rightarrow> string) \<Rightarrow> Json \<Rightarrow> string \<Rightarrow> exn + 'e" where
  "enumFromJsonStringField vals name j key = (case fieldOf j key of
     Some (JString text) \<Rightarrow> stringToEnum vals name text
   | _ \<Rightarrow> Inl (''Missing or invalid '' @ [CHR 0x27] @ key @ [CHR 0x27] @ '' entry''))"

text \<open>A \<^verbatim>\<open>std::map\<close> keyed by an enumeration becomes an object and back.\<close>

definition enumKeyedMapToJson :: "'e list \<Rightarrow> ('e \<Rightarrow> string) \<Rightarrow> ('v \<Rightarrow> Json) \<Rightarrow> ('e \<Rightarrow> 'v option) \<Rightarrow> Json" where
  "enumKeyedMapToJson vals name f v = object (map (\<lambda>k. (name k, f (the (v k)))) (mapKeys vals v))"

fun emplaceEntries ::
  "'e list \<Rightarrow> ('e \<Rightarrow> string) \<Rightarrow> (Json \<Rightarrow> exn + 'v) \<Rightarrow> (string \<times> Json) list \<Rightarrow> ('e \<Rightarrow> 'v option) \<Rightarrow> exn + ('e \<Rightarrow> 'v option)" where
  "emplaceEntries vals name get [] out = Inr out"
| "emplaceEntries vals name get ((k, v) # kvs) out =
     bindE (stringToEnum vals name k) (\<lambda>e. bindE (get v) (\<lambda>x.
       emplaceEntries vals name get kvs (if out e = None then out(e \<mapsto> x) else out)))"

definition enumKeyedMapFromJson ::
  "'e list \<Rightarrow> ('e \<Rightarrow> string) \<Rightarrow> (Json \<Rightarrow> exn + 'v) \<Rightarrow> Json \<Rightarrow> exn + ('e \<Rightarrow> 'v option)" where
  "enumKeyedMapFromJson vals name get j = (case j of
     JObject kvs \<Rightarrow> emplaceEntries vals name get kvs Map.empty
   | _ \<Rightarrow> Inl ''Expected JSON object for enum-keyed map.'')"

lemma smap_ok_object: "smap_ok m \<Longrightarrow> smap_ok (fold (\<lambda>(k, v) m. smap_put k v m) kvs m)"
  by (induction kvs arbitrary: m) (auto simp: smap_ok_put)

context enum_names
begin

lemma emplaceEntries_all:
  assumes "distinct (map fst kvs)"
    and "\<And>k v. (k, v) \<in> set kvs \<Longrightarrow> \<exists>e. k = name e \<and> get v = Inr (g e) \<and> out e = None"
  shows "emplaceEntries vals name get kvs out
    = Inr (\<lambda>e. if name e \<in> fst ` set kvs then Some (g e) else out e)"
  using assms
proof (induction kvs arbitrary: out)
  case (Cons kv kvs)
  obtain k v where kv: "kv = (k, v)" by (cases kv)
  obtain e where e: "k = name e" "get v = Inr (g e)" "out e = None"
    using Cons.prems(2) [of k v] kv by auto
  have "emplaceEntries vals name get kvs (out(e \<mapsto> g e))
      = Inr (\<lambda>e'. if name e' \<in> fst ` set kvs then Some (g e') else (out(e \<mapsto> g e)) e')"
  proof (rule Cons.IH)
    show "distinct (map fst kvs)"
      using Cons.prems(1) by simp
    fix k' v' assume mem: "(k', v') \<in> set kvs"
    then obtain e' where "k' = name e'" "get v' = Inr (g e')" "out e' = None"
      using Cons.prems(2) [of k' v'] by auto
    moreover have "e' \<noteq> e"
      using mem Cons.prems(1) e(1) kv \<open>k' = name e'\<close> by force
    ultimately show "\<exists>e'. k' = name e' \<and> get v' = Inr (g e') \<and> (out(e \<mapsto> g e)) e' = None"
      by auto
  qed
  moreover have "name e \<notin> fst ` set kvs"
    using Cons.prems(1) kv e(1) by simp
  ultimately show ?case
    using e kv by (auto simp: stringToEnum_name fun_eq_iff dest: name_inj)
qed simp

lemma keyedMap_roundtrip:
  assumes "\<And>k x. v k = Some x \<Longrightarrow> get (f x) = Inr x"
  shows "enumKeyedMapFromJson vals name get (enumKeyedMapToJson vals name f v) = Inr v"
proof -
  define kvs where "kvs = map (\<lambda>k. (name k, f (the (v k)))) (mapKeys vals v)"
  define m where "m = fold (\<lambda>(k, v) m. smap_put k v m) kvs []"
  have "distinct vals"
    using names_distinct by (simp add: distinct_map)
  then have "distinct (map fst (rev kvs))"
    using name_inj unfolding kvs_def mapKeys_def by (auto simp: distinct_map comp_def rev_map [symmetric] intro!: inj_onI)
  then have look: "map_of m k = Some x \<longleftrightarrow> (k, x) \<in> set kvs" for k x
    using map_of_eq_Some_iff [of "rev kvs" k x]
    by (cases "map_of (rev kvs) k") (auto simp: m_def map_of_fold_put simp del: map_of_eq_Some_iff)
  have ok: "smap_ok m"
    unfolding m_def by (rule smap_ok_object) (simp add: smap_ok_def)
  then have dist: "distinct (map fst m)"
    using smap.keys_distinct [of m] by simp
  have mem: "(k, x) \<in> set m \<longleftrightarrow> (\<exists>e y. v e = Some y \<and> k = name e \<and> x = f y)" for k x
    using look [of k x] map_of_eq_Some_iff [OF dist] complete by (force simp: kvs_def mapKeys_def)
  have "emplaceEntries vals name get m Map.empty
      = Inr (\<lambda>e. if name e \<in> fst ` set m then Some (the (v e)) else Map.empty e)"
  proof (rule emplaceEntries_all [OF dist])
    fix k x assume "(k, x) \<in> set m"
    then obtain e y where "v e = Some y" "k = name e" "x = f y"
      using mem by blast
    with assms show "\<exists>e. k = name e \<and> get x = Inr (the (v e)) \<and> Map.empty e = None"
      by (intro exI [of _ e]) simp
  qed
  moreover have "name e \<in> fst ` set m \<longleftrightarrow> v e \<noteq> None" for e
  proof
    assume "name e \<in> fst ` set m"
    then obtain x where "(name e, x) \<in> set m" by auto
    with mem name_inj show "v e \<noteq> None" by fastforce
  next
    assume "v e \<noteq> None"
    then obtain y where "v e = Some y" by blast
    then have "(name e, f y) \<in> set m" using mem by blast
    then show "name e \<in> fst ` set m" by (rule image_eqI [rotated]) simp
  qed
  ultimately show ?thesis
    by (auto simp: enumKeyedMapFromJson_def enumKeyedMapToJson_def object_def m_def kvs_def [symmetric] fun_eq_iff)
qed

lemma enum_json: "json_library L \<Longrightarrow> enumFromJson L vals name (enumToJson name v) = Inr v"
  by (simp add: enumFromJson_def enumToJson_def json_library.string stringToEnum_name)

end

end
