(* ===== verification/StatusJson.thy ===== *)
theory StatusJson
  imports Json
begin

text \<open>
  The JSON form of the robot status, as the server publishes it and the operator interface reads
  it (\<^verbatim>\<open>Utilities/include/JsonExtensions.hpp\<close>), and its round trip.
\<close>

section \<open>Serialisation\<close>

definition motorStatusToJson :: "SingleMotorStatus \<Rightarrow> Json" where
  "motorStatusToJson v = object
     [(''currentPosition'', JReal (sms_currentPosition v)),
      (''targetPosition'', JReal (sms_targetPosition v)),
      (''speed'', JReal (sms_speed v)),
      (''speedRpm'', JReal (sms_speedRpm v)),
      (''torque'', JInt (sms_torque v)),
      (''state'', enumToJson ledName (sms_state v)),
      (''warningDescription'', JString (sms_warningDescription v)),
      (''alarmDescription'', JString (sms_alarmDescription v)),
      (''flags'', enumKeyedMapToJson allMotorFlags motorFlagName (enumToJson ledName) (sms_flags v)),
      (''speedCommandPercent'', JReal (sms_speedCommandPercent v)),
      (''modeMaxLinearSpeedMmPerSec'', JReal (sms_modeMaxLinearSpeedMmPerSec v))]"

definition motorStatusFromJson :: "JsonLib \<Rightarrow> Json \<Rightarrow> exn + SingleMotorStatus" where
  "motorStatusFromJson L j =
     bindE (atGet L (jl_double L) ''currentPosition'' j) (\<lambda>cur.
     bindE (atGet L (jl_double L) ''targetPosition'' j) (\<lambda>target.
     bindE (atGet L (jl_double L) ''speed'' j) (\<lambda>speed.
     bindE (valueOr (jl_double L) ''speedRpm'' 0 j) (\<lambda>rpm.
     bindE (atGet L (jl_int L) ''torque'' j) (\<lambda>torque.
     bindE (valueOr (enumFromJson L allLeds ledName) ''state'' Off j) (\<lambda>state.
     bindE (valueOr (jl_string L) ''warningDescription'' '''' j) (\<lambda>warning.
     bindE (valueOr (jl_string L) ''alarmDescription'' '''' j) (\<lambda>alarm.
     bindE (atGet L (enumKeyedMapFromJson allMotorFlags motorFlagName (enumFromJson L allLeds ledName)) ''flags'' j) (\<lambda>flags.
     bindE (valueOr (jl_double L) ''speedCommandPercent'' 0 j) (\<lambda>percent.
     bindE (valueOr (jl_double L) ''modeMaxLinearSpeedMmPerSec'' 0 j) (\<lambda>maxSpeed.
     Inr \<lparr>sms_currentPosition = cur, sms_targetPosition = target, sms_speed = speed, sms_speedRpm = rpm,
          sms_torque = torque, sms_state = state, sms_warningDescription = warning, sms_alarmDescription = alarm,
          sms_flags = flags, sms_speedCommandPercent = percent, sms_modeMaxLinearSpeedMmPerSec = maxSpeed\<rparr>)))))))))))"

definition toolChangerToJson :: "ToolChangerStatus \<Rightarrow> Json" where
  "toolChangerToJson v = object
     [(''flags'', enumKeyedMapToJson allToolFlags toolFlagName (enumToJson ledName) (tc_flags v))]"

definition toolChangerFromJson :: "JsonLib \<Rightarrow> Json \<Rightarrow> exn + ToolChangerStatus" where
  "toolChangerFromJson L j =
     bindE (atGet L (enumKeyedMapFromJson allToolFlags toolFlagName (enumFromJson L allLeds ledName)) ''flags'' j)
       (\<lambda>flags. Inr \<lparr>tc_flags = flags\<rparr>)"

definition joystickToJson :: "JoystickStatus \<Rightarrow> Json" where
  "joystickToJson v = object [(''x'', JReal (js_x v)), (''y'', JReal (js_y v)), (''btn'', JBool (js_btn v))]"

definition joystickFromJson :: "JsonLib \<Rightarrow> Json \<Rightarrow> exn + JoystickStatus" where
  "joystickFromJson L j =
     bindE (atGet L (jl_double L) ''x'' j) (\<lambda>x.
     bindE (atGet L (jl_double L) ''y'' j) (\<lambda>y.
     bindE (atGet L (jl_bool L) ''btn'' j) (\<lambda>btn. Inr \<lparr>js_x = x, js_y = y, js_btn = btn\<rparr>)))"

definition robotStatusToJson :: "RobotStatus \<Rightarrow> Json" where
  "robotStatusToJson v =
     (let j = object
        [(''motors'', enumKeyedMapToJson allMotors motorName motorStatusToJson (rs_motors v)),
         (''toolChangers'', enumKeyedMapToJson allArms armName toolChangerToJson (rs_toolChangers v)),
         (''robotComponents'', enumKeyedMapToJson allComponents componentName (enumToJson ledName) (rs_robotComponents v)),
         (''joystics'', enumKeyedMapToJson allArms armName joystickToJson (rs_joystics v)),
         (''armStates'', enumKeyedMapToJson allArms armName (enumToJson axisStateName) (rs_armStates v))]
      in case rs_safetyOn v of None \<Rightarrow> j | Some b \<Rightarrow> setField ''safetyOn'' (JBool b) j)"

text \<open>\<open>v\<close> is the status that is assigned to: without \<open>armStates\<close> it keeps the ones it had.\<close>

definition robotStatusFromJson :: "JsonLib \<Rightarrow> Json \<Rightarrow> RobotStatus \<Rightarrow> exn + RobotStatus" where
  "robotStatusFromJson L j v =
     bindE (atGet L (enumKeyedMapFromJson allMotors motorName (motorStatusFromJson L)) ''motors'' j) (\<lambda>motors.
     bindE (atGet L (enumKeyedMapFromJson allArms armName (toolChangerFromJson L)) ''toolChangers'' j) (\<lambda>tools.
     bindE (atGet L (enumKeyedMapFromJson allComponents componentName (enumFromJson L allLeds ledName)) ''robotComponents'' j) (\<lambda>comps.
     bindE (case fieldOf j ''safetyOn'' of Some (JBool b) \<Rightarrow> bindE (jl_bool L (JBool b)) (\<lambda>b. Inr (Some b)) | _ \<Rightarrow> Inr None) (\<lambda>safety.
     bindE (atGet L (enumKeyedMapFromJson allArms armName (joystickFromJson L)) ''joystics'' j) (\<lambda>joys.
     bindE (case fieldOf j ''armStates'' of None \<Rightarrow> Inr (rs_armStates v)
        | Some a \<Rightarrow> enumKeyedMapFromJson allArms armName (enumFromJson L allAxisStates axisStateName) a) (\<lambda>arms.
     Inr \<lparr>rs_motors = motors, rs_toolChangers = tools, rs_robotComponents = comps, rs_joystics = joys,
          rs_safetyOn = safety, rs_armStates = arms\<rparr>))))))"

section \<open>The round trip\<close>

lemmas json_read = atGet_def valueOr_def fieldOf_object json_library.double json_library.int json_library.bool
  json_library.string

lemma toolChanger_json: "json_library L \<Longrightarrow> toolChangerFromJson L (toolChangerToJson v) = Inr v"
  by (simp add: toolChangerFromJson_def toolChangerToJson_def json_read toolFlagE.keyedMap_roundtrip ledE.enum_json)

lemma joystick_json: "json_library L \<Longrightarrow> joystickFromJson L (joystickToJson v) = Inr v"
  by (simp add: joystickFromJson_def joystickToJson_def json_read)

lemma motorStatus_json: "json_library L \<Longrightarrow> motorStatusFromJson L (motorStatusToJson v) = Inr v"
  by (simp add: motorStatusFromJson_def motorStatusToJson_def json_read motorFlagE.keyedMap_roundtrip ledE.enum_json)

text \<open>The status that is read from the JSON form of a published status is that status, whatever
  the reader held before: every motor with its values and flags, the tool changers, components,
  joysticks and arm states, and the safety input when there is one.\<close>

theorem robot_status_json_roundtrip:
  assumes "json_library L"
  shows "robotStatusFromJson L (robotStatusToJson v) v0 = Inr v"
proof -
  note parts = motorE.keyedMap_roundtrip [OF motorStatus_json [OF assms]]
    armE.keyedMap_roundtrip [OF toolChanger_json [OF assms]] armE.keyedMap_roundtrip [OF joystick_json [OF assms]]
    componentE.keyedMap_roundtrip [OF ledE.enum_json [OF assms]] armE.keyedMap_roundtrip [OF axisE.enum_json [OF assms]]
  show ?thesis
    by (cases "rs_safetyOn v")
      (simp_all add: robotStatusFromJson_def robotStatusToJson_def Let_def atGet_def fieldOf_object parts
        json_library.bool [OF assms])
qed

text \<open>Conversions as the documentation of the library describes them.\<close>

definition documentedJson :: JsonLib where
  "documentedJson = \<lparr>
     jl_double = (\<lambda>j. case j of JReal r \<Rightarrow> Inr r | JInt i \<Rightarrow> Inr (of_int i) | _ \<Rightarrow> Inl ''type must be number''),
     jl_int = (\<lambda>j. case j of JInt i \<Rightarrow> Inr i | _ \<Rightarrow> Inl ''type must be number''),
     jl_bool = (\<lambda>j. case j of JBool b \<Rightarrow> Inr b | _ \<Rightarrow> Inl ''type must be boolean''),
     jl_string = (\<lambda>j. case j of JString s \<Rightarrow> Inr s | _ \<Rightarrow> Inl ''type must be string''),
     jl_at = (\<lambda>key j. ''key '' @ key @ '' not found'')\<rparr>"

interpretation documentedJson: json_library documentedJson
  by unfold_locales (simp_all add: documentedJson_def)

theorem robot_status_json_roundtrip_witness:
  "robotStatusFromJson documentedJson (robotStatusToJson
     (emptyRobotStatus\<lparr>rs_motors := [XLeft \<mapsto> defaultMotorStatus], rs_safetyOn := Some True\<rparr>)) emptyRobotStatus
   = Inr (emptyRobotStatus\<lparr>rs_motors := [XLeft \<mapsto> defaultMotorStatus], rs_safetyOn := Some True\<rparr>)"
  by (rule robot_status_json_roundtrip) (rule documentedJson.json_library_axioms)

end
