(* ===== verification/Contec.thy ===== *)
theory Contec
  imports Bus
begin

text \<open>
  The I/O unit (\<^verbatim>\<open>Server/src/Contec.cpp\<close>): digital inputs and outputs over Modbus TCP. The client
  is created and connected at its first use and dropped by \<open>reset\<close> or when connecting fails; a
  failed transfer leaves it in place. As in \<open>MotorControl\<close> the client is used through a record of
  its operations, \<open>clientIo\<close> is the record of the client of \<open>Modbus\<close>.
\<close>

section \<open>The client\<close>

record ('c, 'w) ContecOps =
  co_tcp :: "string \<Rightarrow> int \<Rightarrow> int \<Rightarrow> 'w \<Rightarrow> (ModbusError + 'c) \<times> 'w"
  co_connect :: "'c \<times> 'w \<Rightarrow> (ModbusError + unit) \<times> ('c \<times> 'w)"
  co_setResponseTimeout :: "int \<Rightarrow> 'c \<times> 'w \<Rightarrow> (ModbusError + unit) \<times> ('c \<times> 'w)"
  co_readBits :: "int \<Rightarrow> int \<Rightarrow> 'c \<times> 'w \<Rightarrow> (ModbusError + bool list) \<times> ('c \<times> 'w)"
  co_readInputBits :: "int \<Rightarrow> int \<Rightarrow> 'c \<times> 'w \<Rightarrow> (ModbusError + bool list) \<times> ('c \<times> 'w)"
  co_writeBits :: "int \<Rightarrow> bool list \<Rightarrow> 'c \<times> 'w \<Rightarrow> (ModbusError + unit) \<times> ('c \<times> 'w)"
  co_close :: "'c \<times> 'w \<Rightarrow> 'c \<times> 'w"
  co_destroy :: "'c \<times> 'w \<Rightarrow> 'w"

definition clientIo :: "'w NetOps \<Rightarrow> (ModbusClient, 'w) ContecOps" where
  "clientIo N = \<lparr>co_tcp = mbTcp N, co_connect = mbConnect N, co_setResponseTimeout = mbSetResponseTimeout N,
     co_readBits = mbReadBits N, co_readInputBits = mbReadInputBits N, co_writeBits = mbWriteBits N,
     co_close = mbClose N, co_destroy = mbCleanup N\<rparr>"

section \<open>The component\<close>

record 'c Contec =
  ct_modbus :: "'c option"
  ct_ipAddress :: string
  ct_port :: int
  ct_slaveId :: int
  ct_responseTimeoutMS :: int
  ct_nDI :: nat
  ct_nDO :: nat
  ct_state :: ComponentState

type_synonym ('c, 'w, 'a) ctAct = "('c Contec \<times> 'w, 'a) act"

definition ctSetState :: "ComponentState \<Rightarrow> ('c, 'w, unit) ctAct" where
  "ctSetState st = modifyA (\<lambda>(ct, w). (ct\<lparr>ct_state := st\<rparr>, w))"

definition ctFail :: "string \<Rightarrow> ('c, 'w, 'a) ctAct" where
  "ctFail msg = thenA (ctSetState ComponentState.Error) (throwA msg)"

text \<open>A call of the client, which the callers have made sure exists.\<close>

definition ctCall :: "('c \<times> 'w \<Rightarrow> (ModbusError + 'a) \<times> ('c \<times> 'w)) \<Rightarrow> ('c, 'w, ModbusError + 'a) ctAct" where
  "ctCall f = (\<lambda>(ct, w). case ct_modbus ct of
     None \<Rightarrow> (Inr (Inl (modbusError 0 '''')), (ct, w))
   | Some c \<Rightarrow> (case f (c, w) of (r, (c', w')) \<Rightarrow> (Inr r, (ct\<lparr>ct_modbus := Some c'\<rparr>, w'))))"

definition ctDrop :: "('c, 'w) ContecOps \<Rightarrow> ('c, 'w, unit) ctAct" where
  "ctDrop C = modifyA (\<lambda>(ct, w). case ct_modbus ct of None \<Rightarrow> (ct, w)
     | Some c \<Rightarrow> (ct\<lparr>ct_modbus := None\<rparr>, co_destroy C (c, w)))"

definition ctCreate :: "('c, 'w) ContecOps \<Rightarrow> ('c, 'w, unit) ctAct" where
  "ctCreate C = (\<lambda>(ct, w). case co_tcp C (ct_ipAddress ct) (ct_port ct) (ct_slaveId ct) w of
     (Inl e, w') \<Rightarrow> ctFail (''Failed to create Modbus TCP client: '' @ me_message e) (ct, w')
   | (Inr c, w') \<Rightarrow> (Inr (), (ct\<lparr>ct_modbus := Some c\<rparr>, w')))"

definition ensureModbusClient :: "('c, 'w) ContecOps \<Rightarrow> ('c, 'w, unit) ctAct" where
  "ensureModbusClient C = bindA (getA fst) (\<lambda>ct. if ct_modbus ct \<noteq> None then ret () else
     thenA (ctCreate C)
     (bindA (ctCall (co_connect C)) (\<lambda>r. case r of
        Inl e \<Rightarrow> thenA (ctDrop C) (ctFail (''Failed to connect to '' @ ct_ipAddress ct @ '':'' @ dec (ct_port ct)
           @ '' (slave '' @ dec (ct_slaveId ct) @ ''): '' @ me_message e))
      | Inr _ \<Rightarrow>
     bindA (ctCall (co_setResponseTimeout C (ct_responseTimeoutMS ct))) (\<lambda>r. case r of
        Inl e \<Rightarrow> thenA (ctDrop C) (ctFail (''Failed to set response timeout: '' @ me_message e))
      | Inr _ \<Rightarrow> ctSetState ComponentState.Normal))))"

text \<open>The arguments of a transfer in a message.\<close>

definition ctRange :: "nat \<Rightarrow> string" where
  "ctRange n = ''(0, '' @ dec (int n) @ '')''"

definition ctTransfer ::
  "(ModbusError + 'a \<Rightarrow> ('c, 'w, 'a) ctAct) \<Rightarrow> ('c, 'w) ContecOps
     \<Rightarrow> ('c \<times> 'w \<Rightarrow> (ModbusError + 'a) \<times> ('c \<times> 'w)) \<Rightarrow> ('c, 'w, 'a) ctAct" where
  "ctTransfer finish C f = thenA (ensureModbusClient C) (bindA (ctCall f) finish)"

definition ctFinish :: "string \<Rightarrow> ModbusError + 'a \<Rightarrow> ('c, 'w, 'a) ctAct" where
  "ctFinish msg r = (case r of
     Inl e \<Rightarrow> ctFail (msg @ me_message e)
   | Inr x \<Rightarrow> thenA (ctSetState ComponentState.Normal) (ret x))"

definition ctInitialize :: "('c, 'w) ContecOps \<Rightarrow> ('c, 'w, unit) ctAct" where
  "ctInitialize C = catchA
     (bindA (getA fst) (\<lambda>ct. ignoreA (ctTransfer
        (ctFinish (''Contec Modbus test failed on read_bits'' @ ctRange (ct_nDO ct) @ '': ''))
        C (co_readBits C 0 (int (ct_nDO ct))))))
     (\<lambda>e. thenA (ctSetState ComponentState.Error) (throwA e))"

definition ctReadInputs :: "('c, 'w) ContecOps \<Rightarrow> ('c, 'w, bool list) ctAct" where
  "ctReadInputs C = bindA (getA fst) (\<lambda>ct. ctTransfer
     (ctFinish (''read_input_bits'' @ ctRange (ct_nDI ct) @ '' failed: ''))
     C (co_readInputBits C 0 (int (ct_nDI ct))))"

definition ctReadOutputs :: "('c, 'w) ContecOps \<Rightarrow> ('c, 'w, bool list) ctAct" where
  "ctReadOutputs C = bindA (getA fst) (\<lambda>ct. ctTransfer
     (ctFinish (''read_bits'' @ ctRange (ct_nDO ct) @ '' failed: ''))
     C (co_readBits C 0 (int (ct_nDO ct))))"

definition ctSetOutputs :: "('c, 'w) ContecOps \<Rightarrow> bool list \<Rightarrow> ('c, 'w, unit) ctAct" where
  "ctSetOutputs C outputs = bindA (getA fst) (\<lambda>ct.
     if length outputs \<noteq> ct_nDO ct
     then throwA (''Invalid number of outputs provided! '' @ dec (int (length outputs)) @ '' instead of ''
       @ dec (int (ct_nDO ct)))
     else ctTransfer (ctFinish (''write_bits'' @ ctRange (ct_nDO ct) @ '' failed: ''))
       C (co_writeBits C 0 outputs))"

definition ctReset :: "('c, 'w) ContecOps \<Rightarrow> ('c, 'w, unit) ctAct" where
  "ctReset C = seqA
     [modifyA (\<lambda>(ct, w). case ct_modbus ct of None \<Rightarrow> (ct, w)
        | Some c \<Rightarrow> (case co_close C (c, w) of (c', w') \<Rightarrow> (ct\<lparr>ct_modbus := Some c'\<rparr>, w'))),
      ctDrop C, ctSetState ComponentState.Error]"

section \<open>Facts\<close>

text \<open>The configuration never changes, and outside the state \<open>Error\<close> there is a client.\<close>

definition ctInv :: "nat \<Rightarrow> nat \<Rightarrow> 'c Contec \<times> 'w \<Rightarrow> bool" where
  "ctInv nDI nDO = (\<lambda>(ct, w). ct_nDI ct = nDI \<and> ct_nDO ct = nDO
     \<and> (ct_state ct \<noteq> ComponentState.Error \<longrightarrow> ct_modbus ct \<noteq> None))"

lemma preserves_ctCall: "preserves (ctInv i j) (ctCall f)"
  by (auto simp: preserves_def ctCall_def ctInv_def split: option.split prod.split)

lemma preserves_ctFail: "preserves (ctInv i j) (ctFail msg)"
  by (auto simp: ctFail_def ctSetState_def preserves_def thenA_def ctInv_def)

lemma ctDrop_fail: "preserves (ctInv i j) (thenA (ctDrop C) (ctFail msg))"
  by (auto simp: preserves_def thenA_def bindA_def ctDrop_def ctFail_def ctSetState_def ctInv_def split: option.split)

definition ctClient :: "nat \<Rightarrow> nat \<Rightarrow> 'c Contec \<times> 'w \<Rightarrow> bool" where
  "ctClient nDI nDO = (\<lambda>s. ctInv nDI nDO s \<and> ct_modbus (fst s) \<noteq> None)"

lemma wp_ctCall:
  "ctClient i j s \<Longrightarrow> (\<And>r s'. ctClient i j s' \<Longrightarrow> Q r s') \<Longrightarrow> wp (ctCall f) Q R s"
  by (auto simp: wp_def ctCall_def ctClient_def ctInv_def split: option.splits prod.splits)

lemma wp_ctFail: "ctInv i j s \<Longrightarrow> (\<And>s'. ctInv i j s' \<Longrightarrow> R msg s') \<Longrightarrow> wp (ctFail msg) Q R s"
  by (auto simp: wp_def ctFail_def ctSetState_def thenA_def bindA_def ctInv_def)

lemma wp_ctDropFail: "ctInv i j s \<Longrightarrow> (\<And>s'. ctInv i j s' \<Longrightarrow> R msg s') \<Longrightarrow> wp (thenA (ctDrop C) (ctFail msg)) Q R s"
  using preservesD [OF ctDrop_fail, of i j s C msg]
  by (auto simp: wp_def ctDrop_def ctFail_def ctSetState_def thenA_def bindA_def split: option.splits prod.splits sum.splits)

lemma wp_ctNormal: "ctClient i j s \<Longrightarrow> (\<And>s'. ctClient i j s' \<Longrightarrow> Q () s') \<Longrightarrow> wp (ctSetState ComponentState.Normal) Q R s"
  by (auto simp: wp_def ctSetState_def ctClient_def ctInv_def)

lemma wp_ensure:
  assumes "ctInv i j s"
  shows "wp (ensureModbusClient C) (\<lambda>_. ctClient i j) (\<lambda>_. ctInv i j) s"
proof (cases "ct_modbus (fst s)")
  case (Some c)
  with assms show ?thesis
    by (simp add: ensureModbusClient_def wp_bind wp_get wp_ret ctClient_def)
next
  case None
  have create: "wp (ctCreate C) (\<lambda>_. ctClient i j) (\<lambda>_. ctInv i j) s"
    using assms None
    by (auto simp: wp_def ctCreate_def ctFail_def ctSetState_def thenA_def bindA_def ctClient_def ctInv_def
        split: prod.splits sum.splits)
  show ?thesis
    unfolding ensureModbusClient_def wp_bind wp_get wp_then
    using None
    by (simp add: wp_then wp_bind, intro wp_mono [OF create])
      (auto simp: wp_bind split: sum.split intro!: wp_ctCall wp_ctDropFail wp_ctNormal, auto simp: ctClient_def)
qed

lemma wp_ctTransfer:
  assumes "ctInv i j s"
  shows "wp (ctTransfer (ctFinish msg) C f) (\<lambda>_. ctClient i j) (\<lambda>_. ctInv i j) s"
  unfolding ctTransfer_def wp_then
  by (rule wp_mono [OF wp_ensure [OF assms]])
    (auto simp: wp_bind ctFinish_def wp_then wp_ret split: sum.split intro!: wp_ctCall wp_ctFail wp_ctNormal,
      auto simp: ctClient_def)

lemma preserves_transfer: "preserves (ctInv i j) (ctTransfer (ctFinish msg) C f)"
  by (rule preservesI) (rule wp_mono [OF wp_ctTransfer], auto simp: ctClient_def)

lemma ct_inv_operations:
  "preserves (ctInv i j) (ctInitialize C)" "preserves (ctInv i j) (ctReadInputs C)"
  "preserves (ctInv i j) (ctReadOutputs C)" "preserves (ctInv i j) (ctSetOutputs C outs)"
  "preserves (ctInv i j) (ctReset C)"
proof -
  show "preserves (ctInv i j) (ctReadInputs C)" "preserves (ctInv i j) (ctReadOutputs C)"
    unfolding ctReadInputs_def ctReadOutputs_def by (intro preserves_bind preserves_get preserves_transfer)+
  show "preserves (ctInv i j) (ctSetOutputs C outs)"
    unfolding ctSetOutputs_def by (intro preserves_bind preserves_get) (auto intro: preserves_transfer)
  have "preserves (ctInv i j) (thenA (ctSetState ComponentState.Error) (throwA e))" for e :: exn
    using preserves_ctFail [of i j e] by (simp add: ctFail_def)
  then show "preserves (ctInv i j) (ctInitialize C)"
    unfolding ctInitialize_def ignoreA_def
    by (intro preserves_catch preserves_bind preserves_get preserves_ret preserves_transfer)
  show "preserves (ctInv i j) (ctReset C)"
    by (auto simp: preserves_def ctReset_def thenA_def bindA_def ctDrop_def ctSetState_def ctInv_def
        split: option.split prod.split)
qed

end
