(* ===== verification/Controller.thy ===== *)
theory Controller
  imports Policy CommandQueue
begin

text \<open>
  The machine controller (\<^verbatim>\<open>Server/src/MachineController.cpp\<close>): one control step reports cleared
  alarms to the motors, asks the policy for its decision, publishes arm states and speeds in the
  robot status and carries the decision out through the I/O and motor operations it was given.

  Those operations are \<^verbatim>\<open>std::function\<close> members: fields of the records \<open>IoFns\<close> and \<open>MotorFns\<close>, actions
  on the world of the caller; a function that may be empty is an option. The policy is an
  interface too, a function on its own state.
\<close>

section \<open>State\<close>

record 'w IoFns =
  io_readInputs :: "('w, SignalMap option) act"
  io_setOutputs :: "SignalMap \<Rightarrow> ('w, unit) act"
  io_readOutputs :: "('w, SignalMap option) act"
  io_contecState :: "'w \<Rightarrow> ComponentState"

record 'w MotorFns =
  mf_setMode :: "(EMotor \<Rightarrow> MotorControlMode \<Rightarrow> ('w, unit) act) option"
  mf_setSpeed :: "(EMotor \<Rightarrow> i32 \<Rightarrow> ('w, unit) act) option"
  mf_setAcceleration :: "(EMotor \<Rightarrow> i32 \<Rightarrow> ('w, unit) act) option"
  mf_setDeceleration :: "(EMotor \<Rightarrow> i32 \<Rightarrow> ('w, unit) act) option"
  mf_setPosition :: "(EMotor \<Rightarrow> i32 \<Rightarrow> ('w, unit) act) option"
  mf_setDirection :: "(EMotor \<Rightarrow> MotorControlDirection \<Rightarrow> ('w, unit) act) option"
  mf_start :: "(EMotor \<Rightarrow> ('w, unit) act) option"
  mf_stop :: "(EMotor \<Rightarrow> ('w, unit) act) option"
  mf_isConfigured :: "EMotor \<Rightarrow> 'w \<Rightarrow> bool"
  mf_onAlarmCleared :: "(EMotor \<Rightarrow> ('w, unit) act) option"

text \<open>\<^verbatim>\<open>IRobotControlPolicy::decide\<close>; it may read the clock of the world.\<close>

type_synonym ('p, 'w) PolicyFn = "SignalMap option \<Rightarrow> SignalMap option \<Rightarrow> ComponentState \<Rightarrow> RobotStatus
  \<Rightarrow> 'p \<times> 'w \<Rightarrow> ControlDecision \<times> ('p \<times> 'w)"

record 'p MachineController =
  mk_policy :: 'p
  mk_missingMotorWarned :: "EMotor \<Rightarrow> bool"
  mk_motorWasInAlarm :: "EMotor \<Rightarrow> bool"

text \<open>The constructor; \<open>None\<close> is the null policy or the empty callback.\<close>

definition makeController :: "'p option \<Rightarrow> (EMotor \<Rightarrow> 'w \<Rightarrow> bool) option \<Rightarrow> exn + 'p MachineController" where
  "makeController policy isConfigured = (case policy of
     None \<Rightarrow> Inl ''MachineController requires a non-null control policy.''
   | Some p \<Rightarrow> (if isConfigured = None then Inl ''MachineController requires motor availability callback.''
       else Inr \<lparr>mk_policy = p, mk_missingMotorWarned = (\<lambda>_. False), mk_motorWasInAlarm = (\<lambda>_. False)\<rparr>))"

text \<open>A step works on the controller, the robot status it shares with the machine and the world.\<close>

type_synonym ('p, 'w) ctlState = "'p MachineController \<times> RobotStatus \<times> 'w"

definition onWorld :: "('w, 'a) act \<Rightarrow> (('p, 'w) ctlState, 'a) act" where
  "onWorld act = (\<lambda>(mk, st, w). case act w of (r, w') \<Rightarrow> (r, (mk, st, w')))"

definition onWorld1 :: "('x \<Rightarrow> ('w, unit) act) option \<Rightarrow> 'x \<Rightarrow> (('p, 'w) ctlState, unit) act" where
  "onWorld1 f x = (case f of None \<Rightarrow> ret () | Some g \<Rightarrow> onWorld (g x))"

definition onWorld2 :: "('x \<Rightarrow> 'y \<Rightarrow> ('w, unit) act) option \<Rightarrow> 'x \<Rightarrow> 'y option \<Rightarrow> (('p, 'w) ctlState, unit) act" where
  "onWorld2 f x y = (case y of None \<Rightarrow> ret () | Some v \<Rightarrow> (case f of None \<Rightarrow> ret () | Some g \<Rightarrow> onWorld (g x v)))"

section \<open>Cleared alarms\<close>

text \<open>Only the alarm flag counts here, unlike in the policy.\<close>

definition alarmFlagged :: "SingleMotorStatus \<Rightarrow> bool" where
  "alarmFlagged ms = (sms_flags ms Alarm = Some ELEDState.Error)"

definition clearedAlarm ::
  "(EMotor \<Rightarrow> ('w, unit) act) \<Rightarrow> EMotor \<Rightarrow> bool \<Rightarrow> (('p, 'w) ctlState, unit) act" where
  "clearedAlarm cleared i isInAlarm = bindA (getA (\<lambda>(mk, st, w). mk_motorWasInAlarm mk i)) (\<lambda>wasInAlarm.
     thenA (whenA (wasInAlarm \<and> \<not> isInAlarm) (onWorld (cleared i)))
       (modifyA (\<lambda>(mk, st, w). (mk\<lparr>mk_motorWasInAlarm := (mk_motorWasInAlarm mk)(i := isInAlarm)\<rparr>, st, w))))"

definition reportClearedAlarms :: "'w MotorFns \<Rightarrow> (('p, 'w) ctlState, unit) act" where
  "reportClearedAlarms M = (case mf_onAlarmCleared M of None \<Rightarrow> ret () | Some cleared \<Rightarrow>
     bindA (getA (\<lambda>(mk, st, w). st)) (\<lambda>st.
       forA (mapKeys allMotors (rs_motors st))
         (\<lambda>i. clearedAlarm cleared i (alarmFlagged (the (rs_motors st i))))))"

section \<open>The decision\<close>

definition decideA :: "('p, 'w) PolicyFn \<Rightarrow> 'w IoFns \<Rightarrow> (('p, 'w) ctlState, ControlDecision) act" where
  "decideA P io = bindA (onWorld (io_readInputs io)) (\<lambda>inputs. bindA (onWorld (io_readOutputs io)) (\<lambda>outputs.
     (\<lambda>(mk, st, w). case P inputs outputs (io_contecState io w) st (mk_policy mk, w) of
        (d, (p, w')) \<Rightarrow> (Inr d, (mk\<lparr>mk_policy := p\<rparr>, st, w')))))"

definition publishSpeed :: "ControlDecision \<Rightarrow> EMotor \<Rightarrow> RobotStatus \<Rightarrow> RobotStatus" where
  "publishSpeed d i st = (case cd_motorSpeedCommands d i of None \<Rightarrow> st | Some c \<Rightarrow>
     (let ms = (case rs_motors st i of None \<Rightarrow> defaultMotorStatus | Some ms \<Rightarrow> ms)
      in st\<lparr>rs_motors := (rs_motors st)(i \<mapsto> ms\<lparr>sms_speedCommandPercent := msc_speedCommandPercent c,
           sms_modeMaxLinearSpeedMmPerSec := msc_modeMaxLinearSpeedMmPerSec c\<rparr>)\<rparr>))"

definition publishDecision :: "ControlDecision \<Rightarrow> RobotStatus \<Rightarrow> RobotStatus" where
  "publishDecision d st = fold (publishSpeed d) (mapKeys allMotors (cd_motorSpeedCommands d))
     (st\<lparr>rs_armStates := cd_armStates d\<rparr>)"

text \<open>One motor intent; a motor without configuration is skipped, with a warning the first time.\<close>

definition applyIntent :: "'w MotorFns \<Rightarrow> MotorIntent \<Rightarrow> (('p, 'w) ctlState, unit) act" where
  "applyIntent M i = bindA (getA (\<lambda>(mk, st, w). mf_isConfigured M (mi_motorId i) w)) (\<lambda>configured.
     if \<not> configured
     then modifyA (\<lambda>(mk, st, w). (mk\<lparr>mk_missingMotorWarned := (mk_missingMotorWarned mk)(mi_motorId i := True)\<rparr>, st, w))
     else seqA
       [modifyA (\<lambda>(mk, st, w). (mk\<lparr>mk_missingMotorWarned := (mk_missingMotorWarned mk)(mi_motorId i := False)\<rparr>, st, w)),
        onWorld2 (mf_setMode M) (mi_motorId i) (mi_mode i),
        onWorld2 (mf_setDirection M) (mi_motorId i) (mi_direction i),
        onWorld2 (mf_setSpeed M) (mi_motorId i) (mi_speed i),
        onWorld2 (mf_setAcceleration M) (mi_motorId i) (mi_acceleration i),
        onWorld2 (mf_setDeceleration M) (mi_motorId i) (mi_deceleration i),
        onWorld2 (mf_setPosition M) (mi_motorId i) (mi_position i),
        if mi_stopMovement i then onWorld1 (mf_stop M) (mi_motorId i)
        else whenA (mi_startMovement i) (onWorld1 (mf_start M) (mi_motorId i))])"

definition runControlLoopTasks :: "('p, 'w) PolicyFn \<Rightarrow> 'w IoFns \<Rightarrow> 'w MotorFns \<Rightarrow> (('p, 'w) ctlState, unit) act" where
  "runControlLoopTasks P io M = thenA (reportClearedAlarms M) (bindA (decideA P io) (\<lambda>d.
     thenA (modifyA (\<lambda>(mk, st, w). (mk, publishDecision d st, w)))
     (if cd_setToolChangerErrorBlinking d then ret () else
      thenA (case cd_outputs d of None \<Rightarrow> ret () | Some outs \<Rightarrow> onWorld (io_setOutputs io outs))
        (forA (cd_motorIntents d) (applyIntent M)))))"

section \<open>Tool changers\<close>

definition toolChangerOutputs :: "EArm \<Rightarrow> EToolChangerAction \<Rightarrow> SignalMap" where
  "toolChangerOutputs arm action = (case arm of
     Left \<Rightarrow> smap_put ''toolChangerLeft'' (action = Open) []
   | Right \<Rightarrow> smap_put ''toolChangerRight'' (action = Open) []
   | Gantry \<Rightarrow> [])"

definition ctlToolChangerCommand :: "'w IoFns \<Rightarrow> EArm \<Rightarrow> EToolChangerAction \<Rightarrow> ('w, unit) act" where
  "ctlToolChangerCommand io arm action = bindA (getA (io_contecState io)) (\<lambda>st.
     if st = ComponentState.Error
     then throwA ''Contec is in error state. Not possible to alter tool changer state!''
     else thenA (io_setOutputs io (toolChangerOutputs arm action))
       (bindA (io_readOutputs io) (\<lambda>outs.
          if outs = None
          then throwA ''Unable to read status of output signals, tool changer status update failed!''
          else ret ())))"

section \<open>Facts\<close>

lemma wp_onWorld: "wp (onWorld act) Q R (mk, st, w) = wp act (\<lambda>x w'. Q x (mk, st, w')) (\<lambda>e w'. R e (mk, st, w')) w"
  by (simp add: wp_def onWorld_def split: prod.split sum.split)

lemma preserves_onWorld: "preserves J act \<Longrightarrow> preserves (\<lambda>(mk, st, w). J w) (onWorld act)"
  by (auto simp: preserves_def onWorld_def split: prod.split)

definition keeps1 :: "('w \<Rightarrow> bool) \<Rightarrow> ('x \<Rightarrow> ('w, unit) act) option \<Rightarrow> bool" where
  "keeps1 J f \<longleftrightarrow> (\<forall>g x. f = Some g \<longrightarrow> preserves J (g x))"

definition keeps2 :: "('w \<Rightarrow> bool) \<Rightarrow> ('x \<Rightarrow> 'y \<Rightarrow> ('w, unit) act) option \<Rightarrow> bool" where
  "keeps2 J f \<longleftrightarrow> (\<forall>g x y. f = Some g \<longrightarrow> preserves J (g x y))"

lemma preserves_onWorld1: "keeps1 J f \<Longrightarrow> preserves (\<lambda>(mk, st, w). J w) (onWorld1 f x)"
  by (auto simp: onWorld1_def keeps1_def split: option.split intro: preserves_onWorld)

lemma preserves_onWorld2: "keeps2 J f \<Longrightarrow> preserves (\<lambda>(mk, st, w). J w) (onWorld2 f x y)"
  by (auto simp: onWorld2_def keeps2_def split: option.split intro: preserves_onWorld)

lemma publishDecision_motors:
  "dom (rs_motors (publishDecision d st)) = dom (rs_motors st) \<union> dom (cd_motorSpeedCommands d)"
proof -
  have "dom (rs_motors (fold (publishSpeed d) is st)) = dom (rs_motors st) \<union> (set is \<inter> dom (cd_motorSpeedCommands d))"
    for "is" st
    by (induction "is" arbitrary: st) (auto simp: publishSpeed_def Let_def split: option.splits)
  then show ?thesis
    by (simp add: publishDecision_def)
qed

text \<open>What every function of the caller keeps, a step keeps.\<close>

lemma preserves_decide:
  assumes "preserves J (io_readInputs io)" and "preserves J (io_readOutputs io)"
    and "\<And>ins outs cs st p w. J w \<Longrightarrow> J (snd (snd (P ins outs cs st (p, w))))"
  shows "preserves (\<lambda>(mk, st, w). J w) (decideA P io)"
proof -
  have "preserves (\<lambda>(mk, st, w). J w) (\<lambda>(mk, st, w). case P ins outs (io_contecState io w) st (mk_policy mk, w) of
      (d, (p, w')) \<Rightarrow> (Inr d, (mk\<lparr>mk_policy := p\<rparr>, st, w')))" for ins outs
    using assms(3) by (auto simp: preserves_def split: prod.split) (metis snd_conv)
  then show ?thesis
    unfolding decideA_def by (intro preserves_bind preserves_onWorld assms(1,2))
qed

definition motorFnsKeep :: "('w \<Rightarrow> bool) \<Rightarrow> 'w MotorFns \<Rightarrow> bool" where
  "motorFnsKeep J M \<longleftrightarrow> keeps2 J (mf_setMode M) \<and> keeps2 J (mf_setSpeed M) \<and> keeps2 J (mf_setAcceleration M)
     \<and> keeps2 J (mf_setDeceleration M) \<and> keeps2 J (mf_setPosition M) \<and> keeps2 J (mf_setDirection M)
     \<and> keeps1 J (mf_start M) \<and> keeps1 J (mf_stop M) \<and> keeps1 J (mf_onAlarmCleared M)"

lemma preserves_applyIntent:
  assumes "motorFnsKeep J M"
  shows "preserves (\<lambda>(mk, st, w). J w) (applyIntent M i)"
proof -
  have mk: "preserves (\<lambda>(mk, st, w). J w) (modifyA (\<lambda>(mk, st, w). (f mk, st, w)))" for f
    by (rule preserves_modify) auto
  show ?thesis
    unfolding applyIntent_def seqA.simps using assms unfolding motorFnsKeep_def
    by (intro preserves_bind preserves_get preserves_if preserves_then preserves_ret preserves_when mk
        preserves_onWorld1 preserves_onWorld2) blast+
qed

lemma preserves_reportClearedAlarms:
  assumes "keeps1 J (mf_onAlarmCleared M)"
  shows "preserves (\<lambda>(mk, st, w). J w) (reportClearedAlarms M)"
proof (cases "mf_onAlarmCleared M")
  case (Some cleared)
  then have "preserves J (cleared i)" for i
    using assms by (simp add: keeps1_def)
  then have one: "preserves (\<lambda>(mk, st, w). J w) (clearedAlarm cleared i b)" for i b
    unfolding clearedAlarm_def
    by (intro preserves_bind preserves_get preserves_then preserves_when preserves_onWorld preserves_modify) auto
  show ?thesis
    unfolding reportClearedAlarms_def Some option.case by (intro preserves_bind preserves_get preserves_for one)
qed (simp add: reportClearedAlarms_def preserves_ret)

lemma preserves_controller:
  assumes "motorFnsKeep J M"
    and "preserves J (io_readInputs io)" and "preserves J (io_readOutputs io)" and "\<And>s. preserves J (io_setOutputs io s)"
    and "\<And>ins outs cs st p w. J w \<Longrightarrow> J (snd (snd (P ins outs cs st (p, w))))"
  shows "preserves (\<lambda>(mk :: 'p MachineController, st, w). J w) (runControlLoopTasks P io M)"
proof -
  have outs: "preserves (\<lambda>(mk :: 'p MachineController, st, w). J w)
      (case x of None \<Rightarrow> ret () | Some outs \<Rightarrow> onWorld (io_setOutputs io outs))" for x
    by (cases x) (simp_all add: preserves_ret preserves_onWorld assms(4))
  have "preserves (\<lambda>(mk :: 'p MachineController, st, w). J w) (modifyA (\<lambda>(mk, st, w). (mk, f st, w)))" for f
    by (rule preserves_modify) auto
  then show ?thesis
    unfolding runControlLoopTasks_def using assms(1)
    by (intro preserves_then preserves_bind preserves_reportClearedAlarms preserves_decide preserves_if preserves_ret
        preserves_for preserves_applyIntent outs assms(2,3,5)) (simp_all add: motorFnsKeep_def)
qed

text \<open>A step without cleared alarms and without intents returns and makes no motor call.\<close>

definition nothingCleared :: "'p MachineController \<Rightarrow> RobotStatus \<Rightarrow> bool" where
  "nothingCleared mk st \<longleftrightarrow> (\<forall>i. mk_motorWasInAlarm mk i \<longrightarrow> (\<exists>ms. rs_motors st i = Some ms \<and> alarmFlagged ms))"

lemma reportClearedAlarms_none:
  assumes "nothingCleared mk st"
  shows "\<exists>mk'. reportClearedAlarms M (mk, st, w) = (Inr (), (mk', st, w))"
proof (cases "mf_onAlarmCleared M")
  case (Some cleared)
  have "\<exists>mk'. forA is' (\<lambda>i. clearedAlarm cleared i (alarmFlagged (the (rs_motors st i)))) (mk, st, w) = (Inr (), (mk', st, w))"
    if "nothingCleared mk st" "set is' \<subseteq> dom (rs_motors st)" for is' mk
    using that
  proof (induction is' arbitrary: mk)
    case (Cons i is')
    let ?b = "alarmFlagged (the (rs_motors st i))"
    let ?mk = "mk\<lparr>mk_motorWasInAlarm := (mk_motorWasInAlarm mk)(i := ?b)\<rparr>"
    have "\<not> (mk_motorWasInAlarm mk i \<and> \<not> ?b)"
      using Cons.prems(1) by (auto simp: nothingCleared_def)
    then have "whenA (mk_motorWasInAlarm mk i \<and> \<not> ?b) (onWorld (cleared i)) (mk, st, w) = (Inr (), mk, st, w)"
      by (simp only: whenA_def if_False ret_def)
    then have step: "clearedAlarm cleared i ?b (mk, st, w) = (Inr (), (?mk, st, w))"
      by (simp only: clearedAlarm_def bindA_def getA_def thenA_def ret_def modifyA_def split prod.case sum.case)
    have "nothingCleared ?mk st"
      using Cons.prems by (auto simp: nothingCleared_def)
    with Cons.IH [of ?mk] Cons.prems(2) step show ?case
      by simp
  qed simp
  from this [OF assms, of "mapKeys allMotors (rs_motors st)"] show ?thesis
    by (simp add: reportClearedAlarms_def Some bindA_def)
qed (simp add: reportClearedAlarms_def)

lemma runControlLoop_no_intents:
  assumes "nothingCleared mk st" and "I w"
    and inp: "\<And>w. I w \<Longrightarrow> \<exists>x w'. io_readInputs io w = (Inr x, w') \<and> I w'"
    and out: "\<And>w. I w \<Longrightarrow> \<exists>x w'. io_readOutputs io w = (Inr x, w') \<and> I w'"
    and set: "\<And>w sigs. I w \<Longrightarrow> \<exists>w'. io_setOutputs io sigs w = (Inr (), w') \<and> I w'"
    and dec: "\<And>ins outs p w. I w \<Longrightarrow> cd_motorIntents (fst (P ins outs (io_contecState io w) st (p, w))) = []
      \<and> I (snd (snd (P ins outs (io_contecState io w) st (p, w))))"
  shows "\<exists>mk' st' w'. runControlLoopTasks P io M (mk, st, w) = (Inr (), (mk', st', w')) \<and> I w'"
proof -
  obtain mk1 where 1: "reportClearedAlarms M (mk, st, w) = (Inr (), (mk1, st, w))"
    using reportClearedAlarms_none [OF assms(1), of M w] by blast
  obtain ins w1 where i: "io_readInputs io w = (Inr ins, w1)" "I w1" using inp [OF assms(2)] by blast
  obtain outs w2 where o': "io_readOutputs io w1 = (Inr outs, w2)" "I w2" using out [OF i(2)] by blast
  obtain d p w3 where d: "P ins outs (io_contecState io w2) st (mk_policy mk1, w2) = (d, (p, w3))"
    by (metis surj_pair)
  with dec [OF o'(2), of ins outs "mk_policy mk1"] have none: "cd_motorIntents d = []" "I w3" by simp_all
  have "decideA P io (mk1, st, w) = (Inr d, (mk1\<lparr>mk_policy := p\<rparr>, st, w3))"
    by (simp add: decideA_def bindA_def onWorld_def i(1) o'(1) d)
  then have run: "runControlLoopTasks P io M (mk, st, w) = (if cd_setToolChangerErrorBlinking d then ret () else
      thenA (case cd_outputs d of None \<Rightarrow> ret () | Some outs \<Rightarrow> onWorld (io_setOutputs io outs)) (ret ()))
      (mk1\<lparr>mk_policy := p\<rparr>, publishDecision d st, w3)"
    by (simp add: runControlLoopTasks_def 1 none(1) bindA_def [of "decideA P io"] thenA_def [of "modifyA f" for f] bindA_def [of "modifyA f" for f])
  show ?thesis
  proof (cases "cd_setToolChangerErrorBlinking d \<or> cd_outputs d = None")
    case False
    then obtain sigs where "cd_outputs d = Some sigs" by blast
    moreover obtain w4 where "io_setOutputs io sigs w3 = (Inr (), w4)" "I w4" using set [OF none(2)] by blast
    ultimately show ?thesis
      using False by (simp add: run thenA_def bindA_def onWorld_def)
  qed (use none(2) in \<open>auto simp: run\<close>)
qed

end
