(* ===== verification/StatusBuilder.thy ===== *)
theory StatusBuilder
  imports MotorOps Panel
begin

text \<open>
  The robot status the server publishes (\<^verbatim>\<open>Server/src/MachineStatusBuilder.cpp\<close>): the readings of
  every configured motor with their conversion to millimetres, the component states, the
  joysticks, the safety input and the tool changer signals.

  \<open>updateAndPublish\<close> works on the status and the state of the machine, of which it sees the motor
  control component (with the world of its bus), the component states and the four functions it
  is given. A null component pointer is not modelled.
\<close>

section \<open>Conversions\<close>

record StatusBuilder =
  sb_stepsPerRevolution :: real
  sb_stepsPerMmByMotor :: "EMotor \<Rightarrow> real option"

definition defaultStatusBuilder :: StatusBuilder where
  "defaultStatusBuilder = \<lparr>sb_stepsPerRevolution = 1000, sb_stepsPerMmByMotor = (\<lambda>_. Some 1)\<rparr>"

definition sbStepsPerMm :: "StatusBuilder \<Rightarrow> EMotor \<Rightarrow> real" where
  "sbStepsPerMm sb i = (case sb_stepsPerMmByMotor sb i of None \<Rightarrow> 1 | Some v \<Rightarrow> if v \<le> 0 then 1 else v)"

definition positionMmFromSteps :: "StatusBuilder \<Rightarrow> EMotor \<Rightarrow> i32 \<Rightarrow> real" where
  "positionMmFromSteps sb i steps = real_of_int (sint steps) / sbStepsPerMm sb i"

definition speedMmPerSecFromRpm :: "StatusBuilder \<Rightarrow> EMotor \<Rightarrow> i32 \<Rightarrow> real" where
  "speedMmPerSecFromRpm sb i rpm = (real_of_int (sint rpm) * sb_stepsPerRevolution sb) / (60 * sbStepsPerMm sb i)"

fun stateToLed :: "ComponentState \<Rightarrow> ELEDState" where
  "stateToLed Normal = On"
| "stateToLed ComponentState.Warning = ELEDState.Warning"
| "stateToLed ComponentState.Error = ELEDState.Error"

section \<open>One motor\<close>

type_synonym ('s, 'a) sbAct = "(RobotStatus \<times> 's, 'a) act"

definition motorStatusOf :: "RobotStatus \<Rightarrow> EMotor \<Rightarrow> SingleMotorStatus" where
  "motorStatusOf st i = (case rs_motors st i of None \<Rightarrow> defaultMotorStatus | Some ms \<Rightarrow> ms)"

definition updMotorStatus :: "EMotor \<Rightarrow> (SingleMotorStatus \<Rightarrow> SingleMotorStatus) \<Rightarrow> ('s, unit) sbAct" where
  "updMotorStatus i f = modifyA (\<lambda>(st, s). (st\<lparr>rs_motors := (rs_motors st)(i \<mapsto> f (motorStatusOf st i))\<rparr>, s))"

definition setFlag :: "EMotorStatusFlags \<Rightarrow> ELEDState \<Rightarrow> SingleMotorStatus \<Rightarrow> SingleMotorStatus" where
  "setFlag flag led ms = ms\<lparr>sms_flags := (sms_flags ms)(flag \<mapsto> led)\<rparr>"

definition failedStatus :: "string \<Rightarrow> SingleMotorStatus \<Rightarrow> SingleMotorStatus" where
  "failedStatus reason ms = (setFlag EMotorStatusFlags.Alarm ELEDState.Error (setFlag EMotorStatusFlags.Warning Off
     (setFlag Enabled ELEDState.Error (setFlag BrakeApplied ELEDState.Error (ms\<lparr>sms_state := ELEDState.Error\<rparr>)))))
     \<lparr>sms_warningDescription := '''', sms_alarmDescription := reason\<rparr>"

definition brakeReleased :: "MotorDirectIoStatus \<Rightarrow> bool" where
  "brakeReleased io = (case find (\<lambda>a. as_channel a = ''MB'') (di_outputAssignments io) of
     None \<Rightarrow> False | Some a \<Rightarrow> as_active a)"

definition enabledLed :: "bool \<Rightarrow> bool \<Rightarrow> ELEDState" where
  "enabledLed hasAlarm isEnabled =
     (if hasAlarm then Off else if \<not> isEnabled then ELEDState.Warning else On)"

definition monitorStatus ::
  "StatusBuilder \<Rightarrow> EMotor \<Rightarrow> MotorMonitorSnapshot \<Rightarrow> SingleMotorStatus \<Rightarrow> SingleMotorStatus" where
  "monitorStatus sb i monitor ms = ms\<lparr>
     sms_targetPosition := positionMmFromSteps sb i (ms_commandPosition monitor),
     sms_currentPosition := positionMmFromSteps sb i (ms_actualPosition monitor),
     sms_speed := speedMmPerSecFromRpm sb i (ms_actualSpeed monitor),
     sms_speedRpm := real_of_int (sint (ms_actualSpeed monitor))\<rparr>"

definition readFlags :: "bool \<Rightarrow> bool \<Rightarrow> bool \<Rightarrow> bool \<Rightarrow> SingleMotorStatus \<Rightarrow> SingleMotorStatus" where
  "readFlags released hasWarning hasAlarm isEnabled ms =
     (setFlag EMotorStatusFlags.Alarm (if hasAlarm then ELEDState.Error else Off)
      (setFlag EMotorStatusFlags.Warning (if hasWarning then ELEDState.Warning else Off)
      (setFlag Enabled (enabledLed hasAlarm isEnabled)
      (setFlag BrakeApplied (if released then Off else On) ms))))
     \<lparr>sms_state := (if hasAlarm then ELEDState.Error else if hasWarning then ELEDState.Warning else On),
      sms_warningDescription := '''', sms_alarmDescription := ''''\<rparr>"

definition diagnosticText :: "MotorCodeDiagnostic \<Rightarrow> string" where
  "diagnosticText d = (if cd_cause d = '''' then cd_type d else cd_type d @ '': '' @ cd_cause d)"

text \<open>How the builder reaches the motor control component in the state of the machine.\<close>

record ('c, 'w, 's) McAccess =
  ma_get :: "'s \<Rightarrow> 'c MotorControl \<times> 'w"
  ma_put :: "'c MotorControl \<times> 'w \<Rightarrow> 's \<Rightarrow> 's"

definition onMc :: "('c, 'w, 's) McAccess \<Rightarrow> ('c, 'w, 'a) mcAct \<Rightarrow> ('s, 'a) sbAct" where
  "onMc A act = zoomA (\<lambda>(st, s). ma_get A s) (\<lambda>t (st, s). (st, ma_put A t s)) act"

definition sbReadMotor :: "('c, 'w) BusOps \<Rightarrow> ('c, 'w, 's) McAccess \<Rightarrow> StatusBuilder \<Rightarrow> EMotor \<Rightarrow> ('s, bool) sbAct" where
  "sbReadMotor B A sb i =
     bindA (onMc A (mcReadOutputStatus B i)) (\<lambda>outputStatus.
     bindA (onMc A (mcReadMonitorSnapshot B i)) (\<lambda>monitor.
     thenA (updMotorStatus i (monitorStatus sb i monitor))
     (bindA (onMc A (getA fst)) (\<lambda>mc.
        let io = decodeDirectIoAndBrakeStatus (the (mc_motors mc i)) (word32 (ms_reg00D4 monitor) (ms_reg00D5 monitor));
            hasWarning = isDriverOutputFlagSet (fs_raw outputStatus) MotorOutputFlag.Warning;
            hasAlarm = isDriverOutputFlagSet (fs_raw outputStatus) MotorOutputFlag.Alarm;
            isEnabled = (if mcIsEnableControllable i mc then mcIsEnabled i mc else True)
        in thenA (updMotorStatus i (readFlags (brakeReleased io) hasWarning hasAlarm isEnabled))
           (thenA (whenA hasWarning (bindA (onMc A (mcDiagnoseCurrentWarning B i)) (\<lambda>d.
              updMotorStatus i (\<lambda>ms. ms\<lparr>sms_warningDescription := diagnosticText d\<rparr>))))
           (thenA (whenA hasAlarm (bindA (onMc A (mcDiagnoseCurrentAlarm B i)) (\<lambda>d.
              updMotorStatus i (\<lambda>ms. ms\<lparr>sms_alarmDescription := diagnosticText d\<rparr>))))
           (ret (hasWarning \<or> hasAlarm))))))))"

text \<open>The body of the loop over the configured motors; the result is whether the motor counts as
  one with a warning or an alarm.\<close>

definition sbMotor ::
  "('c, 'w) BusOps \<Rightarrow> ('c, 'w, 's) McAccess \<Rightarrow> StatusBuilder \<Rightarrow> ComponentState \<Rightarrow> EMotor \<Rightarrow> ('s, bool) sbAct" where
  "sbMotor B A sb componentState i = thenA (updMotorStatus i (\<lambda>ms. ms))
     (if componentState = ComponentState.Error
      then thenA (updMotorStatus i (failedStatus ''MotorControl component is in error state'')) (ret True)
      else bindA (onMc A (getA fst)) (\<lambda>mc.
        if mc_motors mc i = None
        then thenA (updMotorStatus i (failedStatus ''Motor is configured but unavailable in runtime'')) (ret True)
        else catchA (sbReadMotor B A sb i) (\<lambda>e. thenA (updMotorStatus i (failedStatus e)) (ret True))))"

fun sbMotors ::
  "('c, 'w) BusOps \<Rightarrow> ('c, 'w, 's) McAccess \<Rightarrow> StatusBuilder \<Rightarrow> ComponentState \<Rightarrow> EMotor list \<Rightarrow> ('s, bool) sbAct" where
  "sbMotors B A sb cs [] = ret False"
| "sbMotors B A sb cs (i # is') = bindA (sbMotor B A sb cs i) (\<lambda>b. bindA (sbMotors B A sb cs is') (\<lambda>bs. ret (b \<or> bs)))"

definition sbMotorControl :: "('c, 'w) BusOps \<Rightarrow> ('c, 'w, 's) McAccess \<Rightarrow> StatusBuilder \<Rightarrow> ('s, unit) sbAct" where
  "sbMotorControl B A sb = bindA (onMc A (getA fst)) (\<lambda>mc.
     bindA (sbMotors B A sb (mc_state mc) (configuredMotorIds mc)) (\<lambda>hasAny.
     onMc A (modifyA (\<lambda>(mc, w). (mcSetWarningState hasAny mc, w)))))"

section \<open>The other parts\<close>

definition setComponents :: "(ERobotComponent \<Rightarrow> ComponentState option) \<Rightarrow> RobotStatus \<Rightarrow> RobotStatus" where
  "setComponents comps st = fold (\<lambda>c st. case comps c of None \<Rightarrow> st
     | Some cs \<Rightarrow> st\<lparr>rs_robotComponents := (rs_robotComponents st)(c \<mapsto> stateToLed cs)\<rparr>) allComponents st"

definition setJoysticks :: "Snapshot \<Rightarrow> RobotStatus \<Rightarrow> RobotStatus" where
  "setJoysticks sn st = st\<lparr>rs_joystics := (rs_joystics st)
     (Left \<mapsto> \<lparr>js_x = sn_x sn ! 0, js_y = sn_y sn ! 0, js_btn = sn_b sn ! 0\<rparr>,
      Right \<mapsto> \<lparr>js_x = sn_x sn ! 1, js_y = sn_y sn ! 1, js_btn = sn_b sn ! 1\<rparr>,
      Gantry \<mapsto> \<lparr>js_x = sn_x sn ! 2, js_y = sn_y sn ! 2, js_btn = sn_b sn ! 2\<rparr>)\<rparr>"

definition setToolFlag :: "EArm \<Rightarrow> EToolChangerStatusFlags \<Rightarrow> ELEDState \<Rightarrow> RobotStatus \<Rightarrow> RobotStatus" where
  "setToolFlag arm flag led st =
     (let tc = (case rs_toolChangers st arm of None \<Rightarrow> \<lparr>tc_flags = Map.empty\<rparr> | Some tc \<Rightarrow> tc)
      in st\<lparr>rs_toolChangers := (rs_toolChangers st)(arm \<mapsto> tc\<lparr>tc_flags := (tc_flags tc)(flag \<mapsto> led)\<rparr>)\<rparr>)"

definition setAllToolChangerFlags :: "ELEDState \<Rightarrow> RobotStatus \<Rightarrow> RobotStatus" where
  "setAllToolChangerFlags led st = fold (\<lambda>(arm, flag). setToolFlag arm flag led)
     (List.product [Left, Right] [ProxSen, OpenSen, ClosedSen, OpenValve, ClosedValve]) st"

definition onOff :: "bool \<Rightarrow> ELEDState" where
  "onOff b = (if b then On else Off)"

definition setSafety :: "SignalMap option \<Rightarrow> RobotStatus \<Rightarrow> RobotStatus" where
  "setSafety inputs st = st\<lparr>rs_safetyOn := Option.bind inputs (\<lambda>i. map_of i ''safetyON'')\<rparr>"

definition setProximity :: "SignalMap option \<Rightarrow> RobotStatus \<Rightarrow> RobotStatus" where
  "setProximity inputs st =
     (case (Option.bind inputs (\<lambda>i. map_of i ''button1''), Option.bind inputs (\<lambda>i. map_of i ''button2'')) of
        (Some b1, Some b2) \<Rightarrow> setToolFlag Right ProxSen (onOff b2) (setToolFlag Left ProxSen (onOff b1) st)
      | _ \<Rightarrow> setToolFlag Right ProxSen ELEDState.Error (setToolFlag Left ProxSen ELEDState.Error st))"

definition setValves :: "SignalMap option \<Rightarrow> RobotStatus \<Rightarrow> RobotStatus" where
  "setValves outputs st =
     (case (Option.bind outputs (\<lambda>o'. map_of o' ''toolChangerLeft''), Option.bind outputs (\<lambda>o'. map_of o' ''toolChangerRight'')) of
        (Some l, Some r) \<Rightarrow>
          setToolFlag Right OpenValve (onOff r) (setToolFlag Right ClosedValve (onOff (\<not> r))
          (setToolFlag Left OpenValve (onOff l) (setToolFlag Left ClosedValve (onOff (\<not> l)) st)))
      | _ \<Rightarrow>
          setToolFlag Right OpenValve ELEDState.Error (setToolFlag Right ClosedValve ELEDState.Error
          (setToolFlag Left OpenValve ELEDState.Error (setToolFlag Left ClosedValve ELEDState.Error st))))"

section \<open>Update and publication\<close>

record 's StatusSources =
  ss_components :: "'s \<Rightarrow> ERobotComponent \<Rightarrow> ComponentState option"
  ss_snapshot :: "'s \<Rightarrow> Snapshot"
  ss_readInputs :: "('s, SignalMap option) act"
  ss_readOutputs :: "('s, SignalMap option) act"
  ss_publish :: "RobotStatus \<Rightarrow> ('s, unit) act"

definition onRest :: "('s, 'a) act \<Rightarrow> ('s, 'a) sbAct" where
  "onRest act = zoomA snd (\<lambda>s (st, _). (st, s)) act"

definition updStatus :: "(RobotStatus \<Rightarrow> RobotStatus) \<Rightarrow> ('s, unit) sbAct" where
  "updStatus f = modifyA (\<lambda>(st, s). (f st, s))"

definition publishStatus :: "'s StatusSources \<Rightarrow> ('s, unit) sbAct" where
  "publishStatus src = bindA (getA fst) (\<lambda>st. onRest (ss_publish src st))"

definition updateAndPublish ::
  "('c, 'w) BusOps \<Rightarrow> ('c, 'w, 's) McAccess option \<Rightarrow> StatusBuilder \<Rightarrow> 's StatusSources \<Rightarrow> ('s, unit) sbAct" where
  "updateAndPublish B mcA sb src =
     thenA (case mcA of None \<Rightarrow> ret () | Some A \<Rightarrow> sbMotorControl B A sb)
     (bindA (getA (\<lambda>(st, s). ss_components src s)) (\<lambda>comps.
      thenA (updStatus (setComponents comps))
     (bindA (getA (\<lambda>(st, s). ss_snapshot src s)) (\<lambda>sn.
      thenA (updStatus (setJoysticks sn))
      (if comps Contec = Some ComponentState.Error
       then thenA (updStatus (setAllToolChangerFlags ELEDState.Error)) (publishStatus src)
       else bindA (onRest (ss_readInputs src)) (\<lambda>inputs. bindA (onRest (ss_readOutputs src)) (\<lambda>outputs.
         thenA (updStatus (\<lambda>st. setValves outputs (setProximity inputs (setSafety inputs st))))
           (publishStatus src))))))))"

section \<open>Facts\<close>

lemma preserves_updStatus: "preserves (\<lambda>(st, s). J s) (updStatus f)"
  unfolding updStatus_def by (rule preserves_modify) auto

lemma preserves_updMotor: "preserves (\<lambda>(st, s). J s) (updMotorStatus i f)"
  unfolding updMotorStatus_def by (rule preserves_modify) auto

lemma preserves_onRest: "preserves J act \<Longrightarrow> preserves (\<lambda>(st, s). J s) (onRest act)"
  unfolding onRest_def by (erule preserves_zoom_part) auto

lemma preserves_onMc: "(\<And>t s. J s \<Longrightarrow> J (ma_put A t s)) \<Longrightarrow> preserves (\<lambda>(st, s). J s) (onMc A act)"
  unfolding onMc_def by (rule preserves_zoom) auto

lemma preserves_sbMotor:
  assumes "\<And>t s. J s \<Longrightarrow> J (ma_put A t s)"
  shows "preserves (\<lambda>(st, s). J s) (sbMotor B A sb cs i)"
  unfolding sbMotor_def sbReadMotor_def Let_def
  by (intro preserves_then preserves_bind preserves_if preserves_catch preserves_ret preserves_when
      preserves_updMotor preserves_onMc assms)

lemma preserves_sbMotors:
  "(\<And>t s. J s \<Longrightarrow> J (ma_put A t s)) \<Longrightarrow> preserves (\<lambda>(st, s). J s) (sbMotors B A sb cs is')"
  by (induction is') (simp_all add: preserves_ret preserves_bind preserves_sbMotor)

lemma preserves_updateAndPublish:
  assumes "\<And>t s. J s \<Longrightarrow> J (ma_put A t s)" and "preserves J (ss_readInputs src)" and "preserves J (ss_readOutputs src)"
    and "\<And>st. preserves J (ss_publish src st)"
  shows "preserves (\<lambda>(st, s). J s) (updateAndPublish B (Some A) sb src)"
proof -
  have "preserves (\<lambda>(st, s). J s) (publishStatus src)"
    unfolding publishStatus_def by (intro preserves_bind preserves_get preserves_onRest assms(4))
  moreover have "preserves (\<lambda>(st, s). J s) (sbMotorControl B A sb)"
    unfolding sbMotorControl_def by (intro preserves_bind preserves_onMc preserves_sbMotors assms(1))
  ultimately show ?thesis
    unfolding updateAndPublish_def option.case
    by (intro preserves_then preserves_bind preserves_get preserves_if preserves_updStatus preserves_onRest assms(2,3))
qed

end
