(* ===== verification/MachineIo.thy ===== *)
theory MachineIo
  imports Contec Controller StatusBuilder Json ControlLoop
begin

text \<open>
  The machine (\<^verbatim>\<open>Server/src/Machine.cpp\<close>): its state and its digital signals. The inputs and outputs
  of the I/O unit have names, given by two mappings of the configuration; within one cycle the
  readings are cached, and a failed access caches that there is none.

  \<open>Platform\<close> collects what the machine is built on: the clients of the I/O unit and of the motor
  bus, the clock, the policy, the serial port of the panel, the status publisher and the printer
  of JSON texts. The machine's collaborators (loop runner, controller, status builder) exist
  together or not at all, as \<^verbatim>\<open>wire\<close> makes them.
\<close>

section \<open>State\<close>

record ('i, 'c, 'p, 'w) Platform =
  pf_io :: "('i, 'w) ContecOps"
  pf_bus :: "('c, 'w) BusOps"
  pf_clock :: "'w Clock"
  pf_decide :: "('p, 'w) PolicyFn"
  pf_panelOpen :: "'w \<Rightarrow> (exn + unit) \<times> 'w"
  pf_publish :: "RobotStatus \<Rightarrow> ('w, unit) act"
  pf_dump :: "Json \<Rightarrow> string"

record IoSignalCache =
  sc_cycle :: "64 word"
  sc_valid :: bool
  sc_value :: "SignalMap option"

definition emptyCache :: IoSignalCache where
  "emptyCache = \<lparr>sc_cycle = 0, sc_valid = False, sc_value = None\<rparr>"

record 'p Collaborators =
  cl_loopInterval :: int
  cl_updateInterval :: int
  cl_controller :: "'p MachineController"
  cl_builder :: StatusBuilder

record ('i, 'c, 'p, 'w) Machine =
  mn_contec :: "'i Contec"
  mn_controlPanel :: ControlPanel
  mn_motorControl :: "'c MotorControl"
  mn_inputMapping :: "nat smap"
  mn_outputMapping :: "nat smap"
  mn_robotStatus :: RobotStatus
  mn_commandQueue :: "Command CommandQueue"
  mn_isRunning :: bool
  mn_loopInterval :: int
  mn_updateInterval :: int
  mn_statusUpdatesEnabled :: bool
  mn_ioCacheCycle :: "64 word"
  mn_inputCache :: IoSignalCache
  mn_outputCache :: IoSignalCache
  mn_wired :: "'p Collaborators option"
  mn_replies :: "(nat \<times> string) list"
  mn_world :: 'w

type_synonym ('i, 'c, 'p, 'w, 'a) mnAct = "(('i, 'c, 'p, 'w) Machine, 'a) act"

text \<open>Calls of the components; each works on its component and the world.\<close>

definition onContec :: "('i, 'w, 'a) ctAct \<Rightarrow> ('i, 'c, 'p, 'w, 'a) mnAct" where
  "onContec act = zoomA (\<lambda>m. (mn_contec m, mn_world m)) (\<lambda>(ct, w) m. m\<lparr>mn_contec := ct, mn_world := w\<rparr>) act"

definition onMotors :: "('c, 'w, 'a) mcAct \<Rightarrow> ('i, 'c, 'p, 'w, 'a) mnAct" where
  "onMotors act = zoomA (\<lambda>m. (mn_motorControl m, mn_world m))
     (\<lambda>(mc, w) m. m\<lparr>mn_motorControl := mc, mn_world := w\<rparr>) act"

definition onPanel :: "(ControlPanel, 'a) act \<Rightarrow> ('i, 'c, 'p, 'w, 'a) mnAct" where
  "onPanel act = zoomA mn_controlPanel (\<lambda>cp m. m\<lparr>mn_controlPanel := cp\<rparr>) act"

definition contecState :: "('i, 'c, 'p, 'w) Machine \<Rightarrow> ComponentState" where
  "contecState m = ct_state (mn_contec m)"

section \<open>Signals\<close>

definition validateMappedIndex :: "string \<Rightarrow> nat \<Rightarrow> nat \<Rightarrow> string \<Rightarrow> exn + unit" where
  "validateMappedIndex nm index ioSize ioKind =
     (if ioSize \<le> index
      then Inl ((if ioKind = ''input'' then ''Input'' else ''Output'') @ '' mapping '' @ [CHR 0x27] @ nm @ [CHR 0x27]
        @ '' points outside Contec '' @ ioKind @ '' range (index='' @ dec (int index) @ '', size=''
        @ dec (int ioSize) @ '')'')
      else Inr ())"

fun mapSignals :: "string \<Rightarrow> bool list \<Rightarrow> nat smap \<Rightarrow> SignalMap \<Rightarrow> exn + SignalMap" where
  "mapSignals kind bits [] out = Inr out"
| "mapSignals kind bits ((nm, index) # ms) out =
     bindE (validateMappedIndex nm index (length bits) kind) (\<lambda>_.
       mapSignals kind bits ms (smap_put nm (bits ! index) out))"

fun applySignals :: "nat smap \<Rightarrow> SignalMap \<Rightarrow> bool list \<Rightarrow> exn + bool list" where
  "applySignals mapping [] bits = Inr bits"
| "applySignals mapping ((nm, value) # ss) bits = (case map_of mapping nm of
     None \<Rightarrow> Inl (''Unknown output signal '' @ [CHR 0x27] @ nm @ [CHR 0x27])
   | Some index \<Rightarrow> bindE (validateMappedIndex nm index (length bits) ''output'') (\<lambda>_.
       applySignals mapping ss (bits[index := value])))"

definition cacheInputSignals :: "SignalMap option \<Rightarrow> ('i, 'c, 'p, 'w, unit) mnAct" where
  "cacheInputSignals v = modifyA (\<lambda>m. m\<lparr>mn_inputCache :=
     \<lparr>sc_cycle = mn_ioCacheCycle m, sc_valid = True, sc_value = v\<rparr>\<rparr>)"

definition cacheOutputSignals :: "SignalMap option \<Rightarrow> ('i, 'c, 'p, 'w, unit) mnAct" where
  "cacheOutputSignals v = modifyA (\<lambda>m. m\<lparr>mn_outputCache :=
     \<lparr>sc_cycle = mn_ioCacheCycle m, sc_valid = True, sc_value = v\<rparr>\<rparr>)"

definition readInputSignals :: "('i, 'c, 'p, 'w) Platform \<Rightarrow> ('i, 'c, 'p, 'w, SignalMap option) mnAct" where
  "readInputSignals F = bindA (getA (\<lambda>m. m)) (\<lambda>m.
     if sc_valid (mn_inputCache m) \<and> sc_cycle (mn_inputCache m) = mn_ioCacheCycle m
     then ret (sc_value (mn_inputCache m))
     else if contecState m = ComponentState.Error
     then thenA (cacheInputSignals None) (ret None)
     else catchA
       (bindA (onContec (ctReadInputs (pf_io F))) (\<lambda>inputs.
        bindA (liftE (mapSignals ''input'' inputs (mn_inputMapping m) [])) (\<lambda>sigs.
        thenA (cacheInputSignals (Some sigs)) (ret (Some sigs)))))
       (\<lambda>_. thenA (cacheInputSignals None) (ret None)))"

definition setOutputs :: "('i, 'c, 'p, 'w) Platform \<Rightarrow> SignalMap \<Rightarrow> ('i, 'c, 'p, 'w, unit) mnAct" where
  "setOutputs F signals = bindA (getA (\<lambda>m. m)) (\<lambda>m.
     if contecState m = ComponentState.Error then ret ()
     else catchA
       (bindA (onContec (ctReadOutputs (pf_io F))) (\<lambda>outputs.
        bindA (liftE (applySignals (mn_outputMapping m) signals outputs)) (\<lambda>outputs.
        thenA (onContec (ctSetOutputs (pf_io F) outputs))
        (bindA (liftE (mapSignals ''output'' outputs (mn_outputMapping m) [])) (\<lambda>sigs.
         cacheOutputSignals (Some sigs))))))
       (\<lambda>_. cacheOutputSignals None))"

definition readOutputSignals :: "('i, 'c, 'p, 'w) Platform \<Rightarrow> ('i, 'c, 'p, 'w, SignalMap option) mnAct" where
  "readOutputSignals F = bindA (getA (\<lambda>m. m)) (\<lambda>m.
     if sc_valid (mn_outputCache m) \<and> sc_cycle (mn_outputCache m) = mn_ioCacheCycle m
     then ret (sc_value (mn_outputCache m))
     else if contecState m = ComponentState.Error
     then thenA (cacheOutputSignals None) (ret None)
     else catchA
       (bindA (onContec (ctReadOutputs (pf_io F))) (\<lambda>outputs.
        bindA (liftE (mapSignals ''output'' outputs (mn_outputMapping m) [])) (\<lambda>sigs.
        thenA (cacheOutputSignals (Some sigs)) (ret (Some sigs)))))
       (\<lambda>_. thenA (cacheOutputSignals None) (ret None)))"

section \<open>What the collaborators are given\<close>

definition machineIo :: "('i, 'c, 'p, 'w) Platform \<Rightarrow> ('i, 'c, 'p, 'w) Machine IoFns" where
  "machineIo F = \<lparr>io_readInputs = readInputSignals F, io_setOutputs = setOutputs F,
     io_readOutputs = readOutputSignals F, io_contecState = contecState\<rparr>"

definition machineMotors :: "('i, 'c, 'p, 'w) Platform \<Rightarrow> ('i, 'c, 'p, 'w) Machine MotorFns" where
  "machineMotors F = (let B = pf_bus F in \<lparr>
     mf_setMode = Some (\<lambda>i v. onMotors (mcSetMode B i v)),
     mf_setSpeed = Some (\<lambda>i v. onMotors (mcSetSpeed B i v)),
     mf_setAcceleration = Some (\<lambda>i v. onMotors (mcSetAcceleration B i v)),
     mf_setDeceleration = Some (\<lambda>i v. onMotors (mcSetDeceleration B i v)),
     mf_setPosition = Some (\<lambda>i v. onMotors (mcSetPosition B i v)),
     mf_setDirection = Some (\<lambda>i v. onMotors (mcSetDirection B i v)),
     mf_start = Some (\<lambda>i. onMotors (mcStartMovement B i)),
     mf_stop = Some (\<lambda>i. onMotors (mcStopMovement B i)),
     mf_isConfigured = (\<lambda>i m. mc_motors (mn_motorControl m) i \<noteq> None),
     mf_onAlarmCleared = Some (\<lambda>i. onMotors (mcOnAlarmCleared B i))\<rparr>)"

definition machinePolicy :: "('i, 'c, 'p, 'w) Platform \<Rightarrow> ('p, ('i, 'c, 'p, 'w) Machine) PolicyFn" where
  "machinePolicy F = (\<lambda>inputs outputs cs st (p, m). case pf_decide F inputs outputs cs st (p, mn_world m) of
     (d, (p', w)) \<Rightarrow> (d, (p', m\<lparr>mn_world := w\<rparr>)))"

definition componentState :: "('i, 'c, 'p, 'w) Machine \<Rightarrow> ERobotComponent \<Rightarrow> ComponentState" where
  "componentState m c = (case c of Contec \<Rightarrow> ct_state (mn_contec m)
     | MotorControl \<Rightarrow> mc_state (mn_motorControl m) | ControlPanel \<Rightarrow> cp_state (mn_controlPanel m))"

definition machineSources :: "('i, 'c, 'p, 'w) Platform \<Rightarrow> ('i, 'c, 'p, 'w) Machine StatusSources" where
  "machineSources F = \<lparr>ss_components = (\<lambda>m c. Some (componentState m c)),
     ss_snapshot = (\<lambda>m. getSnapshot (mn_controlPanel m)),
     ss_readInputs = readInputSignals F, ss_readOutputs = readOutputSignals F,
     ss_publish = (\<lambda>st. zoomA mn_world (\<lambda>w m. m\<lparr>mn_world := w\<rparr>) (pf_publish F st))\<rparr>"

definition machineMc :: "('c, 'w, ('i, 'c, 'p, 'w) Machine) McAccess" where
  "machineMc = \<lparr>ma_get = (\<lambda>m. (mn_motorControl m, mn_world m)),
     ma_put = (\<lambda>(mc, w) m. m\<lparr>mn_motorControl := mc, mn_world := w\<rparr>)\<rparr>"

end
