(* ===== verification/CommandProcessor.thy ===== *)
theory CommandProcessor
  imports CommandQueue Json
begin

text \<open>
  The command protocol between the operator interface and the server: the interface's commands
  and their JSON form (\<^verbatim>\<open>GUI/src/GuiCommandJsonAdapter.cpp\<close>), and \<^verbatim>\<open>cmd::processCommand\<close> of the
  server (\<^verbatim>\<open>Server/src/MachineCommandProcessor.cpp\<close>), which decodes a command, hands it to the
  dispatcher and makes the response. The dispatcher is an action on the state of the machine
  that may throw; \<open>parse\<close> is the library's parser (\<open>None\<close>: it throws).
\<close>

section \<open>Responses\<close>

definition okResponse :: Json where
  "okResponse = object [(''status'', JString ''OK''), (''message'', JString '''')]"

definition errorResponse :: "string \<Rightarrow> Json" where
  "errorResponse msg = setField ''message'' (JString msg) (setField ''status'' (JString ''Error'') okResponse)"

type_synonym 's DispatchFn = "Payload \<Rightarrow> int \<Rightarrow> ('s, string) act"

text \<open>A command without an answer of its own: the reply is empty or an error.\<close>

definition plainReply :: "'s DispatchFn \<Rightarrow> string \<Rightarrow> exn + Payload \<Rightarrow> 's \<Rightarrow> Json \<times> 's" where
  "plainReply dispatch pre p s = (case p of
     Inl e \<Rightarrow> (errorResponse (pre @ e), s)
   | Inr payload \<Rightarrow> (case dispatch payload 2000 s of
       (Inl e, s') \<Rightarrow> (errorResponse (pre @ e), s')
     | (Inr reply, s') \<Rightarrow> (if reply \<noteq> '''' then errorResponse reply else okResponse, s')))"

text \<open>A command whose reply is a JSON text.\<close>

definition diagnosticsReply ::
  "(string \<Rightarrow> Json option) \<Rightarrow> 's DispatchFn \<Rightarrow> string \<Rightarrow> exn + Payload \<Rightarrow> 's \<Rightarrow> Json \<times> 's" where
  "diagnosticsReply parse dispatch name p s = (case p of
     Inl e \<Rightarrow> (errorResponse (''Invalid '' @ name @ '' command: '' @ e), s)
   | Inr payload \<Rightarrow> (case dispatch payload 2000 s of
       (Inl e, s') \<Rightarrow> (errorResponse (''Invalid '' @ name @ '' command: '' @ e), s')
     | (Inr reply, s') \<Rightarrow>
         (if reply = '''' then errorResponse (name @ '' command returned empty diagnostics payload.'')
          else case parse reply of
            Some j \<Rightarrow> setField ''response'' j okResponse
          | None \<Rightarrow> errorResponse reply, s')))"

fun isBoolean :: "Json option \<Rightarrow> bool" where
  "isBoolean (Some (JBool _)) = True"
| "isBoolean _ = False"

fun theBool :: "Json option \<Rightarrow> bool" where
  "theBool (Some (JBool b)) = b"
| "theBool _ = False"

definition motorField :: "Json \<Rightarrow> exn + EMotor" where
  "motorField command = enumFromJsonStringField allMotors motorName command ''motor''"

text \<open>The branches on the types that name no motor, and on the types that are not known.\<close>

definition processForAll :: "'s DispatchFn \<Rightarrow> string \<Rightarrow> Json \<Rightarrow> 's \<Rightarrow> Json \<times> 's" where
  "processForAll dispatch type command s =
     (if type = ''setAllMotorsEnabled'' then
        (if fieldOf command ''enabled'' = None \<or> \<not> isBoolean (fieldOf command ''enabled'')
         then (errorResponse (''setAllMotorsEnabled command requires boolean '' @ [CHR 0x27] @ ''enabled''
            @ [CHR 0x27] @ ''.''), s)
         else plainReply dispatch ''Invalid setAllMotorsEnabled command: ''
           (Inr (SetAllMotorsEnabledCommand (theBool (fieldOf command ''enabled'')))) s)
      else if type = ''emergencyStop'' then
        plainReply dispatch ''emergencyStop command failed: '' (Inr EmergencyStopCommand) s
      else (errorResponse (''Unknown command type '' @ [CHR 0x27] @ type @ [CHR 0x27] @ ''!''), s))"

text \<open>The branches on the type of a command.\<close>

definition processTyped ::
  "(string \<Rightarrow> Json option) \<Rightarrow> 's DispatchFn \<Rightarrow> string \<Rightarrow> Json \<Rightarrow> 's \<Rightarrow> Json \<times> 's" where
  "processTyped parse dispatch type command s =
     (if type = ''toolChanger'' then
        (if fieldOf command ''position'' = None \<or> fieldOf command ''action'' = None
         then (errorResponse (''toolChanger command requires both '' @ [CHR 0x27] @ ''position'' @ [CHR 0x27]
            @ '' and '' @ [CHR 0x27] @ ''action'' @ [CHR 0x27] @ ''.''), s)
         else plainReply dispatch ''Invalid toolChanger command: ''
           (bindE (enumFromJsonStringField allArms armName command ''position'') (\<lambda>arm.
            bindE (enumFromJsonStringField allToolActions toolActionName command ''action'') (\<lambda>action.
            Inr (ToolChangerCommand arm action)))) s)
      else if type = ''reset'' then
        (if fieldOf command ''system'' = None
         then (errorResponse (''reset command requires a '' @ [CHR 0x27] @ ''system'' @ [CHR 0x27] @ '' field.''), s)
         else plainReply dispatch ''Invalid reset command: ''
           (bindE (enumFromJsonStringField allComponents componentName command ''system'') (\<lambda>c.
            Inr (ReconnectCommand c))) s)
      else if type = ''motorDiagnostics'' then
        (if fieldOf command ''motor'' = None
         then (errorResponse (''motorDiagnostics command requires a '' @ [CHR 0x27] @ ''motor'' @ [CHR 0x27] @ '' field.''), s)
         else diagnosticsReply parse dispatch ''motorDiagnostics''
           (bindE (motorField command) (\<lambda>m. Inr (MotorDiagnosticsCommand m))) s)
      else if type = ''resetMotorAlarm'' then
        (if fieldOf command ''motor'' = None
         then (errorResponse (''resetMotorAlarm command requires a '' @ [CHR 0x27] @ ''motor'' @ [CHR 0x27] @ '' field.''), s)
         else plainReply dispatch ''Invalid resetMotorAlarm command: ''
           (bindE (motorField command) (\<lambda>m. Inr (ResetMotorAlarmCommand m))) s)
      else if type = ''contecDiagnostics'' then
        diagnosticsReply parse dispatch ''contecDiagnostics'' (Inr ContecDiagnosticsCommand) s
      else if type = ''setMotorEnabled'' then
        (if fieldOf command ''motor'' = None \<or> fieldOf command ''enabled'' = None
            \<or> \<not> isBoolean (fieldOf command ''enabled'')
         then (errorResponse (''setMotorEnabled command requires '' @ [CHR 0x27] @ ''motor'' @ [CHR 0x27]
            @ '' and boolean '' @ [CHR 0x27] @ ''enabled'' @ [CHR 0x27] @ ''.''), s)
         else plainReply dispatch ''Invalid setMotorEnabled command: ''
           (bindE (motorField command) (\<lambda>m.
            Inr (SetMotorEnabledCommand m (theBool (fieldOf command ''enabled''))))) s)
      else processForAll dispatch type command s)"

definition processCommand ::
  "(string \<Rightarrow> Json option) \<Rightarrow> 's DispatchFn \<Rightarrow> Json \<Rightarrow> 's \<Rightarrow> Json \<times> 's" where
  "processCommand parse dispatch command s =
     (if \<not> isObject command then (errorResponse ''Command must be a map! Ignoring!'', s)
      else case fieldOf command ''type'' of
        Some (JString type) \<Rightarrow> processTyped parse dispatch type command s
      | _ \<Rightarrow> (errorResponse (''Command lacks a valid '' @ [CHR 0x27] @ ''type'' @ [CHR 0x27] @ '' entry! Ignoring!''), s))"

section \<open>The operator interface\<close>

datatype GuiCommand =
    GuiToolChangerCommand EArm EToolChangerAction
  | GuiReconnectCommand ERobotComponent
  | GuiMotorDiagnosticsCommand EMotor
  | GuiResetMotorAlarmCommand EMotor
  | GuiSetMotorEnabledCommand EMotor bool
  | GuiSetAllMotorsEnabledCommand bool
  | GuiContecDiagnosticsCommand
  | GuiRawCommand Json
  | GuiEmergencyStopCommand

record GuiResponse =
  gr_ok :: bool
  gr_message :: string
  gr_payload :: "Json option"

fun guiToJson :: "GuiCommand \<Rightarrow> Json" where
  "guiToJson (GuiToolChangerCommand arm action) = object [(''type'', JString ''toolChanger''),
     (''position'', enumToJson armName arm), (''action'', enumToJson toolActionName action)]"
| "guiToJson (GuiReconnectCommand c) = object [(''type'', JString ''reset''), (''system'', enumToJson componentName c)]"
| "guiToJson (GuiMotorDiagnosticsCommand m) =
     object [(''type'', JString ''motorDiagnostics''), (''motor'', enumToJson motorName m)]"
| "guiToJson (GuiResetMotorAlarmCommand m) =
     object [(''type'', JString ''resetMotorAlarm''), (''motor'', enumToJson motorName m)]"
| "guiToJson (GuiSetMotorEnabledCommand m on) = object [(''type'', JString ''setMotorEnabled''),
     (''motor'', enumToJson motorName m), (''enabled'', JBool on)]"
| "guiToJson (GuiSetAllMotorsEnabledCommand on) =
     object [(''type'', JString ''setAllMotorsEnabled''), (''enabled'', JBool on)]"
| "guiToJson GuiContecDiagnosticsCommand = object [(''type'', JString ''contecDiagnostics'')]"
| "guiToJson GuiEmergencyStopCommand = object [(''type'', JString ''emergencyStop'')]"
| "guiToJson (GuiRawCommand node) = node"

definition guiFromJson :: "Json \<Rightarrow> GuiResponse option" where
  "guiFromJson response = (if \<not> isObject response then None else Some
     \<lparr>gr_ok = (case fieldOf response ''status'' of Some (JString st) \<Rightarrow> st = ''OK'' | _ \<Rightarrow> False),
      gr_message = (case fieldOf response ''message'' of Some (JString msg) \<Rightarrow> msg | _ \<Rightarrow> ''''),
      gr_payload = fieldOf response ''response''\<rparr>)"

section \<open>Facts\<close>

lemma fieldOf_response [simp]:
  "fieldOf okResponse key = (if key = ''message'' then Some (JString '''') else if key = ''status'' then Some (JString ''OK'') else None)"
  "isObject okResponse"
  by (simp_all add: okResponse_def fieldOf_object)

lemma fieldOf_error [simp]:
  "fieldOf (errorResponse msg) key =
    (if key = ''message'' then Some (JString msg) else if key = ''status'' then Some (JString ''Error'') else None)"
  "isObject (errorResponse msg)"
  by (simp_all add: errorResponse_def)

lemma guiFromJson_ok: "guiFromJson okResponse = Some \<lparr>gr_ok = True, gr_message = '''', gr_payload = None\<rparr>"
  by (simp add: guiFromJson_def)

lemma guiFromJson_error: "guiFromJson (errorResponse msg) = Some \<lparr>gr_ok = False, gr_message = msg, gr_payload = None\<rparr>"
  by (simp add: guiFromJson_def)

lemma guiFromJson_payload:
  "guiFromJson (setField ''response'' j okResponse) = Some \<lparr>gr_ok = True, gr_message = '''', gr_payload = Some j\<rparr>"
  by (simp add: guiFromJson_def)

text \<open>The server's command for a command of the interface.\<close>

fun guiPayload :: "GuiCommand \<Rightarrow> Payload option" where
  "guiPayload (GuiToolChangerCommand arm action) = Some (ToolChangerCommand arm action)"
| "guiPayload (GuiReconnectCommand c) = Some (ReconnectCommand c)"
| "guiPayload (GuiMotorDiagnosticsCommand m) = Some (MotorDiagnosticsCommand m)"
| "guiPayload (GuiResetMotorAlarmCommand m) = Some (ResetMotorAlarmCommand m)"
| "guiPayload (GuiSetMotorEnabledCommand m on) = Some (SetMotorEnabledCommand m on)"
| "guiPayload (GuiSetAllMotorsEnabledCommand on) = Some (SetAllMotorsEnabledCommand on)"
| "guiPayload GuiContecDiagnosticsCommand = Some ContecDiagnosticsCommand"
| "guiPayload GuiEmergencyStopCommand = Some EmergencyStopCommand"
| "guiPayload (GuiRawCommand node) = None"

fun wantsDiagnostics :: "Payload \<Rightarrow> bool" where
  "wantsDiagnostics (MotorDiagnosticsCommand m) = True"
| "wantsDiagnostics ContecDiagnosticsCommand = True"
| "wantsDiagnostics _ = False"

lemma enumField_object:
  "fieldOf j key = Some (enumToJson name v) \<Longrightarrow> enumFromJsonStringField vals name j key = stringToEnum vals name (name v)"
  by (simp add: enumFromJsonStringField_def enumToJson_def)

lemma process_gui:
  assumes "guiPayload c = Some p"
  shows "if wantsDiagnostics p then \<exists>name. processCommand parse dispatch (guiToJson c) = diagnosticsReply parse dispatch name (Inr p)
    else \<exists>pre. processCommand parse dispatch (guiToJson c) = plainReply dispatch pre (Inr p)"
  using assms
  by (cases c) (auto simp: processCommand_def processTyped_def processForAll_def fun_eq_iff fieldOf_object enumField_object motorField_def
      armE.stringToEnum_name toolActionE.stringToEnum_name motorE.stringToEnum_name componentE.stringToEnum_name
      enumToJson_def [of motorName])

section \<open>Properties\<close>

definition answers :: "'s DispatchFn \<Rightarrow> 's \<Rightarrow> Json \<times> 's \<Rightarrow> bool" where
  "answers dispatch s = (\<lambda>(resp, s'). \<exists>r. guiFromJson resp = Some r
     \<and> fieldOf resp ''status'' = Some (JString (if gr_ok r then ''OK'' else ''Error''))
     \<and> (if gr_ok r then gr_message r = '''' \<and> (\<exists>p reply. dispatch p 2000 s = (Inr reply, s'))
        else gr_payload r = None \<and> (s' = s \<or> (\<exists>p. s' = snd (dispatch p 2000 s)))))"

lemma answers_error: "s' = s \<or> (\<exists>p. s' = snd (dispatch p 2000 s)) \<Longrightarrow> answers dispatch s (errorResponse msg, s')"
  by (simp add: answers_def guiFromJson_error)

lemma answers_if: "answers dispatch s x \<Longrightarrow> answers dispatch s y \<Longrightarrow> answers dispatch s (if b then x else y)"
  by simp

lemma answers_plain: "answers dispatch s (plainReply dispatch pre p s)"
proof (cases p)
  case (Inr payload)
  obtain r s' where d: "dispatch payload 2000 s = (r, s')" by (metis surj_pair)
  then have "s' = s \<or> (\<exists>p. s' = snd (dispatch p 2000 s))" by (metis snd_conv)
  with Inr d show ?thesis
    by (cases r) (auto simp: plainReply_def answers_error, auto simp: answers_def guiFromJson_ok)
qed (simp add: plainReply_def answers_error)

lemma answers_diagnostics: "answers dispatch s (diagnosticsReply parse dispatch name p s)"
proof (cases p)
  case (Inr payload)
  obtain r s' where d: "dispatch payload 2000 s = (r, s')" by (metis surj_pair)
  then have "s' = s \<or> (\<exists>p. s' = snd (dispatch p 2000 s))" by (metis snd_conv)
  with Inr d show ?thesis
    by (cases r) (auto simp: diagnosticsReply_def answers_error split: option.split,
        auto simp: answers_def guiFromJson_payload)
qed (simp add: diagnosticsReply_def answers_error)

lemma answers_process: "answers dispatch s (processCommand parse dispatch command s)"
proof (cases "\<exists>type. isObject command \<and> fieldOf command ''type'' = Some (JString type)")
  case True
  then obtain type where "isObject command" "fieldOf command ''type'' = Some (JString type)" by blast
  then show ?thesis
    unfolding processCommand_def processTyped_def processForAll_def
    by (simp only: not_True_eq_False if_False option.case Json.case)
      (intro answers_if answers_plain answers_diagnostics answers_error disjI1 refl)
next
  case False
  then have "\<exists>msg. processCommand parse dispatch command s = (errorResponse msg, s)"
    unfolding processCommand_def by (cases "fieldOf command ''type''") (auto split: Json.split)
  then show ?thesis
    using answers_error by metis
qed

text \<open>The response to any JSON value at all, valid command or not, is an object the operator
  interface can read, with the status \<open>OK\<close> or \<open>Error\<close>. It is \<open>OK\<close>, with an empty message, only
  when one command was dispatched, with a timeout of two seconds, and returned; in every other
  case it carries no payload, and at most one command was dispatched.\<close>

theorem command_response_type:
  assumes "processCommand parse dispatch command s = (resp, s')"
  shows "\<exists>r. guiFromJson resp = Some r
    \<and> fieldOf resp ''status'' = Some (JString (if gr_ok r then ''OK'' else ''Error''))
    \<and> (if gr_ok r then gr_message r = '''' \<and> (\<exists>p reply. dispatch p 2000 s = (Inr reply, s'))
       else gr_payload r = None \<and> (s' = s \<or> (\<exists>p. s' = snd (dispatch p 2000 s))))"
  using answers_process [of dispatch s parse command] by (simp add: assms answers_def)

theorem command_response_type_witness:
  "\<exists>resp r. processCommand (\<lambda>_. None) (\<lambda>p t s. (Inr '''', Suc s)) (JInt 3) 7 = (resp, 7)
    \<and> guiFromJson resp = Some r \<and> \<not> gr_ok r"
proof -
  have run: "processCommand (\<lambda>_. None) (\<lambda>p t s. (Inr '''', Suc s)) (JInt 3) 7
      = (errorResponse ''Command must be a map! Ignoring!'', 7)"
    by (simp add: processCommand_def)
  from command_response_type [OF run] show ?thesis
    using run by (auto simp: guiFromJson_error)
qed

text \<open>A command of the operator interface arrives at the dispatcher of the server as the
  command it was meant to be, and the reply comes back: for a plain command an empty reply is
  success and any other one the error message; for a diagnostics command the parsed reply is the
  payload, and a reply that is no JSON text is the error message.\<close>

theorem gui_command_roundtrip:
  assumes "guiPayload c = Some p" and "dispatch p 2000 s = (Inr reply, s')"
  shows "\<exists>resp r. processCommand parse dispatch (guiToJson c) s = (resp, s') \<and> guiFromJson resp = Some r
    \<and> gr_ok r = (if wantsDiagnostics p then reply \<noteq> '''' \<and> parse reply \<noteq> None else reply = '''')
    \<and> gr_payload r = (if wantsDiagnostics p \<and> reply \<noteq> '''' then parse reply else None)
    \<and> (reply \<noteq> '''' \<and> \<not> gr_ok r \<longrightarrow> gr_message r = reply)"
  using process_gui [OF assms(1), of parse dispatch] assms(2)
  by (cases "wantsDiagnostics p")
    (auto simp: plainReply_def diagnosticsReply_def guiFromJson_error guiFromJson_ok guiFromJson_payload
      split: option.split)

theorem gui_command_roundtrip_witness:
  "\<exists>resp r. processCommand (\<lambda>_. None) (\<lambda>p t s. (Inr '''', s @ [p])) (guiToJson (GuiSetMotorEnabledCommand YLeft True)) []
      = (resp, [SetMotorEnabledCommand YLeft True]) \<and> guiFromJson resp = Some r \<and> gr_ok r"
  using gui_command_roundtrip [of "GuiSetMotorEnabledCommand YLeft True" "SetMotorEnabledCommand YLeft True"
      "\<lambda>p t s. (Inr '''', s @ [p])" "[]" "''''" "[SetMotorEnabledCommand YLeft True]" "\<lambda>_. None"]
  by auto

end
