(* ===== verification/MachineCommands.thy ===== *)
theory MachineCommands
  imports MachineIo CommandProcessor
begin

text \<open>
  The commands the machine carries out (\<^verbatim>\<open>Server/src/Machine.cpp\<close>): tool changers, reconnection of a
  component, motor enabling and alarm reset, and the two diagnostics, whose reply is a JSON text.
\<close>

section \<open>Motor diagnostics\<close>

definition assignmentJson :: "string \<Rightarrow> string \<Rightarrow> int \<Rightarrow> bool \<Rightarrow> Json" where
  "assignmentJson channel function code active = object
     [(''channel'', JString channel), (''function'', JString function), (''functionCode'', JInt code),
      (''active'', JBool active)]"

definition defaultOutputs :: "(string \<times> string \<times> int) list" where
  "defaultOutputs = [(''OUT0'', ''HOME-P'', 70), (''OUT1'', ''END'', 69), (''OUT2'', ''AREA1'', 73),
     (''OUT3'', ''READY'', 67), (''OUT4'', ''WNG'', 66), (''OUT5'', ''ALM'', 65), (''MB'', ''MB'', 0)]"

definition defaultInputs :: "(string \<times> string \<times> int) list" where
  "defaultInputs = [(''IN0'', ''HOME'', 3), (''IN1'', ''START'', 4), (''IN2'', ''M0'', 48), (''IN3'', ''M1'', 49),
     (''IN4'', ''M2'', 50), (''IN5'', ''FREE'', 16), (''IN6'', ''STOP'', 18), (''IN7'', ''ALM-RST'', 24),
     (''+LS'', ''+LS'', 0), (''-LS'', ''-LS'', 0), (''HOMES'', ''HOMES'', 0), (''SLIT'', ''SLIT'', 0)]"

definition defaultNetIn :: "(string \<times> int) list" where
  "defaultNetIn = [(''M0'', 48), (''M1'', 49), (''M2'', 50), (''START'', 4), (''HOME'', 3), (''STOP'', 18),
     (''FREE'', 16), (''not used'', 0), (''MS0'', 8), (''MS1'', 9), (''MS2'', 10), (''SSTART'', 5),
     (''+JOG'', 6), (''-JOG'', 7), (''FWD'', 1), (''RVS'', 2)]"

definition defaultNetOut :: "(string \<times> int) list" where
  "defaultNetOut = [(''M0_R'', 48), (''M1_R'', 49), (''M2_R'', 50), (''START_R'', 4), (''HOME-P'', 70),
     (''READY'', 67), (''WNG'', 66), (''ALM'', 65), (''S-BSY'', 80), (''AREA1'', 73), (''AREA2'', 74),
     (''AREA3'', 75), (''TIM'', 72), (''MOVE'', 68), (''END'', 69), (''TLC'', 71)]"

definition inactive :: "(string \<times> string \<times> int) list \<Rightarrow> Json" where
  "inactive as = JArray (map (\<lambda>(channel, function, code). assignmentJson channel function code False) as)"

definition netChannels :: "string \<Rightarrow> (string \<times> int) list \<Rightarrow> (string \<times> string \<times> int) list" where
  "netChannels pre as = map (\<lambda>(i, function, code). (pre @ dec (int i), function, code)) (zip [0 ..< length as] as)"

definition makeDefaultIoAssignmentResponse :: "EMotor \<Rightarrow> Json" where
  "makeDefaultIoAssignmentResponse motor = object
     [(''motor'', enumToJson motorName motor),
      (''driverInputRaw'', JInt 0), (''driverOutputRaw'', JInt 0), (''ioOutputRaw'', JInt 0),
      (''ioInputRaw'', JInt 0), (''netInputRaw'', JInt 0), (''netOutputRaw'', JInt 0),
      (''inputFlags'', JArray []), (''outputFlags'', JArray []),
      (''ioOutputAssignments'', inactive defaultOutputs),
      (''ioInputAssignments'', inactive defaultInputs),
      (''netOutputAssignments'', inactive (netChannels ''NET-OUT'' defaultNetOut)),
      (''netInputAssignments'', inactive (netChannels ''NET-IN'' defaultNetIn)),
      (''alarm'', object []), (''warning'', object [])]"

definition signalsJson :: "AssignedSignal list \<Rightarrow> Json" where
  "signalsJson as = JArray (map (\<lambda>a. assignmentJson (as_channel a) (as_function a) (uint (as_functionCode a)) (as_active a)) as)"

definition diagnosticJson :: "MotorCodeDiagnostic \<Rightarrow> Json" where
  "diagnosticJson d = object
     [(''code'', JInt (uint (cd_code d))), (''known'', JBool (cd_known d)), (''type'', JString (cd_type d)),
      (''cause'', JString (cd_cause d)), (''remedialAction'', JString (cd_remedialAction d))]"

text \<open>All readings come first, so a failure leaves the default response with the error added.\<close>

definition fillDiagnostics ::
  "MotorFlagStatus \<Rightarrow> MotorFlagStatus \<Rightarrow> MotorDirectIoStatus \<Rightarrow> MotorRemoteIoStatus
     \<Rightarrow> MotorCodeDiagnostic \<Rightarrow> MotorCodeDiagnostic \<Rightarrow> Json \<Rightarrow> Json" where
  "fillDiagnostics inputStatus outputStatus direct remote alarm warning response = fold (\<lambda>(k, v). setField k v)
     [(''driverInputRaw'', JInt (uint (fs_raw inputStatus))),
      (''driverOutputRaw'', JInt (uint (fs_raw outputStatus))),
      (''ioOutputRaw'', JInt (uint (di_reg00D4 direct))),
      (''ioInputRaw'', JInt (uint (di_reg00D5 direct))),
      (''netInputRaw'', JInt (uint (ri_reg007D remote))),
      (''netOutputRaw'', JInt (uint (ri_reg007F remote))),
      (''inputFlags'', JArray (map JString (fs_activeFlags inputStatus))),
      (''outputFlags'', JArray (map JString (fs_activeFlags outputStatus))),
      (''ioOutputAssignments'', signalsJson (di_outputAssignments direct)),
      (''ioInputAssignments'', signalsJson (di_inputAssignments direct)),
      (''netOutputAssignments'', signalsJson (ri_outputAssignments remote)),
      (''netInputAssignments'', signalsJson (ri_inputAssignments remote)),
      (''alarm'', diagnosticJson alarm),
      (''warning'', diagnosticJson warning)] response"

definition handleMotorDiagnosticsCommand :: "('i, 'c, 'p, 'w) Platform \<Rightarrow> EMotor \<Rightarrow> ('i, 'c, 'p, 'w, Json) mnAct" where
  "handleMotorDiagnosticsCommand F motor = (let B = pf_bus F; response = makeDefaultIoAssignmentResponse motor in catchA
     (bindA (onMotors (mcReadInputStatus B motor)) (\<lambda>inputStatus.
      bindA (onMotors (mcReadOutputStatus B motor)) (\<lambda>outputStatus.
      bindA (onMotors (mcReadDirectIoStatus B motor)) (\<lambda>direct.
      bindA (onMotors (mcReadRemoteIoStatus B motor)) (\<lambda>remote.
      bindA (onMotors (mcDiagnoseCurrentAlarm B motor)) (\<lambda>alarm.
      bindA (onMotors (mcDiagnoseCurrentWarning B motor)) (\<lambda>warning.
      ret (fillDiagnostics inputStatus outputStatus direct remote alarm warning response))))))))
     (\<lambda>e. ret (setField ''diagnosticsError'' (JString e) response)))"

section \<open>Diagnostics of the I/O unit\<close>

fun nameChannels :: "nat smap \<Rightarrow> string list \<Rightarrow> string list" where
  "nameChannels [] names = names"
| "nameChannels ((nm, index) # ms) names = nameChannels ms
     (if index < length names \<and> names ! index = '''' then names[index := nm] else names)"

definition buildContecChannelNames :: "nat smap \<Rightarrow> nat \<Rightarrow> string list" where
  "buildContecChannelNames mapping count = nameChannels mapping (replicate count '''')"

text \<open>\<open>bits\<close> are the readings there are; a channel without one is inactive.\<close>

definition channelJson :: "string \<Rightarrow> string list \<Rightarrow> bool list \<Rightarrow> nat \<Rightarrow> Json" where
  "channelJson pre names bits i = object
     [(''channel'', JString (pre @ dec (int i))), (''active'', JBool (i < length bits \<and> bits ! i)),
      (''signal'', JString (names ! i))]"

definition contecResponse :: "string list \<Rightarrow> string list \<Rightarrow> bool list \<Rightarrow> bool list \<Rightarrow> Json" where
  "contecResponse inputNames outputNames inputs outputs = object
     [(''inputsRaw'', JArray (map (\<lambda>i. JBool (i < length inputs \<and> inputs ! i)) [0 ..< length inputNames])),
      (''outputsRaw'', JArray (map (\<lambda>i. JBool (i < length outputs \<and> outputs ! i)) [0 ..< length outputNames])),
      (''inputs'', JArray (map (channelJson ''IN'' inputNames inputs) [0 ..< length inputNames])),
      (''outputs'', JArray (map (channelJson ''OUT'' outputNames outputs) [0 ..< length outputNames]))]"

definition handleContecDiagnosticsCommand :: "('i, 'c, 'p, 'w) Platform \<Rightarrow> ('i, 'c, 'p, 'w, Json) mnAct" where
  "handleContecDiagnosticsCommand F = bindA (getA (\<lambda>m. m)) (\<lambda>m.
     let inputNames = buildContecChannelNames (mn_inputMapping m) (ct_nDI (mn_contec m));
         outputNames = buildContecChannelNames (mn_outputMapping m) (ct_nDO (mn_contec m))
     in catchA
       (bindA (onContec (ctReadInputs (pf_io F))) (\<lambda>inputs.
        bindA (onContec (ctReadOutputs (pf_io F))) (\<lambda>outputs.
        ret (contecResponse inputNames outputNames inputs outputs))))
       (\<lambda>e. ret (setField ''diagnosticsError'' (JString e) (contecResponse inputNames outputNames [] []))))"

section \<open>Components\<close>

definition initializePanel :: "('i, 'c, 'p, 'w) Platform \<Rightarrow> ('i, 'c, 'p, 'w, unit) mnAct" where
  "initializePanel F = bindA (zoomA mn_world (\<lambda>w m. m\<lparr>mn_world := w\<rparr>) (\<lambda>w. case pf_panelOpen F w of (r, w') \<Rightarrow> (Inr r, w')))
     (\<lambda>r. onPanel (panelInitialize r))"

definition initializeComponent :: "('i, 'c, 'p, 'w) Platform \<Rightarrow> ERobotComponent \<Rightarrow> ('i, 'c, 'p, 'w, unit) mnAct" where
  "initializeComponent F c = (case c of
     Contec \<Rightarrow> onContec (ctInitialize (pf_io F))
   | MotorControl \<Rightarrow> onMotors (mcInitialize (pf_bus F))
   | ControlPanel \<Rightarrow> initializePanel F)"

definition resetComponent :: "('i, 'c, 'p, 'w) Platform \<Rightarrow> ERobotComponent \<Rightarrow> ('i, 'c, 'p, 'w, unit) mnAct" where
  "resetComponent F c = (case c of
     Contec \<Rightarrow> onContec (ctReset (pf_io F))
   | MotorControl \<Rightarrow> onMotors (mcReset (pf_bus F))
   | ControlPanel \<Rightarrow> onPanel (modifyA panelReset))"

definition initializeComponents :: "('i, 'c, 'p, 'w) Platform \<Rightarrow> ('i, 'c, 'p, 'w, unit) mnAct" where
  "initializeComponents F = forA allComponents (\<lambda>c. catchA (initializeComponent F c) (\<lambda>_. ret ()))"

text \<open>The empty string is success.\<close>

definition reconnectComponent :: "('i, 'c, 'p, 'w) Platform \<Rightarrow> ERobotComponent \<Rightarrow> ('i, 'c, 'p, 'w, string) mnAct" where
  "reconnectComponent F c = thenA (resetComponent F c) (catchA
     (thenA (initializeComponent F c) (bindA (getA (\<lambda>m. componentState m c)) (\<lambda>st.
        ret (if st = ComponentState.Error
             then ''Resetting '' @ [CHR 0x27] @ componentName c @ [CHR 0x27] @ '' was unsuccessful!'' else ''''))))
     (\<lambda>e. ret (''Resetting '' @ [CHR 0x27] @ componentName c @ [CHR 0x27] @ '' failed: '' @ e)))"

definition dummyMotorStatus :: SingleMotorStatus where
  "dummyMotorStatus = defaultMotorStatus\<lparr>sms_flags :=
     [BrakeApplied \<mapsto> Off, Enabled \<mapsto> Off, EMotorStatusFlags.Warning \<mapsto> Off, EMotorStatusFlags.Alarm \<mapsto> Off]\<rparr>"

definition dummyToolChanger :: ToolChangerStatus where
  "dummyToolChanger = \<lparr>tc_flags =
     [ProxSen \<mapsto> Off, ClosedSen \<mapsto> Off, OpenSen \<mapsto> Off, OpenValve \<mapsto> Off, ClosedValve \<mapsto> Off]\<rparr>"

definition dummyStatus :: "RobotStatus \<Rightarrow> RobotStatus" where
  "dummyStatus st = st\<lparr>rs_motors := (\<lambda>_. Some dummyMotorStatus),
     rs_toolChangers := (rs_toolChangers st)(Left \<mapsto> dummyToolChanger, Right \<mapsto> dummyToolChanger)\<rparr>"

definition makeDummyStatus :: "('i, 'c, 'p, 'w, unit) mnAct" where
  "makeDummyStatus = modifyA (\<lambda>m. m\<lparr>mn_robotStatus := dummyStatus (mn_robotStatus m)\<rparr>)"

section \<open>Handling\<close>

definition handleReconnectCommand :: "('i, 'c, 'p, 'w) Platform \<Rightarrow> ERobotComponent \<Rightarrow> ('i, 'c, 'p, 'w, unit) mnAct" where
  "handleReconnectCommand F c = bindA (reconnectComponent F c) (\<lambda>result.
     if result \<noteq> '''' then throwA result else makeDummyStatus)"

text \<open>The result is the payload of the reply; \<^verbatim>\<open>handleEmergencyStopCommand\<close> only writes to the log.\<close>

definition handleCommand :: "('i, 'c, 'p, 'w) Platform \<Rightarrow> Payload \<Rightarrow> ('i, 'c, 'p, 'w, string) mnAct" where
  "handleCommand F p = (case p of
     ToolChangerCommand arm action \<Rightarrow> thenA (ctlToolChangerCommand (machineIo F) arm action) (ret '''')
   | ReconnectCommand c \<Rightarrow> thenA (handleReconnectCommand F c) (ret '''')
   | MotorDiagnosticsCommand motor \<Rightarrow> mapA (pf_dump F) (handleMotorDiagnosticsCommand F motor)
   | ResetMotorAlarmCommand motor \<Rightarrow> thenA (onMotors (mcResetAlarm (pf_bus F) motor)) (ret '''')
   | SetMotorEnabledCommand motor on \<Rightarrow> thenA (onMotors (mcSetEnabled (pf_bus F) motor on)) (ret '''')
   | SetAllMotorsEnabledCommand on \<Rightarrow> thenA (onMotors (mcSetAllEnabled (pf_bus F) on)) (ret '''')
   | ContecDiagnosticsCommand \<Rightarrow> mapA (pf_dump F) (handleContecDiagnosticsCommand F)
   | EmergencyStopCommand \<Rightarrow> ret '''')"

definition setReply :: "Command \<Rightarrow> string \<Rightarrow> ('i, 'c, 'p, 'w, unit) mnAct" where
  "setReply c text = modifyA (\<lambda>m. m\<lparr>mn_replies := mn_replies m @ [(cmd_reply c, text)]\<rparr>)"

text \<open>The command step of a cycle: at most one command is taken, and it gets its reply.\<close>

definition commandStep :: "('i, 'c, 'p, 'w) Platform \<Rightarrow> ('i, 'c, 'p, 'w, unit) mnAct" where
  "commandStep F = (\<lambda>m. case cqTryPop (mn_commandQueue m) of
     (None, q) \<Rightarrow> (Inr (), m\<lparr>mn_commandQueue := q\<rparr>)
   | (Some c, q) \<Rightarrow>
       bindA (catchA (handleCommand F (cmd_payload c)) (\<lambda>e. ret e)) (setReply c) (m\<lparr>mn_commandQueue := q\<rparr>))"

end
