(* ===== verification/Machine.thy ===== *)
theory Machine
  imports MachineCommands
begin

text \<open>
  Construction, wiring, the control cycle and the lifecycle of the machine
  (\<^verbatim>\<open>Server/src/Machine.cpp\<close>), and the loop of the command server
  (\<^verbatim>\<open>Server/src/MachineCommandServer.cpp\<close>).

  The two threads are interleavings of their steps: the control thread runs \<open>machineCycle\<close>, the
  command server thread submits a command and waits for its reply. Starting and joining threads
  is not modelled.
\<close>

section \<open>Construction\<close>

definition requireMappingIndex :: "nat smap \<Rightarrow> string \<Rightarrow> exn + nat" where
  "requireMappingIndex mapping key = (case map_of mapping key of
     None \<Rightarrow> Inl (''Missing required signal mapping key '' @ [CHR 0x27] @ key @ [CHR 0x27]) | Some i \<Rightarrow> Inr i)"

fun joinNames :: "string list \<Rightarrow> string" where
  "joinNames [] = ''''"
| "joinNames [n] = n"
| "joinNames (n # ns) = n @ '', '' @ joinNames ns"

fun validateSignalMappingKeys :: "'e list \<Rightarrow> ('e \<Rightarrow> string) \<Rightarrow> string \<Rightarrow> nat smap \<Rightarrow> exn + unit" where
  "validateSignalMappingKeys vals name mappingName [] = Inr ()"
| "validateSignalMappingKeys vals name mappingName ((key, index) # ms) =
     (if enumCast vals name key = None
      then Inl (''Unknown '' @ mappingName @ '' signal '' @ [CHR 0x27] @ key @ [CHR 0x27]
        @ '' in config. Known values: ['' @ joinNames (map name vals) @ '']'')
      else validateSignalMappingKeys vals name mappingName ms)"

text \<open>The entries of the configuration, defaults filled in.\<close>

record MachineConfig =
  mg_inputMapping :: "nat smap"
  mg_outputMapping :: "nat smap"
  mg_loopIntervalMS :: int
  mg_updateIntervalMS :: int
  mg_statusUpdatesEnabled :: bool
  mg_commandQueueMaxSize :: nat

definition oneMs :: int where
  "oneMs = 1000000"

definition makeMachine :: "MachineConfig \<Rightarrow> 'i Contec \<Rightarrow> ControlPanel \<Rightarrow> 'c MotorControl \<Rightarrow> 'w \<Rightarrow> exn + ('i, 'c, 'p, 'w) Machine" where
  "makeMachine cfg contec panel motors w =
     bindE (validateSignalMappingKeys allInputSignals inputSignalName ''input'' (mg_inputMapping cfg)) (\<lambda>_.
     bindE (validateSignalMappingKeys allOutputSignals outputSignalName ''output'' (mg_outputMapping cfg)) (\<lambda>_.
     bindE (requireMappingIndex (mg_inputMapping cfg) ''button1'') (\<lambda>_.
     bindE (requireMappingIndex (mg_inputMapping cfg) ''button2'') (\<lambda>_.
     bindE (requireMappingIndex (mg_outputMapping cfg) ''toolChangerLeft'') (\<lambda>_.
     bindE (requireMappingIndex (mg_outputMapping cfg) ''toolChangerRight'') (\<lambda>_.
     bindE (requireMappingIndex (mg_outputMapping cfg) ''light1'') (\<lambda>_.
     bindE (requireMappingIndex (mg_outputMapping cfg) ''light2'') (\<lambda>_.
     Inr \<lparr>mn_contec = contec, mn_controlPanel = panel, mn_motorControl = motors,
       mn_inputMapping = mg_inputMapping cfg, mn_outputMapping = mg_outputMapping cfg,
       mn_robotStatus = emptyRobotStatus, mn_commandQueue = cqSetMaxSize (mg_commandQueueMaxSize cfg) (emptyQueue 0),
       mn_isRunning = False, mn_loopInterval = max 1 (mg_loopIntervalMS cfg) * oneMs,
       mn_updateInterval = max 1 (mg_updateIntervalMS cfg) * oneMs,
       mn_statusUpdatesEnabled = mg_statusUpdatesEnabled cfg, mn_ioCacheCycle = 0,
       mn_inputCache = emptyCache, mn_outputCache = emptyCache, mn_wired = None, mn_replies = [],
       mn_world = w\<rparr>))))))))"

definition wire :: "exn + 'p \<Rightarrow> StatusBuilder \<Rightarrow> ('i, 'c, 'p, 'w, unit) mnAct" where
  "wire policy builder = bindA (getA (\<lambda>m. m)) (\<lambda>m. if mn_wired m \<noteq> None then ret () else
     bindA (liftE policy) (\<lambda>p. modifyA (\<lambda>m. m\<lparr>mn_wired := Some
       \<lparr>cl_loopInterval = mn_loopInterval m, cl_updateInterval = mn_updateInterval m,
        cl_controller = \<lparr>mk_policy = p, mk_missingMotorWarned = (\<lambda>_. False), mk_motorWasInAlarm = (\<lambda>_. False)\<rparr>,
        cl_builder = builder\<rparr>\<rparr>)))"

section \<open>The steps of a cycle\<close>

text \<open>The controller's step, on the controller, the robot status and the rest of the machine.\<close>

definition controllerStep :: "('i, 'c, 'p, 'w) Platform \<Rightarrow> 'p Collaborators \<Rightarrow> ('i, 'c, 'p, 'w, unit) mnAct" where
  "controllerStep F cl = zoomA (\<lambda>m. (cl_controller cl, mn_robotStatus m, m))
     (\<lambda>(mk, st, m') m. m'\<lparr>mn_robotStatus := st, mn_wired := Some (cl\<lparr>cl_controller := mk\<rparr>)\<rparr>)
     (runControlLoopTasks (machinePolicy F) (machineIo F) (machineMotors F))"

definition resetUnlessError :: "('i, 'c, 'p, 'w) Platform \<Rightarrow> ERobotComponent \<Rightarrow> ('i, 'c, 'p, 'w, unit) mnAct" where
  "resetUnlessError F c = bindA (getA (\<lambda>m. componentState m c)) (\<lambda>st.
     if st \<noteq> ComponentState.Error then resetComponent F c else ret ())"

definition controlLoopTasks :: "('i, 'c, 'p, 'w) Platform \<Rightarrow> ('i, 'c, 'p, 'w, unit) mnAct" where
  "controlLoopTasks F = bindA (getA mn_wired) (\<lambda>wired. case wired of
     None \<Rightarrow> throwA ''Machine controller is not wired.''
   | Some cl \<Rightarrow> catchA (controllerStep F cl) (\<lambda>_. resetUnlessError F MotorControl))"

definition updateStatus :: "('i, 'c, 'p, 'w) Platform \<Rightarrow> ('i, 'c, 'p, 'w, unit) mnAct" where
  "updateStatus F = bindA (getA mn_wired) (\<lambda>wired. case wired of
     None \<Rightarrow> ret ()
   | Some cl \<Rightarrow> zoomA (\<lambda>m. (mn_robotStatus m, m)) (\<lambda>(st, m') m. m'\<lparr>mn_robotStatus := st\<rparr>)
       (updateAndPublish (pf_bus F) (Some machineMc) (cl_builder cl) (machineSources F)))"

definition machineClock :: "('i, 'c, 'p, 'w) Platform \<Rightarrow> ('i, 'c, 'p, 'w) Machine Clock" where
  "machineClock F = \<lparr>
     ck_now = (\<lambda>m. case ck_now (pf_clock F) (mn_world m) of (t, w) \<Rightarrow> (t, m\<lparr>mn_world := w\<rparr>)),
     ck_sleepUntil = (\<lambda>t m. m\<lparr>mn_world := ck_sleepUntil (pf_clock F) t (mn_world m)\<rparr>)\<rparr>"

definition startCycle :: "('i, 'c, 'p, 'w) Machine \<Rightarrow> ('i, 'c, 'p, 'w) Machine" where
  "startCycle m = m\<lparr>mn_ioCacheCycle := mn_ioCacheCycle m + 1,
     mn_inputCache := (mn_inputCache m)\<lparr>sc_valid := False\<rparr>,
     mn_outputCache := (mn_outputCache m)\<lparr>sc_valid := False\<rparr>\<rparr>"

definition forceErrorState :: "('i, 'c, 'p, 'w) Platform \<Rightarrow> ('i, 'c, 'p, 'w, unit) mnAct" where
  "forceErrorState F = seqA [resetUnlessError F MotorControl, resetUnlessError F Contec, resetUnlessError F ControlPanel]"

text \<open>The runner's call; \<open>None\<close>: a catch-up loop of the runner does not end.\<close>

definition runMachineCycle ::
  "('i, 'c, 'p, 'w) Platform \<Rightarrow> 'p Collaborators \<Rightarrow> LoopState \<Rightarrow> ('i, 'c, 'p, 'w) Machine
     \<Rightarrow> ((exn + unit) \<times> LoopState \<times> ('i, 'c, 'p, 'w) Machine) option" where
  "runMachineCycle F cl ls m = runOneCycle
     \<lparr>lr_clock = machineClock F, lr_loopInterval = cl_loopInterval cl, lr_updateInterval = cl_updateInterval cl\<rparr>
     (controlLoopTasks F) (commandStep F)
     (bindA (getA mn_statusUpdatesEnabled) (\<lambda>on. whenA on (updateStatus F))) ls (startCycle m)"

definition machineCycle ::
  "('i, 'c, 'p, 'w) Platform \<Rightarrow> LoopState \<Rightarrow> ('i, 'c, 'p, 'w) Machine
     \<Rightarrow> ((exn + unit) \<times> LoopState \<times> ('i, 'c, 'p, 'w) Machine) option" where
  "machineCycle F ls m = (case mn_wired m of
     None \<Rightarrow> Some (Inl ''Machine is not wired. Call wire() first.'', ls, m)
   | Some cl \<Rightarrow> (case runMachineCycle F cl ls m of
       None \<Rightarrow> None
     | Some (Inr _, ls', m') \<Rightarrow> Some (Inr (), ls', m')
     | Some (Inl _, ls', m') \<Rightarrow> (case forceErrorState F m' of (r, m'') \<Rightarrow> Some (r, ls', m''))))"

section \<open>Lifecycle\<close>

definition initializeMachine :: "('i, 'c, 'p, 'w) Platform \<Rightarrow> ('i, 'c, 'p, 'w, unit) mnAct" where
  "initializeMachine F = bindA (getA (\<lambda>m. m)) (\<lambda>m.
     if mn_wired m = None
     then throwA ''Machine collaborators are not wired. Call wire() before initialize().''
     else if mn_isRunning m then throwA ''Machine is already running.''
     else seqA [modifyA (\<lambda>m. m\<lparr>mn_isRunning := True\<rparr>), makeDummyStatus, initializeComponents F])"

fun drainReplies :: "Command list \<Rightarrow> (nat \<times> string) list" where
  "drainReplies [] = []"
| "drainReplies (c # cs) = (cmd_reply c, ''Machine is shutting down'') # drainReplies cs"

definition shutdownMachine :: "('i, 'c, 'p, 'w) Machine \<Rightarrow> ('i, 'c, 'p, 'w) Machine" where
  "shutdownMachine m = (let q = cqShutdown (mn_commandQueue m) in
     m\<lparr>mn_isRunning := False, mn_commandQueue := q\<lparr>cq_q := []\<rparr>,
       mn_replies := mn_replies m @ drainReplies (cq_q q)\<rparr>)"

section \<open>Dispatch from the command server\<close>

definition submitCommand :: "Command \<Rightarrow> ('i, 'c, 'p, 'w) Machine \<Rightarrow> bool \<times> ('i, 'c, 'p, 'w) Machine" where
  "submitCommand c m = (case cqPush c (mn_commandQueue m) of (ok, q) \<Rightarrow> (ok, m\<lparr>mn_commandQueue := q\<rparr>))"

text \<open>
  \<^verbatim>\<open>dispatchCommandAndWait\<close>: \<open>dispatchStart\<close> submits, and has the answer at once when the command is
  rejected; \<open>dispatchEnd\<close> is the end of the wait, when the reply is there or the time is over.
\<close>

definition dispatchStart :: "Command \<Rightarrow> ('i, 'c, 'p, 'w) Machine \<Rightarrow> string option \<times> ('i, 'c, 'p, 'w) Machine" where
  "dispatchStart c m = (case submitCommand c m of
     (True, m') \<Rightarrow> (None, m')
   | (False, m') \<Rightarrow> (Some (if mn_isRunning m' then ''Command queue is full'' else ''Machine is shutting down''), m'))"

definition dispatchEnd :: "Command \<Rightarrow> ('i, 'c, 'p, 'w) Machine \<Rightarrow> string" where
  "dispatchEnd c m = (case map_of (mn_replies m) (cmd_reply c) of
     None \<Rightarrow> ''Command processing timed out'' | Some reply \<Rightarrow> reply)"

text \<open>One iteration of \<^verbatim>\<open>MachineCommandServer::runLoop\<close> while the machine runs.\<close>

record 's CommandChannel =
  ch_receive :: "'s \<Rightarrow> Json option \<times> 's"
  ch_send :: "Json \<Rightarrow> 's \<Rightarrow> 's"

definition serverStep :: "(string \<Rightarrow> Json option) \<Rightarrow> 's CommandChannel \<Rightarrow> 's DispatchFn \<Rightarrow> bool \<Rightarrow> 's \<Rightarrow> 's" where
  "serverStep parse ch dispatch running s = (if \<not> running then s else case ch_receive ch s of
     (None, s') \<Rightarrow> s'
   | (Some command, s') \<Rightarrow> (case processCommand parse dispatch command s' of (response, s'') \<Rightarrow> ch_send ch response s''))"

end
