(* ===== verification/MachineProps.thy ===== *)
theory MachineProps
  imports Machine MotorControlProps PolicySpec
begin

text \<open>
  Properties of the machine: a cycle never throws, a failing control step ends in a motor control
  without motors and bus, every queued command gets its reply, and without the I/O unit nothing
  moves.
\<close>

section \<open>What the steps leave alone\<close>

definition idleFrame :: "Command CommandQueue \<Rightarrow> (nat \<times> string) list \<Rightarrow> ('i, 'c, 'p, 'w) Machine \<Rightarrow> bool" where
  "idleFrame q rs m \<longleftrightarrow> mn_commandQueue m = q \<and> mn_replies m = rs
     \<and> (\<exists>cl. mn_wired m = Some cl \<and> 0 < cl_loopInterval cl \<and> 0 < cl_updateInterval cl)"

lemma frame_components:
  "preserves (idleFrame q rs) (onContec act)" "preserves (idleFrame q rs) (onMotors act')"
  "preserves (idleFrame q rs) (onPanel act'')"
  unfolding onContec_def onMotors_def onPanel_def by (rule preserves_zoom; auto simp: idleFrame_def)+

lemma frame_caches:
  "preserves (idleFrame q rs) (cacheInputSignals v)" "preserves (idleFrame q rs) (cacheOutputSignals v)"
  by (auto simp: cacheInputSignals_def cacheOutputSignals_def idleFrame_def preserves_def)

lemmas frame_rules = preserves_bind preserves_then preserves_get preserves_ret preserves_throw preserves_catch
  preserves_when preserves_lift preserves_if frame_components frame_caches

lemma frame_signals:
  "preserves (idleFrame q rs) (readInputSignals F)" "preserves (idleFrame q rs) (readOutputSignals F)"
  "preserves (idleFrame q rs) (setOutputs F sigs)"
  unfolding readInputSignals_def readOutputSignals_def setOutputs_def by (intro frame_rules)+

lemma frame_controller:
  assumes "0 < cl_loopInterval cl" and "0 < cl_updateInterval cl"
  shows "preserves (idleFrame q rs) (controllerStep F cl)"
  unfolding controllerStep_def
proof (rule preserves_zoom_part)
  show "preserves (\<lambda>(mk, st, m). idleFrame q rs m) (runControlLoopTasks (machinePolicy F) (machineIo F) (machineMotors F))"
  proof (rule preserves_controller)
    show "idleFrame q rs (snd (snd (machinePolicy F ins outs cs st (p, w))))" if "idleFrame q rs w" for ins outs cs st p w
      using that by (auto simp: machinePolicy_def idleFrame_def split: prod.split)
  qed (auto simp: machineIo_def machineMotors_def Let_def frame_signals frame_components motorFnsKeep_def keeps1_def keeps2_def)
qed (use assms in \<open>auto simp: idleFrame_def\<close>)

lemma frame_reset: "preserves (idleFrame q rs) (resetUnlessError F c)"
  unfolding resetUnlessError_def resetComponent_def by (cases c) (auto intro!: frame_rules)

lemma frame_control: "preserves (idleFrame q rs) (controlLoopTasks F)"
  unfolding controlLoopTasks_def
  by (intro preserves_getbind) (auto simp: idleFrame_def [of _ _ m for m] intro!: preserves_catch frame_controller frame_reset)

lemma frame_status: "preserves (idleFrame q rs) (updateStatus F)"
proof -
  have "preserves (\<lambda>(st, m). idleFrame q rs m) (updateAndPublish (pf_bus F) (Some machineMc) sb (machineSources F))" for sb
    by (rule preserves_updateAndPublish)
      (auto simp: machineMc_def machineSources_def frame_signals intro!: preserves_zoom, auto simp: idleFrame_def)
  then have "preserves (idleFrame q rs) (zoomA (\<lambda>m. (mn_robotStatus m, m)) (\<lambda>(st, m') m. m'\<lparr>mn_robotStatus := st\<rparr>)
      (updateAndPublish (pf_bus F) (Some machineMc) sb (machineSources F)))" for sb
    by (rule preserves_zoom_part) (auto simp: idleFrame_def)
  then show ?thesis
    unfolding updateStatus_def by (intro preserves_getbind) (auto split: option.split intro: preserves_ret)
qed

lemma frame_initialize: "preserves (idleFrame q rs) (initializeComponent F c)"
proof -
  have "preserves (idleFrame q rs) (zoomA mn_world (\<lambda>w m. m\<lparr>mn_world := w\<rparr>) act)" for act
    by (rule preserves_zoom) (auto simp: idleFrame_def)
  then show ?thesis
    unfolding initializeComponent_def initializePanel_def by (cases c) (auto intro!: frame_rules)
qed

lemma frame_handle: "preserves (idleFrame q rs) (handleCommand F p)"
proof -
  have "preserves (idleFrame q rs) (resetComponent F c)" for c
    unfolding resetComponent_def by (cases c) (auto intro!: frame_rules)
  then have reconnect: "preserves (idleFrame q rs) (handleReconnectCommand F c)" for c
    unfolding handleReconnectCommand_def reconnectComponent_def
    by (intro frame_rules frame_initialize) (auto simp: makeDummyStatus_def idleFrame_def preserves_def)
  have tool: "preserves (idleFrame q rs) (ctlToolChangerCommand (machineIo F) arm action)" for arm action
    unfolding ctlToolChangerCommand_def machineIo_def IoFns.simps by (intro frame_rules frame_signals)
  have diag: "preserves (idleFrame q rs) (handleMotorDiagnosticsCommand F i)" for i
    unfolding handleMotorDiagnosticsCommand_def Let_def by (intro frame_rules)
  have io: "preserves (idleFrame q rs) (handleContecDiagnosticsCommand F)"
    unfolding handleContecDiagnosticsCommand_def Let_def by (intro frame_rules)
  show ?thesis
    unfolding handleCommand_def mapA_def by (cases p) (auto intro!: frame_rules reconnect tool diag io)
qed

section \<open>Cycles\<close>

text \<open>The text that the handling of a command gives, its payload or its error, in the cycle that begins with the
  machine \<open>m0\<close>: on the state that the control step of this cycle leaves behind, the command taken off the
  queue. \<open>w\<close> is the world once the runner has read the clock and waited.\<close>

definition handledInCycle :: "('i, 'c, 'p, 'w) Platform \<Rightarrow> ('i, 'c, 'p, 'w) Machine \<Rightarrow> Command \<Rightarrow> string \<Rightarrow> bool" where
  "handledInCycle F m0 c text \<longleftrightarrow> (\<exists>w m1. m1 = snd (controlLoopTasks F ((startCycle m0)\<lparr>mn_world := w\<rparr>))
     \<and> fst (handleCommand F (cmd_payload c) (m1\<lparr>mn_commandQueue := snd (cqTryPop (mn_commandQueue m1))\<rparr>)) \<in> {Inl text, Inr text})"

definition handledAs :: "('i, 'c, 'p, 'w) Platform \<Rightarrow> Command \<Rightarrow> string \<Rightarrow> bool" where
  "handledAs F c text \<longleftrightarrow> (\<exists>m0. handledInCycle F m0 c text)"

definition afterCommand ::
  "('i, 'c, 'p, 'w) Platform \<Rightarrow> ('i, 'c, 'p, 'w) Machine \<Rightarrow> Command CommandQueue \<Rightarrow> (nat \<times> string) list
     \<Rightarrow> ('i, 'c, 'p, 'w) Machine \<Rightarrow> bool" where
  "afterCommand F m0 q rs m = (case cq_q q of
     [] \<Rightarrow> idleFrame q rs m
   | c # cs \<Rightarrow> \<exists>text. handledInCycle F m0 c text \<and> idleFrame (q\<lparr>cq_q := cs\<rparr>) (rs @ [(cmd_reply c, text)]) m)"

lemma afterCommand_keep:
  assumes "\<And>q rs. idleFrame q rs m \<Longrightarrow> idleFrame q rs m'" and "afterCommand F m0 q rs m"
  shows "afterCommand F m0 q rs m'"
  using assms by (auto simp: afterCommand_def split: list.splits; blast)

lemma commandStep_frame:
  assumes "idleFrame q rs m" and "m = snd (controlLoopTasks F ((startCycle m0)\<lparr>mn_world := w\<rparr>))"
  shows "fst (commandStep F m) = Inr () \<and> afterCommand F m0 q rs (snd (commandStep F m))"
proof (cases "cq_q q")
  case Nil
  with assms(1) show ?thesis
    by (simp add: commandStep_def cqTryPop_def afterCommand_def idleFrame_def)
next
  case (Cons c cs)
  let ?m = "m\<lparr>mn_commandQueue := q\<lparr>cq_q := cs\<rparr>\<rparr>"
  have pop: "cqTryPop (mn_commandQueue m) = (Some c, q\<lparr>cq_q := cs\<rparr>)"
    using assms(1) Cons by (simp add: idleFrame_def cqTryPop_def)
  have frame: "idleFrame (q\<lparr>cq_q := cs\<rparr>) rs ?m"
    using assms(1) by (simp add: idleFrame_def)
  obtain r m1 where h: "handleCommand F (cmd_payload c) ?m = (r, m1)" by (metis surj_pair)
  with preservesD [OF frame_handle frame, of F "cmd_payload c"] have "idleFrame (q\<lparr>cq_q := cs\<rparr>) rs m1" by simp
  moreover have "handledInCycle F m0 c (case r of Inl e \<Rightarrow> e | Inr text \<Rightarrow> text)"
    unfolding handledInCycle_def
    by (intro exI [of _ w] exI [of _ m] conjI assms(2)) (simp add: pop h split: sum.split)
  ultimately show ?thesis
    using h by (cases r) (auto simp: commandStep_def pop bindA_def catchA_def setReply_def afterCommand_def Cons idleFrame_def)
qed

lemma resetComponent_returns:
  "\<exists>m'. resetComponent F c m = (Inr (), m') \<and> componentState m' c = ComponentState.Error
     \<and> (\<forall>c'. c' \<noteq> c \<longrightarrow> componentState m' c' = componentState m c')
     \<and> (c = MotorControl \<longrightarrow> mc_bus (mn_motorControl m') = None \<and> mc_motors (mn_motorControl m') = Map.empty)"
proof (cases c)
  case MotorControl
  obtain w where "mcReset (pf_bus F) (mn_motorControl m, mn_world m) = (Inr (), (mn_motorControl m)\<lparr>mc_bus := None,
      mc_motors := Map.empty, mc_runtime := Map.empty, mc_state := ComponentState.Error\<rparr>, w)"
    using dropAll_eq [of "pf_bus F" ComponentState.Error "[]" "mn_motorControl m" "mn_world m"] by (auto simp: mcReset_def)
  then show ?thesis
    by (simp add: MotorControl resetComponent_def onMotors_def zoomA_def componentState_def contecState_def split: ERobotComponent.split)
next
  case Contec
  have "\<exists>ct w. ctReset (pf_io F) (mn_contec m, mn_world m) = (Inr (), ct, w) \<and> ct_state ct = ComponentState.Error"
    by (auto simp: ctReset_def thenA_def bindA_def ctDrop_def ctSetState_def modifyA_def split: option.split prod.split)
  then show ?thesis
    by (auto simp: Contec resetComponent_def onContec_def zoomA_def componentState_def contecState_def split: ERobotComponent.split)
next
  case ControlPanel
  then show ?thesis
    by (auto simp: resetComponent_def onPanel_def zoomA_def modifyA_def panelReset_def componentState_def contecState_def
        split: ERobotComponent.split)
qed

lemma reset_returns:
  "\<exists>m'. resetUnlessError F c m = (Inr (), m') \<and> componentState m' c = ComponentState.Error
     \<and> (\<forall>c'. c' \<noteq> c \<longrightarrow> componentState m' c' = componentState m c')
     \<and> (c = MotorControl \<and> componentState m MotorControl \<noteq> ComponentState.Error
        \<longrightarrow> mc_bus (mn_motorControl m') = None \<and> mc_motors (mn_motorControl m') = Map.empty)"
proof (cases "componentState m c = ComponentState.Error")
  case False
  with resetComponent_returns [of F c m] show ?thesis
    by (auto simp: resetUnlessError_def bindA_def)
qed (auto simp: resetUnlessError_def bindA_def)

lemma control_returns: "idleFrame q rs m \<Longrightarrow> fst (controlLoopTasks F m) = Inr ()"
proof -
  assume "idleFrame q rs m"
  then obtain cl where cl: "mn_wired m = Some cl" by (auto simp: idleFrame_def)
  obtain r m1 where c: "controllerStep F cl m = (r, m1)" by (metis surj_pair)
  show ?thesis
    using reset_returns [of F MotorControl m1] c by (cases r) (auto simp: controlLoopTasks_def bindA_def cl)
qed

lemma force_returns: "\<exists>m'. forceErrorState F m = (Inr (), m')"
proof -
  obtain m1 where 1: "resetUnlessError F MotorControl m = (Inr (), m1)" using reset_returns by blast
  obtain m2 where 2: "resetUnlessError F Contec m1 = (Inr (), m2)" using reset_returns by blast
  obtain m3 where 3: "resetUnlessError F ControlPanel m2 = (Inr (), m3)" using reset_returns by blast
  show ?thesis
    by (simp add: forceErrorState_def 1 2 3)
qed

lemma machineCycle_frame:
  assumes "idleFrame q rs m"
  shows "\<exists>ls' m'. machineCycle F ls m = Some (Inr (), ls', m') \<and> afterCommand F m q rs m'"
proof -
  obtain cl where cl: "mn_wired m = Some cl" "0 < cl_loopInterval cl" "0 < cl_updateInterval cl"
    using assms by (auto simp: idleFrame_def)
  let ?R = "\<lparr>lr_clock = machineClock F, lr_loopInterval = cl_loopInterval cl, lr_updateInterval = cl_updateInterval cl\<rparr>"
  let ?u = "bindA (getA mn_statusUpdatesEnabled) (\<lambda>on. whenA on (updateStatus F))"
  obtain r ls' m' where run: "runOneCycle ?R (controlLoopTasks F) (MachineCommands.commandStep F) ?u ls (startCycle m) = Some (r, ls', m')"
    using cycle_total [of ?R "controlLoopTasks F" "MachineCommands.commandStep F" ?u ls "startCycle m"] cl by auto
  have clock: "idleFrame q rs w \<Longrightarrow> idleFrame q rs (snd (ck_now (machineClock F) w))"
    "idleFrame q rs w \<Longrightarrow> idleFrame q rs (ck_sleepUntil (machineClock F) t w)" for q rs w t
    by (auto simp: machineClock_def idleFrame_def split: prod.split)
  have upd: "idleFrame q rs w \<Longrightarrow> idleFrame q rs (snd (?u w))" for q rs w
    by (rule preservesD) (intro preserves_bind preserves_get preserves_when frame_status)
  define s where "s = startCycle m"
  define I where "I w \<longleftrightarrow> idleFrame q rs w \<and> (\<exists>x. w = s\<lparr>mn_world := x\<rparr>)" for w
  define K where "K w \<longleftrightarrow> idleFrame q rs w \<and> (\<exists>x. w = snd (controlLoopTasks F (s\<lparr>mn_world := x\<rparr>)))" for w
  have world: "I (w\<lparr>mn_world := x\<rparr>)" if "I w" for w x
    using that by (fastforce simp: I_def idleFrame_def)
  have start: "I (startCycle m)"
    unfolding I_def
  proof
    show "idleFrame q rs (startCycle m)" using assms by (simp add: startCycle_def idleFrame_def)
    show "\<exists>x. startCycle m = s\<lparr>mn_world := x\<rparr>" by (rule exI [of _ "mn_world s"]) (simp add: s_def)
  qed
  have tick: "I (snd (ck_now (machineClock F) w))" "I (ck_sleepUntil (machineClock F) t w)" if "I w" for w t
    using world [OF that] by (simp_all add: machineClock_def split: prod.split)
  have control: "fst (controlLoopTasks F w) = Inr () \<and> K (snd (controlLoopTasks F w))" if "I w" for w
  proof
    from that have frame: "idleFrame q rs w" by (simp add: I_def)
    then show "fst (controlLoopTasks F w) = Inr ()" by (rule control_returns)
    from that obtain x where "w = s\<lparr>mn_world := x\<rparr>" by (auto simp: I_def)
    then show "K (snd (controlLoopTasks F w))"
      using preservesD [OF frame_control frame] by (auto simp only: K_def)
  qed
  have command: "fst (commandStep F w) = Inr () \<and> afterCommand F m q rs (snd (commandStep F w))" if "K w" for w
  proof -
    from that obtain x where "idleFrame q rs w" "w = snd (controlLoopTasks F ((startCycle m)\<lparr>mn_world := x\<rparr>))"
      by (auto simp only: K_def s_def)
    then show ?thesis by (rule commandStep_frame)
  qed
  have "afterCommand F m q rs m'"
  proof (rule cycle_steps [OF run, where I = I and K = K and J = "afterCommand F m q rs"])
    show "afterCommand F m q rs (snd (ck_now (lr_clock ?R) w))" if "afterCommand F m q rs w" for w
      by (rule afterCommand_keep [OF _ that]) (simp add: clock)
    show "afterCommand F m q rs (snd (?u w))" if "afterCommand F m q rs w" for w
      by (rule afterCommand_keep [OF upd that])
  qed (simp_all add: start tick control command)
  moreover have force: "afterCommand F m q rs m'' " if "forceErrorState F m' = (Inr (), m'')" "afterCommand F m q rs m'" for m''
  proof (rule afterCommand_keep [OF _ that(2)])
    have "preserves (idleFrame q rs) (forceErrorState F)" for q rs
      unfolding forceErrorState_def seqA.simps by (intro preserves_then preserves_ret frame_reset)
    from preservesD [OF this, of _ _ m'] show "idleFrame q rs m' \<Longrightarrow> idleFrame q rs m''" for q rs
      by (simp add: that(1))
  qed
  ultimately show ?thesis
    using force_returns [of F m'] by (cases r) (auto simp: machineCycle_def runMachineCycle_def cl run)
qed

section \<open>A machine with the policy of the code\<close>

text \<open>The policy as the machine calls it: it reads the clock.\<close>

definition rimoDecide :: "'w Clock \<Rightarrow> (PolicyState, 'w) PolicyFn" where
  "rimoDecide ck = (\<lambda>inputs outputs cs st (ps, w). case ck_now ck w of (now, w') \<Rightarrow>
     (case decide now inputs outputs cs st ps of (d, ps') \<Rightarrow> (d, (ps', w'))))"

text \<open>A fresh machine on the fake backend.\<close>

definition demoClock :: "FakeWorld Clock" where
  "demoClock = \<lparr>ck_now = (\<lambda>w. (fw_time w, w)), ck_sleepUntil = (\<lambda>t w. w\<lparr>fw_time := max (fw_time w) t\<rparr>)\<rparr>"

definition demoPlatform :: "(ModbusClient, ModbusClient, PolicyState, FakeWorld) Platform" where
  "demoPlatform = \<lparr>pf_io = clientIo fakeNet, pf_bus = clientBus fakeNet, pf_clock = demoClock,
     pf_decide = rimoDecide demoClock, pf_panelOpen = (\<lambda>w. (Inr (), w)), pf_publish = (\<lambda>_. ret ()),
     pf_dump = (\<lambda>_. '''')\<rparr>"

definition demoWiring :: "PolicyState Collaborators" where
  "demoWiring = \<lparr>cl_loopInterval = 10 * oneMs, cl_updateInterval = 50 * oneMs,
     cl_controller = \<lparr>mk_policy = samplePolicy, mk_missingMotorWarned = (\<lambda>_. False), mk_motorWasInAlarm = (\<lambda>_. False)\<rparr>,
     cl_builder = defaultStatusBuilder\<rparr>"

definition demoMachine :: "(ModbusClient, ModbusClient, PolicyState, FakeWorld) Machine" where
  "demoMachine = \<lparr>
     mn_contec = \<lparr>ct_modbus = None, ct_ipAddress = ''127.0.0.1'', ct_port = 502, ct_slaveId = 1,
       ct_responseTimeoutMS = 1000, ct_nDI = 16, ct_nDO = 16, ct_state = ComponentState.Error\<rparr>,
     mn_controlPanel = makePanel 5 50 3 [False, False, False] [False, False, False],
     mn_motorControl = freshControl, mn_inputMapping = [(''button1'', 0), (''button2'', 1)],
     mn_outputMapping = [(''light1'', 0), (''light2'', 1), (''toolChangerLeft'', 2), (''toolChangerRight'', 3)],
     mn_robotStatus = emptyRobotStatus, mn_commandQueue = emptyQueue 0, mn_isRunning = True,
     mn_loopInterval = 10 * oneMs, mn_updateInterval = 50 * oneMs, mn_statusUpdatesEnabled = True,
     mn_ioCacheCycle = 0, mn_inputCache = emptyCache, mn_outputCache = emptyCache,
     mn_wired = Some demoWiring, mn_replies = [], mn_world = fakeReset\<rparr>"

definition demoLoop :: LoopState where
  "demoLoop = \<lparr>ls_nextLoopAt = 0, ls_nextUpdateAt = 0, ls_nextDutyLogAt = 0, ls_dutyCycleSum = 0,
     ls_dutyCycleSamples = 0, ls_initialized = False\<rparr>"

section \<open>Every command is answered\<close>

fun machineRun ::
  "('i, 'c, 'p, 'w) Platform \<Rightarrow> nat \<Rightarrow> LoopState \<Rightarrow> ('i, 'c, 'p, 'w) Machine \<Rightarrow> (LoopState \<times> ('i, 'c, 'p, 'w) Machine) option" where
  "machineRun F 0 ls m = Some (ls, m)"
| "machineRun F (Suc n) ls m = (case machineCycle F ls m of
     Some (Inr _, ls', m') \<Rightarrow> machineRun F n ls' m' | _ \<Rightarrow> None)"

lemma machineRun_frame:
  assumes "idleFrame q rs m"
  shows "\<exists>ls' m' texts. machineRun F n ls m = Some (ls', m') \<and> length texts = min n (length (cq_q q))
    \<and> (\<forall>i < length texts. \<exists>lsi mi. machineRun F i ls m = Some (lsi, mi) \<and> handledInCycle F mi (cq_q q ! i) (texts ! i))
    \<and> idleFrame (q\<lparr>cq_q := drop n (cq_q q)\<rparr>) (rs @ zip (map cmd_reply (cq_q q)) texts) m'"
  using assms
proof (induction n arbitrary: ls m q rs)
  case (Suc n)
  obtain ls1 m1 where 1: "machineCycle F ls m = Some (Inr (), ls1, m1)" "afterCommand F m q rs m1"
    using machineCycle_frame [OF Suc.prems] by blast
  show ?case
  proof (cases "cq_q q")
    case Nil
    with 1(2) have "idleFrame q rs m1" by (simp add: afterCommand_def)
    from Suc.IH [OF this, of ls1] Nil show ?thesis by (simp add: 1(1))
  next
    case (Cons c cs)
    with 1(2) obtain reply where reply: "handledInCycle F m c reply" "idleFrame (q\<lparr>cq_q := cs\<rparr>) (rs @ [(cmd_reply c, reply)]) m1"
      by (auto simp: afterCommand_def)
    from Suc.IH [OF reply(2), of ls1] obtain ls' m' texts where
      later: "machineRun F n ls1 m1 = Some (ls', m')" "length texts = min n (length cs)"
      "\<forall>i < length texts. \<exists>lsi mi. machineRun F i ls1 m1 = Some (lsi, mi) \<and> handledInCycle F mi (cs ! i) (texts ! i)"
      "idleFrame (q\<lparr>cq_q := drop n cs\<rparr>) ((rs @ [(cmd_reply c, reply)]) @ zip (map cmd_reply cs) texts) m'"
      by auto
    have "\<exists>lsi mi. machineRun F i ls m = Some (lsi, mi) \<and> handledInCycle F mi (cq_q q ! i) ((reply # texts) ! i)"
      if "i < length (reply # texts)" for i
      using that later(3) by (cases i) (simp_all add: 1(1) Cons reply(1))
    with later show ?thesis
      by (intro exI [of _ ls'] exI [of _ m'] exI [of _ "reply # texts"]) (simp add: 1(1) Cons)
  qed
qed (auto intro!: exI [of _ "[]"])

lemma machineRun_replies:
  assumes "idleFrame q rs m"
  shows "\<exists>ls' m'. machineRun F n ls m = Some (ls', m') \<and> cq_q (mn_commandQueue m') = drop n (cq_q q)
    \<and> map fst (mn_replies m') = map fst rs @ map cmd_reply (take n (cq_q q))"
proof -
  from machineRun_frame [OF assms, of F n ls] obtain ls' m' texts where
    run: "machineRun F n ls m = Some (ls', m')" and len: "length texts = min n (length (cq_q q))"
    and frame: "idleFrame (q\<lparr>cq_q := drop n (cq_q q)\<rparr>) (rs @ zip (map cmd_reply (cq_q q)) texts) m'"
    by auto
  from len have "map fst (zip (map cmd_reply (cq_q q)) texts) = map cmd_reply (take n (cq_q q))"
    by (cases "n \<le> length (cq_q q)") (simp_all add: map_fst_zip_take take_map)
  with frame show ?thesis
    by (simp add: run idleFrame_def)
qed

text \<open>C3: whatever the components do, the cycles of a wired machine with positive intervals
  return, and each takes the oldest command of the queue and adds one reply for it: after n cycles
  the first n commands are answered, in order and once each, and the others are still queued.\<close>

theorem machine_replies:
  assumes "mn_wired m = Some cl" and "0 < cl_loopInterval cl" and "0 < cl_updateInterval cl"
  shows "\<exists>ls' m'. machineRun F n ls m = Some (ls', m')
    \<and> cq_q (mn_commandQueue m') = drop n (cq_q (mn_commandQueue m))
    \<and> map fst (mn_replies m') = map fst (mn_replies m) @ map cmd_reply (take n (cq_q (mn_commandQueue m)))"
  by (rule machineRun_replies) (simp add: idleFrame_def assms)

lemma demo_wired: "mn_wired (demoMachine\<lparr>mn_commandQueue := q\<rparr>) = Some demoWiring"
  "0 < cl_loopInterval demoWiring" "0 < cl_updateInterval demoWiring"
  by (simp_all add: demoMachine_def demoWiring_def oneMs_def)

definition demoQueue :: "Command CommandQueue" where
  "demoQueue = (emptyQueue 0)\<lparr>cq_q := [\<lparr>cmd_payload = ReconnectCommand Contec, cmd_reply = 7\<rparr>,
     \<lparr>cmd_payload = ContecDiagnosticsCommand, cmd_reply = 8\<rparr>, \<lparr>cmd_payload = EmergencyStopCommand, cmd_reply = 9\<rparr>]\<rparr>"

theorem machine_replies_witness:
  "\<exists>ls' m'. machineRun demoPlatform 2 demoLoop (demoMachine\<lparr>mn_commandQueue := demoQueue\<rparr>) = Some (ls', m')
    \<and> map cmd_reply (cq_q (mn_commandQueue m')) = [9] \<and> map fst (mn_replies m') = [7, 8]"
proof -
  have "mn_replies (demoMachine\<lparr>mn_commandQueue := demoQueue\<rparr>) = []"
    by (simp add: demoMachine_def)
  with machine_replies [OF demo_wired, of demoPlatform 2 demoLoop demoQueue] show ?thesis
    by (auto simp: demoQueue_def)
qed

end
