(* ===== verification/MachineSafety.thy ===== *)
theory MachineSafety
  imports MachineProps
begin

text \<open>
  Failures and the motion gate of the machine: where an error of a step ends, and that nothing
  moves the motors while a component is out or a motor is in alarm.
\<close>

section \<open>Failures\<close>

lemma forceErrorState_outcome:
  "\<exists>m'. forceErrorState F m = (Inr (), m') \<and> (\<forall>c. componentState m' c = ComponentState.Error)"
proof -
  obtain m1 where 1: "resetUnlessError F MotorControl m = (Inr (), m1)" "componentState m1 MotorControl = ComponentState.Error"
    using reset_returns [of F MotorControl m] by blast
  obtain m2 where 2: "resetUnlessError F Contec m1 = (Inr (), m2)" "componentState m2 Contec = ComponentState.Error"
    "componentState m2 MotorControl = ComponentState.Error"
    using reset_returns [of F Contec m1] 1(2) by (metis ERobotComponent.distinct(1))
  obtain m3 where 3: "resetUnlessError F ControlPanel m2 = (Inr (), m3)" "componentState m3 ControlPanel = ComponentState.Error"
    "componentState m3 Contec = ComponentState.Error" "componentState m3 MotorControl = ComponentState.Error"
    using reset_returns [of F ControlPanel m2] 2(2,3) by (metis ERobotComponent.distinct(3,5))
  have "componentState m3 c = ComponentState.Error" for c
    by (cases c) (simp_all add: 3)
  then show ?thesis
    by (simp add: forceErrorState_def 1(1) 2(1) 3(1))
qed

lemma machine_cycle_failure:
  assumes "mn_wired m = Some cl" and "runMachineCycle F cl ls m = Some (Inl e, ls', m1)"
  shows "\<exists>m2. machineCycle F ls m = Some (Inr (), ls', m2) \<and> (\<forall>c. componentState m2 c = ComponentState.Error)"
  using forceErrorState_outcome [of F m1] assms by (auto simp: machineCycle_def)

text \<open>The reset of motor control, as the control loop calls it: of the machine it touches motor
  control and the world of its bus, and it does nothing to a component that is in error already.\<close>

lemma resetMotors_outcome:
  "\<exists>w. resetUnlessError F MotorControl m = (Inr (),
     if componentState m MotorControl = ComponentState.Error then m
     else m\<lparr>mn_motorControl := (mn_motorControl m)\<lparr>mc_bus := None, mc_motors := Map.empty, mc_runtime := Map.empty,
         mc_state := ComponentState.Error\<rparr>, mn_world := w\<rparr>)"
proof (cases "componentState m MotorControl = ComponentState.Error")
  case False
  obtain w where "mcReset (pf_bus F) (mn_motorControl m, mn_world m) = (Inr (), (mn_motorControl m)\<lparr>mc_bus := None,
      mc_motors := Map.empty, mc_runtime := Map.empty, mc_state := ComponentState.Error\<rparr>, w)"
    using dropAll_eq [of "pf_bus F" ComponentState.Error "[]" "mn_motorControl m" "mn_world m"] by (auto simp: mcReset_def)
  with False show ?thesis
    by (auto simp: resetUnlessError_def bindA_def getA_def resetComponent_def onMotors_def zoomA_def)
qed (simp add: resetUnlessError_def bindA_def getA_def ret_def)

text \<open>C7: an error of the controller's step does not leave the control loop: the step returns with motor
  control in the error state. If motor control was in no error when the step threw, it is reset: it has
  lost its bus, every motor and their runtime states. If it was in the error state already (a
  communication failure has dropped the bus and kept the motor objects) it is left as the step left
  it, motors included. The rest of the machine, the other components with it, stays as the error
  found it.\<close>

theorem machine_control_failure:
  assumes "mn_wired m = Some cl" and "controllerStep F cl m = (Inl e, m1)"
  shows "\<exists>m2. controlLoopTasks F m = (Inr (), m2) \<and> componentState m2 MotorControl = ComponentState.Error
    \<and> (componentState m1 MotorControl \<noteq> ComponentState.Error \<longrightarrow>
         mc_bus (mn_motorControl m2) = None \<and> mc_motors (mn_motorControl m2) = Map.empty
         \<and> mc_runtime (mn_motorControl m2) = Map.empty)
    \<and> (componentState m1 MotorControl = ComponentState.Error \<longrightarrow> m2 = m1)
    \<and> m2\<lparr>mn_motorControl := mn_motorControl m1, mn_world := mn_world m1\<rparr> = m1
    \<and> componentState m2 Contec = componentState m1 Contec
    \<and> componentState m2 ControlPanel = componentState m1 ControlPanel"
  using resetMotors_outcome [of F m1] assms
  by (auto simp: controlLoopTasks_def bindA_def getA_def catchA_def componentState_def contecState_def)

text \<open>A machine whose step throws: a motor that was in alarm is gone.\<close>

definition alarmedMachine :: "(ModbusClient, ModbusClient, PolicyState, FakeWorld) Machine" where
  "alarmedMachine = demoMachine\<lparr>mn_motorControl := freshControl\<lparr>mc_state := ComponentState.Normal\<rparr>,
     mn_robotStatus := emptyRobotStatus\<lparr>rs_motors := [XLeft \<mapsto> defaultMotorStatus]\<rparr>\<rparr>"

definition alarmedWiring :: "PolicyState Collaborators" where
  "alarmedWiring = demoWiring\<lparr>cl_controller := (cl_controller demoWiring)\<lparr>mk_motorWasInAlarm := (\<lambda>i. i = XLeft)\<rparr>\<rparr>"

lemma alarmed_step:
  "\<exists>e m1. controllerStep demoPlatform alarmedWiring (alarmedMachine\<lparr>mn_wired := Some alarmedWiring\<rparr>) = (Inl e, m1)
     \<and> componentState m1 MotorControl = ComponentState.Normal"
  by (simp add: controllerStep_def zoomA_def runControlLoopTasks_def reportClearedAlarms_def clearedAlarm_def
      alarmedMachine_def alarmedWiring_def machineMotors_def demoMachine_def demoWiring_def mapKeys_def allMotors_def
      alarmFlagged_def defaultMotorStatus_def Let_def thenA_def bindA_def getA_def whenA_def onWorld_def onMotors_def mcOnAlarmCleared_def
      requireMotor_def throwA_def freshControl_def componentState_def)

theorem machine_control_failure_witness:
  "\<exists>e m1 m2. controllerStep demoPlatform alarmedWiring (alarmedMachine\<lparr>mn_wired := Some alarmedWiring\<rparr>) = (Inl e, m1)
    \<and> controlLoopTasks demoPlatform (alarmedMachine\<lparr>mn_wired := Some alarmedWiring\<rparr>) = (Inr (), m2)
    \<and> componentState m1 MotorControl = ComponentState.Normal
    \<and> componentState m2 MotorControl = ComponentState.Error \<and> mc_bus (mn_motorControl m2) = None"
proof -
  obtain e m1 where step: "controllerStep demoPlatform alarmedWiring (alarmedMachine\<lparr>mn_wired := Some alarmedWiring\<rparr>) = (Inl e, m1)"
    "componentState m1 MotorControl = ComponentState.Normal"
    using alarmed_step by blast
  from machine_control_failure [OF _ step(1)] step show ?thesis by auto
qed

section \<open>The motion gate\<close>

definition quiet :: "'c MotorControl \<Rightarrow> bool \<Rightarrow> ('i, 'c, 'p, 'w) Machine \<Rightarrow> bool" where
  "quiet mc down m \<longleftrightarrow> mn_motorControl m = mc \<and> (down \<longrightarrow> contecState m = ComponentState.Error)"

lemma quiet_caches: "quiet mc b m \<Longrightarrow> quiet mc b (m\<lparr>mn_inputCache := c\<rparr>)"
  "quiet mc b m \<Longrightarrow> quiet mc b (m\<lparr>mn_outputCache := c\<rparr>)"
  by (simp_all add: quiet_def contecState_def)

lemma wp_contec_quiet:
  assumes "quiet mc b m" and "\<not> b"
    and "\<And>x m'. quiet mc b m' \<Longrightarrow> Q x m'" and "\<And>e m'. quiet mc b m' \<Longrightarrow> R e m'"
  shows "wp (onContec act) Q R m"
  using assms by (auto simp: wp_def onContec_def zoomA_def quiet_def split: prod.split sum.split)

lemma wp_lift_any: "(\<And>x. Q x s) \<Longrightarrow> (\<And>e. R e s) \<Longrightarrow> wp (liftE r) Q R s"
  by (cases r) (simp_all add: wp_def liftE_def)

lemmas quiet_rules = wp_contec_quiet wp_lift_any quiet_caches

lemma quiet_signals:
  assumes "quiet mc b m"
  shows "wp (readInputSignals F) (\<lambda>_. quiet mc b) (\<lambda>_ _. False) m"
    and "wp (readOutputSignals F) (\<lambda>_. quiet mc b) (\<lambda>_ _. False) m"
    and "wp (setOutputs F sigs) (\<lambda>_. quiet mc b) (\<lambda>_ _. False) m"
proof -
  have "wp (readInputSignals F) (\<lambda>_. quiet mc b) (\<lambda>_ _. False) m
    \<and> wp (readOutputSignals F) (\<lambda>_. quiet mc b) (\<lambda>_ _. False) m
    \<and> wp (setOutputs F sigs) (\<lambda>_. quiet mc b) (\<lambda>_ _. False) m"
  proof (cases b)
    case True
    with assms show ?thesis
      by (simp add: readInputSignals_def readOutputSignals_def setOutputs_def cacheInputSignals_def cacheOutputSignals_def
          wp_simps quiet_def contecState_def)
  next
    case False
    with assms show ?thesis
      by (auto simp: readInputSignals_def readOutputSignals_def setOutputs_def cacheInputSignals_def cacheOutputSignals_def
          wp_simps intro!: quiet_rules)
  qed
  then show "wp (readInputSignals F) (\<lambda>_. quiet mc b) (\<lambda>_ _. False) m"
    "wp (readOutputSignals F) (\<lambda>_. quiet mc b) (\<lambda>_ _. False) m"
    "wp (setOutputs F sigs) (\<lambda>_. quiet mc b) (\<lambda>_ _. False) m" by simp_all
qed

lemma wp_returns: "wp act (\<lambda>_. I) (\<lambda>_ _. False) s \<Longrightarrow> \<exists>x s'. act s = (Inr x, s') \<and> I s'"
  by (auto simp: wp_def split: prod.splits sum.splits)

text \<open>What the status and the I/O unit must say for any motor to be moved.\<close>

definition motionConditions :: "ComponentState \<Rightarrow> RobotStatus \<Rightarrow> bool" where
  "motionConditions cs st \<longleftrightarrow> cs \<noteq> ComponentState.Error \<and> (\<forall>c. isComponentOperational (rs_robotComponents st c))
     \<and> \<not> anyMotorInAlarm st"

lemma motionAllowed_conditions: "motionAllowed inputs cs st \<Longrightarrow> motionConditions cs st"
  unfolding motionAllowed_def motionConditions_def by (metis ERobotComponent.exhaust)

text \<open>C2: with the policy of the code, while a component is not operational in the status, the I/O
  unit is in the error state or a motor is in alarm, and no alarm has just been cleared, a control
  step returns and leaves the motor control with its bus untouched: no motor gets a command,
  whatever the inputs, the joysticks and the policy's memory are.\<close>

theorem machine_motion_gate:
  assumes "mn_wired m = Some cl" and "pf_decide F = rimoDecide ck"
    and "nothingCleared (cl_controller cl) (mn_robotStatus m)"
    and "\<not> motionConditions (contecState m) (mn_robotStatus m)"
  shows "\<exists>m'. controlLoopTasks F m = (Inr (), m') \<and> mn_motorControl m' = mn_motorControl m"
proof -
  let ?st = "mn_robotStatus m" and ?mc = "mn_motorControl m" and ?b = "contecState m = ComponentState.Error"
  let ?P = "machinePolicy F :: (PolicyState, ('a, 'b, PolicyState, 'c) Machine) PolicyFn"
  have "\<exists>mk' st' m'. runControlLoopTasks ?P (machineIo F) (machineMotors F) (cl_controller cl, ?st, m)
      = (Inr (), (mk', st', m')) \<and> quiet ?mc ?b m'"
  proof (rule runControlLoop_no_intents [OF assms(3), where I = "quiet ?mc ?b"])
    show "quiet ?mc ?b m" by (simp add: quiet_def)
    fix w :: "('a, 'b, PolicyState, 'c) Machine"
    assume w: "quiet ?mc ?b w"
    show "\<exists>x w'. io_readInputs (machineIo F) w = (Inr x, w') \<and> quiet ?mc ?b w'"
      "\<exists>x w'. io_readOutputs (machineIo F) w = (Inr x, w') \<and> quiet ?mc ?b w'"
      "\<exists>w'. io_setOutputs (machineIo F) sigs w = (Inr (), w') \<and> quiet ?mc ?b w'" for sigs
      using wp_returns [OF quiet_signals(1) [OF w, of F]] wp_returns [OF quiet_signals(2) [OF w, of F]]
        wp_returns [OF quiet_signals(3) [OF w, of F sigs]] by (simp_all add: machineIo_def)
    have "\<not> motionAllowed inputs (contecState w) ?st" for inputs
      using assms(4) w motionAllowed_conditions by (auto simp: motionConditions_def quiet_def)
    note none = decide_blocked(1) [OF this]
    show "cd_motorIntents (fst (?P ins outs (io_contecState (machineIo F) w) ?st (p, w))) = []
        \<and> quiet ?mc ?b (snd (snd (?P ins outs (io_contecState (machineIo F) w) ?st (p, w))))" for ins outs p
      using w by (simp add: machinePolicy_def machineIo_def assms(2) rimoDecide_def case_prod_beta none)
        (simp add: quiet_def contecState_def)
  qed
  then show ?thesis
    by (auto simp: controlLoopTasks_def bindA_def getA_def catchA_def assms(1) controllerStep_def zoomA_def quiet_def)
qed

theorem machine_motion_gate_witness:
  "\<exists>m'. controlLoopTasks demoPlatform demoMachine = (Inr (), m') \<and> mn_motorControl m' = freshControl"
  using machine_motion_gate [of demoMachine demoWiring demoPlatform demoClock]
  by (simp add: demoMachine_def demoPlatform_def demoWiring_def nothingCleared_def motionConditions_def contecState_def)

end
