(* ===== verification/StatusProps.thy ===== *)
theory StatusProps
  imports MachineSafety
begin

text \<open>
  What a status update writes and publishes: the states of the components and, for every configured
  motor, a complete set of flags that agrees with its state lamp and with the output word its driver
  gave, or with the reason why it could not be read. With the motion gate this gives the reaction of
  the machine to a broken motor control.
\<close>

section \<open>One motor\<close>

definition flagsComplete :: "SingleMotorStatus \<Rightarrow> bool" where
  "flagsComplete ms \<longleftrightarrow> (\<forall>flag \<in> {BrakeApplied, Enabled, EMotorStatusFlags.Warning, EMotorStatusFlags.Alarm}. sms_flags ms flag \<noteq> None)
     \<and> (sms_state ms = ELEDState.Error \<longleftrightarrow> sms_flags ms EMotorStatusFlags.Alarm = Some ELEDState.Error)"

lemma flagsComplete_set [simp]:
  "flagsComplete (failedStatus reason ms)" "flagsComplete (readFlags a b c d ms)"
  "flagsComplete (ms\<lparr>sms_warningDescription := x\<rparr>) = flagsComplete ms"
  "flagsComplete (ms\<lparr>sms_alarmDescription := x\<rparr>) = flagsComplete ms"
  "isMotorInAlarm (failedStatus reason ms)"
  by (simp_all add: flagsComplete_def failedStatus_def readFlags_def setFlag_def isMotorInAlarm_def)

text \<open>The other motors and the other parts of the status stay.\<close>

definition otherMotors :: "EMotor \<Rightarrow> RobotStatus \<Rightarrow> RobotStatus \<Rightarrow> bool" where
  "otherMotors i st st' \<longleftrightarrow> (\<forall>j. j \<noteq> i \<longrightarrow> rs_motors st' j = rs_motors st j)"

lemma wp_onMcStatus: "(\<And>x s'. Q x (st, s')) \<Longrightarrow> (\<And>e s'. R e (st, s')) \<Longrightarrow> wp (onMc A act) Q R (st, s)"
  by (auto simp: wp_def onMc_def zoomA_def split: prod.split sum.split)

lemma wp_onMcGet: "(\<And>x s'. Q x (st, s')) \<Longrightarrow> wp (onMc A (getA g)) Q R (st, s)"
  by (auto simp: wp_def onMc_def zoomA_def split: prod.split)

lemma wp_updMotor: "wp (updMotorStatus i f) Q R (st, s) =
  Q () (st\<lparr>rs_motors := (rs_motors st)(i \<mapsto> f (motorStatusOf st i))\<rparr>, s)"
  by (simp add: updMotorStatus_def wp_modify)

lemma otherMotors_upd: "otherMotors i st st' \<Longrightarrow> otherMotors i st (st'\<lparr>rs_motors := (rs_motors st')(i \<mapsto> ms)\<rparr>)"
  by (simp add: otherMotors_def)

lemma motorStatusOf_upd [simp]: "motorStatusOf (st\<lparr>rs_motors := (rs_motors st)(i \<mapsto> ms)\<rparr>) i = ms"
  by (simp add: motorStatusOf_def)

text \<open>What the loop writes of the motor that it reaches in \<open>s\<close>: a failure with its reason, or the
  alarm and warning bits of the output word that was read in this turn.\<close>

definition failureShown :: "string \<Rightarrow> SingleMotorStatus \<Rightarrow> bool" where
  "failureShown reason ms \<longleftrightarrow> isMotorInAlarm ms \<and> sms_alarmDescription ms = reason"

definition driverShown :: "MotorFlagStatus \<Rightarrow> SingleMotorStatus \<Rightarrow> bool" where
  "driverShown word ms \<longleftrightarrow>
     sms_flags ms EMotorStatusFlags.Alarm
       = Some (if isDriverOutputFlagSet (fs_raw word) MotorOutputFlag.Alarm then ELEDState.Error else Off)
     \<and> sms_flags ms EMotorStatusFlags.Warning
       = Some (if isDriverOutputFlagSet (fs_raw word) MotorOutputFlag.Warning then ELEDState.Warning else Off)"

definition motorReport :: "('c, 'w) BusOps \<Rightarrow> ('c, 'w, 's) McAccess \<Rightarrow> StatusBuilder \<Rightarrow> ComponentState \<Rightarrow> EMotor
    \<Rightarrow> RobotStatus \<times> 's \<Rightarrow> SingleMotorStatus \<Rightarrow> bool" where
  "motorReport B A sb cs i s ms \<longleftrightarrow>
     (if cs = ComponentState.Error then failureShown ''MotorControl component is in error state'' ms
      else if mc_motors (fst (ma_get A (snd s))) i = None
      then failureShown ''Motor is configured but unavailable in runtime'' ms
      else case fst (sbReadMotor B A sb i s) of
          Inl e \<Rightarrow> failureShown e ms
        | Inr _ \<Rightarrow> \<exists>word. fst (mcReadOutputStatus B i (ma_get A (snd s))) = Inr word \<and> driverShown word ms)"

text \<open>The state in which the loop over the motors reaches motor \<open>i\<close>, its entry made.\<close>

fun motorTurn :: "('c, 'w) BusOps \<Rightarrow> ('c, 'w, 's) McAccess \<Rightarrow> StatusBuilder \<Rightarrow> ComponentState \<Rightarrow> EMotor list \<Rightarrow> EMotor
    \<Rightarrow> RobotStatus \<times> 's \<Rightarrow> RobotStatus \<times> 's" where
  "motorTurn B A sb cs [] i s = s"
| "motorTurn B A sb cs (j # js) i s =
     (if j = i then snd (updMotorStatus j (\<lambda>ms. ms) s) else motorTurn B A sb cs js i (snd (sbMotor B A sb cs j s)))"

lemma driverShown_set [simp]:
  "driverShown word (readFlags a hasWarning hasAlarm d ms) \<longleftrightarrow>
     hasWarning = isDriverOutputFlagSet (fs_raw word) MotorOutputFlag.Warning
     \<and> hasAlarm = isDriverOutputFlagSet (fs_raw word) MotorOutputFlag.Alarm"
  "driverShown word (ms\<lparr>sms_warningDescription := x\<rparr>) = driverShown word ms"
  "driverShown word (ms\<lparr>sms_alarmDescription := x\<rparr>) = driverShown word ms"
  "failureShown reason (failedStatus reason ms)"
  by (auto simp: driverShown_def failureShown_def readFlags_def setFlag_def) (simp add: failedStatus_def)

lemma wp_onMc: "wp (onMc A act) Q R (st, s) =
  wp act (\<lambda>x t. Q x (st, ma_put A t s)) (\<lambda>e t. R e (st, ma_put A t s)) (ma_get A s)"
  by (simp add: onMc_def wp_zoom)

lemma wp_fst: "(\<And>x t. fst (m s) = Inr x \<Longrightarrow> Q x t) \<Longrightarrow> (\<And>e t. R e t) \<Longrightarrow> wp m Q R s"
  by (auto simp: wp_def split: prod.split sum.split)

lemma wp_sbReadMotor:
  assumes "otherMotors i st0 st"
  shows "wp (sbReadMotor B A sb i) (\<lambda>_ (st', s'). otherMotors i st0 st' \<and> (\<exists>ms. rs_motors st' i = Some ms \<and> flagsComplete ms
        \<and> (\<exists>word. fst (mcReadOutputStatus B i (ma_get A s)) = Inr word \<and> driverShown word ms)))
    (\<lambda>_ (st', s'). otherMotors i st0 st') (st, s)"
  unfolding sbReadMotor_def Let_def wp_bind wp_onMc [of A "mcReadOutputStatus B i"] using assms
  by (intro wp_fst [where m = "mcReadOutputStatus B i"]) (auto simp: wp_bind wp_then wp_when wp_updMotor wp_ret otherMotors_upd intro!: wp_onMcStatus)

lemma wp_result:
  "wp m Q R s \<Longrightarrow> wp m (\<lambda>x t. Q x t \<and> fst (m s) = Inr x) (\<lambda>e t. R e t \<and> fst (m s) = Inl e) s"
  by (auto simp: wp_def split: prod.split sum.split)

definition reported :: "('c, 'w) BusOps \<Rightarrow> ('c, 'w, 's) McAccess \<Rightarrow> StatusBuilder \<Rightarrow> ComponentState \<Rightarrow> EMotor
    \<Rightarrow> RobotStatus \<times> 's \<Rightarrow> RobotStatus \<Rightarrow> bool" where
  "reported B A sb cs i s st' \<longleftrightarrow> (\<exists>ms. rs_motors st' i = Some ms \<and> flagsComplete ms \<and> motorReport B A sb cs i s ms)"

lemma reportedI: "rs_motors st' i = Some ms \<Longrightarrow> flagsComplete ms \<Longrightarrow> motorReport B A sb cs i s ms \<Longrightarrow> reported B A sb cs i s st'"
  by (auto simp: reported_def)

lemma wp_sbMotor:
  assumes put: "\<And>s. ma_put A (ma_get A s) s = s"
  shows "wp (sbMotor B A sb cs i) (\<lambda>_ (st', s'). otherMotors i st st'
      \<and> reported B A sb cs i (snd (updMotorStatus i (\<lambda>ms. ms) (st, s))) st') (\<lambda>_ _. False) (st, s)"
proof -
  let ?st = "st\<lparr>rs_motors := (rs_motors st)(i \<mapsto> motorStatusOf st i)\<rparr>"
  have o1: "otherMotors i st ?st" by (simp add: otherMotors_def)
  have upd: "updMotorStatus i (\<lambda>ms. ms) (st, s) = (Inr (), ?st, s)" by (simp add: updMotorStatus_def modifyA_def)
  have fail: "wp (thenA (updMotorStatus i (failedStatus e)) (ret True)) (\<lambda>_ (st', s'). otherMotors i st st'
      \<and> reported B A sb cs i (?st, s) st') (\<lambda>_ _. False) (st1, s1)"
    if "otherMotors i st st1" "\<And>ms. failureShown e ms \<Longrightarrow> motorReport B A sb cs i (?st, s) ms" for e st1 s1
    using that by (simp add: wp_then wp_updMotor wp_ret reported_def otherMotors_upd)
  have read: "wp (catchA (sbReadMotor B A sb i) (\<lambda>e. thenA (updMotorStatus i (failedStatus e)) (ret True)))
      (\<lambda>_ (st', s'). otherMotors i st st' \<and> reported B A sb cs i (?st, s) st') (\<lambda>_ _. False) (?st, s)"
    if "cs \<noteq> ComponentState.Error" "mc_motors (fst (ma_get A s)) i \<noteq> None"
    unfolding wp_catch
    by (rule wp_mono [OF wp_result [OF wp_sbReadMotor [OF o1]]])
      (auto simp: motorReport_def that intro: reportedI intro!: fail)
  have down: "wp (thenA (updMotorStatus i (failedStatus ''MotorControl component is in error state'')) (ret True))
      (\<lambda>_ (st', s'). otherMotors i st st' \<and> reported B A sb cs i (?st, s) st') (\<lambda>_ _. False) (?st, s)" if "cs = ComponentState.Error"
    by (rule fail [OF o1]) (simp add: motorReport_def that)
  have gone: "wp (thenA (updMotorStatus i (failedStatus ''Motor is configured but unavailable in runtime'')) (ret True))
      (\<lambda>_ (st', s'). otherMotors i st st' \<and> reported B A sb cs i (?st, s) st') (\<lambda>_ _. False) (?st, s)"
    if "cs \<noteq> ComponentState.Error" "mc_motors (fst (ma_get A s)) i = None"
    by (rule fail [OF o1]) (simp add: motorReport_def that)
  show ?thesis
    unfolding sbMotor_def wp_then wp_updMotor upd snd_conv
    using down gone read by (simp add: wp_bind wp_onMc wp_get put)
qed

section \<open>All motors\<close>

definition motorsReported :: "('c, 'w) BusOps \<Rightarrow> ('c, 'w, 's) McAccess \<Rightarrow> StatusBuilder \<Rightarrow> ComponentState \<Rightarrow> EMotor list
    \<Rightarrow> RobotStatus \<times> 's \<Rightarrow> RobotStatus \<Rightarrow> bool" where
  "motorsReported B A sb cs is s st' \<longleftrightarrow> (\<forall>i \<in> set is. reported B A sb cs i (motorTurn B A sb cs is i s) st')"

lemma wp_sbMotors:
  assumes put: "\<And>s. ma_put A (ma_get A s) s = s" and "distinct is'"
  shows "wp (sbMotors B A sb cs is') (\<lambda>_ (st', s'). (\<forall>j. j \<notin> set is' \<longrightarrow> rs_motors st' j = rs_motors st j)
      \<and> motorsReported B A sb cs is' (st, s) st') (\<lambda>_ _. False) (st, s)"
  using assms(2)
proof (induction is' arbitrary: st s)
  case (Cons i is')
  let ?s0 = "snd (updMotorStatus i (\<lambda>ms. ms) (st, s))"
  have "wp (sbMotor B A sb cs i) (\<lambda>_ t. snd (sbMotor B A sb cs i (st, s)) = t) (\<lambda>_ _. True) (st, s)"
    by (auto simp: wp_def split: prod.split sum.split)
  with wp_sbMotor [OF put, of B sb cs i st s]
  have one: "wp (sbMotor B A sb cs i) (\<lambda>_ t. (case t of (st', s') \<Rightarrow> otherMotors i st st' \<and> reported B A sb cs i ?s0 st')
      \<and> snd (sbMotor B A sb cs i (st, s)) = t) (\<lambda>_ _. False \<and> True) (st, s)"
    unfolding wp_conj by blast
  have rest: "wp (sbMotors B A sb cs is') (\<lambda>_ (st', s'). (\<forall>j. j \<notin> set (i # is') \<longrightarrow> rs_motors st' j = rs_motors st j)
      \<and> motorsReported B A sb cs (i # is') (st, s) st') (\<lambda>_ _. False) (st1, s1)"
    if "otherMotors i st st1" "reported B A sb cs i ?s0 st1" "snd (sbMotor B A sb cs i (st, s)) = (st1, s1)" for st1 s1
    using Cons.IH [of st1 s1] Cons.prems that
    by (auto simp: otherMotors_def motorsReported_def reported_def elim!: wp_mono)
  show ?case
    unfolding sbMotors.simps wp_bind
    by (rule wp_mono [OF one]) (auto simp: wp_ret intro!: wp_mono [OF rest])
qed (simp add: wp_ret motorsReported_def)

section \<open>The update\<close>

lemma setComponents_at:
  "rs_robotComponents (setComponents (\<lambda>c. Some (f c)) st) c = Some (stateToLed (f c))"
  by (cases c) (simp_all add: setComponents_def allComponents_def)

lemma setComponents_motors [simp]: "rs_motors (setComponents comps st) = rs_motors st"
  by (auto simp: setComponents_def allComponents_def split: option.split)

lemma setJoysticks_rest [simp]: "rs_motors (setJoysticks sn st) = rs_motors st"
  "rs_robotComponents (setJoysticks sn st) = rs_robotComponents st"
  by (simp_all add: setJoysticks_def)

lemma setToolFlag_rest [simp]: "rs_motors (setToolFlag arm flag led st) = rs_motors st"
  "rs_robotComponents (setToolFlag arm flag led st) = rs_robotComponents st"
  by (simp_all add: setToolFlag_def Let_def)

lemma setTools_rest [simp]:
  "rs_motors (setAllToolChangerFlags led st) = rs_motors st"
  "rs_robotComponents (setAllToolChangerFlags led st) = rs_robotComponents st"
  "rs_motors (setValves outputs st) = rs_motors st" "rs_robotComponents (setValves outputs st) = rs_robotComponents st"
  "rs_motors (setProximity inputs st) = rs_motors st" "rs_robotComponents (setProximity inputs st) = rs_robotComponents st"
  "rs_motors (setSafety inputs st) = rs_motors st" "rs_robotComponents (setSafety inputs st) = rs_robotComponents st"
  by (auto simp: setAllToolChangerFlags_def setValves_def setProximity_def setSafety_def split: option.split)

text \<open>Reading the signals and publishing leave motor control and the panel alone.\<close>

definition ownParts :: "'c MotorControl \<Rightarrow> ControlPanel \<Rightarrow> ('i, 'c, 'p, 'w) Machine \<Rightarrow> bool" where
  "ownParts mc cp m \<longleftrightarrow> mn_motorControl m = mc \<and> mn_controlPanel m = cp"

lemma ownParts_signals:
  "preserves (ownParts mc cp) (readInputSignals F)" "preserves (ownParts mc cp) (readOutputSignals F)"
proof -
  have io: "preserves (ownParts mc cp) (onContec act)" for act
    unfolding onContec_def by (rule preserves_zoom) (auto simp: ownParts_def)
  have caches: "preserves (ownParts mc cp) (cacheInputSignals v)" "preserves (ownParts mc cp) (cacheOutputSignals v)" for v
    by (auto simp: cacheInputSignals_def cacheOutputSignals_def ownParts_def preserves_def)
  show "preserves (ownParts mc cp) (readInputSignals F)" "preserves (ownParts mc cp) (readOutputSignals F)"
    unfolding readInputSignals_def readOutputSignals_def
    by (intro preserves_bind preserves_then preserves_get preserves_ret preserves_catch preserves_lift preserves_if io caches)+
qed

lemma motorPart_rest: "preserves (\<lambda>(st, m). mn_contec m = ct \<and> mn_controlPanel m = cp) (sbMotorControl B machineMc sb)"
  unfolding sbMotorControl_def
  by (intro preserves_bind preserves_onMc preserves_sbMotors) (auto simp: machineMc_def)

lemma wp_motorPart:
  fixes F :: "('i, 'c, 'p, 'w) Platform" and m :: "('i, 'c, 'p, 'w) Machine"
  shows "wp (sbMotorControl (pf_bus F) machineMc sb) (\<lambda>_ (st', m').
      motorsReported (pf_bus F) machineMc sb (mc_state (mn_motorControl m)) (configuredMotorIds (mn_motorControl m)) (st, m) st'
      \<and> mn_contec m' = mn_contec m \<and> mn_controlPanel m' = mn_controlPanel m) (\<lambda>_ _. True) (st, m)"
proof -
  let ?mc = "mn_motorControl m"
  let ?R = "motorsReported (pf_bus F) machineMc sb (mc_state ?mc) (configuredMotorIds ?mc) (st, m)"
  have get: "ma_get machineMc m1 = (mn_motorControl m1, mn_world m1)"
    and put: "ma_put machineMc (ma_get machineMc m1) m1 = m1" for m1 :: "('i, 'c, 'p, 'w) Machine"
    by (simp_all add: machineMc_def)
  have one: "wp (sbMotors (pf_bus F) machineMc sb (mc_state ?mc) (configuredMotorIds ?mc))
      (\<lambda>_ (st', s'). ?R st') (\<lambda>_ _. False) (st, m)"
    using wp_sbMotors [OF put, of "configuredMotorIds ?mc" "pf_bus F" sb "mc_state ?mc" st m]
    by (auto simp: configuredMotorIds_def mapKeys_motors_distinct elim!: wp_mono)
  have "wp (sbMotorControl (pf_bus F) machineMc sb) (\<lambda>_ (st', m'). ?R st') (\<lambda>_ _. True) (st, m)"
    unfolding sbMotorControl_def wp_bind wp_onMc wp_get
    unfolding put unfolding get fst_conv
    by (rule wp_mono [OF one]) (auto simp: wp_onMc wp_modify)
  moreover have "wp (sbMotorControl (pf_bus F) machineMc sb) (\<lambda>_ (st', m'). mn_contec m' = mn_contec m \<and> mn_controlPanel m' = mn_controlPanel m)
      (\<lambda>_ _. True) (st, m)"
    by (rule wp_mono [OF preserves_wp [OF motorPart_rest]]) auto
  ultimately have "wp (sbMotorControl (pf_bus F) machineMc sb) (\<lambda>x s'. (case s' of (st', m') \<Rightarrow> ?R st')
      \<and> (case s' of (st', m') \<Rightarrow> mn_contec m' = mn_contec m \<and> mn_controlPanel m' = mn_controlPanel m)) (\<lambda>_ _. True \<and> True) (st, m)"
    unfolding wp_conj by blast
  then show ?thesis
    by (rule wp_mono) auto
qed

definition statusShows :: "('i, 'c, 'p, 'w) Platform \<Rightarrow> StatusBuilder \<Rightarrow> RobotStatus \<times> ('i, 'c, 'p, 'w) Machine
    \<Rightarrow> RobotStatus \<Rightarrow> ('i, 'c, 'p, 'w) Machine \<Rightarrow> bool" where
  "statusShows F sb s st m' \<longleftrightarrow> rs_robotComponents st Contec = Some (stateToLed (componentState (snd s) Contec))
     \<and> rs_robotComponents st MotorControl = Some (stateToLed (componentState m' MotorControl))
     \<and> rs_robotComponents st ControlPanel = Some (stateToLed (componentState m' ControlPanel))
     \<and> motorsReported (pf_bus F) machineMc sb (componentState (snd s) MotorControl)
         (configuredMotorIds (mn_motorControl (snd s))) s st"

definition published :: "('i, 'c, 'p, 'w) Platform \<Rightarrow> RobotStatus \<Rightarrow> ('i, 'c, 'p, 'w) Machine \<Rightarrow> bool" where
  "published F st m' \<longleftrightarrow> (\<exists>w. pf_publish F st w = (Inr (), mn_world m'))"

text \<open>Past the sampling of the components.\<close>

lemma statusShows_parts:
  assumes "statusShows F sb s st m1" and "ownParts (mn_motorControl m1) (mn_controlPanel m1) m2"
    and "rs_motors st2 = rs_motors st" "rs_robotComponents st2 = rs_robotComponents st"
  shows "statusShows F sb s st2 m2"
  using assms by (simp add: statusShows_def ownParts_def componentState_def motorsReported_def reported_def)

lemma wp_publish:
  assumes "statusShows F sb s st2 m2"
  shows "wp (publishStatus (machineSources F)) (\<lambda>_ (st', m'). statusShows F sb s st' m' \<and> published F st' m') (\<lambda>_ _. True) (st2, m2)"
  using assms unfolding publishStatus_def onRest_def wp_bind wp_get wp_zoom machineSources_def StatusSources.simps
  by (auto simp: wp_def published_def intro: statusShows_parts [OF assms] simp: ownParts_def split: prod.split sum.split)

lemma wp_statusTail:
  fixes F :: "('i, 'c, 'p, 'w) Platform"
  assumes "statusShows F sb s st m1"
  shows "wp (if err then thenA (updStatus (setAllToolChangerFlags ELEDState.Error)) (publishStatus (machineSources F))
       else bindA (onRest (ss_readInputs (machineSources F))) (\<lambda>inputs. bindA (onRest (ss_readOutputs (machineSources F))) (\<lambda>outputs.
         thenA (updStatus (\<lambda>st. setValves outputs (setProximity inputs (setSafety inputs st))))
           (publishStatus (machineSources F)))))
    (\<lambda>_ (st', m'). statusShows F sb s st' m' \<and> published F st' m') (\<lambda>_ _. True) (st, m1)"
proof -
  let ?own = "ownParts (mn_motorControl m1) (mn_controlPanel m1)"
  have read: "wp (readInputSignals F) (\<lambda>_. ?own) (\<lambda>_. ?own) m2"
    "wp (readOutputSignals F) (\<lambda>_. ?own) (\<lambda>_. ?own) m2" if "?own m2" for m2 :: "('i, 'c, 'p, 'w) Machine"
    by (rule preserves_wp [OF ownParts_signals(1) that], rule preserves_wp [OF ownParts_signals(2) that])
  show ?thesis
    by (auto simp: wp_bind wp_get wp_then updStatus_def wp_modify onRest_def wp_zoom machineSources_def [THEN arg_cong, of ss_readInputs]
        machineSources_def [THEN arg_cong, of ss_readOutputs] ownParts_def
        intro!: wp_publish statusShows_parts [OF assms] wp_mono [OF read(1)] wp_mono [OF read(2)])
qed

lemma wp_sample:
  "wp (bindA (getA g) (\<lambda>c. thenA (updStatus (h c)) (k c))) Q R (st, s) = wp (k (g (st, s))) Q R (h (g (st, s)) st, s)"
  by (simp add: wp_bind wp_get wp_then updStatus_def wp_modify)

lemma wp_updateAndPublish:
  fixes F :: "('i, 'c, 'p, 'w) Platform" and m :: "('i, 'c, 'p, 'w) Machine"
  shows "wp (updateAndPublish (pf_bus F) (Some machineMc) sb (machineSources F))
    (\<lambda>_ (st', m'). statusShows F sb (st, m) st' m' \<and> published F st' m') (\<lambda>_ _. True) (st, m)"
proof -
  let ?mc = "mn_motorControl m"
  let ?R = "motorsReported (pf_bus F) machineMc sb (mc_state ?mc) (configuredMotorIds ?mc) (st, m)"
  have comps: "ss_components (machineSources F) m1 = (\<lambda>c. Some (componentState m1 c))" for m1
    by (simp add: machineSources_def)
  have tail: "statusShows F sb (st, m) (setJoysticks sn (setComponents (\<lambda>c. Some (componentState m1 c)) st1)) m1"
    if "?R st1" "mn_contec m1 = mn_contec m" for st1 sn and m1 :: "('i, 'c, 'p, 'w) Machine"
    using that by (simp add: statusShows_def setComponents_at motorsReported_def reported_def) (simp add: componentState_def)
  have "wp (bindA (getA (\<lambda>(st, s). ss_components (machineSources F) s)) (\<lambda>comps.
      thenA (updStatus (setComponents comps))
      (bindA (getA (\<lambda>(st, s). ss_snapshot (machineSources F) s)) (\<lambda>sn.
      thenA (updStatus (setJoysticks sn))
      (if comps Contec = Some ComponentState.Error
       then thenA (updStatus (setAllToolChangerFlags ELEDState.Error)) (publishStatus (machineSources F))
       else bindA (onRest (ss_readInputs (machineSources F))) (\<lambda>inputs. bindA (onRest (ss_readOutputs (machineSources F))) (\<lambda>outputs.
         thenA (updStatus (\<lambda>st. setValves outputs (setProximity inputs (setSafety inputs st))))
           (publishStatus (machineSources F)))))))))
      (\<lambda>_ (st', m'). statusShows F sb (st, m) st' m' \<and> published F st' m') (\<lambda>_ _. True) (st1, m1)"
    if "?R st1" "mn_contec m1 = mn_contec m" for st1 and m1 :: "('i, 'c, 'p, 'w) Machine"
    unfolding wp_sample split comps by (rule wp_statusTail [OF tail [OF that]])
  then show ?thesis
    unfolding updateAndPublish_def option.case wp_then by (intro wp_mono [OF wp_motorPart]) auto
qed

text \<open>C8: a status update that returns has handed its final status to the publisher, as the last thing
  it did to the world. That status has the state of every component (that of the I/O unit as it was
  before the signals were read) and, for every configured motor, a complete set of flags whose lamp is
  red exactly when the alarm flag is. The flags are those of the motor's turn in the loop: a motor
  that could not be read (motor control in the error state, no such motor, a reading that threw) is in
  alarm with the reason as its description; one that was read has its alarm and warning flags from
  the ALARM and WARNING bits of the output word read from its driver in that turn.\<close>

theorem status_update_truth:
  assumes "mn_wired m = Some cl" and "updateStatus F m = (Inr (), m')"
  shows "rs_robotComponents (mn_robotStatus m') Contec = Some (stateToLed (componentState m Contec))
    \<and> rs_robotComponents (mn_robotStatus m') MotorControl = Some (stateToLed (componentState m' MotorControl))
    \<and> rs_robotComponents (mn_robotStatus m') ControlPanel = Some (stateToLed (componentState m' ControlPanel))
    \<and> (\<forall>i \<in> set (configuredMotorIds (mn_motorControl m)). \<exists>ms. rs_motors (mn_robotStatus m') i = Some ms
        \<and> (\<forall>flag \<in> {BrakeApplied, Enabled, EMotorStatusFlags.Warning, EMotorStatusFlags.Alarm}. sms_flags ms flag \<noteq> None)
        \<and> (sms_state ms = ELEDState.Error \<longleftrightarrow> sms_flags ms EMotorStatusFlags.Alarm = Some ELEDState.Error)
        \<and> (componentState m MotorControl = ComponentState.Error \<longrightarrow> isMotorInAlarm ms)
        \<and> motorReport (pf_bus F) machineMc (cl_builder cl) (componentState m MotorControl) i
            (motorTurn (pf_bus F) machineMc (cl_builder cl) (componentState m MotorControl)
               (configuredMotorIds (mn_motorControl m)) i (mn_robotStatus m, m)) ms)
    \<and> (\<exists>w. pf_publish F (mn_robotStatus m') w = (Inr (), mn_world m'))"
proof -
  have "wp (updateStatus F) (\<lambda>_ m'. statusShows F (cl_builder cl) (mn_robotStatus m, m) (mn_robotStatus m') m'
      \<and> published F (mn_robotStatus m') m') (\<lambda>_ _. True) m"
    unfolding updateStatus_def wp_bind wp_get assms(1) option.case wp_zoom
    by (rule wp_mono [OF wp_updateAndPublish]) (auto simp: statusShows_def componentState_def published_def)
  from wp_Inr [OF this assms(2)] show ?thesis
    by (fastforce simp: statusShows_def motorsReported_def reported_def flagsComplete_def published_def motorReport_def failureShown_def)
qed

definition demoMotorConfig :: MotorConfig where
  "demoMotorConfig = \<lparr>mcf_address = 2, mcf_commandAddress = None, mcf_groupId = None, mcf_forceFunction10 = None,
     mcf_runCurrent = 1000, mcf_stopCurrent = 500, mcf_startingSpeed = None, mcf_overloadWarning = None,
     mcf_overloadAlarm = None, mcf_excessivePositionDeviationWarning = None, mcf_excessivePositionDeviationAlarm = None,
     mcf_motorRotationDirection = None\<rparr>"

lemma demo_update: "\<exists>m'. updateStatus demoPlatform (demoMachine\<lparr>mn_motorControl :=
    freshControl\<lparr>mc_motorConfigs := [XLeft \<mapsto> demoMotorConfig]\<rparr>\<rparr>) = (Inr (), m')"
  by (simp add: updateStatus_def updateAndPublish_def demoPlatform_def demoMachine_def demoWiring_def freshControl_def act_defs
      sbMotorControl_def onMc_def machineMc_def machineSources_def configuredMotorIds_def mapKeys_def allMotors_def sbMotor_def
      updMotorStatus_def updStatus_def componentState_def publishStatus_def onRest_def)

theorem status_update_truth_witness:
  "\<exists>m' ms. updateStatus demoPlatform (demoMachine\<lparr>mn_motorControl := freshControl\<lparr>mc_motorConfigs := [XLeft \<mapsto> demoMotorConfig]\<rparr>\<rparr>) = (Inr (), m')
    \<and> rs_motors (mn_robotStatus m') XLeft = Some ms \<and> isMotorInAlarm ms"
proof -
  let ?m = "demoMachine\<lparr>mn_motorControl := freshControl\<lparr>mc_motorConfigs := [XLeft \<mapsto> demoMotorConfig]\<rparr>\<rparr>"
  obtain m' where u: "updateStatus demoPlatform ?m = (Inr (), m')" using demo_update by blast
  have "XLeft \<in> set (configuredMotorIds (mn_motorControl ?m))" "componentState ?m MotorControl = ComponentState.Error"
    by (simp_all add: configuredMotorIds_def mapKeys_def allMotors_def componentState_def freshControl_def)
  with status_update_truth [OF _ u] u show ?thesis by (fastforce simp: demoMachine_def)
qed

end
