(* ===== verification/ViewModel.thy ===== *)
theory ViewModel
  imports Policy CommandProcessor
begin

text \<open>
  What the operator interface shows: the store with the latest status and the connection
  (\<^verbatim>\<open>GUI/src/GuiStateStore.cpp\<close>), the view models computed from a status
  (\<^verbatim>\<open>GUI/src/RobotStatusViewModel.cpp\<close>), the presenters that put them on the widgets when the store
  emits a signal (\<^verbatim>\<open>ResetControlsPresenter.cpp\<close>, \<^verbatim>\<open>ToolChangerPresenter.cpp\<close>,
  \<^verbatim>\<open>MotorStatsPresenter.cpp\<close>), and the display of one motor (\<^verbatim>\<open>MotorStats.cpp\<close>,
  \<^verbatim>\<open>Utilities/src/VMotorStats.cpp\<close>).

  A widget is the record of what it shows. A signal of the store is a value; Qt calls the connected
  slots one after the other, so a presenter's slot is a step on its widget.
\<close>

section \<open>The store\<close>

record GuiStateStore =
  gs_latestStatus :: "RobotStatus option"
  gs_connected :: bool

datatype StoreSignal = StatusUpdated RobotStatus | ConnectionChanged bool

definition newStore :: GuiStateStore where
  "newStore = \<lparr>gs_latestStatus = None, gs_connected = False\<rparr>"

definition onStatusReceived :: "RobotStatus \<Rightarrow> GuiStateStore \<Rightarrow> StoreSignal list \<times> GuiStateStore" where
  "onStatusReceived status gs =
     ((if \<not> gs_connected gs then [ConnectionChanged True] else []) @ [StatusUpdated status],
      gs\<lparr>gs_connected := True, gs_latestStatus := Some status\<rparr>)"

definition onServerDisconnected :: "GuiStateStore \<Rightarrow> StoreSignal list \<times> GuiStateStore" where
  "onServerDisconnected gs =
     (if \<not> gs_connected gs then ([], gs) else ([ConnectionChanged False], gs\<lparr>gs_connected := False\<rparr>))"

section \<open>View models\<close>

record ToolChangerViewModel =
  tv_prox :: ELEDState
  tv_openSensor :: ELEDState
  tv_closedSensor :: ELEDState
  tv_openValve :: ELEDState
  tv_closedValve :: ELEDState
  tv_openButtonEnabled :: bool
  tv_closeButtonEnabled :: bool

definition toolChangerFlagOrOff :: "ToolChangerStatus \<Rightarrow> EToolChangerStatusFlags \<Rightarrow> ELEDState" where
  "toolChangerFlagOrOff tc flag = (case tc_flags tc flag of None \<Rightarrow> Off | Some v \<Rightarrow> v)"

definition toolChangerForArm :: "RobotStatus \<Rightarrow> EArm \<Rightarrow> ToolChangerViewModel option" where
  "toolChangerForArm status arm = (case rs_toolChangers status arm of
     None \<Rightarrow> None
   | Some tc \<Rightarrow> Some \<lparr>tv_prox = toolChangerFlagOrOff tc ProxSen, tv_openSensor = toolChangerFlagOrOff tc OpenSen,
       tv_closedSensor = toolChangerFlagOrOff tc ClosedSen, tv_openValve = toolChangerFlagOrOff tc OpenValve,
       tv_closedValve = toolChangerFlagOrOff tc ClosedValve,
       tv_openButtonEnabled = (toolChangerFlagOrOff tc OpenValve \<noteq> On),
       tv_closeButtonEnabled = (toolChangerFlagOrOff tc ClosedValve \<noteq> On)\<rparr>)"

record ResetControlsViewModel =
  rv_server :: ELEDState
  rv_contec :: ELEDState
  rv_motor :: ELEDState
  rv_controlPanel :: ELEDState
  rv_motorPower :: ELEDState
  rv_resetContecEnabled :: bool
  rv_resetMotorEnabled :: bool
  rv_resetControlPanelEnabled :: bool
  rv_enableAllMotorsEnabled :: bool
  rv_disableAllMotorsEnabled :: bool

definition defaultResetControls :: ResetControlsViewModel where
  "defaultResetControls = \<lparr>rv_server = ELEDState.Error, rv_contec = Off, rv_motor = Off, rv_controlPanel = Off,
     rv_motorPower = Off, rv_resetContecEnabled = False, rv_resetMotorEnabled = False,
     rv_resetControlPanelEnabled = False, rv_enableAllMotorsEnabled = False, rv_disableAllMotorsEnabled = False\<rparr>"

definition componentLed :: "RobotStatus \<Rightarrow> ERobotComponent \<Rightarrow> ELEDState" where
  "componentLed status c = (case rs_robotComponents status c of None \<Rightarrow> Off | Some v \<Rightarrow> v)"

definition resetControlsForStatus :: "RobotStatus option \<Rightarrow> ResetControlsViewModel" where
  "resetControlsForStatus status = (case status of
     None \<Rightarrow> defaultResetControls
   | Some st \<Rightarrow>
      (let contec = componentLed st Contec; motor = componentLed st MotorControl; panel = componentLed st ControlPanel
       in \<lparr>rv_server = On, rv_contec = contec, rv_motor = motor, rv_controlPanel = panel,
          rv_motorPower = (case rs_safetyOn st of None \<Rightarrow> Off | Some on \<Rightarrow> if on then On else Off),
          rv_resetContecEnabled = (contec = ELEDState.Error), rv_resetMotorEnabled = (motor = ELEDState.Error),
          rv_resetControlPanelEnabled = (panel = ELEDState.Error),
          rv_enableAllMotorsEnabled = (motor = On \<or> motor = ELEDState.Warning),
          rv_disableAllMotorsEnabled = (motor = On \<or> motor = ELEDState.Warning)\<rparr>))"

section \<open>Widgets and presenters\<close>

text \<open>The reset controls start with the server lamp red and every button but the emergency stop off.\<close>

fun resetControlsSlot :: "StoreSignal \<Rightarrow> ResetControlsViewModel \<Rightarrow> ResetControlsViewModel" where
  "resetControlsSlot (StatusUpdated status) view = resetControlsForStatus (Some status)"
| "resetControlsSlot (ConnectionChanged up) view = (if up then view else resetControlsForStatus None)"

definition offToolChanger :: ToolChangerViewModel where
  "offToolChanger = \<lparr>tv_prox = Off, tv_openSensor = Off, tv_closedSensor = Off, tv_openValve = Off,
     tv_closedValve = Off, tv_openButtonEnabled = False, tv_closeButtonEnabled = False\<rparr>"

fun toolChangerSlot :: "EArm \<Rightarrow> StoreSignal \<Rightarrow> ToolChangerViewModel \<Rightarrow> ToolChangerViewModel" where
  "toolChangerSlot arm (StatusUpdated status) view =
     (case toolChangerForArm status arm of None \<Rightarrow> view | Some vm \<Rightarrow> vm)"
| "toolChangerSlot arm (ConnectionChanged up) view = (if up then view else offToolChanger)"

record MotorStatsView =
  mv_currentPosition :: real
  mv_targetPosition :: real
  mv_speed :: real
  mv_speedRpm :: real
  mv_status :: ELEDState
  mv_speedCommand :: "real \<times> real"
  mv_brake :: ELEDState
  mv_enabled :: ELEDState
  mv_axisState :: EAxisState

definition flagOrOff :: "SingleMotorStatus \<Rightarrow> EMotorStatusFlags \<Rightarrow> ELEDState" where
  "flagOrOff ms flag = (case sms_flags ms flag of None \<Rightarrow> Off | Some v \<Rightarrow> v)"

definition configureStats :: "SingleMotorStatus \<Rightarrow> MotorStatsView \<Rightarrow> MotorStatsView" where
  "configureStats s v = v\<lparr>mv_currentPosition := sms_currentPosition s, mv_targetPosition := sms_targetPosition s,
     mv_speed := sms_speed s, mv_speedRpm := sms_speedRpm s, mv_status := sms_state s,
     mv_speedCommand := (sms_speedCommandPercent s, sms_modeMaxLinearSpeedMmPerSec s),
     mv_brake := flagOrOff s BrakeApplied, mv_enabled := flagOrOff s Enabled\<rparr>"

definition handleUpdate :: "EMotor \<Rightarrow> RobotStatus \<Rightarrow> MotorStatsView \<Rightarrow> MotorStatsView" where
  "handleUpdate i rs v = (case rs_motors rs i of
     None \<Rightarrow> v
   | Some s \<Rightarrow> (let v = configureStats s v in
       case Option.bind (motorToArm i) (rs_armStates rs) of None \<Rightarrow> v | Some a \<Rightarrow> v\<lparr>mv_axisState := a\<rparr>))"

fun motorStatsSlot :: "EMotor \<Rightarrow> StoreSignal \<Rightarrow> MotorStatsView \<Rightarrow> MotorStatsView" where
  "motorStatsSlot i (StatusUpdated status) v = handleUpdate i status v"
| "motorStatsSlot i (ConnectionChanged up) v = (if up then v else v\<lparr>mv_status := Off, mv_brake := Off\<rparr>)"

section \<open>Buttons\<close>

text \<open>The reset controls ask nothing; the tool changer wants a confirmation, with a warning when the
  arm is to be closed and its proximity lamp is not green.\<close>

datatype ResetButton = ResetContec | ResetMotors | ResetControlPanel | EnableAllMotors | DisableAllMotors | EmergencyStop

fun resetButtonCommand :: "ResetButton \<Rightarrow> GuiCommand" where
  "resetButtonCommand ResetContec = GuiReconnectCommand Contec"
| "resetButtonCommand ResetMotors = GuiReconnectCommand MotorControl"
| "resetButtonCommand ResetControlPanel = GuiReconnectCommand ControlPanel"
| "resetButtonCommand EnableAllMotors = GuiSetAllMotorsEnabledCommand True"
| "resetButtonCommand DisableAllMotors = GuiSetAllMotorsEnabledCommand False"
| "resetButtonCommand EmergencyStop = GuiEmergencyStopCommand"

fun resetButtonEnabled :: "ResetControlsViewModel \<Rightarrow> ResetButton \<Rightarrow> bool" where
  "resetButtonEnabled v ResetContec = rv_resetContecEnabled v"
| "resetButtonEnabled v ResetMotors = rv_resetMotorEnabled v"
| "resetButtonEnabled v ResetControlPanel = rv_resetControlPanelEnabled v"
| "resetButtonEnabled v EnableAllMotors = rv_enableAllMotorsEnabled v"
| "resetButtonEnabled v DisableAllMotors = rv_disableAllMotorsEnabled v"
| "resetButtonEnabled v EmergencyStop = True"

datatype Dialog = AskQuestion string | AskWarning string

definition toolChangerDialog :: "EArm \<Rightarrow> EToolChangerAction \<Rightarrow> ToolChangerViewModel \<Rightarrow> Dialog" where
  "toolChangerDialog arm action view = (case action of
     Close \<Rightarrow> (let msg = ''Are you sure you want to close the '' @ armName arm @ '' tool changer?'' in
       if tv_prox view = On then AskQuestion msg
       else AskWarning (msg @ '' Proximity sensor did not detect the clamp-side tool changer. Is it intentional?''))
   | Open \<Rightarrow> AskQuestion (''Are you sure you want to open the '' @ armName arm @ '' tool changer?''))"

definition toolChangerClick ::
  "EArm \<Rightarrow> EToolChangerAction \<Rightarrow> ToolChangerViewModel \<Rightarrow> (Dialog \<Rightarrow> bool) \<Rightarrow> GuiCommand option" where
  "toolChangerClick arm action view answer =
     (if answer (toolChangerDialog arm action view) then Some (GuiToolChangerCommand arm action) else None)"

section \<open>The whole interface\<close>

record OperatorView =
  ov_store :: GuiStateStore
  ov_reset :: ResetControlsViewModel
  ov_tools :: "EArm \<Rightarrow> ToolChangerViewModel"
  ov_motors :: "EMotor \<Rightarrow> MotorStatsView"

datatype GuiEvent = NewDataArrived RobotStatus | ServerNotConnected

definition storeEvent :: "GuiEvent \<Rightarrow> GuiStateStore \<Rightarrow> StoreSignal list \<times> GuiStateStore" where
  "storeEvent e = (case e of NewDataArrived st \<Rightarrow> onStatusReceived st | ServerNotConnected \<Rightarrow> onServerDisconnected)"

definition presentSignal :: "StoreSignal \<Rightarrow> OperatorView \<Rightarrow> OperatorView" where
  "presentSignal sig v = v\<lparr>ov_reset := resetControlsSlot sig (ov_reset v),
     ov_tools := (\<lambda>arm. toolChangerSlot arm sig (ov_tools v arm)),
     ov_motors := (\<lambda>i. motorStatsSlot i sig (ov_motors v i))\<rparr>"

definition operatorEvent :: "GuiEvent \<Rightarrow> OperatorView \<Rightarrow> OperatorView" where
  "operatorEvent e v = (case storeEvent e (ov_store v) of
     (sigs, gs) \<Rightarrow> fold presentSignal sigs (v\<lparr>ov_store := gs\<rparr>))"

definition newView :: "(EArm \<Rightarrow> ToolChangerViewModel) \<Rightarrow> (EMotor \<Rightarrow> MotorStatsView) \<Rightarrow> OperatorView" where
  "newView tools motors = \<lparr>ov_store = newStore, ov_reset = defaultResetControls, ov_tools = tools, ov_motors = motors\<rparr>"

section \<open>Facts\<close>

text \<open>What the interface knows: the last status, as long as the server answers.\<close>

fun liveStatus :: "GuiEvent list \<Rightarrow> RobotStatus option" where
  "liveStatus [] = None"
| "liveStatus (NewDataArrived st # es) = Some st"
| "liveStatus (ServerNotConnected # es) = None"

definition showsLive :: "RobotStatus option \<Rightarrow> OperatorView \<Rightarrow> bool" where
  "showsLive live v \<longleftrightarrow> gs_connected (ov_store v) = (live \<noteq> None)
     \<and> (live \<noteq> None \<longrightarrow> gs_latestStatus (ov_store v) = live)
     \<and> ov_reset v = resetControlsForStatus live"

lemma presentSignal_store [simp]: "ov_store (presentSignal sig v) = ov_store v"
  by (simp add: presentSignal_def)

lemma operatorEvent_status:
  "ov_store (operatorEvent (NewDataArrived st) v) = (ov_store v)\<lparr>gs_connected := True, gs_latestStatus := Some st\<rparr>"
  "ov_reset (operatorEvent (NewDataArrived st) v) = resetControlsForStatus (Some st)"
  "ov_tools (operatorEvent (NewDataArrived st) v) arm =
     (case toolChangerForArm st arm of None \<Rightarrow> ov_tools v arm | Some vm \<Rightarrow> vm)"
  "ov_motors (operatorEvent (NewDataArrived st) v) i = handleUpdate i st (ov_motors v i)"
  by (simp_all add: operatorEvent_def storeEvent_def onStatusReceived_def presentSignal_def split: option.split)

lemma operatorEvent_lost:
  "ov_store (operatorEvent ServerNotConnected v) = (ov_store v)\<lparr>gs_connected := False\<rparr>"
  "ov_reset (operatorEvent ServerNotConnected v) =
     (if gs_connected (ov_store v) then resetControlsForStatus None else ov_reset v)"
  "ov_tools (operatorEvent ServerNotConnected v) =
     (if gs_connected (ov_store v) then (\<lambda>_. offToolChanger) else ov_tools v)"
  by (simp_all add: operatorEvent_def storeEvent_def onServerDisconnected_def presentSignal_def fun_eq_iff)

lemma showsLive_step:
  "showsLive live v \<Longrightarrow> showsLive (liveStatus [e]) (operatorEvent e v)"
  by (cases e) (auto simp: showsLive_def operatorEvent_status operatorEvent_lost)

section \<open>Properties\<close>

text \<open>C21: after any sequence of events (latest first) the reset controls show exactly the last
  status, or the picture of a missing server when the last event was a lost connection or there was
  none; so a reset button is enabled only while its component reports an error, the buttons for all
  motors only while motor control works, and without server only the emergency stop.\<close>

theorem operator_view_live:
  "ov_reset (foldr operatorEvent es (newView tools motors)) = resetControlsForStatus (liveStatus es)
   \<and> (\<forall>b. resetButtonEnabled (ov_reset (foldr operatorEvent es (newView tools motors))) b =
       (case b of
          ResetContec \<Rightarrow> \<exists>st. liveStatus es = Some st \<and> componentLed st Contec = ELEDState.Error
        | ResetMotors \<Rightarrow> \<exists>st. liveStatus es = Some st \<and> componentLed st MotorControl = ELEDState.Error
        | ResetControlPanel \<Rightarrow> \<exists>st. liveStatus es = Some st \<and> componentLed st ControlPanel = ELEDState.Error
        | EmergencyStop \<Rightarrow> True
        | _ \<Rightarrow> \<exists>st. liveStatus es = Some st \<and> isComponentOperational (Some (componentLed st MotorControl))))"
proof -
  have "showsLive (liveStatus es) (foldr operatorEvent es (newView tools motors))" for es
  proof (induction es)
    case (Cons e es)
    have "liveStatus (e # es) = liveStatus [e]" by (cases e) simp_all
    with showsLive_step [OF Cons.IH, of e] show ?case by simp
  qed (simp add: showsLive_def newView_def newStore_def resetControlsForStatus_def)
  then have shown: "ov_reset (foldr operatorEvent es (newView tools motors)) = resetControlsForStatus (liveStatus es)"
    by (simp add: showsLive_def)
  have "resetButtonEnabled (resetControlsForStatus live) b =
       (case b of
          ResetContec \<Rightarrow> \<exists>st. live = Some st \<and> componentLed st Contec = ELEDState.Error
        | ResetMotors \<Rightarrow> \<exists>st. live = Some st \<and> componentLed st MotorControl = ELEDState.Error
        | ResetControlPanel \<Rightarrow> \<exists>st. live = Some st \<and> componentLed st ControlPanel = ELEDState.Error
        | EmergencyStop \<Rightarrow> True
        | _ \<Rightarrow> \<exists>st. live = Some st \<and> isComponentOperational (Some (componentLed st MotorControl)))" for live b
    by (cases b; cases live) (simp_all add: resetControlsForStatus_def defaultResetControls_def Let_def isComponentOperational_def)
  then show ?thesis
    by (simp only: shown) blast
qed

end
