(* ===== verification/Transport.thy ===== *)
theory Transport
  imports ViewModel
begin

text \<open>
  How a command of the operator interface reaches the server and its response the widget that asked
  (\<^verbatim>\<open>GUI/src/RimoTransportWorker.cpp\<close>, \<^verbatim>\<open>GUI/src/Updater.cpp\<close>). The updater lives in the user
  interface's thread: it numbers the requests, remembers who sent each and hands them to the worker.
  The worker's thread sends one after the other, waits for each response and posts it to the event
  queue of the interface, as it does with the statuses it receives in between.

  What the server answers is an input of the steps (\<open>None\<close>: no answer in time). The worker's two loops
  are the steps \<open>WorkerAnswer\<close> and \<open>WorkerStatus\<close> in any order, which includes the one of
  \<^verbatim>\<open>runner\<close>; a step that holds the queue's mutex is atomic.
\<close>

section \<open>The worker\<close>

record Request =
  rq_id :: "64 word"
  rq_command :: GuiCommand

record ResponseEvent =
  re_id :: "64 word"
  re_response :: "GuiResponse option"

datatype UiPost = PostStatus RobotStatus | PostLost | PostResponse ResponseEvent

record TransportWorker =
  tw_running :: bool
  tw_pendingRequests :: "Request list"
  tw_posts :: "UiPost list"

definition newWorker :: TransportWorker where
  "newWorker = \<lparr>tw_running = False, tw_pendingRequests = [], tw_posts = []\<rparr>"

definition twStart :: "TransportWorker \<Rightarrow> TransportWorker" where
  "twStart tw = (if tw_running tw then tw else tw\<lparr>tw_running := True\<rparr>)"

definition twEnqueue :: "Request \<Rightarrow> TransportWorker \<Rightarrow> TransportWorker" where
  "twEnqueue r tw = tw\<lparr>tw_pendingRequests := tw_pendingRequests tw @ [r]\<rparr>"

definition answerRequest :: "Request \<Rightarrow> Json option \<Rightarrow> UiPost" where
  "answerRequest r rawResult = PostResponse \<lparr>re_id = rq_id r, re_response = Option.bind rawResult guiFromJson\<rparr>"

text \<open>One round of \<^verbatim>\<open>processPendingCommands\<close>, and all of it with the answers in order.\<close>

definition processOne :: "Json option \<Rightarrow> TransportWorker \<Rightarrow> TransportWorker" where
  "processOne rawResult tw = (case tw_pendingRequests tw of
     [] \<Rightarrow> tw
   | r # rs \<Rightarrow> tw\<lparr>tw_pendingRequests := rs, tw_posts := tw_posts tw @ [answerRequest r rawResult]\<rparr>)"

fun answerAll :: "Json option list \<Rightarrow> Request list \<Rightarrow> UiPost list" where
  "answerAll raws [] = []"
| "answerAll raws (r # rs) =
     answerRequest r (case raws of [] \<Rightarrow> None | a # _ \<Rightarrow> a) # answerAll (tl raws) rs"

definition processPendingCommands :: "Json option list \<Rightarrow> TransportWorker \<Rightarrow> TransportWorker" where
  "processPendingCommands raws tw =
     tw\<lparr>tw_pendingRequests := [], tw_posts := tw_posts tw @ answerAll raws (tw_pendingRequests tw)\<rparr>"

definition receiveStatus :: "RobotStatus option \<Rightarrow> TransportWorker \<Rightarrow> TransportWorker" where
  "receiveStatus status tw = tw\<lparr>tw_posts := tw_posts tw @ [case status of None \<Rightarrow> PostLost | Some st \<Rightarrow> PostStatus st]\<rparr>"

text \<open>\<^verbatim>\<open>stop\<close> waits for the thread, which empties its queue before it ends.\<close>

definition twStop :: "Json option list \<Rightarrow> TransportWorker \<Rightarrow> TransportWorker" where
  "twStop raws tw = processPendingCommands raws (tw\<lparr>tw_running := False\<rparr>)"

section \<open>The updater\<close>

text \<open>Qt's knowledge of the senders: which are response consumers, which of them show errors
  themselves, and which still exist.\<close>

record 'o QtWorld =
  qt_isConsumer :: "'o \<Rightarrow> bool"
  qt_suppresses :: "'o \<Rightarrow> bool"
  qt_alive :: "'o \<Rightarrow> bool"

record 'o PendingRequestMeta =
  pm_sender :: "'o option"
  pm_expectsResponse :: bool

record 'o Updater =
  up_running :: bool
  up_requestCounter :: "64 word"
  up_pendingById :: "64 word \<Rightarrow> 'o PendingRequestMeta option"

datatype 'o UiEffect = ErrorPopup string | Consume 'o GuiResponse | Emit GuiEvent

definition newUpdater :: "'o Updater" where
  "newUpdater = \<lparr>up_running = False, up_requestCounter = 1, up_pendingById = Map.empty\<rparr>"

definition nextRequestId :: "'o Updater \<Rightarrow> 64 word \<times> 'o Updater" where
  "nextRequestId up = (let i = up_requestCounter up; up1 = up\<lparr>up_requestCounter := i + 1\<rparr> in
     if i = 0 then (up_requestCounter up1, up1\<lparr>up_requestCounter := up_requestCounter up1 + 1\<rparr>) else (i, up1))"

type_synonym 'o desk = "'o Updater \<times> TransportWorker"

definition startUpdaterThread :: "'o desk \<Rightarrow> 'o desk" where
  "startUpdaterThread = (\<lambda>(up, tw). if up_running up then (up, tw) else (up\<lparr>up_running := True\<rparr>, twStart tw))"

definition metaOf :: "'o QtWorld \<Rightarrow> 'o option \<Rightarrow> 'o PendingRequestMeta" where
  "metaOf Q sender = \<lparr>pm_sender = sender,
     pm_expectsResponse = (case sender of None \<Rightarrow> False | Some w \<Rightarrow> qt_isConsumer Q w)\<rparr>"

definition sendCommand :: "'o QtWorld \<Rightarrow> 'o option \<Rightarrow> GuiCommand \<Rightarrow> 'o desk \<Rightarrow> 'o UiEffect list \<times> 'o desk" where
  "sendCommand Q sender command = (\<lambda>(up, tw).
     if \<not> up_running up then ([ErrorPopup ''Updater thread is not running.''], (up, tw))
     else case nextRequestId up of (i, up1) \<Rightarrow>
       ([], (up1\<lparr>up_pendingById := (case up_pendingById up1 i of
                None \<Rightarrow> (up_pendingById up1)(i \<mapsto> metaOf Q sender) | Some _ \<Rightarrow> up_pendingById up1)\<rparr>,
             twEnqueue \<lparr>rq_id = i, rq_command = command\<rparr> tw)))"

definition errorText :: "GuiResponse \<Rightarrow> string" where
  "errorText r = (if gr_message r = '''' then ''Server did not provide any message...'' else gr_message r)"

text \<open>What a response does, given who asked.\<close>

definition respond :: "'o QtWorld \<Rightarrow> 'o PendingRequestMeta \<Rightarrow> GuiResponse option \<Rightarrow> 'o UiEffect list" where
  "respond Q meta response = (case response of
     None \<Rightarrow> [ErrorPopup ''Failed to send command and/or get response.'']
   | Some r \<Rightarrow>
      (let sender = (case pm_sender meta of None \<Rightarrow> None | Some w \<Rightarrow> if qt_alive Q w then Some w else None);
           consumer = (if pm_expectsResponse meta then Option.bind sender (\<lambda>w. if qt_isConsumer Q w then Some w else None) else None);
           r' = (if gr_ok r then r else r\<lparr>gr_message := errorText r\<rparr>);
           popup = (if \<not> gr_ok r \<and> \<not> (case consumer of None \<Rightarrow> False | Some w \<Rightarrow> qt_suppresses Q w)
                    then [ErrorPopup (errorText r)] else [])
       in popup @ (case consumer of None \<Rightarrow> [] | Some w \<Rightarrow> [Consume w r'])))"

definition handleResponse :: "'o QtWorld \<Rightarrow> ResponseEvent \<Rightarrow> 'o Updater \<Rightarrow> 'o UiEffect list \<times> 'o Updater" where
  "handleResponse Q ev up = (case up_pendingById up (re_id ev) of
     None \<Rightarrow> ([], up)
   | Some meta \<Rightarrow> (respond Q meta (re_response ev), up\<lparr>up_pendingById := (up_pendingById up)(re_id ev := None)\<rparr>))"

definition stopUpdaterThread :: "Json option list \<Rightarrow> 'o desk \<Rightarrow> 'o desk" where
  "stopUpdaterThread raws = (\<lambda>(up, tw).
     (up\<lparr>up_running := False, up_pendingById := Map.empty\<rparr>, twStop raws tw))"

text \<open>The event loop of the interface takes the oldest post.\<close>

definition deliver :: "'o QtWorld \<Rightarrow> 'o desk \<Rightarrow> 'o UiEffect list \<times> 'o desk" where
  "deliver Q = (\<lambda>(up, tw). case tw_posts tw of
     [] \<Rightarrow> ([], (up, tw))
   | p # ps \<Rightarrow> (case p of
       PostStatus st \<Rightarrow> ([Emit (NewDataArrived st)], (up, tw\<lparr>tw_posts := ps\<rparr>))
     | PostLost \<Rightarrow> ([Emit ServerNotConnected], (up, tw\<lparr>tw_posts := ps\<rparr>))
     | PostResponse ev \<Rightarrow> (case handleResponse Q ev up of (effs, up') \<Rightarrow> (effs, (up', tw\<lparr>tw_posts := ps\<rparr>)))))"

section \<open>Runs\<close>

datatype 'o GuiStep = Start | Send "'o option" GuiCommand | WorkerAnswer "Json option"
  | WorkerStatus "RobotStatus option" | Deliver | Stop "Json option list"

fun deskStep :: "'o QtWorld \<Rightarrow> 'o GuiStep \<Rightarrow> 'o desk \<Rightarrow> 'o UiEffect list \<times> 'o desk" where
  "deskStep Q Start s = ([], startUpdaterThread s)"
| "deskStep Q (Send sender c) s = sendCommand Q sender c s"
| "deskStep Q (WorkerAnswer a) s = ([], (fst s, processOne a (snd s)))"
| "deskStep Q (WorkerStatus st) s = ([], (fst s, receiveStatus st (snd s)))"
| "deskStep Q Deliver s = deliver Q s"
| "deskStep Q (Stop raws) s = ([], stopUpdaterThread raws s)"

fun deskRun :: "'o QtWorld \<Rightarrow> 'o GuiStep list \<Rightarrow> 'o desk \<Rightarrow> 'o UiEffect list" where
  "deskRun Q [] s = []"
| "deskRun Q (x # xs) s = (case deskStep Q x s of (effs, s') \<Rightarrow> effs @ deskRun Q xs s')"

section \<open>The desk without numbers\<close>

text \<open>The abstract desk: a request carries its sender, and there is nothing to look up.\<close>

datatype 'o DeskPost = DeskEvent GuiEvent | DeskResponse "'o option" "GuiResponse option" | DeskDropped

record 'o Desk =
  dk_open :: bool
  dk_waiting :: "('o option \<times> GuiCommand) list"
  dk_posts :: "'o DeskPost list"

definition emptyDesk :: "'o Desk" where
  "emptyDesk = \<lparr>dk_open = False, dk_waiting = [], dk_posts = []\<rparr>"

fun dropResponse :: "'o DeskPost \<Rightarrow> 'o DeskPost" where
  "dropResponse (DeskEvent e) = DeskEvent e"
| "dropResponse _ = DeskDropped"

fun postEffects :: "'o QtWorld \<Rightarrow> 'o DeskPost \<Rightarrow> 'o UiEffect list" where
  "postEffects Q (DeskEvent e) = [Emit e]"
| "postEffects Q (DeskResponse sender response) = respond Q (metaOf Q sender) response"
| "postEffects Q DeskDropped = []"

fun abstractStep :: "'o QtWorld \<Rightarrow> 'o GuiStep \<Rightarrow> 'o Desk \<Rightarrow> 'o UiEffect list \<times> 'o Desk" where
  "abstractStep Q Start d = ([], d\<lparr>dk_open := True\<rparr>)"
| "abstractStep Q (Send sender c) d = (if dk_open d then ([], d\<lparr>dk_waiting := dk_waiting d @ [(sender, c)]\<rparr>)
     else ([ErrorPopup ''Updater thread is not running.''], d))"
| "abstractStep Q (WorkerAnswer raw) d = ([], case dk_waiting d of [] \<Rightarrow> d
     | (sender, c) # ws \<Rightarrow> d\<lparr>dk_waiting := ws, dk_posts := dk_posts d @ [DeskResponse sender (Option.bind raw guiFromJson)]\<rparr>)"
| "abstractStep Q (WorkerStatus st) d = ([], d\<lparr>dk_posts := dk_posts d @
     [DeskEvent (case st of None \<Rightarrow> ServerNotConnected | Some st \<Rightarrow> NewDataArrived st)]\<rparr>)"
| "abstractStep Q Deliver d = (case dk_posts d of [] \<Rightarrow> ([], d) | p # ps \<Rightarrow> (postEffects Q p, d\<lparr>dk_posts := ps\<rparr>))"
| "abstractStep Q (Stop raws) d = ([], d\<lparr>dk_open := False, dk_waiting := [],
     dk_posts := map dropResponse (dk_posts d) @ map (\<lambda>_. DeskDropped) (dk_waiting d)\<rparr>)"

fun abstractRun :: "'o QtWorld \<Rightarrow> 'o GuiStep list \<Rightarrow> 'o Desk \<Rightarrow> 'o UiEffect list" where
  "abstractRun Q [] d = []"
| "abstractRun Q (x # xs) d = (case abstractStep Q x d of (effs, d') \<Rightarrow> effs @ abstractRun Q xs d')"

section \<open>The simulation\<close>

fun postIds :: "UiPost list \<Rightarrow> (64 word) list" where
  "postIds [] = []"
| "postIds (PostResponse ev # ps) = re_id ev # postIds ps"
| "postIds (_ # ps) = postIds ps"

definition usedIds :: "TransportWorker \<Rightarrow> (64 word) list" where
  "usedIds tw = map rq_id (tw_pendingRequests tw) @ postIds (tw_posts tw)"

fun absPost :: "(64 word \<Rightarrow> 'o PendingRequestMeta option) \<Rightarrow> UiPost \<Rightarrow> 'o DeskPost" where
  "absPost pend (PostStatus st) = DeskEvent (NewDataArrived st)"
| "absPost pend PostLost = DeskEvent ServerNotConnected"
| "absPost pend (PostResponse ev) = (case pend (re_id ev) of None \<Rightarrow> DeskDropped
     | Some meta \<Rightarrow> DeskResponse (pm_sender meta) (re_response ev))"

definition absDesk :: "'o desk \<Rightarrow> 'o Desk" where
  "absDesk = (\<lambda>(up, tw). \<lparr>dk_open = up_running up,
     dk_waiting = map (\<lambda>r. (pm_sender (the (up_pendingById up (rq_id r))), rq_command r)) (tw_pendingRequests tw),
     dk_posts = map (absPost (up_pendingById up)) (tw_posts tw)\<rparr>)"

text \<open>After n requests: the numbers in flight are distinct and among 1 to n, and every request that
  waits has its entry.\<close>

definition deskInv :: "'o QtWorld \<Rightarrow> nat \<Rightarrow> 'o desk \<Rightarrow> bool" where
  "deskInv Q n = (\<lambda>(up, tw). up_requestCounter up = of_nat (Suc n)
     \<and> distinct (usedIds tw) \<and> (\<forall>i \<in> set (usedIds tw) \<union> dom (up_pendingById up). 0 < unat i \<and> unat i \<le> n)
     \<and> (\<forall>r \<in> set (tw_pendingRequests tw). up_pendingById up (rq_id r) \<noteq> None)
     \<and> (\<forall>i meta. up_pendingById up i = Some meta \<longrightarrow> meta = metaOf Q (pm_sender meta)))"

fun sends :: "'o GuiStep list \<Rightarrow> nat" where
  "sends [] = 0"
| "sends (Send _ _ # xs) = Suc (sends xs)"
| "sends (_ # xs) = sends xs"

lemma postIds_append [simp]: "postIds (ps @ qs) = postIds ps @ postIds qs"
  by (induction ps rule: postIds.induct) simp_all

lemma postIds_answerAll [simp]: "postIds (answerAll raws rs) = map rq_id rs"
  by (induction raws rs rule: answerAll.induct) (simp_all add: answerRequest_def)

lemma absPost_cong: "(\<And>i. i \<in> set (postIds [p]) \<Longrightarrow> pend i = pend' i) \<Longrightarrow> absPost pend p = absPost pend' p"
  by (cases p) simp_all

lemma postIds_member: "p \<in> set ps \<Longrightarrow> set (postIds [p]) \<subseteq> set (postIds ps)"
  by (induction ps rule: postIds.induct) auto

lemma absPosts_cong:
  "(\<And>i. i \<in> set (postIds ps) \<Longrightarrow> pend i = pend' i) \<Longrightarrow> map (absPost pend) ps = map (absPost pend') ps"
  by (intro map_cong absPost_cong refl) (use postIds_member in blast)

lemma absPost_empty: "absPost Map.empty p = dropResponse (absPost pend p)"
  by (cases p) (simp_all split: option.split)

lemma absPost_answerAll: "map (absPost Map.empty) (answerAll raws rs) = map (\<lambda>_. DeskDropped) rs"
  by (induction raws rs rule: answerAll.induct) (simp_all add: answerRequest_def)

definition simulates :: "'o QtWorld \<Rightarrow> nat \<Rightarrow> 'o GuiStep \<Rightarrow> 'o desk \<Rightarrow> bool" where
  "simulates Q n x s \<longleftrightarrow> (case abstractStep Q x (absDesk s) of (effs, d) \<Rightarrow>
     \<exists>s'. deskStep Q x s = (effs, s') \<and> absDesk s' = d \<and> (\<exists>n' \<le> n. deskInv Q n' s'))"

lemma simulatesI:
  "deskStep Q x s = (effs, s') \<Longrightarrow> abstractStep Q x (absDesk s) = (effs, absDesk s') \<Longrightarrow> deskInv Q n s' \<Longrightarrow> simulates Q n x s"
  by (auto simp: simulates_def)

lemma simulates_mono: "simulates Q n x s \<Longrightarrow> n \<le> m \<Longrightarrow> simulates Q m x s"
  by (auto simp: simulates_def dest: order_trans split: prod.splits)

text \<open>A request with a fresh number is enqueued.\<close>

lemma deskInv_enqueue:
  fixes Q :: "'o QtWorld" and sender c i up
  defines "r \<equiv> \<lparr>rq_id = i, rq_command = c\<rparr>"
    and "up' \<equiv> up\<lparr>up_requestCounter := i + 1, up_pendingById := (up_pendingById up)(i \<mapsto> metaOf Q sender)\<rparr>"
  assumes inv: "deskInv Q n (up, tw)" and used: "i \<notin> set (usedIds tw) \<union> dom (up_pendingById up)"
    and i: "unat i = Suc n" and counter: "of_nat (Suc (Suc n)) = i + 1"
  shows "deskInv Q (Suc n) (up', twEnqueue r tw)"
  unfolding deskInv_def split
proof (intro conjI ballI allI impI)
  show "up_requestCounter up' = of_nat (Suc (Suc n))" unfolding counter by (simp add: up'_def)
  show "distinct (usedIds (twEnqueue r tw))"
    using inv used by (auto simp: deskInv_def usedIds_def twEnqueue_def r_def)
  show "0 < unat j" "unat j \<le> Suc n" if "j \<in> set (usedIds (twEnqueue r tw)) \<union> dom (up_pendingById up')" for j
  proof -
    have "j = i \<or> j \<in> set (usedIds tw) \<union> dom (up_pendingById up)"
      using that by (auto simp: usedIds_def twEnqueue_def r_def up'_def split: if_splits)
    then have "0 < unat j \<and> unat j \<le> Suc n"
      using inv i unfolding deskInv_def split by (metis le_SucI order_refl zero_less_Suc)
    then show "0 < unat j" "unat j \<le> Suc n" by blast+
  qed
  show "up_pendingById up' (rq_id q) \<noteq> None" if "q \<in> set (tw_pendingRequests (twEnqueue r tw))" for q
    using that inv by (auto simp: twEnqueue_def deskInv_def r_def up'_def)
  show "meta = metaOf Q (pm_sender meta)" if "up_pendingById up' j = Some meta" for j meta
    using that inv by (auto simp: deskInv_def metaOf_def up'_def split: if_splits)
qed

lemma simulates_send:
  assumes inv: "deskInv Q n (up, tw)" and "Suc n < 2 ^ 64" and run: "up_running up"
  shows "simulates Q (Suc n) (Send sender c) (up, tw)"
proof -
  define i :: "64 word" where "i = of_nat (Suc n)"
  let ?r = "\<lparr>rq_id = i, rq_command = c\<rparr>"
  let ?up = "up\<lparr>up_requestCounter := i + 1, up_pendingById := (up_pendingById up)(i \<mapsto> metaOf Q sender)\<rparr>"
  have i: "unat i = Suc n" using assms(2) by (simp add: i_def unat_of_nat del: of_nat_Suc)
  then have pos: "i \<noteq> 0" by auto
  have counter: "up_requestCounter up = i" "of_nat (Suc (Suc n)) = i + 1"
    using inv by (simp_all add: deskInv_def i_def)
  have used: "i \<notin> set (usedIds tw) \<union> dom (up_pendingById up)"
  proof
    assume "i \<in> set (usedIds tw) \<union> dom (up_pendingById up)"
    with inv have "unat i \<le> n" unfolding deskInv_def split by blast
    with i show False by simp
  qed
  have step: "deskStep Q (Send sender c) (up, tw) = ([], (?up, twEnqueue ?r tw))"
    using run used by (auto simp: sendCommand_def nextRequestId_def counter pos Let_def split: option.split)
  have keep: "up_pendingById ?up (rq_id r) = up_pendingById up (rq_id r)" if "r \<in> set (tw_pendingRequests tw)" for r
    using that used by (auto simp: usedIds_def)
  have posts: "map (absPost (up_pendingById ?up)) (tw_posts tw) = map (absPost (up_pendingById up)) (tw_posts tw)"
    by (rule absPosts_cong) (use used in \<open>auto simp: usedIds_def\<close>)
  have abs: "absDesk (?up, twEnqueue ?r tw) = (absDesk (up, tw))\<lparr>dk_waiting := dk_waiting (absDesk (up, tw)) @ [(sender, c)]\<rparr>"
    using keep posts by (auto simp: absDesk_def twEnqueue_def metaOf_def)
  have "deskInv Q (Suc n) (?up, twEnqueue ?r tw)"
    using inv used i counter(2) by (rule deskInv_enqueue)
  moreover have "dk_open (absDesk (up, tw))" using run by (simp add: absDesk_def)
  ultimately show ?thesis
    using step abs by (auto simp: simulates_def)
qed

lemma simulates_others:
  assumes "deskInv Q n (up, tw)"
  shows "simulates Q n Start (up, tw)" "simulates Q n (WorkerAnswer raw) (up, tw)" "simulates Q n (WorkerStatus st) (up, tw)"
    "simulates Q n (Stop raws) (up, tw)" "\<not> up_running up \<Longrightarrow> simulates Q n (Send sender c) (up, tw)"
proof -
  show "simulates Q n Start (up, tw)"
    by (rule simulatesI [where s' = "startUpdaterThread (up, tw)"])
      (use assms in \<open>auto simp: startUpdaterThread_def twStart_def absDesk_def deskInv_def usedIds_def\<close>)
  show "simulates Q n (WorkerStatus st) (up, tw)"
    by (rule simulatesI [where s' = "(up, receiveStatus st tw)"])
      (use assms in \<open>auto simp: receiveStatus_def absDesk_def deskInv_def usedIds_def split: option.split\<close>)
  show "simulates Q n (Send sender c) (up, tw)" if "\<not> up_running up"
    using assms that by (auto simp: simulates_def sendCommand_def absDesk_def)
  have "deskInv Q n (up\<lparr>up_running := False, up_pendingById := Map.empty\<rparr>, twStop raws tw)"
    using assms by (auto simp: deskInv_def twStop_def processPendingCommands_def usedIds_def)
  then show "simulates Q n (Stop raws) (up, tw)"
    by (auto simp: simulates_def stopUpdaterThread_def absDesk_def twStop_def processPendingCommands_def
        absPost_answerAll absPost_empty [of _ "up_pendingById up"] comp_def)
  show "simulates Q n (WorkerAnswer raw) (up, tw)"
  proof (cases "tw_pendingRequests tw")
    case Nil
    then show ?thesis using assms by (auto simp: simulates_def processOne_def absDesk_def)
  next
    case (Cons r rs)
    then obtain meta where "up_pendingById up (rq_id r) = Some meta"
      using assms by (auto simp: deskInv_def)
    moreover have "deskInv Q n (up, processOne raw tw)"
      using assms Cons by (auto simp: deskInv_def processOne_def usedIds_def answerRequest_def)
    ultimately show ?thesis
      using Cons by (auto simp: simulates_def processOne_def absDesk_def answerRequest_def)
  qed
qed

lemma simulates_response:
  assumes "deskInv Q n (up, tw)" and posts0: "tw_posts tw = PostResponse ev # ps"
  shows "simulates Q n Deliver (up, tw)"
proof -
  let ?pend = "(up_pendingById up)(re_id ev := None)" and ?tw = "tw\<lparr>tw_posts := ps\<rparr>"
  have used: "re_id ev \<notin> set (usedIds ?tw)" "set (usedIds ?tw) \<subseteq> set (usedIds tw)" "distinct (usedIds ?tw)"
    using assms by (auto simp: deskInv_def usedIds_def)
  have keep: "?pend (rq_id r) = up_pendingById up (rq_id r)" if "r \<in> set (tw_pendingRequests tw)" for r
  proof -
    have "rq_id r \<noteq> re_id ev" using that used(1) by (force simp: usedIds_def)
    then show ?thesis by simp
  qed
  have posts: "map (absPost ?pend) ps = map (absPost (up_pendingById up)) ps"
    by (rule absPosts_cong) (use used(1) in \<open>auto simp: usedIds_def\<close>)
  have inv: "deskInv Q n (up\<lparr>up_pendingById := ?pend\<rparr>, ?tw)" "deskInv Q n (up, ?tw)"
    using assms used keep by (auto simp: deskInv_def split: if_splits)
  show ?thesis
  proof (cases "up_pendingById up (re_id ev)")
    case None
    with posts0 inv(2) show ?thesis
      by (auto simp: simulates_def deliver_def handleResponse_def absDesk_def)
  next
    case (Some meta)
    then have "meta = metaOf Q (pm_sender meta)"
      using assms by (simp add: deskInv_def)
    with Some posts0 inv(1) keep posts show ?thesis
      by (auto simp: simulates_def deliver_def handleResponse_def absDesk_def)
  qed
qed

lemma simulates_deliver:
  assumes "deskInv Q n (up, tw)"
  shows "simulates Q n Deliver (up, tw)"
proof (cases "tw_posts tw")
  case Nil
  then show ?thesis using assms by (auto simp: simulates_def deliver_def absDesk_def)
next
  case (Cons p ps)
  have other: "simulates Q n Deliver (up, tw)" if "p = PostLost \<or> (\<exists>st. p = PostStatus st)"
    by (intro simulatesI [where s' = "(up, tw\<lparr>tw_posts := ps\<rparr>)"])
      (use assms Cons that in \<open>auto simp: deliver_def absDesk_def deskInv_def usedIds_def\<close>)
  show ?thesis
    using simulates_response [OF assms] Cons other by (cases p) auto
qed

lemma simulates_step:
  assumes "deskInv Q n s" and "n + sends [x] < 2 ^ 64"
  shows "simulates Q (n + sends [x]) x s"
proof -
  obtain up tw where s: "s = (up, tw)" by (cases s)
  show ?thesis
  proof (cases x)
    case (Send sender c)
    show ?thesis
    proof (cases "up_running up")
      case True
      with assms simulates_send [of Q n up tw sender c] show ?thesis by (simp add: s Send)
    next
      case False
      then have "simulates Q n x s"
        using simulates_others(5) assms(1) by (simp add: s Send)
      then show ?thesis by (rule simulates_mono) simp
    qed
  qed (use assms(1) simulates_others simulates_deliver in \<open>auto simp: s simp del: deskStep.simps abstractStep.simps\<close>)
qed

lemma deskRun_simulated:
  assumes "deskInv Q n s" and "n + sends xs < 2 ^ 64"
  shows "deskRun Q xs s = abstractRun Q xs (absDesk s)"
  using assms
proof (induction xs arbitrary: n s)
  case (Cons x xs)
  have split: "sends (x # xs) = sends [x] + sends xs" by (cases x) simp_all
  have "simulates Q (n + sends [x]) x s"
    by (rule simulates_step [OF Cons.prems(1)]) (use Cons.prems(2) split in simp)
  then obtain effs s' n' where "deskStep Q x s = (effs, s')" "abstractStep Q x (absDesk s) = (effs, absDesk s')"
    "n' \<le> n + sends [x]" "deskInv Q n' s'"
    by (auto simp: simulates_def split: prod.splits)
  then show ?case
    using Cons.IH [of n' s'] Cons.prems(2) split by simp
qed simp

text \<open>C9: over every interleaving of the interface's and the worker's steps, as long as fewer than
  2^64 commands are sent, the interface behaves as if every request carried its sender with it: each
  response, in the order of the requests, has its effect on the one widget that sent that request,
  exactly once, and requests in flight when the updater is stopped have none.\<close>

theorem responses_reach_their_senders:
  assumes "sends xs < 2 ^ 64"
  shows "deskRun Q xs (newUpdater, newWorker) = abstractRun Q xs emptyDesk"
proof -
  have "deskInv Q 0 (newUpdater, newWorker)"
    by (simp add: deskInv_def newUpdater_def newWorker_def usedIds_def)
  moreover have "absDesk (newUpdater, newWorker) = (emptyDesk :: 'a Desk)"
    by (simp add: absDesk_def newUpdater_def newWorker_def emptyDesk_def)
  ultimately show ?thesis
    using deskRun_simulated [of Q 0 "(newUpdater, newWorker)" xs] assms by simp
qed

theorem responses_reach_their_senders_witness:
  "deskRun \<lparr>qt_isConsumer = (\<lambda>w. w = ''panel''), qt_suppresses = (\<lambda>_. False), qt_alive = (\<lambda>_. True)\<rparr>
     [Start, Send (Some ''panel'') GuiContecDiagnosticsCommand, Send None GuiEmergencyStopCommand, WorkerAnswer (Some okResponse),
      WorkerAnswer (Some (errorResponse ''no'')), Deliver, Deliver] (newUpdater, newWorker)
   = [Consume ''panel'' \<lparr>gr_ok = True, gr_message = '''', gr_payload = None\<rparr>, ErrorPopup ''no'']"
  by (subst responses_reach_their_senders)
    (simp_all add: emptyDesk_def respond_def metaOf_def guiFromJson_ok guiFromJson_error errorText_def Let_def)

end
