(* ===== verification/Configuration.thy ===== *)
theory Configuration
  imports MotorOps Panel Policy StatusBuilder Contec
begin

text \<open>
  The constructors that read the YAML configuration: \<^verbatim>\<open>Utilities/include/Config.hpp\<close>,
  \<^verbatim>\<open>Utilities/src/Config.cpp\<close> and the default constructors of motor control, control policy, panel
  (with \<^verbatim>\<open>ControlPanelCommFactory.cpp\<close> and \<^verbatim>\<open>SerialControlPanelComm.cpp\<close>), status builder and I/O unit.

  A document is a value of \<open>Yaml\<close>, a node \<^verbatim>\<open>YAML::Node\<close> an option of it (\<open>None\<close>: undefined, which is
  what \<^verbatim>\<open>!node\<close> tests; a key without a value is defined). The conversions \<^verbatim>\<open>as<T>\<close> of yaml-cpp are the
  parameter \<open>Y\<close>, which the locale \<open>yaml_library\<close> restricts to the ranges of the C++ types.
\<close>

section \<open>The library\<close>

datatype Yaml = YNull | YScalar string | YSeq "Yaml list" | YMap "(Yaml \<times> Yaml) list"

record YamlLib =
  yl_string :: "Yaml \<Rightarrow> string option"
  yl_int :: "Yaml \<Rightarrow> int option"
  yl_unsigned :: "Yaml \<Rightarrow> int option"
  yl_int64 :: "Yaml \<Rightarrow> int option"
  yl_size :: "Yaml \<Rightarrow> nat option"
  yl_double :: "Yaml \<Rightarrow> real option"
  yl_bool :: "Yaml \<Rightarrow> bool option"
  yl_signalMap :: "Yaml \<Rightarrow> nat smap option"
  yl_badConversion :: "Yaml \<Rightarrow> exn"
  yl_invalidNode :: exn
  yl_subscript :: "Yaml \<Rightarrow> string \<Rightarrow> exn + Yaml option"
  yl_assignUndefined :: "exn + unit"

locale yaml_library =
  fixes Y :: YamlLib
  assumes int_range: "yl_int Y y = Some i \<Longrightarrow> - (2 ^ 31) \<le> i \<and> i < 2 ^ 31"
    and unsigned_range: "yl_unsigned Y y = Some i \<Longrightarrow> 0 \<le> i \<and> i < 2 ^ 32"
    and string_scalar: "yl_string Y (YScalar s) = Some s"

definition isMap :: "Yaml \<Rightarrow> bool" where
  "isMap y = (case y of YMap _ \<Rightarrow> True | _ \<Rightarrow> False)"

definition isMapNode :: "Yaml option \<Rightarrow> bool" where
  "isMapNode n = (case n of None \<Rightarrow> False | Some y \<Rightarrow> isMap y)"

text \<open>\<^verbatim>\<open>node[key]\<close>, \<^verbatim>\<open>node.as<T>()\<close> and \<^verbatim>\<open>node.as<T>(fallback)\<close>, which takes the fallback for a value of the wrong
  type too.\<close>

definition sub :: "YamlLib \<Rightarrow> Yaml option \<Rightarrow> string \<Rightarrow> exn + Yaml option" where
  "sub Y n key = (case n of
     None \<Rightarrow> Inl (yl_invalidNode Y)
   | Some (YMap m) \<Rightarrow> Inr (map_of m (YScalar key))
   | Some y \<Rightarrow> yl_subscript Y y key)"

definition asV :: "YamlLib \<Rightarrow> (Yaml \<Rightarrow> 'a option) \<Rightarrow> Yaml option \<Rightarrow> exn + 'a" where
  "asV Y decode n = (case n of
     None \<Rightarrow> Inl (yl_invalidNode Y)
   | Some y \<Rightarrow> (case decode y of None \<Rightarrow> Inl (yl_badConversion Y y) | Some v \<Rightarrow> Inr v))"

definition asOr :: "(Yaml \<Rightarrow> 'a option) \<Rightarrow> 'a \<Rightarrow> Yaml option \<Rightarrow> 'a" where
  "asOr decode dflt n = (case Option.bind n decode of None \<Rightarrow> dflt | Some v \<Rightarrow> v)"

text \<open>\<^verbatim>\<open>convert_enum<T>::decode\<close>\<close>

definition decodeEnum :: "YamlLib \<Rightarrow> 'e list \<Rightarrow> ('e \<Rightarrow> string) \<Rightarrow> Yaml \<Rightarrow> 'e option" where
  "decodeEnum Y vals name y = (case y of YScalar _ \<Rightarrow> Option.bind (yl_string Y y) (enumCast vals name) | _ \<Rightarrow> None)"

section \<open>The configuration object\<close>

record Config =
  cf_configPath :: string
  cf_topNode :: Yaml

definition quote :: "string \<Rightarrow> string" where
  "quote s = [CHR 0x27] @ s @ [CHR 0x27]"

definition getClassConfig :: "YamlLib \<Rightarrow> Config \<Rightarrow> string \<Rightarrow> exn + Yaml" where
  "getClassConfig Y cf className = bindE (sub Y (Some (cf_topNode cf)) ''classes'') (\<lambda>classes.
     if classes = None then Inl (''Config file '' @ quote (cf_configPath cf) @ '' is missing '' @ quote ''classes'' @ '' section'')
     else bindE (sub Y classes className) (\<lambda>n. case n of
       None \<Rightarrow> Inl (''Failed to find entry for '' @ quote className @ '' in the config file '' @ quote (cf_configPath cf))
     | Some y \<Rightarrow> Inr y))"

definition getRequired :: "YamlLib \<Rightarrow> (Yaml \<Rightarrow> 'a option) \<Rightarrow> Config \<Rightarrow> string \<Rightarrow> string \<Rightarrow> exn + 'a" where
  "getRequired Y decode cf className key = bindE (getClassConfig Y cf className) (\<lambda>cls.
     bindE (sub Y (Some cls) key) (\<lambda>n. case n of
       None \<Rightarrow> Inl (''Missing required key '' @ quote (className @ ''.'' @ key) @ '' in config file '' @ quote (cf_configPath cf))
     | Some y \<Rightarrow> (case decode y of
         None \<Rightarrow> Inl (''Invalid type for '' @ quote (className @ ''.'' @ key) @ '' in config file ''
           @ quote (cf_configPath cf) @ '': '' @ yl_badConversion Y y)
       | Some v \<Rightarrow> Inr v)))"

definition getOptional :: "YamlLib \<Rightarrow> (Yaml \<Rightarrow> 'a option) \<Rightarrow> Config \<Rightarrow> string \<Rightarrow> string \<Rightarrow> 'a \<Rightarrow> exn + 'a" where
  "getOptional Y decode cf className key dflt = bindE (getClassConfig Y cf className) (\<lambda>cls.
     bindE (sub Y (Some cls) key) (\<lambda>n. case n of
       None \<Rightarrow> Inr dflt
     | Some y \<Rightarrow> (case decode y of
         None \<Rightarrow> Inl (''Invalid type for optional '' @ quote (className @ ''.'' @ key) @ '' in ''
           @ quote (cf_configPath cf) @ '': '' @ yl_badConversion Y y)
       | Some v \<Rightarrow> Inr v)))"

section \<open>Motor control\<close>

definition checkE :: "bool \<Rightarrow> exn \<Rightarrow> exn + unit" where
  "checkE ok e = (if ok then Inr () else Inl e)"

definition optionalValue :: "YamlLib \<Rightarrow> (Yaml \<Rightarrow> 'a option) \<Rightarrow> Yaml option \<Rightarrow> exn + 'a option" where
  "optionalValue Y decode n = (case n of None \<Rightarrow> Inr None | Some y \<Rightarrow> bindE (asV Y decode (Some y)) (\<lambda>v. Inr (Some v)))"

definition motorFieldName :: "EMotor \<Rightarrow> string \<Rightarrow> string" where
  "motorFieldName i field = ''MotorControl.motors.'' @ motorName i @ field"

definition checkCurrent :: "int \<Rightarrow> string \<Rightarrow> EMotor \<Rightarrow> exn + unit" where
  "checkCurrent current field i = fst (validateCurrentRange (word_of_int current) field i ())"

text \<open>An optional threshold, which must not be negative.\<close>

definition readThreshold :: "YamlLib \<Rightarrow> EMotor \<Rightarrow> Yaml \<Rightarrow> string \<Rightarrow> exn + int option" where
  "readThreshold Y i entry key = bindE (sub Y (Some entry) key) (\<lambda>n. case n of
     None \<Rightarrow> Inr None
   | Some y \<Rightarrow> bindE (asV Y (yl_int Y) (Some y)) (\<lambda>v.
       bindE (checkE (0 \<le> v) (motorFieldName i (''.'' @ key @ '' must be >= 0 (got '' @ dec v @ '')''))) (\<lambda>_. Inr (Some v))))"

definition checkOrder :: "EMotor \<Rightarrow> string \<Rightarrow> string \<Rightarrow> int option \<Rightarrow> int option \<Rightarrow> exn + unit" where
  "checkOrder i alarmKey warningKey warning alarm = (case (warning, alarm) of
     (Some w, Some a) \<Rightarrow> checkE (w \<le> a) (motorFieldName i ('': '' @ alarmKey @ '' ('' @ dec a @ '') must be >= ''
        @ warningKey @ '' ('' @ dec w @ '')''))
   | _ \<Rightarrow> Inr ())"

definition readCommandAddress :: "YamlLib \<Rightarrow> EMotor \<Rightarrow> Yaml \<Rightarrow> exn + int option" where
  "readCommandAddress Y i entry = bindE (sub Y (Some entry) ''commandAddress'') (\<lambda>n. case n of
     None \<Rightarrow> Inr None
   | Some y \<Rightarrow> bindE (asV Y (yl_int Y) (Some y)) (\<lambda>v.
       bindE (checkE (1 \<le> v \<and> v \<le> 247) (motorFieldName i (''.commandAddress must be in range 1..247 (got '' @ dec v @ '')''))) (\<lambda>_.
       Inr (Some v))))"

definition toI32 :: "int option \<Rightarrow> i32 option" where
  "toI32 = map_option word_of_int"

definition readMotorEntry :: "YamlLib \<Rightarrow> bool \<Rightarrow> EMotor \<Rightarrow> Yaml \<Rightarrow> exn + MotorConfig" where
  "readMotorEntry Y globalForce i entry =
     bindE (checkE (isMap entry) (motorFieldName i ('' must be a map with at least '' @ quote ''address'' @ ''.''))) (\<lambda>_.
     bindE (bindE (sub Y (Some entry) ''address'') (asV Y (yl_int Y))) (\<lambda>address.
     bindE (checkE (0 \<le> address \<and> address \<le> 247)
       (motorFieldName i (''.address must be in range 0..247 (got '' @ dec address @ '')''))) (\<lambda>_.
     bindE (readCommandAddress Y i entry) (\<lambda>commandAddress.
     bindE (sub Y (Some entry) ''runCurrent'') (\<lambda>run. let runCurrent = asOr (yl_int Y) 1000 run in
     bindE (sub Y (Some entry) ''stopCurrent'') (\<lambda>stop. let stopCurrent = asOr (yl_int Y) 500 stop in
     bindE (checkCurrent runCurrent ''runCurrent'' i) (\<lambda>_.
     bindE (checkCurrent stopCurrent ''stopCurrent'' i) (\<lambda>_.
     bindE (bindE (sub Y (Some entry) ''groupId'') (optionalValue Y (yl_int Y))) (\<lambda>groupId.
     bindE (bindE (sub Y (Some entry) ''forceFunction10ForSingleRegisterWrites'') (optionalValue Y (yl_bool Y))) (\<lambda>force.
     bindE (readThreshold Y i entry ''startingSpeed'') (\<lambda>startingSpeed.
     bindE (readThreshold Y i entry ''overloadWarning'') (\<lambda>overloadWarning.
     bindE (readThreshold Y i entry ''overloadAlarm'') (\<lambda>overloadAlarm.
     bindE (checkOrder i ''overloadAlarm'' ''overloadWarning'' overloadWarning overloadAlarm) (\<lambda>_.
     bindE (readThreshold Y i entry ''excessivePositionDeviationWarning'') (\<lambda>deviationWarning.
     bindE (readThreshold Y i entry ''excessivePositionDeviationAlarm'') (\<lambda>deviationAlarm.
     bindE (checkOrder i ''excessivePositionDeviationAlarm'' ''excessivePositionDeviationWarning'' deviationWarning deviationAlarm) (\<lambda>_.
     bindE (bindE (sub Y (Some entry) ''motorRotationDirection'') (optionalValue Y (yl_int Y))) (\<lambda>rotation.
     Inr \<lparr>mcf_address = address, mcf_commandAddress = commandAddress, mcf_groupId = toI32 groupId,
       mcf_forceFunction10 = Some (case force of None \<Rightarrow> globalForce | Some b \<Rightarrow> b),
       mcf_runCurrent = word_of_int runCurrent, mcf_stopCurrent = word_of_int stopCurrent,
       mcf_startingSpeed = toI32 startingSpeed, mcf_overloadWarning = toI32 overloadWarning,
       mcf_overloadAlarm = toI32 overloadAlarm, mcf_excessivePositionDeviationWarning = toI32 deviationWarning,
       mcf_excessivePositionDeviationAlarm = toI32 deviationAlarm, mcf_motorRotationDirection = toI32 rotation\<rparr>))))))))))))))))))"

fun readMotors :: "YamlLib \<Rightarrow> bool \<Rightarrow> (Yaml \<times> Yaml) list \<Rightarrow> (EMotor \<Rightarrow> MotorConfig option) \<Rightarrow> exn + (EMotor \<Rightarrow> MotorConfig option)" where
  "readMotors Y force [] out = Inr out"
| "readMotors Y force ((k, entry) # kvs) out =
     bindE (asV Y (decodeEnum Y allMotors motorName) (Some k)) (\<lambda>i.
     bindE (readMotorEntry Y force i entry) (\<lambda>cfg.
     readMotors Y force kvs (out(i \<mapsto> cfg))))"

text \<open>The transport: its type, the serial parameters, host and port.\<close>

definition readTransport :: "YamlLib \<Rightarrow> Yaml \<Rightarrow> MotorRtuConfig \<Rightarrow> exn + (TransportType \<times> MotorRtuConfig \<times> string \<times> int)" where
  "readTransport Y motorCfg rtu = bindE (sub Y (Some motorCfg) ''transport'') (\<lambda>transport.
     if \<not> isMapNode transport then Inl ''MotorControl.transport map is required (type + tcp/serial settings).''
     else bindE (sub Y transport ''type'') (\<lambda>t. let type = asOr (yl_string Y) ''rawTcpRtu'' t in
     if type = ''rawTcpRtu'' then bindE (sub Y transport ''tcp'') (\<lambda>tcp.
       if \<not> isMapNode tcp then Inl ''MotorControl.transport.tcp is required for rawTcpRtu transport.''
       else bindE (bindE (sub Y tcp ''host'') (asV Y (yl_string Y))) (\<lambda>host.
            bindE (bindE (sub Y tcp ''port'') (asV Y (yl_int Y))) (\<lambda>port.
            Inr (RawTcpRtu, rtu, host, port))))
     else if type = ''serialRtu'' then bindE (sub Y transport ''serial'') (\<lambda>serial.
       if \<not> isMapNode serial then Inl ''MotorControl.transport.serial is required for serialRtu transport.''
       else bindE (bindE (sub Y serial ''device'') (asV Y (yl_string Y))) (\<lambda>device.
            bindE (sub Y serial ''baud'') (\<lambda>baud. bindE (sub Y serial ''parity'') (\<lambda>parity.
            bindE (sub Y serial ''dataBits'') (\<lambda>dataBits. bindE (sub Y serial ''stopBits'') (\<lambda>stopBits.
            Inr (SerialRtu, rtu\<lparr>rtu_device := device, rtu_baud := asOr (yl_int Y) 9600 baud,
              rtu_parity := (case asOr (yl_string Y) ''N'' parity of [] \<Rightarrow> CHR ''N'' | c # _ \<Rightarrow> c),
              rtu_dataBits := asOr (yl_int Y) 8 dataBits, rtu_stopBits := asOr (yl_int Y) 1 stopBits\<rparr>, '''', 0)))))))
     else Inl (''Unsupported MotorControl transport type '' @ quote type)))"

definition makeMotorControl :: "YamlLib \<Rightarrow> Config \<Rightarrow> exn + 'c MotorControl" where
  "makeMotorControl Y cf =
     bindE (getOptional Y (yl_string Y) cf ''MotorControl'' ''model'' ''AR-KD2'') (\<lambda>model.
     bindE (checkE (model = ''AR-KD2'') (''Unsupported MotorControl model '' @ quote model)) (\<lambda>_.
     bindE (getOptional Y (yl_unsigned Y) cf ''MotorControl'' ''responseTimeoutMS'' 1000) (\<lambda>responseTimeout.
     bindE (getOptional Y (yl_unsigned Y) cf ''MotorControl'' ''connectTimeoutMS'' 1000) (\<lambda>connectTimeout.
     bindE (getOptional Y (yl_unsigned Y) cf ''MotorControl'' ''interRequestDelayMS'' 0) (\<lambda>delay.
     bindE (getOptional Y (yl_bool Y) cf ''MotorControl'' ''forceFunction10ForSingleRegisterWrites'' False) (\<lambda>globalForce.
     bindE (getClassConfig Y cf ''MotorControl'') (\<lambda>motorCfg.
     bindE (readTransport Y motorCfg \<lparr>rtu_device = '''', rtu_baud = 9600, rtu_parity = CHR ''N'', rtu_dataBits = 8,
       rtu_stopBits = 1, rtu_connectTimeoutMS = connectTimeout, rtu_responseTimeoutMS = responseTimeout,
       rtu_interRequestDelayMS = delay\<rparr>) (\<lambda>(transport, rtu, host, port).
     bindE (sub Y (Some motorCfg) ''motors'') (\<lambda>motors. case motors of
       Some (YMap entries) \<Rightarrow> bindE (readMotors Y globalForce entries Map.empty) (\<lambda>configs.
         Inr \<lparr>mc_transportType = transport, mc_rtuConfig = rtu, mc_host = host, mc_port = port,
           mc_registerMap = makeArKd2RegisterMap, mc_motorConfigs = configs, mc_motors = Map.empty,
           mc_runtime = Map.empty, mc_bus = None, mc_state = ComponentState.Error\<rparr>)
     | _ \<Rightarrow> Inl (''MotorControl.motors map is required (per motor: address, optional commandAddress, ''
         @ ''optional groupId, runCurrent, stopCurrent, and optional startup thresholds).''))))))))))"

section \<open>Motion: policy, panel and status builder\<close>

text \<open>
  These constructors catch every exception and keep what they have read so far: the reading is an
  action whose state is the part of the object it fills, and the constructor's result is that state.
\<close>

definition readSoFar :: "('s, unit) act \<Rightarrow> 's \<Rightarrow> 's" where
  "readSoFar act s = snd (act s)"

text \<open>\<open>if (const auto n = node[key]; n) { ... n.as<T>() ... }\<close>\<close>

definition whenKey :: "YamlLib \<Rightarrow> (Yaml \<Rightarrow> 'a option) \<Rightarrow> Yaml option \<Rightarrow> string \<Rightarrow> ('a \<Rightarrow> 's \<Rightarrow> 's) \<Rightarrow> ('s, unit) act" where
  "whenKey Y decode node key f = bindA (liftE (sub Y node key)) (\<lambda>n. if n = None then ret () else
     bindA (liftE (asV Y decode n)) (\<lambda>v. modifyA (f v)))"

definition motionSection :: "YamlLib \<Rightarrow> Config \<Rightarrow> exn + Yaml option" where
  "motionSection Y cf = bindE (getClassConfig Y cf ''Machine'') (\<lambda>m. sub Y (Some m) ''motion'')"

record PolicyConfig =
  pc_motion :: MotionConfig
  pc_autoLockTimeoutMs :: int

definition setThresholds :: "real \<Rightarrow> PolicyConfig \<Rightarrow> PolicyConfig" where
  "setThresholds v pc = pc\<lparr>pc_motion := (let m = pc_motion pc in m\<lparr>
     mc_leftArmX := (mc_leftArmX m)\<lparr>ac_neutralAxisActivationThreshold := v\<rparr>,
     mc_leftArmY := (mc_leftArmY m)\<lparr>ac_neutralAxisActivationThreshold := v\<rparr>,
     mc_rightArmX := (mc_rightArmX m)\<lparr>ac_neutralAxisActivationThreshold := v\<rparr>,
     mc_rightArmY := (mc_rightArmY m)\<lparr>ac_neutralAxisActivationThreshold := v\<rparr>,
     mc_gantryZ := (mc_gantryZ m)\<lparr>ac_neutralAxisActivationThreshold := v\<rparr>\<rparr>)\<rparr>"

definition setDeltas :: "real \<Rightarrow> PolicyConfig \<Rightarrow> PolicyConfig" where
  "setDeltas v pc = pc\<lparr>pc_motion := (let m = pc_motion pc in m\<lparr>
     mc_leftArmX := (mc_leftArmX m)\<lparr>ac_speedUpdateAxisDeltaThreshold := v\<rparr>,
     mc_leftArmY := (mc_leftArmY m)\<lparr>ac_speedUpdateAxisDeltaThreshold := v\<rparr>,
     mc_rightArmX := (mc_rightArmX m)\<lparr>ac_speedUpdateAxisDeltaThreshold := v\<rparr>,
     mc_rightArmY := (mc_rightArmY m)\<lparr>ac_speedUpdateAxisDeltaThreshold := v\<rparr>,
     mc_gantryZ := (mc_gantryZ m)\<lparr>ac_speedUpdateAxisDeltaThreshold := v\<rparr>\<rparr>)\<rparr>"

text \<open>An axis of the policy, with the way it is stored.\<close>

definition updAxis :: "EMotor \<Rightarrow> (AxisConfig \<Rightarrow> AxisConfig) \<Rightarrow> PolicyConfig \<Rightarrow> PolicyConfig" where
  "updAxis ax f pc = pc\<lparr>pc_motion := (let m = pc_motion pc in case ax of
     XLeft \<Rightarrow> m\<lparr>mc_leftArmX := f (mc_leftArmX m)\<rparr> | YLeft \<Rightarrow> m\<lparr>mc_leftArmY := f (mc_leftArmY m)\<rparr>
   | XRight \<Rightarrow> m\<lparr>mc_rightArmX := f (mc_rightArmX m)\<rparr> | YRight \<Rightarrow> m\<lparr>mc_rightArmY := f (mc_rightArmY m)\<rparr>
   | _ \<Rightarrow> m\<lparr>mc_gantryZ := f (mc_gantryZ m)\<rparr>)\<rparr>"

definition readAxis :: "YamlLib \<Rightarrow> Yaml option \<Rightarrow> string \<Rightarrow> EMotor \<Rightarrow> (PolicyConfig, unit) act" where
  "readAxis Y axes key ax = bindA (liftE (sub Y axes key)) (\<lambda>n. if \<not> isMapNode n then ret () else seqA
     [whenKey Y (yl_double Y) n ''neutralAxisActivationThreshold'' (\<lambda>v. updAxis ax (\<lambda>a. a\<lparr>ac_neutralAxisActivationThreshold := v\<rparr>)),
      whenKey Y (yl_double Y) n ''speedUpdateAxisDeltaThreshold'' (\<lambda>v. updAxis ax (\<lambda>a. a\<lparr>ac_speedUpdateAxisDeltaThreshold := v\<rparr>)),
      whenKey Y (yl_double Y) n ''stepsPerMm'' (\<lambda>v. updAxis ax (\<lambda>a. a\<lparr>ac_stepsPerMm := v\<rparr>)),
      whenKey Y (yl_double Y) n ''slowMaxLinearSpeedMmPerSec'' (\<lambda>v. updAxis ax (\<lambda>a. a\<lparr>ac_slowMaxLinearSpeedMmPerSec := v\<rparr>)),
      whenKey Y (yl_int Y) n ''slowAcceleration001MsPerKHz'' (\<lambda>v. updAxis ax (\<lambda>a. a\<lparr>ac_slowAcceleration001MsPerKHz := word_of_int v\<rparr>)),
      whenKey Y (yl_int Y) n ''slowDeceleration001MsPerKHz'' (\<lambda>v. updAxis ax (\<lambda>a. a\<lparr>ac_slowDeceleration001MsPerKHz := word_of_int v\<rparr>)),
      whenKey Y (yl_double Y) n ''fastMaxLinearSpeedMmPerSec'' (\<lambda>v. updAxis ax (\<lambda>a. a\<lparr>ac_fastMaxLinearSpeedMmPerSec := v\<rparr>)),
      whenKey Y (yl_int Y) n ''fastAcceleration001MsPerKHz'' (\<lambda>v. updAxis ax (\<lambda>a. a\<lparr>ac_fastAcceleration001MsPerKHz := word_of_int v\<rparr>)),
      whenKey Y (yl_int Y) n ''fastDeceleration001MsPerKHz'' (\<lambda>v. updAxis ax (\<lambda>a. a\<lparr>ac_fastDeceleration001MsPerKHz := word_of_int v\<rparr>))])"

definition readAxes :: "YamlLib \<Rightarrow> Yaml option \<Rightarrow> (PolicyConfig, unit) act" where
  "readAxes Y axes = seqA
     [readAxis Y axes ''leftArmX'' XLeft, readAxis Y axes ''leftArmY'' YLeft, readAxis Y axes ''rightArmX'' XRight,
      readAxis Y axes ''rightArmY'' YRight, readAxis Y axes ''gantryZ'' ZLeft,
      bindA (liftE (sub Y axes ''gantryY'')) (\<lambda>n. whenA (isMapNode n) (readAxis Y axes ''gantryY'' ZLeft))]"

definition readPolicy :: "YamlLib \<Rightarrow> Config \<Rightarrow> (PolicyConfig, unit) act" where
  "readPolicy Y cf = bindA (liftE (motionSection Y cf)) (\<lambda>motion. if \<not> isMapNode motion then ret () else seqA
     [whenKey Y (yl_double Y) motion ''neutralAxisActivationThreshold'' setThresholds,
      whenKey Y (yl_double Y) motion ''speedUpdateAxisDeltaThreshold'' setDeltas,
      whenKey Y (yl_int64 Y) motion ''autoLockTimeoutMs'' (\<lambda>v pc. pc\<lparr>pc_autoLockTimeoutMs := v\<rparr>),
      bindA (liftE (sub Y motion ''axes'')) (\<lambda>axes. whenA (isMapNode axes) (readAxes Y axes))])"

definition defaultPolicyConfig :: PolicyConfig where
  "defaultPolicyConfig = \<lparr>pc_motion = defaultMotion, pc_autoLockTimeoutMs = 5000\<rparr>"

definition makePolicy :: "YamlLib \<Rightarrow> Config \<Rightarrow> PolicyState" where
  "makePolicy Y cf = (let pc = readSoFar (readPolicy Y cf) defaultPolicyConfig
     in initialPolicy (pc_motion pc) (pc_autoLockTimeoutMs pc))"

text \<open>The scale factors of the status builder.\<close>

definition setAxisStepsPerMm :: "YamlLib \<Rightarrow> Yaml option \<Rightarrow> string \<Rightarrow> EMotor list \<Rightarrow> (StatusBuilder, unit) act" where
  "setAxisStepsPerMm Y axes key motors = bindA (liftE (sub Y axes key)) (\<lambda>n. if \<not> isMapNode n then ret () else
     whenKey Y (yl_double Y) n ''stepsPerMm'' (\<lambda>v sb. if v \<le> 0 then sb else
       sb\<lparr>sb_stepsPerMmByMotor := fold (\<lambda>i f. f(i \<mapsto> v)) motors (sb_stepsPerMmByMotor sb)\<rparr>))"

definition readStatusBuilder :: "YamlLib \<Rightarrow> Config \<Rightarrow> (StatusBuilder, unit) act" where
  "readStatusBuilder Y cf = bindA (liftE (motionSection Y cf)) (\<lambda>motion. if \<not> isMapNode motion then ret () else
     thenA (whenKey Y (yl_double Y) motion ''stepsPerRevolution'' (\<lambda>v sb. if 0 < v then sb\<lparr>sb_stepsPerRevolution := v\<rparr> else sb))
     (bindA (liftE (sub Y motion ''axes'')) (\<lambda>axes. if \<not> isMapNode axes then ret () else seqA
       [setAxisStepsPerMm Y axes ''leftArmX'' [XLeft], setAxisStepsPerMm Y axes ''rightArmX'' [XRight],
        setAxisStepsPerMm Y axes ''leftArmY'' [YLeft], setAxisStepsPerMm Y axes ''rightArmY'' [YRight],
        setAxisStepsPerMm Y axes ''gantryZ'' [ZLeft, ZRight], setAxisStepsPerMm Y axes ''gantryY'' [ZLeft, ZRight]])))"

definition makeStatusBuilder :: "YamlLib \<Rightarrow> Config \<Rightarrow> StatusBuilder" where
  "makeStatusBuilder Y cf = readSoFar (readStatusBuilder Y cf) defaultStatusBuilder"

section \<open>The I/O unit\<close>

definition makeContec :: "YamlLib \<Rightarrow> Config \<Rightarrow> exn + 'c Contec" where
  "makeContec Y cf =
     bindE (getRequired Y (yl_string Y) cf ''Contec'' ''ipAddress'') (\<lambda>ip.
     bindE (getRequired Y (yl_unsigned Y) cf ''Contec'' ''port'') (\<lambda>port.
     bindE (getRequired Y (yl_unsigned Y) cf ''Contec'' ''slaveId'') (\<lambda>slave.
     bindE (getRequired Y (yl_unsigned Y) cf ''Contec'' ''nDI'') (\<lambda>nDI.
     bindE (getRequired Y (yl_unsigned Y) cf ''Contec'' ''nDO'') (\<lambda>nDO.
     bindE (getOptional Y (yl_unsigned Y) cf ''Contec'' ''responseTimeoutMS'' 1000) (\<lambda>timeout.
     Inr \<lparr>ct_modbus = None, ct_ipAddress = ip, ct_port = port, ct_slaveId = slave, ct_responseTimeoutMS = timeout,
       ct_nDI = nat nDI, ct_nDO = nat nDO, ct_state = ComponentState.Error\<rparr>))))))"

section \<open>The panel\<close>

text \<open>The serial channel: its settings, the names of libserial's enumerations resolved by \<open>S\<close>.\<close>

record SerialSettings =
  se_port :: string
  se_baudRate :: string
  se_characterSize :: string
  se_flowControl :: string
  se_parity :: string
  se_stopBits :: string
  se_readTimeoutMS :: nat
  se_lineTerminator :: char

record SerialNames =
  sn_baudRates :: "string list"
  sn_characterSizes :: "string list"
  sn_flowControls :: "string list"
  sn_parities :: "string list"
  sn_stopBits :: "string list"

fun parseLineTerminator :: "string \<Rightarrow> char" where
  "parseLineTerminator token =
     (if token = [CHR 0x5C] @ ''n'' then CHR 0x0A else if token = [CHR 0x5C] @ ''r'' then CHR 0x0D
      else if token = [CHR 0x5C] @ ''0'' then CHR 0x00 else if token = '''' then CHR 0x0A else hd token)"

definition requireNode :: "YamlLib \<Rightarrow> Yaml option \<Rightarrow> string \<Rightarrow> exn + Yaml option" where
  "requireNode Y serial key = bindE (sub Y serial key) (\<lambda>n.
     if n = None then Inl (''Missing required ControlPanel comm.serial.'' @ key) else Inr n)"

definition optionalOr :: "YamlLib \<Rightarrow> (Yaml \<Rightarrow> 'a option) \<Rightarrow> Yaml option \<Rightarrow> string \<Rightarrow> 'a \<Rightarrow> exn + 'a" where
  "optionalOr Y decode node key dflt = bindE (sub Y node key) (\<lambda>n. if n = None then Inr dflt else asV Y decode n)"

definition makeSerialComm :: "YamlLib \<Rightarrow> SerialNames \<Rightarrow> Yaml option \<Rightarrow> exn + SerialSettings" where
  "makeSerialComm Y S comm = bindE (sub Y comm ''serial'') (\<lambda>serial.
     if \<not> isMapNode serial
     then Inl (''ControlPanel comm.type='' @ quote ''serial'' @ '' requires map '' @ quote ''comm.serial'' @ ''.'')
     else
     bindE (bindE (requireNode Y serial ''port'') (asV Y (yl_string Y))) (\<lambda>port.
     bindE (bindE (requireNode Y serial ''baudRate'') (asV Y (decodeEnum Y (sn_baudRates S) id))) (\<lambda>baud.
     bindE (optionalOr Y (decodeEnum Y (sn_characterSizes S) id) serial ''characterSize'' ''CHAR_SIZE_8'') (\<lambda>size.
     bindE (optionalOr Y (decodeEnum Y (sn_flowControls S) id) serial ''flowControl'' ''FLOW_CONTROL_NONE'') (\<lambda>flow.
     bindE (optionalOr Y (decodeEnum Y (sn_parities S) id) serial ''parity'' ''PARITY_NONE'') (\<lambda>parity.
     bindE (optionalOr Y (decodeEnum Y (sn_stopBits S) id) serial ''stopBits'' ''STOP_BITS_1'') (\<lambda>stop.
     bindE (optionalOr Y (yl_size Y) serial ''readTimeoutMS'' 200) (\<lambda>timeout.
     bindE (optionalOr Y (yl_string Y) serial ''lineTerminator'' ([CHR 0x5C] @ ''n'')) (\<lambda>terminator.
     Inr \<lparr>se_port = port, se_baudRate = baud, se_characterSize = size, se_flowControl = flow, se_parity = parity,
       se_stopBits = stop, se_readTimeoutMS = max 1 timeout, se_lineTerminator = parseLineTerminator terminator\<rparr>)))))))))"

text \<open>\<^verbatim>\<open>std::tolower\<close> in the C locale.\<close>

definition toLower :: "string \<Rightarrow> string" where
  "toLower = map (\<lambda>c. if CHR ''A'' \<le> c \<and> c \<le> CHR ''Z'' then char_of (of_char c + 32 :: nat) else c)"

definition makeControlPanelComm :: "YamlLib \<Rightarrow> SerialNames \<Rightarrow> Yaml option \<Rightarrow> exn + SerialSettings" where
  "makeControlPanelComm Y S comm = bindE (sub Y comm ''type'') (\<lambda>t. case t of
     Some (YScalar text) \<Rightarrow> bindE (asV Y (yl_string Y) t) (\<lambda>transport.
       let normalized = toLower transport in
       if normalized = ''serial'' then makeSerialComm Y S comm
       else if normalized = ''tcp'' \<or> normalized = ''socket'' \<or> normalized = ''tcpsocket''
       then Inl (''ControlPanel transport '' @ quote ''tcp'' @ '' is not implemented yet.'')
       else Inl (''Unsupported ControlPanel transport '' @ quote transport))
   | _ \<Rightarrow> Inl (''ControlPanel comm config must define scalar '' @ quote ''type'' @ ''.''))"

text \<open>
  The old layout of the section: the serial settings on its top level. It is put together by assigning to
  the node of the missing entry; \<open>yl_assignUndefined\<close> is what the library does then.
\<close>

fun copyLegacy :: "YamlLib \<Rightarrow> Yaml \<Rightarrow> string list \<Rightarrow> exn + (Yaml \<times> Yaml) list" where
  "copyLegacy Y cfg [] = Inr []"
| "copyLegacy Y cfg (key # keys) = bindE (sub Y (Some cfg) key) (\<lambda>n. bindE (copyLegacy Y cfg keys) (\<lambda>kvs.
     Inr (case n of None \<Rightarrow> kvs | Some y \<Rightarrow> (YScalar key, y) # kvs)))"

definition commConfig :: "YamlLib \<Rightarrow> Yaml \<Rightarrow> exn + Yaml option" where
  "commConfig Y cfg = bindE (sub Y (Some cfg) ''comm'') (\<lambda>comm. if isMapNode comm then Inr comm else
     bindE (if comm = None then yl_assignUndefined Y else Inr ()) (\<lambda>_.
     bindE (sub Y (Some cfg) ''transport'') (\<lambda>legacy.
     bindE (if legacy = None then Inr ''serial'' else asV Y (yl_string Y) legacy) (\<lambda>type.
     bindE (copyLegacy Y cfg [''port'', ''baudRate'', ''characterSize'', ''flowControl'', ''parity'', ''stopBits'',
       ''readTimeoutMS'', ''lineTerminator'']) (\<lambda>serial.
     Inr (Some (YMap [(YScalar ''type'', YScalar type), (YScalar ''serial'', YMap serial)])))))))"

definition processingOrLegacy :: "YamlLib \<Rightarrow> Yaml option \<Rightarrow> Yaml \<Rightarrow> string \<Rightarrow> nat \<Rightarrow> exn + nat" where
  "processingOrLegacy Y processing cfg key fallback =
     bindE (if processing = None then Inr None else sub Y processing key) (\<lambda>p.
     if p \<noteq> None then asV Y (yl_size Y) p
     else bindE (sub Y (Some cfg) key) (\<lambda>n. if n \<noteq> None then asV Y (yl_size Y) n else Inr fallback))"

definition loadAxisInvertFlag :: "YamlLib \<Rightarrow> Yaml option \<Rightarrow> string \<Rightarrow> (bool \<Rightarrow> 's \<Rightarrow> 's) \<Rightarrow> ('s, unit) act" where
  "loadAxisInvertFlag Y axes key target = bindA (liftE (sub Y axes key)) (\<lambda>n. if \<not> isMapNode n then ret () else
     whenKey Y (yl_bool Y) n ''invertAxis'' target)"

definition readInvertFlags :: "YamlLib \<Rightarrow> Config \<Rightarrow> (bool list \<times> bool list, unit) act" where
  "readInvertFlags Y cf = bindA (liftE (motionSection Y cf)) (\<lambda>motion.
     bindA (liftE (if motion = None then Inr (Some YNull) else sub Y motion ''axes'')) (\<lambda>axes.
     whenA (isMapNode axes) (seqA
       [loadAxisInvertFlag Y axes ''leftArmX'' (\<lambda>b (ix, iy). (ix[0 := b], iy)),
        loadAxisInvertFlag Y axes ''leftArmY'' (\<lambda>b (ix, iy). (ix, iy[0 := b])),
        loadAxisInvertFlag Y axes ''rightArmX'' (\<lambda>b (ix, iy). (ix[1 := b], iy)),
        loadAxisInvertFlag Y axes ''rightArmY'' (\<lambda>b (ix, iy). (ix, iy[1 := b])),
        loadAxisInvertFlag Y axes ''gantryZ'' (\<lambda>b (ix, iy). (ix, iy[2 := b])),
        loadAxisInvertFlag Y axes ''gantryY'' (\<lambda>b (ix, iy). (ix, iy[2 := b]))])))"

definition configurePanel :: "YamlLib \<Rightarrow> SerialNames \<Rightarrow> Config \<Rightarrow> exn + SerialSettings \<times> ControlPanel" where
  "configurePanel Y S cf =
     bindE (getClassConfig Y cf ''ControlPanel'') (\<lambda>cfg.
     bindE (bindE (commConfig Y cfg) (makeControlPanelComm Y S)) (\<lambda>comm.
     bindE (sub Y (Some cfg) ''processing'') (\<lambda>processing.
     bindE (processingOrLegacy Y processing cfg ''movingAverageDepth'' 5) (\<lambda>depth.
     bindE (processingOrLegacy Y processing cfg ''baselineSamples'' 50) (\<lambda>baseline.
     bindE (processingOrLegacy Y processing cfg ''buttonDebounceSamples'' 3) (\<lambda>debounce.
     case readSoFar (readInvertFlags Y cf) ([False, False, False], [False, False, False]) of
       (invX, invY) \<Rightarrow> Inr (comm, makePanel depth baseline debounce invX invY)))))))"

end
