(* ===== verification/ConfigProps.thy ===== *)
theory ConfigProps
  imports Configuration MotorControlProps PolicyFacts
begin

text \<open>
  What a configuration document gives: the motor control it describes with every value in range, the
  policy it was written from, the settings that survive a malformed value, and scale factors that agree
  between the control policy and the published status.
\<close>

section \<open>A library\<close>

text \<open>Decimal scalars, enough to instantiate the contract.\<close>

definition scalarInt :: "Yaml \<Rightarrow> int option" where
  "scalarInt y = (case y of YScalar s \<Rightarrow> (case stoi s of Inl _ \<Rightarrow> None | Inr v \<Rightarrow> Some v) | _ \<Rightarrow> None)"

definition scalarUnsigned :: "Yaml \<Rightarrow> int option" where
  "scalarUnsigned y = (case scalarInt y of None \<Rightarrow> None | Some v \<Rightarrow> if v < 0 then None else Some v)"

fun scalarMap :: "(Yaml \<times> Yaml) list \<Rightarrow> nat smap option" where
  "scalarMap [] = Some []"
| "scalarMap ((YScalar k, y) # kvs) = (case (scalarUnsigned y, scalarMap kvs) of
     (Some v, Some m) \<Rightarrow> Some (smap_put k (nat v) m) | _ \<Rightarrow> None)"
| "scalarMap _ = None"

definition coreYaml :: YamlLib where
  "coreYaml = \<lparr>
     yl_string = (\<lambda>y. case y of YScalar s \<Rightarrow> Some s | _ \<Rightarrow> None),
     yl_int = scalarInt, yl_unsigned = scalarUnsigned, yl_int64 = scalarInt,
     yl_size = (\<lambda>y. map_option nat (scalarUnsigned y)),
     yl_double = (\<lambda>y. map_option real_of_int (scalarInt y)),
     yl_bool = (\<lambda>y. if y = YScalar ''true'' then Some True else if y = YScalar ''false'' then Some False else None),
     yl_signalMap = (\<lambda>y. case y of YMap kvs \<Rightarrow> scalarMap kvs | _ \<Rightarrow> None),
     yl_badConversion = (\<lambda>_. ''bad conversion''), yl_invalidNode = ''invalid node'',
     yl_subscript = (\<lambda>y k. case y of YScalar _ \<Rightarrow> Inl ''operator[] call on a scalar'' | _ \<Rightarrow> Inr None),
     yl_assignUndefined = Inl ''invalid node''\<rparr>"

lemma stoi_range: "stoi s = Inr v \<Longrightarrow> - (2 ^ 31) \<le> v \<and> v < 2 ^ 31"
  by (auto simp: stoi_def Let_def split: if_splits)

lemma scalarInt_range: "scalarInt y = Some v \<Longrightarrow> - (2 ^ 31) \<le> v \<and> v < 2 ^ 31"
  by (auto simp: scalarInt_def dest: stoi_range split: Yaml.splits sum.splits)

interpretation core: yaml_library coreYaml
proof
  fix y i
  show "yl_int coreYaml y = Some i \<Longrightarrow> - (2 ^ 31) \<le> i \<and> i < 2 ^ 31"
    using scalarInt_range by (simp add: coreYaml_def)
  show "yl_unsigned coreYaml y = Some i \<Longrightarrow> 0 \<le> i \<and> i < 2 ^ 32"
    using scalarInt_range [of y i] by (auto simp: coreYaml_def scalarUnsigned_def split: option.splits if_splits)
next
  fix s
  show "yl_string coreYaml (YScalar s) = Some s" by (simp add: coreYaml_def)
qed

lemma core_int [simp]: "n < 2 ^ 31 \<Longrightarrow> yl_int coreYaml (YScalar (decNat n)) = Some (int n)"
  by (simp add: coreYaml_def scalarInt_def stoi_decNat)

lemma scalarUnsigned_decNat [simp]: "n < 2 ^ 31 \<Longrightarrow> scalarUnsigned (YScalar (decNat n)) = Some (int n)"
  by (simp add: scalarUnsigned_def scalarInt_def stoi_decNat)

lemma core_unsigned [simp]: "yl_unsigned coreYaml = scalarUnsigned"
  and core_signalMap [simp]: "yl_signalMap coreYaml (YMap kvs) = scalarMap kvs"
  by (simp_all add: coreYaml_def)

lemma core_string [simp]: "yl_string coreYaml (YScalar s) = Some s"
  by (simp add: coreYaml_def)

section \<open>Motor entries\<close>

definition entryInt :: "YamlLib \<Rightarrow> (Yaml \<times> Yaml) list \<Rightarrow> string \<Rightarrow> int option" where
  "entryInt Y m key = Option.bind (map_of m (YScalar key)) (yl_int Y)"

text \<open>A motor's configuration carries the values of its entry, none of them altered by its width.\<close>

definition describes :: "YamlLib \<Rightarrow> (Yaml \<times> Yaml) list \<Rightarrow> MotorConfig \<Rightarrow> bool" where
  "describes Y m c = (entryInt Y m ''address'' = Some (mcf_address c)
     \<and> entryInt Y m ''commandAddress'' = mcf_commandAddress c
     \<and> entryInt Y m ''groupId'' = map_option sint (mcf_groupId c)
     \<and> sint (mcf_runCurrent c) = (case entryInt Y m ''runCurrent'' of None \<Rightarrow> 1000 | Some v \<Rightarrow> v)
     \<and> sint (mcf_stopCurrent c) = (case entryInt Y m ''stopCurrent'' of None \<Rightarrow> 500 | Some v \<Rightarrow> v)
     \<and> entryInt Y m ''startingSpeed'' = map_option sint (mcf_startingSpeed c)
     \<and> entryInt Y m ''overloadWarning'' = map_option sint (mcf_overloadWarning c)
     \<and> entryInt Y m ''overloadAlarm'' = map_option sint (mcf_overloadAlarm c)
     \<and> entryInt Y m ''excessivePositionDeviationWarning'' = map_option sint (mcf_excessivePositionDeviationWarning c)
     \<and> entryInt Y m ''excessivePositionDeviationAlarm'' = map_option sint (mcf_excessivePositionDeviationAlarm c)
     \<and> entryInt Y m ''motorRotationDirection'' = map_option sint (mcf_motorRotationDirection c))"

definition nonNegative :: "i32 option \<Rightarrow> bool" where
  "nonNegative t = (\<forall>v. t = Some v \<longrightarrow> 0 \<le> sint v)"

definition ordered :: "i32 option \<Rightarrow> i32 option \<Rightarrow> bool" where
  "ordered lo hi = (\<forall>a b. lo = Some a \<longrightarrow> hi = Some b \<longrightarrow> sint a \<le> sint b)"

definition motorConfigValid :: "MotorConfig \<Rightarrow> bool" where
  "motorConfigValid c = (0 \<le> mcf_address c \<and> mcf_address c \<le> 247
     \<and> (\<forall>a. mcf_commandAddress c = Some a \<longrightarrow> 1 \<le> a \<and> a \<le> 247)
     \<and> 0 \<le> sint (mcf_runCurrent c) \<and> sint (mcf_runCurrent c) \<le> 1000
     \<and> 0 \<le> sint (mcf_stopCurrent c) \<and> sint (mcf_stopCurrent c) \<le> 1000
     \<and> nonNegative (mcf_startingSpeed c) \<and> nonNegative (mcf_overloadWarning c) \<and> nonNegative (mcf_overloadAlarm c)
     \<and> nonNegative (mcf_excessivePositionDeviationWarning c) \<and> nonNegative (mcf_excessivePositionDeviationAlarm c)
     \<and> ordered (mcf_overloadWarning c) (mcf_overloadAlarm c)
     \<and> ordered (mcf_excessivePositionDeviationWarning c) (mcf_excessivePositionDeviationAlarm c))"

lemma bindE_InrE:
  assumes "bindE x f = Inr y"
  obtains v where "x = Inr v" and "f v = Inr y"
  using assms by (auto simp: bindE_eq_Inr)

lemma checkE_Inr [simp]: "checkE c e = Inr u \<longleftrightarrow> c"
  by (simp add: checkE_def)

lemma sub_map [simp]: "sub Y (Some (YMap m)) key = Inr (map_of m (YScalar key))"
  by (simp add: sub_def)

lemma asV_Inr [simp]: "asV Y d n = Inr v \<longleftrightarrow> Option.bind n d = Some v"
  by (auto simp: asV_def split: option.splits)

lemma optionalValue_Inr: "optionalValue Y d n = Inr v \<Longrightarrow> v = Option.bind n d"
  by (auto simp: optionalValue_def bindE_eq_Inr split: option.splits)

lemma checkOrder_Inr: "checkOrder i a b lo hi = Inr u \<Longrightarrow> lo = Some v \<Longrightarrow> hi = Some w \<Longrightarrow> v \<le> w"
  by (simp add: checkOrder_def)

lemma readCommandAddress_Inr:
  "readCommandAddress Y i (YMap m) = Inr a \<Longrightarrow> entryInt Y m ''commandAddress'' = a \<and> (\<forall>v. a = Some v \<longrightarrow> 1 \<le> v \<and> v \<le> 247)"
  by (auto simp: readCommandAddress_def entryInt_def bindE_eq_Inr split: option.splits)

lemma readThreshold_Inr:
  "readThreshold Y i (YMap m) key = Inr t \<Longrightarrow> entryInt Y m key = t \<and> (\<forall>v. t = Some v \<longrightarrow> 0 \<le> v)"
  by (auto simp: readThreshold_def entryInt_def bindE_eq_Inr split: option.splits)

context yaml_library
begin

lemma int_sint: "Option.bind n (yl_int Y) = Some v \<Longrightarrow> sint (word_of_int v :: i32) = v"
  using int_range by (auto simp: Option.bind_eq_Some_conv sint_i32_of_int)

lemma toI32_sint: "map_option sint (toI32 (entryInt Y m key)) = entryInt Y m key"
  using int_sint by (cases "entryInt Y m key") (auto simp: toI32_def entryInt_def)

lemma threshold_value:
  "readThreshold Y i (YMap m) key = Inr t \<Longrightarrow> entryInt Y m key = map_option sint (toI32 t)"
  using readThreshold_Inr [of Y i m key t] toI32_sint [of m key] by simp

lemma threshold_nonNegative:
  "readThreshold Y i (YMap m) key = Inr t \<Longrightarrow> nonNegative (toI32 t)"
  using readThreshold_Inr [of Y i m key t] int_sint
  by (auto simp: nonNegative_def toI32_def entryInt_def)

lemma threshold_ordered:
  assumes "readThreshold Y i (YMap m) k = Inr lo" and "readThreshold Y i (YMap m) l = Inr hi"
    and "checkOrder i a b lo hi = Inr u"
  shows "ordered (toI32 lo) (toI32 hi)"
  using readThreshold_Inr [OF assms(1)] readThreshold_Inr [OF assms(2)] checkOrder_Inr [OF assms(3)] int_sint
  by (auto simp: ordered_def toI32_def entryInt_def)

lemma current_value:
  assumes "checkCurrent (asOr (yl_int Y) d (map_of m (YScalar key))) f i = Inr u" and "0 \<le> d" and "d \<le> 1000"
  defines "c \<equiv> word_of_int (asOr (yl_int Y) d (map_of m (YScalar key))) :: i32"
  shows "sint c = (case entryInt Y m key of None \<Rightarrow> d | Some v \<Rightarrow> v) \<and> 0 \<le> sint c \<and> sint c \<le> 1000"
proof -
  have "sint (word_of_int d :: i32) = d"
    using assms(2,3) by (simp add: sint_i32_of_int)
  with assms(1) int_sint show ?thesis
    by (auto simp: c_def checkCurrent_def validateCurrentRange_def asOr_def entryInt_def whenA_def act_defs
        split: option.splits if_splits)
qed

lemma readMotorEntry_Inr:
  assumes "readMotorEntry Y force i entry = Inr c"
  shows "\<exists>m. entry = YMap m \<and> describes Y m c \<and> motorConfigValid c"
proof -
  obtain m where m: "entry = YMap m"
    using assms by (cases entry) (auto simp: readMotorEntry_def isMap_def checkE_def)
  show ?thesis
    using assms unfolding m readMotorEntry_def Let_def
    apply (elim bindE_InrE)
    apply (clarsimp dest!: optionalValue_Inr simp: describes_def motorConfigValid_def)
    apply (frule readCommandAddress_Inr)
    apply (frule current_value [where d = 1000], simp, simp)
    apply (drule current_value [where d = 500], simp, simp)
    apply (simp add: toI32_sint entryInt_def [symmetric])
    apply (auto intro: threshold_value threshold_nonNegative threshold_ordered)
    done
qed

lemma readMotors_entry:
  "readMotors Y force kvs out = Inr configs \<Longrightarrow> (k, e) \<in> set kvs \<Longrightarrow>
   \<exists>i m c. decodeEnum Y allMotors motorName k = Some i \<and> e = YMap m \<and> describes Y m c \<and> motorConfigValid c"
  by (induction kvs arbitrary: out) (auto simp: bindE_eq_Inr, use readMotorEntry_Inr in blast)

lemma readMotors_config:
  "readMotors Y force kvs out = Inr configs \<Longrightarrow> configs i = Some c \<Longrightarrow>
   out i = Some c \<or> (\<exists>k m. (k, YMap m) \<in> set kvs \<and> decodeEnum Y allMotors motorName k = Some i
     \<and> describes Y m c \<and> motorConfigValid c)"
proof (induction kvs arbitrary: out)
  case (Cons kv kvs)
  obtain k e where kv: "kv = (k, e)" by (cases kv)
  from Cons.prems(1) obtain j cfg where j: "decodeEnum Y allMotors motorName k = Some j"
    and cfg: "readMotorEntry Y force j e = Inr cfg" and rest: "readMotors Y force kvs (out(j \<mapsto> cfg)) = Inr configs"
    by (auto simp: kv bindE_eq_Inr)
  from Cons.IH [OF rest Cons.prems(2)] readMotorEntry_Inr [OF cfg] j show ?case
    by (auto simp: kv split: if_splits)
qed simp

lemma readMotors_keys:
  "readMotors Y force kvs out = Inr configs \<Longrightarrow>
   out i \<noteq> None \<or> (\<exists>(k, e) \<in> set kvs. decodeEnum Y allMotors motorName k = Some i) \<Longrightarrow> configs i \<noteq> None"
proof (induction kvs arbitrary: out)
  case (Cons kv kvs)
  obtain k e where kv: "kv = (k, e)" by (cases kv)
  from Cons.prems(1) obtain j cfg where "decodeEnum Y allMotors motorName k = Some j"
    and rest: "readMotors Y force kvs (out(j \<mapsto> cfg)) = Inr configs"
    by (auto simp: kv bindE_eq_Inr)
  with Cons.IH [OF rest] Cons.prems(2) show ?case by (auto simp: kv split: if_splits)
qed simp

end

section \<open>Motor control\<close>

text \<open>C10: the constructor of motor control: when it returns, the document has a map of motors in which every
  entry names a motor and has all its values in range; exactly the named motors are configured, each with
  the values of an entry of its name, unaltered and valid; and the component starts without bus and motors
  in the error state. So a value out of range anywhere in the map makes the constructor throw.\<close>

theorem config_motor_control:
  assumes "yaml_library Y" and "makeMotorControl Y cf = Inr (mc :: 'c MotorControl)"
  shows "\<exists>cls motors. getClassConfig Y cf ''MotorControl'' = Inr cls \<and> sub Y (Some cls) ''motors'' = Inr (Some (YMap motors))
    \<and> (\<forall>(k, e) \<in> set motors. \<exists>i m c. decodeEnum Y allMotors motorName k = Some i \<and> e = YMap m
         \<and> describes Y m c \<and> motorConfigValid c)
    \<and> (\<forall>i. mc_motorConfigs mc i \<noteq> None \<longleftrightarrow> (\<exists>(k, e) \<in> set motors. decodeEnum Y allMotors motorName k = Some i))
    \<and> (\<forall>i c. mc_motorConfigs mc i = Some c \<longrightarrow> motorConfigValid c \<and> (\<exists>k m. (k, YMap m) \<in> set motors
         \<and> decodeEnum Y allMotors motorName k = Some i \<and> describes Y m c))
    \<and> mc_state mc = ComponentState.Error \<and> mc_bus mc = None \<and> mc_motors mc = Map.empty \<and> mc_runtime mc = Map.empty"
proof -
  from assms(2) obtain force cls motors configs where
    doc: "getClassConfig Y cf ''MotorControl'' = Inr cls" "sub Y (Some cls) ''motors'' = Inr (Some (YMap motors))"
    and motors: "readMotors Y force motors Map.empty = Inr configs"
    and mc: "mc_motorConfigs mc = configs" "mc_state mc = ComponentState.Error" "mc_bus mc = None"
      "mc_motors mc = Map.empty" "mc_runtime mc = Map.empty"
    unfolding makeMotorControl_def by (elim bindE_InrE) (auto elim!: bindE_InrE split: option.splits Yaml.splits)
  note entries = yaml_library.readMotors_entry [OF assms(1) motors]
    and config = yaml_library.readMotors_config [OF assms(1) motors]
    and keys = yaml_library.readMotors_keys [OF assms(1) motors]
  have "mc_motorConfigs mc i \<noteq> None \<longleftrightarrow> (\<exists>(k, e) \<in> set motors. decodeEnum Y allMotors motorName k = Some i)" for i
    using keys [of i] config [of i] mc(1) by fastforce
  with doc entries config mc show ?thesis by fastforce
qed

definition demoConfig :: Config where
  "demoConfig = \<lparr>cf_configPath = ''/etc/rimokunControl.yaml'', cf_topNode = YMap [(YScalar ''classes'', YMap
     [(YScalar ''MotorControl'', YMap
       [(YScalar ''transport'', YMap [(YScalar ''tcp'', YMap [(YScalar ''host'', YScalar ''localhost''),
          (YScalar ''port'', YScalar (decNat 502))])]),
        (YScalar ''motors'', YMap [(YScalar ''XLeft'', YMap [(YScalar ''address'', YScalar (decNat 2)),
          (YScalar ''runCurrent'', YScalar (decNat 800))])])])])]\<rparr>"

lemma demoConfig_motors:
  "\<exists>mc. makeMotorControl coreYaml demoConfig = Inr (mc :: unit MotorControl) \<and> mc_motorConfigs mc XLeft \<noteq> None"
  by (simp add: demoConfig_def makeMotorControl_def getOptional_def getClassConfig_def readTransport_def readMotorEntry_def
      readCommandAddress_def readThreshold_def checkCurrent_def validateCurrentRange_def checkE_def checkOrder_def
      optionalValue_def asV_def asOr_def sub_def decodeEnum_def isMap_def isMapNode_def allMotors_def whenA_def act_defs)

theorem config_motor_control_witness:
  "\<exists>mc c. makeMotorControl coreYaml demoConfig = Inr (mc :: unit MotorControl)
    \<and> mc_motorConfigs mc XLeft = Some c \<and> motorConfigValid c"
proof -
  obtain mc :: "unit MotorControl" and c where mc: "makeMotorControl coreYaml demoConfig = Inr mc" "mc_motorConfigs mc XLeft = Some c"
    using demoConfig_motors by blast
  from config_motor_control [OF core.yaml_library_axioms mc(1)] mc(2) have "motorConfigValid c" by blast
  with mc show ?thesis by blast
qed

section \<open>Motion settings\<close>

lemma whenKey_map: "whenKey Y d (Some (YMap m)) key f s = (case map_of m (YScalar key) of
    None \<Rightarrow> (Inr (), s)
  | Some y \<Rightarrow> (case d y of None \<Rightarrow> (Inl (yl_badConversion Y y), s) | Some v \<Rightarrow> (Inr (), f v s)))"
  by (simp add: whenKey_def asV_def act_defs liftE_def split: option.split)

lemma preserves_whenKey: "(\<And>v s. I s \<Longrightarrow> I (f v s)) \<Longrightarrow> preserves I (whenKey Y d n key f)"
  unfolding whenKey_def by (intro preserves_bind preserves_lift preserves_if preserves_ret preserves_modify)

text \<open>A document that carries a policy: its axes with every key, and the timeout of the automatic lock.\<close>

definition axisDoc :: "(real \<Rightarrow> Yaml) \<Rightarrow> (int \<Rightarrow> Yaml) \<Rightarrow> AxisConfig \<Rightarrow> Yaml" where
  "axisDoc D N a = YMap
     [(YScalar ''neutralAxisActivationThreshold'', D (ac_neutralAxisActivationThreshold a)),
      (YScalar ''speedUpdateAxisDeltaThreshold'', D (ac_speedUpdateAxisDeltaThreshold a)),
      (YScalar ''stepsPerMm'', D (ac_stepsPerMm a)),
      (YScalar ''slowMaxLinearSpeedMmPerSec'', D (ac_slowMaxLinearSpeedMmPerSec a)),
      (YScalar ''slowAcceleration001MsPerKHz'', N (sint (ac_slowAcceleration001MsPerKHz a))),
      (YScalar ''slowDeceleration001MsPerKHz'', N (sint (ac_slowDeceleration001MsPerKHz a))),
      (YScalar ''fastMaxLinearSpeedMmPerSec'', D (ac_fastMaxLinearSpeedMmPerSec a)),
      (YScalar ''fastAcceleration001MsPerKHz'', N (sint (ac_fastAcceleration001MsPerKHz a))),
      (YScalar ''fastDeceleration001MsPerKHz'', N (sint (ac_fastDeceleration001MsPerKHz a)))]"

definition motionDoc :: "(real \<Rightarrow> Yaml) \<Rightarrow> (int \<Rightarrow> Yaml) \<Rightarrow> MotionConfig \<Rightarrow> int \<Rightarrow> Yaml" where
  "motionDoc D N mot t = YMap [(YScalar ''classes'', YMap [(YScalar ''Machine'', YMap [(YScalar ''motion'', YMap
     [(YScalar ''autoLockTimeoutMs'', N t),
      (YScalar ''axes'', YMap
        [(YScalar ''leftArmX'', axisDoc D N (mc_leftArmX mot)), (YScalar ''leftArmY'', axisDoc D N (mc_leftArmY mot)),
         (YScalar ''rightArmX'', axisDoc D N (mc_rightArmX mot)), (YScalar ''rightArmY'', axisDoc D N (mc_rightArmY mot)),
         (YScalar ''gantryZ'', axisDoc D N (mc_gantryZ mot))])])])])]"

text \<open>The library reads back what \<open>D\<close> and \<open>N\<close> have written for an axis.\<close>

definition axisReadable :: "YamlLib \<Rightarrow> (real \<Rightarrow> Yaml) \<Rightarrow> (int \<Rightarrow> Yaml) \<Rightarrow> AxisConfig \<Rightarrow> bool" where
  "axisReadable Y D N a = ((\<forall>v \<in> {ac_neutralAxisActivationThreshold a, ac_speedUpdateAxisDeltaThreshold a, ac_stepsPerMm a,
       ac_slowMaxLinearSpeedMmPerSec a, ac_fastMaxLinearSpeedMmPerSec a}. yl_double Y (D v) = Some v)
     \<and> (\<forall>w \<in> {ac_slowAcceleration001MsPerKHz a, ac_slowDeceleration001MsPerKHz a,
       ac_fastAcceleration001MsPerKHz a, ac_fastDeceleration001MsPerKHz a}. yl_int Y (N (sint w)) = Some (sint w)))"

definition axisOf :: "MotionConfig \<Rightarrow> EMotor \<Rightarrow> AxisConfig" where
  "axisOf mot i = (case i of XLeft \<Rightarrow> mc_leftArmX mot | YLeft \<Rightarrow> mc_leftArmY mot
     | XRight \<Rightarrow> mc_rightArmX mot | YRight \<Rightarrow> mc_rightArmY mot | _ \<Rightarrow> mc_gantryZ mot)"

lemma updAxis_comp [simp]: "updAxis ax f (updAxis ax g pc) = updAxis ax (\<lambda>a. f (g a)) pc"
  by (cases ax) (simp_all add: updAxis_def Let_def)

lemma allSettings: "updAxis ax (\<lambda>b. b\<lparr>
    ac_neutralAxisActivationThreshold := ac_neutralAxisActivationThreshold a,
    ac_speedUpdateAxisDeltaThreshold := ac_speedUpdateAxisDeltaThreshold a, ac_stepsPerMm := ac_stepsPerMm a,
    ac_slowMaxLinearSpeedMmPerSec := ac_slowMaxLinearSpeedMmPerSec a,
    ac_slowAcceleration001MsPerKHz := ac_slowAcceleration001MsPerKHz a,
    ac_slowDeceleration001MsPerKHz := ac_slowDeceleration001MsPerKHz a,
    ac_fastMaxLinearSpeedMmPerSec := ac_fastMaxLinearSpeedMmPerSec a,
    ac_fastAcceleration001MsPerKHz := ac_fastAcceleration001MsPerKHz a,
    ac_fastDeceleration001MsPerKHz := ac_fastDeceleration001MsPerKHz a\<rparr>) = updAxis ax (\<lambda>_. a)"
  by (rule arg_cong [where f = "updAxis ax"]) (simp add: fun_eq_iff)

lemma readAxis_doc:
  assumes "map_of axes (YScalar key) = Some (axisDoc D N a)" and "axisReadable Y D N a"
  shows "readAxis Y (Some (YMap axes)) key ax pc = (Inr (), updAxis ax (\<lambda>_. a) pc)"
  using assms(1) assms(2) [unfolded axisReadable_def]
  by (simp add: readAxis_def axisDoc_def isMapNode_def isMap_def thenA_def bindA_def whenKey_map liftE_def ret_def
      allSettings)

definition motionReadable :: "YamlLib \<Rightarrow> (real \<Rightarrow> Yaml) \<Rightarrow> (int \<Rightarrow> Yaml) \<Rightarrow> MotionConfig \<Rightarrow> bool" where
  "motionReadable Y D N mot = (\<forall>a \<in> {mc_leftArmX mot, mc_leftArmY mot, mc_rightArmX mot, mc_rightArmY mot, mc_gantryZ mot}.
     axisReadable Y D N a)"

lemma readAxes_doc:
  assumes "motionReadable Y D N mot"
    and "axes = [(YScalar ''leftArmX'', axisDoc D N (mc_leftArmX mot)), (YScalar ''leftArmY'', axisDoc D N (mc_leftArmY mot)),
         (YScalar ''rightArmX'', axisDoc D N (mc_rightArmX mot)), (YScalar ''rightArmY'', axisDoc D N (mc_rightArmY mot)),
         (YScalar ''gantryZ'', axisDoc D N (mc_gantryZ mot))]"
  shows "readAxes Y (Some (YMap axes)) pc = (Inr (), pc\<lparr>pc_motion := mot\<rparr>)"
  using assms(1) unfolding readAxes_def assms(2) motionReadable_def
  by (simp add: thenA_def bindA_def whenA_def liftE_def ret_def isMapNode_def
      readAxis_doc [where D = D and N = N] updAxis_def Let_def)

lemma policy_doc:
  assumes "motionReadable Y D N mot" and "yl_int64 Y (N t) = Some t"
  shows "makePolicy Y \<lparr>cf_configPath = path, cf_topNode = motionDoc D N mot t\<rparr> = initialPolicy mot t"
  by (simp add: makePolicy_def readSoFar_def readPolicy_def motionSection_def getClassConfig_def motionDoc_def assms(2)
      isMapNode_def isMap_def thenA_def bindA_def whenA_def liftE_def ret_def whenKey_map readAxes_doc [OF assms(1)]
      defaultPolicyConfig_def)

lemma setAxis_doc:
  assumes "map_of axes (YScalar key) = Some (axisDoc D N a)" and "axisReadable Y D N a"
  shows "setAxisStepsPerMm Y (Some (YMap axes)) key motors sb = (Inr (), if ac_stepsPerMm a \<le> 0 then sb else
     sb\<lparr>sb_stepsPerMmByMotor := fold (\<lambda>i f. f(i \<mapsto> ac_stepsPerMm a)) motors (sb_stepsPerMmByMotor sb)\<rparr>)"
  using assms
  by (simp add: setAxisStepsPerMm_def axisDoc_def axisReadable_def isMapNode_def isMap_def bindA_def liftE_def ret_def whenKey_map)

lemma setAxis_missing:
  "map_of axes (YScalar key) = None \<Longrightarrow> setAxisStepsPerMm Y (Some (YMap axes)) key motors sb = (Inr (), sb)"
  by (simp add: setAxisStepsPerMm_def isMapNode_def bindA_def liftE_def ret_def)

lemma statusBuilder_doc:
  assumes "motionReadable Y D N mot"
  shows "sbStepsPerMm (makeStatusBuilder Y \<lparr>cf_configPath = path, cf_topNode = motionDoc D N mot t\<rparr>) i
    = (if ac_stepsPerMm (axisOf mot i) \<le> 0 then 1 else ac_stepsPerMm (axisOf mot i))"
  using assms unfolding motionReadable_def
  by (cases i) (simp_all add: makeStatusBuilder_def readSoFar_def readStatusBuilder_def motionSection_def getClassConfig_def
      motionDoc_def isMapNode_def isMap_def thenA_def bindA_def liftE_def ret_def whenKey_map
      setAxis_doc [where D = D and N = N] sbStepsPerMm_def defaultStatusBuilder_def axisOf_def setAxis_missing)

text \<open>C11: settings written to a document come back: the policy made from it has exactly the axes and the
  timeout it was written from, and the published status converts each motor's speed with the same steps
  per millimetre as the policy, when they are positive.\<close>

theorem config_motion_roundtrip:
  assumes "motionReadable Y D N mot" and "yl_int64 Y (N t) = Some t"
    and "cf = \<lparr>cf_configPath = path, cf_topNode = motionDoc D N mot t\<rparr>"
  shows "makePolicy Y cf = initialPolicy mot t
    \<and> (\<forall>i. sbStepsPerMm (makeStatusBuilder Y cf) i
         = (if ac_stepsPerMm (axisOf mot i) \<le> 0 then 1 else ac_stepsPerMm (axisOf mot i)))"
  unfolding assms(3) using policy_doc [OF assms(1,2)] statusBuilder_doc [OF assms(1)] by blast

definition demoAxis :: "real \<Rightarrow> AxisConfig" where
  "demoAxis steps = \<lparr>ac_neutralAxisActivationThreshold = 0, ac_speedUpdateAxisDeltaThreshold = 1, ac_slowMaxLinearSpeedMmPerSec = 40,
     ac_fastMaxLinearSpeedMmPerSec = 80, ac_stepsPerMm = steps, ac_slowAcceleration001MsPerKHz = 1000,
     ac_fastAcceleration001MsPerKHz = 2000, ac_slowDeceleration001MsPerKHz = 1000, ac_fastDeceleration001MsPerKHz = 2000\<rparr>"

definition demoMotion :: MotionConfig where
  "demoMotion = \<lparr>mc_leftArmX = demoAxis 100, mc_leftArmY = demoAxis 200, mc_rightArmX = demoAxis 100,
     mc_rightArmY = demoAxis 200, mc_gantryZ = demoAxis 50\<rparr>"

definition wholeNumber :: "int \<Rightarrow> Yaml" where
  "wholeNumber v = YScalar (decNat (nat v))"

lemma demo_readable: "motionReadable coreYaml (\<lambda>v. wholeNumber \<lfloor>v\<rfloor>) wholeNumber demoMotion"
  and demo_timeout: "yl_int64 coreYaml (wholeNumber 7000) = Some 7000"
  by (simp_all add: motionReadable_def axisReadable_def demoMotion_def demoAxis_def wholeNumber_def coreYaml_def scalarInt_def stoi_decNat)

theorem config_motion_roundtrip_witness:
  "makePolicy coreYaml \<lparr>cf_configPath = ''demo.yaml'', cf_topNode = motionDoc (\<lambda>v. wholeNumber \<lfloor>v\<rfloor>) wholeNumber demoMotion 7000\<rparr>
     = initialPolicy demoMotion 7000
   \<and> sbStepsPerMm (makeStatusBuilder coreYaml \<lparr>cf_configPath = ''demo.yaml'',
       cf_topNode = motionDoc (\<lambda>v. wholeNumber \<lfloor>v\<rfloor>) wholeNumber demoMotion 7000\<rparr>) ZRight = 50"
  using config_motion_roundtrip [OF demo_readable demo_timeout refl, of "''demo.yaml''"]
  by (simp add: axisOf_def demoMotion_def demoAxis_def)

section \<open>Malformed values\<close>

text \<open>An axis up to its thresholds.\<close>

definition speedsOf :: "AxisConfig \<Rightarrow> AxisConfig" where
  "speedsOf a = a\<lparr>ac_neutralAxisActivationThreshold := 0, ac_speedUpdateAxisDeltaThreshold := 0\<rparr>"

definition stillDefault :: "PolicyConfig \<Rightarrow> bool" where
  "stillDefault pc = (pc_autoLockTimeoutMs pc = 5000
     \<and> (\<forall>i. speedsOf (axisOf (pc_motion pc) i) = speedsOf defaultAxisConfig))"

lemma all_EMotor: "(\<forall>i. P i) \<longleftrightarrow> P XLeft \<and> P XRight \<and> P YLeft \<and> P YRight \<and> P ZLeft \<and> P ZRight"
  by (metis EMotor.exhaust)

lemma default_stillDefault: "stillDefault defaultPolicyConfig"
  by (simp add: stillDefault_def defaultPolicyConfig_def defaultMotion_def axisOf_def all_EMotor)

lemma thresholds_stillDefault: "stillDefault pc \<Longrightarrow> stillDefault (setThresholds v pc)"
  and deltas_stillDefault: "stillDefault pc \<Longrightarrow> stillDefault (setDeltas v pc)"
  by (simp_all add: stillDefault_def setThresholds_def setDeltas_def Let_def axisOf_def all_EMotor speedsOf_def)

text \<open>A value of the automatic lock's timeout that is no integer is not reported: the policy keeps the
  default timeout, and the speeds, accelerations and scales of all axes keep their defaults, whatever the
  document says of them.\<close>

theorem config_bad_timeout:
  assumes "motionSection Y cf = Inr (Some (YMap m))"
    and "map_of m (YScalar ''autoLockTimeoutMs'') = Some y" and "yl_int64 Y y = None"
  shows "ps_autoLockTimeoutMs (makePolicy Y cf) = 5000
    \<and> (\<forall>i. speedsOf (axisOf (ps_motion (makePolicy Y cf)) i) = speedsOf defaultAxisConfig)"
proof -
  note thr = preserves_whenKey [where I = stillDefault, OF thresholds_stillDefault]
    and deltas = preserves_whenKey [where I = stillDefault, OF deltas_stillDefault]
  have "preserves stillDefault (readPolicy Y cf)"
    apply (simp add: readPolicy_def assms(1) liftE_def isMapNode_def isMap_def)
    apply (rule preserves_then [OF thr], assumption, rule preserves_then [OF deltas], assumption)
    apply (simp add: preserves_def thenA_def bindA_def whenKey_map assms(2,3))
    done
  from preservesD [OF this default_stillDefault] show ?thesis
    by (simp add: makePolicy_def readSoFar_def stillDefault_def initialPolicy_def Let_def)
qed

definition badTimeout :: Config where
  "badTimeout = \<lparr>cf_configPath = ''demo.yaml'', cf_topNode = motionDoc (\<lambda>v. wholeNumber \<lfloor>v\<rfloor>)
     (\<lambda>v. if v = 7000 then YScalar ''soon'' else wholeNumber v) demoMotion 7000\<rparr>"

lemma badTimeout_motion: "\<exists>m. motionSection coreYaml badTimeout = Inr (Some (YMap m))
    \<and> map_of m (YScalar ''autoLockTimeoutMs'') = Some (YScalar ''soon'')"
  by (simp add: badTimeout_def motionDoc_def motionSection_def getClassConfig_def)

theorem config_bad_timeout_witness:
  "speedsOf (axisOf (ps_motion (makePolicy coreYaml badTimeout)) XLeft) = speedsOf defaultAxisConfig"
proof -
  obtain m where m: "motionSection coreYaml badTimeout = Inr (Some (YMap m))"
      "map_of m (YScalar ''autoLockTimeoutMs'') = Some (YScalar ''soon'')"
    using badTimeout_motion by blast
  have "yl_int64 coreYaml (YScalar ''soon'') = None"
    by (simp add: coreYaml_def scalarInt_def stoi_def isSpace_def isDigit_def)
  from config_bad_timeout [OF m this] show ?thesis by blast
qed

section \<open>Scale factors\<close>

definition scalesPositive :: "StatusBuilder \<Rightarrow> bool" where
  "scalesPositive sb = (0 < sb_stepsPerRevolution sb \<and> (\<forall>i. \<exists>v. sb_stepsPerMmByMotor sb i = Some v \<and> 0 < v))"

lemma fold_scales:
  assumes "0 < (v :: real)" and "\<forall>i. \<exists>u. f i = Some u \<and> 0 < u"
  shows "\<forall>i. \<exists>u. fold (\<lambda>i f. f(i \<mapsto> v)) motors f i = Some u \<and> 0 < u"
  using assms(2) by (induction motors arbitrary: f) (simp_all add: assms(1))

lemma setAxis_scales: "preserves scalesPositive (setAxisStepsPerMm Y axes key motors)"
  unfolding setAxisStepsPerMm_def
  by (intro preserves_bind preserves_lift preserves_if preserves_ret preserves_whenKey)
    (auto simp: scalesPositive_def intro: fold_scales [rule_format])

lemma readStatusBuilder_scales: "preserves scalesPositive (readStatusBuilder Y cf)"
  unfolding readStatusBuilder_def
  by (intro preserves_bind preserves_lift preserves_if preserves_ret preserves_then preserves_whenKey preserves_seq)
    (auto simp: scalesPositive_def setAxis_scales)

text \<open>The scale factors of the published status are positive for every document and every YAML library,
  so the published positions and speeds are never divided by zero; every motor has
  a stored factor, which is the one used.\<close>

theorem config_scales_positive:
  "0 < sb_stepsPerRevolution (makeStatusBuilder Y cf)
   \<and> (\<forall>i. \<exists>v. sb_stepsPerMmByMotor (makeStatusBuilder Y cf) i = Some v \<and> 0 < v \<and> sbStepsPerMm (makeStatusBuilder Y cf) i = v)"
proof -
  have "scalesPositive defaultStatusBuilder"
    by (simp add: scalesPositive_def defaultStatusBuilder_def)
  from preservesD [OF readStatusBuilder_scales this] have pos: "scalesPositive (makeStatusBuilder Y cf)"
    by (simp add: makeStatusBuilder_def readSoFar_def)
  have "\<exists>v. sb_stepsPerMmByMotor (makeStatusBuilder Y cf) i = Some v \<and> 0 < v \<and> sbStepsPerMm (makeStatusBuilder Y cf) i = v" for i
  proof -
    obtain v where "sb_stepsPerMmByMotor (makeStatusBuilder Y cf) i = Some v" "0 < v"
      using pos by (auto simp: scalesPositive_def)
    then show ?thesis by (simp add: sbStepsPerMm_def)
  qed
  with pos show ?thesis by (simp add: scalesPositive_def)
qed

end
