(* ===== verification/Messaging.thy ===== *)
theory Messaging
  imports Configuration Machine StatusJson
begin

text \<open>
  The two ends of the message transport: \<^verbatim>\<open>utl::RimoServer\<close> and \<^verbatim>\<open>utl::RimoClient\<close>
  (\<^verbatim>\<open>Utilities/include/RimoServer.hpp\<close>, \<^verbatim>\<open>RimoClient.hpp\<close>) and the loop of the command server over
  them. Messages are MessagePack bytes; the status goes over a publish socket, commands over a request
  and a reply socket.

  The libraries are parameters: \<open>M\<close> holds the conversions of nlohmann::json, of which the locale \<open>msgpack\<close>
  states that a value is read back from its bytes, and \<open>Z\<close> the operations on the sockets, of which
  the locale \<open>request_reply\<close> states the documented request-reply pattern: a request socket sends, then
  waits for its one reply; a reply socket receives, then must send, the reply going to the socket the
  request came from if that still exists; an operation out of turn throws. No order of delivery between
  sockets, no loss and no timing is assumed beyond that.
\<close>

section \<open>The libraries\<close>

type_synonym bytes = "u8 list"

record Msgpack =
  mp_to :: "Json \<Rightarrow> exn + bytes"
  mp_from :: "bytes \<Rightarrow> exn + Json"
  mp_dump :: "Json \<Rightarrow> exn + string"

locale msgpack =
  fixes M :: Msgpack
  assumes from_to: "mp_to M j = Inr b \<Longrightarrow> mp_from M b = Inr j"

text \<open>The sockets. A send tells whether it was done in time, a receive has no message after its timeout.\<close>

record 'z Sockets =
  zq_connectReq :: "('z, unit) act"
  zq_closeReq :: "('z, unit) act"
  zq_sendReq :: "bytes \<Rightarrow> ('z, bool) act"
  zq_recvReq :: "('z, bytes option) act"
  zq_recvRep :: "('z, bytes option) act"
  zq_sendRep :: "bytes \<Rightarrow> ('z, unit) act"
  zq_publish :: "bytes \<Rightarrow> ('z, unit) act"
  zq_recvSub :: "('z, bytes option) act"

section \<open>Settings\<close>

record ClientSettings =
  cs_statusAddress :: string
  cs_commandAddress :: string
  cs_statusTimeoutMS :: int
  cs_commandTimeoutMS :: int

definition clientDefaults :: ClientSettings where
  "clientDefaults = \<lparr>cs_statusAddress = ''ipc:///tmp/rimoStatus'', cs_commandAddress = ''ipc:///tmp/rimoCommand'',
     cs_statusTimeoutMS = 1000, cs_commandTimeoutMS = 3000\<rparr>"

definition readClientSettings :: "YamlLib \<Rightarrow> Config \<Rightarrow> exn + ClientSettings" where
  "readClientSettings Y cf = bindE (getClassConfig Y cf ''RimoClient'') (\<lambda>configNode. let n = Some configNode in
     bindE (bindE (sub Y n ''statusAddress'') (asV Y (yl_string Y))) (\<lambda>status.
     bindE (bindE (sub Y n ''commandAddress'') (asV Y (yl_string Y))) (\<lambda>command.
     bindE (sub Y n ''statusTimeoutMS'') (\<lambda>t1.
     bindE (sub Y n ''commandTimeoutMS'') (\<lambda>t2.
     Inr \<lparr>cs_statusAddress = status, cs_commandAddress = command,
       cs_statusTimeoutMS = asOr (yl_int Y) (cs_statusTimeoutMS clientDefaults) t1,
       cs_commandTimeoutMS = asOr (yl_int Y) (cs_commandTimeoutMS clientDefaults) t2\<rparr>)))))"

definition readServerAddresses :: "YamlLib \<Rightarrow> Config \<Rightarrow> exn + string \<times> string" where
  "readServerAddresses Y cf = bindE (getClassConfig Y cf ''RimoServer'') (\<lambda>configNode. let n = Some configNode in
     bindE (bindE (sub Y n ''statusAddress'') (asV Y (yl_string Y))) (\<lambda>status.
     bindE (bindE (sub Y n ''commandAddress'') (asV Y (yl_string Y))) (\<lambda>command.
     Inr (status, command))))"

section \<open>The server\<close>

definition publish :: "Msgpack \<Rightarrow> 'z Sockets \<Rightarrow> RobotStatus \<Rightarrow> ('z, unit) act" where
  "publish M Z robot = bindA (liftE (mp_to M (robotStatusToJson robot))) (zq_publish Z)"

definition receiveCommand :: "Msgpack \<Rightarrow> 'z Sockets \<Rightarrow> ('z, Json option) act" where
  "receiveCommand M Z = bindA (zq_recvRep Z) (\<lambda>msg. case msg of
     None \<Rightarrow> ret None
   | Some b \<Rightarrow> (case mp_from M b of Inl e \<Rightarrow> ret None | Inr json \<Rightarrow> ret (Some json)))"

definition sendResponse :: "Msgpack \<Rightarrow> 'z Sockets \<Rightarrow> Json \<Rightarrow> ('z, unit) act" where
  "sendResponse M Z response = catchA (bindA (liftE (mp_to M response)) (zq_sendRep Z)) (\<lambda>e. zq_sendRep Z [])"

text \<open>One round of \<^verbatim>\<open>MachineCommandServer::runLoop\<close>, the log line included, on the state of the server and the
  sockets. Nothing in the thread catches what it throws.\<close>

definition runLoopStep ::
  "Msgpack \<Rightarrow> 'z Sockets \<Rightarrow> (string \<Rightarrow> Json option) \<Rightarrow> 's DispatchFn \<Rightarrow> ('s \<times> 'z, unit) act" where
  "runLoopStep M Z parse dispatch = bindA (zoomA snd (\<lambda>z (s, _). (s, z)) (receiveCommand M Z)) (\<lambda>c. case c of
     None \<Rightarrow> ret ()
   | Some command \<Rightarrow> bindA (liftE (mp_dump M command)) (\<lambda>_. \<lambda>(s, z).
       (case processCommand parse dispatch command s of (response, s') \<Rightarrow>
         zoomA snd (\<lambda>z (s, _). (s, z)) (sendResponse M Z response) (s', z))))"

section \<open>The client\<close>

definition receiveRobotStatus :: "Msgpack \<Rightarrow> JsonLib \<Rightarrow> 'z Sockets \<Rightarrow> ('z, RobotStatus option) act" where
  "receiveRobotStatus M L Z = bindA (zq_recvSub Z) (\<lambda>message. case message of
     None \<Rightarrow> ret None
   | Some b \<Rightarrow> ret (case bindE (mp_from M b) (\<lambda>json. robotStatusFromJson L json emptyRobotStatus) of
       Inl e \<Rightarrow> None | Inr st \<Rightarrow> Some st))"

text \<open>\<^verbatim>\<open>sendCommand\<close> up to the wait for the reply, which tells whether it waits, and from its end.\<close>

definition sendCommandStart :: "Msgpack \<Rightarrow> 'z Sockets \<Rightarrow> Json \<Rightarrow> ('z, bool) act" where
  "sendCommandStart M Z command = bindA (liftE (mp_to M command)) (zq_sendReq Z)"

definition sendCommandEnd :: "Msgpack \<Rightarrow> 'z Sockets \<Rightarrow> ('z, Json option) act" where
  "sendCommandEnd M Z = bindA (zq_recvReq Z) (\<lambda>response. case response of
     None \<Rightarrow> thenA (zq_closeReq Z) (thenA (zq_connectReq Z) (ret None))
   | Some b \<Rightarrow> ret (case mp_from M b of Inl e \<Rightarrow> None | Inr json \<Rightarrow> Some json))"

end
