(* ===== verification/Startup.thy ===== *)
theory Startup
  imports ConfigProps MachineSafety Messaging
begin

text \<open>
  The start of the server from a configuration document (\<^verbatim>\<open>Server/src/Machine.cpp\<close>, the constructor and
  \<^verbatim>\<open>wire\<close>): the members are constructed first, in the order of their declarations, each from its section,
  the last of them the server side of the message transport, which reads its two addresses and binds its
  sockets (\<open>bindSockets\<close>, of the ZeroMQ library: it may throw); then the machine's own section is read and
  checked. \<open>w\<close> is the world the machine starts in.
\<close>

definition readMachineConfig :: "YamlLib \<Rightarrow> Config \<Rightarrow> exn + MachineConfig" where
  "readMachineConfig Y cf =
     bindE (getRequired Y (yl_signalMap Y) cf ''Machine'' ''inputMapping'') (\<lambda>inputs.
     bindE (getRequired Y (yl_signalMap Y) cf ''Machine'' ''outputMapping'') (\<lambda>outputs.
     bindE (validateSignalMappingKeys allInputSignals inputSignalName ''input'' inputs) (\<lambda>_.
     bindE (validateSignalMappingKeys allOutputSignals outputSignalName ''output'' outputs) (\<lambda>_.
     bindE (getOptional Y (yl_int Y) cf ''Machine'' ''loopSleepTimeMS'' 10) (\<lambda>loopSleepTime.
     bindE (getOptional Y (yl_int Y) cf ''Machine'' ''loopIntervalMS'' loopSleepTime) (\<lambda>loopInterval.
     bindE (getOptional Y (yl_int Y) cf ''Machine'' ''statusPublishPeriodMS'' 50) (\<lambda>publishPeriod.
     bindE (getOptional Y (yl_int Y) cf ''Machine'' ''updateIntervalMS'' publishPeriod) (\<lambda>updateInterval.
     bindE (getOptional Y (yl_bool Y) cf ''Machine'' ''statusUpdatesEnabled'' True) (\<lambda>enabled.
     bindE (getOptional Y (yl_size Y) cf ''Machine'' ''commandQueueMaxSize'' 16) (\<lambda>maxSize.
     Inr \<lparr>mg_inputMapping = inputs, mg_outputMapping = outputs, mg_loopIntervalMS = loopInterval,
       mg_updateIntervalMS = updateInterval, mg_statusUpdatesEnabled = enabled, mg_commandQueueMaxSize = maxSize\<rparr>))))))))))"

definition configuredMachine :: "YamlLib \<Rightarrow> SerialNames \<Rightarrow> (string \<Rightarrow> string \<Rightarrow> 'w \<Rightarrow> exn + 'w) \<Rightarrow> Config \<Rightarrow> 'w
    \<Rightarrow> exn + SerialSettings \<times> ('i, 'c, PolicyState, 'w) Machine" where
  "configuredMachine Y S bindSockets cf w =
     bindE (makeContec Y cf) (\<lambda>contec.
     bindE (configurePanel Y S cf) (\<lambda>(serial, panel).
     bindE (makeMotorControl Y cf) (\<lambda>motors.
     bindE (readServerAddresses Y cf) (\<lambda>(status, command).
     bindE (bindSockets status command w) (\<lambda>w1.
     bindE (readMachineConfig Y cf) (\<lambda>cfg.
     bindE (makeMachine cfg contec panel motors w1) (\<lambda>m. Inr (serial, m))))))))"

definition wireConfigured :: "YamlLib \<Rightarrow> Config \<Rightarrow> ('i, 'c, PolicyState, 'w, unit) mnAct" where
  "wireConfigured Y cf = wire (Inr (makePolicy Y cf)) (makeStatusBuilder Y cf)"

section \<open>Facts\<close>

lemma makeContec_state: "makeContec Y cf = Inr ct \<Longrightarrow> ct_state ct = ComponentState.Error \<and> ct_modbus ct = None"
  by (auto simp: makeContec_def bindE_eq_Inr)

lemma makePanel_state [simp]: "cp_state (makePanel d n k ix iy) = ComponentState.Error" "\<not> cp_readerRunning (makePanel d n k ix iy)"
  by (simp_all add: makePanel_def resetSignalProcessingState_def)

lemma configurePanel_state:
  "configurePanel Y S cf = Inr (comm, cp) \<Longrightarrow> panelInv cp \<and> cp_state cp = ComponentState.Error \<and> \<not> cp_readerRunning cp"
  unfolding configurePanel_def
  by (elim bindE_InrE) (auto simp: makePanel_inv split: prod.splits)

lemma makeMotorControl_state:
  "makeMotorControl Y cf = Inr mc \<Longrightarrow> mc_state mc = ComponentState.Error \<and> mc_bus mc = None \<and> mc_motors mc = Map.empty
     \<and> mc_runtime mc = Map.empty"
  unfolding makeMotorControl_def by (elim bindE_InrE) (auto elim!: bindE_InrE split: option.splits Yaml.splits)

lemma makeMachine_parts:
  assumes "makeMachine cfg contec panel motors w = Inr m"
  shows "mn_contec m = contec \<and> mn_controlPanel m = panel \<and> mn_motorControl m = motors \<and> mn_wired m = None
    \<and> mn_replies m = [] \<and> cq_q (mn_commandQueue m) = [] \<and> 0 < mn_loopInterval m \<and> 0 < mn_updateInterval m \<and> \<not> mn_isRunning m
    \<and> {''button1'', ''button2''} \<subseteq> dom (map_of (mn_inputMapping m))
    \<and> {''toolChangerLeft'', ''toolChangerRight'', ''light1'', ''light2''} \<subseteq> dom (map_of (mn_outputMapping m))"
  using assms unfolding makeMachine_def
  by (elim bindE_InrE) (auto simp: requireMappingIndex_def oneMs_def cqSetMaxSize_def emptyQueue_def split: option.splits)

lemma configuredMachine_parts:
  assumes "configuredMachine Y S bindSockets cf w = Inr (serial, m)"
  shows "panelInv (mn_controlPanel m) \<and> (\<forall>c. componentState m c = ComponentState.Error)
    \<and> mn_wired m = None \<and> mn_replies m = [] \<and> 0 < mn_loopInterval m \<and> 0 < mn_updateInterval m
    \<and> \<not> mn_isRunning m \<and> cq_q (mn_commandQueue m) = []"
proof -
  from assms obtain contec panel motors cfg w1 where
    "makeContec Y cf = Inr contec" "configurePanel Y S cf = Inr (serial, panel)" "makeMotorControl Y cf = Inr motors"
    and m: "makeMachine cfg contec panel motors w1 = Inr m"
    unfolding configuredMachine_def by (elim bindE_InrE) (auto elim!: bindE_InrE split: prod.splits)
  then show ?thesis
    using makeMachine_parts [OF m] makeContec_state [of Y cf contec] configurePanel_state [of Y S cf serial panel]
      makeMotorControl_state [of Y cf motors]
    by (auto simp: componentState_def split: ERobotComponent.split)
qed

text \<open>From every document from which the server can be constructed, whatever is connected to it: the
  machine starts with its three components in the error state, the panel's signal processing well formed and
  nothing wired; once wired, its cycles always return, and any queued commands are answered in order, one per
  cycle.\<close>

theorem configured_machine_serves:
  assumes "configuredMachine Y S bindSockets cf w = Inr (serial, m)"
    and "wireConfigured Y cf m = (Inr (), m1)"
  shows "(\<forall>c. componentState m c = ComponentState.Error) \<and> panelInv (mn_controlPanel m) \<and> mn_wired m = None
    \<and> (\<exists>ls' m'. machineRun F n ls (m1\<lparr>mn_commandQueue := q\<rparr>) = Some (ls', m')
        \<and> cq_q (mn_commandQueue m') = drop n (cq_q q)
        \<and> map fst (mn_replies m') = map cmd_reply (take n (cq_q q)))"
proof -
  note parts = configuredMachine_parts [OF assms(1)]
  with assms(2) have "idleFrame q [] (m1\<lparr>mn_commandQueue := q\<rparr>)"
    by (auto simp: wireConfigured_def wire_def idleFrame_def act_defs liftE_def)
  from machineRun_replies [OF this, of F n ls] parts show ?thesis by simp
qed

definition smallServer :: Config where
  "smallServer = \<lparr>cf_configPath = ''server.yaml'', cf_topNode = YMap [(YScalar ''classes'', YMap
     [(YScalar ''Contec'', YMap [(YScalar ''ipAddress'', YScalar ''10.0.0.2''), (YScalar ''port'', YScalar (decNat 502)),
         (YScalar ''slaveId'', YScalar (decNat 1)), (YScalar ''nDI'', YScalar (decNat 16)), (YScalar ''nDO'', YScalar (decNat 16))]),
      (YScalar ''ControlPanel'', YMap [(YScalar ''comm'', YMap [(YScalar ''type'', YScalar ''Serial''),
         (YScalar ''serial'', YMap [(YScalar ''port'', YScalar ''/dev/ttyUSB0''), (YScalar ''baudRate'', YScalar ''BAUD_115200'')])])]),
      (YScalar ''MotorControl'', YMap
        [(YScalar ''transport'', YMap [(YScalar ''tcp'', YMap [(YScalar ''host'', YScalar ''localhost''), (YScalar ''port'', YScalar (decNat 4001))])]),
         (YScalar ''motors'', YMap [])]),
      (YScalar ''RimoServer'', YMap [(YScalar ''statusAddress'', YScalar ''tcp://*:5000''), (YScalar ''commandAddress'', YScalar ''tcp://*:5001'')]),
      (YScalar ''Machine'', YMap
        [(YScalar ''inputMapping'', YMap [(YScalar ''button1'', YScalar (decNat 0)), (YScalar ''button2'', YScalar (decNat 1))]),
         (YScalar ''outputMapping'', YMap [(YScalar ''toolChangerLeft'', YScalar (decNat 0)), (YScalar ''toolChangerRight'', YScalar (decNat 1)),
            (YScalar ''light1'', YScalar (decNat 2)), (YScalar ''light2'', YScalar (decNat 3))])])])]\<rparr>"

definition demoSerial :: SerialNames where
  "demoSerial = \<lparr>sn_baudRates = [''BAUD_9600'', ''BAUD_115200''], sn_characterSizes = [], sn_flowControls = [], sn_parities = [],
     sn_stopBits = []\<rparr>"

lemma small_contec: "\<exists>ct. makeContec coreYaml smallServer = Inr (ct :: 'i Contec)"
  by (simp add: smallServer_def makeContec_def getRequired_def getOptional_def getClassConfig_def)

lemma lower_serial: "toLower ''Serial'' = ''serial''"
  by code_simp

lemma small_panel: "\<exists>r. configurePanel coreYaml demoSerial smallServer = Inr r"
  by (simp add: smallServer_def configurePanel_def getClassConfig_def commConfig_def makeControlPanelComm_def lower_serial
      makeSerialComm_def requireNode_def optionalOr_def processingOrLegacy_def decodeEnum_def demoSerial_def Let_def
      isMapNode_def isMap_def asV_def split: prod.split)

lemma small_motors: "\<exists>mc. makeMotorControl coreYaml smallServer = Inr (mc :: 'c MotorControl)"
  by (simp add: smallServer_def makeMotorControl_def getOptional_def getClassConfig_def readTransport_def isMapNode_def
      isMap_def asOr_def asV_def checkE_def Let_def)

lemma small_addresses: "readServerAddresses coreYaml smallServer = Inr (''tcp://*:5000'', ''tcp://*:5001'')"
  by (simp add: smallServer_def readServerAddresses_def getClassConfig_def asV_def)

lemma small_machine:
  "\<exists>cfg. readMachineConfig coreYaml smallServer = Inr cfg \<and> (\<forall>ct cp mc w. \<exists>m. makeMachine cfg ct cp mc w
    = Inr (m :: (ModbusClient, ModbusClient, PolicyState, FakeWorld) Machine))"
  by (simp add: smallServer_def readMachineConfig_def makeMachine_def getRequired_def getOptional_def getClassConfig_def
      requireMappingIndex_def allInputSignals_def allOutputSignals_def)

lemma small_server:
  "\<exists>serial (m :: (ModbusClient, ModbusClient, PolicyState, FakeWorld) Machine).
     configuredMachine coreYaml demoSerial (\<lambda>_ _. Inr) smallServer fakeReset = Inr (serial, m)"
proof -
  obtain ct :: "ModbusClient Contec" where ct: "makeContec coreYaml smallServer = Inr ct"
    using small_contec by blast
  obtain serial cp where cp: "configurePanel coreYaml demoSerial smallServer = Inr (serial, cp)"
    using small_panel by fastforce
  obtain mc :: "ModbusClient MotorControl" where mc: "makeMotorControl coreYaml smallServer = Inr mc"
    using small_motors by blast
  obtain cfg and m :: "(ModbusClient, ModbusClient, PolicyState, FakeWorld) Machine" where
    cfg: "readMachineConfig coreYaml smallServer = Inr cfg" "makeMachine cfg ct cp mc fakeReset = Inr m"
    using small_machine by blast
  have "configuredMachine coreYaml demoSerial (\<lambda>_ _. Inr) smallServer fakeReset = Inr (serial, m)"
    by (simp add: configuredMachine_def ct cp mc cfg small_addresses)
  then show ?thesis by blast
qed

theorem configured_machine_serves_witness:
  "\<exists>serial m m1 ls' m'. configuredMachine coreYaml demoSerial (\<lambda>_ _. Inr) smallServer fakeReset = Inr (serial, m)
    \<and> wireConfigured coreYaml smallServer m = (Inr (), m1)
    \<and> machineRun demoPlatform 2 demoLoop (m1\<lparr>mn_commandQueue := demoQueue\<rparr>) = Some (ls', m')
    \<and> map cmd_reply (cq_q (mn_commandQueue m')) = [9] \<and> map fst (mn_replies m') = [7, 8]"
proof -
  obtain serial and m :: "(ModbusClient, ModbusClient, PolicyState, FakeWorld) Machine" where
    m: "configuredMachine coreYaml demoSerial (\<lambda>_ _. Inr) smallServer fakeReset = Inr (serial, m)"
    using small_server by blast
  have "mn_wired m = None" using configuredMachine_parts [OF m] by blast
  then obtain m1 where m1: "wireConfigured coreYaml smallServer m = (Inr (), m1)"
    by (auto simp: wireConfigured_def wire_def act_defs liftE_def)
  from configured_machine_serves [OF m m1, of demoPlatform 2 demoLoop demoQueue] m m1 show ?thesis
    by (auto simp: demoQueue_def)
qed

end
