(* ===== verification/CommandPath.thy ===== *)
theory CommandPath
  imports MachineSafety
begin

text \<open>
  The way of an operator's command through the server (\<^verbatim>\<open>Server/src/Machine.cpp\<close>, \<^verbatim>\<open>MachineCommandServer.cpp\<close>):
  any thread submits a command and later asks for its answer, the control thread runs its cycles, and the
  machine may be shut down in between. The steps hold a mutex or touch only their own promise, so a run
  of the threads is a sequence of them.
\<close>

section \<open>Interleavings\<close>

datatype PathStep = Submit Command | Cycle | Answer Command | Stop

datatype PathEvent = Accepted Command | Refused Command string | Answered Command string

fun pathStep ::
  "('i, 'c, 'p, 'w) Platform \<Rightarrow> PathStep \<Rightarrow> LoopState \<times> ('i, 'c, 'p, 'w) Machine \<times> PathEvent list
     \<Rightarrow> (LoopState \<times> ('i, 'c, 'p, 'w) Machine \<times> PathEvent list) option" where
  "pathStep F (Submit c) (ls, m, evs) = (case dispatchStart c m of
     (None, m') \<Rightarrow> Some (ls, m', evs @ [Accepted c])
   | (Some msg, m') \<Rightarrow> Some (ls, m', evs @ [Refused c msg]))"
| "pathStep F Cycle (ls, m, evs) = (case machineCycle F ls m of
     Some (Inr _, ls', m') \<Rightarrow> Some (ls', m', evs)
   | _ \<Rightarrow> None)"
| "pathStep F (Answer c) (ls, m, evs) = Some (ls, m, evs @ [Answered c (dispatchEnd c m)])"
| "pathStep F Stop (ls, m, evs) = Some (ls, shutdownMachine m, evs)"

fun pathRun ::
  "('i, 'c, 'p, 'w) Platform \<Rightarrow> PathStep list \<Rightarrow> LoopState \<times> ('i, 'c, 'p, 'w) Machine \<times> PathEvent list
     \<Rightarrow> (LoopState \<times> ('i, 'c, 'p, 'w) Machine \<times> PathEvent list) option" where
  "pathRun F [] s = Some s"
| "pathRun F (x # xs) s = Option.bind (pathStep F x s) (pathRun F xs)"

definition acceptedIn :: "PathEvent list \<Rightarrow> Command list" where
  "acceptedIn evs = concat (map (\<lambda>e. case e of Accepted c \<Rightarrow> [c] | _ \<Rightarrow> []) evs)"

lemma acceptedIn_snoc [simp]:
  "acceptedIn (evs @ [Accepted c]) = acceptedIn evs @ [c]"
  "acceptedIn (evs @ [Refused c msg]) = acceptedIn evs"
  "acceptedIn (evs @ [Answered c msg]) = acceptedIn evs"
  by (simp_all add: acceptedIn_def)

section \<open>The invariant\<close>

text \<open>The text of a reply: what the command gave, or the notice of the shutdown.\<close>

definition givenTo :: "('i, 'c, 'p, 'w) Platform \<Rightarrow> Command \<Rightarrow> string \<Rightarrow> bool" where
  "givenTo F c msg \<longleftrightarrow> handledAs F c msg \<or> msg = ''Machine is shutting down''"

definition isWired :: "('i, 'c, 'p, 'w) Machine \<Rightarrow> bool" where
  "isWired m \<longleftrightarrow> (\<exists>cl. mn_wired m = Some cl \<and> 0 < cl_loopInterval cl \<and> 0 < cl_updateInterval cl)"

definition repliesMatch :: "('i, 'c, 'p, 'w) Platform \<Rightarrow> Command list \<Rightarrow> (nat \<times> string) list \<Rightarrow> bool" where
  "repliesMatch F = list_all2 (\<lambda>c (reply, msg). cmd_reply c = reply \<and> givenTo F c msg)"

definition answersMatch :: "('i, 'c, 'p, 'w) Platform \<Rightarrow> PathEvent list \<Rightarrow> bool" where
  "answersMatch F evs \<longleftrightarrow> (\<forall>c msg. Answered c msg \<in> set evs \<longrightarrow> msg = ''Command processing timed out''
     \<or> (\<exists>d \<in> set (acceptedIn evs). cmd_reply d = cmd_reply c \<and> givenTo F d msg))"

text \<open>\<open>stopped\<close>: a shutdown has happened.\<close>

definition pathInv :: "('i, 'c, 'p, 'w) Platform \<Rightarrow> bool \<Rightarrow> ('i, 'c, 'p, 'w) Machine \<Rightarrow> PathEvent list \<Rightarrow> bool" where
  "pathInv F stopped m evs \<longleftrightarrow> isWired m \<and> (stopped \<longrightarrow> cq_shutdown (mn_commandQueue m)) \<and> answersMatch F evs
     \<and> (cq_shutdown (mn_commandQueue m) \<longrightarrow> cq_q (mn_commandQueue m) = [])
     \<and> (\<exists>handled. acceptedIn evs = handled @ cq_q (mn_commandQueue m) \<and> repliesMatch F handled (mn_replies m))"

lemma idleFrame_self: "idleFrame q rs m \<longleftrightarrow> mn_commandQueue m = q \<and> mn_replies m = rs \<and> isWired m"
  by (auto simp: idleFrame_def isWired_def)

lemma repliesMatch_fst: "repliesMatch F cs rs \<Longrightarrow> map fst rs = map cmd_reply cs"
  unfolding repliesMatch_def by (induction rule: list_all2_induct) auto

lemma repliesMatch_append:
  "repliesMatch F cs rs \<Longrightarrow> repliesMatch F ds us \<Longrightarrow> repliesMatch F (cs @ ds) (rs @ us)"
  unfolding repliesMatch_def by (rule list_all2_appendI)

lemma repliesMatch_lookup:
  assumes "repliesMatch F cs rs" and "map_of rs k = Some msg"
  shows "\<exists>c \<in> set cs. cmd_reply c = k \<and> givenTo F c msg"
  using assms unfolding repliesMatch_def by (induction rule: list_all2_induct) (auto split: if_splits)

lemma repliesMatch_drained: "repliesMatch F cs (drainReplies cs)"
  by (induction cs) (simp_all add: repliesMatch_def givenTo_def)

lemma answersMatch_snoc:
  "answersMatch F evs \<Longrightarrow> answersMatch F (evs @ [Accepted c])"
  "answersMatch F evs \<Longrightarrow> answersMatch F (evs @ [Refused c msg])"
  by (auto simp: answersMatch_def)

lemma pathInv_submit:
  assumes "pathInv F b m evs"
  shows "\<exists>m' evs'. pathStep F (Submit c) (ls, m, evs) = Some (ls, m', evs') \<and> pathInv F b m' evs'"
  using assms
  by (auto simp: pathInv_def dispatchStart_def submitCommand_def cqPush_def isWired_def answersMatch_snoc split: prod.split)

lemma pathInv_cycle:
  assumes "pathInv F b m evs"
  shows "\<exists>ls' m'. pathStep F Cycle (ls, m, evs) = Some (ls', m', evs) \<and> pathInv F b m' evs"
proof -
  let ?q = "mn_commandQueue m"
  have "idleFrame ?q (mn_replies m) m" using assms by (simp add: idleFrame_self pathInv_def)
  from machineCycle_frame [OF this, of F ls] obtain ls' m' where
    c: "machineCycle F ls m = Some (Inr (), ls', m')" "afterCommand F m ?q (mn_replies m) m'" by blast
  obtain handled where h: "acceptedIn evs = handled @ cq_q ?q" "repliesMatch F handled (mn_replies m)"
    "answersMatch F evs" "cq_shutdown ?q \<longrightarrow> cq_q ?q = []" "b \<longrightarrow> cq_shutdown ?q"
    using assms by (auto simp: pathInv_def)
  have "pathInv F b m' evs"
  proof (cases "cq_q ?q")
    case Nil
    with c(2) h show ?thesis by (simp add: pathInv_def afterCommand_def idleFrame_self)
  next
    case (Cons d ds)
    with c(2) obtain msg where t: "handledAs F d msg" "isWired m'" "mn_commandQueue m' = ?q\<lparr>cq_q := ds\<rparr>"
      "mn_replies m' = mn_replies m @ [(cmd_reply d, msg)]"
      by (auto simp: afterCommand_def handledAs_def idleFrame_self)
    have "repliesMatch F (handled @ [d]) (mn_replies m')"
      unfolding t(4) by (rule repliesMatch_append [OF h(2)]) (simp add: repliesMatch_def givenTo_def t(1))
    with h t Cons show ?thesis by (auto simp: pathInv_def intro: exI [of _ "handled @ [d]"])
  qed
  with c(1) show ?thesis by simp
qed

lemma pathInv_answer:
  assumes "pathInv F b m evs"
  shows "pathInv F b m (evs @ [Answered c (dispatchEnd c m)])"
proof -
  obtain handled where h: "acceptedIn evs = handled @ cq_q (mn_commandQueue m)" "repliesMatch F handled (mn_replies m)"
    using assms by (auto simp: pathInv_def)
  have "dispatchEnd c m = ''Command processing timed out''
      \<or> (\<exists>d \<in> set (acceptedIn evs). cmd_reply d = cmd_reply c \<and> givenTo F d (dispatchEnd c m))"
    using repliesMatch_lookup [OF h(2), of "cmd_reply c"] by (auto simp: dispatchEnd_def h(1) split: option.split)
  then have "answersMatch F (evs @ [Answered c (dispatchEnd c m)])"
    using assms by (auto simp: pathInv_def answersMatch_def)
  then show ?thesis using assms by (simp add: pathInv_def)
qed

lemma pathInv_stop:
  assumes "pathInv F b m evs"
  shows "pathInv F True (shutdownMachine m) evs"
proof -
  obtain handled where h: "acceptedIn evs = handled @ cq_q (mn_commandQueue m)" "repliesMatch F handled (mn_replies m)"
    using assms by (auto simp: pathInv_def)
  from repliesMatch_append [OF h(2) repliesMatch_drained] h(1) assms show ?thesis
    by (auto simp: pathInv_def shutdownMachine_def cqShutdown_def Let_def isWired_def)
qed

lemma pathInv_step:
  assumes "pathInv F b m evs"
  shows "\<exists>ls' m' evs'. pathStep F x (ls, m, evs) = Some (ls', m', evs') \<and> pathInv F (b \<or> x = Stop) m' evs'"
  using pathInv_submit [OF assms] pathInv_cycle [OF assms] pathInv_answer [OF assms] pathInv_stop [OF assms]
  by (cases x) fastforce+

lemma pathInv_run:
  assumes "pathInv F b m evs"
  shows "\<exists>ls' m' evs'. pathRun F xs (ls, m, evs) = Some (ls', m', evs') \<and> pathInv F (b \<or> Stop \<in> set xs) m' evs'"
  using assms
proof (induction xs arbitrary: b ls m evs)
  case (Cons x xs)
  from pathInv_step [OF Cons.prems, of x ls] obtain ls1 m1 evs1 where
    1: "pathStep F x (ls, m, evs) = Some (ls1, m1, evs1)" "pathInv F (b \<or> x = Stop) m1 evs1" by blast
  from Cons.IH [OF 1(2), of ls1] obtain ls2 m2 evs2 where
    2: "pathRun F xs (ls1, m1, evs1) = Some (ls2, m2, evs2)" "pathInv F ((b \<or> x = Stop) \<or> Stop \<in> set xs) m2 evs2" by blast
  moreover have "((b \<or> x = Stop) \<or> Stop \<in> set xs) = (b \<or> Stop \<in> set (x # xs))" by auto
  ultimately show ?case using 1(1) by auto
qed simp

section \<open>Accounts\<close>

text \<open>The account of a machine after a run of which \<open>evs\<close> is the log.\<close>

definition pathAccount ::
  "('i, 'c, 'p, 'w) Platform \<Rightarrow> bool \<Rightarrow> ('i, 'c, 'p, 'w) Machine \<Rightarrow> PathEvent list \<Rightarrow> bool" where
  "pathAccount F stopped m evs \<longleftrightarrow>
     map fst (mn_replies m) @ map cmd_reply (cq_q (mn_commandQueue m)) = map cmd_reply (acceptedIn evs)
     \<and> (stopped \<longrightarrow> cq_q (mn_commandQueue m) = [])
     \<and> (\<forall>c msg. distinct (map cmd_reply (acceptedIn evs)) \<and> c \<in> set (acceptedIn evs) \<and> Answered c msg \<in> set evs
         \<longrightarrow> msg = ''Command processing timed out'' \<or> msg = ''Machine is shutting down'' \<or> handledAs F c msg)"

lemma path_accounts:
  assumes "isWired m" and "cq_q (mn_commandQueue m) = []" and "mn_replies m = []"
  shows "\<exists>ls' m' evs. pathRun F steps (ls, m, []) = Some (ls', m', evs) \<and> pathAccount F (Stop \<in> set steps) m' evs"
proof -
  have "pathInv F False m []"
    using assms by (auto simp: pathInv_def answersMatch_def acceptedIn_def repliesMatch_def)
  from pathInv_run [OF this, of steps ls] obtain ls' m' evs where
    run: "pathRun F steps (ls, m, []) = Some (ls', m', evs)" and inv: "pathInv F (Stop \<in> set steps) m' evs" by auto
  then obtain handled where h: "acceptedIn evs = handled @ cq_q (mn_commandQueue m')" "repliesMatch F handled (mn_replies m')"
    by (auto simp: pathInv_def)
  have own: "msg = ''Command processing timed out'' \<or> msg = ''Machine is shutting down'' \<or> handledAs F c msg"
    if d: "distinct (map cmd_reply (acceptedIn evs))" "c \<in> set (acceptedIn evs)" "Answered c msg \<in> set evs" for c msg
  proof (rule disjCI)
    assume "\<not> (msg = ''Machine is shutting down'' \<or> handledAs F c msg)"
    moreover have "answersMatch F evs" using inv by (simp add: pathInv_def)
    moreover have "e = c" if "e \<in> set (acceptedIn evs)" "cmd_reply e = cmd_reply c" for e
      using d(1,2) that unfolding distinct_map by (auto dest: inj_onD)
    ultimately show "msg = ''Command processing timed out''"
      using d(3) unfolding answersMatch_def givenTo_def by blast
  qed
  have "map fst (mn_replies m') @ map cmd_reply (cq_q (mn_commandQueue m')) = map cmd_reply (acceptedIn evs)"
    by (simp add: h(1) repliesMatch_fst [OF h(2)])
  moreover have "Stop \<in> set steps \<longrightarrow> cq_q (mn_commandQueue m') = []" using inv by (auto simp: pathInv_def)
  ultimately show ?thesis using run own unfolding pathAccount_def by blast
qed

text \<open>Every command that was accepted gets exactly one reply or is still queued, in the order of acceptance; after a
  shutdown none is left. Whoever asks for the answer of a command with a promise of its own is told that the wait
  timed out, that the machine is shutting down, or what the handling of that very command gave.\<close>

theorem commands_accounted:
  assumes "mn_wired m = Some cl" and "0 < cl_loopInterval cl" and "0 < cl_updateInterval cl"
    and "mn_commandQueue m = emptyQueue n" and "mn_replies m = []"
  shows "\<exists>ls' m' evs. pathRun F steps (ls, m, []) = Some (ls', m', evs)
    \<and> map fst (mn_replies m') @ map cmd_reply (cq_q (mn_commandQueue m')) = map cmd_reply (acceptedIn evs)
    \<and> (Stop \<in> set steps \<longrightarrow> cq_q (mn_commandQueue m') = [])
    \<and> (\<forall>c msg. distinct (map cmd_reply (acceptedIn evs)) \<and> c \<in> set (acceptedIn evs) \<and> Answered c msg \<in> set evs
         \<longrightarrow> msg = ''Command processing timed out'' \<or> msg = ''Machine is shutting down'' \<or> handledAs F c msg)"
  using path_accounts [of m F steps ls] assms by (simp add: isWired_def emptyQueue_def pathAccount_def)

theorem commands_accounted_witness:
  "\<exists>ls' m' evs. pathRun demoPlatform [Submit \<lparr>cmd_payload = EmergencyStopCommand, cmd_reply = 1\<rparr>,
      Submit \<lparr>cmd_payload = ContecDiagnosticsCommand, cmd_reply = 2\<rparr>, Cycle, Stop] (demoLoop, demoMachine, []) = Some (ls', m', evs)
    \<and> map fst (mn_replies m') = map cmd_reply (acceptedIn evs)"
proof -
  have "mn_wired demoMachine = Some demoWiring" "mn_commandQueue demoMachine = emptyQueue 0" "mn_replies demoMachine = []"
    by (simp_all add: demoMachine_def)
  from commands_accounted [OF this(1) demo_wired(2,3) this(2,3)] show ?thesis by fastforce
qed

section \<open>Waiting for the answer\<close>

text \<open>A promise of its own for a new command, and the wait: the control thread runs \<open>k\<close> cycles until the
  time is over. The reply is there after one of them or not at all, so one look at the end is enough.\<close>

definition freshReply :: "('i, 'c, 'p, 'w) Machine \<Rightarrow> nat" where
  "freshReply m = Suc (sum_list (map cmd_reply (cq_q (mn_commandQueue m)) @ map fst (mn_replies m)))"

definition machineDispatch :: "('i, 'c, 'p, 'w) Platform \<Rightarrow> nat \<Rightarrow> (LoopState \<times> ('i, 'c, 'p, 'w) Machine) DispatchFn" where
  "machineDispatch F k p timeout = (\<lambda>(ls, m).
     let c = \<lparr>cmd_payload = p, cmd_reply = freshReply m\<rparr> in
     case dispatchStart c m of
       (Some msg, m') \<Rightarrow> (Inr msg, ls, m')
     | (None, m') \<Rightarrow> (case machineRun F k ls m' of
         Some (ls', m'') \<Rightarrow> (Inr (dispatchEnd c m''), ls', m'')
       | None \<Rightarrow> (Inr ''Command processing timed out'', ls, m')))"

lemma freshReply_new:
  "c \<in> set (cq_q (mn_commandQueue m)) \<Longrightarrow> cmd_reply c \<noteq> freshReply m"
  "(k, msg) \<in> set (mn_replies m) \<Longrightarrow> k \<noteq> freshReply m"
proof -
  show "cmd_reply c \<noteq> freshReply m" if "c \<in> set (cq_q (mn_commandQueue m))"
    using member_le_sum_list [of "cmd_reply c" "map cmd_reply (cq_q (mn_commandQueue m))"] that
    by (auto simp: freshReply_def)
  show "k \<noteq> freshReply m" if "(k, msg) \<in> set (mn_replies m)"
    using member_le_sum_list [of k "map fst (mn_replies m)"] that by (force simp: freshReply_def)
qed

lemma map_of_new:
  assumes "\<forall>y \<in> set xs. y \<noteq> x" and "length ts \<le> Suc (length xs)"
  shows "map_of (zip (xs @ [x]) ts) x = (if length ts = Suc (length xs) then Some (last ts) else None)"
  using assms
proof (induction xs arbitrary: ts)
  case Nil
  then show ?case by (cases ts) auto
next
  case (Cons y xs)
  then show ?case by (cases ts) auto
qed

text \<open>What becomes of the newest of \<open>n\<close> queued commands in \<open>k\<close> cycles.\<close>

lemma newest_outcome:
  assumes "idleFrame (q\<lparr>cq_q := cs @ [c]\<rparr>) rs m"
    and "\<forall>d \<in> set cs. cmd_reply d \<noteq> cmd_reply c" and "map_of rs (cmd_reply c) = None"
  shows "\<exists>ls' m'. machineRun F k ls m = Some (ls', m') \<and> isWired m'
    \<and> cq_q (mn_commandQueue m') = drop k (cs @ [c])
    \<and> (if length cs < k then \<exists>msg ls1 m1. machineRun F (length cs) ls m = Some (ls1, m1) \<and> handledInCycle F m1 c msg
         \<and> map_of (mn_replies m') (cmd_reply c) = Some msg
       else map_of (mn_replies m') (cmd_reply c) = None)"
proof -
  from machineRun_frame [OF assms(1), of F k ls] obtain ls' m' texts where
    run: "machineRun F k ls m = Some (ls', m')" and len: "length texts = min (Suc (length cs)) k"
    and texts: "\<forall>i < length texts. \<exists>lsi mi. machineRun F i ls m = Some (lsi, mi) \<and> handledInCycle F mi ((cs @ [c]) ! i) (texts ! i)"
    and frame: "idleFrame ((q\<lparr>cq_q := cs @ [c]\<rparr>)\<lparr>cq_q := drop k (cs @ [c])\<rparr>) (rs @ zip (map cmd_reply (cs @ [c])) texts) m'"
    by (auto simp: min.commute)
  have found: "map_of (mn_replies m') (cmd_reply c) = (if length texts = Suc (length cs) then Some (last texts) else None)"
    using frame assms(2,3) map_of_new [of "map cmd_reply cs" "cmd_reply c" texts] len
    by (simp add: idleFrame_self map_add_def)
  have "\<exists>ls1 m1. machineRun F (length cs) ls m = Some (ls1, m1) \<and> handledInCycle F m1 c (last texts)" if "length cs < k"
  proof -
    have "length texts = Suc (length cs)" using that len by simp
    then have "last texts = texts ! length cs" by (cases texts rule: rev_cases) (auto simp: nth_append)
    with texts [rule_format, of "length cs"] that len show ?thesis by auto
  qed
  with found len frame show ?thesis by (auto simp: run idleFrame_self)
qed

lemma executed_later:
  assumes "isWired m" and "cq_q (mn_commandQueue m) = cs @ [c]" and "map_of (mn_replies m) (cmd_reply c) = None"
    and "\<forall>d \<in> set cs. cmd_reply d \<noteq> cmd_reply c"
  shows "\<exists>ls' m' reply ls1 m1. machineRun F (Suc (length cs)) ls m = Some (ls', m')
    \<and> machineRun F (length cs) ls m = Some (ls1, m1) \<and> handledInCycle F m1 c reply \<and> map_of (mn_replies m') (cmd_reply c) = Some reply"
proof -
  have "idleFrame ((mn_commandQueue m)\<lparr>cq_q := cs @ [c]\<rparr>) (mn_replies m) m"
    using assms(1,2) by (simp add: idleFrame_self)
  from newest_outcome [OF this assms(4,3), of F "Suc (length cs)" ls] show ?thesis by auto
qed

text \<open>A command with a promise of its own is taken into the queue.\<close>

lemma fresh_submitted:
  assumes "isWired m" and "\<not> cq_shutdown (mn_commandQueue m)"
    and "cq_maxSize (mn_commandQueue m) = 0 \<or> length (cq_q (mn_commandQueue m)) < cq_maxSize (mn_commandQueue m)"
    and "cmd_reply c = freshReply m"
  defines "q \<equiv> (mn_commandQueue m)\<lparr>cq_q := cq_q (mn_commandQueue m) @ [c]\<rparr>"
  shows "dispatchStart c m = (None, m\<lparr>mn_commandQueue := q\<rparr>)" "idleFrame q (mn_replies m) (m\<lparr>mn_commandQueue := q\<rparr>)"
    "\<forall>d \<in> set (cq_q (mn_commandQueue m)). cmd_reply d \<noteq> cmd_reply c" "map_of (mn_replies m) (cmd_reply c) = None"
  using assms(1-4) freshReply_new(1) [of _ m] freshReply_new(2) [of "freshReply m" _ m]
  by (auto simp: q_def dispatchStart_def submitCommand_def cqPush_def idleFrame_self isWired_def map_of_eq_None_iff)

text \<open>C4: the whole way of an operator's command. It arrives at the machine as the command it was meant to be,
  is queued behind the \<open>n\<close> commands that are waiting, and while the command server waits the control
  thread runs \<open>k\<close> cycles. With \<open>n < k\<close> the operator gets what the handling of the command gave, in the cycle after the
  \<open>n\<close> of the commands before it, on the machine as the control step of that cycle left it: for a
  plain command an empty reply is success and any other one the error message, for a diagnostics command the
  parsed reply is the payload. Otherwise the operator is told that the command timed out, but it stays in the
  queue, and after the cycles that were missing it has been executed all the same.\<close>

theorem operator_command_outcome:
  assumes "guiPayload g = Some p" and "mn_wired m = Some cl" and "0 < cl_loopInterval cl" and "0 < cl_updateInterval cl"
    and "\<not> cq_shutdown (mn_commandQueue m)" and "parse ''Command processing timed out'' = None"
    and "cq_maxSize (mn_commandQueue m) = 0 \<or> length (cq_q (mn_commandQueue m)) < cq_maxSize (mn_commandQueue m)"
    and "n = length (cq_q (mn_commandQueue m))" and "c = \<lparr>cmd_payload = p, cmd_reply = freshReply m\<rparr>"
  shows "\<exists>resp r ls' m'. processCommand parse (machineDispatch F k) (guiToJson g) (ls, m) = (resp, ls', m')
    \<and> guiFromJson resp = Some r
    \<and> (if n < k
       then \<exists>reply ls1 m1. machineRun F n ls (m\<lparr>mn_commandQueue := (mn_commandQueue m)\<lparr>cq_q := cq_q (mn_commandQueue m) @ [c]\<rparr>\<rparr>)
             = Some (ls1, m1)
         \<and> handledInCycle F m1 c reply \<and> map_of (mn_replies m') (cmd_reply c) = Some reply
         \<and> gr_ok r = (if wantsDiagnostics p then reply \<noteq> '''' \<and> parse reply \<noteq> None else reply = '''')
         \<and> gr_payload r = (if wantsDiagnostics p \<and> reply \<noteq> '''' then parse reply else None)
         \<and> (reply \<noteq> '''' \<and> \<not> gr_ok r \<longrightarrow> gr_message r = reply)
       else \<not> gr_ok r \<and> gr_message r = ''Command processing timed out'' \<and> map_of (mn_replies m') (cmd_reply c) = None
         \<and> (\<exists>ls'' m'' reply ls1 m1. machineRun F (Suc n - k) ls' m' = Some (ls'', m'')
              \<and> machineRun F (n - k) ls' m' = Some (ls1, m1) \<and> handledInCycle F m1 c reply \<and> map_of (mn_replies m'') (cmd_reply c) = Some reply))"
    (is "\<exists>resp r ls' m'. _ resp ls' m' \<and> _ resp r \<and> ?outcome r m' ls'")
proof -
  let ?q = "mn_commandQueue m" and ?cs = "cq_q (mn_commandQueue m)"
  let ?m = "m\<lparr>mn_commandQueue := ?q\<lparr>cq_q := ?cs @ [c]\<rparr>\<rparr>"
  have "isWired m" "cmd_reply c = freshReply m" using assms(2-4,9) by (auto simp: isWired_def)
  note submitted = fresh_submitted [OF this(1) assms(5,7) this(2)]
  note new = submitted(3,4)
  from newest_outcome [OF submitted(2) new, of F k ls] obtain ls' m' where
    run: "machineRun F k ls ?m = Some (ls', m')" and wired: "isWired m'"
    and queue: "cq_q (mn_commandQueue m') = drop k (?cs @ [c])"
    and out: "if n < k then \<exists>reply ls1 m1. machineRun F n ls ?m = Some (ls1, m1) \<and> handledInCycle F m1 c reply \<and> map_of (mn_replies m') (cmd_reply c) = Some reply
       else map_of (mn_replies m') (cmd_reply c) = None"
    by (auto simp: assms(8))
  have "machineDispatch F k p 2000 (ls, m) = (Inr (dispatchEnd c m'), ls', m')"
    using submitted(1) run by (simp add: machineDispatch_def assms(9) Let_def)
  from gui_command_roundtrip [where dispatch = "machineDispatch F k" and parse = parse, OF assms(1) this] obtain resp r where
    resp: "processCommand parse (machineDispatch F k) (guiToJson g) (ls, m) = (resp, ls', m')" "guiFromJson resp = Some r"
    and r: "gr_ok r = (if wantsDiagnostics p then dispatchEnd c m' \<noteq> '''' \<and> parse (dispatchEnd c m') \<noteq> None
        else dispatchEnd c m' = '''')"
      "gr_payload r = (if wantsDiagnostics p \<and> dispatchEnd c m' \<noteq> '''' then parse (dispatchEnd c m') else None)"
      "dispatchEnd c m' \<noteq> '''' \<and> \<not> gr_ok r \<longrightarrow> gr_message r = dispatchEnd c m'"
    by blast
  have "?outcome r m' ls'"
  proof (cases "n < k")
    case True
    with out obtain reply ls1 m1 where handled: "machineRun F n ls ?m = Some (ls1, m1)" "handledInCycle F m1 c reply"
      and reply: "map_of (mn_replies m') (cmd_reply c) = Some reply" by auto
    then have "dispatchEnd c m' = reply" by (simp add: dispatchEnd_def)
    with r handled reply True show ?thesis by auto
  next
    case False
    with out have none: "map_of (mn_replies m') (cmd_reply c) = None" by simp
    have late: "dispatchEnd c m' = ''Command processing timed out''" by (simp add: dispatchEnd_def none)
    have "cq_q (mn_commandQueue m') = drop k ?cs @ [c]" "\<forall>d \<in> set (drop k ?cs). cmd_reply d \<noteq> cmd_reply c"
      using queue False new(1) by (auto simp: assms(8) dest: in_set_dropD)
    from executed_later [OF wired this(1) none this(2), of F ls'] False obtain ls'' m'' reply ls1 m1 where
      "machineRun F (Suc n - k) ls' m' = Some (ls'', m'')" "machineRun F (n - k) ls' m' = Some (ls1, m1)" "handledInCycle F m1 c reply"
      "map_of (mn_replies m'') (cmd_reply c) = Some reply"
      by (auto simp: assms(8) Suc_diff_le)
    with r none False show ?thesis unfolding late by (auto simp: assms(6))
  qed
  with resp show ?thesis by blast
qed

text \<open>Late: the control thread had no time for a cycle; the operator reads a failure, and the next cycle handles the
  command.\<close>

theorem operator_command_outcome_witness:
  "\<exists>resp r ls' m'. processCommand (\<lambda>_. None) (machineDispatch demoPlatform 0)
      (guiToJson (GuiSetMotorEnabledCommand YLeft True)) (demoLoop, demoMachine) = (resp, ls', m')
    \<and> guiFromJson resp = Some r \<and> \<not> gr_ok r
    \<and> (\<exists>ls'' m'' reply. machineRun demoPlatform 1 ls' m' = Some (ls'', m'') \<and> map_of (mn_replies m'') 1 = Some reply)"
proof -
  have "\<not> cq_shutdown (mn_commandQueue demoMachine)" "freshReply demoMachine = 1" "cq_q (mn_commandQueue demoMachine) = []"
    "cq_maxSize (mn_commandQueue demoMachine) = 0"
    by (simp_all add: demoMachine_def emptyQueue_def freshReply_def)
  with operator_command_outcome [of "GuiSetMotorEnabledCommand YLeft True" "SetMotorEnabledCommand YLeft True" demoMachine
      demoWiring "\<lambda>_. None" 0 "\<lparr>cmd_payload = SetMotorEnabledCommand YLeft True, cmd_reply = 1\<rparr>" demoPlatform 0 demoLoop]
  show ?thesis using demo_wired(2,3) by (auto simp: demoMachine_def)
qed

section \<open>A reconnection\<close>

lemma status_components:
  "preserves (\<lambda>m. mn_robotStatus m = st) (onContec act)" "preserves (\<lambda>m. mn_robotStatus m = st) (onMotors act')"
  "preserves (\<lambda>m. mn_robotStatus m = st) (onPanel act'')"
  "preserves (\<lambda>m. mn_robotStatus m = st) (zoomA mn_world (\<lambda>w m. m\<lparr>mn_world := w\<rparr>) act3)"
  unfolding onContec_def onMotors_def onPanel_def by (rule preserves_zoom; auto)+

lemma status_reconnect: "preserves (\<lambda>m. mn_robotStatus m = st) (reconnectComponent F c)"
  unfolding reconnectComponent_def resetComponent_def initializeComponent_def initializePanel_def
  by (cases c) (auto intro!: frame_rules status_components)

lemma dummyStatus_alarms:
  "\<not> anyMotorInAlarm (dummyStatus st)" "rs_motors (dummyStatus st) i = Some dummyMotorStatus"
  "rs_robotComponents (dummyStatus st) = rs_robotComponents st" "\<not> alarmFlagged dummyMotorStatus"
  by (simp_all add: anyMotorInAlarm_def list_ex_iff dummyStatus_def dummyMotorStatus_def isMotorInAlarm_def
      alarmFlagged_def defaultMotorStatus_def)

text \<open>C5: a successful reconnection replaces the status of the motors by one without alarms, whatever the
  drivers said before. Of the conditions of \<open>machine_motion_gate\<close> only those on the I/O unit and on
  the components are left, so a motor in alarm does not hold back motion until the next status update, and every
  motor that is remembered in alarm counts as cleared.\<close>

theorem reconnect_lifts_motion_gate:
  assumes "handleReconnectCommand F c m = (Inr (), m')"
  shows "\<not> anyMotorInAlarm (mn_robotStatus m')
    \<and> motionConditions (contecState m') (mn_robotStatus m') =
        (contecState m' \<noteq> ComponentState.Error \<and> (\<forall>k. isComponentOperational (rs_robotComponents (mn_robotStatus m) k)))
    \<and> nothingCleared mk (mn_robotStatus m') = (\<forall>i. \<not> mk_motorWasInAlarm mk i)"
proof -
  obtain r m1 where 1: "reconnectComponent F c m = (r, m1)" by (metis surj_pair)
  from preservesD [OF status_reconnect refl, of F c m] 1 have "mn_robotStatus m1 = mn_robotStatus m" by simp
  with assms 1 have "mn_robotStatus m' = dummyStatus (mn_robotStatus m)"
    by (cases r) (auto simp: handleReconnectCommand_def bindA_def makeDummyStatus_def split: if_splits)
  then show ?thesis
    by (simp add: motionConditions_def nothingCleared_def dummyStatus_alarms)
qed

text \<open>A demonstration with every component operational and a motor in alarm: reconnecting the panel opens the gate.\<close>

definition motorAlarmMachine :: "(ModbusClient, ModbusClient, PolicyState, FakeWorld) Machine" where
  "motorAlarmMachine = demoMachine\<lparr>mn_contec := (mn_contec demoMachine)\<lparr>ct_state := Normal\<rparr>,
     mn_robotStatus := emptyRobotStatus\<lparr>rs_robotComponents := (\<lambda>_. Some On),
       rs_motors := [YLeft \<mapsto> defaultMotorStatus\<lparr>sms_flags := [EMotorStatusFlags.Alarm \<mapsto> ELEDState.Error]\<rparr>]\<rparr>\<rparr>"

theorem reconnect_lifts_motion_gate_witness:
  "\<exists>m'. handleReconnectCommand demoPlatform ControlPanel motorAlarmMachine = (Inr (), m')
    \<and> \<not> motionConditions (contecState motorAlarmMachine) (mn_robotStatus motorAlarmMachine)
    \<and> motionConditions (contecState m') (mn_robotStatus m')"
proof -
  obtain m' where m': "handleReconnectCommand demoPlatform ControlPanel motorAlarmMachine = (Inr (), m')"
    "contecState m' = Normal"
    by (simp add: handleReconnectCommand_def reconnectComponent_def resetComponent_def initializeComponent_def
        initializePanel_def demoPlatform_def onPanel_def zoomA_def bindA_def thenA_def catchA_def panelInitialize_def
        getA_def componentState_def makeDummyStatus_def contecState_def motorAlarmMachine_def resetSignalProcessingState_def)
  have "\<not> motionConditions (contecState motorAlarmMachine) (mn_robotStatus motorAlarmMachine)"
    by (simp add: motionConditions_def motorAlarmMachine_def anyMotorInAlarm_def allMotors_def isMotorInAlarm_def)
  moreover have "motionConditions (contecState m') (mn_robotStatus m')"
    using reconnect_lifts_motion_gate [OF m'(1), of "cl_controller demoWiring"] m'(2)
    by (simp add: isComponentOperational_def motorAlarmMachine_def)
  ultimately show ?thesis using m'(1) by blast
qed

end
