(* ===== verification/ModbusExample.thy ===== *)
theory ModbusExample
  imports MotorProps
begin

text \<open>
  The example of the Modbus client over a serial line behind a socket (\<^verbatim>\<open>Server/apps/modbusRtuOverTcpExample.cpp\<close>):
  rows of 32-bit values in pairs of registers, high word first, and a program that works through a list of writes
  and reads, counts what fails and ends with a code. What it prints is left out.
\<close>

section \<open>Rows\<close>

text \<open>The two registers of a value are taken by their positions in what the client returned.\<close>

definition rowValues :: "nat \<Rightarrow> u16 list \<Rightarrow> u32 list" where
  "rowValues n regs = map (\<lambda>i. word32 (regs ! (2 * i)) (regs ! (2 * i + 1))) [0 ..< n]"

definition rowRegisters :: "u32 list \<Rightarrow> u16 list" where
  "rowRegisters values = concat (map (\<lambda>value. [upper16 value, lower16 value]) values)"

definition readU32Row :: "'w NetOps \<Rightarrow> int \<Rightarrow> int \<Rightarrow> bool \<Rightarrow> ('w, u32 list) mbCall" where
  "readU32Row N addr count inputRegs = (\<lambda>s.
     if count < 1 then (Inl (modbusError EINVAL ''u32 read count must be positive''), s)
     else case (if inputRegs then mbReadInputRegisters N addr (count * 2) s
                else mbReadHoldingRegisters N addr (count * 2) s) of
       (Inl e, s') \<Rightarrow> (Inl e, s')
     | (Inr regs, s') \<Rightarrow> (Inr (rowValues (nat count) regs), s'))"

definition exampleWriteU16 :: "'w NetOps \<Rightarrow> int \<Rightarrow> u16 \<Rightarrow> ('w, unit) mbCall" where
  "exampleWriteU16 N addr value = mbWriteSingleRegister N addr value"

definition writeU32Row :: "'w NetOps \<Rightarrow> int \<Rightarrow> u32 list \<Rightarrow> ('w, unit) mbCall" where
  "writeU32Row N addr values = (\<lambda>s.
     if values = [] then (Inl (modbusError EINVAL ''u32 write list must not be empty''), s)
     else mbWriteMultipleRegisters N addr (rowRegisters values) s)"

section \<open>The program\<close>

record ReadTask =
  rd_name :: string
  rd_addr :: int
  rd_countU32 :: int
  rd_inputRegs :: bool

record 'v WriteTask =
  wt_name :: string
  wt_addr :: int
  wt_value :: 'v

definition readTasks :: "ReadTask list" where
  "readTasks = [\<lparr>rd_name = ''NET-IN 0-7 '', rd_addr = 0x1160, rd_countU32 = 8, rd_inputRegs = False\<rparr>,
     \<lparr>rd_name = ''NET-IN 8-15'', rd_addr = 0x1170, rd_countU32 = 8, rd_inputRegs = False\<rparr>]"

definition writeU16Tasks :: "u16 WriteTask list" where
  "writeU16Tasks = []"

definition writeU32Tasks :: "u32 list WriteTask list" where
  "writeU32Tasks = [\<lparr>wt_name = ''Set C-ON'', wt_addr = 0x116E, wt_value = [17]\<rparr>,
     \<lparr>wt_name = ''save to flash'', wt_addr = 0x0192, wt_value = [1]\<rparr>,
     \<lparr>wt_name = ''save to flash'', wt_addr = 0x0190, wt_value = [1]\<rparr>]"

text \<open>One of the three loops: every task is tried, and the number of failures goes up with each that fails.\<close>

fun tryTasks :: "('t \<Rightarrow> ('w, 'a) mbCall) \<Rightarrow> 't list \<Rightarrow> nat \<times> (ModbusClient \<times> 'w) \<Rightarrow> nat \<times> (ModbusClient \<times> 'w)" where
  "tryTasks f [] (failures, s) = (failures, s)"
| "tryTasks f (t # ts) (failures, s) = (case f t s of
     (Inl _, s') \<Rightarrow> tryTasks f ts (failures + 1, s')
   | (Inr _, s') \<Rightarrow> tryTasks f ts (failures, s'))"

definition runTasks :: "'w NetOps \<Rightarrow> ModbusClient \<times> 'w \<Rightarrow> nat \<times> (ModbusClient \<times> 'w)" where
  "runTasks N s =
     tryTasks (\<lambda>t. readU32Row N (rd_addr t) (rd_countU32 t) (rd_inputRegs t)) readTasks
       (tryTasks (\<lambda>t. writeU32Row N (wt_addr t) (wt_value t)) writeU32Tasks
         (tryTasks (\<lambda>t. exampleWriteU16 N (wt_addr t) (wt_value t)) writeU16Tasks (0, s)))"

text \<open>The exit code, and the world after the client has gone out of scope.\<close>

definition exampleMain :: "'w NetOps \<Rightarrow> 'w \<Rightarrow> int \<times> 'w" where
  "exampleMain N w = (case mbRtuOverTcp ''10.1.1.102'' 4002 2 of
     Inl _ \<Rightarrow> (1, w)
   | Inr c \<Rightarrow> (case mbSetConnectTimeout 1000 (c, w) of
       (Inl _, s) \<Rightarrow> (1, mbCleanup N s)
     | (Inr _, s) \<Rightarrow> (case mbSetResponseTimeout N 1000 s of
         (Inl _, s') \<Rightarrow> (1, mbCleanup N s')
       | (Inr _, s') \<Rightarrow> (case mbConnect N s' of
           (Inl _, s'') \<Rightarrow> (1, mbCleanup N s'')
         | (Inr _, s'') \<Rightarrow> (case runTasks N s'' of
             (failures, s''') \<Rightarrow> (if 0 < failures then 2 else 0, mbCleanup N (mbClose N s''')))))))"

section \<open>Facts\<close>

lemma rowRegisters_simps [simp]:
  "rowRegisters [] = []" "rowRegisters (v # vs) = upper16 v # lower16 v # rowRegisters vs"
  by (simp_all add: rowRegisters_def)

lemma rowRegisters_length [simp]: "length (rowRegisters vs) = 2 * length vs"
  by (induction vs) simp_all

lemma rowValues_Cons: "rowValues (Suc n) (hi # lo # regs) = word32 hi lo # rowValues n regs"
  by (simp add: rowValues_def upt_conv_Cons map_Suc_upt [symmetric] del: upt_Suc map_Suc_upt)

lemma row_roundtrip: "rowValues (length vs) (rowRegisters vs) = vs"
  by (induction vs) (simp_all add: rowValues_Cons, simp add: rowValues_def)

lemma pokes_before: "a' < a \<Longrightarrow> pokes s a vs rf s a' = rf s a'"
  by (induction s a vs rf rule: pokes.induct) simp_all

lemma peeks_pokes: "peeks (pokes s a vs rf) s a (int (length vs)) = vs"
proof (induction vs arbitrary: a rf)
  case (Cons v vs)
  have "peeks rf' s a (int (length (v # vs))) = rf' s a # peeks rf' s (a + 1) (int (length vs))" for rf'
    unfolding peeks_def nat_int by (simp add: upt_conv_Cons map_Suc_upt [symmetric] add.assoc del: upt_Suc map_Suc_upt)
  then show ?case by (simp add: Cons.IH pokes_before)
qed (simp add: peeks_def)

text \<open>On a bus that keeps the contract a row is read back as it was written.\<close>

theorem u32_row_roundtrip:
  assumes "register_bus (clientBus N) ok slv regs writes" and "ok s" and "vs \<noteq> []" and "2 * length vs \<le> 123"
  shows "\<exists>s' s''. writeU32Row N addr vs s = (Inr (), s')
    \<and> readU32Row N addr (int (length vs)) False s' = (Inr vs, s'') \<and> regs s'' = regs s'
    \<and> writes s'' = writes s @ [MultipleRegisters (slv s) addr (rowRegisters vs)]"
proof -
  let ?rs = "rowRegisters vs"
  have n: "?rs \<noteq> []" "length ?rs \<le> 123" using assms(3,4) by (cases vs; simp)+
  from register_bus.writeMultiple [OF assms(1,2) n, of addr] obtain s' where
    1: "mbWriteMultipleRegisters N addr ?rs s = (Inr (), s')" "ok s'" "slv s' = slv s"
      "regs s' = pokes (slv s) addr ?rs (regs s)" "writes s' = writes s @ [MultipleRegisters (slv s) addr ?rs]"
    by (auto simp: clientBus_def)
  from register_bus.readHolding [OF assms(1) 1(2), of "int (length ?rs)" addr] obtain s'' where
    2: "bo_readHolding (clientBus N) addr (int (length ?rs)) s' = (Inr (peeks (regs s') (slv s') addr (int (length ?rs))), s'')"
      "regs s'' = regs s'" "writes s'' = writes s'"
    using n assms(3) by auto
  have "peeks (regs s') (slv s') addr (int (length ?rs)) = ?rs"
    unfolding 1(3,4) by (rule peeks_pokes)
  then have read: "mbReadHoldingRegisters N addr (int (length vs) * 2) s' = (Inr ?rs, s'')"
    using 2(1) by (simp add: clientBus_def mult.commute)
  have "readU32Row N addr (int (length vs)) False s' = (Inr vs, s'')"
    using assms(3) unfolding readU32Row_def if_False by (simp add: read row_roundtrip Suc_leI)
  moreover have "writeU32Row N addr vs s = (Inr (), s')" using 1(1) assms(3) by (simp add: writeU32Row_def)
  ultimately show ?thesis using 1(5) 2(2,3) by (intro exI [of _ s'] exI [of _ s'']) simp
qed

text \<open>The code is 0 only for a client that was connected and a run in which no task failed; a failure of one task
  does not keep the others from being tried.\<close>

lemma tryTasks_count: "fst (tryTasks f ts (failures, s)) = failures + fst (tryTasks f ts (0, s))"
proof (induction ts arbitrary: failures s)
  case (Cons t ts)
  show ?case
    using Cons.IH [of "failures + 1"] Cons.IH [of 1] Cons.IH [of failures] 
    by (cases "f t s") (auto split: sum.split)
qed simp

theorem example_exit:
  assumes "exampleMain N w = (code, w')"
  shows "code \<in> {0, 1, 2} \<and> (code = 0 \<longrightarrow> (\<exists>c s s' s''. mbRtuOverTcp ''10.1.1.102'' 4002 2 = Inr c
    \<and> mbConnect N s = (Inr (), s') \<and> runTasks N s' = (0, s'') \<and> w' = mbCleanup N (mbClose N s'')))"
  using assms by (auto simp: exampleMain_def split: sum.splits prod.splits if_splits) blast

theorem u32_row_roundtrip_witness:
  "\<exists>s' s''. writeU32Row fakeNet 0x116E [17] demoBus = (Inr (), s') \<and> readU32Row fakeNet 0x116E 1 False s' = (Inr [17], s'')"
  using u32_row_roundtrip [OF fakeBus.register_bus_axioms demo_ok(1), of "[17]" "0x116E"] by auto

end
