(* ===== verification/Programs.thy ===== *)
theory Programs
  imports Startup CommandPath ModbusExample
begin

text \<open>
  The programs around the library of the server: the server itself (\<^verbatim>\<open>Server/apps/rimoServer.cpp\<close>) and the two small
  tests of the I/O unit and of a serial bus (\<^verbatim>\<open>modbusTestTCP.cpp\<close>, \<^verbatim>\<open>modbusTestRTU.cpp\<close>). The argument parser,
  the file system, the loading of a YAML file and the binding of the server's sockets are parameters. A signal asks for the end of the server.
\<close>

section \<open>The configuration file\<close>

text \<open>\<open>Inl\<close> is an exit code; the value of \<open>parseArgs\<close> is that of the option \<^verbatim>\<open>--config\<close>, if it was used.\<close>

definition chooseConfig :: "(string list \<Rightarrow> exn + string option) \<Rightarrow> (string \<Rightarrow> bool) \<Rightarrow> string list \<Rightarrow> int + string" where
  "chooseConfig parseArgs exists argv = (case parseArgs argv of
     Inl _ \<Rightarrow> Inl 1
   | Inr given \<Rightarrow> (let configPath = (case given of None \<Rightarrow> ''/etc/rimokunControl.yaml'' | Some path \<Rightarrow> path)
       in if \<not> exists configPath then Inl 1 else Inr configPath))"

text \<open>\<^verbatim>\<open>Config::setConfigPath\<close>.\<close>

definition setConfigPath :: "(string \<Rightarrow> exn + Yaml) \<Rightarrow> string \<Rightarrow> exn + Config" where
  "setConfigPath loadFile configPath = bindE (loadFile configPath) (\<lambda>node.
     Inr \<lparr>cf_configPath = configPath, cf_topNode = node\<rparr>)"

section \<open>The server\<close>

text \<open>What has become of the program when its threads could run: it has exited, an exception that nobody catches has
  ended it, or the machine is there.\<close>

datatype ('i, 'c, 'w) StartOutcome = Exited int | Terminated exn | Serving SerialSettings "('i, 'c, PolicyState, 'w) Machine"

fun orTerminated :: "exn + 'a \<Rightarrow> ('a \<Rightarrow> ('i, 'c, 'w) StartOutcome) \<Rightarrow> ('i, 'c, 'w) StartOutcome" where
  "orTerminated (Inl e) f = Terminated e"
| "orTerminated (Inr x) f = f x"

fun servingAfter :: "SerialSettings \<Rightarrow> (exn + unit) \<times> ('i, 'c, PolicyState, 'w) Machine \<Rightarrow> ('i, 'c, 'w) StartOutcome" where
  "servingAfter serial (Inl e, m) = Terminated e"
| "servingAfter serial (Inr _, m) = Serving serial m"

lemma servingAfter_Serving [simp]: "servingAfter serial' r = Serving serial m \<longleftrightarrow> serial' = serial \<and> r = (Inr (), m)"
  by (cases "(serial', r)" rule: servingAfter.cases) auto

lemma orTerminated_Serving [simp]:
  "orTerminated r f = Serving serial m \<longleftrightarrow> (\<exists>x. r = Inr x \<and> f x = Serving serial m)"
  by (cases r) auto

definition serverStart ::
  "('i, 'c, PolicyState, 'w) Platform \<Rightarrow> YamlLib \<Rightarrow> SerialNames \<Rightarrow> (string list \<Rightarrow> exn + string option) \<Rightarrow> (string \<Rightarrow> bool)
     \<Rightarrow> (string \<Rightarrow> exn + Yaml) \<Rightarrow> (string \<Rightarrow> string \<Rightarrow> 'w \<Rightarrow> exn + 'w) \<Rightarrow> string list \<Rightarrow> 'w \<Rightarrow> ('i, 'c, 'w) StartOutcome" where
  "serverStart F Y S parseArgs exists loadFile bindSockets argv w = (case chooseConfig parseArgs exists argv of
     Inl code \<Rightarrow> Exited code
   | Inr configPath \<Rightarrow>
       orTerminated (setConfigPath loadFile configPath) (\<lambda>cf.
       orTerminated (configuredMachine Y S bindSockets cf w) (\<lambda>(serial, m).
         servingAfter serial (thenA (wireConfigured Y cf) (initializeMachine F) m))))"

lemma frame_dummy: "preserves (idleFrame q rs) makeDummyStatus"
  unfolding makeDummyStatus_def by (rule preserves_modify) (simp add: idleFrame_def)

lemma initializeMachine_frame: "preserves (idleFrame q rs) (initializeMachine F)"
  unfolding initializeMachine_def initializeComponents_def seqA.simps
  by (intro preserves_getbind preserves_if preserves_then preserves_throw preserves_ret preserves_for preserves_catch
      frame_initialize frame_dummy preserves_modify) (auto simp: idleFrame_def)

lemma running_components:
  "preserves mn_isRunning (onContec act)" "preserves mn_isRunning (onMotors act')" "preserves mn_isRunning (onPanel act'')"
  "preserves mn_isRunning (zoomA mn_world (\<lambda>w m. m\<lparr>mn_world := w\<rparr>) act3)"
  unfolding onContec_def onMotors_def onPanel_def by (rule preserves_zoom; auto)+

lemma running_initialize: "preserves mn_isRunning (initializeComponents F)"
  unfolding initializeComponents_def initializeComponent_def initializePanel_def
  by (intro preserves_for preserves_catch preserves_ret, simp split: ERobotComponent.split)
    (auto intro!: frame_rules running_components)

lemma initializeMachine_running:
  assumes "initializeMachine F m = (Inr (), m')"
  shows "mn_isRunning m'"
proof -
  have "initializeComponents F (m\<lparr>mn_isRunning := True, mn_robotStatus := dummyStatus (mn_robotStatus m)\<rparr>) = (Inr (), m')"
    using assms by (auto simp: initializeMachine_def makeDummyStatus_def act_defs split: if_splits prod.splits sum.splits)
  with preservesD [OF running_initialize, of "m\<lparr>mn_isRunning := True, mn_robotStatus := dummyStatus (mn_robotStatus m)\<rparr>" F]
  show ?thesis by simp
qed

text \<open>C6: however the server was started, whatever is connected to it: once it serves, no sequence of
  submissions, cycles, answers and shutdowns stops it or loses a command. Every command that was accepted has
  exactly one reply or is still queued, in the order of acceptance, none is left after a shutdown, and whoever
  asks for the answer of a command with a promise of its own is told that the wait timed out, that the machine
  is shutting down, or what the handling of that very command gave.\<close>

theorem server_accounts:
  assumes "serverStart F Y S parseArgs exists loadFile bindSockets argv w = Serving serial m"
  shows "mn_isRunning m \<and> (\<exists>ls' m' evs. pathRun F steps (ls, m, []) = Some (ls', m', evs)
    \<and> pathAccount F (Stop \<in> set steps) m' evs)"
proof -
  from assms obtain cf m0 where m0: "configuredMachine Y S bindSockets cf w = Inr (serial, m0)"
    and start: "thenA (wireConfigured Y cf) (initializeMachine F) m0 = (Inr (), m)"
    unfolding serverStart_def by (auto split: sum.splits prod.splits)
  from start obtain m1 where m1: "wireConfigured Y cf m0 = (Inr (), m1)" and m: "initializeMachine F m1 = (Inr (), m)"
    by (auto simp: thenA_def bindA_def split: sum.splits prod.splits)
  from configuredMachine_parts [OF m0] m1 have "idleFrame (mn_commandQueue m1) [] m1" "cq_q (mn_commandQueue m1) = []"
    by (auto simp: wireConfigured_def wire_def idleFrame_def act_defs liftE_def)
  with preservesD [OF initializeMachine_frame this(1), of F] m
  have "isWired m" "cq_q (mn_commandQueue m) = []" "mn_replies m = []" by (auto simp: idleFrame_self)
  from path_accounts [OF this, of F steps ls] initializeMachine_running [OF m] show ?thesis by simp
qed

lemma forA_catch_returns: "\<exists>s'. forA xs (\<lambda>x. catchA (f x) (\<lambda>_. ret ())) s = (Inr (), s')"
proof (induction xs arbitrary: s)
  case (Cons x xs)
  obtain r s1 where 1: "f x s = (r, s1)" by (metis surj_pair)
  obtain s' where "forA xs (\<lambda>x. catchA (f x) (\<lambda>_. ret ())) s1 = (Inr (), s')" using Cons.IH by blast
  with 1 show ?case by (cases r) (simp_all add: act_defs)
qed (simp add: act_defs)

lemma initializeMachine_returns:
  assumes "mn_wired m \<noteq> None" and "\<not> mn_isRunning m"
  shows "\<exists>m'. initializeMachine F m = (Inr (), m')"
proof -
  obtain m' where "initializeComponents F (m\<lparr>mn_isRunning := True, mn_robotStatus := dummyStatus (mn_robotStatus m)\<rparr>) = (Inr (), m')"
    using forA_catch_returns [of allComponents "initializeComponent F"] by (metis initializeComponents_def)
  with assms show ?thesis by (simp add: initializeMachine_def makeDummyStatus_def act_defs)
qed

theorem server_accounts_witness:
  "\<exists>serial m ls' m' evs. serverStart demoPlatform coreYaml demoSerial (\<lambda>_. Inr (Some ''server.yaml'')) (\<lambda>_. True)
      (\<lambda>_. Inr (cf_topNode smallServer)) (\<lambda>_ _. Inr) [''rimoServer'', ''-c'', ''server.yaml''] fakeReset = Serving serial m
    \<and> pathRun demoPlatform [Submit \<lparr>cmd_payload = EmergencyStopCommand, cmd_reply = 1\<rparr>, Cycle, Stop] (demoLoop, m, [])
        = Some (ls', m', evs)
    \<and> cq_q (mn_commandQueue m') = []"
proof -
  obtain serial and m :: "(ModbusClient, ModbusClient, PolicyState, FakeWorld) Machine" where
    m: "configuredMachine coreYaml demoSerial (\<lambda>_ _. Inr) smallServer fakeReset = Inr (serial, m)"
    using small_server by blast
  have idle: "mn_wired m = None" "\<not> mn_isRunning m" using configuredMachine_parts [OF m] by auto
  then obtain m1 where m1: "wireConfigured coreYaml smallServer m = (Inr (), m1)" "mn_wired m1 \<noteq> None" "\<not> mn_isRunning m1"
    by (auto simp: wireConfigured_def wire_def act_defs liftE_def)
  obtain m2 where m2: "initializeMachine demoPlatform m1 = (Inr (), m2)"
    using initializeMachine_returns [OF m1(2,3)] by blast
  have "setConfigPath (\<lambda>_. Inr (cf_topNode smallServer)) ''server.yaml'' = Inr smallServer"
    by (simp add: setConfigPath_def smallServer_def)
  then have start: "serverStart demoPlatform coreYaml demoSerial (\<lambda>_. Inr (Some ''server.yaml'')) (\<lambda>_. True)
      (\<lambda>_. Inr (cf_topNode smallServer)) (\<lambda>_ _. Inr) [''rimoServer'', ''-c'', ''server.yaml''] fakeReset = Serving serial m2"
    by (simp add: serverStart_def chooseConfig_def m m1(1) m2 thenA_def bindA_def)
  from server_accounts [OF start, of "[Submit \<lparr>cmd_payload = EmergencyStopCommand, cmd_reply = 1\<rparr>, Cycle, Stop]" demoLoop]
  obtain ls' m' evs where
    "pathRun demoPlatform [Submit \<lparr>cmd_payload = EmergencyStopCommand, cmd_reply = 1\<rparr>, Cycle, Stop] (demoLoop, m2, [])
      = Some (ls', m', evs)" "cq_q (mn_commandQueue m') = []"
    unfolding pathAccount_def by auto
  with start show ?thesis by blast
qed

section \<open>The test of the I/O unit\<close>

text \<open>One pass of the endless loop, on the outputs it keeps: two buttons to two lamps.\<close>

definition ioTestRound :: "('c, 'w) ContecOps \<Rightarrow> bool list \<Rightarrow> ('c, 'w, bool list) ctAct" where
  "ioTestRound C outputs = bindA (ctReadInputs C) (\<lambda>inputs.
     let outs = outputs[2 := inputs ! 9, 3 := inputs ! 10] in
     thenA (ctSetOutputs C outs) (ret outs))"

fun ioTestLoop :: "('c, 'w) ContecOps \<Rightarrow> nat \<Rightarrow> bool list \<Rightarrow> ('c, 'w, bool list) ctAct" where
  "ioTestLoop C 0 outputs = ret outputs"
| "ioTestLoop C (Suc n) outputs = bindA (ioTestRound C outputs) (ioTestLoop C n)"

definition ioTest :: "('c, 'w) ContecOps \<Rightarrow> nat \<Rightarrow> ('c, 'w, bool list) ctAct" where
  "ioTest C n = thenA (ctSetOutputs C [False, True, True, True, True, True, True, True])
     (ioTestLoop C n (replicate 8 False))"

text \<open>The test only works on a unit with eight outputs.\<close>

lemma io_test_needs_eight:
  "ct_nDO ct \<noteq> 8 \<Longrightarrow> \<exists>msg. ioTest C n (ct, w) = (Inl msg, (ct, w))"
  by (simp add: ioTest_def ctSetOutputs_def act_defs)

text \<open>After the first writing no output but those of the lamps is ever on.\<close>

lemma io_test_lamps:
  assumes "ioTestLoop C n outputs s = (Inr outs, s')" and "length outputs = 8" and "\<forall>i < 8. i \<notin> {2, 3} \<longrightarrow> \<not> outputs ! i"
  shows "length outs = 8 \<and> (\<forall>i < 8. i \<notin> {2, 3} \<longrightarrow> \<not> outs ! i)"
  using assms
proof (induction n arbitrary: outputs s)
  case (Suc n)
  then obtain mid s1 where r: "ioTestRound C outputs s = (Inr mid, s1)" "ioTestLoop C n mid s1 = (Inr outs, s')"
    by (auto simp: bindA_def split: prod.splits sum.splits)
  then obtain a b where "mid = outputs[2 := a, 3 := b]"
    by (auto simp: ioTestRound_def Let_def act_defs split: prod.splits sum.splits)
  with Suc.prems have "length mid = 8" "\<forall>i < 8. i \<notin> {2, 3} \<longrightarrow> \<not> mid ! i" by (auto simp: nth_list_update)
  from Suc.IH [OF r(2) this] show ?case .
qed (simp add: act_defs)

section \<open>The test of a serial bus\<close>

definition serialTest :: "'w NetOps \<Rightarrow> 'w \<Rightarrow> int \<times> 'w" where
  "serialTest N w = (case mbRtu N ''/dev/ttyM0'' 9600 CHR ''N'' 8 1 3 w of
     (Inl _, w') \<Rightarrow> (1, w')
   | (Inr c, w') \<Rightarrow> (case mbConnect N (c, w') of
       (Inl _, s) \<Rightarrow> (1, mbCleanup N s)
     | (Inr _, s) \<Rightarrow> (case mbSetResponseTimeout N 1000 s of (_, s1) \<Rightarrow>
         (case mbReadHoldingRegisters N 0 10 s1 of (_, s2) \<Rightarrow> (0, mbCleanup N (mbClose N s2))))))"

text \<open>Its code says whether the port was there, not whether the device answered.\<close>

lemma serial_test_code:
  assumes "mbRtu N ''/dev/ttyM0'' 9600 CHR ''N'' 8 1 3 w = (Inr c, w')"
  shows "fst (serialTest N w) = (case mbConnect N (c, w') of (Inl _, _) \<Rightarrow> 1 | (Inr _, _) \<Rightarrow> 0)"
  by (simp add: serialTest_def assms split: prod.split sum.split)

end
