(* ===== verification/ContecWindow.thy ===== *)
theory ContecWindow
  imports Configuration MachineProps StatusJson
begin

text \<open>
  The monitor of the I/O unit in the operator interface (\<^verbatim>\<open>GUI/src/ContecPanelWindow.cpp\<close>): a row with the
  signal name and a lamp for every input and output, filled from the server's reply to the diagnostics
  command. A label is the text it shows, a lamp its state; the arrangement on the screen is left out.
\<close>

section \<open>The window\<close>

record ChannelRow =
  cr_signalLabel :: string
  cr_led :: ELEDState

record ContecPanelWindow =
  cw_stateLamp :: ELEDState
  cw_autoRefresh :: bool
  cw_errorLabel :: string
  cw_visible :: bool
  cw_inputRows :: "ChannelRow list"
  cw_outputRows :: "ChannelRow list"
  cw_issued :: "GuiCommand list"

definition emptyRow :: ChannelRow where
  "emptyRow = \<lparr>cr_signalLabel = ''-'', cr_led = Off\<rparr>"

definition createRows :: "nat \<Rightarrow> ChannelRow list" where
  "createRows count = replicate count emptyRow"

definition makeContecWindow :: "YamlLib \<Rightarrow> Config \<Rightarrow> exn + ContecPanelWindow" where
  "makeContecWindow Y cf =
     bindE (getRequired Y (yl_unsigned Y) cf ''Contec'' ''nDI'') (\<lambda>inputCount.
     bindE (getRequired Y (yl_unsigned Y) cf ''Contec'' ''nDO'') (\<lambda>outputCount.
     Inr \<lparr>cw_stateLamp = Off, cw_autoRefresh = False, cw_errorLabel = ''-'', cw_visible = False,
       cw_inputRows = createRows (nat inputCount), cw_outputRows = createRows (nat outputCount), cw_issued = []\<rparr>))"

type_synonym cwAct = "(ContecPanelWindow, unit) act"

definition contecRequestDiagnostics :: cwAct where
  "contecRequestDiagnostics = modifyA (\<lambda>w. w\<lparr>cw_issued := cw_issued w @ [GuiContecDiagnosticsCommand]\<rparr>)"

definition contecRefreshTick :: cwAct where
  "contecRefreshTick = bindA (getA cw_autoRefresh) (\<lambda>on. whenA on contecRequestDiagnostics)"

definition contecCloseEvent :: cwAct where
  "contecCloseEvent = modifyA (\<lambda>w. w\<lparr>cw_visible := False\<rparr>)"

text \<open>The lambda \<^verbatim>\<open>updateRows\<close>; a value of the wrong type throws, and the rows before it are filled.\<close>

definition rowText :: "string \<Rightarrow> string" where
  "rowText sig = (if sig = '''' then ''-'' else sig)"

definition lamp :: "bool \<Rightarrow> ELEDState" where
  "lamp active = (if active then On else Off)"

fun fillRows :: "JsonLib \<Rightarrow> Json list \<Rightarrow> (ChannelRow list, unit) act" where
  "fillRows L [] rows = (Inr (), rows)"
| "fillRows L (n # ns) [] = (Inr (), [])"
| "fillRows L (n # ns) (r # rs) =
     (if \<not> isObject n then (case fillRows L ns rs of (res, rs') \<Rightarrow> (res, r # rs'))
      else case bindE (valueOr (jl_string L) ''signal'' '''' n) (\<lambda>sig.
                bindE (valueOr (jl_bool L) ''active'' False n) (\<lambda>active. Inr (sig, active))) of
        Inl e \<Rightarrow> (Inl e, r # rs)
      | Inr (sig, active) \<Rightarrow> (case fillRows L ns rs of
          (res, rs') \<Rightarrow> (res, \<lparr>cr_signalLabel = rowText sig, cr_led = lamp active\<rparr> # rs')))"

definition updateRows :: "JsonLib \<Rightarrow> Json option \<Rightarrow> (ChannelRow list, unit) act" where
  "updateRows L nodes = (case nodes of Some (JArray ns) \<Rightarrow> fillRows L ns | _ \<Rightarrow> ret ())"

definition updateFromPayload :: "JsonLib \<Rightarrow> Json \<Rightarrow> cwAct" where
  "updateFromPayload L payload = seqA
     [modifyA (\<lambda>w. w\<lparr>cw_inputRows := map (\<lambda>_. emptyRow) (cw_inputRows w)\<rparr>),
      modifyA (\<lambda>w. w\<lparr>cw_outputRows := map (\<lambda>_. emptyRow) (cw_outputRows w)\<rparr>),
      zoomA cw_inputRows (\<lambda>rs w. w\<lparr>cw_inputRows := rs\<rparr>) (updateRows L (fieldOf payload ''inputs'')),
      zoomA cw_outputRows (\<lambda>rs w. w\<lparr>cw_outputRows := rs\<rparr>) (updateRows L (fieldOf payload ''outputs''))]"

definition setContecState :: "ELEDState \<Rightarrow> cwAct" where
  "setContecState st = modifyA (\<lambda>w. w\<lparr>cw_stateLamp := st\<rparr>)"

definition setContecError :: "string \<Rightarrow> cwAct" where
  "setContecError text = modifyA (\<lambda>w. w\<lparr>cw_errorLabel := text\<rparr>)"

definition contecProcessResponse :: "JsonLib \<Rightarrow> GuiResponse \<Rightarrow> cwAct" where
  "contecProcessResponse L response =
     (if \<not> gr_ok response then seqA
        [updateFromPayload L (object []), setContecState ELEDState.Error,
         setContecError (''Error: '' @ (if gr_message response = '''' then ''Unknown Contec monitor error'' else gr_message response))]
      else case gr_payload response of
        None \<Rightarrow> thenA (updateFromPayload L (object [])) (setContecState ELEDState.Error)
      | Some payload \<Rightarrow> thenA (updateFromPayload L payload)
          (case fieldOf payload ''diagnosticsError'' of
             Some (JString e) \<Rightarrow> thenA (setContecState ELEDState.Error) (setContecError (''Error: '' @ e))
           | _ \<Rightarrow> thenA (setContecState On) (setContecError ''-'')))"

section \<open>What it shows\<close>

text \<open>The rows for the named channels of the server and their readings.\<close>

definition rowsOf :: "string list \<Rightarrow> bool list \<Rightarrow> ChannelRow list" where
  "rowsOf names bits = map (\<lambda>i. \<lparr>cr_signalLabel = rowText (names ! i), cr_led = lamp (i < length bits \<and> bits ! i)\<rparr>) [0 ..< length names]"

context json_library
begin

lemma fillRows_channels:
  "length rows = length is \<Longrightarrow> fillRows L (map (channelJson pre names bits) is) rows
     = (Inr (), map (\<lambda>i. \<lparr>cr_signalLabel = rowText (names ! i), cr_led = lamp (i < length bits \<and> bits ! i)\<rparr>) is)"
proof (induction "is" arbitrary: rows)
  case (Cons i "is")
  then obtain r rs where "rows = r # rs" "length rs = length is" by (cases rows) auto
  with Cons.IH [of rs] show ?case
    by (simp add: channelJson_def valueOr_def fieldOf_object string bool)
qed simp

lemma updateFromPayload_contec:
  assumes "length (cw_inputRows w) = length ins" and "length (cw_outputRows w) = length outs"
    and "fieldOf payload ''inputs'' = fieldOf (contecResponse ins outs inBits outBits) ''inputs''"
    and "fieldOf payload ''outputs'' = fieldOf (contecResponse ins outs inBits outBits) ''outputs''"
  shows "updateFromPayload L payload w = (Inr (), w\<lparr>cw_inputRows := rowsOf ins inBits, cw_outputRows := rowsOf outs outBits\<rparr>)"
  using assms
  by (simp add: updateFromPayload_def updateRows_def act_defs contecResponse_def fieldOf_object fillRows_channels rowsOf_def)

end

lemma length_nameChannels [simp]: "length (nameChannels m names) = length names"
  by (induction m names rule: nameChannels.induct) auto

lemma length_buildNames [simp]: "length (buildContecChannelNames m n) = n"
  by (simp add: buildContecChannelNames_def)

text \<open>A channel gets the first name the mapping has for it, empty when it has none.\<close>

fun channelName :: "(string \<times> nat) list \<Rightarrow> nat \<Rightarrow> string" where
  "channelName [] i = ''''"
| "channelName ((k, j) # m) i = (if j = i \<and> k \<noteq> '''' then k else channelName m i)"

lemma nameChannels_nth:
  "i < length names \<Longrightarrow> nameChannels m names ! i = (if names ! i \<noteq> '''' then names ! i else channelName m i)"
  by (induction m names rule: nameChannels.induct) (auto simp: nth_list_update)

lemma buildNames_nth: "i < n \<Longrightarrow> buildContecChannelNames m n ! i = channelName m i"
  by (simp add: buildContecChannelNames_def nameChannels_nth)

lemma channelName_unique:
  assumes "distinct (map snd m)" and "(k, i) \<in> set m" and "k \<noteq> ''''"
  shows "channelName m i = k"
  using assms by (induction m i rule: channelName.induct) (auto simp: image_iff)

definition labelsOf :: "ChannelRow list \<Rightarrow> string list" where
  "labelsOf rows = map cr_signalLabel rows"

lemma labelsOf_rows:
  "labelsOf (rowsOf (buildContecChannelNames m n) bits) = map (\<lambda>i. rowText (channelName m i)) [0 ..< n]"
  by (simp add: labelsOf_def rowsOf_def buildNames_nth)

lemma ledsOf_rows: "length names = n \<Longrightarrow> map cr_led (rowsOf names bits) = map (\<lambda>i. lamp (i < length bits \<and> bits ! i)) [0 ..< n]"
  by (simp add: rowsOf_def)

lemma rowText_unique:
  "distinct (map snd m) \<Longrightarrow> (k, i) \<in> set m \<Longrightarrow> k \<noteq> '''' \<Longrightarrow> rowText (channelName m i) = k"
  by (simp add: channelName_unique rowText_def)

text \<open>The readings of a diagnostics command.\<close>

definition readContecBits :: "('i, 'c, 'p, 'w) Platform \<Rightarrow> ('i, 'c, 'p, 'w) Machine \<Rightarrow> exn + bool list \<times> bool list" where
  "readContecBits F m = fst (bindA (onContec (ctReadInputs (pf_io F))) (\<lambda>ins.
     bindA (onContec (ctReadOutputs (pf_io F))) (\<lambda>outs. ret (ins, outs))) m)"

lemma contecDiagnostics_payload:
  assumes "handleContecDiagnosticsCommand F m = (Inr payload, m')"
  defines "ins \<equiv> buildContecChannelNames (mn_inputMapping m) (ct_nDI (mn_contec m))"
    and "outs \<equiv> buildContecChannelNames (mn_outputMapping m) (ct_nDO (mn_contec m))"
  shows "payload = (case readContecBits F m of
      Inl e \<Rightarrow> setField ''diagnosticsError'' (JString e) (contecResponse ins outs [] [])
    | Inr (i, out) \<Rightarrow> contecResponse ins outs i out)"
  using assms
  by (auto simp: handleContecDiagnosticsCommand_def readContecBits_def Let_def catchA_def bindA_def ret_def
      split: prod.splits sum.splits)

text \<open>C19: the monitor of the I/O unit shows what the server read. For a window that has the server's numbers of
  input and output rows, an accepted reply to a diagnostics command fills every row, without exception: the
  input rows with the names of the server's input mapping, the output rows with those of its output mapping (the
  first non-empty name for the channel, a dash where there is none), and the lamps with the values read; the
  state lamp is green and no error is shown. When a reading failed the names are the same, all lamps are off,
  the state lamp is red and the error is shown. So for a mapping that gives no channel twice every signal with
  a non-empty name is on the row of its channel, for inputs and outputs alike.\<close>

theorem contec_window_shows_signals:
  assumes "json_library L" and "handleContecDiagnosticsCommand F m = (Inr payload, m')"
    and "length (cw_inputRows w) = ct_nDI (mn_contec m)" and "length (cw_outputRows w) = ct_nDO (mn_contec m)"
    and "gr_ok response" and "gr_payload response = Some payload"
  shows "\<exists>w'. contecProcessResponse L response w = (Inr (), w')
    \<and> (case readContecBits F m of
        Inl e \<Rightarrow> cw_stateLamp w' = ELEDState.Error \<and> cw_errorLabel w' = ''Error: '' @ e
          \<and> (\<forall>r \<in> set (cw_inputRows w') \<union> set (cw_outputRows w'). cr_led r = Off)
      | Inr (ins, outs) \<Rightarrow> cw_stateLamp w' = On \<and> cw_errorLabel w' = ''-''
          \<and> map cr_led (cw_inputRows w') = map (\<lambda>i. lamp (i < length ins \<and> ins ! i)) [0 ..< ct_nDI (mn_contec m)]
          \<and> map cr_led (cw_outputRows w') = map (\<lambda>i. lamp (i < length outs \<and> outs ! i)) [0 ..< ct_nDO (mn_contec m)])
    \<and> map cr_signalLabel (cw_inputRows w') = map (\<lambda>i. rowText (channelName (mn_inputMapping m) i)) [0 ..< ct_nDI (mn_contec m)]
    \<and> map cr_signalLabel (cw_outputRows w') = map (\<lambda>i. rowText (channelName (mn_outputMapping m) i)) [0 ..< ct_nDO (mn_contec m)]
    \<and> (\<forall>(k, i) \<in> set (mn_inputMapping m). distinct (map snd (mn_inputMapping m)) \<and> k \<noteq> '''' \<and> i < ct_nDI (mn_contec m)
        \<longrightarrow> cr_signalLabel (cw_inputRows w' ! i) = k)
    \<and> (\<forall>(k, i) \<in> set (mn_outputMapping m). distinct (map snd (mn_outputMapping m)) \<and> k \<noteq> '''' \<and> i < ct_nDO (mn_contec m)
        \<longrightarrow> cr_signalLabel (cw_outputRows w' ! i) = k)"
proof -
  let ?ins = "buildContecChannelNames (mn_inputMapping m) (ct_nDI (mn_contec m))"
  let ?outs = "buildContecChannelNames (mn_outputMapping m) (ct_nDO (mn_contec m))"
  note payload = contecDiagnostics_payload [OF assms(2)]
  note upd = json_library.updateFromPayload_contec [OF assms(1), where w = w and ins = ?ins and outs = ?outs and payload = payload]
  have rows: "\<exists>w'. contecProcessResponse L response w = (Inr (), w')
      \<and> (case readContecBits F m of
          Inl e \<Rightarrow> cw_stateLamp w' = ELEDState.Error \<and> cw_errorLabel w' = ''Error: '' @ e
            \<and> cw_inputRows w' = rowsOf ?ins [] \<and> cw_outputRows w' = rowsOf ?outs []
        | Inr (i, out) \<Rightarrow> cw_stateLamp w' = On \<and> cw_errorLabel w' = ''-''
            \<and> cw_inputRows w' = rowsOf ?ins i \<and> cw_outputRows w' = rowsOf ?outs out)"
  proof (cases "readContecBits F m")
    case (Inl e)
    with payload upd [of "[]" "[]"] assms(3-6) show ?thesis
      by (auto simp: contecProcessResponse_def thenA_def bindA_def setContecState_def setContecError_def contecResponse_def)
  next
    case (Inr bits)
    then obtain i out where b: "readContecBits F m = Inr (i, out)" by (cases bits) auto
    with payload upd [of i out] assms(3-6) show ?thesis
      by (auto simp: contecProcessResponse_def thenA_def bindA_def setContecState_def setContecError_def
          contecResponse_def fieldOf_object)
  qed
  have dark: "cr_led r = Off" if "r \<in> set (rowsOf names [])" for r names
    using that by (auto simp: rowsOf_def lamp_def)
  have at: "cr_signalLabel (rowsOf (buildContecChannelNames mp n) bits ! i) = k"
    if "(k, i) \<in> set mp" "distinct (map snd mp)" "k \<noteq> ''''" "i < n" for mp n bits k i
    using that by (simp add: rowsOf_def buildNames_nth rowText_unique)
  from rows show ?thesis
    by (elim exE, intro exI)
      (cases "readContecBits F m"; fastforce simp: labelsOf_rows [unfolded labelsOf_def] ledsOf_rows dark at)
qed

lemma contecDiagnostics_returns: "\<exists>payload m'. handleContecDiagnosticsCommand F m = (Inr payload, m')"
  by (simp add: handleContecDiagnosticsCommand_def Let_def catchA_def split: prod.split sum.split)

definition demoContecWindow :: ContecPanelWindow where
  "demoContecWindow = \<lparr>cw_stateLamp = Off, cw_autoRefresh = False, cw_errorLabel = ''-'', cw_visible = True,
     cw_inputRows = createRows 16, cw_outputRows = createRows 16, cw_issued = []\<rparr>"

theorem contec_window_shows_signals_witness:
  "\<exists>payload m' w'. handleContecDiagnosticsCommand demoPlatform demoMachine = (Inr payload, m')
    \<and> contecProcessResponse documentedJson \<lparr>gr_ok = True, gr_message = '''', gr_payload = Some payload\<rparr> demoContecWindow = (Inr (), w')
    \<and> cr_signalLabel (cw_inputRows w' ! 1) = ''button2'' \<and> cr_signalLabel (cw_outputRows w' ! 2) = ''toolChangerLeft''"
proof -
  obtain payload m' where p: "handleContecDiagnosticsCommand demoPlatform demoMachine = (Inr payload, m')"
    using contecDiagnostics_returns by blast
  let ?r = "\<lparr>gr_ok = True, gr_message = '''', gr_payload = Some payload\<rparr>"
  have sizes: "length (cw_inputRows demoContecWindow) = ct_nDI (mn_contec demoMachine)"
    "length (cw_outputRows demoContecWindow) = ct_nDO (mn_contec demoMachine)" "gr_ok ?r" "gr_payload ?r = Some payload"
    by (simp_all add: demoContecWindow_def createRows_def demoMachine_def)
  from contec_window_shows_signals [OF documentedJson.json_library_axioms p sizes]
  obtain w' where "contecProcessResponse documentedJson ?r demoContecWindow = (Inr (), w')"
    and ins: "map cr_signalLabel (cw_inputRows w') = map (\<lambda>i. rowText (channelName (mn_inputMapping demoMachine) i)) [0 ..< ct_nDI (mn_contec demoMachine)]"
    and outs: "map cr_signalLabel (cw_outputRows w') = map (\<lambda>i. rowText (channelName (mn_outputMapping demoMachine) i)) [0 ..< ct_nDO (mn_contec demoMachine)]"
    by (elim exE conjE) (rule that)
  moreover from arg_cong [OF ins, of "\<lambda>ls. ls ! 1"] arg_cong [OF ins, of length]
  have "cr_signalLabel (cw_inputRows w' ! 1) = ''button2''"
    by (simp add: demoMachine_def rowText_def)
  moreover from arg_cong [OF outs, of "\<lambda>ls. ls ! 2"] arg_cong [OF outs, of length]
  have "cr_signalLabel (cw_outputRows w' ! 2) = ''toolChangerLeft''"
    by (simp add: demoMachine_def rowText_def)
  ultimately show ?thesis using p by blast
qed

end
