(* ===== verification/MotorWindow.thy ===== *)
theory MotorWindow
  imports ContecWindow ViewModel
begin

text \<open>
  The monitor of one motor in the operator interface (\<^verbatim>\<open>GUI/src/MotorPanelWindow.cpp\<close>): the selected motor,
  its lamps and buttons, and the terminals and diagnostics from the server's reply. A label is the text it
  shows, a lamp its state, a button whether it is enabled; the layout is left out.

  The selection is a combo box of Qt: \<open>Q\<close> holds its operations, each telling whether the current index
  has changed, for then the box calls the slot connected to \<^verbatim>\<open>currentIndexChanged\<close>. What the class documents
  is the locale \<open>combo_box\<close>. A number of a received JSON value is unsigned when it is not negative.
\<close>

section \<open>The combo box\<close>

record 'q ComboBox =
  qc_clear :: "'q \<Rightarrow> bool \<times> 'q"
  qc_addItem :: "EMotor \<Rightarrow> 'q \<Rightarrow> bool \<times> 'q"
  qc_setCurrentIndex :: "int \<Rightarrow> 'q \<Rightarrow> bool \<times> 'q"
  qc_currentIndex :: "'q \<Rightarrow> int"
  qc_currentData :: "'q \<Rightarrow> EMotor"
  qc_findData :: "EMotor \<Rightarrow> 'q \<Rightarrow> int"

text \<open>The first of the items that is \<open>m\<close>, or -1.\<close>

fun indexOf :: "EMotor \<Rightarrow> EMotor list \<Rightarrow> int" where
  "indexOf m [] = -1"
| "indexOf m (x # xs) = (if x = m then 0 else if indexOf m xs = -1 then -1 else 1 + indexOf m xs)"

locale combo_box =
  fixes Q :: "'q ComboBox" and ok :: "'q \<Rightarrow> bool" and items :: "'q \<Rightarrow> EMotor list"
  assumes index_range: "ok q \<Longrightarrow> - 1 \<le> qc_currentIndex Q q \<and> qc_currentIndex Q q < int (length (items q))"
    and data: "ok q \<Longrightarrow> 0 \<le> qc_currentIndex Q q \<Longrightarrow> qc_currentData Q q = items q ! nat (qc_currentIndex Q q)"
    and findData: "ok q \<Longrightarrow> qc_findData Q m q = indexOf m (items q)"
    and clear: "ok q \<Longrightarrow> qc_clear Q q = (ch, q') \<Longrightarrow>
      ok q' \<and> items q' = [] \<and> ch = (qc_currentIndex Q q \<noteq> - 1)"
    and addItem: "ok q \<Longrightarrow> qc_addItem Q m q = (ch, q') \<Longrightarrow> ok q' \<and> items q' = items q @ [m] \<and> ch = (items q = [])
      \<and> qc_currentIndex Q q' = (if items q = [] then 0 else qc_currentIndex Q q)"
    and setCurrentIndex: "ok q \<Longrightarrow> - 1 \<le> i \<Longrightarrow> i < int (length (items q)) \<Longrightarrow> qc_setCurrentIndex Q i q = (ch, q') \<Longrightarrow>
      ok q' \<and> items q' = items q \<and> qc_currentIndex Q q' = i \<and> ch = (qc_currentIndex Q q \<noteq> i)"

section \<open>The window\<close>

datatype PendingRequest = NoRequest | DiagnosticsRequest | ResetAlarmRequest | EnableMotorRequest | DisableMotorRequest

type_synonym AssignmentRows = "string \<Rightarrow> (string \<times> ELEDState) option"

record 'q MotorPanelWindow =
  mw_motorSelector :: 'q
  mw_selectorEnabled :: bool
  mw_stateLamp :: ELEDState
  mw_enabledLamp :: ELEDState
  mw_inputRaw :: string
  mw_outputRaw :: string
  mw_netInputRaw :: string
  mw_netOutputRaw :: string
  mw_alarmText :: string
  mw_warningText :: string
  mw_refreshEnabled :: bool
  mw_resetAlarmEnabled :: bool
  mw_enableEnabled :: bool
  mw_disableEnabled :: bool
  mw_autoRefresh :: bool
  mw_timerActive :: bool
  mw_visible :: bool
  mw_inputRows :: AssignmentRows
  mw_outputRows :: AssignmentRows
  mw_netInputRows :: AssignmentRows
  mw_netOutputRows :: AssignmentRows
  mw_visibleMotors :: "EMotor list"
  mw_lastStatus :: RobotStatus
  mw_pendingRequest :: PendingRequest
  mw_issued :: "GuiCommand list"

type_synonym 'q mwAct = "('q MotorPanelWindow, unit) act"

definition createAssignmentRows :: "string list \<Rightarrow> AssignmentRows" where
  "createAssignmentRows channels = map_of (map (\<lambda>c. (c, (''-'', Off))) channels)"

definition inputChannels :: "string list" where
  "inputChannels = [''IN0'', ''IN1'', ''IN2'', ''IN3'', ''IN4'', ''IN5'', ''IN6'', ''IN7'', ''+LS'', ''-LS'', ''HOMES'', ''SLIT'']"

definition outputChannels :: "string list" where
  "outputChannels = [''OUT0'', ''OUT1'', ''OUT2'', ''OUT3'', ''OUT4'', ''OUT5'', ''MB'']"

definition netInputChannels :: "string list" where
  "netInputChannels = [''NET-IN0'', ''NET-IN1'', ''NET-IN2'', ''NET-IN3'', ''NET-IN4'', ''NET-IN5'', ''NET-IN6'', ''NET-IN7'',
     ''NET-IN8'', ''NET-IN9'', ''NET-IN10'', ''NET-IN11'', ''NET-IN12'', ''NET-IN13'', ''NET-IN14'', ''NET-IN15'']"

definition netOutputChannels :: "string list" where
  "netOutputChannels = [''NET-OUT0'', ''NET-OUT1'', ''NET-OUT2'', ''NET-OUT3'', ''NET-OUT4'', ''NET-OUT5'', ''NET-OUT6'',
     ''NET-OUT7'', ''NET-OUT8'', ''NET-OUT9'', ''NET-OUT10'', ''NET-OUT11'', ''NET-OUT12'', ''NET-OUT13'', ''NET-OUT14'',
     ''NET-OUT15'']"

definition newMotorWindow :: "'q \<Rightarrow> 'q MotorPanelWindow" where
  "newMotorWindow q = \<lparr>mw_motorSelector = q, mw_selectorEnabled = True, mw_stateLamp = Off, mw_enabledLamp = Off,
     mw_inputRaw = ''-'', mw_outputRaw = ''-'', mw_netInputRaw = ''-'', mw_netOutputRaw = ''-'', mw_alarmText = '''',
     mw_warningText = '''', mw_refreshEnabled = True, mw_resetAlarmEnabled = True, mw_enableEnabled = True,
     mw_disableEnabled = True, mw_autoRefresh = False, mw_timerActive = False, mw_visible = False,
     mw_inputRows = createAssignmentRows inputChannels, mw_outputRows = createAssignmentRows outputChannels,
     mw_netInputRows = createAssignmentRows netInputChannels, mw_netOutputRows = createAssignmentRows netOutputChannels,
     mw_visibleMotors = [], mw_lastStatus = emptyRobotStatus, mw_pendingRequest = NoRequest, mw_issued = []\<rparr>"

section \<open>Requests\<close>

definition selectedMotor :: "'q ComboBox \<Rightarrow> 'q MotorPanelWindow \<Rightarrow> EMotor option" where
  "selectedMotor Q w = (if qc_currentIndex Q (mw_motorSelector w) < 0 then None else Some (qc_currentData Q (mw_motorSelector w)))"

definition issueFor :: "'q ComboBox \<Rightarrow> PendingRequest \<Rightarrow> (EMotor \<Rightarrow> GuiCommand) \<Rightarrow> 'q mwAct" where
  "issueFor Q pending command = modifyA (\<lambda>w. case selectedMotor Q w of
     None \<Rightarrow> w
   | Some motor \<Rightarrow> w\<lparr>mw_pendingRequest := pending, mw_issued := mw_issued w @ [command motor]\<rparr>)"

definition requestDiagnostics :: "'q ComboBox \<Rightarrow> 'q mwAct" where
  "requestDiagnostics Q = issueFor Q DiagnosticsRequest GuiMotorDiagnosticsCommand"

definition requestResetAlarm :: "'q ComboBox \<Rightarrow> 'q mwAct" where
  "requestResetAlarm Q = issueFor Q ResetAlarmRequest GuiResetMotorAlarmCommand"

definition requestSetEnabled :: "'q ComboBox \<Rightarrow> bool \<Rightarrow> 'q mwAct" where
  "requestSetEnabled Q on = issueFor Q (if on then EnableMotorRequest else DisableMotorRequest)
     (\<lambda>motor. GuiSetMotorEnabledCommand motor on)"

text \<open>An operation of the selector, with the slot when the index has changed.\<close>

definition onSelector :: "'q ComboBox \<Rightarrow> ('q \<Rightarrow> bool \<times> 'q) \<Rightarrow> 'q mwAct" where
  "onSelector Q op = bindA (getA (\<lambda>w. op (mw_motorSelector w))) (\<lambda>(changed, q).
     thenA (modifyA (\<lambda>w. w\<lparr>mw_motorSelector := q\<rparr>)) (whenA changed (requestDiagnostics Q)))"

definition motorRefreshTick :: "'q ComboBox \<Rightarrow> 'q mwAct" where
  "motorRefreshTick Q = bindA (getA (\<lambda>w. mw_visible w \<and> mw_autoRefresh w)) (\<lambda>on. whenA on (requestDiagnostics Q))"

definition motorShowEvent :: "'q mwAct" where
  "motorShowEvent = modifyA (\<lambda>w. w\<lparr>mw_visible := True, mw_timerActive := True\<rparr>)"

definition motorHideEvent :: "'q mwAct" where
  "motorHideEvent = modifyA (\<lambda>w. w\<lparr>mw_visible := False, mw_timerActive := False\<rparr>)"

text \<open>\<^verbatim>\<open>closeEvent\<close> hides the window, which then gets its \<^verbatim>\<open>hideEvent\<close>.\<close>

definition motorCloseEvent :: "'q mwAct" where
  "motorCloseEvent = motorHideEvent"

section \<open>The status\<close>

definition disableButtons :: "'q mwAct" where
  "disableButtons = modifyA (\<lambda>w. w\<lparr>mw_resetAlarmEnabled := False, mw_enableEnabled := False, mw_disableEnabled := False\<rparr>)"

definition restoreIndex :: "EMotor option \<Rightarrow> EMotor list \<Rightarrow> int" where
  "restoreIndex selected motors = (case selected of None \<Rightarrow> 0
     | Some m \<Rightarrow> if m \<in> set motors then indexOf m motors else 0)"

definition rebuildMotorList :: "'q ComboBox \<Rightarrow> EMotor list \<Rightarrow> 'q mwAct" where
  "rebuildMotorList Q motors = bindA (getA (\<lambda>w. w)) (\<lambda>w. if motors = mw_visibleMotors w then ret () else
     let selected = selectedMotor Q w in
     thenA (modifyA (\<lambda>w. w\<lparr>mw_visibleMotors := motors\<rparr>))
     (thenA (onSelector Q (qc_clear Q))
     (thenA (forA motors (\<lambda>m. onSelector Q (qc_addItem Q m)))
     (if motors = []
      then thenA (modifyA (\<lambda>w. w\<lparr>mw_selectorEnabled := False, mw_refreshEnabled := False\<rparr>)) disableButtons
      else thenA (modifyA (\<lambda>w. w\<lparr>mw_selectorEnabled := True, mw_refreshEnabled := True\<rparr>))
             (onSelector Q (qc_setCurrentIndex Q (restoreIndex selected motors)))))))"

definition updateStateLamp :: "'q ComboBox \<Rightarrow> 'q mwAct" where
  "updateStateLamp Q = modifyA (\<lambda>w. case Option.bind (selectedMotor Q w) (rs_motors (mw_lastStatus w)) of
     None \<Rightarrow> w\<lparr>mw_stateLamp := Off, mw_enabledLamp := Off, mw_resetAlarmEnabled := False, mw_enableEnabled := False,
       mw_disableEnabled := False\<rparr>
   | Some status \<Rightarrow> (let enabledState = flagOrOff status Enabled in
       w\<lparr>mw_stateLamp := sms_state status, mw_enabledLamp := enabledState,
         mw_resetAlarmEnabled := (sms_state status = ELEDState.Error), mw_enableEnabled := (enabledState \<noteq> On),
         mw_disableEnabled := (enabledState = On)\<rparr>))"

definition setRobotStatus :: "'q ComboBox \<Rightarrow> RobotStatus \<Rightarrow> 'q mwAct" where
  "setRobotStatus Q status = seqA
     [modifyA (\<lambda>w. w\<lparr>mw_lastStatus := status\<rparr>),
      rebuildMotorList Q (mapKeys allMotors (rs_motors status)),
      updateStateLamp Q]"

definition setSelectedMotor :: "'q ComboBox \<Rightarrow> EMotor \<Rightarrow> 'q mwAct" where
  "setSelectedMotor Q motor = bindA (getA (\<lambda>w. qc_findData Q motor (mw_motorSelector w))) (\<lambda>index.
     if 0 \<le> index then thenA (onSelector Q (qc_setCurrentIndex Q index)) (requestDiagnostics Q) else ret ())"

section \<open>Responses\<close>

definition hexLowerDigit :: "nat \<Rightarrow> char" where
  "hexLowerDigit d = (if d < 10 then char_of (48 + d) else char_of (87 + d))"

fun hexLower :: "nat \<Rightarrow> string" where
  "hexLower n = (if n < 16 then [hexLowerDigit n] else hexLower (n div 16) @ [hexLowerDigit (n mod 16)])"

declare hexLower.simps [simp del]

text \<open>\<^verbatim>\<open>QString("0x%1").arg(v, width, 16, '0')\<close> and \<^verbatim>\<open>get<unsigned int>\<close> of an unsigned number.\<close>

definition argHex :: "nat \<Rightarrow> nat \<Rightarrow> string" where
  "argHex width v = (let h = hexLower v in ''0x'' @ replicate (width - length h) (CHR ''0'') @ h)"

fun jsonUnsigned :: "Json option \<Rightarrow> nat option" where
  "jsonUnsigned (Some (JInt i)) = (if 0 \<le> i then Some (nat (i mod 2 ^ 32)) else None)"
| "jsonUnsigned _ = None"

definition formatCode :: "Json \<Rightarrow> string \<Rightarrow> string" where
  "formatCode node key = (case jsonUnsigned (fieldOf node key) of None \<Rightarrow> ''n/a'' | Some v \<Rightarrow> argHex 2 v)"

definition rawText :: "Json \<Rightarrow> string \<Rightarrow> string" where
  "rawText payload key = (case jsonUnsigned (fieldOf payload key) of None \<Rightarrow> ''-'' | Some v \<Rightarrow> argHex 4 v)"

definition diagLine :: "string \<Rightarrow> Json \<Rightarrow> string \<Rightarrow> string list" where
  "diagLine label diag key = (case fieldOf diag key of Some (JString s) \<Rightarrow> [label @ s] | _ \<Rightarrow> [])"

definition formatDiag :: "Json \<Rightarrow> string" where
  "formatDiag diag = (if \<not> isObject diag then ''-''
     else if jsonUnsigned (fieldOf diag ''code'') = Some 0 then ''None''
     else joinWith [CHR 0x0A] ([''Code: '' @ formatCode diag ''code''] @ diagLine ''Type: '' diag ''type''
       @ diagLine ''Cause: '' diag ''cause'' @ diagLine ''Action: '' diag ''remedialAction''))"

definition diagText :: "Json \<Rightarrow> string \<Rightarrow> string" where
  "diagText payload key = (case fieldOf payload key of None \<Rightarrow> ''-'' | Some diag \<Rightarrow> formatDiag diag)"

text \<open>The rows of one group: cleared, then filled from the items whose channel has a row.\<close>

definition clearRows :: "AssignmentRows \<Rightarrow> AssignmentRows" where
  "clearRows rows = (\<lambda>c. map_option (\<lambda>_. (''-'', Off)) (rows c))"

definition fillAssignment :: "JsonLib \<Rightarrow> Json \<Rightarrow> (AssignmentRows, unit) act" where
  "fillAssignment L item = (if \<not> isObject item then ret () else
     bindA (liftE (valueOr (jl_string L) ''channel'' '''' item)) (\<lambda>channel.
     bindA (getA (\<lambda>rows. rows channel)) (\<lambda>row. if row = None then ret () else
       bindA (liftE (valueOr (jl_string L) ''function'' ''-'' item)) (\<lambda>function.
       bindA (liftE (valueOr (jl_bool L) ''active'' False item)) (\<lambda>active.
       modifyA (\<lambda>rows. rows(channel \<mapsto> (function, lamp active))))))))"

definition updateAssignmentRows :: "JsonLib \<Rightarrow> Json option \<Rightarrow> (AssignmentRows, unit) act" where
  "updateAssignmentRows L assignments = thenA (modifyA clearRows)
     (case assignments of Some (JArray items) \<Rightarrow> forA items (fillAssignment L) | _ \<Rightarrow> ret ())"

definition updateFromDiagnostics :: "JsonLib \<Rightarrow> Json \<Rightarrow> 'q mwAct" where
  "updateFromDiagnostics L payload = (if \<not> isObject payload then ret () else seqA
     [modifyA (\<lambda>w. w\<lparr>mw_inputRaw := rawText payload ''ioInputRaw''\<rparr>),
      modifyA (\<lambda>w. w\<lparr>mw_outputRaw := rawText payload ''ioOutputRaw''\<rparr>),
      modifyA (\<lambda>w. w\<lparr>mw_netInputRaw := rawText payload ''netInputRaw''\<rparr>),
      modifyA (\<lambda>w. w\<lparr>mw_netOutputRaw := rawText payload ''netOutputRaw''\<rparr>),
      zoomA mw_outputRows (\<lambda>r w. w\<lparr>mw_outputRows := r\<rparr>) (updateAssignmentRows L (fieldOf payload ''ioOutputAssignments'')),
      zoomA mw_inputRows (\<lambda>r w. w\<lparr>mw_inputRows := r\<rparr>) (updateAssignmentRows L (fieldOf payload ''ioInputAssignments'')),
      zoomA mw_netOutputRows (\<lambda>r w. w\<lparr>mw_netOutputRows := r\<rparr>) (updateAssignmentRows L (fieldOf payload ''netOutputAssignments'')),
      zoomA mw_netInputRows (\<lambda>r w. w\<lparr>mw_netInputRows := r\<rparr>) (updateAssignmentRows L (fieldOf payload ''netInputAssignments'')),
      modifyA (\<lambda>w. w\<lparr>mw_alarmText := diagText payload ''alarm''\<rparr>),
      modifyA (\<lambda>w. w\<lparr>mw_warningText := diagText payload ''warning''\<rparr>)])"

definition setAlarmText :: "string \<Rightarrow> 'q mwAct" where
  "setAlarmText text = modifyA (\<lambda>w. w\<lparr>mw_alarmText := text\<rparr>)"

definition motorProcessResponse :: "'q ComboBox \<Rightarrow> JsonLib \<Rightarrow> GuiResponse \<Rightarrow> 'q mwAct" where
  "motorProcessResponse Q L response = bindA (getA mw_pendingRequest) (\<lambda>pending.
     thenA (modifyA (\<lambda>w. w\<lparr>mw_pendingRequest := NoRequest\<rparr>))
     (if \<not> gr_ok response then
        thenA (updateFromDiagnostics L (object []))
          (setAlarmText (''Error: '' @ (if gr_message response = '''' then ''Unknown motor monitor error'' else gr_message response)))
      else if pending \<in> {ResetAlarmRequest, EnableMotorRequest, DisableMotorRequest} then requestDiagnostics Q
      else case gr_payload response of
        None \<Rightarrow> updateFromDiagnostics L (object [])
      | Some payload \<Rightarrow> thenA (updateFromDiagnostics L payload)
          (case fieldOf payload ''diagnosticsError'' of
             Some (JString e) \<Rightarrow> setAlarmText (''Error: '' @ e)
           | _ \<Rightarrow> ret ())))"

end
