(* ===== verification/MotorWindowSelection.thy ===== *)
theory MotorWindowSelection
  imports MotorWindow
begin

text \<open>
  The selection of the motor monitor: what a status does to the list of motors, to the selected one and to
  the lamps and buttons, and which requests follow. The combo box is any with the documented operations;
  one as a list with an index shows that there is one.
\<close>

section \<open>A combo box\<close>

type_synonym ListCombo = "EMotor list \<times> int"

definition listCombo :: "ListCombo ComboBox" where
  "listCombo = \<lparr>
     qc_clear = (\<lambda>(xs, i). (i \<noteq> -1, ([], -1))),
     qc_addItem = (\<lambda>m (xs, i). (xs = [], (xs @ [m], if xs = [] then 0 else i))),
     qc_setCurrentIndex = (\<lambda>j (xs, i). let k = (if 0 \<le> j \<and> j < int (length xs) then j else -1) in (k \<noteq> i, (xs, k))),
     qc_currentIndex = snd,
     qc_currentData = (\<lambda>(xs, i). xs ! nat i),
     qc_findData = (\<lambda>m (xs, i). indexOf m xs)\<rparr>"

definition listComboOk :: "ListCombo \<Rightarrow> bool" where
  "listComboOk = (\<lambda>(xs, i). - 1 \<le> i \<and> i < int (length xs))"

interpretation listCombo: combo_box listCombo listComboOk fst
  by unfold_locales (auto simp: listCombo_def listComboOk_def Let_def split: if_splits)

section \<open>Operations of the selector\<close>

lemma indexOf_range: "- 1 \<le> indexOf m xs \<and> indexOf m xs < int (length xs)"
  by (induction xs) auto

lemma indexOf_found: "m \<in> set xs \<Longrightarrow> 0 \<le> indexOf m xs \<and> xs ! nat (indexOf m xs) = m"
proof (induction xs)
  case (Cons x xs)
  then show ?case using indexOf_range [of m xs] by (auto simp: nat_add_distrib)
qed simp

lemma indexOf_absent: "m \<notin> set xs \<Longrightarrow> indexOf m xs = -1"
  by (induction xs) auto

text \<open>The step changes the selector, and requests diagnostics of motors of \<open>ms\<close> only.\<close>

definition selectorStep :: "EMotor set \<Rightarrow> 'q MotorPanelWindow \<Rightarrow> 'q MotorPanelWindow \<Rightarrow> bool" where
  "selectorStep ms w w' = (\<exists>q p cs. w' = w\<lparr>mw_motorSelector := q, mw_pendingRequest := p, mw_issued := mw_issued w @ cs\<rparr>
     \<and> set cs \<subseteq> GuiMotorDiagnosticsCommand ` ms)"

lemma selectorStep_refl: "selectorStep ms w w"
  unfolding selectorStep_def by (intro exI [of _ "mw_motorSelector w"] exI [of _ "mw_pendingRequest w"] exI [of _ "[]"]) simp

lemma selectorStep_trans: "selectorStep ms w w' \<Longrightarrow> selectorStep ms w' w'' \<Longrightarrow> selectorStep ms w w''"
  unfolding selectorStep_def
  by (elim exE conjE, rename_tac q p cs q' p' cs',
      rule_tac x = q' in exI, rule_tac x = p' in exI, rule_tac x = "cs @ cs'" in exI) auto

lemma selectorStep_kept:
  "selectorStep ms w w' \<Longrightarrow> mw_visibleMotors w' = mw_visibleMotors w \<and> mw_lastStatus w' = mw_lastStatus w"
  by (auto simp: selectorStep_def)

text \<open>The combo box lists the motors of the last status, and one is selected if there is any.\<close>

definition windowOk :: "'q ComboBox \<Rightarrow> ('q \<Rightarrow> bool) \<Rightarrow> ('q \<Rightarrow> EMotor list) \<Rightarrow> 'q MotorPanelWindow \<Rightarrow> bool" where
  "windowOk Q ok items w = (ok (mw_motorSelector w) \<and> items (mw_motorSelector w) = mw_visibleMotors w
     \<and> (selectedMotor Q w = None \<longleftrightarrow> mw_visibleMotors w = []))"

context combo_box
begin

lemma selected_in:
  assumes "ok (mw_motorSelector w)" and "selectedMotor Q w = Some motor"
  shows "motor \<in> set (items (mw_motorSelector w))"
proof -
  have i: "0 \<le> qc_currentIndex Q (mw_motorSelector w)" and m: "motor = qc_currentData Q (mw_motorSelector w)"
    using assms(2) by (auto simp: selectedMotor_def split: if_splits)
  have "nat (qc_currentIndex Q (mw_motorSelector w)) < length (items (mw_motorSelector w))"
    using index_range [OF assms(1)] i by linarith
  then show ?thesis using data [OF assms(1) i] m by (simp add: nth_mem)
qed

lemma selected_none: "ok (mw_motorSelector w) \<Longrightarrow> items (mw_motorSelector w) = [] \<Longrightarrow> selectedMotor Q w = None"
  using index_range by (fastforce simp: selectedMotor_def)

text \<open>A changed index requests diagnostics of the motor selected then.\<close>

lemma onSelector_step:
  assumes "op (mw_motorSelector w) = (ch, q)" and "ok q" and "set (items q) \<subseteq> ms"
  shows "\<exists>w'. onSelector Q op w = (Inr (), w') \<and> mw_motorSelector w' = q \<and> selectorStep ms w w'"
proof -
  let ?w = "w\<lparr>mw_motorSelector := q\<rparr>"
  have a: "selectorStep ms w ?w"
    unfolding selectorStep_def by (intro exI [of _ q] exI [of _ "mw_pendingRequest w"] exI [of _ "[]"]) simp
  have "\<exists>w'. requestDiagnostics Q ?w = (Inr (), w') \<and> mw_motorSelector w' = q \<and> selectorStep ms ?w w'"
  proof (cases "selectedMotor Q ?w")
    case None
    then show ?thesis by (simp add: requestDiagnostics_def issueFor_def selectorStep_refl)
  next
    case (Some motor)
    with selected_in [of ?w] assms(2,3) have "motor \<in> ms" by auto
    then have "selectorStep ms ?w (?w\<lparr>mw_pendingRequest := DiagnosticsRequest, mw_issued := mw_issued ?w @ [GuiMotorDiagnosticsCommand motor]\<rparr>)"
      unfolding selectorStep_def
      by (intro exI [of _ q] exI [of _ DiagnosticsRequest] exI [of _ "[GuiMotorDiagnosticsCommand motor]"]) simp
    with Some show ?thesis by (simp add: requestDiagnostics_def issueFor_def)
  qed
  then show ?thesis
    using a selectorStep_trans by (fastforce simp: onSelector_def act_defs assms(1))
qed

lemma clear_step:
  assumes "ok (mw_motorSelector w)"
  shows "\<exists>w'. onSelector Q (qc_clear Q) w = (Inr (), w') \<and> ok (mw_motorSelector w') \<and> items (mw_motorSelector w') = []
    \<and> selectorStep ms w w'"
proof -
  obtain ch q where q: "qc_clear Q (mw_motorSelector w) = (ch, q)" by (cases "qc_clear Q (mw_motorSelector w)")
  with clear [OF assms q] onSelector_step [where op = "qc_clear Q", OF q] show ?thesis by fastforce
qed

lemma add_step:
  assumes "ok (mw_motorSelector w)" and "items (mw_motorSelector w) = xs" and "set xs \<subseteq> ms" and "m \<in> ms"
  shows "\<exists>w'. onSelector Q (qc_addItem Q m) w = (Inr (), w') \<and> ok (mw_motorSelector w')
    \<and> items (mw_motorSelector w') = xs @ [m] \<and> selectorStep ms w w'"
proof -
  obtain ch q where q: "qc_addItem Q m (mw_motorSelector w) = (ch, q)" by (cases "qc_addItem Q m (mw_motorSelector w)")
  with addItem [OF assms(1) q] onSelector_step [where op = "qc_addItem Q m" and ms = ms, OF q] assms(2-4) show ?thesis by auto
qed

lemma adds_step:
  assumes "ok (mw_motorSelector w)" and "items (mw_motorSelector w) = xs" and "set xs \<subseteq> ms" and "set ys \<subseteq> ms"
  shows "\<exists>w'. forA ys (\<lambda>m. onSelector Q (qc_addItem Q m)) w = (Inr (), w') \<and> ok (mw_motorSelector w')
    \<and> items (mw_motorSelector w') = xs @ ys \<and> selectorStep ms w w'"
  using assms
proof (induction ys arbitrary: w xs)
  case Nil
  then show ?case by (simp add: selectorStep_refl)
next
  case (Cons y ys)
  obtain w1 where w1: "onSelector Q (qc_addItem Q y) w = (Inr (), w1)" "ok (mw_motorSelector w1)"
      "items (mw_motorSelector w1) = xs @ [y]" "selectorStep ms w w1"
    using add_step [of w xs ms y] Cons.prems by auto
  from Cons.IH [OF w1(2,3)] Cons.prems obtain w2 where
    "forA ys (\<lambda>m. onSelector Q (qc_addItem Q m)) w1 = (Inr (), w2)" "ok (mw_motorSelector w2)"
    "items (mw_motorSelector w2) = xs @ y # ys" "selectorStep ms w1 w2" by auto
  with w1 show ?case by (auto simp: act_defs intro: selectorStep_trans)
qed

lemma select_step:
  assumes "ok (mw_motorSelector w)" and "items (mw_motorSelector w) = xs" and "m \<in> set xs" and "set xs \<subseteq> ms"
  shows "\<exists>w'. onSelector Q (qc_setCurrentIndex Q (indexOf m xs)) w = (Inr (), w') \<and> ok (mw_motorSelector w')
    \<and> items (mw_motorSelector w') = xs \<and> selectedMotor Q w' = Some m \<and> selectorStep ms w w'"
proof -
  let ?i = "indexOf m xs"
  obtain ch q where q: "qc_setCurrentIndex Q ?i (mw_motorSelector w) = (ch, q)" by (cases "qc_setCurrentIndex Q ?i (mw_motorSelector w)")
  have i: "- 1 \<le> ?i" "?i < int (length (items (mw_motorSelector w)))" using indexOf_range [of m xs] assms(2) by auto
  from setCurrentIndex [OF assms(1) i q] onSelector_step [where op = "qc_setCurrentIndex Q ?i" and ms = ms, OF q] assms(2,4)
  obtain w' where "onSelector Q (qc_setCurrentIndex Q ?i) w = (Inr (), w')" "mw_motorSelector w' = q" "selectorStep ms w w'"
    "ok q" "items q = xs" "qc_currentIndex Q q = ?i" by auto
  moreover from this have "selectedMotor Q w' = Some m"
    using indexOf_found [OF assms(3)] data [of q] by (simp add: selectedMotor_def)
  ultimately show ?thesis by auto
qed

end

section \<open>A new status\<close>

text \<open>The motor selected after the list has become \<open>motors\<close>.\<close>

definition reselected :: "EMotor option \<Rightarrow> EMotor list \<Rightarrow> EMotor option" where
  "reselected selected motors = (if motors = [] then None else case selected of
     Some m \<Rightarrow> Some (if m \<in> set motors then m else hd motors)
   | None \<Rightarrow> Some (hd motors))"

lemma restoreIndex_reselected:
  assumes "motors \<noteq> []" and "reselected selected motors = Some m"
  shows "restoreIndex selected motors = indexOf m motors \<and> m \<in> set motors"
  using assms by (cases motors) (auto simp: restoreIndex_def reselected_def split: option.splits if_splits)

definition onlySelection :: "EMotor set \<Rightarrow> 'q MotorPanelWindow \<Rightarrow> 'q MotorPanelWindow \<Rightarrow> bool" where
  "onlySelection ms w w' = (mw_lastStatus w' = mw_lastStatus w
     \<and> (\<exists>cs. mw_issued w' = mw_issued w @ cs \<and> set cs \<subseteq> GuiMotorDiagnosticsCommand ` ms))"

lemma onlySelection_step: "selectorStep ms w w' \<Longrightarrow> onlySelection ms w w'"
  by (auto simp: selectorStep_def onlySelection_def)

context combo_box
begin

text \<open>The end of a rebuilt list that is not empty: the selection comes back.\<close>

lemma restore_step:
  assumes some: "motors \<noteq> []" and m: "reselected sel motors = Some m"
    and ok: "ok (mw_motorSelector w)" "items (mw_motorSelector w) = motors"
  shows "\<exists>w'. onSelector Q (qc_setCurrentIndex Q (indexOf m motors)) w = (Inr (), w') \<and> ok (mw_motorSelector w')
    \<and> items (mw_motorSelector w') = motors \<and> selectedMotor Q w' = Some m \<and> selectorStep (set motors) w w'"
  using select_step [OF ok, of m "set motors"] restoreIndex_reselected [OF some m] by auto

lemma rebuild_step:
  assumes "windowOk Q ok items w"
  shows "\<exists>w'. rebuildMotorList Q motors w = (Inr (), w') \<and> windowOk Q ok items w' \<and> mw_visibleMotors w' = motors
    \<and> selectedMotor Q w' = reselected (selectedMotor Q w) motors
    \<and> onlySelection (set motors) w w'"
proof (cases "motors = mw_visibleMotors w")
  case True
  have "selectedMotor Q w = reselected (selectedMotor Q w) motors"
    using assms True selected_in [of w] by (cases "selectedMotor Q w") (auto simp: windowOk_def reselected_def)
  with True assms show ?thesis by (auto simp: rebuildMotorList_def act_defs onlySelection_def)
next
  case False
  let ?ms = "set motors"
  let ?w0 = "w\<lparr>mw_visibleMotors := motors\<rparr>"
  have ok0: "ok (mw_motorSelector ?w0)" using assms by (simp add: windowOk_def)
  obtain w1 where w1: "onSelector Q (qc_clear Q) ?w0 = (Inr (), w1)" "ok (mw_motorSelector w1)"
      "items (mw_motorSelector w1) = []" "selectorStep ?ms ?w0 w1"
    using clear_step [OF ok0] by blast
  obtain w2 where w2: "forA motors (\<lambda>m. onSelector Q (qc_addItem Q m)) w1 = (Inr (), w2)" "ok (mw_motorSelector w2)"
      "items (mw_motorSelector w2) = motors" "selectorStep ?ms w1 w2"
    using adds_step [OF w1(2,3), of ?ms motors] by auto
  have step: "selectorStep ?ms ?w0 w2" using w1(4) w2(4) by (rule selectorStep_trans)
  show ?thesis
  proof (cases "motors = []")
    case True
    let ?w3 = "w2\<lparr>mw_selectorEnabled := False, mw_refreshEnabled := False, mw_resetAlarmEnabled := False,
      mw_enableEnabled := False, mw_disableEnabled := False\<rparr>"
    have run: "rebuildMotorList Q motors w = (Inr (), ?w3)"
      using False True w1(1) w2(1) by (simp add: rebuildMotorList_def act_defs Let_def disableButtons_def)
    have "selectedMotor Q ?w3 = None" using selected_none [of ?w3] w2(2,3) True by simp
    moreover have "onlySelection ?ms w ?w3" using onlySelection_step [OF step] by (simp add: onlySelection_def)
    ultimately show ?thesis
      using run True w2(2,3) selectorStep_kept [OF step] by (simp add: windowOk_def reselected_def)
  next
    case some: False
    then obtain m where m: "reselected (selectedMotor Q w) motors = Some m"
      by (cases "selectedMotor Q w") (simp_all add: reselected_def)
    note restore = restoreIndex_reselected [OF some m]
    let ?w2 = "w2\<lparr>mw_selectorEnabled := True, mw_refreshEnabled := True\<rparr>"
    obtain w3 where
      w3: "onSelector Q (qc_setCurrentIndex Q (indexOf m motors)) ?w2 = (Inr (), w3)" "ok (mw_motorSelector w3)"
        "items (mw_motorSelector w3) = motors" "selectedMotor Q w3 = Some m" "selectorStep ?ms ?w2 w3"
      using restore_step [OF some m, of ?w2] w2 by auto
    have run: "rebuildMotorList Q motors w = (Inr (), w3)"
      using False some w1(1) w2(1) w3(1) restore by (simp add: rebuildMotorList_def act_defs Let_def)
    have "onlySelection ?ms w w3"
      using onlySelection_step [OF step] onlySelection_step [OF w3(5)] by (auto simp: onlySelection_def)
    moreover have "mw_visibleMotors w3 = motors" using selectorStep_kept [OF w3(5)] selectorStep_kept [OF step] by simp
    ultimately show ?thesis using run w3 some m by (auto simp: windowOk_def)
  qed
qed

end

lemma selectedMotor_cong: "mw_motorSelector w = mw_motorSelector w' \<Longrightarrow> selectedMotor Q w = selectedMotor Q w'"
  by (simp add: selectedMotor_def)

text \<open>The lamps and the buttons show the state of the selected motor.\<close>

definition lampsMatch :: "'q ComboBox \<Rightarrow> RobotStatus \<Rightarrow> 'q MotorPanelWindow \<Rightarrow> bool" where
  "lampsMatch Q status w = (case selectedMotor Q w of
        None \<Rightarrow> rs_motors status = Map.empty \<and> mw_stateLamp w = Off \<and> mw_enabledLamp w = Off
          \<and> \<not> mw_resetAlarmEnabled w \<and> \<not> mw_enableEnabled w \<and> \<not> mw_disableEnabled w
      | Some m \<Rightarrow> (\<exists>st. rs_motors status m = Some st \<and> mw_stateLamp w = sms_state st
          \<and> mw_enabledLamp w = flagOrOff st Enabled \<and> mw_disableEnabled w = (flagOrOff st Enabled = On)
          \<and> mw_enableEnabled w = (\<not> mw_disableEnabled w) \<and> mw_resetAlarmEnabled w = (sms_state st = ELEDState.Error)))"

context combo_box
begin

lemma setRobotStatus_step:
  assumes "windowOk Q ok items w"
  shows "\<exists>w'. setRobotStatus Q status w = (Inr (), w') \<and> windowOk Q ok items w'
    \<and> mw_visibleMotors w' = mapKeys allMotors (rs_motors status)
    \<and> selectedMotor Q w' = reselected (selectedMotor Q w) (mapKeys allMotors (rs_motors status))
    \<and> lampsMatch Q status w'
    \<and> (\<exists>cs. mw_issued w' = mw_issued w @ cs \<and> set cs \<subseteq> GuiMotorDiagnosticsCommand ` dom (rs_motors status))"
proof -
  let ?ms = "mapKeys allMotors (rs_motors status)"
  have same: "selectedMotor Q (w\<lparr>mw_lastStatus := status\<rparr>) = selectedMotor Q w" by (simp add: selectedMotor_def)
  then have "windowOk Q ok items (w\<lparr>mw_lastStatus := status\<rparr>)" using assms by (simp add: windowOk_def)
  from rebuild_step [OF this, of ?ms] obtain w' where
    w': "rebuildMotorList Q ?ms (w\<lparr>mw_lastStatus := status\<rparr>) = (Inr (), w')" "windowOk Q ok items w'"
      "mw_visibleMotors w' = ?ms" "selectedMotor Q w' = reselected (selectedMotor Q w) ?ms"
      "mw_lastStatus w' = status"
      "\<exists>cs. mw_issued w' = mw_issued w @ cs \<and> set cs \<subseteq> GuiMotorDiagnosticsCommand ` dom (rs_motors status)"
    by (fastforce simp: onlySelection_def same)
  have sel: "selectedMotor Q (w'\<lparr>mw_stateLamp := a, mw_enabledLamp := b, mw_resetAlarmEnabled := c, mw_enableEnabled := d,
      mw_disableEnabled := e\<rparr>) = selectedMotor Q w'" for a b c d e by (simp add: selectedMotor_def)
  have run: "setRobotStatus Q status w = updateStateLamp Q w'" using w'(1)
    by (simp add: setRobotStatus_def act_defs updateStateLamp_def)
  show ?thesis
  proof (cases "selectedMotor Q w'")
    case None
    with w' have "rs_motors status = Map.empty" by (metis dom_eq_empty_conv mapKeys_motors set_empty windowOk_def)
    with None run w' show ?thesis by (simp add: updateStateLamp_def sel windowOk_def lampsMatch_def)
  next
    case (Some m)
    with w' selected_in [of w' m] have "m \<in> set ?ms" by (simp add: windowOk_def)
    then obtain st where "rs_motors status m = Some st" by auto
    with Some run w' show ?thesis by (simp add: updateStateLamp_def sel windowOk_def lampsMatch_def Let_def)
  qed
qed

text \<open>A motor chosen from outside, if the box has it.\<close>

lemma setSelectedMotor_step:
  assumes "windowOk Q ok items w" and "motor \<in> set (mw_visibleMotors w)"
  shows "\<exists>w'. setSelectedMotor Q motor w = (Inr (), w') \<and> windowOk Q ok items w' \<and> selectedMotor Q w' = Some motor
    \<and> mw_visible w' = mw_visible w \<and> mw_issued w' \<noteq> [] \<and> last (mw_issued w') = GuiMotorDiagnosticsCommand motor"
proof -
  have box: "ok (mw_motorSelector w)" "items (mw_motorSelector w) = mw_visibleMotors w" using assms(1) by (simp_all add: windowOk_def)
  obtain w1 where w1: "onSelector Q (qc_setCurrentIndex Q (indexOf motor (mw_visibleMotors w))) w = (Inr (), w1)"
      "ok (mw_motorSelector w1)" "items (mw_motorSelector w1) = mw_visibleMotors w" "selectedMotor Q w1 = Some motor"
      "selectorStep UNIV w w1"
    using select_step [OF box assms(2)] by blast
  have found: "qc_findData Q motor (mw_motorSelector w) = indexOf motor (mw_visibleMotors w)" "0 \<le> indexOf motor (mw_visibleMotors w)"
    using findData [OF box(1)] box(2) indexOf_found [OF assms(2)] by auto
  let ?w2 = "w1\<lparr>mw_pendingRequest := DiagnosticsRequest, mw_issued := mw_issued w1 @ [GuiMotorDiagnosticsCommand motor]\<rparr>"
  have "setSelectedMotor Q motor w = (Inr (), ?w2)"
    using w1(1,4) found by (simp add: setSelectedMotor_def act_defs requestDiagnostics_def issueFor_def)
  moreover have "selectedMotor Q ?w2 = selectedMotor Q w1" by (rule selectedMotor_cong) simp
  moreover have "mw_visible w1 = mw_visible w" "mw_visibleMotors w1 = mw_visibleMotors w"
    using w1(5) by (auto simp: selectorStep_def)
  ultimately show ?thesis
    using w1(2-4) assms(2) by (auto simp: windowOk_def)
qed

lemma setSelectedMotor_absent:
  assumes "windowOk Q ok items w" and "motor \<notin> set (mw_visibleMotors w)"
  shows "setSelectedMotor Q motor w = (Inr (), w)"
  using assms findData [of "mw_motorSelector w"] indexOf_absent [of motor "mw_visibleMotors w"]
  by (simp add: setSelectedMotor_def act_defs windowOk_def)

end

text \<open>A new status keeps the motor monitor consistent, for any combo box with the documented operations:
  the box lists the motors of the status, the motor selected before stays selected if the status still has it
  and otherwise the first one is, the lamps show the state and the enabling of the selected motor, exactly one
  of enabling and disabling is offered and an alarm reset exactly in its error state, and the only requests
  sent are for diagnostics of motors of the status. In particular no status enables, disables or resets a
  motor.\<close>

theorem motor_window_selection:
  assumes "combo_box Q ok items" and "windowOk Q ok items w"
  shows "\<exists>w'. setRobotStatus Q status w = (Inr (), w') \<and> windowOk Q ok items w'
    \<and> items (mw_motorSelector w') = mapKeys allMotors (rs_motors status)
    \<and> selectedMotor Q w' = reselected (selectedMotor Q w) (mapKeys allMotors (rs_motors status))
    \<and> (case selectedMotor Q w' of
        None \<Rightarrow> rs_motors status = Map.empty \<and> mw_stateLamp w' = Off \<and> mw_enabledLamp w' = Off
          \<and> \<not> mw_resetAlarmEnabled w' \<and> \<not> mw_enableEnabled w' \<and> \<not> mw_disableEnabled w'
      | Some m \<Rightarrow> (\<exists>st. rs_motors status m = Some st \<and> mw_stateLamp w' = sms_state st
          \<and> mw_enabledLamp w' = flagOrOff st Enabled \<and> mw_disableEnabled w' = (flagOrOff st Enabled = On)
          \<and> mw_enableEnabled w' = (\<not> mw_disableEnabled w') \<and> mw_resetAlarmEnabled w' = (sms_state st = ELEDState.Error)))
    \<and> (\<exists>cs. mw_issued w' = mw_issued w @ cs \<and> set cs \<subseteq> GuiMotorDiagnosticsCommand ` dom (rs_motors status))"
  using combo_box.setRobotStatus_step [OF assms, of status] unfolding lampsMatch_def by (auto simp: windowOk_def)

lemma newMotorWindow_ok: "windowOk listCombo listComboOk fst (newMotorWindow ([], -1))"
  by (simp add: windowOk_def newMotorWindow_def listComboOk_def selectedMotor_def listCombo_def)

definition demoMotorStatus :: RobotStatus where
  "demoMotorStatus = emptyRobotStatus\<lparr>rs_motors := [EMotor.YLeft \<mapsto> defaultMotorStatus\<lparr>sms_state := ELEDState.Error\<rparr>,
     EMotor.XRight \<mapsto> defaultMotorStatus]\<rparr>"

theorem motor_window_selection_witness:
  "\<exists>w'. setRobotStatus listCombo demoMotorStatus (newMotorWindow ([], -1)) = (Inr (), w')
    \<and> selectedMotor listCombo w' = Some EMotor.XRight \<and> mw_enableEnabled w'"
proof -
  have none: "selectedMotor listCombo (newMotorWindow ([], -1)) = None"
    by (simp add: selectedMotor_def newMotorWindow_def listCombo_def)
  have some: "reselected None (mapKeys allMotors (rs_motors demoMotorStatus)) = Some EMotor.XRight"
    by (simp add: reselected_def mapKeys_def allMotors_def demoMotorStatus_def)
  have off: "flagOrOff st Enabled \<noteq> On" if "rs_motors demoMotorStatus EMotor.XRight = Some st" for st
    using that by (auto simp: demoMotorStatus_def flagOrOff_def defaultMotorStatus_def)
  from motor_window_selection [OF listCombo.combo_box_axioms newMotorWindow_ok, of demoMotorStatus] obtain w' where
    w': "setRobotStatus listCombo demoMotorStatus (newMotorWindow ([], -1)) = (Inr (), w')"
      "selectedMotor listCombo w' = Some EMotor.XRight"
    and st: "\<exists>st. rs_motors demoMotorStatus EMotor.XRight = Some st \<and> mw_disableEnabled w' = (flagOrOff st Enabled = On)
          \<and> mw_enableEnabled w' = (\<not> mw_disableEnabled w')"
    unfolding none some by auto
  with off have "mw_enableEnabled w'" by auto
  with w' show ?thesis by blast
qed

end
