(* ===== verification/MotorWindowProps.thy ===== *)
theory MotorWindowProps
  imports MotorWindowSelection
begin

text \<open>
  What the monitor of a motor shows: every terminal the server reports has a row and every row a terminal, so
  a reply to the diagnostics command is shown completely; a status leaves the selection and sets lamps and
  buttons to what it says of the selected motor.
\<close>

section \<open>Results of readings\<close>

text \<open>Whatever an action returns has \<open>P\<close>.\<close>

definition yields :: "('a \<Rightarrow> bool) \<Rightarrow> ('s, 'a) act \<Rightarrow> bool" where
  "yields P act = (\<forall>s x s'. act s = (Inr x, s') \<longrightarrow> P x)"

lemma yieldsD: "yields P act \<Longrightarrow> act s = (Inr x, s') \<Longrightarrow> P x"
  by (auto simp: yields_def)

lemma yields_ret: "P x \<Longrightarrow> yields P (ret x)"
  by (simp add: yields_def)

lemma yields_get: "(\<And>s. P (g s)) \<Longrightarrow> yields P (getA g)"
  by (simp add: yields_def)

lemma yields_bind: "(\<And>x. yields P (f x)) \<Longrightarrow> yields P (bindA m f)"
  by (auto simp: yields_def bindA_def split: prod.splits sum.splits)

lemma yields_then: "yields P k \<Longrightarrow> yields P (thenA m k)"
  by (simp add: thenA_def yields_bind)

lemma yields_guarded: "yields P act \<Longrightarrow> yields P (guarded B act)"
  by (clarsimp simp: yields_def guarded_def catchA_def thenA_def bindA_def throwA_def split: prod.splits sum.splits) blast

lemma yields_onMotor: "yields P act \<Longrightarrow> yields P (onMotor i act)"
  by (clarsimp simp: yields_def onMotor_def split: prod.splits option.splits) blast

lemma yields_onMotors: "yields P act \<Longrightarrow> yields P (onMotors act)"
  by (clarsimp simp: yields_def onMotors_def zoomA_def split: prod.splits) blast

lemmas yields_rules = yields_ret yields_get yields_bind yields_then yields_guarded yields_onMotor yields_onMotors

definition directChannels :: "MotorDirectIoStatus \<Rightarrow> bool" where
  "directChannels d = (map as_channel (di_inputAssignments d) = inputChannels
     \<and> map as_channel (di_outputAssignments d) = outputChannels)"

definition remoteChannels :: "MotorRemoteIoStatus \<Rightarrow> bool" where
  "remoteChannels r = (map as_channel (ri_inputAssignments r) = netInputChannels
     \<and> map as_channel (ri_outputAssignments r) = netOutputChannels)"

lemma digit_chars:
  "char_of (48 :: nat) = CHR ''0''"
  "char_of (49 :: nat) = CHR ''1''"
  "char_of (50 :: nat) = CHR ''2''"
  "char_of (51 :: nat) = CHR ''3''"
  "char_of (52 :: nat) = CHR ''4''"
  "char_of (53 :: nat) = CHR ''5''"
  "char_of (54 :: nat) = CHR ''6''"
  "char_of (55 :: nat) = CHR ''7''"
  "char_of (56 :: nat) = CHR ''8''"
  "char_of (57 :: nat) = CHR ''9''"
  by (code_simp, code_simp, code_simp, code_simp, code_simp, code_simp, code_simp, code_simp, code_simp, code_simp)

lemma direct_channels: "directChannels (decodeDirectIoAndBrakeStatus m raw)"
  by (simp add: directChannels_def decodeDirectIoAndBrakeStatus_def Let_def inputChannels_def outputChannels_def
      inputLine_def outputLine_def fixedLine_def signal_def comp_def upt_rec decNat.simps digit_chars)

lemma remote_channels: "remoteChannels (decodeRemoteIoStatus m a b)"
  by (simp add: remoteChannels_def decodeRemoteIoStatus_def Let_def netInputChannels_def netOutputChannels_def
      netInputLine_def netOutputLine_def signal_def comp_def upt_rec decNat.simps digit_chars)

lemma yields_direct: "yields directChannels (onMotors (mcReadDirectIoStatus B i))"
  unfolding mcReadDirectIoStatus_def guardedCall_def by (intro yields_rules) (auto simp: direct_channels split: prod.split)

lemma yields_remote: "yields remoteChannels (onMotors (mcReadRemoteIoStatus B i))"
  unfolding mcReadRemoteIoStatus_def guardedCall_def by (intro yields_rules) (auto simp: remote_channels split: prod.split)

section \<open>The rows\<close>

definition shown :: "AssignedSignal list \<Rightarrow> AssignmentRows" where
  "shown as = map_of (map (\<lambda>a. (as_channel a, (as_function a, lamp (as_active a)))) as)"

definition rowsComplete :: "'q MotorPanelWindow \<Rightarrow> bool" where
  "rowsComplete w = (dom (mw_inputRows w) = set inputChannels \<and> dom (mw_outputRows w) = set outputChannels
     \<and> dom (mw_netInputRows w) = set netInputChannels \<and> dom (mw_netOutputRows w) = set netOutputChannels)"

lemma dom_create: "dom (createAssignmentRows cs) = set cs"
  by (simp add: createAssignmentRows_def dom_map_of_conv_image_fst image_image)

lemma new_complete: "rowsComplete (newMotorWindow q)"
  by (simp add: rowsComplete_def newMotorWindow_def dom_create)

lemma distinct_channels: "distinct inputChannels" "distinct outputChannels" "distinct netInputChannels" "distinct netOutputChannels"
  by (simp_all add: inputChannels_def outputChannels_def netInputChannels_def netOutputChannels_def)

lemma dom_shown: "dom (shown as) = set (map as_channel as)"
  by (simp add: shown_def dom_map_of_conv_image_fst image_image)

lemma dom_clearRows [simp]: "dom (clearRows rows) = dom rows"
  by (auto simp: clearRows_def)

context json_library
begin

lemma fillAssignment_signal:
  "rows (as_channel a) \<noteq> None \<Longrightarrow>
   fillAssignment L (assignmentJson (as_channel a) (as_function a) code (as_active a)) rows
     = (Inr (), rows(as_channel a \<mapsto> (as_function a, lamp (as_active a))))"
  by (auto simp: fillAssignment_def assignmentJson_def valueOr_def fieldOf_object string bool act_defs liftE_def)

lemma fill_signals:
  assumes "set (map as_channel as) \<subseteq> dom rows" and "distinct (map as_channel as)"
  shows "forA (map (\<lambda>a. assignmentJson (as_channel a) (as_function a) (code a) (as_active a)) as) (fillAssignment L) rows
    = (Inr (), rows ++ shown as)"
  using assms
proof (induction as arbitrary: rows)
  case (Cons a as)
  then have "as_channel a \<notin> dom (shown as)" by (simp add: dom_shown)
  then have "rows(as_channel a \<mapsto> (as_function a, lamp (as_active a))) ++ shown as = rows ++ shown (a # as)"
    by (auto simp: shown_def map_add_def fun_eq_iff split: option.split)
  moreover have "forA (map (\<lambda>a. assignmentJson (as_channel a) (as_function a) (code a) (as_active a)) as) (fillAssignment L)
      (rows(as_channel a \<mapsto> (as_function a, lamp (as_active a)))) = (Inr (), rows(as_channel a \<mapsto> (as_function a, lamp (as_active a))) ++ shown as)"
    by (rule Cons.IH) (use Cons.prems in auto)
  ultimately show ?case
    using Cons.prems(1) by (simp add: thenA_def bindA_def fillAssignment_signal domIff)
qed (simp add: shown_def)

lemma updateRows_signals:
  assumes "dom rows = set (map as_channel as)" and "distinct (map as_channel as)"
  shows "updateAssignmentRows L (Some (JArray (map (\<lambda>a. assignmentJson (as_channel a) (as_function a) (code a) (as_active a)) as))) rows
    = (Inr (), shown as)"
proof -
  have "clearRows rows ++ shown as = shown as"
  proof
    fix c
    have "rows c = None \<longleftrightarrow> shown as c = None"
      using assms(1) dom_shown [of as] by (metis domIff)
    then show "(clearRows rows ++ shown as) c = shown as c"
      by (cases "shown as c") (auto simp: map_add_def clearRows_def)
  qed
  with fill_signals [of as "clearRows rows" code] assms show ?thesis
    by (simp add: updateAssignmentRows_def act_defs)
qed

text \<open>A payload with the four groups of terminals is shown completely.\<close>

lemma update_diagnostics:
  assumes "rowsComplete w" and "isObject payload"
    and "fieldOf payload ''ioOutputAssignments'' = Some (signalsJson outs)"
    and "fieldOf payload ''ioInputAssignments'' = Some (signalsJson ins)"
    and "fieldOf payload ''netOutputAssignments'' = Some (signalsJson nouts)"
    and "fieldOf payload ''netInputAssignments'' = Some (signalsJson nins)"
    and "map as_channel outs = outputChannels" "map as_channel ins = inputChannels"
      "map as_channel nouts = netOutputChannels" "map as_channel nins = netInputChannels"
  shows "updateFromDiagnostics L payload w = (Inr (), w\<lparr>mw_inputRaw := rawText payload ''ioInputRaw'',
      mw_outputRaw := rawText payload ''ioOutputRaw'', mw_netInputRaw := rawText payload ''netInputRaw'',
      mw_netOutputRaw := rawText payload ''netOutputRaw'', mw_outputRows := shown outs, mw_inputRows := shown ins,
      mw_netOutputRows := shown nouts, mw_netInputRows := shown nins,
      mw_alarmText := diagText payload ''alarm'', mw_warningText := diagText payload ''warning''\<rparr>)"
  using assms(1,2) distinct_channels
  by (simp add: updateFromDiagnostics_def assms(3-6) signalsJson_def rowsComplete_def thenA_def bindA_def zoomA_def
      updateRows_signals assms(7-10))

end

section \<open>Diagnostics\<close>

text \<open>The readings of a diagnostics command that reach the window.\<close>

definition readTerminals ::
  "('i, 'c, 'p, 'w) Platform \<Rightarrow> EMotor \<Rightarrow> ('i, 'c, 'p, 'w) Machine
     \<Rightarrow> exn + MotorFlagStatus \<times> MotorFlagStatus \<times> MotorDirectIoStatus \<times> MotorRemoteIoStatus \<times> MotorCodeDiagnostic \<times> MotorCodeDiagnostic" where
  "readTerminals F motor m = (let B = pf_bus F in fst
     (bindA (onMotors (mcReadInputStatus B motor)) (\<lambda>inputStatus.
      bindA (onMotors (mcReadOutputStatus B motor)) (\<lambda>outputStatus.
      bindA (onMotors (mcReadDirectIoStatus B motor)) (\<lambda>direct.
      bindA (onMotors (mcReadRemoteIoStatus B motor)) (\<lambda>remote.
      bindA (onMotors (mcDiagnoseCurrentAlarm B motor)) (\<lambda>alarm.
      bindA (onMotors (mcDiagnoseCurrentWarning B motor)) (\<lambda>warning.
      ret (inputStatus, outputStatus, direct, remote, alarm, warning))))))) m))"

lemma readTerminals_channels:
  assumes "readTerminals F motor m = Inr (i, out, direct, remote, alarm, warning)"
  shows "directChannels direct \<and> remoteChannels remote"
  using assms yieldsD [OF yields_direct] yieldsD [OF yields_remote]
  by (fastforce simp: readTerminals_def Let_def bindA_def ret_def split: prod.splits sum.splits)

lemma motorDiagnostics_payload:
  assumes "handleMotorDiagnosticsCommand F motor m = (Inr payload, m')"
  shows "payload = (case readTerminals F motor m of
      Inl e \<Rightarrow> setField ''diagnosticsError'' (JString e) (makeDefaultIoAssignmentResponse motor)
    | Inr (i, out, direct, remote, alarm, warning) \<Rightarrow>
        fillDiagnostics i out direct remote alarm warning (makeDefaultIoAssignmentResponse motor))"
  using assms
  by (auto simp: handleMotorDiagnosticsCommand_def readTerminals_def Let_def catchA_def bindA_def ret_def
      split: prod.splits sum.splits)

definition idleSignal :: "string \<times> string \<times> int \<Rightarrow> AssignedSignal" where
  "idleSignal = (\<lambda>(channel, function, code). \<lparr>as_channel = channel, as_function = function,
     as_functionCode = word_of_int code, as_active = False\<rparr>)"

lemma inactive_signals:
  assumes "\<forall>(channel, function, code) \<in> set xs. 0 \<le> code \<and> code < 2 ^ 16"
  shows "inactive xs = signalsJson (map idleSignal xs)"
  using assms by (fastforce simp: inactive_def signalsJson_def idleSignal_def uint_word_of_int)

lemma inactive_defaults:
  "inactive defaultOutputs = signalsJson (map idleSignal defaultOutputs)"
  "inactive defaultInputs = signalsJson (map idleSignal defaultInputs)"
  "inactive (netChannels ''NET-OUT'' defaultNetOut) = signalsJson (map idleSignal (netChannels ''NET-OUT'' defaultNetOut))"
  "inactive (netChannels ''NET-IN'' defaultNetIn) = signalsJson (map idleSignal (netChannels ''NET-IN'' defaultNetIn))"
  by (rule inactive_signals, simp add: defaultOutputs_def defaultInputs_def netChannels_def defaultNetOut_def defaultNetIn_def upt_rec)+

lemma default_channels:
  "map as_channel (map idleSignal defaultOutputs) = outputChannels"
  "map as_channel (map idleSignal defaultInputs) = inputChannels"
  "map as_channel (map idleSignal (netChannels ''NET-OUT'' defaultNetOut)) = netOutputChannels"
  "map as_channel (map idleSignal (netChannels ''NET-IN'' defaultNetIn)) = netInputChannels"
  by (simp_all add: idleSignal_def defaultOutputs_def defaultInputs_def netChannels_def defaultNetOut_def defaultNetIn_def upt_rec
      inputChannels_def outputChannels_def netInputChannels_def netOutputChannels_def dec_def decNat.simps digit_chars)

lemma shown_idle: "shown (map idleSignal xs) c = Some (f, l) \<Longrightarrow> l = Off"
  unfolding shown_def by (drule map_of_SomeD) (auto simp: idleSignal_def lamp_def)

text \<open>The text of an alarm or a warning.\<close>

definition diagnosisText :: "MotorCodeDiagnostic \<Rightarrow> string" where
  "diagnosisText d = (if cd_code d = 0 then ''None'' else joinWith [CHR 0x0A]
     [''Code: '' @ argHex 2 (unat (cd_code d)), ''Type: '' @ cd_type d, ''Cause: '' @ cd_cause d,
      ''Action: '' @ cd_remedialAction d])"

lemma unsigned_word:
  fixes x :: "'a :: len word"
  assumes "LENGTH('a) \<le> 32"
  shows "jsonUnsigned (Some (JInt (uint x))) = Some (unat x)"
proof -
  have "uint x < 2 ^ LENGTH('a)" by (rule uint_lt2p)
  also have "\<dots> \<le> 2 ^ 32" by (rule power_increasing [OF assms]) simp
  finally have "uint x mod 2 ^ 32 = uint x" by (simp only: mod_pos_pos_trivial uint_ge_0)
  then show ?thesis by (simp only: jsonUnsigned.simps uint_ge_0 if_True unat_eq_nat_uint)
qed

lemma diagnostic_fields:
  "isObject (diagnosticJson d)"
  "fieldOf (diagnosticJson d) ''code'' = Some (JInt (uint (cd_code d)))"
  "fieldOf (diagnosticJson d) ''type'' = Some (JString (cd_type d))"
  "fieldOf (diagnosticJson d) ''cause'' = Some (JString (cd_cause d))"
  "fieldOf (diagnosticJson d) ''remedialAction'' = Some (JString (cd_remedialAction d))"
  by (simp_all add: diagnosticJson_def fieldOf_object)

lemma formatDiag_diagnostic: "formatDiag (diagnosticJson d) = diagnosisText d"
proof -
  have code: "jsonUnsigned (Some (JInt (uint (cd_code d)))) = Some (unat (cd_code d))" by (rule unsigned_word) simp
  have zero: "unat (cd_code d) = 0 \<longleftrightarrow> cd_code d = 0" by (rule unat_eq_zero)
  show ?thesis
    unfolding formatDiag_def formatCode_def diagLine_def diagnosisText_def diagnostic_fields code
    by (simp add: zero diagnostic_fields(1))
qed

lemma rawText_word:
  fixes x :: "'a :: len word"
  assumes "LENGTH('a) \<le> 32" and "fieldOf payload key = Some (JInt (uint x))"
  shows "rawText payload key = argHex 4 (unat x)"
  unfolding rawText_def assms(2) unsigned_word [OF assms(1)] by simp

text \<open>The fields of the two payloads.\<close>

lemma filled_fields:
  fixes motor direct remote alarm warning i out
  defines "payload \<equiv> fillDiagnostics i out direct remote alarm warning (makeDefaultIoAssignmentResponse motor)"
  shows "isObject payload"
    and "fieldOf payload ''ioOutputAssignments'' = Some (signalsJson (di_outputAssignments direct))"
    and "fieldOf payload ''ioInputAssignments'' = Some (signalsJson (di_inputAssignments direct))"
    and "fieldOf payload ''netOutputAssignments'' = Some (signalsJson (ri_outputAssignments remote))"
    and "fieldOf payload ''netInputAssignments'' = Some (signalsJson (ri_inputAssignments remote))"
    and "fieldOf payload ''ioInputRaw'' = Some (JInt (uint (di_reg00D5 direct)))"
    and "fieldOf payload ''ioOutputRaw'' = Some (JInt (uint (di_reg00D4 direct)))"
    and "fieldOf payload ''netInputRaw'' = Some (JInt (uint (ri_reg007D remote)))"
    and "fieldOf payload ''netOutputRaw'' = Some (JInt (uint (ri_reg007F remote)))"
    and "fieldOf payload ''alarm'' = Some (diagnosticJson alarm)"
    and "fieldOf payload ''warning'' = Some (diagnosticJson warning)"
    and "fieldOf payload ''diagnosticsError'' = None"
  by (simp_all add: payload_def fillDiagnostics_def makeDefaultIoAssignmentResponse_def fieldOf_object)

lemma failed_fields:
  fixes motor e
  defines "payload \<equiv> setField ''diagnosticsError'' (JString e) (makeDefaultIoAssignmentResponse motor)"
  shows "isObject payload"
    and "fieldOf payload ''ioOutputAssignments'' = Some (signalsJson (map idleSignal defaultOutputs))"
    and "fieldOf payload ''ioInputAssignments'' = Some (signalsJson (map idleSignal defaultInputs))"
    and "fieldOf payload ''netOutputAssignments'' = Some (signalsJson (map idleSignal (netChannels ''NET-OUT'' defaultNetOut)))"
    and "fieldOf payload ''netInputAssignments'' = Some (signalsJson (map idleSignal (netChannels ''NET-IN'' defaultNetIn)))"
    and "fieldOf payload ''diagnosticsError'' = Some (JString e)"
  by (simp_all add: payload_def makeDefaultIoAssignmentResponse_def fieldOf_object inactive_defaults del: map_map)

section \<open>The reply to a diagnostics command\<close>

text \<open>What the window shows of a reading.\<close>

definition terminalsShown :: "MotorDirectIoStatus \<Rightarrow> MotorRemoteIoStatus \<Rightarrow> 'q MotorPanelWindow \<Rightarrow> bool" where
  "terminalsShown direct remote w = (
     mw_inputRows w = shown (di_inputAssignments direct) \<and> mw_outputRows w = shown (di_outputAssignments direct)
     \<and> mw_netInputRows w = shown (ri_inputAssignments remote) \<and> mw_netOutputRows w = shown (ri_outputAssignments remote)
     \<and> mw_inputRaw w = argHex 4 (unat (di_reg00D5 direct)) \<and> mw_outputRaw w = argHex 4 (unat (di_reg00D4 direct))
     \<and> mw_netInputRaw w = argHex 4 (unat (ri_reg007D remote)) \<and> mw_netOutputRaw w = argHex 4 (unat (ri_reg007F remote)))"

definition lampsOff :: "'q MotorPanelWindow \<Rightarrow> bool" where
  "lampsOff w = (\<forall>rows \<in> {mw_inputRows w, mw_outputRows w, mw_netInputRows w, mw_netOutputRows w}.
     \<forall>c f l. rows c = Some (f, l) \<longrightarrow> l = Off)"

context json_library
begin

lemma update_filled:
  assumes "rowsComplete w" and "directChannels direct" and "remoteChannels remote"
  shows "\<exists>w'. updateFromDiagnostics L (fillDiagnostics i out direct remote alarm warning (makeDefaultIoAssignmentResponse motor)) w
      = (Inr (), w') \<and> terminalsShown direct remote w' \<and> mw_alarmText w' = diagnosisText alarm
      \<and> mw_warningText w' = diagnosisText warning"
  using update_diagnostics [OF assms(1) filled_fields(1-5)] assms(2,3)
    rawText_word [OF _ filled_fields(6)] rawText_word [OF _ filled_fields(7)]
    rawText_word [OF _ filled_fields(8)] rawText_word [OF _ filled_fields(9)]
  by (simp add: directChannels_def remoteChannels_def terminalsShown_def diagText_def filled_fields(10,11) formatDiag_diagnostic)

lemma update_failed:
  assumes "rowsComplete w"
  shows "\<exists>w'. updateFromDiagnostics L (setField ''diagnosticsError'' (JString e) (makeDefaultIoAssignmentResponse motor)) w
      = (Inr (), w') \<and> lampsOff w'"
  using update_diagnostics [OF assms failed_fields(1-5) default_channels] shown_idle
  by (fastforce simp: lampsOff_def)

end

lemma updateFromDiagnostics_pending:
  "updateFromDiagnostics L payload w = (r, w') \<Longrightarrow> mw_pendingRequest w' = mw_pendingRequest w"
  by (auto simp: updateFromDiagnostics_def act_defs split: if_splits prod.splits sum.splits)

text \<open>C20: the motor monitor shows what the server read: whatever the reply to a diagnostics command of the machine
  is, the window, in whatever state its rows are, shows each of the direct and network terminals with its
  assigned function and a lamp that is green exactly when the terminal is active, the four registers in
  hexadecimal, and the alarm and the warning with code, type, cause and action; when a reading failed, every
  lamp is off and the error stands in place of the alarm. No reply is pending afterwards.\<close>

theorem motor_window_shows_diagnostics:
  assumes "json_library L" and "handleMotorDiagnosticsCommand F motor m = (Inr payload, m')"
    and "rowsComplete w" and "mw_pendingRequest w \<in> {NoRequest, DiagnosticsRequest}"
    and "gr_ok response" and "gr_payload response = Some payload"
  shows "\<exists>w'. motorProcessResponse Q L response w = (Inr (), w')
    \<and> mw_pendingRequest w' = NoRequest
    \<and> (case readTerminals F motor m of
        Inl e \<Rightarrow> lampsOff w' \<and> mw_alarmText w' = ''Error: '' @ e
      | Inr (_, _, direct, remote, alarm, warning) \<Rightarrow> terminalsShown direct remote w'
          \<and> mw_alarmText w' = diagnosisText alarm \<and> mw_warningText w' = diagnosisText warning)"
proof (cases "readTerminals F motor m")
  case (Inl e)
  let ?w = "w\<lparr>mw_pendingRequest := NoRequest\<rparr>"
  have "rowsComplete ?w" using assms(3) by (simp add: rowsComplete_def)
  from json_library.update_failed [OF assms(1) this] obtain w'
    where u: "updateFromDiagnostics L payload ?w = (Inr (), w')" "lampsOff w'"
    using motorDiagnostics_payload [OF assms(2)] Inl by fastforce
  have "mw_pendingRequest w' = NoRequest" using updateFromDiagnostics_pending [OF u(1)] by simp
  with u Inl motorDiagnostics_payload [OF assms(2)] assms(4-6) show ?thesis
    by (auto simp: motorProcessResponse_def setAlarmText_def act_defs failed_fields lampsOff_def)
next
  case (Inr r)
  obtain i out direct remote alarm warning where r: "r = (i, out, direct, remote, alarm, warning)" by (cases r)
  let ?w = "w\<lparr>mw_pendingRequest := NoRequest\<rparr>"
  have "rowsComplete ?w" using assms(3) by (simp add: rowsComplete_def)
  from json_library.update_filled [OF assms(1) this] readTerminals_channels [OF Inr [unfolded r]] obtain w'
    where u: "updateFromDiagnostics L payload ?w = (Inr (), w')" "terminalsShown direct remote w'"
      "mw_alarmText w' = diagnosisText alarm" "mw_warningText w' = diagnosisText warning"
    using motorDiagnostics_payload [OF assms(2)] Inr r by fastforce
  have "mw_pendingRequest w' = NoRequest" using updateFromDiagnostics_pending [OF u(1)] by simp
  with u Inr r motorDiagnostics_payload [OF assms(2)] assms(4-6) show ?thesis
    by (auto simp: motorProcessResponse_def act_defs filled_fields)
qed

lemma motorDiagnostics_returns: "\<exists>payload m'. handleMotorDiagnosticsCommand F motor m = (Inr payload, m')"
  by (simp add: handleMotorDiagnosticsCommand_def Let_def catchA_def split: prod.split sum.split)

theorem motor_window_shows_diagnostics_witness:
  "\<exists>payload m' w'. handleMotorDiagnosticsCommand demoPlatform EMotor.XLeft demoMachine = (Inr payload, m')
    \<and> motorProcessResponse listCombo documentedJson
        \<lparr>gr_ok = True, gr_message = '''', gr_payload = Some payload\<rparr> (newMotorWindow ([], -1)) = (Inr (), w')
    \<and> mw_pendingRequest w' = NoRequest"
proof -
  obtain payload m' where p: "handleMotorDiagnosticsCommand demoPlatform EMotor.XLeft demoMachine = (Inr payload, m')"
    using motorDiagnostics_returns by blast
  have "mw_pendingRequest (newMotorWindow ([], -1)) \<in> {NoRequest, DiagnosticsRequest}" by (simp add: newMotorWindow_def)
  from motor_window_shows_diagnostics [OF documentedJson.json_library_axioms p new_complete this,
      of "\<lparr>gr_ok = True, gr_message = '''', gr_payload = Some payload\<rparr>"] p
  show ?thesis by auto
qed

end
