(* ===== verification/MainView.thy ===== *)
theory MainView
  imports MotorWindowSelection
begin

text \<open>
  The main window of the operator interface and its remaining widgets: lamps
  (\<^verbatim>\<open>GUI/src/LedIndicator.cpp\<close>), the monitor of the joysticks (\<^verbatim>\<open>JoystickWidget.cpp\<close>,
  \<^verbatim>\<open>JoystickPanelWindow.cpp\<close>), the bar of the commanded speed (\<^verbatim>\<open>SpeedCommandBar.cpp\<close>), the picture of
  the robot (\<^verbatim>\<open>RobotVisualisation.cpp\<close>, \<^verbatim>\<open>RobotAluBeam.hpp\<close>), the auxiliary buttons (\<^verbatim>\<open>AuxControls.cpp\<close>) and
  how the main window hands a status and the clicks on to them (\<^verbatim>\<open>MainWindow.cpp\<close>). Painting is left out but
  for what it computes from the state of a widget: colours, texts and the extent of the bar.
\<close>

section \<open>Lamps\<close>

record LedIndicator =
  li_ledState :: ELEDState
  li_blinkVisible :: bool

datatype LedColor = Green | Orange | Red | Transparent

definition newLed :: LedIndicator where
  "newLed = \<lparr>li_ledState = Off, li_blinkVisible = False\<rparr>"

definition setLedState :: "ELEDState \<Rightarrow> LedIndicator \<Rightarrow> LedIndicator" where
  "setLedState state led = (if li_ledState led \<noteq> state then led\<lparr>li_ledState := state\<rparr> else led)"

text \<open>All lamps there are, with the state they share.\<close>

definition toggleBlinkVisibility :: "bool \<times> LedIndicator list \<Rightarrow> bool \<times> LedIndicator list" where
  "toggleBlinkVisibility = (\<lambda>(shown, leds). (\<not> shown, map (\<lambda>led.
     if li_ledState led = ErrorBlinking then led\<lparr>li_blinkVisible := \<not> shown\<rparr> else led) leds))"

definition currentColor :: "LedIndicator \<Rightarrow> LedColor" where
  "currentColor led = (case li_ledState led of
     On \<Rightarrow> Green | ELEDState.Warning \<Rightarrow> Orange | ELEDState.Error \<Rightarrow> Red | Off \<Rightarrow> Transparent
   | ErrorBlinking \<Rightarrow> if li_blinkVisible led then Red else Transparent)"

section \<open>Joysticks\<close>

record JoystickWidget =
  jw_x :: real
  jw_y :: real
  jw_pressed :: bool

definition newJoystick :: JoystickWidget where
  "newJoystick = \<lparr>jw_x = 0, jw_y = 0, jw_pressed = False\<rparr>"

definition setXy :: "real \<Rightarrow> real \<Rightarrow> JoystickWidget \<Rightarrow> JoystickWidget" where
  "setXy x y w = (let nx = clampUnit x; ny = clampUnit y in
     if jw_x w = nx \<and> jw_y w = ny then w else w\<lparr>jw_x := nx, jw_y := ny\<rparr>)"

definition setButton :: "bool \<Rightarrow> JoystickWidget \<Rightarrow> JoystickWidget" where
  "setButton pressed w = (if jw_pressed w = pressed then w else w\<lparr>jw_pressed := pressed\<rparr>)"

record JoystickPanelWindow =
  jp_widgets :: "JoystickWidget list"
  jp_visible :: bool

definition newJoystickPanel :: JoystickPanelWindow where
  "newJoystickPanel = \<lparr>jp_widgets = replicate 3 newJoystick, jp_visible = False\<rparr>"

definition setJoystickState :: "int \<Rightarrow> real \<Rightarrow> real \<Rightarrow> bool \<Rightarrow> JoystickPanelWindow \<Rightarrow> JoystickPanelWindow" where
  "setJoystickState i x y pressed p =
     (if i < 0 \<or> int (length (jp_widgets p)) \<le> i then p
      else p\<lparr>jp_widgets := (jp_widgets p)[nat i := setButton pressed (setXy x y (jp_widgets p ! nat i))]\<rparr>)"

definition joystickCloseEvent :: "JoystickPanelWindow \<Rightarrow> JoystickPanelWindow" where
  "joystickCloseEvent p = p\<lparr>jp_visible := False\<rparr>"

section \<open>The commanded speed\<close>

record SpeedCommandBar =
  sb_percent :: real
  sb_maxMmPerSec :: real

definition clampPercent :: "real \<Rightarrow> real" where
  "clampPercent p = (if p < -100 then -100 else if 100 < p then 100 else p)"

definition setValues :: "real \<Rightarrow> real \<Rightarrow> SpeedCommandBar \<Rightarrow> SpeedCommandBar" where
  "setValues percent maxMmPerSec b = (let clampedPct = clampPercent percent in
     if sb_percent b = clampedPct \<and> sb_maxMmPerSec b = maxMmPerSec then b
     else b\<lparr>sb_percent := clampedPct, sb_maxMmPerSec := maxMmPerSec\<rparr>)"

text \<open>The filled part of a bar from \<open>left\<close> of width \<open>width\<close>, as its first column and its width.\<close>

definition barFill :: "SpeedCommandBar \<Rightarrow> int \<Rightarrow> nat \<Rightarrow> (int \<times> int) option" where
  "barFill b left width = (let cx = left + int (width div 2) in
     if 1 / 2 < \<bar>sb_percent b\<bar> then
       (let fillW = \<lfloor>\<bar>sb_percent b\<bar> / 100 * real (width div 2)\<rfloor> in
        Some (if 0 < sb_percent b then cx else cx - fillW, fillW))
     else None)"

section \<open>The picture of the robot\<close>

record RobotVisualisation =
  rb_top :: "real \<times> real"
  rb_left :: "real \<times> real"
  rb_right :: "real \<times> real"

definition newVisualisation :: RobotVisualisation where
  "newVisualisation = \<lparr>rb_top = (50, 50), rb_left = (150, 50), rb_right = (0, 50)\<rparr>"

definition armPosition :: "RobotStatus \<Rightarrow> EMotor \<Rightarrow> EMotor \<Rightarrow> (real \<times> real) option" where
  "armPosition rs xMotor yMotor = (case (rs_motors rs xMotor, rs_motors rs yMotor) of
     (Some x, Some y) \<Rightarrow> Some (sms_currentPosition x, sms_currentPosition y) | _ \<Rightarrow> None)"

definition updateVisualisation :: "RobotStatus \<Rightarrow> RobotVisualisation \<Rightarrow> RobotVisualisation" where
  "updateVisualisation rs v =
     (let v = (case armPosition rs XLeft YLeft of None \<Rightarrow> v | Some p \<Rightarrow> v\<lparr>rb_left := p\<rparr>)
      in case armPosition rs XRight YRight of None \<Rightarrow> v | Some p \<Rightarrow> v\<lparr>rb_right := p\<rparr>)"

section \<open>Other widgets\<close>

datatype AuxButton = AuxEnable | AuxDisable | AuxLoad | AuxSave

definition auxButtonCommand :: "AuxButton \<Rightarrow> GuiCommand option" where
  "auxButtonCommand b = (case b of
     AuxEnable \<Rightarrow> Some (GuiReconnectCommand Contec)
   | AuxDisable \<Rightarrow> Some (GuiRawCommand (object [(''type'', JString ''disableMotors'')]))
   | _ \<Rightarrow> None)"

fun axisStateText :: "EAxisState \<Rightarrow> string" where
  "axisStateText Locked = ''LOCKED''"
| "axisStateText Slow = ''SLOW''"
| "axisStateText Fast = ''FAST''"

definition statsMousePress :: "bool \<Rightarrow> EMotor \<Rightarrow> EMotor option" where
  "statsMousePress leftButton motor = (if leftButton then Some motor else None)"

section \<open>The main window\<close>

record 'q MainWindow =
  mm_view :: OperatorView
  mm_robotVis :: RobotVisualisation
  mm_joystickPanel :: "JoystickPanelWindow option"
  mm_motorPanel :: "'q MotorPanelWindow option"
  mm_contecPanel :: "ContecPanelWindow option"

type_synonym ('q, 'a) mainAct = "('q MainWindow, 'a) act"

text \<open>What the displays of a motor show before the first status.\<close>

definition initialStats :: "MotorStatsView \<Rightarrow> MotorStatsView" where
  "initialStats v = v\<lparr>mv_currentPosition := 40102 / 10, mv_speed := 2137, mv_targetPosition := 420, mv_status := Off,
     mv_brake := Off, mv_enabled := Off\<rparr>"

definition newMainWindow :: "(EArm \<Rightarrow> ToolChangerViewModel) \<Rightarrow> (EMotor \<Rightarrow> MotorStatsView) \<Rightarrow> 'q MainWindow" where
  "newMainWindow tools motors = \<lparr>mm_view = newView tools (\<lambda>i. initialStats (motors i)), mm_robotVis = newVisualisation,
     mm_joystickPanel = None, mm_motorPanel = None, mm_contecPanel = None\<rparr>"

definition onJoystickUpdate :: "int \<Rightarrow> real \<Rightarrow> real \<Rightarrow> bool \<Rightarrow> ('q, unit) mainAct" where
  "onJoystickUpdate i x y pressed = modifyA (\<lambda>m. m\<lparr>mm_joystickPanel := map_option (setJoystickState i x y pressed) (mm_joystickPanel m)\<rparr>)"

text \<open>An action of the motor monitor, if it has been made.\<close>

definition onMotorPanel :: "'q mwAct \<Rightarrow> ('q, unit) mainAct" where
  "onMotorPanel act = bindA (getA mm_motorPanel) (\<lambda>p. case p of
     None \<Rightarrow> ret ()
   | Some w \<Rightarrow> zoomA (\<lambda>_. w) (\<lambda>w m. m\<lparr>mm_motorPanel := Some w\<rparr>) act)"

definition joystickOf :: "EArm \<Rightarrow> int \<Rightarrow> RobotStatus \<Rightarrow> ('q, unit) mainAct" where
  "joystickOf arm i status = (case rs_joystics status arm of
     None \<Rightarrow> ret () | Some js \<Rightarrow> onJoystickUpdate i (js_x js) (js_y js) (js_btn js))"

definition onRobotStatusUpdate :: "'q ComboBox \<Rightarrow> RobotStatus \<Rightarrow> ('q, unit) mainAct" where
  "onRobotStatusUpdate Q status = seqA
     [onMotorPanel (setRobotStatus Q status), joystickOf EArm.Left 0 status, joystickOf EArm.Right 1 status, joystickOf Gantry 2 status]"

text \<open>What the updater's signals set off: the store with the widgets connected to it, then the main window.\<close>

definition mainEvent :: "'q ComboBox \<Rightarrow> GuiEvent \<Rightarrow> ('q, unit) mainAct" where
  "mainEvent Q e = thenA (modifyA (\<lambda>m. m\<lparr>mm_view := operatorEvent e (mm_view m)\<rparr>)) (case e of
     NewDataArrived st \<Rightarrow> thenA (modifyA (\<lambda>m. m\<lparr>mm_robotVis := updateVisualisation st (mm_robotVis m)\<rparr>)) (onRobotStatusUpdate Q st)
   | ServerNotConnected \<Rightarrow> ret ())"

definition openJoystickPanel :: "('q, unit) mainAct" where
  "openJoystickPanel = modifyA (\<lambda>m. m\<lparr>mm_joystickPanel := Some ((case mm_joystickPanel m of
     None \<Rightarrow> newJoystickPanel | Some p \<Rightarrow> p)\<lparr>jp_visible := True\<rparr>)\<rparr>)"

text \<open>\<open>q\<close> is a new combo box.\<close>

definition openMotorPanel :: "'q \<Rightarrow> ('q, unit) mainAct" where
  "openMotorPanel q = thenA
     (modifyA (\<lambda>m. if mm_motorPanel m = None then m\<lparr>mm_motorPanel := Some (newMotorWindow q)\<rparr> else m))
     (onMotorPanel motorShowEvent)"

definition openMotorPanelForMotor :: "'q ComboBox \<Rightarrow> 'q \<Rightarrow> EMotor \<Rightarrow> ('q, unit) mainAct" where
  "openMotorPanelForMotor Q q motor = thenA (openMotorPanel q) (onMotorPanel (setSelectedMotor Q motor))"

definition openContecPanel :: "YamlLib \<Rightarrow> Config \<Rightarrow> ('q, unit) mainAct" where
  "openContecPanel Y cf = bindA (getA mm_contecPanel) (\<lambda>p. bindA
     (case p of None \<Rightarrow> liftE (makeContecWindow Y cf) | Some w \<Rightarrow> ret w) (\<lambda>w.
     modifyA (\<lambda>m. m\<lparr>mm_contecPanel := Some (w\<lparr>cw_visible := True\<rparr>)\<rparr>)))"

end
