(* ===== verification/MainViewProps.thy ===== *)
theory MainViewProps
  imports MainView
begin

text \<open>
  What the main window shows after a status and what a click on a motor does.
\<close>

section \<open>Widgets\<close>

text \<open>A lamp that blinks is visible or not together with all others, from the first toggle on.\<close>

lemma toggle_in_phase:
  "\<forall>led \<in> set (snd (toggleBlinkVisibility s)). li_ledState led = ErrorBlinking \<longrightarrow> li_blinkVisible led = fst (toggleBlinkVisibility s)"
  by (cases s) (auto simp: toggleBlinkVisibility_def)

lemma toggle_states: "map li_ledState (snd (toggleBlinkVisibility (b, leds))) = map li_ledState leds"
  by (simp add: toggleBlinkVisibility_def)

text \<open>An error is never shown as anything but red, and what is no error never as red.\<close>

lemma color_red: "currentColor led = Red \<longleftrightarrow> li_ledState led = ELEDState.Error \<or> li_ledState led = ErrorBlinking \<and> li_blinkVisible led"
  by (cases "li_ledState led") (simp_all add: currentColor_def)

text \<open>The filled part of the bar stays within the half of its direction.\<close>

lemma setValues_percent: "sb_percent (setValues p m b) = clampPercent p"
  by (simp add: setValues_def Let_def)

lemma clampPercent_range: "\<bar>clampPercent p\<bar> \<le> 100"
  by (auto simp: clampPercent_def)

lemma bar_fill_bounds:
  assumes "barFill (setValues p m b) left width = Some (x, w)"
  shows "0 \<le> w \<and> w \<le> int (width div 2) \<and> left \<le> x \<and> x + w \<le> left + int width"
proof -
  let ?half = "real (width div 2)"
  have w: "w = \<lfloor>\<bar>clampPercent p\<bar> / 100 * ?half\<rfloor>"
    and x: "x = left + int (width div 2) \<or> x = left + int (width div 2) - w"
    using assms by (auto simp: barFill_def Let_def setValues_percent split: if_splits)
  have "\<bar>clampPercent p\<bar> / 100 * ?half \<le> 1 * ?half"
    by (rule mult_right_mono) (use clampPercent_range [of p] in simp_all)
  then have "w \<le> int (width div 2)" unfolding w by linarith
  moreover have "0 \<le> w" unfolding w by simp
  ultimately show ?thesis using x by linarith
qed

text \<open>A joystick shows the sample it was given, in the range of its circle.\<close>

definition joystickShown :: "JoystickStatus \<Rightarrow> JoystickWidget" where
  "joystickShown js = \<lparr>jw_x = clampUnit (js_x js), jw_y = clampUnit (js_y js), jw_pressed = js_btn js\<rparr>"

lemma setJoystick_shown: "setButton (js_btn js) (setXy (js_x js) (js_y js) w) = joystickShown js"
  by (cases w) (simp add: setButton_def setXy_def joystickShown_def Let_def)

text \<open>The widget of an arm.\<close>

definition armWidget :: "EArm \<Rightarrow> nat" where
  "armWidget arm = (case arm of EArm.Left \<Rightarrow> 0 | EArm.Right \<Rightarrow> 1 | Gantry \<Rightarrow> 2)"

definition showJoysticks :: "RobotStatus \<Rightarrow> JoystickPanelWindow \<Rightarrow> JoystickPanelWindow" where
  "showJoysticks st p = p\<lparr>jp_widgets := map (\<lambda>arm. case rs_joystics st arm of
     None \<Rightarrow> jp_widgets p ! armWidget arm | Some js \<Rightarrow> joystickShown js) [EArm.Left, EArm.Right, Gantry]\<rparr>"

lemma three_widgets: "length ws = 3 \<Longrightarrow> ws = [ws ! 0, ws ! 1, ws ! 2]"
  by (auto simp: numeral_3_eq_3 length_Suc_conv)

lemma joysticks_step:
  assumes "length (jp_widgets p) = 3"
  shows "seqA [joystickOf EArm.Left 0 st, joystickOf EArm.Right 1 st, joystickOf Gantry 2 st] (m\<lparr>mm_joystickPanel := Some p\<rparr>)
    = (Inr (), m\<lparr>mm_joystickPanel := Some (showJoysticks st p)\<rparr>)"
proof -
  obtain a b c where p: "jp_widgets p = [a, b, c]" using three_widgets [OF assms] by blast
  show ?thesis
    by (cases p) (use p in \<open>auto simp: joystickOf_def onJoystickUpdate_def act_defs setJoystickState_def setJoystick_shown
        showJoysticks_def armWidget_def split: option.splits\<close>)
qed

lemma joysticks_closed:
  "mm_joystickPanel m = None \<Longrightarrow> seqA [joystickOf EArm.Left 0 st, joystickOf EArm.Right 1 st, joystickOf Gantry 2 st] m = (Inr (), m)"
  by (cases m) (auto simp: joystickOf_def onJoystickUpdate_def act_defs split: option.splits)

section \<open>The main window\<close>

text \<open>The windows that have been opened are well formed.\<close>

definition mainOk :: "'q ComboBox \<Rightarrow> ('q \<Rightarrow> bool) \<Rightarrow> ('q \<Rightarrow> EMotor list) \<Rightarrow> 'q MainWindow \<Rightarrow> bool" where
  "mainOk Q ok items m = ((\<forall>w. mm_motorPanel m = Some w \<longrightarrow> windowOk Q ok items w)
     \<and> (\<forall>p. mm_joystickPanel m = Some p \<longrightarrow> length (jp_widgets p) = 3))"

lemma length_showJoysticks [simp]: "length (jp_widgets (showJoysticks st p)) = 3"
  by (simp add: showJoysticks_def)

lemma onRobotStatusUpdate_parts:
  "onRobotStatusUpdate Q st = thenA (onMotorPanel (setRobotStatus Q st))
     (seqA [joystickOf EArm.Left 0 st, joystickOf EArm.Right 1 st, joystickOf Gantry 2 st])"
  by (simp add: onRobotStatusUpdate_def)

lemma joysticks_any:
  assumes "\<forall>p. mm_joystickPanel m = Some p \<longrightarrow> length (jp_widgets p) = 3"
  shows "seqA [joystickOf EArm.Left 0 st, joystickOf EArm.Right 1 st, joystickOf Gantry 2 st] m
    = (Inr (), m\<lparr>mm_joystickPanel := map_option (showJoysticks st) (mm_joystickPanel m)\<rparr>)"
proof (cases "mm_joystickPanel m")
  case (Some p)
  then have "m = m\<lparr>mm_joystickPanel := Some p\<rparr>" by simp
  with joysticks_step [of p st m] assms Some show ?thesis by auto
qed (simp add: joysticks_closed del: seqA.simps)

context combo_box
begin

lemma status_step:
  assumes "mainOk Q ok items m"
  shows "\<exists>m'. onRobotStatusUpdate Q st m = (Inr (), m') \<and> mainOk Q ok items m'
    \<and> (mm_view m', mm_robotVis m', mm_contecPanel m') = (mm_view m, mm_robotVis m, mm_contecPanel m)
    \<and> mm_joystickPanel m' = map_option (showJoysticks st) (mm_joystickPanel m)
    \<and> (case mm_motorPanel m of None \<Rightarrow> mm_motorPanel m' = None
       | Some w \<Rightarrow> (\<exists>w'. mm_motorPanel m' = Some w' \<and> mw_visibleMotors w' = mapKeys allMotors (rs_motors st)
           \<and> selectedMotor Q w' = reselected (selectedMotor Q w) (mapKeys allMotors (rs_motors st)) \<and> lampsMatch Q st w'
           \<and> (\<exists>cs. mw_issued w' = mw_issued w @ cs \<and> set cs \<subseteq> GuiMotorDiagnosticsCommand ` dom (rs_motors st))))"
proof (cases "mm_motorPanel m")
  case None
  then have "onMotorPanel (setRobotStatus Q st) m = (Inr (), m)" by (simp add: onMotorPanel_def act_defs)
  with None assms show ?thesis
    by (auto simp: onRobotStatusUpdate_parts thenA_def bindA_def joysticks_any mainOk_def simp del: seqA.simps)
next
  case (Some w)
  with assms have "windowOk Q ok items w" by (simp add: mainOk_def)
  from setRobotStatus_step [OF this, of st] obtain w' where w': "setRobotStatus Q st w = (Inr (), w')" "windowOk Q ok items w'"
    and facts: "mw_visibleMotors w' = mapKeys allMotors (rs_motors st)"
      "selectedMotor Q w' = reselected (selectedMotor Q w) (mapKeys allMotors (rs_motors st))" "lampsMatch Q st w'"
      "\<exists>cs. mw_issued w' = mw_issued w @ cs \<and> set cs \<subseteq> GuiMotorDiagnosticsCommand ` dom (rs_motors st)"
    by blast
  have "onMotorPanel (setRobotStatus Q st) m = (Inr (), m\<lparr>mm_motorPanel := Some w'\<rparr>)"
    using Some w'(1) by (simp add: onMotorPanel_def act_defs)
  with Some assms w'(2) facts show ?thesis
    by (auto simp: onRobotStatusUpdate_parts thenA_def bindA_def joysticks_any mainOk_def simp del: seqA.simps)
qed

end

text \<open>C15: a status reaches every window. Whatever windows are open, a received status is shown by all of them
  without failing: the store and the widgets connected to it as they do alone, the beams of the robot at the
  positions of the arms whose two motors are known and otherwise where they were, each joystick at its value
  in the unit range if the status has it and otherwise as it was, and the motor monitor with the motors of the
  status, its selection kept where possible and its lamps those of the selected motor; no command but requests
  for diagnostics is sent.\<close>

theorem main_window_status:
  assumes "combo_box Q ok items" and "mainOk Q ok items m"
  shows "\<exists>m'. mainEvent Q (NewDataArrived st) m = (Inr (), m') \<and> mainOk Q ok items m'
    \<and> mm_view m' = operatorEvent (NewDataArrived st) (mm_view m) \<and> mm_contecPanel m' = mm_contecPanel m
    \<and> rb_left (mm_robotVis m') = (case armPosition st XLeft YLeft of None \<Rightarrow> rb_left (mm_robotVis m) | Some p \<Rightarrow> p)
    \<and> rb_right (mm_robotVis m') = (case armPosition st XRight YRight of None \<Rightarrow> rb_right (mm_robotVis m) | Some p \<Rightarrow> p)
    \<and> mm_joystickPanel m' = map_option (showJoysticks st) (mm_joystickPanel m)
    \<and> (case mm_motorPanel m of None \<Rightarrow> mm_motorPanel m' = None
       | Some w \<Rightarrow> (\<exists>w'. mm_motorPanel m' = Some w' \<and> mw_visibleMotors w' = mapKeys allMotors (rs_motors st)
           \<and> selectedMotor Q w' = reselected (selectedMotor Q w) (mapKeys allMotors (rs_motors st)) \<and> lampsMatch Q st w'
           \<and> (\<exists>cs. mw_issued w' = mw_issued w @ cs \<and> set cs \<subseteq> GuiMotorDiagnosticsCommand ` dom (rs_motors st))))"
proof -
  let ?m = "m\<lparr>mm_view := operatorEvent (NewDataArrived st) (mm_view m), mm_robotVis := updateVisualisation st (mm_robotVis m)\<rparr>"
  have "mainOk Q ok items ?m" using assms(2) by (simp add: mainOk_def)
  from combo_box.status_step [OF assms(1) this, of st] obtain m' where
    m': "onRobotStatusUpdate Q st ?m = (Inr (), m')" "mainOk Q ok items m'"
      "(mm_view m', mm_robotVis m', mm_contecPanel m') = (mm_view ?m, mm_robotVis ?m, mm_contecPanel m)"
      "mm_joystickPanel m' = map_option (showJoysticks st) (mm_joystickPanel m)"
      "case mm_motorPanel m of None \<Rightarrow> mm_motorPanel m' = None
       | Some w \<Rightarrow> (\<exists>w'. mm_motorPanel m' = Some w' \<and> mw_visibleMotors w' = mapKeys allMotors (rs_motors st)
           \<and> selectedMotor Q w' = reselected (selectedMotor Q w) (mapKeys allMotors (rs_motors st)) \<and> lampsMatch Q st w'
           \<and> (\<exists>cs. mw_issued w' = mw_issued w @ cs \<and> set cs \<subseteq> GuiMotorDiagnosticsCommand ` dom (rs_motors st)))"
    by auto
  have "mainEvent Q (NewDataArrived st) m = (Inr (), m')" using m'(1) by (simp add: mainEvent_def act_defs)
  with m' show ?thesis by (auto simp: updateVisualisation_def Let_def split: option.splits)
qed

text \<open>Clicks.\<close>

lemma open_step:
  assumes "mainOk Q ok items m" and "windowOk Q ok items (newMotorWindow q)"
  shows "\<exists>w. openMotorPanel q m = (Inr (), m\<lparr>mm_motorPanel := Some w\<rparr>) \<and> windowOk Q ok items w \<and> mw_visible w
    \<and> (case mm_motorPanel m of
        None \<Rightarrow> w = (newMotorWindow q)\<lparr>mw_visible := True, mw_timerActive := True\<rparr>
      | Some w0 \<Rightarrow> w = w0\<lparr>mw_visible := True, mw_timerActive := True\<rparr>)"
proof -
  have shown: "windowOk Q ok items (w\<lparr>mw_visible := True, mw_timerActive := True\<rparr>)" if "windowOk Q ok items w" for w
    using that selectedMotor_cong [of "w\<lparr>mw_visible := True, mw_timerActive := True\<rparr>" w Q] by (simp add: windowOk_def)
  show ?thesis
    using assms shown
    by (cases "mm_motorPanel m") (auto simp: openMotorPanel_def onMotorPanel_def motorShowEvent_def act_defs mainOk_def)
qed

text \<open>The next status selects the first motor of a monitor without a selection.\<close>

lemma first_status_selects:
  assumes "combo_box Q ok items" and "mainOk Q ok items m" and "mm_motorPanel m = Some w" and "selectedMotor Q w = None"
    and "rs_motors st \<noteq> Map.empty"
  shows "\<exists>m'' w''. onRobotStatusUpdate Q st m = (Inr (), m'') \<and> mm_motorPanel m'' = Some w''
    \<and> selectedMotor Q w'' = Some (hd (mapKeys allMotors (rs_motors st)))"
proof -
  have "mapKeys allMotors (rs_motors st) \<noteq> []" using assms(5) by (metis dom_eq_empty_conv mapKeys_motors set_empty)
  then show ?thesis
    using combo_box.status_step [OF assms(1,2), of st] assms(3,4) by (auto simp: reselected_def)
qed

text \<open>C16: a click on a motor opens the motor monitor. When the monitor was made before and lists the motor, the
  motor is selected and its diagnostics are requested. But the click that makes the monitor selects nothing and
  requests nothing, because the list is still empty, and the next status selects the first motor it has,
  whichever was clicked.\<close>

theorem motor_click_outcome:
  assumes "combo_box Q ok items" and "mainOk Q ok items m" and "windowOk Q ok items (newMotorWindow q)"
  shows "\<exists>m' w'. openMotorPanelForMotor Q q motor m = (Inr (), m') \<and> mainOk Q ok items m' \<and> mm_motorPanel m' = Some w' \<and> mw_visible w'
    \<and> (case mm_motorPanel m of
        Some w \<Rightarrow> motor \<in> set (mw_visibleMotors w) \<longrightarrow>
          selectedMotor Q w' = Some motor \<and> last (mw_issued w') = GuiMotorDiagnosticsCommand motor
      | None \<Rightarrow> selectedMotor Q w' = None \<and> mw_issued w' = []
          \<and> (\<forall>st. rs_motors st \<noteq> Map.empty \<longrightarrow> (\<exists>m'' w''. onRobotStatusUpdate Q st m' = (Inr (), m'')
              \<and> mm_motorPanel m'' = Some w'' \<and> selectedMotor Q w'' = Some (hd (mapKeys allMotors (rs_motors st))))))"
proof -
  from open_step [OF assms(2,3)] obtain w where w: "openMotorPanel q m = (Inr (), m\<lparr>mm_motorPanel := Some w\<rparr>)"
      "windowOk Q ok items w" "mw_visible w"
      "case mm_motorPanel m of None \<Rightarrow> w = (newMotorWindow q)\<lparr>mw_visible := True, mw_timerActive := True\<rparr>
      | Some w0 \<Rightarrow> w = w0\<lparr>mw_visible := True, mw_timerActive := True\<rparr>" by blast
  have run: "openMotorPanelForMotor Q q motor m = (Inr (), m\<lparr>mm_motorPanel := Some w'\<rparr>)"
    if "setSelectedMotor Q motor w = (Inr (), w')" for w'
    using that w(1) by (simp add: openMotorPanelForMotor_def onMotorPanel_def act_defs)
  have ok: "mainOk Q ok items (m\<lparr>mm_motorPanel := Some w'\<rparr>)" if "windowOk Q ok items w'" for w'
    using that assms(2) by (simp add: mainOk_def)
  show ?thesis
  proof (cases "motor \<in> set (mw_visibleMotors w)")
    case True
    from combo_box.setSelectedMotor_step [OF assms(1) w(2) True] obtain w' where
      w': "setSelectedMotor Q motor w = (Inr (), w')" "windowOk Q ok items w'" "selectedMotor Q w' = Some motor"
        "mw_visible w' = mw_visible w" "last (mw_issued w') = GuiMotorDiagnosticsCommand motor" by blast
    obtain w0 where "mm_motorPanel m = Some w0"
      using True w(4) by (cases "mm_motorPanel m") (auto simp: newMotorWindow_def)
    with run [OF w'(1)] ok [OF w'(2)] w' w(3) show ?thesis by simp
  next
    case False
    note same = combo_box.setSelectedMotor_absent [OF assms(1) w(2) False]
    show ?thesis
    proof (cases "mm_motorPanel m")
      case None
      with w(4) have w4: "mw_visibleMotors w = []" "mw_issued w = []" by (simp_all add: newMotorWindow_def)
      with w(2) have none: "selectedMotor Q w = None" by (simp add: windowOk_def)
      note later = first_status_selects [OF assms(1) ok [OF w(2)] _ none, simplified]
      with run [OF same] ok [OF w(2)] w(3) w4 none later None show ?thesis by simp
    next
      case (Some w0)
      with False w(4) have "motor \<notin> set (mw_visibleMotors w0)" by simp
      with run [OF same] ok [OF w(2)] w(3) Some show ?thesis by simp
    qed
  qed
qed

text \<open>Two clicks on the motor YLeft with a status with two motors between.\<close>

definition demoMain :: "ListCombo MainWindow" where
  "demoMain = newMainWindow (\<lambda>_. offToolChanger) (\<lambda>_. undefined)"

lemma demoMain_ok: "mainOk listCombo listComboOk fst demoMain"
  by (simp add: mainOk_def demoMain_def newMainWindow_def)

theorem main_window_status_witness:
  "\<exists>m'. mainEvent listCombo (NewDataArrived demoMotorStatus) demoMain = (Inr (), m') \<and> mainOk listCombo listComboOk fst m'"
  using main_window_status [OF listCombo.combo_box_axioms demoMain_ok, of demoMotorStatus] by blast

theorem motor_click_outcome_witness:
  "\<exists>m' m'' w''. openMotorPanelForMotor listCombo ([], -1) EMotor.YLeft demoMain = (Inr (), m')
    \<and> onRobotStatusUpdate listCombo demoMotorStatus m' = (Inr (), m'') \<and> mm_motorPanel m'' = Some w''
    \<and> selectedMotor listCombo w'' = Some EMotor.XRight"
proof -
  have first: "mm_motorPanel demoMain = None" by (simp add: demoMain_def newMainWindow_def)
  have some: "rs_motors demoMotorStatus \<noteq> Map.empty" by (simp add: demoMotorStatus_def)
  have hd: "hd (mapKeys allMotors (rs_motors demoMotorStatus)) = EMotor.XRight"
    by (simp add: mapKeys_def allMotors_def demoMotorStatus_def)
  show ?thesis
    using motor_click_outcome [OF listCombo.combo_box_axioms demoMain_ok newMotorWindow_ok, of EMotor.YLeft] first some hd
    by fastforce
qed

end
