(* ===== verification/PackedJson.thy ===== *)
theory PackedJson
  imports Messaging
begin

text \<open>
  A part of MessagePack as its specification has it (nil, booleans, small integers, strings, arrays and
  objects of the short forms): a library with the law the transport relies on. A value outside this part cannot
  be encoded.
\<close>

section \<open>Writing\<close>

definition byteOf :: "char \<Rightarrow> u8" where
  "byteOf c = of_nat (of_char c)"

definition packText :: "string \<Rightarrow> bytes option" where
  "packText s = (if length s < 32 then Some ((160 + of_nat (length s)) # map byteOf s) else None)"

fun pack :: "Json \<Rightarrow> bytes option"
  and packAll :: "Json list \<Rightarrow> bytes option"
  and packFields :: "(string \<times> Json) list \<Rightarrow> bytes option" where
  "pack JNull = Some [192]"
| "pack (JBool b) = Some [if b then 195 else 194]"
| "pack (JInt i) = (if 0 \<le> i \<and> i < 128 then Some [of_int i] else None)"
| "pack (JReal r) = None"
| "pack (JString s) = packText s"
| "pack (JArray js) = (if length js < 16 then map_option ((#) (144 + of_nat (length js))) (packAll js) else None)"
| "pack (JObject m) = (if length m < 16 then map_option ((#) (128 + of_nat (length m))) (packFields m) else None)"
| "packAll [] = Some []"
| "packAll (j # js) = (case (pack j, packAll js) of (Some b, Some bs) \<Rightarrow> Some (b @ bs) | _ \<Rightarrow> None)"
| "packFields [] = Some []"
| "packFields ((k, j) # m) = (case (packText k, pack j, packFields m) of
     (Some t, Some b, Some bs) \<Rightarrow> Some (t @ b @ bs) | _ \<Rightarrow> None)"

section \<open>Reading\<close>

definition unpackText :: "bytes \<Rightarrow> (string \<times> bytes) option" where
  "unpackText bs = (case bs of
     [] \<Rightarrow> None
   | b # bs \<Rightarrow> (let n = unat b - 160 in
       if 160 \<le> unat b \<and> unat b < 192 \<and> n \<le> length bs then Some (map (\<lambda>b. char_of (unat b)) (take n bs), drop n bs) else None))"

text \<open>\<open>fuel\<close> bounds the depth and the number of values, which the number of bytes does.\<close>

fun unpack :: "nat \<Rightarrow> bytes \<Rightarrow> (Json \<times> bytes) option"
  and unpackAll :: "nat \<Rightarrow> nat \<Rightarrow> bytes \<Rightarrow> (Json list \<times> bytes) option"
  and unpackFields :: "nat \<Rightarrow> nat \<Rightarrow> bytes \<Rightarrow> ((string \<times> Json) list \<times> bytes) option" where
  "unpack 0 bs = None"
| "unpack (Suc fuel) [] = None"
| "unpack (Suc fuel) (b # bs) = (let n = unat b in
     if n < 128 then Some (JInt (int n), bs)
     else if n < 144 then map_option (\<lambda>(m, rest). (JObject m, rest)) (unpackFields fuel (n - 128) bs)
     else if n < 160 then map_option (\<lambda>(js, rest). (JArray js, rest)) (unpackAll fuel (n - 144) bs)
     else if n < 192 then map_option (\<lambda>(s, rest). (JString s, rest)) (unpackText (b # bs))
     else if n = 192 then Some (JNull, bs)
     else if n = 194 then Some (JBool False, bs)
     else if n = 195 then Some (JBool True, bs)
     else None)"
| "unpackAll fuel 0 bs = Some ([], bs)"
| "unpackAll 0 (Suc n) bs = None"
| "unpackAll (Suc fuel) (Suc n) bs = Option.bind (unpack fuel bs) (\<lambda>(j, rest).
     map_option (\<lambda>(js, rest). (j # js, rest)) (unpackAll fuel n rest))"
| "unpackFields fuel 0 bs = Some ([], bs)"
| "unpackFields 0 (Suc n) bs = None"
| "unpackFields (Suc fuel) (Suc n) bs = Option.bind (unpackText bs) (\<lambda>(k, rest).
     Option.bind (unpack fuel rest) (\<lambda>(j, rest).
     map_option (\<lambda>(m, rest). ((k, j) # m, rest)) (unpackFields fuel n rest)))"

lemma unat_small: "n < 256 \<Longrightarrow> unat (of_nat n :: u8) = n"
  by (simp add: unat_of_nat)

lemma char_of_byte [simp]: "char_of (unat (byteOf c)) = c"
proof -
  have "of_char c < (256 :: nat)" by (cases c) (simp add: of_char_def)
  then show ?thesis by (simp add: byteOf_def unat_small)
qed

lemma unpackText_packText:
  assumes "packText s = Some b"
  shows "unpackText (b @ rest) = Some (s, rest)"
proof -
  have s: "length s < 32" "b = (160 + of_nat (length s)) # map byteOf s"
    using assms by (auto simp: packText_def split: if_splits)
  have "unat (160 + of_nat (length s) :: u8) = 160 + length s"
    using unat_small [of "160 + length s"] s(1) by simp
  with s show ?thesis by (simp add: unpackText_def comp_def)
qed

lemma pack_nonempty: "pack j = Some b \<Longrightarrow> 1 \<le> length b"
  by (cases j) (auto simp: packText_def split: if_splits)

lemma packText_nonempty: "packText s = Some b \<Longrightarrow> 1 \<le> length b"
  by (auto simp: packText_def split: if_splits)

lemma unat_tag: "k + n < 256 \<Longrightarrow> unat (of_nat k + of_nat n :: u8) = k + n"
  using unat_small [of "k + n"] by simp

lemma unpack_constants:
  assumes "2 \<le> fuel"
  shows "unpack fuel (192 # rest) = Some (JNull, rest)" "unpack fuel (194 # rest) = Some (JBool False, rest)"
    "unpack fuel (195 # rest) = Some (JBool True, rest)"
  using assms by (cases fuel, simp, simp)+

lemma unpack_pack:
  "pack j = Some b \<Longrightarrow> 2 * length b \<le> fuel \<Longrightarrow> unpack fuel (b @ rest) = Some (j, rest)"
  "packAll js = Some bs \<Longrightarrow> 2 * length bs + 1 \<le> fuel \<Longrightarrow> unpackAll fuel (length js) (bs @ rest) = Some (js, rest)"
  "packFields m = Some bs \<Longrightarrow> 2 * length bs + 1 \<le> fuel \<Longrightarrow> unpackFields fuel (length m) (bs @ rest) = Some (m, rest)"
proof (induction j and js and m arbitrary: b fuel rest and bs fuel rest and bs fuel rest rule: pack_packAll_packFields.induct)
  case (3 i)
  then obtain f where "fuel = Suc f" by (cases fuel) (auto split: if_splits)
  moreover have "unat (of_int i :: u8) = nat i" if "0 \<le> i" "i < 128"
    using that by (simp add: unat_eq_nat_uint uint_word_of_int)
  ultimately show ?case using 3 by (auto simp: Let_def split: if_splits)
next
  case (5 s)
  then have b: "packText s = Some b" by simp
  then obtain x xs where x: "b = x # xs" "unat x = 160 + length s" "length s < 32"
    using unat_tag [of 160 "length s"] by (auto simp: packText_def split: if_splits)
  then obtain f where "fuel = Suc f" using 5 by (cases fuel) auto
  with x unpackText_packText [OF b, of rest] show ?case by simp
next
  case (6 js)
  then obtain bs where bs: "packAll js = Some bs" "b = (144 + of_nat (length js)) # bs" "length js < 16"
    by (auto split: if_splits)
  then obtain f where f: "fuel = Suc f" "2 * length bs + 1 \<le> f" using 6 by (cases fuel) auto
  from unat_tag [of 144 "length js"] bs f 6(1) [OF bs(3) bs(1) f(2)] show ?case by simp
next
  case (7 m)
  then obtain bs where bs: "packFields m = Some bs" "b = (128 + of_nat (length m)) # bs" "length m < 16"
    by (auto split: if_splits)
  then obtain f where f: "fuel = Suc f" "2 * length bs + 1 \<le> f" using 7 by (cases fuel) auto
  from unat_tag [of 128 "length m"] bs f 7(1) [OF bs(3) bs(1) f(2)] show ?case by simp
next
  case (9 j js)
  then obtain b bs' where b: "pack j = Some b" "packAll js = Some bs'" "bs = b @ bs'" by (auto split: option.splits)
  then obtain f where "fuel = Suc f" using 9 by (cases fuel) auto
  with b 9 pack_nonempty [OF b(1)] show ?case by auto
next
  case (11 k j m)
  then obtain t b bs' where b: "packText k = Some t" "pack j = Some b" "packFields m = Some bs'" "bs = t @ b @ bs'"
    by (auto split: option.splits)
  then obtain f where "fuel = Suc f" using 11 by (cases fuel) auto
  with b 11 packText_nonempty [OF b(1)] unpackText_packText [OF b(1)] show ?case by auto
qed (auto simp: unpack_constants)

text \<open>The library; a text that cannot be logged is none of this part's.\<close>

definition packedJson :: Msgpack where
  "packedJson = \<lparr>
     mp_to = (\<lambda>j. case pack j of None \<Rightarrow> Inl ''not supported'' | Some b \<Rightarrow> Inr b),
     mp_from = (\<lambda>b. case unpack (2 * length b) b of Some (j, []) \<Rightarrow> Inr j | _ \<Rightarrow> Inl ''parse error''),
     mp_dump = (\<lambda>j. Inr '''')\<rparr>"

interpretation packedJson: msgpack packedJson
proof
  fix j b
  assume "mp_to packedJson j = Inr b"
  then have "pack j = Some b" by (simp add: packedJson_def split: option.splits)
  from unpack_pack(1) [OF this order_refl, of "[]"] show "mp_from packedJson b = Inr j"
    by (simp add: packedJson_def)
qed

end
