(* ===== verification/MessagingProps.thy ===== *)
theory MessagingProps
  imports PackedJson "HOL-Library.Multiset" "HOL-Library.Sublist"
begin

text \<open>
  What the message transport guarantees, for every socket library with the documented request-reply pattern
  and every interleaving of the client's calls, their ends and the server's rounds: a call that gets a
  response gets the one to its own command, also after calls that timed out, and no command is executed
  twice. And what it does not: a message that is no MessagePack value stops the server.
\<close>

section \<open>The pattern\<close>

text \<open>What is under way: requests with the number of the socket they came from, the request being served, the
  replies at the current request socket, its number, and whether it waits for a reply.\<close>

record Wire =
  wr_requests :: "(nat \<times> bytes) list"
  wr_serving :: "nat option"
  wr_replies :: "bytes list"
  wr_socket :: nat
  wr_waiting :: bool
  wr_published :: "bytes list"

locale request_reply =
  fixes Z :: "'z Sockets" and ok :: "'z \<Rightarrow> bool" and view :: "'z \<Rightarrow> Wire"
  assumes sendReq: "ok z \<Longrightarrow> \<not> wr_waiting (view z) \<Longrightarrow> zq_sendReq Z b z = (sent, z') \<Longrightarrow> ok z' \<and>
      (sent = Inr False \<and> view z' = view z \<or> sent = Inr True \<and>
        view z' = view z\<lparr>wr_requests := wr_requests (view z) @ [(wr_socket (view z), b)], wr_waiting := True\<rparr>)"
    and recvReq: "ok z \<Longrightarrow> wr_waiting (view z) \<Longrightarrow> zq_recvReq Z z = (got, z') \<Longrightarrow> ok z' \<and>
      (got = Inr None \<and> view z' = view z \<or> (\<exists>b bs. wr_replies (view z) = b # bs \<and> got = Inr (Some b)
        \<and> view z' = view z\<lparr>wr_replies := bs, wr_waiting := False\<rparr>))"
    and closeReq: "ok z \<Longrightarrow> zq_closeReq Z z = (u, z') \<Longrightarrow> ok z' \<and> u = Inr () \<and>
      (\<exists>qs. subseq qs (wr_requests (view z)) \<and> view z' = view z\<lparr>wr_requests := qs, wr_replies := [], wr_waiting := False\<rparr>)"
    and connectReq: "ok z \<Longrightarrow> zq_connectReq Z z = (u, z') \<Longrightarrow> ok z' \<and> u = Inr () \<and>
      view z' = view z\<lparr>wr_socket := Suc (wr_socket (view z)), wr_replies := [], wr_waiting := False\<rparr>"
    and recvRep: "ok z \<Longrightarrow> wr_serving (view z) = None \<Longrightarrow> zq_recvRep Z z = (got, z') \<Longrightarrow> ok z' \<and>
      (got = Inr None \<and> view z' = view z \<or> (\<exists>xs s b ys. wr_requests (view z) = xs @ (s, b) # ys \<and> got = Inr (Some b)
        \<and> view z' = view z\<lparr>wr_requests := xs @ ys, wr_serving := Some s\<rparr>))"
    and recvRep_turn: "ok z \<Longrightarrow> wr_serving (view z) = Some s \<Longrightarrow> \<exists>e z'. zq_recvRep Z z = (Inl e, z') \<and> ok z' \<and> view z' = view z"
    and sendRep: "ok z \<Longrightarrow> wr_serving (view z) = Some s \<Longrightarrow> zq_sendRep Z b z = (u, z') \<Longrightarrow> ok z' \<and> u = Inr () \<and>
      view z' = view z\<lparr>wr_serving := None,
        wr_replies := (if s = wr_socket (view z) then wr_replies (view z) @ [b] else wr_replies (view z))\<rparr>"
    and publish: "ok z \<Longrightarrow> zq_publish Z b z = (u, z') \<Longrightarrow> ok z' \<and> u = Inr () \<and>
      view z' = view z\<lparr>wr_published := wr_published (view z) @ [b]\<rparr>"
    and recvSub: "ok z \<Longrightarrow> zq_recvSub Z z = (got, z') \<Longrightarrow> ok z' \<and> view z' = view z \<and>
      (got = Inr None \<or> (\<exists>b \<in> set (wr_published (view z)). got = Inr (Some b)))"

text \<open>Sockets as queues, the first request first; a receive finds what has arrived.\<close>

definition queueSockets :: "Wire Sockets" where
  "queueSockets = \<lparr>
     zq_connectReq = modifyA (\<lambda>w. w\<lparr>wr_socket := Suc (wr_socket w), wr_replies := [], wr_waiting := False\<rparr>),
     zq_closeReq = modifyA (\<lambda>w. w\<lparr>wr_replies := [], wr_waiting := False\<rparr>),
     zq_sendReq = (\<lambda>b w. if wr_waiting w then (Inl ''not in turn'', w)
       else (Inr True, w\<lparr>wr_requests := wr_requests w @ [(wr_socket w, b)], wr_waiting := True\<rparr>)),
     zq_recvReq = (\<lambda>w. if \<not> wr_waiting w then (Inl ''not in turn'', w) else case wr_replies w of
       [] \<Rightarrow> (Inr None, w) | b # bs \<Rightarrow> (Inr (Some b), w\<lparr>wr_replies := bs, wr_waiting := False\<rparr>)),
     zq_recvRep = (\<lambda>w. if wr_serving w \<noteq> None then (Inl ''not in turn'', w) else case wr_requests w of
       [] \<Rightarrow> (Inr None, w) | (s, b) # qs \<Rightarrow> (Inr (Some b), w\<lparr>wr_requests := qs, wr_serving := Some s\<rparr>)),
     zq_sendRep = (\<lambda>b w. case wr_serving w of None \<Rightarrow> (Inl ''not in turn'', w)
       | Some s \<Rightarrow> (Inr (), w\<lparr>wr_serving := None,
           wr_replies := (if s = wr_socket w then wr_replies w @ [b] else wr_replies w)\<rparr>)),
     zq_publish = (\<lambda>b. modifyA (\<lambda>w. w\<lparr>wr_published := wr_published w @ [b]\<rparr>)),
     zq_recvSub = (\<lambda>w. (Inr (if wr_published w = [] then None else Some (last (wr_published w))), w))\<rparr>"

interpretation queueSockets: request_reply queueSockets "\<lambda>_. True" id
proof (unfold_locales, goal_cases)
  case (5 z got z')
  then show ?case
    by (cases "wr_requests z") (auto simp: queueSockets_def intro: exI [of _ "[]"] split: prod.splits)
qed (auto simp: queueSockets_def split: if_splits list.splits)

section \<open>Runs\<close>

text \<open>A client and a server over the sockets, with what has happened: a command was called, the server carried
  one out with a response, a call returned. A server whose loop throws is gone, and so is its process.\<close>

datatype Event = Called Json | Executed Json Json | Returned "Json option"

record ('s, 'z) Link =
  lk_server :: 's
  lk_sockets :: 'z
  lk_call :: "Json option"
  lk_serverUp :: bool
  lk_log :: "Event list"

datatype LinkStep = Call Json | Return | Serve

definition served :: "Msgpack \<Rightarrow> 'z Sockets \<Rightarrow> (string \<Rightarrow> Json option) \<Rightarrow> 's DispatchFn \<Rightarrow> 's \<Rightarrow> 'z \<Rightarrow> Event list" where
  "served M Z parse dispatch s z = (case fst (receiveCommand M Z z) of
     Inr (Some c) \<Rightarrow> [Executed c (fst (processCommand parse dispatch c s))] | _ \<Rightarrow> [])"

fun linkStep ::
  "Msgpack \<Rightarrow> 'z Sockets \<Rightarrow> (string \<Rightarrow> Json option) \<Rightarrow> 's DispatchFn \<Rightarrow> LinkStep \<Rightarrow> ('s, 'z) Link \<Rightarrow> ('s, 'z) Link" where
  "linkStep M Z parse dispatch (Call j) l = (if lk_call l \<noteq> None then l else
     case sendCommandStart M Z j (lk_sockets l) of
       (Inr True, z) \<Rightarrow> l\<lparr>lk_sockets := z, lk_call := Some j, lk_log := lk_log l @ [Called j]\<rparr>
     | (Inr False, z) \<Rightarrow> l\<lparr>lk_sockets := z, lk_log := lk_log l @ [Called j, Returned None]\<rparr>
     | (Inl e, z) \<Rightarrow> l\<lparr>lk_sockets := z\<rparr>)"
| "linkStep M Z parse dispatch Return l = (case lk_call l of
     None \<Rightarrow> l
   | Some j \<Rightarrow> (case sendCommandEnd M Z (lk_sockets l) of
       (Inr r, z) \<Rightarrow> l\<lparr>lk_sockets := z, lk_call := None, lk_log := lk_log l @ [Returned r]\<rparr>
     | (Inl e, z) \<Rightarrow> l\<lparr>lk_sockets := z\<rparr>))"
| "linkStep M Z parse dispatch Serve l = (if \<not> lk_serverUp l then l else
     case runLoopStep M Z parse dispatch (lk_server l, lk_sockets l) of
       (Inr _, (s, z)) \<Rightarrow> l\<lparr>lk_server := s, lk_sockets := z,
          lk_log := lk_log l @ served M Z parse dispatch (lk_server l) (lk_sockets l)\<rparr>
     | (Inl e, (s, z)) \<Rightarrow> l\<lparr>lk_server := s, lk_sockets := z, lk_serverUp := False\<rparr>)"

definition linkRun where
  "linkRun M Z parse dispatch = fold (linkStep M Z parse dispatch)"

definition startLink :: "'s \<Rightarrow> 'z \<Rightarrow> ('s, 'z) Link" where
  "startLink s z = \<lparr>lk_server = s, lk_sockets = z, lk_call = None, lk_serverUp = True, lk_log = []\<rparr>"

definition quietWire :: Wire where
  "quietWire = \<lparr>wr_requests = [], wr_serving = None, wr_replies = [], wr_socket = 0, wr_waiting = False, wr_published = []\<rparr>"

definition calledIn :: "Event list \<Rightarrow> Json list" where
  "calledIn evs = concat (map (\<lambda>e. case e of Called j \<Rightarrow> [j] | _ \<Rightarrow> []) evs)"

definition executedIn :: "Event list \<Rightarrow> Json list" where
  "executedIn evs = concat (map (\<lambda>e. case e of Executed j r \<Rightarrow> [j] | _ \<Rightarrow> []) evs)"

text \<open>Commands that can be sent and logged: texts that are no UTF-8 make the log line throw.\<close>

definition sendable :: "Msgpack \<Rightarrow> Json \<Rightarrow> bool" where
  "sendable M j = ((\<exists>b. mp_to M j = Inr b) \<and> (\<exists>t. mp_dump M j = Inr t))"

text \<open>The last call of a log was \<open>j\<close>, and only the server did something since.\<close>

definition lastCall :: "Event list \<Rightarrow> Json \<Rightarrow> Event list \<Rightarrow> bool" where
  "lastCall evs j since = (\<exists>before. evs = before @ Called j # since \<and> (\<forall>e \<in> set since. \<exists>c r. e = Executed c r))"

text \<open>Every response returned was made for the command of that call, after the call.\<close>

definition returnsOwn :: "Event list \<Rightarrow> bool" where
  "returnsOwn evs = (\<forall>xs r ys. evs = xs @ Returned (Some r) # ys \<longrightarrow>
     (\<exists>j since. lastCall xs j since \<and> Executed j r \<in> set since))"

lemma returnsOwn_Nil: "returnsOwn []"
  by (simp add: returnsOwn_def)

lemma returnsOwn_snoc:
  "returnsOwn (evs @ [e]) \<longleftrightarrow> returnsOwn evs \<and> (\<forall>r. e = Returned (Some r) \<longrightarrow> (\<exists>j since. lastCall evs j since \<and> Executed j r \<in> set since))"
proof -
  have split: "evs @ [e] = xs @ Returned (Some r) # ys \<longleftrightarrow>
      (ys = [] \<and> xs = evs \<and> e = Returned (Some r)) \<or> (\<exists>zs. ys = zs @ [e] \<and> evs = xs @ Returned (Some r) # zs)" for xs r ys
    by (cases ys rule: rev_cases) auto
  show ?thesis unfolding returnsOwn_def split by blast
qed

lemma returnsOwn_executed: "returnsOwn evs \<Longrightarrow> \<forall>e \<in> set es. \<exists>c r. e = Executed c r \<Longrightarrow> returnsOwn (evs @ es)"
proof (induction es rule: rev_induct)
  case (snoc e es)
  then show ?case using returnsOwn_snoc [of "evs @ es" e] by auto
qed simp

lemma lastCall_executed: "lastCall evs j since \<Longrightarrow> \<forall>e \<in> set es. \<exists>c r. e = Executed c r \<Longrightarrow> lastCall (evs @ es) j (since @ es)"
  by (auto simp: lastCall_def)

lemma lists_of_log [simp]:
  "calledIn (evs @ evs') = calledIn evs @ calledIn evs'" "executedIn (evs @ evs') = executedIn evs @ executedIn evs'"
  "calledIn [] = []" "executedIn [] = []"
  "calledIn [Called j] = [j]" "calledIn [Executed j r] = []" "calledIn [Returned x] = []" "calledIn [Called j, Returned x] = [j]"
  "executedIn [Called j] = []" "executedIn [Executed j r] = [j]" "executedIn [Returned x] = []" "executedIn [Called j, Returned x] = []"
  by (simp_all add: calledIn_def executedIn_def)

section \<open>The invariant\<close>

definition requestCommand :: "Msgpack \<Rightarrow> nat \<times> bytes \<Rightarrow> Json" where
  "requestCommand M q = (case mp_from M (snd q) of Inr j \<Rightarrow> j | Inl e \<Rightarrow> JNull)"

definition ofSocket :: "nat \<Rightarrow> (nat \<times> bytes) list \<Rightarrow> (nat \<times> bytes) list" where
  "ofSocket s = filter (\<lambda>q. fst q = s)"

text \<open>The call in progress has either its request or its reply under way, never both.\<close>

definition callOk :: "Msgpack \<Rightarrow> Event list \<Rightarrow> Json option \<Rightarrow> Wire \<Rightarrow> bool" where
  "callOk M evs call w = (case call of
     None \<Rightarrow> \<not> wr_waiting w \<and> wr_replies w = [] \<and> ofSocket (wr_socket w) (wr_requests w) = []
   | Some j \<Rightarrow> wr_waiting w \<and> (\<exists>since. lastCall evs j since \<and>
       ((\<exists>b. mp_to M j = Inr b \<and> wr_replies w = [] \<and> ofSocket (wr_socket w) (wr_requests w) = [(wr_socket w, b)])
        \<or> (\<exists>b. ofSocket (wr_socket w) (wr_requests w) = [] \<and> wr_replies w = [b]
             \<and> (\<forall>r. mp_from M b = Inr r \<longrightarrow> Executed j r \<in> set since)))))"

definition requestsOk :: "Msgpack \<Rightarrow> Event list \<Rightarrow> Wire \<Rightarrow> bool" where
  "requestsOk M evs w = ((\<forall>(s, b) \<in> set (wr_requests w). s \<le> wr_socket w \<and> (\<exists>j. mp_to M j = Inr b \<and> sendable M j))
     \<and> mset (executedIn evs) + mset (map (requestCommand M) (wr_requests w)) \<subseteq># mset (calledIn evs))"

definition linkOk :: "Msgpack \<Rightarrow> ('z \<Rightarrow> bool) \<Rightarrow> ('z \<Rightarrow> Wire) \<Rightarrow> ('s, 'z) Link \<Rightarrow> bool" where
  "linkOk M ok view l = (ok (lk_sockets l) \<and> lk_serverUp l \<and> wr_serving (view (lk_sockets l)) = None \<and> returnsOwn (lk_log l)
     \<and> requestsOk M (lk_log l) (view (lk_sockets l)) \<and> callOk M (lk_log l) (lk_call l) (view (lk_sockets l)))"

lemma subseq_mset: "subseq xs ys \<Longrightarrow> mset (map f xs) \<subseteq># mset (map f ys)"
  by (induction rule: list_emb.induct) (auto simp: subset_mset.add_increasing intro: subset_mset.order_trans)

lemma subseq_subset: "subseq xs ys \<Longrightarrow> set xs \<subseteq> set ys"
  by (induction rule: list_emb.induct) auto

lemma requestsOk_subseq:
  assumes "requestsOk M evs w" and "subseq qs (wr_requests w)" and "wr_requests w' = qs" and "wr_socket w \<le> wr_socket w'"
  shows "requestsOk M evs w'"
proof -
  let ?cs = "\<lambda>qs. mset (executedIn evs) + mset (map (requestCommand M) qs)"
  have "?cs qs \<subseteq># ?cs (wr_requests w)"
    using subseq_mset [OF assms(2), of "requestCommand M"] by simp
  also have "\<dots> \<subseteq># mset (calledIn evs)" using assms(1) by (simp add: requestsOk_def)
  finally have "?cs (wr_requests w') \<subseteq># mset (calledIn evs)" by (simp only: assms(3))
  moreover have "s \<le> wr_socket w' \<and> (\<exists>j. mp_to M j = Inr b \<and> sendable M j)" if "(s, b) \<in> set (wr_requests w')" for s b
    using assms(1,4) that subseq_subset [OF assms(2)] unfolding assms(3) requestsOk_def by fastforce
  ultimately show ?thesis by (auto simp: requestsOk_def)
qed

lemma requestsOk_called:
  assumes "requestsOk M evs w"
  shows "requestsOk M (evs @ [Called j]) w" and "requestsOk M (evs @ [Called j, Returned x]) w"
proof -
  have "A \<subseteq># add_mset j B" if "A \<subseteq># B" for A B :: "Json multiset"
    using that by (rule subset_mset.order_trans) simp
  with assms show "requestsOk M (evs @ [Called j]) w" "requestsOk M (evs @ [Called j, Returned x]) w"
    by (simp_all add: requestsOk_def)
qed

lemma requestsOk_returned: "requestsOk M evs w \<Longrightarrow> requestsOk M (evs @ [Returned x]) w"
  by (simp add: requestsOk_def)

lemma requestsOk_queued:
  assumes "requestsOk M evs w" and "sendable M j" and "mp_to M j = Inr b" and "mp_from M b = Inr j"
  shows "requestsOk M (evs @ [Called j]) (w\<lparr>wr_requests := wr_requests w @ [(wr_socket w, b)], wr_waiting := True\<rparr>)"
  using assms by (auto simp: requestsOk_def requestCommand_def)

lemma requestsOk_served:
  assumes "requestsOk M evs w" and "wr_requests w = xs @ (s, b) # ys" and "mp_from M b = Inr c"
    and "wr_requests w' = xs @ ys" and "wr_socket w' = wr_socket w"
  shows "requestsOk M (evs @ [Executed c r]) w'"
  using assms by (auto simp: requestsOk_def requestCommand_def)

locale transport = request_reply Z ok view + msgpack M
  for Z :: "'z Sockets" and ok :: "'z \<Rightarrow> bool" and view :: "'z \<Rightarrow> Wire" and M :: Msgpack +
  assumes no_value: "\<exists>e. mp_from M [] = Inl e"

context transport
begin

lemma call_step:
  assumes "linkOk M ok view l" and "sendable M j"
  shows "linkOk M ok view (linkStep M Z parse dispatch (Call j) l)"
proof (cases "lk_call l")
  case None
  let ?z = "lk_sockets l"
  obtain b where b: "mp_to M j = Inr b" using assms(2) by (auto simp: sendable_def)
  obtain r z' where r: "zq_sendReq Z b ?z = (r, z')" by (cases "zq_sendReq Z b ?z")
  have idle: "\<not> wr_waiting (view ?z)" using assms(1) None by (simp add: linkOk_def callOk_def)
  from sendReq [OF _ this r] assms(1) have z': "ok z'" "r = Inr False \<and> view z' = view ?z \<or> r = Inr True \<and>
      view z' = view ?z\<lparr>wr_requests := wr_requests (view ?z) @ [(wr_socket (view ?z), b)], wr_waiting := True\<rparr>"
    by (auto simp: linkOk_def)
  have start: "sendCommandStart M Z j ?z = (r, z')" using b r by (simp add: sendCommandStart_def act_defs liftE_def)
  have reqs: "requestsOk M (lk_log l) (view ?z)" using assms(1) by (simp add: linkOk_def)
  from z'(2) show ?thesis
  proof
    assume "r = Inr False \<and> view z' = view ?z"
    with None start z'(1) assms(1) requestsOk_called [OF reqs] show ?thesis
      using returnsOwn_snoc [of "lk_log l @ [Called j]" "Returned None"]
      by (simp add: linkOk_def callOk_def returnsOwn_snoc)
  next
    assume sent: "r = Inr True \<and> view z' = view ?z\<lparr>wr_requests := wr_requests (view ?z) @ [(wr_socket (view ?z), b)], wr_waiting := True\<rparr>"
    have "lastCall (lk_log l @ [Called j]) j []" by (auto simp: lastCall_def)
    with sent None start z'(1) assms b requestsOk_queued [OF reqs assms(2) b from_to [OF b]] show ?thesis
      by (auto simp: linkOk_def callOk_def returnsOwn_snoc ofSocket_def)
  qed
qed (use assms in simp)

text \<open>The end of a call: a reply, or a timeout, after which the socket is replaced.\<close>

lemma respawn:
  assumes "ok z"
  shows "\<exists>z' qs. thenA (zq_closeReq Z) (thenA (zq_connectReq Z) (ret None)) z = (Inr None, z') \<and> ok z' \<and> subseq qs (wr_requests (view z))
    \<and> view z' = view z\<lparr>wr_requests := qs, wr_replies := [], wr_waiting := False, wr_socket := Suc (wr_socket (view z))\<rparr>"
proof -
  obtain u1 z1 where 1: "zq_closeReq Z z = (u1, z1)" by (cases "zq_closeReq Z z")
  obtain u2 z2 where 2: "zq_connectReq Z z1 = (u2, z2)" by (cases "zq_connectReq Z z1")
  from closeReq [OF assms 1] obtain qs where qs: "ok z1" "u1 = Inr ()" "subseq qs (wr_requests (view z))"
    "view z1 = view z\<lparr>wr_requests := qs, wr_replies := [], wr_waiting := False\<rparr>" by auto
  from connectReq [OF qs(1) 2] qs 1 2 show ?thesis
    by (intro exI [of _ z2] exI [of _ qs]) (simp add: act_defs)
qed

lemma ofSocket_fresh: "\<forall>(s, b) \<in> set qs. s \<le> k \<Longrightarrow> ofSocket (Suc k) qs = []"
  by (fastforce simp: ofSocket_def filter_empty_conv)

lemma return_step:
  assumes "linkOk M ok view l"
  shows "linkOk M ok view (linkStep M Z parse dispatch Return l)"
proof (cases "lk_call l")
  case (Some j)
  let ?z = "lk_sockets l"
  have w: "wr_waiting (view ?z)" "ok ?z" and reqs: "requestsOk M (lk_log l) (view ?z)"
    using assms Some by (auto simp: linkOk_def callOk_def)
  obtain got z1 where g: "zq_recvReq Z ?z = (got, z1)" by (cases "zq_recvReq Z ?z")
  from recvReq [OF w(2,1) g] show ?thesis
  proof (elim conjE disjE exE)
    assume 1: "ok z1" "got = Inr None" "view z1 = view ?z"
    from respawn [OF 1(1)] obtain z2 qs where
      2: "thenA (zq_closeReq Z) (thenA (zq_connectReq Z) (ret (None :: Json option))) z1 = (Inr None, z2)" "ok z2"
        "subseq qs (wr_requests (view ?z))"
        "view z2 = view ?z\<lparr>wr_requests := qs, wr_replies := [], wr_waiting := False, wr_socket := Suc (wr_socket (view ?z))\<rparr>"
      unfolding 1(3) by (auto simp: ret_def)
    have "sendCommandEnd M Z ?z = (Inr None, z2)" using g 1 2(1) by (simp add: sendCommandEnd_def bindA_def)
    moreover have reqs2: "requestsOk M (lk_log l) (view z2)"
      by (rule requestsOk_subseq [OF reqs 2(3)]) (simp_all add: 2(4))
    moreover have "ofSocket (Suc (wr_socket (view ?z))) qs = []"
      using reqs subseq_subset [OF 2(3)] by (intro ofSocket_fresh) (fastforce simp: requestsOk_def)
    ultimately show ?thesis
      using Some assms 2 by (simp add: linkOk_def callOk_def returnsOwn_snoc requestsOk_returned)
  next
    fix b bs
    assume 1: "ok z1" "wr_replies (view ?z) = b # bs" "got = Inr (Some b)"
      "view z1 = view ?z\<lparr>wr_replies := bs, wr_waiting := False\<rparr>"
    from assms Some 1(2) obtain since where since: "lastCall (lk_log l) j since" "bs = []"
      "ofSocket (wr_socket (view ?z)) (wr_requests (view ?z)) = []" "\<forall>r. mp_from M b = Inr r \<longrightarrow> Executed j r \<in> set since"
      by (auto simp: linkOk_def callOk_def)
    let ?r = "case mp_from M b of Inl e \<Rightarrow> None | Inr json \<Rightarrow> Some json"
    have "sendCommandEnd M Z ?z = (Inr ?r, z1)" using g 1 by (simp add: sendCommandEnd_def bindA_def ret_def)
    moreover have "returnsOwn (lk_log l @ [Returned ?r])"
      using assms since(1,4) by (auto simp: returnsOwn_snoc linkOk_def split: sum.splits)
    moreover have "requestsOk M (lk_log l @ [Returned ?r]) (view z1)"
      using requestsOk_returned [OF requestsOk_subseq [OF reqs, of "wr_requests (view ?z)"]] 1(4) by simp
    ultimately show ?thesis
      using Some assms since 1 by (simp add: linkOk_def callOk_def)
  qed
qed (use assms in simp)

text \<open>A round of the server.\<close>

lemma sendResponse_replies:
  assumes "ok z" and "wr_serving (view z) = Some s"
  shows "\<exists>z' b. sendResponse M Z response z = (Inr (), z') \<and> ok z' \<and> (\<forall>r. mp_from M b = Inr r \<longrightarrow> r = response)
    \<and> view z' = view z\<lparr>wr_serving := None, wr_replies := (if s = wr_socket (view z) then wr_replies (view z) @ [b] else wr_replies (view z))\<rparr>"
proof (cases "mp_to M response")
  case (Inl e)
  obtain none where none: "mp_from M [] = Inl none" using no_value by blast
  obtain u z' where "zq_sendRep Z [] z = (u, z')" by (cases "zq_sendRep Z [] z")
  with sendRep [OF assms this] Inl show ?thesis
    by (intro exI [of _ z'] exI [of _ "[]"]) (simp add: sendResponse_def act_defs liftE_def none)
next
  case (Inr b)
  obtain u z' where "zq_sendRep Z b z = (u, z')" by (cases "zq_sendRep Z b z")
  with sendRep [OF assms this] Inr show ?thesis
    by (intro exI [of _ z'] exI [of _ b]) (simp add: sendResponse_def act_defs liftE_def from_to [OF Inr])
qed

lemma callOk_served:
  assumes "callOk M evs call w" and "wr_requests w = xs @ (s, b) # ys" and "mp_to M c = Inr b"
    and "\<forall>r. mp_from M b' = Inr r \<longrightarrow> r = response"
    and "wr_requests w' = xs @ ys" and "wr_socket w' = wr_socket w" and "wr_waiting w' = wr_waiting w"
    and "wr_replies w' = (if s = wr_socket w then wr_replies w @ [b'] else wr_replies w)"
  shows "callOk M (evs @ [Executed c response]) call w'"
proof (cases "s = wr_socket w")
  case False
  then have "ofSocket (wr_socket w) (wr_requests w') = ofSocket (wr_socket w) (wr_requests w)"
    by (simp add: assms(2,5) ofSocket_def)
  note same = this assms(6,7) assms(8) [simplified if_not_P [OF False]]
  show ?thesis
  proof (cases call)
    case None
    with assms(1) same show ?thesis by (simp add: callOk_def)
  next
    case (Some j)
    with assms(1) obtain since where "lastCall evs j since" and w: "wr_waiting w"
      "(\<exists>b. mp_to M j = Inr b \<and> wr_replies w = [] \<and> ofSocket (wr_socket w) (wr_requests w) = [(wr_socket w, b)])
        \<or> (\<exists>b. ofSocket (wr_socket w) (wr_requests w) = [] \<and> wr_replies w = [b]
             \<and> (\<forall>r. mp_from M b = Inr r \<longrightarrow> Executed j r \<in> set since))"
      by (auto simp: callOk_def)
    then have "lastCall (evs @ [Executed c response]) j (since @ [Executed c response])"
      by (simp add: lastCall_executed)
    with w same Some show ?thesis
      by (auto simp: callOk_def intro!: exI [of _ "since @ [Executed c response]"])
  qed
next
  case True
  then have "ofSocket (wr_socket w) (wr_requests w) = ofSocket (wr_socket w) xs @ (s, b) # ofSocket (wr_socket w) ys"
    by (simp add: assms(2) ofSocket_def)
  with assms(1) obtain j since b0 where j: "call = Some j" "wr_waiting w" "lastCall evs j since" "wr_replies w = []"
      "mp_to M j = Inr b" "ofSocket (wr_socket w) xs = []" "ofSocket (wr_socket w) ys = []"
    by (cases call) (auto simp: callOk_def append_eq_Cons_conv)
  then have "c = j" using from_to [OF assms(3)] from_to [OF j(5)] by simp
  have "lastCall (evs @ [Executed j response]) j (since @ [Executed j response])"
    by (rule lastCall_executed [OF j(3)]) simp
  with j \<open>c = j\<close> True assms(4-8) show ?thesis
    by (auto simp: callOk_def ofSocket_def intro!: exI [of _ "since @ [Executed j response]"])
qed

lemma serve_step:
  assumes "linkOk M ok view l"
  shows "linkOk M ok view (linkStep M Z parse dispatch Serve l)"
proof -
  let ?z = "lk_sockets l" and ?s = "lk_server l"
  have l: "ok ?z" "lk_serverUp l" "wr_serving (view ?z) = None" "returnsOwn (lk_log l)"
      "requestsOk M (lk_log l) (view ?z)" "callOk M (lk_log l) (lk_call l) (view ?z)"
    using assms by (simp_all add: linkOk_def)
  obtain got z1 where g: "zq_recvRep Z ?z = (got, z1)" by (cases "zq_recvRep Z ?z")
  from recvRep [OF l(1,3) g] show ?thesis
  proof (elim conjE disjE exE)
    assume "ok z1" "got = Inr None" "view z1 = view ?z"
    with l g show ?thesis
      by (simp add: runLoopStep_def receiveCommand_def act_defs served_def linkOk_def)
  next
    fix xs s b ys
    assume 1: "ok z1" "wr_requests (view ?z) = xs @ (s, b) # ys" "got = Inr (Some b)"
      "view z1 = view ?z\<lparr>wr_requests := xs @ ys, wr_serving := Some s\<rparr>"
    from l(5) 1(2) obtain c t where c: "mp_to M c = Inr b" "mp_dump M c = Inr t"
      by (auto simp: requestsOk_def sendable_def)
    note dec = from_to [OF c(1)]
    obtain response s' where p: "processCommand parse dispatch c ?s = (response, s')" by (cases "processCommand parse dispatch c ?s")
    have "wr_serving (view z1) = Some s" by (simp add: 1(4))
    from sendResponse_replies [OF 1(1) this] obtain z2 b' where 2: "sendResponse M Z response z1 = (Inr (), z2)" "ok z2"
      "\<forall>r. mp_from M b' = Inr r \<longrightarrow> r = response"
      "view z2 = view z1\<lparr>wr_serving := None, wr_replies := (if s = wr_socket (view z1) then wr_replies (view z1) @ [b'] else wr_replies (view z1))\<rparr>"
      by blast
    have recv: "receiveCommand M Z ?z = (Inr (Some c), z1)" using g 1(3) dec by (simp add: receiveCommand_def act_defs)
    have run: "runLoopStep M Z parse dispatch (?s, ?z) = (Inr (), (s', z2))"
      using recv c(2) p 2(1) by (simp add: runLoopStep_def act_defs liftE_def)
    have "callOk M (lk_log l @ [Executed c response]) (lk_call l) (view z2)"
      by (rule callOk_served [OF l(6) 1(2) c(1) 2(3)]) (simp_all add: 2(4) 1(4))
    moreover have "requestsOk M (lk_log l @ [Executed c response]) (view z2)"
      by (rule requestsOk_served [OF l(5) 1(2) dec]) (simp_all add: 2(4) 1(4))
    moreover have "returnsOwn (lk_log l @ [Executed c response])"
      by (rule returnsOwn_executed [OF l(4)]) simp
    ultimately show ?thesis
      using l(2) run recv p 2 by (simp add: linkOk_def served_def)
  qed
qed

lemma link_run:
  assumes "linkOk M ok view l" and "\<forall>j. Call j \<in> set steps \<longrightarrow> sendable M j"
  shows "linkOk M ok view (linkRun M Z parse dispatch steps l)"
  using assms
proof (induction steps arbitrary: l)
  case (Cons st steps)
  then have "linkOk M ok view (linkStep M Z parse dispatch st l)"
    by (cases st) (simp_all only: call_step return_step serve_step list.set_intros simp_thms)
  with Cons show ?case by (simp add: linkRun_def)
qed (simp add: linkRun_def)

end

text \<open>C12: responses over the message transport. For every MessagePack library that reads back what it wrote,
  every pair of sockets with the documented request-reply pattern, every dispatcher, and every interleaving of
  calls, their ends (with a reply or a timeout) and rounds of the server, with commands that can be encoded
  and logged: every response returned by a call was made by the server for the command of that call, after
  it was called, so a late reply to a call that timed out is never taken for the reply to the next one; no
  command is executed more often than it was called; and the server keeps running.\<close>

theorem transport_own_responses:
  assumes "transport Z ok view M" and "ok z" and "view z = quietWire" and "\<forall>j. Call j \<in> set steps \<longrightarrow> sendable M j"
  shows "returnsOwn (lk_log (linkRun M Z parse dispatch steps (startLink s z)))
    \<and> mset (executedIn (lk_log (linkRun M Z parse dispatch steps (startLink s z))))
        \<subseteq># mset (calledIn (lk_log (linkRun M Z parse dispatch steps (startLink s z))))
    \<and> lk_serverUp (linkRun M Z parse dispatch steps (startLink s z))"
proof -
  let ?l = "linkRun M Z parse dispatch steps (startLink s z)"
  have "linkOk M ok view (startLink s z)"
    using assms(2,3) by (simp add: linkOk_def startLink_def quietWire_def requestsOk_def callOk_def ofSocket_def returnsOwn_Nil)
  then have ok: "linkOk M ok view ?l" by (rule transport.link_run [OF assms(1) _ assms(4)])
  then have "mset (executedIn (lk_log ?l)) \<subseteq># mset (calledIn (lk_log ?l))"
    unfolding linkOk_def requestsOk_def by (meson mset_subset_eq_add_left subset_mset.order_trans)
  with ok show ?thesis by (simp add: linkOk_def)
qed

interpretation queueTransport: transport queueSockets "\<lambda>_. True" id packedJson
  by unfold_locales (simp add: packedJson_def)

definition stopCommand :: Json where
  "stopCommand = object [(''type'', JString ''emergencyStop'')]"

lemma stopCommand_sendable: "sendable packedJson stopCommand"
  by (simp add: sendable_def packedJson_def stopCommand_def object_def packText_def)

definition demoSteps :: "LinkStep list" where
  "demoSteps = [Call stopCommand, Return, Call stopCommand, Serve, Serve, Return]"

theorem transport_own_responses_witness:
  "returnsOwn (lk_log (linkRun packedJson queueSockets (\<lambda>_. None) (\<lambda>p t s. (Inr '''', s)) demoSteps (startLink () quietWire)))
   \<and> lk_serverUp (linkRun packedJson queueSockets (\<lambda>_. None) (\<lambda>p t s. (Inr '''', s)) demoSteps (startLink () quietWire))"
proof -
  have steps: "\<forall>j. Call j \<in> set demoSteps \<longrightarrow> sendable packedJson j"
    using stopCommand_sendable by (simp add: demoSteps_def)
  show ?thesis
    using transport_own_responses [OF queueTransport.transport_axioms TrueI id_apply steps,
        of "\<lambda>_. None" "\<lambda>p t s. (Inr [], s)" "()"] by blast
qed

section \<open>A message that is no value\<close>

text \<open>C13: a request that is no MessagePack value stops the server. For every sockets with the documented pattern:
  the round of the command server that receives such a message ignores it without a reply, and the next round
  throws, because the reply socket has to send first; nothing catches that in the server's thread.\<close>

theorem malformed_request_stops_server:
  assumes "request_reply Z ok view" and "ok z" and "wr_serving (view z) = None"
    and "zq_recvRep Z z = (Inr (Some b), z1)" and "mp_from M b = Inl e"
  shows "runLoopStep M Z parse dispatch (s, z) = (Inr (), (s, z1))
    \<and> (\<exists>e' z2. runLoopStep M Z parse dispatch (s, z1) = (Inl e', (s, z2)))"
proof -
  obtain s0 where "ok z1" "wr_serving (view z1) = Some s0"
    using request_reply.recvRep [OF assms(1-4)] by auto
  from request_reply.recvRep_turn [OF assms(1) this] obtain e' z2 where "zq_recvRep Z z1 = (Inl e', z2)" by blast
  with assms(4,5) show ?thesis
    by (simp add: runLoopStep_def receiveCommand_def act_defs)
qed

theorem malformed_request_stops_server_witness:
  "\<exists>z1 e' z2. runLoopStep packedJson queueSockets (\<lambda>_. None) (\<lambda>p t s. (Inr '''', s)) ((), quietWire\<lparr>wr_requests := [(0, [193])]\<rparr>) = (Inr (), ((), z1))
   \<and> runLoopStep packedJson queueSockets (\<lambda>_. None) (\<lambda>p t s. (Inr '''', s)) ((), z1) = (Inl e', ((), z2))"
proof -
  let ?z = "quietWire\<lparr>wr_requests := [(0, [193])]\<rparr>"
  have recv: "zq_recvRep queueSockets ?z = (Inr (Some [193]), quietWire\<lparr>wr_requests := [], wr_serving := Some 0\<rparr>)"
    by (simp add: queueSockets_def quietWire_def)
  have bad: "mp_from packedJson [193] = Inl ''parse error''" by code_simp
  have idle: "wr_serving (id ?z) = None" by (simp add: quietWire_def)
  show ?thesis
    using malformed_request_stops_server [OF queueSockets.request_reply_axioms TrueI idle recv bad,
        of "\<lambda>_. None" "\<lambda>p t s. (Inr [], s)" "()"] by blast
qed

section \<open>The status\<close>

context request_reply
begin

lemma publish_all:
  assumes "ok z" and "forA sts (Messaging.publish M Z) z = (Inr (), z')"
  shows "ok z' \<and> (\<forall>b \<in> set (wr_published (view z')) - set (wr_published (view z)). \<exists>st \<in> set sts. mp_to M (robotStatusToJson st) = Inr b)"
  using assms
proof (induction sts arbitrary: z)
  case (Cons st sts)
  from Cons.prems(2) obtain z1 where 1: "Messaging.publish M Z st z = (Inr (), z1)" "forA sts (Messaging.publish M Z) z1 = (Inr (), z')"
    by (auto simp: act_defs split: prod.splits sum.splits)
  then obtain b where b: "mp_to M (robotStatusToJson st) = Inr b" "zq_publish Z b z = (Inr (), z1)"
    by (auto simp: Messaging.publish_def act_defs liftE_def split: prod.splits sum.splits)
  from publish [OF Cons.prems(1) b(2)] have "ok z1" "wr_published (view z1) = wr_published (view z) @ [b]" by auto
  with Cons.IH [OF _ 1(2)] b(1) show ?case by auto
qed (auto simp: ret_def)

end

text \<open>C14: the status over the publish socket. After any statuses were published, what the operator interface
  receives is nothing or one of them, unchanged, whatever messages are lost or repeated.\<close>

theorem published_status_received:
  assumes "transport Z ok view M" and "json_library L" and "ok z" and "wr_published (view z) = []"
    and "forA sts (publish M Z) z = (Inr (), z1)" and "receiveRobotStatus M L Z z1 = (Inr (Some st), z2)"
  shows "st \<in> set sts"
proof -
  have wire: "request_reply Z ok view" and pack: "msgpack M"
    using assms(1) by (simp_all add: transport_def)
  obtain got where got: "zq_recvSub Z z1 = (got, z2)"
    using assms(6) by (auto simp: receiveRobotStatus_def act_defs split: prod.splits sum.splits option.splits)
  obtain b where b: "got = Inr (Some b)" and dec: "bindE (mp_from M b) (\<lambda>json. robotStatusFromJson L json emptyRobotStatus) = Inr st"
    using assms(6) got by (auto simp: receiveRobotStatus_def act_defs split: sum.splits option.splits)
  from request_reply.publish_all [OF wire assms(3,5)] request_reply.recvSub [OF wire _ got] b assms(4)
  obtain st' where "st' \<in> set sts" "mp_to M (robotStatusToJson st') = Inr b" by fastforce
  moreover from this have "st' = st"
    using dec msgpack.from_to [OF pack] robot_status_json_roundtrip [OF assms(2)] by (simp add: bindE_def)
  ultimately show ?thesis by simp
qed

definition safeStatus :: RobotStatus where
  "safeStatus = emptyRobotStatus\<lparr>rs_safetyOn := Some True\<rparr>"

lemma safeStatus_packed: "\<exists>b. mp_to packedJson (robotStatusToJson safeStatus) = Inr b"
  by (simp add: packedJson_def robotStatusToJson_def safeStatus_def emptyRobotStatus_def enumKeyedMapToJson_def
      mapKeys_def object_def packText_def)

theorem published_status_received_witness:
  "\<exists>z1 z2. forA [safeStatus, safeStatus] (publish packedJson queueSockets) quietWire = (Inr (), z1)
    \<and> receiveRobotStatus packedJson documentedJson queueSockets z1 = (Inr (Some safeStatus), z2)
    \<and> safeStatus \<in> set [safeStatus, safeStatus]"
proof -
  obtain b where b: "mp_to packedJson (robotStatusToJson safeStatus) = Inr b" using safeStatus_packed by blast
  let ?w = "quietWire\<lparr>wr_published := [b, b]\<rparr>"
  have pub: "forA [safeStatus, safeStatus] (publish packedJson queueSockets) quietWire = (Inr (), ?w)"
    using b by (simp add: publish_def act_defs liftE_def queueSockets_def quietWire_def)
  have recv: "receiveRobotStatus packedJson documentedJson queueSockets ?w = (Inr (Some safeStatus), ?w)"
    using packedJson.from_to [OF b] robot_status_json_roundtrip [OF documentedJson.json_library_axioms]
    by (simp add: receiveRobotStatus_def act_defs queueSockets_def bindE_def)
  have start: "wr_published (id quietWire) = []" by (simp add: quietWire_def)
  show ?thesis
    using published_status_received [OF queueTransport.transport_axioms documentedJson.json_library_axioms TrueI start pub recv]
      pub recv by blast
qed

end
