(* ===== verification/SerialPort.thy ===== *)
theory SerialPort
  imports Configuration
begin

text \<open>
  The serial channel of the panel (\<^verbatim>\<open>Server/src/SerialControlPanelComm.cpp\<close>): opening, closing and reading
  the port, and the panel over it. The class \<^verbatim>\<open>LibSerial::SerialPort\<close> and the descriptor calls of the
  operating system are the parameter \<open>S\<close>, actions on a world that holds the current port object; the locale
  \<open>serial_library\<close> states what the code relies on, in terms of the descriptor of that object and the
  descriptors that are open.
\<close>

section \<open>The library\<close>

datatype ReadOutcome = GotLine string | ReadTimeout | ReadError exn

record 'w SerialLib =
  sl_make :: "'w \<Rightarrow> 'w"
  sl_leakAndMake :: "'w \<Rightarrow> 'w"
  sl_fileDescriptor :: "('w, int) act"
  sl_isOpen :: "('w, bool) act"
  sl_open :: "string \<Rightarrow> ('w, unit) act"
  sl_close :: "('w, unit) act"
  sl_set :: "SerialSettings \<Rightarrow> nat \<Rightarrow> ('w, unit) act"
  sl_flush :: "('w, unit) act"
  sl_readLine :: "char \<Rightarrow> nat \<Rightarrow> 'w \<Rightarrow> ReadOutcome \<times> 'w"
  sl_available :: "('w, int) act"
  os_valid :: "int \<Rightarrow> 'w \<Rightarrow> bool"
  os_close :: "int \<Rightarrow> 'w \<Rightarrow> bool \<times> 'w"

text \<open>\<open>sl_set cfg k\<close> applies the \<open>k\<close>th of baud rate, character size, flow control, parity and stop bits.\<close>

section \<open>The channel\<close>

definition closeViaLibrary :: "'w SerialLib \<Rightarrow> ('w, bool) act" where
  "closeViaLibrary S = catchA (bindA (sl_isOpen S) (\<lambda>isOpen. thenA (whenA isOpen (sl_close S)) (ret False))) (\<lambda>e. ret True)"

definition forceClose :: "'w SerialLib \<Rightarrow> int \<Rightarrow> ('w, unit) act" where
  "forceClose S fd = modifyA (\<lambda>w. if 0 \<le> fd \<and> os_valid S fd w then snd (os_close S fd w) else w)"

definition closeNoThrow :: "'w SerialLib \<Rightarrow> ('w, unit) act" where
  "closeNoThrow S = bindA (catchA (sl_fileDescriptor S) (\<lambda>e. ret (-1))) (\<lambda>fd.
     bindA (closeViaLibrary S) (\<lambda>closeViaLibSerialFailed.
     if closeViaLibSerialFailed then thenA (forceClose S fd) (modifyA (sl_leakAndMake S))
     else modifyA (sl_make S)))"

definition serialOpen :: "'w SerialLib \<Rightarrow> SerialSettings \<Rightarrow> ('w, unit) act" where
  "serialOpen S cfg = seqA ([closeNoThrow S, sl_open S (se_port cfg)] @ map (sl_set S cfg) [0 ..< 5] @ [sl_flush S])"

definition healthCheck :: "'w SerialLib \<Rightarrow> ('w, unit) act" where
  "healthCheck S = catchA
     (bindA (sl_isOpen S) (\<lambda>isOpen. if \<not> isOpen then throwA ''ControlPanel serial port is no longer open.''
        else ignoreA (sl_available S)))
     (\<lambda>e. throwA (''ControlPanel serial health check failed: '' @ e))"

definition readLine :: "'w SerialLib \<Rightarrow> SerialSettings \<Rightarrow> ('w, string option) act" where
  "readLine S cfg w = (case sl_readLine S (se_lineTerminator cfg) (se_readTimeoutMS cfg) w of
     (GotLine line, w') \<Rightarrow> (Inr (Some line), w')
   | (ReadTimeout, w') \<Rightarrow> thenA (healthCheck S) (ret None) w'
   | (ReadError e, w') \<Rightarrow> (Inl (''ControlPanel serial read failed: '' @ e), w'))"

definition describe :: "SerialSettings \<Rightarrow> string" where
  "describe cfg = ''serial('' @ se_port cfg @ '')''"

section \<open>The panel over the channel\<close>

text \<open>\<^verbatim>\<open>ControlPanel::initialize\<close>, \<^verbatim>\<open>reset\<close> and a round of \<^verbatim>\<open>readerLoop\<close> with their calls of the channel.\<close>

datatype SerialPanelOp = SPInit | SPReset | SPRead

definition readerEvent :: "exn + string option \<Rightarrow> ReaderEvent" where
  "readerEvent r = (case r of Inl e \<Rightarrow> ReadFailed e | Inr None \<Rightarrow> NoLine | Inr (Some line) \<Rightarrow> Line line)"

fun serialPanelStep :: "'w SerialLib \<Rightarrow> SerialSettings \<Rightarrow> SerialPanelOp \<Rightarrow> ControlPanel \<times> 'w \<Rightarrow> ControlPanel \<times> 'w" where
  "serialPanelStep S cfg SPInit (cp, w) =
     (case serialOpen S cfg (snd (closeNoThrow S w)) of (r, w') \<Rightarrow>
       (snd (panelInitialize r cp), case r of Inl e \<Rightarrow> snd (closeNoThrow S w') | Inr _ \<Rightarrow> w'))"
| "serialPanelStep S cfg SPReset (cp, w) = (panelReset cp, snd (closeNoThrow S w))"
| "serialPanelStep S cfg SPRead (cp, w) = (if \<not> cp_readerRunning cp then (cp, w) else
     case readLine S cfg w of (r, w') \<Rightarrow>
       (readerStep (readerEvent r) cp, case r of Inl e \<Rightarrow> snd (closeNoThrow S w') | Inr _ \<Rightarrow> w'))"

section \<open>What the code relies on\<close>

locale serial_library =
  fixes S :: "'w SerialLib" and port :: "'w \<Rightarrow> int option" and fds :: "'w \<Rightarrow> int set"
  assumes make: "port (sl_make S w) = None" "fds (sl_make S w) = fds w - set_option (port w)"
    and leakAndMake: "port (sl_leakAndMake S w) = None" "fds (sl_leakAndMake S w) = fds w"
    and fileDescriptor: "case port w of Some n \<Rightarrow> sl_fileDescriptor S w = (Inr n, w) \<and> 0 \<le> n | None \<Rightarrow> \<exists>e. sl_fileDescriptor S w = (Inl e, w)"
    and isOpen: "sl_isOpen S w = (Inr (port w \<noteq> None), w)"
    and opened: "port w = None \<Longrightarrow> sl_open S name w = (u, w') \<Longrightarrow>
      case u of Inl e \<Rightarrow> port w' = None \<and> fds w' = fds w | Inr _ \<Rightarrow> \<exists>n. port w' = Some n \<and> fds w' = insert n (fds w)"
    and closed: "port w = Some n \<Longrightarrow> sl_close S w = (u, w') \<Longrightarrow>
      case u of Inr _ \<Rightarrow> port w' = None \<and> fds w' = fds w - {n} | Inl e \<Rightarrow> fds w' \<subseteq> fds w \<and> fds w - {n} \<subseteq> fds w'"
    and sets: "sl_set S cfg k w = (u, w') \<Longrightarrow> port w' = port w \<and> fds w' = fds w"
    and flush: "sl_flush S w = (u, w') \<Longrightarrow> port w' = port w \<and> fds w' = fds w"
    and reads: "sl_readLine S c k w = (got, w') \<Longrightarrow> port w' = port w \<and> fds w' = fds w"
    and available: "sl_available S w = (count, w') \<Longrightarrow> port w' = port w \<and> fds w' = fds w"
    and valid: "os_valid S n w \<longleftrightarrow> n \<in> fds w"
    and osClose: "os_close S n w = (ok, w') \<Longrightarrow> port w' = port w \<and> fds w' = fds w - {n}"

text \<open>A line changes neither the state nor the reader.\<close>

lemma feedAll_kept:
  "cp_state (fold (\<lambda>(i, s). feedJoystick i s) xs cp) = cp_state cp
   \<and> cp_readerRunning (fold (\<lambda>(i, s). feedJoystick i s) xs cp) = cp_readerRunning cp
   \<and> cp_commOpen (fold (\<lambda>(i, s). feedJoystick i s) xs cp) = cp_commOpen cp"
  by (induction xs arbitrary: cp) (auto simp: feedJoystick_def split: prod.splits)

lemma processLine_kept:
  "cp_state (processLine line cp) = cp_state cp" "cp_readerRunning (processLine line cp) = cp_readerRunning cp"
  "cp_commOpen (processLine line cp) = cp_commOpen cp"
  using feedAll_kept by (auto simp: processLine_def split: option.splits)

context serial_library
begin

text \<open>Closing never throws, leaves a closed port, and closes its descriptor even where the library fails to.\<close>

lemma closeNoThrow_closes:
  "\<exists>w'. closeNoThrow S w = (Inr (), w') \<and> port w' = None \<and> fds w' = fds w - set_option (port w)"
proof (cases "port w")
  case None
  with fileDescriptor [of w] obtain e where "sl_fileDescriptor S w = (Inl e, w)" by auto
  with None show ?thesis
    by (simp add: closeNoThrow_def closeViaLibrary_def act_defs isOpen make)
next
  case (Some n)
  with fileDescriptor [of w] have n: "sl_fileDescriptor S w = (Inr n, w)" "0 \<le> n" by simp_all
  obtain u w1 where c: "sl_close S w = (u, w1)" by (cases "sl_close S w")
  show ?thesis
  proof (cases u)
    case (Inr x)
    with closed [OF Some c] n c Some show ?thesis
      by (simp add: closeNoThrow_def closeViaLibrary_def act_defs isOpen make)
  next
    case (Inl e)
    obtain ok w2 where o: "os_close S n w1 = (ok, w2)" by (cases "os_close S n w1")
    let ?w2 = "if n \<in> fds w1 then w2 else w1"
    have "closeNoThrow S w = (Inr (), sl_leakAndMake S ?w2)"
      using Inl n c Some o by (simp add: closeNoThrow_def closeViaLibrary_def forceClose_def act_defs isOpen valid)
    moreover have "fds ?w2 = fds w - {n}" using closed [OF Some c] Inl osClose [OF o] by auto
    ultimately show ?thesis using Some by (simp add: leakAndMake)
  qed
qed

lemma seq_keeps:
  assumes "\<forall>act \<in> set acts. \<forall>w u w'. act w = (u, w') \<longrightarrow> port w' = port w \<and> fds w' = fds w"
    and "seqA acts w = (u, w')"
  shows "port w' = port w \<and> fds w' = fds w"
  using assms
proof (induction acts arbitrary: w)
  case (Cons act acts)
  obtain u1 w1 where a: "act w = (u1, w1)" by (cases "act w")
  with Cons.prems(1) have k: "port w1 = port w \<and> fds w1 = fds w" by auto
  with a Cons.prems(2) Cons.IH [of w1] Cons.prems(1) show ?case
    by (cases u1) (auto simp: act_defs)
qed (simp add: ret_def)

lemma settings_keep:
  assumes "seqA (map (sl_set S cfg) ks @ [sl_flush S]) w = (u, w')"
  shows "port w' = port w \<and> fds w' = fds w"
  by (rule seq_keeps [OF _ assms]) (auto simp: sets flush)

lemma serialOpen_outcome:
  assumes "serialOpen S cfg w = (r, w')" and "fds w = set_option (port w)"
  shows "fds w' = set_option (port w') \<and> (r = Inr () \<longrightarrow> port w' \<noteq> None)"
proof -
  obtain w1 where 1: "closeNoThrow S w = (Inr (), w1)" "port w1 = None" "fds w1 = {}"
    using closeNoThrow_closes [of w] assms(2) by auto
  obtain u w2 where 2: "sl_open S (se_port cfg) w1 = (u, w2)" by (cases "sl_open S (se_port cfg) w1")
  obtain v w3 where 3: "seqA (map (sl_set S cfg) [0 ..< 5] @ [sl_flush S]) w2 = (v, w3)"
    by (cases "seqA (map (sl_set S cfg) [0 ..< 5] @ [sl_flush S]) w2")
  have "serialOpen S cfg w = (case u of Inl e \<Rightarrow> (Inl e, w2) | Inr _ \<Rightarrow> (v, w3))"
    using 1(1) 2 3 by (cases u) (simp_all add: serialOpen_def thenA_def bindA_def)
  with assms(1) opened [OF 1(2) 2] settings_keep [OF 3] 1(3) show ?thesis
    by (cases u) (auto simp del: upt_Suc)
qed

lemma readLine_keeps:
  assumes "readLine S cfg w = (r, w')"
  shows "port w' = port w \<and> fds w' = fds w"
proof -
  obtain got w1 where g: "sl_readLine S (se_lineTerminator cfg) (se_readTimeoutMS cfg) w = (got, w1)"
    by (cases "sl_readLine S (se_lineTerminator cfg) (se_readTimeoutMS cfg) w")
  obtain a w2 where a: "sl_available S w1 = (a, w2)" by (cases "sl_available S w1")
  from assms g a reads [OF g] available [OF a] show ?thesis
    by (cases got; cases a)
      (auto simp: readLine_def healthCheck_def act_defs isOpen ignoreA_def mapA_def split: if_splits)
qed

text \<open>The panel's view of its port is right, and nothing else is open.\<close>

definition portInv :: "ControlPanel \<times> 'w \<Rightarrow> bool" where
  "portInv = (\<lambda>(cp, w). fds w = set_option (port w) \<and> (port w \<noteq> None \<longleftrightarrow> cp_state cp = ComponentState.Normal)
     \<and> (cp_readerRunning cp \<longleftrightarrow> cp_state cp = ComponentState.Normal) \<and> (cp_commOpen cp \<longleftrightarrow> cp_state cp = ComponentState.Normal))"

lemma portInv_closed:
  assumes "fds w = set_option (port w)" and "cp_state cp = ComponentState.Error" and "\<not> cp_readerRunning cp" and "\<not> cp_commOpen cp"
  shows "portInv (cp, snd (closeNoThrow S w))"
  using closeNoThrow_closes [of w] assms by (auto simp: portInv_def)

lemma portInv_init:
  assumes "portInv (cp, w)"
  shows "portInv (serialPanelStep S cfg SPInit (cp, w))"
proof -
  have w: "fds w = set_option (port w)" using assms by (simp add: portInv_def)
  obtain w1 where 1: "closeNoThrow S w = (Inr (), w1)" "port w1 = None" "fds w1 = {}"
    using closeNoThrow_closes [of w] w by auto
  obtain r w2 where 2: "serialOpen S cfg w1 = (r, w2)" by (cases "serialOpen S cfg w1")
  from serialOpen_outcome [OF 2] 1 have o: "fds w2 = set_option (port w2)" "r = Inr () \<Longrightarrow> port w2 \<noteq> None" by auto
  show ?thesis
  proof (cases r)
    case (Inl e)
    with portInv_closed [OF o(1), of "snd (panelInitialize r cp)"] 1 2 show ?thesis
      by (simp add: panelInitialize_def act_defs panelReset_def)
  next
    case (Inr x)
    with o 1 2 show ?thesis
      by (simp add: panelInitialize_def act_defs panelReset_def portInv_def resetSignalProcessingState_def)
  qed
qed

lemma portInv_read:
  assumes "portInv (cp, w)" and "cp_readerRunning cp"
  shows "portInv (serialPanelStep S cfg SPRead (cp, w))"
proof -
  obtain r w1 where r: "readLine S cfg w = (r, w1)" by (cases "readLine S cfg w")
  have k: "port w1 = port w" "fds w1 = fds w" using readLine_keeps [OF r] by simp_all
  then have w1: "fds w1 = set_option (port w1)" using assms(1) by (simp add: portInv_def)
  show ?thesis
  proof (cases r)
    case (Inl e)
    with portInv_closed [OF w1, of "readerStep (ReadFailed e) cp"] assms(2) r show ?thesis
      by (simp add: readerEvent_def readerStep_def)
  next
    case (Inr l)
    have "cp_state (readerStep (readerEvent r) cp) = cp_state cp \<and> cp_readerRunning (readerStep (readerEvent r) cp) = cp_readerRunning cp
      \<and> cp_commOpen (readerStep (readerEvent r) cp) = cp_commOpen cp"
      using Inr by (cases l) (simp_all add: readerEvent_def readerStep_def Let_def processLine_kept)
    with assms r Inr k show ?thesis by (simp add: portInv_def)
  qed
qed

lemma portInv_step:
  assumes "portInv cw"
  shows "portInv (serialPanelStep S cfg op cw)"
proof -
  obtain cp w where cw: "cw = (cp, w)" by (cases cw)
  then have w: "fds w = set_option (port w)" using assms by (simp add: portInv_def)
  show ?thesis
  proof (cases op)
    case SPReset
    with portInv_closed [OF w, of "panelReset cp"] cw show ?thesis by (simp add: panelReset_def)
  next
    case SPRead
    then show ?thesis using portInv_read [of cp w cfg] assms cw by (cases "cp_readerRunning cp") auto
  qed (use portInv_init assms cw in blast)
qed

lemma portInv_run: "portInv cw \<Longrightarrow> portInv (fold (serialPanelStep S cfg) ops cw)"
  by (induction ops arbitrary: cw) (simp_all add: portInv_step)

end

section \<open>A port\<close>

text \<open>A world with one port object; \<open>pw_stuck\<close> makes the library's close fail, \<open>pw_lines\<close> are the outcomes to come.\<close>

record PortWorld =
  pw_port :: "nat option"
  pw_open :: "int set"
  pw_stuck :: bool
  pw_lines :: "ReadOutcome list"

definition demoSerial :: "PortWorld SerialLib" where
  "demoSerial = \<lparr>
     sl_make = (\<lambda>w. w\<lparr>pw_port := None, pw_open := pw_open w - int ` set_option (pw_port w)\<rparr>),
     sl_leakAndMake = (\<lambda>w. w\<lparr>pw_port := None\<rparr>),
     sl_fileDescriptor = (\<lambda>w. (case pw_port w of None \<Rightarrow> Inl ''not open'' | Some n \<Rightarrow> Inr (int n), w)),
     sl_isOpen = (\<lambda>w. (Inr (pw_port w \<noteq> None), w)),
     sl_open = (\<lambda>name w. if name = '''' then (Inl ''no such port'', w)
       else (Inr (), w\<lparr>pw_port := Some 3, pw_open := insert 3 (pw_open w)\<rparr>)),
     sl_close = (\<lambda>w. if pw_stuck w then (Inl ''close failed'', w)
       else (Inr (), w\<lparr>pw_port := None, pw_open := pw_open w - int ` set_option (pw_port w)\<rparr>)),
     sl_set = (\<lambda>cfg k. ret ()),
     sl_flush = ret (),
     sl_readLine = (\<lambda>c k w. case pw_lines w of [] \<Rightarrow> (ReadTimeout, w) | l # ls \<Rightarrow> (l, w\<lparr>pw_lines := ls\<rparr>)),
     sl_available = ret 0,
     os_valid = (\<lambda>n w. n \<in> pw_open w),
     os_close = (\<lambda>n w. (True, w\<lparr>pw_open := pw_open w - {n}\<rparr>))\<rparr>"

interpretation demoSerial: serial_library demoSerial "\<lambda>w. map_option int (pw_port w)" pw_open
  by unfold_locales (auto simp: demoSerial_def ret_def option.set_map split: option.splits if_splits list.splits)


definition demoSettings :: SerialSettings where
  "demoSettings = \<lparr>se_port = ''/dev/ttyACM0'', se_baudRate = ''BAUD_115200'', se_characterSize = ''CHAR_SIZE_8'',
     se_flowControl = ''FLOW_CONTROL_NONE'', se_parity = ''PARITY_NONE'', se_stopBits = ''STOP_BITS_1'',
     se_readTimeoutMS = 200, se_lineTerminator = CHR 0x0A\<rparr>"

definition stuckPort :: PortWorld where
  "stuckPort = \<lparr>pw_port = None, pw_open = {}, pw_stuck = True, pw_lines = [ReadError ''unplugged'']\<rparr>"


section \<open>Starting the reader\<close>

text \<open>\<^verbatim>\<open>initialize\<close> starts the reader's thread before it sets the state, so rounds of the reader can come
  between: \<open>initializeStart\<close> is all before, \<open>initializeEnd\<close> the rest.\<close>

definition initializeStart :: "'w SerialLib \<Rightarrow> SerialSettings \<Rightarrow> (ControlPanel \<times> 'w, unit) act" where
  "initializeStart S cfg = (\<lambda>(cp, w). case serialOpen S cfg (snd (closeNoThrow S w)) of
     (Inl e, w') \<Rightarrow> (Inl e, (snd (panelInitialize (Inl e) cp), snd (closeNoThrow S w')))
   | (Inr _, w') \<Rightarrow> (Inr (), ((resetSignalProcessingState ((panelReset cp)\<lparr>cp_commOpen := True\<rparr>))\<lparr>cp_readerRunning := True\<rparr>, w')))"

definition initializeEnd :: "ControlPanel \<times> 'w \<Rightarrow> ControlPanel \<times> 'w" where
  "initializeEnd = (\<lambda>(cp, w). (cp\<lparr>cp_state := ComponentState.Normal\<rparr>, w))"

lemma initialize_split:
  "serialPanelStep S cfg SPInit (cp, w) = (case initializeStart S cfg (cp, w) of (Inl e, s) \<Rightarrow> s | (Inr _, s) \<Rightarrow> initializeEnd s)"
  by (simp add: initializeStart_def initializeEnd_def panelInitialize_def act_defs resetSignalProcessingState_def
      split: prod.splits sum.splits)

text \<open>C17: the reader may fail while the panel is being initialised. When the port has been opened and the
  reader's first read fails before \<^verbatim>\<open>initialize\<close> sets the state, the failure is overwritten: the panel
  is normal for good with a closed port and a stopped reader.\<close>

theorem panel_failure_overwritten:
  assumes "serial_library S port fds" and "initializeStart S cfg (cp, w) = (Inr (), (cp1, w1))"
    and "readLine S cfg w1 = (Inl e, w2)"
    and "initializeEnd (serialPanelStep S cfg SPRead (cp1, w1)) = (cp3, w3)"
  shows "cp_state cp3 = ComponentState.Normal \<and> \<not> cp_readerRunning cp3 \<and> port w3 = None
    \<and> (\<forall>n. ((serialPanelStep S cfg SPRead) ^^ n) (cp3, w3) = (cp3, w3))"
proof -
  have "cp_readerRunning cp1" using assms(2) by (auto simp: initializeStart_def split: prod.splits sum.splits)
  with assms(3,4) have 3: "cp_state cp3 = ComponentState.Normal" "\<not> cp_readerRunning cp3" "w3 = snd (closeNoThrow S w2)"
    by (auto simp: initializeEnd_def readerEvent_def readerStep_def)
  moreover have "port w3 = None" using serial_library.closeNoThrow_closes [OF assms(1), of w2] 3(3) by auto
  moreover have "((serialPanelStep S cfg SPRead) ^^ n) (cp3, w3) = (cp3, w3)" for n
    by (induction n) (simp_all add: 3(2))
  ultimately show ?thesis by blast
qed

theorem panel_failure_overwritten_witness:
  "\<exists>cp1 w1 cp3 w3. initializeStart demoSerial demoSettings (makePanel 1 1 1 [False, False, False] [False, False, False], stuckPort) = (Inr (), (cp1, w1))
    \<and> initializeEnd (serialPanelStep demoSerial demoSettings SPRead (cp1, w1)) = (cp3, w3)
    \<and> cp_state cp3 = ComponentState.Normal \<and> pw_port w3 = None"
proof -
  let ?s = "(makePanel 1 1 1 [False, False, False] [False, False, False], stuckPort)"
  have "\<exists>cp1 w1 e w2. initializeStart demoSerial demoSettings ?s = (Inr (), (cp1, w1)) \<and> readLine demoSerial demoSettings w1 = (Inl e, w2)"
    by (auto simp: initializeStart_def closeNoThrow_def closeViaLibrary_def forceClose_def serialOpen_def readLine_def act_defs
        demoSerial_def demoSettings_def stuckPort_def upt_rec)
  then obtain cp1 w1 e w2 where start: "initializeStart demoSerial demoSettings ?s = (Inr (), (cp1, w1))"
    and fail: "readLine demoSerial demoSettings w1 = (Inl e, w2)" by blast
  obtain cp3 w3 where fin: "initializeEnd (serialPanelStep demoSerial demoSettings SPRead (cp1, w1)) = (cp3, w3)" by (meson surj_pair)
  show ?thesis
    using panel_failure_overwritten [OF demoSerial.serial_library_axioms start fail fin] start fin by blast
qed

end
