(* ===== verification/MotorDemo.thy ===== *)
theory MotorDemo
  imports MotorControlProps Panel
begin

text \<open>
  The demonstration program that moves one motor (\<^verbatim>\<open>Server/apps/motorControlDemo.cpp\<close>): its arguments, the
  choice of the motor and the sequence of calls of motor control with its clean-up. What it prints is not
  here; the waits are left out but for the stop request that a signal may have set when they end.
\<close>

section \<open>Arguments\<close>

record Args =
  ar_configPath :: string
  ar_motorName :: string
  ar_speed1 :: i32
  ar_speed2 :: i32
  ar_runSeconds :: int
  ar_listMotorsOnly :: bool

definition defaultArgs :: Args where
  "defaultArgs = \<lparr>ar_configPath = ''Config/rimokun.yaml'', ar_motorName = '''', ar_speed1 = 2000, ar_speed2 = 4000,
     ar_runSeconds = 10, ar_listMotorsOnly = False\<rparr>"

text \<open>\<^verbatim>\<open>std::stoi\<close> has to use the whole text.\<close>

definition parseInt :: "string \<Rightarrow> int option" where
  "parseInt s = (let t = dropWhile isSpace s;
       u = (if t \<noteq> [] \<and> hd t \<in> {CHR ''-'', CHR ''+''} then tl t else t)
     in case stoi s of Inl e \<Rightarrow> None | Inr v \<Rightarrow> if dropWhile isDigit u = [] then Some v else None)"

fun parseArgs :: "string list \<Rightarrow> Args \<Rightarrow> Args option" where
  "parseArgs [] args = Some args"
| "parseArgs (a # rest) args =
     (if a = ''--help'' \<or> a = ''-h'' then None
      else if a = ''--list-motors'' then parseArgs rest (args\<lparr>ar_listMotorsOnly := True\<rparr>)
      else if a \<notin> {''--config'', ''--motor'', ''--speed1'', ''--speed2'', ''--run-seconds''} then None
      else case rest of
        [] \<Rightarrow> None
      | v # rest \<Rightarrow>
         (if a = ''--config'' then parseArgs rest (args\<lparr>ar_configPath := v\<rparr>)
          else if a = ''--motor'' then parseArgs rest (args\<lparr>ar_motorName := v\<rparr>)
          else case parseInt v of
            None \<Rightarrow> None
          | Some i \<Rightarrow>
             (if a = ''--speed1'' then parseArgs rest (args\<lparr>ar_speed1 := word_of_int i\<rparr>)
              else if a = ''--speed2'' then parseArgs rest (args\<lparr>ar_speed2 := word_of_int i\<rparr>)
              else if i < 1 then None
              else parseArgs rest (args\<lparr>ar_runSeconds := i\<rparr>))))"

definition resolveMotor :: "string \<Rightarrow> EMotor list \<Rightarrow> EMotor option" where
  "resolveMotor name configured =
     (if configured = [] then None
      else if name = '''' then Some (hd configured)
      else case enumCast allMotors motorName name of
        None \<Rightarrow> None | Some m \<Rightarrow> if m \<in> set configured then Some m else None)"

section \<open>The run\<close>

definition demoCleanup :: "('c, 'w) BusOps \<Rightarrow> EMotor option \<Rightarrow> ('c, 'w, unit) mcAct" where
  "demoCleanup B motor = thenA
     (case motor of None \<Rightarrow> ret ()
      | Some m \<Rightarrow> catchA (thenA (mcStopMovement B m) (mcSetEnabled B m False)) (\<lambda>e. ret ()))
     (catchA (mcReset B) (\<lambda>e. ret ()))"

text \<open>\<^verbatim>\<open>mc.motors().at(motor)\<close>\<close>

definition motorAt :: "EMotor \<Rightarrow> ('c, 'w, Motor) mcAct" where
  "motorAt i = bindA (getA fst) (\<lambda>mc. case mc_motors mc i of None \<Rightarrow> throwA ''map::at'' | Some m \<Rightarrow> ret m)"

definition listGroups :: "('c, 'w) BusOps \<Rightarrow> EMotor list \<Rightarrow> ('c, 'w, unit) mcAct" where
  "listGroups B motors = forA motors (\<lambda>i. thenA (ignoreA (motorAt i)) (ignoreA (mcReadGroupId B i)))"

definition showCodes :: "('c, 'w) BusOps \<Rightarrow> EMotor \<Rightarrow> ('c, 'w, unit) mcAct" where
  "showCodes B i = thenA (ignoreA (mcDiagnoseCurrentAlarm B i)) (thenA (ignoreA (mcDiagnoseCurrentWarning B i))
     (ignoreA (mcDiagnoseCurrentCommunicationError B i)))"

text \<open>\<open>stop k\<close> is what the \<open>k\<close>th look at the stop request finds.\<close>

definition moveMotor :: "('c, 'w) BusOps \<Rightarrow> Args \<Rightarrow> (nat \<Rightarrow> bool) \<Rightarrow> EMotor \<Rightarrow> ('c, 'w, unit) mcAct" where
  "moveMotor B args stop i = seqA
     [mcSetMode B i Speed, mcSetDirection B i Forward, mcSetEnabled B i True, mcSetSpeed B i (ar_speed1 args),
      mcStartMovement B i,
      whenA (\<not> stop 0) (mcSetSpeed B i (ar_speed2 args)),
      whenA (\<not> stop 1) (mcSetDirection B i Reverse),
      whenA (\<not> stop 2) (mcSetDirection B i Forward)]"

definition showStatus :: "('c, 'w) BusOps \<Rightarrow> EMotor \<Rightarrow> ('c, 'w, unit) mcAct" where
  "showStatus B i = seqA [ignoreA (mcReadInputStatus B i), ignoreA (mcReadOutputStatus B i), ignoreA (mcReadDirectIoStatus B i),
     ignoreA (motorAt i)]"

definition demoBody :: "('c, 'w) BusOps \<Rightarrow> Args \<Rightarrow> (nat \<Rightarrow> bool) \<Rightarrow> ('c, 'w, nat) mcAct" where
  "demoBody B args stop = thenA (mcInitialize B) (bindA (getA (\<lambda>(mc, w). configuredMotorIds mc)) (\<lambda>configured.
     if configured = [] then thenA (demoCleanup B None) (ret 1)
     else thenA (listGroups B configured)
      (if ar_listMotorsOnly args then thenA (demoCleanup B None) (ret 0)
       else case resolveMotor (ar_motorName args) configured of
         None \<Rightarrow> thenA (demoCleanup B None) (ret 1)
       | Some i \<Rightarrow> thenA (showCodes B i) (thenA (moveMotor B args stop i) (thenA (showStatus B i)
           (thenA (demoCleanup B (Some i)) (ret 0)))))))"

definition demoRun :: "('c, 'w) BusOps \<Rightarrow> Args \<Rightarrow> (nat \<Rightarrow> bool) \<Rightarrow> ('c, 'w, nat) mcAct" where
  "demoRun B args stop = catchA (demoBody B args stop) (\<lambda>e. ret 2)"

section \<open>Exits\<close>

definition putDown :: "'c MotorControl \<times> 'w \<Rightarrow> bool" where
  "putDown = (\<lambda>(mc, w). mc_bus mc = None \<and> mc_motors mc = Map.empty \<and> mc_state mc = ComponentState.Error)"

lemma wp_any_then: "(\<And>s. wp k Q (\<lambda>_ _. True) s) \<Longrightarrow> wp (thenA m k) Q (\<lambda>_ _. True) s"
  by (simp add: wp_then) (simp add: wp_def split: prod.split sum.split)

lemma wp_any_bind: "(\<And>x s. wp (f x) Q (\<lambda>_ _. True) s) \<Longrightarrow> wp (bindA m f) Q (\<lambda>_ _. True) s"
  by (simp add: wp_bind) (simp add: wp_def split: prod.split sum.split)

lemma wp_reset: "wp (mcReset B) (\<lambda>_. putDown) (\<lambda>_ _. False) s"
  by (cases s) (auto simp: mcReset_def wp_def act_defs closeBus_eq resetBus_def clearMotors_def setStateA_def putDown_def
      split: prod.splits option.splits)

lemma wp_cleanup: "wp (demoCleanup B m) (\<lambda>_. putDown) (\<lambda>_ _. True) s"
  unfolding demoCleanup_def by (rule wp_any_then) (simp add: wp_catch, rule wp_mono [OF wp_reset], simp_all)

lemma wp_exit: "wp (thenA (demoCleanup B m) (ret c)) (\<lambda>_. putDown) (\<lambda>_ _. True) s"
  by (simp only: wp_then) (rule wp_mono [OF wp_cleanup], simp_all add: wp_ret)

lemma demoBody_putDown: "wp (demoBody B args stop) (\<lambda>_. putDown) (\<lambda>_ _. True) s"
  unfolding demoBody_def
  by (intro wp_any_then wp_any_bind) (auto intro!: wp_exit wp_any_then split: option.split)

text \<open>The program exits with 0 or 1 only after it has put motor control down: the bus is closed and no motor is
  left.\<close>

theorem demo_exit_puts_down:
  assumes "demoRun B args stop s = (Inr code, s')" and "code \<noteq> 2"
  shows "putDown s'"
proof -
  have "demoBody B args stop s = (Inr code, s')"
    using assms by (auto simp: demoRun_def act_defs split: prod.splits sum.splits)
  then show ?thesis using wp_Inr [OF demoBody_putDown] by blast
qed

text \<open>But an error once the motor moves, such as a reading that fails, ends the program at once: nothing more is
  sent, so the motor is neither stopped nor disabled.\<close>

theorem demo_error_leaves_motor:
  assumes "thenA (mcInitialize B) (listGroups B configured) s = (Inr (), s1)"
    and "configuredMotorIds (fst (snd (mcInitialize B s))) = configured"
    and "\<not> ar_listMotorsOnly args" and "resolveMotor (ar_motorName args) configured = Some i"
    and "thenA (showCodes B i) (moveMotor B args stop i) s1 = (Inr (), s2)" and "showStatus B i s2 = (Inl e, s3)"
  shows "demoRun B args stop s = (Inr 2, s3)"
proof -
  have "configured \<noteq> []" using assms(4) by (auto simp: resolveMotor_def)
  obtain s0 where 0: "mcInitialize B s = (Inr (), s0)" "listGroups B configured s0 = (Inr (), s1)"
    using assms(1) by (auto simp: act_defs split: prod.splits sum.splits)
  obtain sc where c: "showCodes B i s1 = (Inr (), sc)" "moveMotor B args stop i sc = (Inr (), s2)"
    using assms(5) by (auto simp: act_defs split: prod.splits sum.splits)
  have "configuredMotorIds (fst s0) = configured" using 0 assms(2) by simp
  then have "demoBody B args stop s = (Inl e, s3)"
    using 0 c assms(3,4,6) \<open>configured \<noteq> []\<close> by (cases s0) (simp add: demoBody_def thenA_def bindA_def getA_def)
  then show ?thesis by (simp add: demoRun_def act_defs)
qed

end
