(* ===== verification/DemoPrint.thy ===== *)
theory DemoPrint
  imports MotorDemo Programs
begin

text \<open>
  The rest of the demonstration program (\<^verbatim>\<open>Server/apps/motorControlDemo.cpp\<close>): where it says the state of a terminal
  is found, the lines it prints for the terminals, and its start from the arguments.
\<close>

section \<open>Terminals\<close>

text \<open>The registers that assign a function to the terminal \<open>index\<close>, counted from \<open>base\<close>.\<close>

definition assignText :: "int \<Rightarrow> int \<Rightarrow> string" where
  "assignText base index = (let upper = base + 2 * index
     in ''assign=0x'' @ hexInt4 upper @ ''/0x'' @ hexInt4 (upper + 1))"

definition resolveRegisterInfo :: "bool \<Rightarrow> MotorRegisterMap \<Rightarrow> string \<Rightarrow> exn + string \<times> string" where
  "resolveRegisterInfo inputSide regMap channel =
     (if \<not> inputSide then
        (if take 3 channel = ''OUT'' then
           bindE (stoi (drop 3 channel)) (\<lambda>index.
             if 5 < index then Inr (assignText (rm_outputFunctionSelectBase regMap) index, ''state=n/a'')
             else Inr (assignText (rm_outputFunctionSelectBase regMap) index, ''state=0x00D4.bit'' @ dec index))
         else if channel = ''MB'' then Inr (''assign=fixed'', ''state=0x00D4.bit8'')
         else Inr (''assign=n/a'', ''state=n/a''))
      else if take 2 channel = ''IN'' then
        bindE (stoi (drop 2 channel)) (\<lambda>index.
          if 0 \<le> index \<and> index < 8
          then Inr (assignText (rm_inputFunctionSelectBase regMap) index,
            ''state=0x00D5.bit'' @ dec ([6, 7, 8, 9, 10, 11, 12, 13] ! nat index))
          else Inr (assignText (rm_inputFunctionSelectBase regMap) index, ''state=n/a''))
      else if channel = ''+LS'' then Inr (''assign=fixed'', ''state=0x00D5.bit0'')
      else if channel = ''-LS'' then Inr (''assign=fixed'', ''state=0x00D5.bit1'')
      else if channel = ''HOMES'' then Inr (''assign=fixed'', ''state=0x00D5.bit2'')
      else if channel = ''SLIT'' then Inr (''assign=fixed'', ''state=0x00D5.bit3'')
      else Inr (''assign=n/a'', ''state=n/a''))"

definition assignmentLine :: "bool \<Rightarrow> MotorRegisterMap \<Rightarrow> AssignedSignal \<Rightarrow> exn + string" where
  "assignmentLine inputSide regMap a = bindE (resolveRegisterInfo inputSide regMap (as_channel a)) (\<lambda>(assignReg, stateReg).
     Inr (''  ['' @ (if as_active a then ''1'' else ''0'') @ ''] '' @ as_channel a @ '' -> '' @ as_function a
       @ '' (code='' @ decNat (unat (as_functionCode a)) @ '', '' @ assignReg @ '', '' @ stateReg @ '')'' @ [CHR 0x0A]))"

fun printAssignments :: "string \<Rightarrow> bool \<Rightarrow> MotorRegisterMap \<Rightarrow> AssignedSignal list \<Rightarrow> exn + string" where
  "printAssignments printed inputSide regMap [] = Inr printed"
| "printAssignments printed inputSide regMap (a # as) =
     bindE (assignmentLine inputSide regMap a) (\<lambda>line. printAssignments (printed @ line) inputSide regMap as)"

text \<open>The place that is printed for a terminal is a bit of the register: the one that is on when the terminal is
  active.\<close>

definition placed :: "bool \<Rightarrow> MotorRegisterMap \<Rightarrow> string \<Rightarrow> u16 \<Rightarrow> AssignedSignal \<Rightarrow> bool" where
  "placed inputSide regMap register reg a \<longleftrightarrow> (\<exists>assignReg k.
     resolveRegisterInfo inputSide regMap (as_channel a) = Inr (assignReg, ''state='' @ register @ ''.bit'' @ dec (int k))
     \<and> as_active a = bit reg k)"

lemma placedI:
  assumes "resolveRegisterInfo inputSide regMap (as_channel a) = Inr (assignReg, ''state='' @ register @ ''.bit'' @ dec (int k))"
    and "as_active a = bit reg k"
  shows "placed inputSide regMap register reg a"
  using assms by (auto simp: placed_def)

lemma dec_digits: "dec 0 = ''0''" "dec 1 = ''1''" "dec 2 = ''2''" "dec 3 = ''3''" "dec 8 = ''8''"
  by (simp_all add: dec_def decNat.simps char_of_def bit_0)

lemma output_placed:
  assumes "i < 6"
  shows "placed False regMap ''0x00D4'' reg (outputLine assignments reg i)"
proof -
  have "stoi (decNat i) = Inr (int i)" using assms by (simp add: stoi_decNat)
  with assms show ?thesis
    by (intro placedI [of _ _ _ "assignText (rm_outputFunctionSelectBase regMap) (int i)" _ i])
      (simp_all add: outputLine_def signal_def Let_def resolveRegisterInfo_def and_bitMask_zero)
qed

lemma input_placed:
  assumes "i < 8"
  shows "placed True regMap ''0x00D5'' reg (inputLine assignments reg i)"
proof -
  have "stoi (decNat i) = Inr (int i)" using assms by (simp add: stoi_decNat)
  moreover have "[6, 7, 8, 9, 10, 11, 12, 13] ! i = 6 + i"
    using assms by (auto simp: less_Suc_eq numeral_eq_Suc)
  moreover have "[6, 7, 8, 9, 10, 11, 12, 13] ! i = 6 + int i"
    using assms by (auto simp: less_Suc_eq numeral_eq_Suc)
  ultimately show ?thesis using assms
    by (intro placedI [of _ _ _ "assignText (rm_inputFunctionSelectBase regMap) (int i)" _ "6 + i"])
      (simp_all add: inputLine_def signal_def Let_def resolveRegisterInfo_def and_bitMask_zero)
qed

lemma fixed_placed:
  "placed False regMap ''0x00D4'' reg (fixedLine ''MB'' reg 8)"
  "placed True regMap ''0x00D5'' reg (fixedLine ''+LS'' reg 0)" "placed True regMap ''0x00D5'' reg (fixedLine ''-LS'' reg 1)"
  "placed True regMap ''0x00D5'' reg (fixedLine ''HOMES'' reg 2)" "placed True regMap ''0x00D5'' reg (fixedLine ''SLIT'' reg 3)"
  by (rule placedI [of _ _ _ "''assign=fixed''"]; simp add: fixedLine_def signal_def resolveRegisterInfo_def;
      simp add: and_bitMask_zero dec_digits)+

theorem terminals_placed:
  "(\<forall>a \<in> set (di_outputAssignments (decodeDirectIoAndBrakeStatus m raw)). placed False regMap ''0x00D4'' (upper16 raw) a)
   \<and> (\<forall>a \<in> set (di_inputAssignments (decodeDirectIoAndBrakeStatus m raw)). placed True regMap ''0x00D5'' (lower16 raw) a)"
  unfolding decodeDirectIoAndBrakeStatus_def Let_def
  by (simp only: MotorDirectIoStatus.simps set_append set_map set_upt list.set ball_Un ball_simps image_iff)
    (auto simp: fixed_placed simp del: One_nat_def intro: output_placed input_placed)

text \<open>So nothing is thrown while the terminals are printed.\<close>

lemma placed_prints:
  assumes "\<forall>a \<in> set xs. placed inputSide regMap register reg a"
  shows "\<exists>lines. printAssignments printed inputSide regMap xs = Inr lines"
  using assms
proof (induction xs arbitrary: printed)
  case (Cons a xs)
  then obtain line where "assignmentLine inputSide regMap a = Inr line"
    by (auto simp: placed_def assignmentLine_def)
  with Cons show ?case by simp
qed simp

section \<open>The start\<close>

text \<open>The exit code with motor control and the world, when they were made; \<open>Inl\<close>: an exception that nobody catches.\<close>

fun exitWith :: "(exn + nat) \<times> 's \<Rightarrow> exn + nat \<times> 's option" where
  "exitWith (Inl e, s) = Inl e"
| "exitWith (Inr code, s) = Inr (code, Some s)"

lemma exitWith_Inr [simp]: "exitWith x = Inr (code, r) \<longleftrightarrow> (\<exists>s. x = (Inr code, s) \<and> r = Some s)"
  by (cases x rule: exitWith.cases) auto

definition demoProgram ::
  "('c, 'w) BusOps \<Rightarrow> YamlLib \<Rightarrow> (string \<Rightarrow> bool) \<Rightarrow> (string \<Rightarrow> exn + Yaml) \<Rightarrow> string list \<Rightarrow> (nat \<Rightarrow> bool) \<Rightarrow> 'w
     \<Rightarrow> exn + nat \<times> ('c MotorControl \<times> 'w) option" where
  "demoProgram B Y exists loadFile argv stop w = (case parseArgs argv defaultArgs of
     None \<Rightarrow> Inr (1, None)
   | Some args \<Rightarrow>
       (if \<not> exists (ar_configPath args) then Inr (1, None)
        else bindE (setConfigPath loadFile (ar_configPath args)) (\<lambda>cf. case makeMotorControl Y cf of
          Inl _ \<Rightarrow> Inr (2, None)
        | Inr mc \<Rightarrow> exitWith (demoRun B args stop (mc, w)))))"

lemma demo_main_puts_down:
  assumes "demoProgram B Y exists loadFile argv stop w = Inr (0, r)"
  shows "\<exists>s. r = Some s \<and> putDown s"
proof -
  from assms obtain args mc s where run: "demoRun B args stop (mc, w) = (Inr 0, s)" and r: "r = Some s"
    by (auto simp: demoProgram_def bindE_eq_Inr split: option.split_asm if_split_asm sum.split_asm)
      (metis sumE)
  from run have "demoBody B args stop (mc, w) = (Inr 0, s)"
    by (auto simp: demoRun_def act_defs split: prod.splits sum.splits)
  with r show ?thesis using wp_Inr [OF demoBody_putDown] by blast
qed

end
