(* ===== verification/YamlStatus.thy ===== *)
theory YamlStatus
  imports ConfigProps
begin

text \<open>
  The YAML form of the robot status (\<^verbatim>\<open>Utilities/include/YamlExtensions.hpp\<close>). A node that nothing was
  assigned to is null. The texts of numbers and truth values are the parameter \<open>E\<close>: the locale
  \<open>yaml_codec\<close> states that yaml-cpp reads back what it wrote, for a number that is a \<^verbatim>\<open>double\<close> or an \<^verbatim>\<open>int\<close>.
\<close>

section \<open>The library\<close>

record YamlEnc =
  ye_double :: "real \<Rightarrow> Yaml"
  ye_int :: "int \<Rightarrow> Yaml"
  ye_bool :: "bool \<Rightarrow> Yaml"

locale yaml_codec = yaml_library Y for Y :: YamlLib +
  fixes E :: YamlEnc and isDouble :: "real \<Rightarrow> bool"
  assumes double: "isDouble r \<Longrightarrow> yl_double Y (ye_double E r) = Some r"
    and int: "- (2 ^ 31) \<le> i \<Longrightarrow> i < 2 ^ 31 \<Longrightarrow> yl_int Y (ye_int E i) = Some i"
    and bool: "yl_bool Y (ye_bool E b) = Some b"

section \<open>Enumerations and maps\<close>

definition encodeEnum :: "('e \<Rightarrow> string) \<Rightarrow> 'e \<Rightarrow> Yaml" where
  "encodeEnum name e = YScalar (name e)"

definition enumAs :: "YamlLib \<Rightarrow> 'e list \<Rightarrow> ('e \<Rightarrow> string) \<Rightarrow> Yaml \<Rightarrow> exn + 'e" where
  "enumAs Y vals name y = asV Y (decodeEnum Y vals name) (Some y)"

text \<open>Entries in the order of a \<^verbatim>\<open>std::map\<close>; a node that was subscripted for each of them.\<close>

definition mapEntries :: "'e list \<Rightarrow> ('e \<Rightarrow> string) \<Rightarrow> ('v \<Rightarrow> Yaml) \<Rightarrow> ('e \<Rightarrow> 'v option) \<Rightarrow> (Yaml \<times> Yaml) list" where
  "mapEntries vals name f v = map (\<lambda>k. (encodeEnum name k, f (the (v k)))) (mapKeys vals v)"

text \<open>\<open>bad\<close> is the error of a key that names no value.\<close>

fun readEntries ::
  "YamlLib \<Rightarrow> (Yaml \<Rightarrow> exn) \<Rightarrow> 'e list \<Rightarrow> ('e \<Rightarrow> string) \<Rightarrow> (Yaml \<Rightarrow> exn + 'v) \<Rightarrow> (Yaml \<times> Yaml) list
     \<Rightarrow> ('e \<Rightarrow> 'v option) \<Rightarrow> exn + ('e \<Rightarrow> 'v option)" where
  "readEntries Y bad vals name get [] out = Inr out"
| "readEntries Y bad vals name get ((k, x) # kvs) out = (case decodeEnum Y vals name k of
     None \<Rightarrow> Inl (bad k)
   | Some e \<Rightarrow> bindE (get x) (\<lambda>v. readEntries Y bad vals name get kvs (out(e \<mapsto> v))))"

text \<open>\<^verbatim>\<open>as<std::map<K, V>>\<close>, which wants a map and blames the key, and the loop over the entries of a node.\<close>

definition mapAs :: "YamlLib \<Rightarrow> 'e list \<Rightarrow> ('e \<Rightarrow> string) \<Rightarrow> (Yaml \<Rightarrow> exn + 'v) \<Rightarrow> Yaml option \<Rightarrow> exn + ('e \<Rightarrow> 'v option)" where
  "mapAs Y vals name get n = (case n of
     None \<Rightarrow> Inl (yl_invalidNode Y)
   | Some (YMap m) \<Rightarrow> readEntries Y (yl_badConversion Y) vals name get m Map.empty
   | Some y \<Rightarrow> Inl (yl_badConversion Y y))"

definition entriesOf :: "YamlLib \<Rightarrow> Yaml option \<Rightarrow> exn + (Yaml \<times> Yaml) list" where
  "entriesOf Y n = (case n of
     Some (YMap m) \<Rightarrow> Inr m
   | Some (YSeq (y # ys)) \<Rightarrow> Inl (yl_invalidNode Y)
   | _ \<Rightarrow> Inr [])"

section \<open>Writing\<close>

definition motorStatusToYaml :: "YamlEnc \<Rightarrow> SingleMotorStatus \<Rightarrow> Yaml" where
  "motorStatusToYaml E s = YMap
     [(YScalar ''currentPosition'', ye_double E (sms_currentPosition s)),
      (YScalar ''targetPosition'', ye_double E (sms_targetPosition s)),
      (YScalar ''speed'', ye_double E (sms_speed s)),
      (YScalar ''speedRpm'', ye_double E (sms_speedRpm s)),
      (YScalar ''torque'', ye_int E (sms_torque s)),
      (YScalar ''state'', encodeEnum ledName (sms_state s)),
      (YScalar ''warningDescription'', YScalar (sms_warningDescription s)),
      (YScalar ''alarmDescription'', YScalar (sms_alarmDescription s)),
      (YScalar ''flags'', YMap (mapEntries allMotorFlags motorFlagName (encodeEnum ledName) (sms_flags s))),
      (YScalar ''speedCommandPercent'', ye_double E (sms_speedCommandPercent s)),
      (YScalar ''modeMaxLinearSpeedMmPerSec'', ye_double E (sms_modeMaxLinearSpeedMmPerSec s))]"

text \<open>A section that is made by subscripting for each entry: without entries there is none.\<close>

definition section_of :: "string \<Rightarrow> (Yaml \<times> Yaml) list \<Rightarrow> (Yaml \<times> Yaml) list" where
  "section_of key entries = (if entries = [] then [] else [(YScalar key, YMap entries)])"

definition nodeOf :: "(Yaml \<times> Yaml) list \<Rightarrow> Yaml" where
  "nodeOf m = (if m = [] then YNull else YMap m)"

definition toolChangerToYaml :: "ToolChangerStatus \<Rightarrow> Yaml" where
  "toolChangerToYaml t = nodeOf (section_of ''flags'' (mapEntries allToolFlags toolFlagName (encodeEnum ledName) (tc_flags t)))"

definition joystickToYaml :: "YamlEnc \<Rightarrow> JoystickStatus \<Rightarrow> Yaml" where
  "joystickToYaml E j = YMap [(YScalar ''x'', ye_double E (js_x j)), (YScalar ''y'', ye_double E (js_y j)), (YScalar ''btn'', ye_bool E (js_btn j))]"

definition robotStatusToYaml :: "YamlEnc \<Rightarrow> RobotStatus \<Rightarrow> Yaml" where
  "robotStatusToYaml E s = nodeOf
     (section_of ''motors'' (mapEntries allMotors motorName (motorStatusToYaml E) (rs_motors s))
      @ section_of ''toolChangers'' (mapEntries allArms armName toolChangerToYaml (rs_toolChangers s))
      @ section_of ''robotComponents'' (mapEntries allComponents componentName (encodeEnum ledName) (rs_robotComponents s))
      @ (case rs_safetyOn s of None \<Rightarrow> [] | Some b \<Rightarrow> [(YScalar ''safetyOn'', ye_bool E b)])
      @ section_of ''joystics'' (mapEntries allArms armName (joystickToYaml E) (rs_joystics s))
      @ section_of ''armStates'' (mapEntries allArms armName (encodeEnum axisStateName) (rs_armStates s)))"

section \<open>Reading\<close>

definition valueOrDefault :: "YamlLib \<Rightarrow> (Yaml option \<Rightarrow> exn + 'a) \<Rightarrow> 'a \<Rightarrow> Yaml \<Rightarrow> string \<Rightarrow> exn + 'a" where
  "valueOrDefault Y get dflt y key = bindE (sub Y (Some y) key) (\<lambda>n. if n = None then Inr dflt else get n)"

definition required :: "YamlLib \<Rightarrow> (Yaml option \<Rightarrow> exn + 'a) \<Rightarrow> Yaml \<Rightarrow> string \<Rightarrow> exn + 'a" where
  "required Y get y key = bindE (sub Y (Some y) key) get"

definition motorStatusAs :: "YamlLib \<Rightarrow> Yaml \<Rightarrow> exn + SingleMotorStatus" where
  "motorStatusAs Y y = (let dbl = asV Y (yl_double Y); txt = asV Y (yl_string Y);
       led = asV Y (decodeEnum Y allLeds ledName) in
     if \<not> isMap y then Inl (yl_badConversion Y y) else
     bindE (required Y dbl y ''currentPosition'') (\<lambda>currentPosition.
     bindE (required Y dbl y ''targetPosition'') (\<lambda>targetPosition.
     bindE (required Y dbl y ''speed'') (\<lambda>speed.
     bindE (valueOrDefault Y dbl 0 y ''speedRpm'') (\<lambda>speedRpm.
     bindE (required Y (asV Y (yl_int Y)) y ''torque'') (\<lambda>torque.
     bindE (valueOrDefault Y led Off y ''state'') (\<lambda>state.
     bindE (valueOrDefault Y txt '''' y ''warningDescription'') (\<lambda>warningDescription.
     bindE (valueOrDefault Y txt '''' y ''alarmDescription'') (\<lambda>alarmDescription.
     bindE (required Y (mapAs Y allMotorFlags motorFlagName (enumAs Y allLeds ledName)) y ''flags'') (\<lambda>flags.
     bindE (valueOrDefault Y dbl 0 y ''speedCommandPercent'') (\<lambda>speedCommandPercent.
     bindE (valueOrDefault Y dbl 0 y ''modeMaxLinearSpeedMmPerSec'') (\<lambda>modeMax.
     Inr \<lparr>sms_currentPosition = currentPosition, sms_targetPosition = targetPosition, sms_speed = speed,
       sms_speedRpm = speedRpm, sms_torque = torque, sms_state = state, sms_warningDescription = warningDescription,
       sms_alarmDescription = alarmDescription, sms_flags = flags, sms_speedCommandPercent = speedCommandPercent,
       sms_modeMaxLinearSpeedMmPerSec = modeMax\<rparr>))))))))))))"

definition toolChangerAs :: "YamlLib \<Rightarrow> Yaml \<Rightarrow> exn + ToolChangerStatus" where
  "toolChangerAs Y y = (if \<not> isMap y then Inl (yl_badConversion Y y)
     else bindE (required Y (mapAs Y allToolFlags toolFlagName (enumAs Y allLeds ledName)) y ''flags'') (\<lambda>flags.
       Inr \<lparr>tc_flags = flags\<rparr>))"

definition joystickAs :: "YamlLib \<Rightarrow> Yaml \<Rightarrow> exn + JoystickStatus" where
  "joystickAs Y y = (if \<not> isMap y then Inl (yl_badConversion Y y) else
     bindE (required Y (asV Y (yl_double Y)) y ''x'') (\<lambda>x.
     bindE (required Y (asV Y (yl_double Y)) y ''y'') (\<lambda>y'.
     bindE (required Y (asV Y (yl_bool Y)) y ''btn'') (\<lambda>btn. Inr \<lparr>js_x = x, js_y = y', js_btn = btn\<rparr>))))"

text \<open>The sections that are read only if they are maps.\<close>

definition mapEntriesOf :: "Yaml option \<Rightarrow> (Yaml \<times> Yaml) list" where
  "mapEntriesOf n = (case n of Some (YMap m) \<Rightarrow> m | _ \<Rightarrow> [])"

definition robotStatusAs :: "YamlLib \<Rightarrow> Yaml \<Rightarrow> exn + RobotStatus" where
  "robotStatusAs Y y = (if \<not> isMap y then Inl (yl_badConversion Y y) else
     bindE (bindE (sub Y (Some y) ''motors'') (entriesOf Y)) (\<lambda>ms.
     bindE (readEntries Y (\<lambda>_. yl_badConversion Y y) allMotors motorName (motorStatusAs Y) ms Map.empty) (\<lambda>motors.
     bindE (bindE (sub Y (Some y) ''toolChangers'') (entriesOf Y)) (\<lambda>ts.
     bindE (readEntries Y (\<lambda>_. yl_badConversion Y y) allArms armName (toolChangerAs Y) ts Map.empty) (\<lambda>tools.
     bindE (bindE (sub Y (Some y) ''robotComponents'') (entriesOf Y)) (\<lambda>cs.
     bindE (readEntries Y (\<lambda>_. yl_badConversion Y y) allComponents componentName (enumAs Y allLeds ledName) cs Map.empty) (\<lambda>components.
     bindE (sub Y (Some y) ''safetyOn'') (\<lambda>sn.
     bindE (if sn = None then Inr None else bindE (asV Y (yl_bool Y) sn) (\<lambda>b. Inr (Some b))) (\<lambda>safety.
     bindE (sub Y (Some y) ''joystics'') (\<lambda>jn.
     bindE (readEntries Y (\<lambda>_. yl_badConversion Y y) allArms armName (joystickAs Y) (mapEntriesOf jn) Map.empty) (\<lambda>joystics.
     bindE (sub Y (Some y) ''armStates'') (\<lambda>an.
     bindE (readEntries Y (\<lambda>_. yl_badConversion Y y) allArms armName (enumAs Y allAxisStates axisStateName) (mapEntriesOf an) Map.empty) (\<lambda>states.
     Inr \<lparr>rs_motors = motors, rs_toolChangers = tools, rs_robotComponents = components, rs_joystics = joystics,
       rs_safetyOn = safety, rs_armStates = states\<rparr>)))))))))))))"


section \<open>Round trips\<close>

definition motorRepresentable :: "(real \<Rightarrow> bool) \<Rightarrow> SingleMotorStatus \<Rightarrow> bool" where
  "motorRepresentable isDouble s = (isDouble (sms_currentPosition s) \<and> isDouble (sms_targetPosition s) \<and> isDouble (sms_speed s)
     \<and> isDouble (sms_speedRpm s) \<and> isDouble (sms_speedCommandPercent s) \<and> isDouble (sms_modeMaxLinearSpeedMmPerSec s)
     \<and> - (2 ^ 31) \<le> sms_torque s \<and> sms_torque s < 2 ^ 31)"

definition statusRepresentable :: "(real \<Rightarrow> bool) \<Rightarrow> RobotStatus \<Rightarrow> bool" where
  "statusRepresentable isDouble st = ((\<forall>s \<in> ran (rs_motors st). motorRepresentable isDouble s)
     \<and> (\<forall>j \<in> ran (rs_joystics st). isDouble (js_x j) \<and> isDouble (js_y j)))"

lemma isMap_YMap [simp]: "isMap (YMap m)"
  by (simp add: isMap_def)

lemma map_of_section:
  "map_of (section_of k e @ m) (YScalar key) = (if key = k \<and> e \<noteq> [] then Some (YMap e) else map_of m (YScalar key))"
  by (simp add: section_of_def)

lemma entries_of_section:
  "entriesOf Y (if e \<noteq> [] then Some (YMap e) else None) = Inr e"
  "mapEntriesOf (if e \<noteq> [] then Some (YMap e) else None) = e"
  by (simp_all add: entriesOf_def mapEntriesOf_def)

context enum_names begin

lemma decodeEnum_encode: "yaml_library Y \<Longrightarrow> decodeEnum Y vals name (encodeEnum name e) = Some e"
  by (simp add: decodeEnum_def encodeEnum_def yaml_library.string_scalar cast_name)

lemma enumAs_encode: "yaml_library Y \<Longrightarrow> enumAs Y vals name (encodeEnum name e) = Inr e"
  by (simp add: enumAs_def asV_def decodeEnum_encode)

lemma asV_encode: "yaml_library Y \<Longrightarrow> asV Y (decodeEnum Y vals name) (Some (encodeEnum name e)) = Inr e"
  by (simp add: asV_def decodeEnum_encode)

lemma readEntries_keys:
  assumes "yaml_library Y" and "\<forall>k \<in> set ks. get (f (the (v k))) = Inr (the (v k))"
  shows "readEntries Y bad vals name get (map (\<lambda>k. (encodeEnum name k, f (the (v k)))) ks) out
    = Inr (\<lambda>k. if k \<in> set ks then Some (the (v k)) else out k)"
  using assms(2) by (induction ks arbitrary: out) (auto simp: decodeEnum_encode [OF assms(1)] bindE_def fun_eq_iff)

lemma readEntries_mapEntries:
  assumes "yaml_library Y" and "\<forall>x \<in> ran v. get (f x) = Inr x"
  shows "readEntries Y bad vals name get (mapEntries vals name f v) Map.empty = Inr v"
proof -
  have "\<forall>k \<in> set (mapKeys vals v). get (f (the (v k))) = Inr (the (v k))"
    using assms(2) by (auto simp: mapKeys_def ran_def)
  from readEntries_keys [OF assms(1) this] show ?thesis
    unfolding mapEntries_def using complete by (auto simp: mapKeys_def fun_eq_iff)
qed

lemma mapEntries_empty: "mapEntries vals name f v = [] \<longleftrightarrow> v = Map.empty"
  using complete by (auto simp: mapEntries_def mapKeys_def filter_empty_conv fun_eq_iff)

end

context yaml_codec begin

lemma dbl: "isDouble r \<Longrightarrow> asV Y (yl_double Y) (Some (ye_double E r)) = Inr r"
  by (simp add: asV_def double)

lemma flag: "asV Y (yl_bool Y) (Some (ye_bool E b)) = Inr b"
  by (simp add: asV_def bool)

lemma scalar_text: "asV Y (yl_string Y) (Some (YScalar s)) = Inr s"
  by (simp add: asV_def string_scalar)

lemmas enum_back =
  ledE.enumAs_encode [OF yaml_library_axioms] ledE.asV_encode [OF yaml_library_axioms]
  axisE.enumAs_encode [OF yaml_library_axioms]

lemmas map_back =
  motorE.readEntries_mapEntries [OF yaml_library_axioms] armE.readEntries_mapEntries [OF yaml_library_axioms]
  componentE.readEntries_mapEntries [OF yaml_library_axioms] toolFlagE.readEntries_mapEntries [OF yaml_library_axioms]
  motorFlagE.readEntries_mapEntries [OF yaml_library_axioms]

lemma motor_back:
  assumes "motorRepresentable isDouble s"
  shows "motorStatusAs Y (motorStatusToYaml E s) = Inr s"
  using assms
  by (simp add: motorStatusAs_def motorStatusToYaml_def motorRepresentable_def required_def valueOrDefault_def Let_def
      bindE_def dbl scalar_text enum_back mapAs_def map_back asV_def [of Y "yl_int Y"] int)

lemma joystick_back:
  "isDouble (js_x j) \<Longrightarrow> isDouble (js_y j) \<Longrightarrow> joystickAs Y (joystickToYaml E j) = Inr j"
  by (simp add: joystickAs_def joystickToYaml_def required_def bindE_def dbl flag)

lemma tool_back:
  assumes "tc_flags t \<noteq> Map.empty"
  shows "toolChangerAs Y (toolChangerToYaml t) = Inr t"
  using assms toolFlagE.mapEntries_empty [of "encodeEnum ledName" "tc_flags t"]
  by (simp add: toolChangerAs_def toolChangerToYaml_def nodeOf_def section_of_def required_def bindE_def mapAs_def
      map_back enum_back)

lemma tool_lost: "tc_flags t = Map.empty \<Longrightarrow> toolChangerAs Y (toolChangerToYaml t) = Inl (yl_badConversion Y YNull)"
  using toolFlagE.mapEntries_empty [of "encodeEnum ledName" "tc_flags t"]
  by (simp add: toolChangerAs_def toolChangerToYaml_def nodeOf_def section_of_def isMap_def)

end

context enum_names begin

lemma readEntries_error:
  assumes "yaml_library Y" and "\<forall>k \<in> set ks. get (f (the (v k))) = Inr (the (v k)) \<or> get (f (the (v k))) = Inl e"
    and "k \<in> set ks" and "get (f (the (v k))) = Inl e"
  shows "readEntries Y bad vals name get (map (\<lambda>k. (encodeEnum name k, f (the (v k)))) ks) out = Inl e"
  using assms(2-4) by (induction ks arbitrary: out) (auto simp: decodeEnum_encode [OF assms(1)] bindE_def)

lemma readEntries_mapEntries_error:
  assumes "yaml_library Y" and "\<forall>x \<in> ran v. get (f x) = Inr x \<or> get (f x) = Inl e"
    and "v k = Some x" and "get (f x) = Inl e"
  shows "readEntries Y bad vals name get (mapEntries vals name f v) Map.empty = Inl e"
  unfolding mapEntries_def
  using assms(2-4) complete [of k]
  by (intro readEntries_error [OF assms(1), where k = k]) (auto simp: mapKeys_def ran_def)

end

context yaml_codec begin

lemma tools_back:
  "readEntries Y bad allArms armName (toolChangerAs Y) (mapEntries allArms armName toolChangerToYaml v) Map.empty
   = (if \<exists>t \<in> ran v. tc_flags t = Map.empty then Inl (yl_badConversion Y YNull) else Inr v)"
proof (cases "\<exists>t \<in> ran v. tc_flags t = Map.empty")
  case True
  then obtain k t where k: "v k = Some t" "tc_flags t = Map.empty" by (auto simp: ran_def)
  have "\<forall>t \<in> ran v. toolChangerAs Y (toolChangerToYaml t) = Inr t
      \<or> toolChangerAs Y (toolChangerToYaml t) = Inl (yl_badConversion Y YNull)"
    using tool_back tool_lost by blast
  from armE.readEntries_mapEntries_error [OF yaml_library_axioms this k(1) tool_lost [OF k(2)]] True
  show ?thesis by simp
next
  case False
  then have "\<forall>t \<in> ran v. toolChangerAs Y (toolChangerToYaml t) = Inr t" using tool_back by blast
  with False show ?thesis by (simp add: map_back)
qed

lemma status_empty: "robotStatusToYaml E st = YNull \<longleftrightarrow> st = emptyRobotStatus"
proof -
  have null: "nodeOf m = YNull \<longleftrightarrow> m = []" for m by (simp add: nodeOf_def)
  have part: "section_of k e = [] \<longleftrightarrow> e = []" for k e by (simp add: section_of_def)
  have safety: "(case s of None \<Rightarrow> [] | Some b \<Rightarrow> [(YScalar ''safetyOn'', ye_bool E b)]) = [] \<longleftrightarrow> s = None" for s
    by (simp split: option.split)
  have "robotStatusToYaml E st = YNull \<longleftrightarrow> rs_motors st = Map.empty \<and> rs_toolChangers st = Map.empty
      \<and> rs_robotComponents st = Map.empty \<and> rs_safetyOn st = None \<and> rs_joystics st = Map.empty \<and> rs_armStates st = Map.empty"
    by (simp only: robotStatusToYaml_def null append_is_Nil_conv part safety motorE.mapEntries_empty armE.mapEntries_empty
      componentE.mapEntries_empty)
  also have "\<dots> \<longleftrightarrow> st = emptyRobotStatus" by (cases st) (auto simp: emptyRobotStatus_def)
  finally show ?thesis .
qed

lemma status_back:
  assumes "statusRepresentable isDouble st"
  shows "robotStatusAs Y (robotStatusToYaml E st)
    = (if st = emptyRobotStatus \<or> (\<exists>t \<in> ran (rs_toolChangers st). tc_flags t = Map.empty) then Inl (yl_badConversion Y YNull) else Inr st)"
proof (cases "robotStatusToYaml E st = YNull")
  case True
  with status_empty [of st] show ?thesis by (simp add: robotStatusAs_def isMap_def)
next
  case False
  then obtain m where m: "robotStatusToYaml E st = YMap m"
    and parts: "m = section_of ''motors'' (mapEntries allMotors motorName (motorStatusToYaml E) (rs_motors st))
      @ section_of ''toolChangers'' (mapEntries allArms armName toolChangerToYaml (rs_toolChangers st))
      @ section_of ''robotComponents'' (mapEntries allComponents componentName (encodeEnum ledName) (rs_robotComponents st))
      @ (case rs_safetyOn st of None \<Rightarrow> [] | Some b \<Rightarrow> [(YScalar ''safetyOn'', ye_bool E b)])
      @ section_of ''joystics'' (mapEntries allArms armName (joystickToYaml E) (rs_joystics st))
      @ section_of ''armStates'' (mapEntries allArms armName (encodeEnum axisStateName) (rs_armStates st)) @ []"
    by (auto simp: robotStatusToYaml_def nodeOf_def split: if_splits)
  have safety: "map_of ((case s of None \<Rightarrow> [] | Some b \<Rightarrow> [(YScalar ''safetyOn'', ye_bool E b)]) @ n) (YScalar key)
      = (if key = ''safetyOn'' \<and> s \<noteq> None then Some (ye_bool E (the s)) else map_of n (YScalar key))" for s key n
    by (simp split: option.split)
  have motors: "\<forall>s \<in> ran (rs_motors st). motorStatusAs Y (motorStatusToYaml E s) = Inr s"
    and joysticks: "\<forall>j \<in> ran (rs_joystics st). joystickAs Y (joystickToYaml E j) = Inr j"
    using assms motor_back joystick_back by (auto simp: statusRepresentable_def)
  note look = parts map_of_section safety entriesOf_def mapEntriesOf_def
  have "entriesOf Y (map_of m (YScalar ''motors'')) = Inr (mapEntries allMotors motorName (motorStatusToYaml E) (rs_motors st))"
    "entriesOf Y (map_of m (YScalar ''toolChangers'')) = Inr (mapEntries allArms armName toolChangerToYaml (rs_toolChangers st))"
    "entriesOf Y (map_of m (YScalar ''robotComponents''))
      = Inr (mapEntries allComponents componentName (encodeEnum ledName) (rs_robotComponents st))"
    "mapEntriesOf (map_of m (YScalar ''joystics'')) = mapEntries allArms armName (joystickToYaml E) (rs_joystics st)"
    "mapEntriesOf (map_of m (YScalar ''armStates'')) = mapEntries allArms armName (encodeEnum axisStateName) (rs_armStates st)"
    "map_of m (YScalar ''safetyOn'') = map_option (ye_bool E) (rs_safetyOn st)"
    by (auto simp: look map_of_section [where m = "[]", simplified] simp del: map_of_append)
  moreover have "st \<noteq> emptyRobotStatus" using False status_empty by blast
  ultimately show ?thesis
    by (cases "rs_safetyOn st")
      (simp_all add: robotStatusAs_def m map_back motors joysticks tools_back enum_back flag bindE_def)
qed

end

section \<open>A library of whole numbers\<close>

lemma stoi_dec:
  assumes "- (2 ^ 31) \<le> i" and "i < 2 ^ 31"
  shows "stoi (dec i) = Inr i"
proof (cases "i < 0")
  case True
  define n where "n = nat (- i)"
  have n: "i = - int n" "int n \<le> 2 ^ 31" using True assms(1) by (simp_all add: n_def)
  have digits: "takeWhile isDigit (decNat n) = decNat n"
    using isDigit_decNat by (simp add: takeWhile_eq_all_conv)
  have "dec i = CHR ''-'' # decNat n" using True by (simp add: dec_def n_def)
  moreover have "\<not> isSpace (CHR ''-'')" by (simp add: isSpace_def)
  ultimately show ?thesis using n by (simp add: stoi_def Let_def digits digitsValue_decNat)
next
  case False
  then have "stoi (decNat (nat i)) = Inr (int (nat i))" using assms(2) by (intro stoi_decNat) simp
  with False show ?thesis by (simp add: dec_def)
qed

definition wholeYaml :: YamlEnc where
  "wholeYaml = \<lparr>ye_double = (\<lambda>r. YScalar (dec (floor r))), ye_int = (\<lambda>i. YScalar (dec i)),
     ye_bool = (\<lambda>b. YScalar (if b then ''true'' else ''false''))\<rparr>"

definition isWhole :: "real \<Rightarrow> bool" where
  "isWhole r = (real_of_int (floor r) = r \<and> - (2 ^ 31) \<le> floor r \<and> floor r < 2 ^ 31)"

interpretation whole: yaml_codec coreYaml wholeYaml isWhole
  by unfold_locales (auto simp: coreYaml_def wholeYaml_def isWhole_def scalarInt_def stoi_dec)

section \<open>The status\<close>

text \<open>
  For every library that reads back the numbers it wrote, a status comes back from its YAML form exactly as it was,
  unless it is entirely empty or a tool changer in it has no flags: then the form contains a null node where the
  reader wants a map, and reading it throws.
\<close>

theorem yaml_status_roundtrip:
  assumes "yaml_codec Y E isDouble" and "statusRepresentable isDouble st"
  shows "robotStatusAs Y (robotStatusToYaml E st)
    = (if st = emptyRobotStatus \<or> (\<exists>t \<in> ran (rs_toolChangers st). tc_flags t = Map.empty) then Inl (yl_badConversion Y YNull) else Inr st)"
  by (rule yaml_codec.status_back [OF assms])

definition armStatus :: RobotStatus where
  "armStatus = emptyRobotStatus\<lparr>rs_joystics := [Left \<mapsto> \<lparr>js_x = 1, js_y = -1, js_btn = True\<rparr>], rs_safetyOn := Some False\<rparr>"

theorem yaml_status_roundtrip_witness:
  "robotStatusAs coreYaml (robotStatusToYaml wholeYaml armStatus) = Inr armStatus
   \<and> (\<exists>e. robotStatusAs coreYaml (robotStatusToYaml wholeYaml
        (armStatus\<lparr>rs_toolChangers := [Left \<mapsto> \<lparr>tc_flags = Map.empty\<rparr>]\<rparr>)) = Inl e)"
proof -
  have ok: "statusRepresentable isWhole armStatus"
    "statusRepresentable isWhole (armStatus\<lparr>rs_toolChangers := [Left \<mapsto> \<lparr>tc_flags = Map.empty\<rparr>]\<rparr>)"
    by (simp_all add: statusRepresentable_def armStatus_def emptyRobotStatus_def isWhole_def)
  have "armStatus \<noteq> emptyRobotStatus" by (simp add: armStatus_def emptyRobotStatus_def)
  moreover have "rs_toolChangers armStatus = Map.empty" by (simp add: armStatus_def emptyRobotStatus_def)
  ultimately show ?thesis
    using yaml_status_roundtrip [OF whole.yaml_codec_axioms ok(1)] yaml_status_roundtrip [OF whole.yaml_codec_axioms ok(2)]
    by simp
qed

end
