(* ===== verification/DummyServer.thy ===== *)
theory DummyServer
  imports Messaging
begin

text \<open>
  The server for trying the operator interface without a robot (\<^verbatim>\<open>Server/apps/rimoServerDummy.cpp\<close>): motors that
  swing, and tool changers that a command opens and closes. The two halves of a command, before and after
  its pause, are functions of their own.
\<close>

section \<open>State\<close>

record DummyLamps =
  dl_open :: ELEDState
  dl_closed :: ELEDState
  dl_prox :: ELEDState
  dl_valveOpen :: ELEDState
  dl_valveClosed :: ELEDState

record Dummy =
  dm_left :: DummyLamps
  dm_right :: DummyLamps
  dm_t :: real

definition initialLamps :: DummyLamps where
  "initialLamps = \<lparr>dl_open = Off, dl_closed = Off, dl_prox = ErrorBlinking, dl_valveOpen = Off, dl_valveClosed = Off\<rparr>"

definition initialDummy :: Dummy where
  "initialDummy = \<lparr>dm_left = initialLamps, dm_right = initialLamps, dm_t = 0\<rparr>"

section \<open>Status\<close>

text \<open>Amplitude, offset, angular frequency and phase of each motor.\<close>

fun swing :: "EMotor \<Rightarrow> real \<times> real \<times> real \<times> real" where
  "swing XLeft = (500, 1500, 2, 0)" | "swing YLeft = (300, - 500, 2, pi / 2)"
| "swing XRight = (500, 3000, 1, 0)" | "swing YRight = (300, - 500, 3, 0)"
| "swing ZLeft = (100, 100, 1, 0)" | "swing ZRight = (100, 100, 1, 0)"

definition vFlags :: "(EMotor \<times> EMotorStatusFlags) list" where
  "vFlags = [(XLeft, BrakeApplied), (XLeft, Enabled), (YLeft, BrakeApplied), (YLeft, Enabled),
     (XRight, BrakeApplied), (XRight, Enabled), (YRight, BrakeApplied), (YRight, Enabled),
     (ZLeft, BrakeApplied), (ZLeft, Enabled), (ZRight, BrakeApplied), (ZRight, Enabled)]"

definition fakeMotor :: "real \<Rightarrow> EMotor \<times> EMotorStatusFlags \<Rightarrow> EMotor \<Rightarrow> SingleMotorStatus" where
  "fakeMotor t fl motor = (case swing motor of (A, offset, omega, phase) \<Rightarrow>
     defaultMotorStatus\<lparr>sms_currentPosition := A * sin (omega * t + phase) + offset,
       sms_targetPosition := 0, sms_speed := A * omega * cos (omega * t + phase),
       sms_torque := \<lfloor>10 * \<bar>omega * omega * sin (omega * t + phase)\<bar>\<rfloor>,
       sms_flags := (if motor = fst fl then [snd fl \<mapsto> On] else Map.empty)\<rparr>)"

definition lampFlags :: "DummyLamps \<Rightarrow> ToolChangerStatus" where
  "lampFlags l = \<lparr>tc_flags = [ProxSen \<mapsto> dl_prox l, ClosedSen \<mapsto> dl_closed l, OpenSen \<mapsto> dl_open l,
     OpenValve \<mapsto> dl_valveOpen l, ClosedValve \<mapsto> dl_valveClosed l]\<rparr>"

definition prepareFakeStatus :: "Dummy \<Rightarrow> RobotStatus \<times> Dummy" where
  "prepareFakeStatus d = (let t = dm_t d; fl = vFlags ! (nat \<lfloor>3 * t\<rfloor> mod length vFlags) in
     (emptyRobotStatus\<lparr>rs_motors := (\<lambda>i. Some (fakeMotor t fl i)),
        rs_toolChangers := [Left \<mapsto> lampFlags (dm_left d), Right \<mapsto> lampFlags (dm_right d)]\<rparr>,
      d\<lparr>dm_t := t + 5 / 100\<rparr>))"

section \<open>Commands\<close>

definition performValves :: "bool \<Rightarrow> DummyLamps \<Rightarrow> DummyLamps" where
  "performValves shouldClose l = (if shouldClose then l\<lparr>dl_valveOpen := Off, dl_valveClosed := On\<rparr>
     else l\<lparr>dl_valveOpen := On, dl_valveClosed := Off\<rparr>)"

definition performSensors :: "bool \<Rightarrow> DummyLamps \<Rightarrow> DummyLamps" where
  "performSensors shouldClose l = (if shouldClose then l\<lparr>dl_closed := On, dl_open := Off\<rparr>
     else l\<lparr>dl_closed := Off, dl_open := On\<rparr>)"

definition onLamps :: "EArm \<Rightarrow> (DummyLamps \<Rightarrow> DummyLamps) \<Rightarrow> Dummy \<Rightarrow> Dummy" where
  "onLamps position f d = (if position = Left then d\<lparr>dm_left := f (dm_left d)\<rparr> else d\<lparr>dm_right := f (dm_right d)\<rparr>)"

definition applyToolChangerAction :: "EArm \<Rightarrow> string \<Rightarrow> Dummy \<Rightarrow> Dummy" where
  "applyToolChangerAction position action d = (let shouldClose = (action = ''close'') in
     onLamps position (performSensors shouldClose) (onLamps position (performValves shouldClose) d))"

definition validateAction :: "Json \<Rightarrow> exn + string" where
  "validateAction command = (case fieldOf command ''action'' of
     Some (JString action) \<Rightarrow> if action \<noteq> ''open'' \<and> action \<noteq> ''close''
       then Inl (''Unsupported tool changer action: '' @ action) else Inr action
   | _ \<Rightarrow> Inl (''Missing or invalid '' @ quote ''action'' @ '' entry''))"

definition validatePosition :: "Json \<Rightarrow> exn + EArm" where
  "validatePosition command = (case fieldOf command ''position'' of
     Some (JString position) \<Rightarrow> stringToEnum allArms armName position
   | _ \<Rightarrow> Inl (''Missing or invalid '' @ quote ''position'' @ '' entry''))"

text \<open>The command a request asks for, or the text of the exception.\<close>

definition dummyCommand :: "Json \<Rightarrow> exn + EArm \<times> string" where
  "dummyCommand command =
     (if \<not> isObject command then Inl ''Command must be a map''
      else case fieldOf command ''type'' of
        Some (JString type) \<Rightarrow>
          (if type = ''toolChanger''
           then bindE (validatePosition command) (\<lambda>position. bindE (validateAction command) (\<lambda>action. Inr (position, action)))
           else Inl (''Unsupported command type: '' @ type))
      | _ \<Rightarrow> Inl (''Command lacks a valid '' @ quote ''type'' @ '' entry''))"

definition dummyHandle :: "Json \<Rightarrow> Dummy \<Rightarrow> Json \<times> Dummy" where
  "dummyHandle command d = (let response = okResponse in case dummyCommand command of
     Inl e \<Rightarrow> (setField ''message'' (JString e) (setField ''status'' (JString ''ERROR'') response), d)
   | Inr (position, action) \<Rightarrow> (response, applyToolChangerAction position action d))"

text \<open>A round of the command thread and one of the main loop, on the lamps and the sockets.\<close>

definition dummyRound :: "Msgpack \<Rightarrow> 'z Sockets \<Rightarrow> (Dummy \<times> 'z, unit) act" where
  "dummyRound M Z = bindA (zoomA snd (\<lambda>z (s, _). (s, z)) (receiveCommand M Z)) (\<lambda>c. case c of
     None \<Rightarrow> ret ()
   | Some command \<Rightarrow> bindA (liftE (mp_dump M command)) (\<lambda>_. \<lambda>(s, z).
       (case dummyHandle command s of (response, s') \<Rightarrow>
         zoomA snd (\<lambda>z (s, _). (s, z)) (sendResponse M Z response) (s', z))))"

definition dummyPublish :: "Msgpack \<Rightarrow> 'z Sockets \<Rightarrow> (Dummy \<times> 'z, unit) act" where
  "dummyPublish M Z = (\<lambda>(s, z). case prepareFakeStatus s of (st, s') \<Rightarrow>
     zoomA snd (\<lambda>z (s, _). (s, z)) (publish M Z st) (s', z))"

section \<open>What the interface meets\<close>

text \<open>The interface writes an action as its enumerator, so this server takes no command from it.\<close>

theorem dummy_rejects_interface:
  assumes "\<forall>node. c \<noteq> GuiRawCommand node"
  shows "\<exists>e r. dummyHandle (guiToJson c) d = (r, d) \<and> guiFromJson r = Some \<lparr>gr_ok = False, gr_message = e, gr_payload = None\<rparr>"
proof -
  have "\<exists>e. dummyCommand (guiToJson c) = Inl e"
  proof (cases c)
    case (GuiToolChangerCommand arm action)
    then show ?thesis
      by (cases action) (simp_all add: dummyCommand_def fieldOf_object enumToJson_def validatePosition_def
          validateAction_def armE.stringToEnum_name bindE_def)
  qed (use assms in \<open>simp_all add: dummyCommand_def fieldOf_object\<close>)
  then obtain e where "dummyCommand (guiToJson c) = Inl e" ..
  then have "dummyHandle (guiToJson c) d
      = (setField ''message'' (JString e) (setField ''status'' (JString ''ERROR'') okResponse), d)"
    by (simp add: dummyHandle_def Let_def)
  moreover have "guiFromJson (setField ''message'' (JString e) (setField ''status'' (JString ''ERROR'') okResponse))
      = Some \<lparr>gr_ok = False, gr_message = e, gr_payload = None\<rparr>"
    by (simp add: guiFromJson_def)
  ultimately show ?thesis by blast
qed

text \<open>Between two commands the lamps of a tool changer show one position, or that it was never moved.\<close>

definition settled :: "DummyLamps \<Rightarrow> bool" where
  "settled l = (dl_prox l = ErrorBlinking \<and> (dl_open l, dl_valveOpen l, dl_closed l, dl_valveClosed l)
     \<in> {(Off, Off, Off, Off), (On, On, Off, Off), (Off, Off, On, On)})"

lemma settled_perform: "settled l \<Longrightarrow> settled (performSensors c (performValves c l))"
  by (auto simp: settled_def performSensors_def performValves_def)

lemma settled_handle:
  assumes "settled (dm_left d)" and "settled (dm_right d)"
  shows "settled (dm_left (snd (dummyHandle j d))) \<and> settled (dm_right (snd (dummyHandle j d)))"
  using assms by (auto simp: dummyHandle_def applyToolChangerAction_def onLamps_def Let_def settled_perform
      split: sum.split prod.split)

theorem dummy_lamps_settled:
  fixes commands :: "Json list"
  defines "d \<equiv> fold (\<lambda>j d. snd (dummyHandle j d)) commands initialDummy"
  shows "settled (dm_left d) \<and> settled (dm_right d)"
proof -
  have "settled (dm_left d0) \<and> settled (dm_right d0) \<Longrightarrow>
      settled (dm_left (fold (\<lambda>j d. snd (dummyHandle j d)) commands d0))
    \<and> settled (dm_right (fold (\<lambda>j d. snd (dummyHandle j d)) commands d0))" for d0
    by (induction commands arbitrary: d0) (simp_all add: settled_handle)
  then show ?thesis unfolding d_def by (simp add: initialDummy_def initialLamps_def settled_def)
qed

end
