(* ===== verification/Timing.thy ===== *)
theory Timing
  imports Prelude "HOL-Library.Multiset"
begin

text \<open>
  The measurements of an instrumented build (\<^verbatim>\<open>Utilities/include/TimingMetrics.hpp\<close>): durations are added up
  by name, and every five seconds a report of the names with the largest totals is logged and the table is
  cleared. Any thread may measure; the update of the table and the report are two critical sections, so a run
  is a sequence of the two in any order. The order that \<^verbatim>\<open>std::sort\<close> gives to names with equal totals is open:
  the sort is the parameter \<open>S\<close>, of which the locale \<open>descending_sort\<close> states what the standard promises.
\<close>

section \<open>The registry\<close>

type_synonym u64 = "64 word"

record Stat =
  st_count :: u64
  st_totalNs :: u64
  st_maxNs :: u64

definition emptyStat :: Stat where
  "emptyStat = \<lparr>st_count = 0, st_totalNs = 0, st_maxNs = 0\<rparr>"

type_synonym Snapshot = "(string \<times> Stat) list"

record TimingMetricsRegistry =
  tm_stats :: "Stat smap"
  tm_nextReportNs :: u64
  tm_log :: "Snapshot list"

definition kReportEveryNs :: u64 where
  "kReportEveryNs = 5 * 1000000000"

definition kTopN :: nat where
  "kTopN = 32"

definition newRegistry :: "u64 \<Rightarrow> TimingMetricsRegistry" where
  "newRegistry nowNs = \<lparr>tm_stats = [], tm_nextReportNs = nowNs + kReportEveryNs, tm_log = []\<rparr>"

definition addDuration :: "u64 \<Rightarrow> Stat \<Rightarrow> Stat" where
  "addDuration d s = \<lparr>st_count = st_count s + 1, st_totalNs = st_totalNs s + d, st_maxNs = max (st_maxNs s) d\<rparr>"

definition recordDuration :: "string \<Rightarrow> u64 \<Rightarrow> TimingMetricsRegistry \<Rightarrow> TimingMetricsRegistry" where
  "recordDuration name d t = (let stat = (case map_of (tm_stats t) name of None \<Rightarrow> emptyStat | Some s \<Rightarrow> s)
     in t\<lparr>tm_stats := smap_put name (addDuration d stat) (tm_stats t)\<rparr>)"

definition reportAndReset :: "(Snapshot \<Rightarrow> Snapshot) \<Rightarrow> TimingMetricsRegistry \<Rightarrow> TimingMetricsRegistry" where
  "reportAndReset S t = (let snapshot = tm_stats t; t = t\<lparr>tm_stats := []\<rparr>
     in if snapshot = [] then t else t\<lparr>tm_log := tm_log t @ [take (min (length snapshot) kTopN) (S snapshot)]\<rparr>)"

definition maybeReport :: "(Snapshot \<Rightarrow> Snapshot) \<Rightarrow> u64 \<Rightarrow> TimingMetricsRegistry \<Rightarrow> TimingMetricsRegistry" where
  "maybeReport S nowNs t = (if nowNs < tm_nextReportNs t then t
     else reportAndReset S (t\<lparr>tm_nextReportNs := nowNs + kReportEveryNs\<rparr>))"

text \<open>The two parts of a measurement that ends at a time.\<close>

datatype TimingStep = RecordStep string u64 | ReportStep u64

fun timingStep :: "(Snapshot \<Rightarrow> Snapshot) \<Rightarrow> TimingStep \<Rightarrow> TimingMetricsRegistry \<Rightarrow> TimingMetricsRegistry" where
  "timingStep S (RecordStep name d) t = recordDuration name d t"
| "timingStep S (ReportStep nowNs) t = maybeReport S nowNs t"

section \<open>Accounts\<close>

definition countIn :: "string \<Rightarrow> Snapshot \<Rightarrow> u64" where
  "countIn name m = (case map_of m name of None \<Rightarrow> 0 | Some s \<Rightarrow> st_count s)"

definition totalIn :: "string \<Rightarrow> Snapshot \<Rightarrow> u64" where
  "totalIn name m = (case map_of m name of None \<Rightarrow> 0 | Some s \<Rightarrow> st_totalNs s)"

definition accounted :: "(Snapshot \<Rightarrow> u64) \<Rightarrow> TimingMetricsRegistry \<Rightarrow> u64" where
  "accounted f t = sum_list (map f (tm_log t)) + f (tm_stats t)"

fun durationsOf :: "string \<Rightarrow> TimingStep list \<Rightarrow> u64 list" where
  "durationsOf name [] = []"
| "durationsOf name (RecordStep n d # es) = (if n = name then d # durationsOf name es else durationsOf name es)"
| "durationsOf name (ReportStep _ # es) = durationsOf name es"

fun namesOf :: "TimingStep list \<Rightarrow> string set" where
  "namesOf [] = {}"
| "namesOf (RecordStep n d # es) = insert n (namesOf es)"
| "namesOf (ReportStep _ # es) = namesOf es"

lemma accounted_record:
  "accounted (countIn name) (recordDuration n d t) = accounted (countIn name) t + (if n = name then 1 else 0)"
  "accounted (totalIn name) (recordDuration n d t) = accounted (totalIn name) t + (if n = name then d else 0)"
  by (simp_all add: accounted_def recordDuration_def countIn_def totalIn_def addDuration_def emptyStat_def Let_def
      split: option.split)

text \<open>A report has at most the top entries, by falling totals.\<close>

definition reportOk :: "Snapshot \<Rightarrow> bool" where
  "reportOk r = (length r \<le> kTopN \<and> sorted_wrt (\<lambda>a b. st_totalNs (snd b) \<le> st_totalNs (snd a)) r)"

lemma distinct_keys: "smap_ok m \<Longrightarrow> distinct (map fst m)"
  by (rule smap.keys_distinct)

locale descending_sort =
  fixes S :: "Snapshot \<Rightarrow> Snapshot"
  assumes same: "mset (S m) = mset m"
    and sorted: "sorted_wrt (\<lambda>a b. st_totalNs (snd b) \<le> st_totalNs (snd a)) (S m)"
begin

lemma lookup: "distinct (map fst m) \<Longrightarrow> map_of (S m) = map_of m"
proof -
  assume "distinct (map fst m)"
  moreover have "mset (map fst (S m)) = mset (map fst m)" using same [of m] by simp
  ultimately show ?thesis
    using same [of m] by (metis map_of_inject_set mset_eq_imp_distinct_iff mset_eq_setD)
qed

lemma accounted_report:
  assumes "\<And>m. length m \<le> kTopN \<Longrightarrow> smap_ok m \<Longrightarrow> f (S m) = f m" and "f [] = 0"
    and "smap_ok (tm_stats t)" and "length (tm_stats t) \<le> kTopN"
  shows "accounted f (maybeReport S nowNs t) = accounted f t"
proof -
  have "length (S (tm_stats t)) = length (tm_stats t)" using same by (metis size_mset)
  then show ?thesis
    using assms by (simp add: accounted_def maybeReport_def reportAndReset_def Let_def)
qed

lemma kept:
  assumes "smap_ok (tm_stats t)"
  shows "smap_ok (tm_stats (timingStep S e t))"
  using assms smap_ok_def [of "[] :: Stat smap"]
  by (cases e) (simp_all add: recordDuration_def maybeReport_def reportAndReset_def Let_def smap_ok_put)

lemma names_step:
  "set (map fst (tm_stats (timingStep S e t))) \<subseteq> set (map fst (tm_stats t)) \<union> namesOf [e]"
  by (cases e) (auto simp: recordDuration_def maybeReport_def reportAndReset_def Let_def fst_smap_put simp del: set_map)

lemma accounted_step:
  assumes "smap_ok (tm_stats t)" and "length (tm_stats t) \<le> kTopN"
  shows "accounted (countIn name) (timingStep S e t) = accounted (countIn name) t + of_nat (length (durationsOf name [e]))"
    and "accounted (totalIn name) (timingStep S e t) = accounted (totalIn name) t + sum_list (durationsOf name [e])"
proof -
  have "accounted (countIn name) (maybeReport S nowNs t) = accounted (countIn name) t"
    "accounted (totalIn name) (maybeReport S nowNs t) = accounted (totalIn name) t" for nowNs
    using assms by (auto intro!: accounted_report simp: countIn_def totalIn_def lookup distinct_keys)
  then show "accounted (countIn name) (timingStep S e t) = accounted (countIn name) t + of_nat (length (durationsOf name [e]))"
    "accounted (totalIn name) (timingStep S e t) = accounted (totalIn name) t + sum_list (durationsOf name [e])"
    by (cases e; simp add: accounted_record)+
qed

lemma accounted_run:
  assumes "smap_ok (tm_stats t)" and "set (map fst (tm_stats t)) \<union> namesOf es \<subseteq> N" and "finite N" and "card N \<le> kTopN"
  shows "accounted (countIn name) (fold (timingStep S) es t) = accounted (countIn name) t + of_nat (length (durationsOf name es))
    \<and> accounted (totalIn name) (fold (timingStep S) es t) = accounted (totalIn name) t + sum_list (durationsOf name es)"
  using assms(1,2)
proof (induction es arbitrary: t)
  case (Cons e es)
  have split: "durationsOf name (e # es) = durationsOf name [e] @ durationsOf name es" "namesOf (e # es) = namesOf [e] \<union> namesOf es"
    by (cases e; simp)+
  have "length (tm_stats t) \<le> kTopN"
    using Cons.prems assms(3,4) distinct_card [OF distinct_keys [of "tm_stats t"]] card_mono [of N "set (map fst (tm_stats t))"]
    by simp
  note step = accounted_step [OF Cons.prems(1) this, of name e]
  have "smap_ok (tm_stats (timingStep S e t))" "set (map fst (tm_stats (timingStep S e t))) \<union> namesOf es \<subseteq> N"
    using kept [OF Cons.prems(1)] Cons.prems(2) names_step [of e t] split(2) by blast+
  from Cons.IH [OF this] show ?case
    unfolding split(1) by (simp add: step del: durationsOf.simps)
qed simp

lemma reports_step:
  assumes "\<forall>r \<in> set (tm_log t). reportOk r"
  shows "\<forall>r \<in> set (tm_log (timingStep S e t)). reportOk r"
  using assms sorted
  by (cases e) (auto simp: recordDuration_def maybeReport_def reportAndReset_def reportOk_def Let_def sorted_wrt_take)

lemma reports_run: "\<forall>r \<in> set (tm_log t). reportOk r \<Longrightarrow> \<forall>r \<in> set (tm_log (fold (timingStep S) es t)). reportOk r"
proof (induction es arbitrary: t)
  case (Cons e es)
  from Cons.IH [OF reports_step [OF Cons.prems]] show ?case by simp
qed simp

end

definition stdSort :: "Snapshot \<Rightarrow> Snapshot" where
  "stdSort = sort_key (\<lambda>e. - uint (st_totalNs (snd e)))"

interpretation std: descending_sort stdSort
proof
  fix m
  show "mset (stdSort m) = mset m" by (simp add: stdSort_def)
  have "sorted (map (\<lambda>e. - uint (st_totalNs (snd e))) (stdSort m))" by (simp add: stdSort_def)
  then show "sorted_wrt (\<lambda>a b. st_totalNs (snd b) \<le> st_totalNs (snd a)) (stdSort m)"
    by (simp add: sorted_wrt_map word_le_def)
qed

text \<open>
  Over any interleaving of measurements and reports, as long as no more names are in use than a report shows, every
  measurement is in exactly one report or still in the table, with its duration (both modulo the width of the
  counters), and each report is sorted.
\<close>

theorem timing_accounts:
  assumes "descending_sort S" and "card (namesOf es) \<le> kTopN" and "t = fold (timingStep S) es (newRegistry nowNs)"
  shows "accounted (countIn name) t = of_nat (length (durationsOf name es))
    \<and> accounted (totalIn name) t = sum_list (durationsOf name es) \<and> (\<forall>r \<in> set (tm_log t). reportOk r)"
proof -
  have fin: "finite (namesOf es)" by (induction es rule: namesOf.induct) simp_all
  have "smap_ok (tm_stats (newRegistry nowNs))" "set (map fst (tm_stats (newRegistry nowNs))) \<union> namesOf es \<subseteq> namesOf es"
    "accounted (countIn name) (newRegistry nowNs) = 0" "accounted (totalIn name) (newRegistry nowNs) = 0"
    "tm_log (newRegistry nowNs) = []"
    by (simp_all add: newRegistry_def smap_ok_def accounted_def countIn_def totalIn_def)
  then show ?thesis
    using descending_sort.accounted_run [OF assms(1) _ _ fin assms(2), of "newRegistry nowNs" es name]
      descending_sort.reports_run [OF assms(1), of "newRegistry nowNs" es] by (simp add: assms(3))
qed

end
