(* ===== verification/ModbusOwnership.thy ===== *)
theory ModbusOwnership
  imports Modbus "HOL-Library.Multiset"
begin

text \<open>
  The handles of the Modbus clients (\<^verbatim>\<open>Server/include/ModbusClient.hpp\<close>, the move constructor, the move assignment
  and the destructor): a client owns a context of libmodbus or a socket, a move passes it on, and the destructor
  closes it.
\<close>

section \<open>Moves\<close>

text \<open>What is left of a client that was moved from; a smart pointer is null then. The time of the last transaction
  stays.\<close>

definition movedFrom :: "ModbusClient \<Rightarrow> ModbusClient" where
  "movedFrom c = c\<lparr>mb_ctx := None, mb_backend := LibModbus, mb_transport := TransportTcp, mb_rtuTcp := None,
     mb_interRequestDelay := 0, mb_hasLastCompletion := False\<rparr>"

text \<open>The new client and the old one.\<close>

definition mbMoveConstruct :: "ModbusClient \<Rightarrow> ModbusClient \<times> ModbusClient" where
  "mbMoveConstruct other =
     (\<lparr>mb_ctx = mb_ctx other, mb_backend = mb_backend other, mb_transport = mb_transport other, mb_rtuTcp = mb_rtuTcp other,
       mb_interRequestDelay = mb_interRequestDelay other, mb_lastCompletion = mb_lastCompletion other,
       mb_hasLastCompletion = mb_hasLastCompletion other\<rparr>, movedFrom other)"

text \<open>The clients are those at two places of a list; \<open>\<^verbatim>\<open>this != &other\<close>\<close> compares the places.\<close>

definition mbMoveAssign :: "'w NetOps \<Rightarrow> nat \<Rightarrow> nat \<Rightarrow> ModbusClient list \<times> 'w \<Rightarrow> ModbusClient list \<times> 'w" where
  "mbMoveAssign N this other = (\<lambda>(cs, w).
     if this \<noteq> other then
       let w' = mbCleanup N (cs ! this, w); (c, old) = mbMoveConstruct (cs ! other)
       in (cs[this := c, other := old], w')
     else (cs, w))"

text \<open>A program that moves, assigns and destroys its clients; a place that does not exist changes nothing.\<close>

datatype OwnerStep = MoveNew nat | MoveTo nat nat | Destroy nat

fun ownerStep :: "'w NetOps \<Rightarrow> OwnerStep \<Rightarrow> ModbusClient list \<times> 'w \<Rightarrow> ModbusClient list \<times> 'w" where
  "ownerStep N (MoveNew i) (cs, w) = (if i < length cs then
     (case mbMoveConstruct (cs ! i) of (c, old) \<Rightarrow> (cs[i := old] @ [c], w)) else (cs, w))"
| "ownerStep N (MoveTo i j) (cs, w) = (if i < length cs \<and> j < length cs then mbMoveAssign N i j (cs, w) else (cs, w))"
| "ownerStep N (Destroy i) (cs, w) = (if i < length cs then
     (take i cs @ drop (Suc i) cs, mbCleanup N (cs ! i, w)) else (cs, w))"

definition ownerRun :: "'w NetOps \<Rightarrow> OwnerStep list \<Rightarrow> ModbusClient list \<times> 'w \<Rightarrow> ModbusClient list \<times> 'w" where
  "ownerRun N steps s = fold (ownerStep N) steps s"

section \<open>Handles\<close>

datatype Handle = Context nat | Descriptor int

definition handles :: "ModbusClient \<Rightarrow> Handle list" where
  "handles c = (if mb_backend c = RtuOverTcp
     then (case mb_rtuTcp c of None \<Rightarrow> [] | Some r \<Rightarrow> if 0 \<le> rc_fd r then [Descriptor (rc_fd r)] else [])
     else (case mb_ctx c of None \<Rightarrow> [] | Some x \<Rightarrow> [Context x]))"

fun releaseHandle :: "'w NetOps \<Rightarrow> Handle \<Rightarrow> 'w \<Rightarrow> 'w" where
  "releaseHandle N (Context x) w = lm_free N x (lm_close N x w)"
| "releaseHandle N (Descriptor fd) w = so_close N fd w"

definition owned :: "ModbusClient list \<Rightarrow> Handle multiset" where
  "owned cs = mset (concat (map handles cs))"

lemma cleanup_releases: "mbCleanup N (c, w) = fold (releaseHandle N) (handles c) w"
  by (auto simp: mbCleanup_def close_rtu_over_tcp_def handles_def split: option.split)

lemma handles_moved [simp]: "handles (movedFrom c) = []"
  by (simp add: handles_def movedFrom_def)

lemma moveConstruct [simp]: "mbMoveConstruct c = (c, movedFrom c)"
  by (simp add: mbMoveConstruct_def)

lemma owned_simps [simp]: "owned [] = {#}" "owned (c # cs) = mset (handles c) + owned cs" "owned (cs @ ds) = owned cs + owned ds"
  by (simp_all add: owned_def)

lemma owned_split: "i < length cs \<Longrightarrow> owned cs = owned (take i cs) + mset (handles (cs ! i)) + owned (drop (Suc i) cs)"
  by (metis add.assoc id_take_nth_drop owned_simps(2,3))

lemma owned_update: "i < length cs \<Longrightarrow> owned (cs[i := c]) + mset (handles (cs ! i)) = owned cs + mset (handles c)"
  by (simp add: owned_split [of i cs] upd_conv_take_nth_drop ac_simps)

lemma owned_move:
  assumes "i < length cs" and "j < length cs" and "i \<noteq> j"
  shows "owned (cs[i := cs ! j, j := movedFrom (cs ! j)]) + mset (handles (cs ! i)) = owned cs"
proof -
  let ?cs = "cs[i := cs ! j]"
  have "owned (?cs[j := movedFrom (cs ! j)]) + mset (handles (cs ! j)) = owned ?cs"
    using owned_update [of j ?cs "movedFrom (cs ! j)"] assms by simp
  then have "owned (?cs[j := movedFrom (cs ! j)]) + mset (handles (cs ! i)) + mset (handles (cs ! j))
      = owned cs + mset (handles (cs ! j))"
    using owned_update [of i cs "cs ! j"] assms(1) by (metis add.assoc add.commute)
  then show ?thesis by (rule add_right_imp_eq)
qed

text \<open>A step releases some handles, and those and the ones that are owned afterwards are the ones owned before.\<close>

definition releases :: "'w NetOps \<Rightarrow> Handle list \<Rightarrow> ModbusClient list \<times> 'w \<Rightarrow> ModbusClient list \<times> 'w \<Rightarrow> bool" where
  "releases N hs = (\<lambda>(cs, w) (cs', w'). w' = fold (releaseHandle N) hs w \<and> owned cs' + mset hs = owned cs)"

lemma step_releases: "\<exists>hs. releases N hs s (ownerStep N x s)"
proof (cases "(N, x, s)" rule: ownerStep.cases)
  case (1 N' i cs w)
  then show ?thesis
    using owned_update [of i cs "movedFrom (cs ! i)"] by (auto simp: releases_def intro!: exI [of _ "[]"])
next
  case (2 N' i j cs w)
  then show ?thesis
    using owned_move [of i cs j]
    by (cases "i < length cs \<and> j < length cs \<and> i \<noteq> j")
      (auto simp: releases_def mbMoveAssign_def Let_def cleanup_releases intro: exI [of _ "handles (cs ! i)"] exI [of _ "[]"])
next
  case (3 N' i cs w)
  then show ?thesis
    using owned_split [of i cs]
    by (cases "i < length cs") (auto simp: releases_def cleanup_releases intro: exI [of _ "handles (cs ! i)"] exI [of _ "[]"])
qed

lemma releases_trans: "releases N hs s s1 \<Longrightarrow> releases N hs' s1 s2 \<Longrightarrow> releases N (hs @ hs') s s2"
  by (clarsimp simp: releases_def) (metis add.assoc add.commute)

text \<open>C29: whatever sequence of moves, move assignments (to itself included) and destructions a program runs on its
  clients, it closes each handle at most once and loses none: the handles that were closed and those that some
  client still owns are, one for one, the handles that were owned at the start.\<close>

theorem handles_released_once:
  "\<exists>hs. snd (ownerRun N steps (cs, w)) = fold (releaseHandle N) hs w
    \<and> owned (fst (ownerRun N steps (cs, w))) + mset hs = owned cs"
proof -
  have "\<exists>hs. releases N hs s (ownerRun N steps s)" for s :: "ModbusClient list \<times> 'a"
  proof (induction steps arbitrary: s)
    case Nil
    show ?case by (rule exI [of _ "[]"]) (simp add: releases_def ownerRun_def split: prod.split)
  next
    case (Cons x xs)
    obtain hs hs' where "releases N hs s (ownerStep N x s)" "releases N hs' (ownerStep N x s) (ownerRun N xs (ownerStep N x s))"
      using step_releases Cons.IH by metis
    from releases_trans [OF this] show ?case unfolding ownerRun_def by auto
  qed
  then show ?thesis by (cases "ownerRun N steps (cs, w)") (metis (mono_tags, lifting) case_prod_conv fst_conv releases_def snd_conv)
qed

end
