(* ===== verification/Spec2Isabelle.thy ===== *)
theory Spec2Isabelle
  imports PolicySpec Panel ControlLoop CommandQueue ModbusFacts MotorControlSafety StatusJson StatusProps Transport Programs MotorWindowProps MainViewProps MessagingProps SerialPort DemoPrint YamlStatus DummyServer Timing ModbusOwnership
begin

text \<open>
  \<^bold>\<open>The program.\<close> The server of the repository drives a two-arm gantry robot: six stepping motors
  behind AR-KD2 drivers on a Modbus bus, a Contec I/O unit on Modbus TCP with the buttons, lamps and
  tool changers, and a serial panel with three joysticks. One control thread runs cycles: the
  control step (read the signals, let the policy decide, write outputs, command the motors), one
  queued operator command, and from time to time the status update. A command server thread takes
  JSON commands and waits for their replies; the panel has a reader thread of its own. The operator
  interface, a second program, shows the published status and sends the commands.

  \<^bold>\<open>Theories and sources\<close> (all under \<^verbatim>\<open>src/\<close>, in the order of the imports):

  \<^item> \<open>Prelude\<close>: machine integers, actions with exceptions (\<open>act\<close>), their weakest preconditions and
    invariants (\<open>wp\<close>, \<open>preserves\<close>), ordered string maps.
  \<^item> \<open>Domain\<close>: \<^verbatim>\<open>Utilities/include/CommonDefinitions.hpp\<close>, the enumerations with their names and the
    records of the status.
  \<^item> \<open>Policy\<close>, \<open>PolicyFacts\<close>, \<open>PolicyProps\<close>, \<open>PolicySpec\<close>: \<^verbatim>\<open>Server/src/RobotControlPolicy.cpp\<close>;
    \<open>decide\<close> is \<^verbatim>\<open>RimoKunControlPolicy::decide\<close>, \<open>PolicyState\<close> the members of the class.
  \<^item> \<open>Joystick\<close>, \<open>Panel\<close>: \<^verbatim>\<open>Server/src/JoystickAxisProcessor.cpp\<close>, \<^verbatim>\<open>Server/src/ControlPanel.cpp\<close>.
  \<^item> \<open>ControlLoop\<close>: \<^verbatim>\<open>Server/src/ControlLoopRunner.cpp\<close> with the clock of \<^verbatim>\<open>IClock.hpp\<close>.
  \<^item> \<open>CommandQueue\<close>: \<^verbatim>\<open>Server/include/CommandInterface.hpp\<close>.
  \<^item> \<open>Modbus\<close>, \<open>ModbusFacts\<close>, \<open>ModbusOwnership\<close>, \<open>Bus\<close>: \<^verbatim>\<open>Server/include/ModbusClient.hpp\<close>, and the register store of
    the tests, which shows that the contract of the bus can be met.
  \<^item> \<open>RegisterNames\<close>, \<open>RegisterMap\<close>, \<open>Diagnostics\<close>: the tables of \<^verbatim>\<open>ArKd2FullRegisterMap.cpp\<close>,
    \<^verbatim>\<open>ArKd2RegisterMap.cpp\<close> and \<^verbatim>\<open>ArKd2Diagnostics.cpp\<close>.
  \<^item> \<open>Motor\<close>, \<open>MotorStatus\<close>, \<open>MotorFacts\<close>, \<open>MotorProps\<close>: \<^verbatim>\<open>Server/src/Motor.cpp\<close>.
  \<^item> \<open>MotorControl\<close>, \<open>MotorOps\<close>, \<open>MotorControlProps\<close>, \<open>MotorControlSafety\<close>:
    \<^verbatim>\<open>Server/src/MotorControl.cpp\<close>.
  \<^item> \<open>Json\<close>, \<open>StatusJson\<close>: \<^verbatim>\<open>Utilities/include/JsonExtensions.hpp\<close>.
  \<^item> \<open>CommandProcessor\<close>: \<^verbatim>\<open>Server/src/MachineCommandProcessor.cpp\<close> and
    \<^verbatim>\<open>GUI/src/GuiCommandJsonAdapter.cpp\<close>.
  \<^item> \<open>Contec\<close>, \<open>Controller\<close>, \<open>StatusBuilder\<close>: \<^verbatim>\<open>Server/src/Contec.cpp\<close>, \<^verbatim>\<open>MachineController.cpp\<close>,
    \<^verbatim>\<open>MachineStatusBuilder.cpp\<close>.
  \<^item> \<open>MachineIo\<close>, \<open>MachineCommands\<close>, \<open>Machine\<close>, \<open>MachineProps\<close>, \<open>MachineSafety\<close>:
    \<^verbatim>\<open>Server/src/Machine.cpp\<close> and \<^verbatim>\<open>MachineCommandServer.cpp\<close>, the composition of all of them;
    \<open>StatusProps\<close> follows a status update through it, \<open>CommandPath\<close> a command.
  \<^item> \<open>Configuration\<close>, \<open>ConfigProps\<close>: \<^verbatim>\<open>Utilities/src/Config.cpp\<close> and the constructors that read the YAML
    document (\<^verbatim>\<open>MotorControl.cpp\<close>, \<^verbatim>\<open>RobotControlPolicy.cpp\<close>, \<^verbatim>\<open>ControlPanel.cpp\<close>, \<^verbatim>\<open>Contec.cpp\<close>,
    \<^verbatim>\<open>MachineStatusBuilder.cpp\<close>, \<^verbatim>\<open>SerialControlPanelComm.cpp\<close>, \<^verbatim>\<open>ControlPanelCommFactory.cpp\<close>);
    \<open>Startup\<close>: the machine built and wired from a document.
  \<^item> \<open>ViewModel\<close>: \<^verbatim>\<open>GUI/src/GuiStateStore.cpp\<close>, \<^verbatim>\<open>RobotStatusViewModel.cpp\<close>, the presenters and the
    widgets they fill; \<open>Transport\<close>: \<^verbatim>\<open>GUI/src/RimoTransportWorker.cpp\<close> and \<^verbatim>\<open>Updater.cpp\<close>, the way of a
    command to the worker and of its response back.
  \<^item> \<open>Messaging\<close>, \<open>PackedJson\<close>, \<open>MessagingProps\<close>: \<^verbatim>\<open>Utilities/include/RimoServer.hpp\<close>,
    \<^verbatim>\<open>RimoClient.hpp\<close> and the loop of \<^verbatim>\<open>Server/src/MachineCommandServer.cpp\<close>; the part of MessagePack that
    the status and the commands use, and a queue as sockets, show that the contracts can be met.
  \<^item> \<open>SerialPort\<close>: the channel of \<^verbatim>\<open>Server/src/SerialControlPanelComm.cpp\<close> under the panel.
  \<^item> \<open>ContecWindow\<close>: \<^verbatim>\<open>GUI/src/ContecPanelWindow.cpp\<close>; \<open>MotorWindow\<close>, \<open>MotorWindowSelection\<close>,
    \<open>MotorWindowProps\<close>: \<^verbatim>\<open>GUI/src/MotorPanelWindow.cpp\<close>; \<open>MainView\<close>, \<open>MainViewProps\<close>:
    \<^verbatim>\<open>GUI/src/MainWindow.cpp\<close> with the widgets that show the robot.
  \<^item> \<open>YamlStatus\<close>: \<^verbatim>\<open>Utilities/include/YamlExtensions.hpp\<close>; \<open>MotorDemo\<close>, \<open>DemoPrint\<close>: \<^verbatim>\<open>Server/apps/motorControlDemo.cpp\<close>;
    \<open>DummyServer\<close>: \<^verbatim>\<open>Server/apps/rimoServerDummy.cpp\<close>; \<open>Timing\<close>: \<^verbatim>\<open>Utilities/include/TimingMetrics.hpp\<close>;
    \<open>ModbusExample\<close>: \<^verbatim>\<open>Server/apps/modbusRtuOverTcpExample.cpp\<close>; \<open>Programs\<close>: \<^verbatim>\<open>Server/apps/rimoServer.cpp\<close>,
    \<^verbatim>\<open>modbusTestTCP.cpp\<close> and \<^verbatim>\<open>modbusTestRTU.cpp\<close>.

  \<^bold>\<open>How the code is modelled.\<close> An object is a record, a member function an action on it: a function from
  the state to a result (\<open>Inl\<close> the message of a thrown exception) and the new state. What lies
  outside the repository is a parameter: libmodbus, the sockets and \<^verbatim>\<open>errno\<close> (\<open>NetOps\<close>), the clock
  (\<open>Clock\<close>), the JSON library (\<open>JsonLib\<close>), the YAML library (\<open>YamlLib\<close>, with the ranges of its
  conversions in the locale \<open>yaml_library\<close>, and \<open>YamlEnc\<close> with what it reads back in \<open>yaml_codec\<close>), MessagePack
  and the ZeroMQ sockets (\<open>Msgpack\<close>, \<open>Sockets\<close>, locales \<open>msgpack\<close> and \<open>request_reply\<close>), libserial with the
  operating system under it (\<open>SerialLib\<close>, locale \<open>serial_library\<close>) and the combo box of Qt (\<open>ComboBox\<close>, locale
  \<open>combo_box\<close>). Each of these locales is interpreted on a concrete library. Parts are
  joined through records of functions, as the code joins them with callbacks: \<open>BusOps\<close> and
  \<open>ContecOps\<close> are the Modbus operations the motors and the I/O unit use (\<open>clientBus\<close> and
  \<open>clientIo\<close> fill them with the client of \<open>Modbus\<close>), \<open>IoFns\<close>, \<open>MotorFns\<close> and \<open>PolicyFn\<close> are what the
  controller is given, \<open>Platform\<close> what the machine stands on. Threads are interleavings: a function
  that holds a mutex is one step. Integers have their width; a \<^verbatim>\<open>double\<close> is a real number.

  \<^bold>\<open>What is shown.\<close>
  \<^item> Policy: when a motor may be moved at all, what locking does, the bounds of the speeds, the
    protocol of start, updates and stop of each motor over any run, the automatic lock of an arm at rest, and three
    places where the code does not do what its comments say.
  \<^item> Panel: the samples of a line come back from its text, the filter is the difference of two
    averages, the debounce, the bounds of the axes over any run, the reaction to a read error.
  \<^item> Loop and queue: a cycle ends, its deadlines stay on their grid, the queue is a bounded fifo.
  \<^item> Modbus: the checksum detects every corrupted byte; a read over a byte stream returns the
    registers however the stream is split; what the framing misses; moving and destroying clients closes
    each handle once.
  \<^item> Motors: the effect of an operation on the registers of a healthy bus (locale \<open>register_bus\<close>,
    interpreted on the client), cache coherence over all member functions, operation numbers, the alarm
    reset edge; the invariant of motor control on any bus and what it does after a broken connection
    (locale \<open>motor_invariant\<close>, interpreted on the keys of its maps and on a component without a bus), the
    outcome of its initialisation, the interlock of the directions, what a disabled motor ignores.
  \<^item> Status and commands: the round trip of a status through JSON and of a command from the operator
    interface to the dispatcher and back, and the form of every response.
  \<^item> Machine: a cycle of a wired machine always returns and answers one command; a failing step ends
    in motor control; while a component is out or a motor in alarm no motor gets a command, but a
    reconnection lifts that gate for the motors; what a status update has published when it returns, down to
    the alarm bits read from the drivers.
  \<^item> The way of a command: over any interleaving of the threads from the start of the program on, every
    accepted command gets one answer, its own; an operator gets the outcome when enough cycles run during
    the wait, and a command that timed out is executed all the same.
  \<^item> Configuration: a document from which motor control can be constructed is valid in every entry;
    motion settings come back from the document they are written to; a machine built from any document
    starts safe and serves its commands; lemmas tell what a malformed value discards.
  \<^item> Transport: over any interleaving of client, server and timeouts a client gets only responses to its own
    commands, and no command is executed twice; a message that is not MessagePack stops the server; a
    status the interface receives is one that was published.
  \<^item> Serial panel: its state follows the port, no descriptor is left behind when closing fails; a failure
    during the initialisation is overwritten.
  \<^item> Operator interface: the controls show the last status or its absence, over any events; over any
    interleaving of the two threads a response reaches the widget that asked, as in an abstract desk
    where requests carry their sender; the windows show what the server read, and the selection of the
    motor monitor follows the clicks except for the first.
  \<^item> Small programs: the demonstration puts motor control down on its regular exits only and prints for each
    terminal the bit it was read from; a row of 32-bit values is read back as it was written; the dummy server
    takes no command of the interface; the YAML form of a status comes back unless a part of it is empty;
    every measured duration is in one report or still in the table.

  \<^bold>\<open>Loops and termination.\<close> Loops over containers are structural recursion. The catch-up loops of the
  runner are \<open>while_option\<close>; \<open>loop_cycle_total\<close> shows that they end for positive intervals, which
  \<open>makeMachine\<close> enforces with its minimum of one millisecond. The retry loops of the Modbus client
  take the length of the answers as their measure. The loops of the threads are runs of steps of any
  length (\<open>machineRun\<close>, \<open>pathRun\<close>, \<open>policyRun\<close>). How many cycles fit into the wait for an answer is a
  parameter of \<open>machineDispatch\<close>, which no theorem bounds.

  \<^bold>\<open>Choices of order.\<close> C++ leaves the order of the arguments of \<^verbatim>\<open>decide\<close> in \<^verbatim>\<open>MachineController.cpp\<close>
  open; the model reads inputs, outputs and the state of the I/O unit from left to right.

  \<^bold>\<open>Not modelled.\<close> The layout and painting of the Qt windows with the frame, title bar and pop-up that dress
  them (\<^verbatim>\<open>StyledPopup.cpp\<close>, \<^verbatim>\<open>TitleBar.cpp\<close>), the log and its window, what the programs print, and the
  start of the interface (signals, styles): calls of Qt and of the logging library without a decision of
  their own.
\<close>

end
